(* ===== verification/Prelude.thy ===== *)
theory Prelude
  imports Main "HOL-Library.Word" "HOL-Library.AList" "HOL-Library.Sublist"
begin

text \<open>
  Shared vocabulary of the development: the machine integers of the Rust sources as words,
  Rust \<open>String\<close>s as byte lists, the concurrent hash maps (\<open>DashMap\<close>, \<open>HashMap\<close> behind a lock)
  as association lists with distinct keys, the string helpers of the standard library that
  the sources call, and the collections of simplification rules the component proofs share.
\<close>

unbundle bit_operations_syntax

named_theorems dm_simps \<open>laws of the keyed tables\<close>
named_theorems frame_simps \<open>fields a server operation leaves unchanged\<close>
named_theorems gate_simps \<open>the authorization gates, case by case\<close>

type_synonym u8 = "8 word"
type_synonym u16 = "16 word"
type_synonym u32 = "32 word"
type_synonym u64 = "64 word"
type_synonym f64 = "64 word" \<comment> \<open>the IEEE 754 bit pattern; no source modelled here computes with one\<close>

section \<open>Keyed tables\<close>

text \<open>
  A hash map is the list of its entries. Iteration visits the entries in list order, which
  stands for whatever order the hash map happens to have.
\<close>

type_synonym ('k, 'v) dmap = "('k \<times> 'v) list"

abbreviation dm_get :: "('k, 'v) dmap \<Rightarrow> 'k \<Rightarrow> 'v option" where
  "dm_get m k \<equiv> map_of m k"

abbreviation dm_insert :: "'k \<Rightarrow> 'v \<Rightarrow> ('k, 'v) dmap \<Rightarrow> ('k, 'v) dmap" where
  "dm_insert k v m \<equiv> AList.update k v m"

abbreviation dm_remove :: "'k \<Rightarrow> ('k, 'v) dmap \<Rightarrow> ('k, 'v) dmap" where
  "dm_remove k m \<equiv> AList.delete k m"

abbreviation dm_wf :: "('k, 'v) dmap \<Rightarrow> bool" where
  "dm_wf m \<equiv> distinct (map fst m)"

definition dm_contains :: "('k, 'v) dmap \<Rightarrow> 'k \<Rightarrow> bool" where
  "dm_contains m k = (map_of m k \<noteq> None)"

definition dm_modify :: "'k \<Rightarrow> ('v \<Rightarrow> 'v) \<Rightarrow> ('k, 'v) dmap \<Rightarrow> ('k, 'v) dmap" where
  "dm_modify k f m = map (\<lambda>(k', v). (k', if k' = k then f v else v)) m"

definition dm_retain :: "('k \<Rightarrow> 'v \<Rightarrow> bool) \<Rightarrow> ('k, 'v) dmap \<Rightarrow> ('k, 'v) dmap" where
  "dm_retain P m = filter (\<lambda>(k, v). P k v) m"

definition dm_removes :: "'k list \<Rightarrow> ('k, 'v) dmap \<Rightarrow> ('k, 'v) dmap" where
  "dm_removes ks m = fold dm_remove ks m"

lemma dm_get_insert [simp, dm_simps]:
  "dm_get (dm_insert k v m) k' = (if k' = k then Some v else dm_get m k')"
  by (simp add: update_conv')

lemma dm_get_remove [simp, dm_simps]:
  "dm_get (dm_remove k m) k' = (if k' = k then None else dm_get m k')"
  by (simp add: delete_conv')

lemma dm_wf_insert [simp, intro]: "dm_wf m \<Longrightarrow> dm_wf (dm_insert k v m)"
  by (rule distinct_update)

lemma dm_wf_remove [simp, intro]: "dm_wf m \<Longrightarrow> dm_wf (dm_remove k m)"
  by (rule distinct_delete)

lemma dm_modify_keys [simp]: "map fst (dm_modify k f m) = map fst m"
  by (induction m) (auto simp: dm_modify_def)

lemma dm_get_modify [simp, dm_simps]:
  "dm_get (dm_modify k f m) k' = (if k' = k then map_option f (dm_get m k') else dm_get m k')"
  by (induction m) (auto simp: dm_modify_def)

lemma dm_retain_keys: "fst ` set (dm_retain P m) \<subseteq> fst ` set m"
  by (auto simp: dm_retain_def)

lemma dm_wf_retain [simp, intro]: "dm_wf m \<Longrightarrow> dm_wf (dm_retain P m)"
  by (induction m) (auto simp: dm_retain_def)

lemma dm_get_retain [dm_simps]:
  "dm_wf m \<Longrightarrow> dm_get (dm_retain P m) k =
     (case dm_get m k of None \<Rightarrow> None | Some v \<Rightarrow> if P k v then Some v else None)"
proof (induction m)
  case Nil
  then show ?case by (simp add: dm_retain_def)
next
  case (Cons p m)
  obtain k' v' where p: "p = (k', v')" by force
  have none: "dm_get m k' = None"
    using Cons.prems by (simp add: p map_of_eq_None_iff)
  show ?case
    using Cons none by (auto simp: p dm_retain_def)
qed

lemma dm_in_set_retain [simp]: "(k, v) \<in> set (dm_retain P m) \<longleftrightarrow> (k, v) \<in> set m \<and> P k v"
  by (auto simp: dm_retain_def)

lemma dm_get_in_set: "dm_wf m \<Longrightarrow> dm_get m k = Some v \<longleftrightarrow> (k, v) \<in> set m"
  by (simp add: map_of_eq_Some_iff)

lemma dm_contains_insert [simp]: "dm_contains (dm_insert k v m) k' \<longleftrightarrow> k' = k \<or> dm_contains m k'"
  by (simp add: dm_contains_def)

lemma dm_contains_remove [simp]: "dm_contains (dm_remove k m) k' \<longleftrightarrow> k' \<noteq> k \<and> dm_contains m k'"
  by (simp add: dm_contains_def)

lemma dm_get_removes [simp, dm_simps]:
  "dm_get (dm_removes ks m) k = (if k \<in> set ks then None else dm_get m k)"
  by (induction ks arbitrary: m) (auto simp: dm_removes_def)

lemma dm_wf_removes [simp, intro]: "dm_wf m \<Longrightarrow> dm_wf (dm_removes ks m)"
  by (induction ks arbitrary: m) (auto simp: dm_removes_def)

lemma dm_length_insert: "length (dm_insert k v m) \<le> Suc (length m)"
  by (induction m) auto

lemma dm_length_remove_less: "dm_get m k \<noteq> None \<Longrightarrow> length (dm_remove k m) < length m"
proof -
  assume "dm_get m k \<noteq> None"
  then obtain v where "(k, v) \<in> set m" by (auto dest: map_of_SomeD)
  then have "length (filter (\<lambda>(k', _). k \<noteq> k') m) < length m"
    by (auto intro: length_filter_less)
  then show ?thesis by (simp add: AList.delete_eq)
qed

lemma dm_set_remove: "set (dm_remove k m) = {p \<in> set m. fst p \<noteq> k}"
  by (auto simp: AList.delete_eq)

lemma dm_insert_subset: "set (dm_insert k v m) \<subseteq> insert (k, v) (set m)"
  by (induction m) auto

lemma dm_insert_elem: "p \<in> set (dm_insert k v m) \<Longrightarrow> p = (k, v) \<or> p \<in> set m"
  using dm_insert_subset by fastforce

text \<open>
  The contract of a keyed table, as the components rely on it: what a lookup returns after
  a write or a removal, and that both keep the keys distinct.
\<close>

locale keyed_table =
  fixes get :: "'m \<Rightarrow> 'k \<Rightarrow> 'v option"
    and put :: "'k \<Rightarrow> 'v \<Rightarrow> 'm \<Rightarrow> 'm"
    and del :: "'k \<Rightarrow> 'm \<Rightarrow> 'm"
    and wf :: "'m \<Rightarrow> bool"
  assumes get_put: "get (put k v m) k' = (if k' = k then Some v else get m k')"
    and get_del: "get (del k m) k' = (if k' = k then None else get m k')"
    and wf_put: "wf m \<Longrightarrow> wf (put k v m)"
    and wf_del: "wf m \<Longrightarrow> wf (del k m)"
begin

lemma put_put_same: "get (put k v (put k v' m)) = get (put k v m)"
  by (simp add: fun_eq_iff get_put)

lemma put_swap: "k \<noteq> k' \<Longrightarrow> get (put k v (put k' v' m)) = get (put k' v' (put k v m))"
  by (auto simp: fun_eq_iff get_put)

lemma del_put_other: "k \<noteq> k' \<Longrightarrow> get (del k (put k' v m)) = get (put k' v (del k m))"
  by (auto simp: fun_eq_iff get_put get_del)

lemma del_idem: "get (del k (del k m)) = get (del k m)"
  by (simp add: fun_eq_iff get_del)

lemma wf_fold_del: "wf m \<Longrightarrow> wf (fold del ks m)"
  by (induction ks arbitrary: m) (auto intro: wf_del)

lemma get_fold_del: "get (fold del ks m) k = (if k \<in> set ks then None else get m k)"
  by (induction ks arbitrary: m) (auto simp: get_del)

end

interpretation dm: keyed_table map_of AList.update AList.delete "\<lambda>m. distinct (map fst m)"
  by unfold_locales auto

section \<open>Options and lists\<close>

text \<open>\<open>iter().find(p)\<close>: the first element that satisfies \<open>p\<close>. It is the library's \<open>List.find\<close>.\<close>

lemma find_None_iff_not: "List.find P xs = None \<longleftrightarrow> (\<forall>x\<in>set xs. \<not> P x)"
  by (auto simp: find_None_iff)

lemma find_Some_in_set: "List.find P xs = Some x \<Longrightarrow> x \<in> set xs \<and> P x"
  by (auto simp: find_Some_iff)

text \<open>\<open>iter().find_map(f)\<close>.\<close>

fun find_map :: "('a \<Rightarrow> 'b option) \<Rightarrow> 'a list \<Rightarrow> 'b option" where
  "find_map f [] = None"
| "find_map f (x # xs) = (case f x of Some y \<Rightarrow> Some y | None \<Rightarrow> find_map f xs)"

lemma find_map_Some: "find_map f xs = Some y \<Longrightarrow> \<exists>x\<in>set xs. f x = Some y"
  by (induction xs) (auto split: option.splits)

lemma find_map_None: "find_map f xs = None \<longleftrightarrow> (\<forall>x\<in>set xs. f x = None)"
  by (induction xs) (auto split: option.splits)

lemma fold_invariant_list:
  "P s \<Longrightarrow> (\<And>x s. x \<in> set xs \<Longrightarrow> P s \<Longrightarrow> P (f x s)) \<Longrightarrow> P (fold f xs s)"
  by (induction xs arbitrary: s) auto

lemma fold_frame:
  "(\<And>x s. x \<in> set xs \<Longrightarrow> g (f x s) = g s) \<Longrightarrow> g (fold f xs s) = g s"
  by (induction xs arbitrary: s) auto

section \<open>Strings\<close>

text \<open>\<open>str::starts_with\<close>, \<open>str::strip_prefix\<close>, \<open>str::rsplit_once\<close> on a one-byte separator.\<close>

definition starts_with :: "string \<Rightarrow> string \<Rightarrow> bool" where
  "starts_with s p = (take (length p) s = p)"

definition strip_prefix :: "string \<Rightarrow> string \<Rightarrow> string option" where
  "strip_prefix s p = (if starts_with s p then Some (drop (length p) s) else None)"

definition rsplit_once :: "string \<Rightarrow> char \<Rightarrow> (string \<times> string) option" where
  "rsplit_once s c =
     (if c \<in> set s
      then Some (rev (tl (dropWhile (\<lambda>x. x \<noteq> c) (rev s))), rev (takeWhile (\<lambda>x. x \<noteq> c) (rev s)))
      else None)"

lemma starts_with_append [simp]: "starts_with (p @ s) p"
  by (simp add: starts_with_def)

lemma starts_with_iff: "starts_with s p \<longleftrightarrow> (\<exists>t. s = p @ t)"
  by (auto simp: starts_with_def) (metis append_take_drop_id)

lemma strip_prefix_Some: "strip_prefix s p = Some t \<longleftrightarrow> s = p @ t"
  by (auto simp: strip_prefix_def starts_with_iff)

lemma rsplit_once_join: "c \<notin> set b \<Longrightarrow> rsplit_once (a @ c # b) c = Some (a, b)"
proof -
  assume c: "c \<notin> set b"
  have tw: "takeWhile (\<lambda>x. x \<noteq> c) (rev b @ c # rev a) = rev b"
    using c by (subst takeWhile_append2) auto
  have dw: "dropWhile (\<lambda>x. x \<noteq> c) (rev b @ c # rev a) = c # rev a"
    using c by (subst dropWhile_append2) auto
  show ?thesis by (simp add: rsplit_once_def tw dw)
qed

lemma rsplit_once_Some:
  assumes "rsplit_once s c = Some (a, b)"
  shows "s = a @ c # b \<and> c \<notin> set b"
proof -
  from assms have "c \<in> set s" by (simp add: rsplit_once_def split: if_splits)
  then obtain ys zs where s: "s = ys @ c # zs" and c: "c \<notin> set zs"
    by (blast dest: split_list_last)
  from rsplit_once_join [OF c] assms s have "a = ys \<and> b = zs" by simp
  with s c show ?thesis by simp
qed

end
