(* ===== verification/Bytes.thy ===== *)
theory Bytes
  imports Prelude
begin

text \<open>
  Byte-level helpers: the constant-time comparisons of \<open>mediaservo-server/src/signaling.rs\<close>
  (\<open>ct_eq\<close>) and \<open>mediaservo-common/src/auth.rs\<close> (\<open>constant_time_eq\<close>), and the lower-case hex
  printer and the hex readers of \<open>mediaservo-common/src/protocol.rs\<close> (\<open>from_hex\<close>) and
  \<open>mediaservo-server/src/apikeys.rs\<close> (\<open>decode_hash\<close>). The comparisons accumulate the bitwise
  difference of the two inputs; the lemmas show that the result is equality of the inputs.
\<close>

section \<open>Strings as bytes\<close>

definition byte_of :: "char \<Rightarrow> u8" where
  "byte_of c = of_nat (of_char c)"

definition bytes_of :: "string \<Rightarrow> u8 list" where
  "bytes_of s = map byte_of s"

lemma unat_byte_of: "unat (byte_of c) = of_char c"
proof -
  have "(of_char c :: nat) < 256" by simp
  then show ?thesis by (simp add: byte_of_def unat_of_nat)
qed

lemma byte_of_eq_iff [simp]: "byte_of c = byte_of d \<longleftrightarrow> c = d"
  by (metis of_char_eq_iff unat_byte_of)

lemma bytes_of_eq_iff [simp]: "bytes_of s = bytes_of t \<longleftrightarrow> s = t"
  by (simp add: bytes_of_def inj_def inj_map_eq_map)

lemma length_bytes_of [simp]: "length (bytes_of s) = length s"
  by (simp add: bytes_of_def)

lemma bytes_of_append [simp]: "bytes_of (s @ t) = bytes_of s @ bytes_of t"
  by (simp add: bytes_of_def)

section \<open>Constant-time comparison\<close>

text \<open>\<open>fold(acc, |acc, (x, y)| acc | (x ^ y))\<close> over the zipped bytes.\<close>

definition byte_diff :: "u8 \<Rightarrow> u8 list \<Rightarrow> u8 list \<Rightarrow> u8" where
  "byte_diff acc a b = fold (\<lambda>(x, y) d. d OR (x XOR y)) (zip a b) acc"

definition ct_eq :: "u8 list \<Rightarrow> u8 list \<Rightarrow> bool" where
  "ct_eq a b = (length a = length b \<and> byte_diff 0 a b = 0)"

definition constant_time_eq :: "u8 list \<Rightarrow> u8 list \<Rightarrow> bool" where
  "constant_time_eq a b = (if length a \<noteq> length b then False else byte_diff 0 a b = 0)"

lemma word_or_eq_zero: "(a :: u8) OR b = 0 \<longleftrightarrow> a = 0 \<and> b = 0"
  by (auto simp: bit_eq_iff bit_simps)

lemma word_xor_eq_zero: "(a :: u8) XOR b = 0 \<longleftrightarrow> a = b"
  by (auto simp: bit_eq_iff bit_simps)

lemma byte_diff_fold_zero:
  "fold (\<lambda>(x, y) d. d OR (x XOR y)) ps (acc :: u8) = 0 \<longleftrightarrow> acc = 0 \<and> (\<forall>(x, y)\<in>set ps. x = y)"
  by (induction ps arbitrary: acc) (auto simp: word_or_eq_zero word_xor_eq_zero)

lemma byte_diff_zero:
  "byte_diff acc a b = 0 \<longleftrightarrow> acc = 0 \<and> (\<forall>i < min (length a) (length b). a ! i = b ! i)"
  by (auto simp: byte_diff_def byte_diff_fold_zero set_zip)

lemma ct_eq_iff [simp]: "ct_eq a b \<longleftrightarrow> a = b"
  by (auto simp: ct_eq_def byte_diff_zero intro: nth_equalityI)

lemma constant_time_eq_iff [simp]: "constant_time_eq a b \<longleftrightarrow> a = b"
  by (auto simp: constant_time_eq_def byte_diff_zero intro: nth_equalityI)

section \<open>Hexadecimal\<close>

text \<open>\<open>char::to_digit(16)\<close>.\<close>

definition to_digit16 :: "char \<Rightarrow> nat option" where
  "to_digit16 c =
     (let n = of_char c :: nat
      in if 48 \<le> n \<and> n \<le> 57 then Some (n - 48)
         else if 97 \<le> n \<and> n \<le> 102 then Some (n - 87)
         else if 65 \<le> n \<and> n \<le> 70 then Some (n - 55)
         else None)"

definition hex_digit :: "nat \<Rightarrow> char" where
  "hex_digit n = (if n < 10 then char_of (48 + n) else char_of (87 + n))"

text \<open>\<open>format!("{b:02x}")\<close>.\<close>

definition hex_byte :: "u8 \<Rightarrow> string" where
  "hex_byte b = [hex_digit (unat b div 16), hex_digit (unat b mod 16)]"

definition hex_encode :: "u8 list \<Rightarrow> string" where
  "hex_encode bs = concat (map hex_byte bs)"

lemma to_digit16_hex_digit [simp]: "n < 16 \<Longrightarrow> to_digit16 (hex_digit n) = Some n"
  by (simp add: to_digit16_def hex_digit_def Let_def of_char_of)

lemma to_digit16_less: "to_digit16 c = Some n \<Longrightarrow> n < 16"
  by (auto simp: to_digit16_def Let_def split: if_splits)

lemma length_hex_encode [simp]: "length (hex_encode bs) = 2 * length bs"
  by (induction bs) (auto simp: hex_encode_def hex_byte_def)

lemma hex_byte_value: "of_nat (unat (b :: u8) div 16 * 16 + unat b mod 16) = b"
  by simp

lemma u8_div16: "unat (b :: u8) div 16 < 16"
  using unsigned_less [of b, where ?'a = nat] by (simp add: less_mult_imp_div_less)

text \<open>
  \<open>u8::from_str_radix(p, 16)\<close> on a one- or two-byte chunk: a leading plus sign is accepted, a
  sign alone and every non-digit are errors.
\<close>

fun from_str_radix16 :: "string \<Rightarrow> u8 option" where
  "from_str_radix16 [a, b] =
     (if a = CHR ''+'' then map_option of_nat (to_digit16 b)
      else case (to_digit16 a, to_digit16 b) of
             (Some hi, Some lo) \<Rightarrow> Some (of_nat (hi * 16 + lo))
           | _ \<Rightarrow> None)"
| "from_str_radix16 _ = None"

fun chunks2 :: "'a list \<Rightarrow> 'a list list" where
  "chunks2 (a # b # xs) = [a, b] # chunks2 xs"
| "chunks2 [a] = [[a]]"
| "chunks2 [] = []"

fun collect_options :: "'a option list \<Rightarrow> 'a list option" where
  "collect_options [] = Some []"
| "collect_options (None # _) = None"
| "collect_options (Some x # xs) = map_option (Cons x) (collect_options xs)"

definition from_hex :: "string \<Rightarrow> u8 list option" where
  "from_hex h =
     (if even (length h) then collect_options (map from_str_radix16 (chunks2 h)) else None)"

lemma hex_digit_not_plus: "n < 16 \<Longrightarrow> hex_digit n \<noteq> CHR ''+''"
proof
  assume n: "n < 16" and "hex_digit n = CHR ''+''"
  then have "to_digit16 (CHR ''+'') = Some n" using to_digit16_hex_digit [OF n] by simp
  then show False by (simp add: to_digit16_def)
qed

lemma from_str_radix16_hex_byte [simp]: "from_str_radix16 (hex_byte b) = Some b"
  using hex_byte_value [of b] by (simp add: hex_byte_def u8_div16 hex_digit_not_plus)

lemma chunks2_hex_encode: "chunks2 (hex_encode bs) = map hex_byte bs"
  by (induction bs) (auto simp: hex_encode_def hex_byte_def)

lemma from_hex_encode [simp]: "from_hex (hex_encode bs) = Some bs"
proof -
  have "collect_options (map (from_str_radix16 \<circ> hex_byte) bs) = Some bs"
    by (induction bs) auto
  then show ?thesis by (simp add: from_hex_def chunks2_hex_encode)
qed

lemma hex_encode_eq_iff [simp]: "hex_encode a = hex_encode b \<longleftrightarrow> a = b"
  by (metis from_hex_encode option.inject)

lemma is_hex_of_encode: "\<forall>c\<in>set (hex_encode bs). to_digit16 c \<noteq> None"
proof -
  have "to_digit16 (hex_digit (unat b div 16)) \<noteq> None \<and> to_digit16 (hex_digit (unat b mod 16)) \<noteq> None"
    for b :: u8
    by (simp add: u8_div16)
  then show ?thesis by (auto simp: hex_encode_def hex_byte_def)
qed

section \<open>Debug formatting\<close>

text \<open>
  \<open>{:?}\<close> of a string: quoted, with quotes, backslashes and control characters escaped. Bytes
  beyond ASCII are printed as they are.
\<close>

definition debug_char :: "char \<Rightarrow> string" where
  "debug_char c =
     (let n = of_char c :: nat
      in if n = 0 then [char_of (92 :: nat), CHR ''0'']
         else if n = 9 then [char_of (92 :: nat), CHR ''t'']
         else if n = 10 then [char_of (92 :: nat), CHR ''n'']
         else if n = 13 then [char_of (92 :: nat), CHR ''r'']
         else if n = 34 \<or> n = 92 then [char_of (92 :: nat), c]
         else if n < 16 then [char_of (92 :: nat)] @ ''u{'' @ [hex_digit n] @ ''}''
         else if n < 32 \<or> n = 127
         then [char_of (92 :: nat)] @ ''u{'' @ [hex_digit (n div 16), hex_digit (n mod 16)] @ ''}''
         else [c])"

definition debug_str :: "string \<Rightarrow> string" where
  "debug_str s = [char_of (34 :: nat)] @ concat (map debug_char s) @ [char_of (34 :: nat)]"

definition debug_opt :: "string option \<Rightarrow> string" where
  "debug_opt x = (case x of None \<Rightarrow> ''None'' | Some s \<Rightarrow> ''Some('' @ debug_str s @ '')'')"

text \<open>\<open>Display\<close> of an unsigned integer.\<close>

fun show_nat :: "nat \<Rightarrow> string" where
  "show_nat n = (if n < 10 then [char_of (48 + n)] else show_nat (n div 10) @ [char_of (48 + n mod 10)])"

declare show_nat.simps [simp del]

end
