(* ===== verification/Protocol.thy ===== *)
theory Protocol
  imports Bytes
begin

text \<open>
  The signaling protocol, \<open>mediaservo-common/src/protocol.rs\<close>: the message type every component
  exchanges, the version negotiation, and the signed control envelope of the emergency-stop
  path. JSON encoding is \<open>serde_json\<close>'s and is a parameter where it matters
  (\<open>to_vec\<close> of the envelope); HMAC-SHA256 is a parameter too.
\<close>

section \<open>Message types\<close>

text \<open>A \<open>serde_json::Value\<close>, passed through unread.\<close>

datatype json = JNull | JBool bool | JNum string | JStr string
  | JArr "json list" | JObj "(string \<times> json) list"

text \<open>\<open>serde_json::Value::get\<close> with a key.\<close>

fun json_get :: "json \<Rightarrow> string \<Rightarrow> json option" where
  "json_get (JObj kvs) k = map_of kvs k"
| "json_get j k = None"

datatype peer_role = Host | Remote | Consumer

datatype media_kind = Audio | Video | Data

datatype transport_direction = Send | Recv

record ice_parameters =
  ip_username_fragment :: string
  ip_password :: string

record fingerprint =
  fp_algorithm :: string
  fp_value :: string

record dtls_parameters =
  dt_fingerprints :: "fingerprint list"
  dt_role :: string

record ice_candidate =
  ic_ip :: string
  ic_port :: u16
  ic_protocol :: string
  ic_foundation :: string
  ic_priority :: u32
  ic_candidate_type :: string

record sctp_stream_parameters =
  sp_stream_id :: u16
  sp_ordered :: bool
  sp_max_packet_life_time :: "u16 option"
  sp_max_retransmits :: "u16 option"

record topic_flow =
  tf_topic :: string
  tf_fps :: f64
  tf_bps :: u64
  tf_last_ts_mono_ns :: u64
  tf_frames :: u64
  tf_stalled :: bool

record stream_flow =
  sf_id :: string
  sf_bytes_sent :: u64
  sf_frames_encoded :: u32
  sf_frame_width :: u32
  sf_frame_height :: u32
  sf_connected :: bool

record process_state =
  ps_name :: string
  ps_running :: bool
  ps_expected :: bool

record config_flags_echo =
  cf_pending :: bool
  cf_error :: bool
  cf_conflict :: bool

record child_signal =
  cs_src :: string
  cs_connected :: bool
  cs_last_msg_secs :: u64

record signal_status =
  ss_remote_connected :: bool
  ss_remote_since_secs :: "u64 option"
  ss_remote_peer_id :: string
  ss_children :: "child_signal list"
  ss_agent_uptime_secs :: u64

record status_report =
  sr_room_id :: string
  sr_topics :: "topic_flow list"
  sr_streams :: "stream_flow list"
  sr_processes :: "process_state list"
  sr_signal :: signal_status
  sr_ts :: u64
  sr_config_version :: u64
  sr_config_running :: "string option"
  sr_config_file :: "string option"
  sr_config_last_push :: "string option"
  sr_config_flags :: "config_flags_echo option"

record room_join =
  rj_room_id :: string
  rj_peer_role :: peer_role
  rj_stream_id :: "string option"
  rj_device_id :: "string option"
  rj_device_secret :: "string option"
  rj_device_pubkey :: "string option"
  rj_protocol :: "u32 option"
  rj_client_version :: "string option"
  rj_resume :: "string option"

record room_joined =
  rd_room_id :: string
  rd_peer_id :: string
  rd_protocol :: "u32 option"
  rd_server_version :: "string option"
  rd_session_nonce :: "string option"

record transport_created_msg =
  tc_room_id :: string
  tc_peer_id :: string
  tc_transport_id :: string
  tc_ice_parameters :: ice_parameters
  tc_dtls_parameters :: dtls_parameters
  tc_ice_candidates :: "ice_candidate list option"
  tc_sctp_parameters :: "json option"

record produce_req =
  pr_room_id :: string
  pr_peer_id :: string
  pr_transport_direction :: transport_direction
  pr_kind :: media_kind
  pr_rtp_parameters :: json
  pr_transport_id :: "string option"
  pr_label :: "string option"

record data_produce_req =
  dp_room_id :: string
  dp_peer_id :: string
  dp_transport_direction :: transport_direction
  dp_label :: string
  dp_protocol :: string
  dp_sctp_stream_parameters :: "sctp_stream_parameters option"
  dp_transport_id :: "string option"

record encoder_status =
  es_room_id :: string
  es_peer_id :: string
  es_codec :: string
  es_encoder_backend :: string
  es_encoder_implementation :: "string option"
  es_frames_per_second :: f64
  es_frame_width :: u32
  es_frame_height :: u32
  es_avg_encode_ms :: "f64 option"

datatype signaling_message =
    RoomJoin room_join
  | RoomJoined room_joined
  | RoomLeave string string \<comment> \<open>room_id peer_id\<close>
  | Sdp string "string option" string \<comment> \<open>room_id target sdp\<close>
  | RTCIceCandidate string "string option" string "string option" "u16 option"
      \<comment> \<open>room_id target candidate sdp_mid sdp_mline_index\<close>
  | CreateWebRtcTransport string string transport_direction \<comment> \<open>room_id peer_id direction\<close>
  | WebRtcTransportCreated transport_created_msg
  | ConnectWebRtcTransport string string string dtls_parameters
      \<comment> \<open>room_id peer_id transport_id dtls_parameters\<close>
  | GetRouterRtpCapabilities string \<comment> \<open>room_id\<close>
  | RouterRtpCapabilities string json \<comment> \<open>room_id capabilities\<close>
  | SetPreferredLayers string string string u8 "u8 option"
      \<comment> \<open>room_id peer_id consumer_id spatial_layer temporal_layer\<close>
  | Error u16 string \<comment> \<open>code message\<close>
  | Frame string string u64 bool string \<comment> \<open>room_id codec sequence is_keyframe data_base64\<close>
  | Produce produce_req
  | Produced string string \<comment> \<open>room_id producer_id\<close>
  | NewProducer string string string media_kind "string option"
      \<comment> \<open>room_id producer_id peer_id kind label\<close>
  | EncoderStatus encoder_status
  | StatusReport status_report
  | Consume string string string json "string option"
      \<comment> \<open>room_id peer_id producer_id rtp_capabilities transport_id\<close>
  | Consumed string string string media_kind json
      \<comment> \<open>room_id consumer_id producer_id kind rtp_parameters\<close>
  | ConfigPush string string string u64 "string option"
      \<comment> \<open>room_id target config version actor\<close>
  | EmergencyCommand string string \<comment> \<open>room_id command\<close>
  | CreateDataProducer data_produce_req
  | DataProducerCreated string string \<comment> \<open>room_id data_producer_id\<close>
  | NewDataProducer string string string string string
      \<comment> \<open>room_id data_producer_id peer_id label protocol\<close>
  | ConsumeData string string transport_direction string "string option"
      \<comment> \<open>room_id peer_id transport_direction data_producer_id transport_id\<close>
  | DataConsumed string string string "sctp_stream_parameters option" string string
      \<comment> \<open>room_id data_consumer_id data_producer_id sctp_stream_parameters label protocol\<close>
  | ControlAudit string u64 string bool \<comment> \<open>room_id seq cmd sig_present\<close>
  | SfuStatsRequest "string option" "string option" \<comment> \<open>producer_id consumer_id\<close>
  | SfuStats "string option" "string option" "media_kind option" u64 u64 u8
      \<comment> \<open>producer_id consumer_id kind byte_count packet_count score\<close>
  | ProducerClosed string string string media_kind "string option"
      \<comment> \<open>room_id peer_id producer_id kind reason\<close>
  | DownstreamGone string string \<comment> \<open>peer_id room_id\<close>
  | DeviceAuthChallenge string \<comment> \<open>nonce\<close>
  | DeviceAuthResponse string string \<comment> \<open>room_id sig\<close>
  | DeviceAuthPending string \<comment> \<open>device_id\<close>

section \<open>Version negotiation\<close>

definition SIGNALING_PROTOCOL_VERSION :: u32 where "SIGNALING_PROTOCOL_VERSION = 3"
definition SIGNALING_PROTOCOL_MIN_SUPPORTED :: u32 where "SIGNALING_PROTOCOL_MIN_SUPPORTED = 1"
definition PROTOCOL_MIN_CONTROL_DC :: u32 where "PROTOCOL_MIN_CONTROL_DC = 2"
definition PROTOCOL_MIN_RESUME :: u32 where "PROTOCOL_MIN_RESUME = 3"

lemmas protocol_consts =
  SIGNALING_PROTOCOL_VERSION_def SIGNALING_PROTOCOL_MIN_SUPPORTED_def
  PROTOCOL_MIN_CONTROL_DC_def PROTOCOL_MIN_RESUME_def

definition unwrap_or :: "'a option \<Rightarrow> 'a \<Rightarrow> 'a" where
  "unwrap_or x d = (case x of Some v \<Rightarrow> v | None \<Rightarrow> d)"

lemma unwrap_or_simps [simp]: "unwrap_or (Some v) d = v" "unwrap_or None d = d"
  by (simp_all add: unwrap_or_def)

definition negotiate_protocol :: "u32 option \<Rightarrow> u32" where
  "negotiate_protocol claim = min (unwrap_or claim 1) SIGNALING_PROTOCOL_VERSION"

lemma negotiate_upper: "negotiate_protocol c \<le> SIGNALING_PROTOCOL_VERSION"
  by (simp add: negotiate_protocol_def)

lemma negotiate_le_claim: "negotiate_protocol (Some c) \<le> c"
  by (simp add: negotiate_protocol_def)

lemma one_le_u32: "(x :: u32) \<noteq> 0 \<Longrightarrow> 1 \<le> x"
  by unat_arith

lemma negotiate_accepted:
  "\<not> unwrap_or c 1 < SIGNALING_PROTOCOL_MIN_SUPPORTED \<Longrightarrow>
     negotiate_protocol c \<in> {1, 2, 3}"
proof -
  assume "\<not> unwrap_or c 1 < SIGNALING_PROTOCOL_MIN_SUPPORTED"
  then have lo: "1 \<le> negotiate_protocol c"
    by (auto simp: negotiate_protocol_def protocol_consts min_def one_le_u32)
  have hi: "negotiate_protocol c \<le> 3"
    using negotiate_upper [of c] by (simp add: protocol_consts)
  have "unat (negotiate_protocol c) \<in> {1, 2, 3}"
    using lo hi by (auto simp: word_le_nat_alt)
  then show ?thesis by (simp add: word_unat_eq_iff)
qed

section \<open>The control envelope\<close>

record control_envelope =
  ce_seq :: u64
  ce_cmd :: string
  ce_payload :: json
  ce_sig :: "string option"

definition is_estop_cmd :: "string \<Rightarrow> bool" where
  "is_estop_cmd cmd = (cmd = ''estop'' \<or> starts_with cmd ''estop_'' \<or> starts_with cmd ''estop-'')"

text \<open>
  The signed bytes are those of the envelope without its signature. \<open>to_vec\<close> stands for
  \<open>serde_json::to_vec\<close> and \<open>hmac\<close> for HMAC-SHA256 under a key.
\<close>

definition canonical_envelope_bytes ::
  "(control_envelope \<Rightarrow> u8 list) \<Rightarrow> control_envelope \<Rightarrow> u8 list" where
  "canonical_envelope_bytes to_vec env =
     to_vec \<lparr>ce_seq = ce_seq env, ce_cmd = ce_cmd env, ce_payload = ce_payload env, ce_sig = None\<rparr>"

definition control_hmac_sign ::
  "(control_envelope \<Rightarrow> u8 list) \<Rightarrow> (u8 list \<Rightarrow> u8 list \<Rightarrow> u8 list) \<Rightarrow> string \<Rightarrow>
     control_envelope \<Rightarrow> string" where
  "control_hmac_sign to_vec hmac key env =
     hex_encode (hmac (bytes_of key) (canonical_envelope_bytes to_vec env))"

definition control_hmac_verify ::
  "(control_envelope \<Rightarrow> u8 list) \<Rightarrow> (u8 list \<Rightarrow> u8 list \<Rightarrow> u8 list) \<Rightarrow> string \<Rightarrow>
     control_envelope \<Rightarrow> string \<Rightarrow> bool" where
  "control_hmac_verify to_vec hmac key env sig_hex =
     (case from_hex sig_hex of
        None \<Rightarrow> False
      | Some given \<Rightarrow> constant_time_eq (hmac (bytes_of key) (canonical_envelope_bytes to_vec env)) given)"

record control_ack =
  ca_ack :: u64
  ca_result :: json

definition control_ack_ok :: "u64 \<Rightarrow> json \<Rightarrow> control_ack" where
  "control_ack_ok seq result = \<lparr>ca_ack = seq, ca_result = result\<rparr>"

definition control_ack_err :: "u64 \<Rightarrow> string \<Rightarrow> control_ack" where
  "control_ack_err seq message =
     \<lparr>ca_ack = seq, ca_result = JObj [(''error'', JStr message)]\<rparr>"

lemma canonical_ignores_sig:
  "canonical_envelope_bytes to_vec (env\<lparr>ce_sig := s\<rparr>) = canonical_envelope_bytes to_vec env"
  by (simp add: canonical_envelope_bytes_def)

text \<open>
  A signed control envelope verifies: the receiver of an envelope that carries the
  signature made over it accepts it, whatever signature field the sender had put in before;
  and a signature is accepted only if it is a hex spelling of the MAC of the received
  envelope's sequence number, command and payload under the receiver's key.
\<close>

theorem control_hmac_sound_complete:
  "control_hmac_verify to_vec hmac key
     (env\<lparr>ce_sig := Some (control_hmac_sign to_vec hmac key (env\<lparr>ce_sig := s0\<rparr>))\<rparr>)
     (control_hmac_sign to_vec hmac key (env\<lparr>ce_sig := s0\<rparr>))
   \<and> (control_hmac_verify to_vec hmac key env' sig \<longleftrightarrow>
        from_hex sig = Some (hmac (bytes_of key) (canonical_envelope_bytes to_vec env')))"
  by (auto simp: control_hmac_verify_def control_hmac_sign_def canonical_ignores_sig
      split: option.splits)

end
