(* ===== verification/AuditLog.thy ===== *)
theory AuditLog
  imports Protocol
begin

text \<open>
  Error codes (\<open>mediaservo-common/src/error.rs\<close>), audit events and the bounded ring of recent
  events (\<open>mediaservo-server/src/audit.rs\<close>). Emitting the structured log line is output only
  and is not modelled; the ring is.
\<close>

datatype core_error =
    WebSocketDisconnect string | IceTimeout | PeerConnectionFailure string | EncoderInit string
  | CaptureSourceNotFound string | CaptureDisconnected | RelayTrackBind string | RoomFull
  | PskAuthFailed | DecoderInit string | ControlHmacFailed | OutOfMemory | ConfigParse string
  | UnknownError string

fun is_retryable :: "core_error \<Rightarrow> bool" where
  "is_retryable (WebSocketDisconnect m) = True"
| "is_retryable IceTimeout = True"
| "is_retryable CaptureDisconnected = True"
| "is_retryable RoomFull = True"
| "is_retryable _ = False"

fun is_fatal :: "core_error \<Rightarrow> bool" where
  "is_fatal (EncoderInit m) = True"
| "is_fatal (CaptureSourceNotFound m) = True"
| "is_fatal (DecoderInit m) = True"
| "is_fatal OutOfMemory = True"
| "is_fatal (ConfigParse m) = True"
| "is_fatal _ = False"

fun locale_key :: "core_error \<Rightarrow> string" where
  "locale_key (WebSocketDisconnect m) = ''1001''"
| "locale_key IceTimeout = ''1003''"
| "locale_key (PeerConnectionFailure m) = ''1004''"
| "locale_key (EncoderInit m) = ''2001''"
| "locale_key (CaptureSourceNotFound m) = ''3001''"
| "locale_key CaptureDisconnected = ''3002''"
| "locale_key (RelayTrackBind m) = ''4001''"
| "locale_key RoomFull = ''4002''"
| "locale_key PskAuthFailed = ''4003''"
| "locale_key (DecoderInit m) = ''5001''"
| "locale_key ControlHmacFailed = ''6001''"
| "locale_key OutOfMemory = ''9001''"
| "locale_key (ConfigParse m) = ''9002''"
| "locale_key (UnknownError m) = ''9003''"

text \<open>The \<open>Display\<close> text of an error (the \<open>#[error]\<close> attributes).\<close>

fun core_error_display :: "core_error \<Rightarrow> string" where
  "core_error_display (WebSocketDisconnect m) = ''[1001] WebSocket disconnected: '' @ m"
| "core_error_display IceTimeout = ''[1003] ICE connection timeout''"
| "core_error_display (PeerConnectionFailure m) = ''[1004] RTCPeerConnection creation failed: '' @ m"
| "core_error_display (EncoderInit m) = ''[2001] Encoder init failed: '' @ m"
| "core_error_display (CaptureSourceNotFound m) = ''[3001] Capture source not found: '' @ m"
| "core_error_display CaptureDisconnected = ''[3002] Capture source disconnected''"
| "core_error_display (RelayTrackBind m) = ''[4001] Relay track bind failed: '' @ m"
| "core_error_display RoomFull = ''[4002] Room full''"
| "core_error_display PskAuthFailed = ''[4003] PSK authentication failed''"
| "core_error_display (DecoderInit m) = ''[5001] Decoder init failed: '' @ m"
| "core_error_display ControlHmacFailed = ''[6001] Control HMAC verification failed''"
| "core_error_display OutOfMemory = ''[9001] Out of memory (RSS limit exceeded)''"
| "core_error_display (ConfigParse m) = ''[9002] Config parse error: '' @ m"
| "core_error_display (UnknownError m) = ''[9003] Unknown system error: '' @ m"

lemma retryable_not_fatal: "\<not> (is_retryable e \<and> is_fatal e)"
  by (cases e) auto

lemma display_starts_with_key: "starts_with (core_error_display e) (''['' @ locale_key e @ '']'')"
  by (cases e) (simp_all add: starts_with_def)

datatype audit_event =
    EstopAudit string u64 string bool \<comment> \<open>room_id seq cmd sig_present\<close>
  | RoomCreate string
  | RoomDestroy string
  | PeerJoin string string string \<comment> \<open>peer_id room_id role\<close>
  | PeerLeave string string \<comment> \<open>peer_id room_id\<close>
  | AuthSuccess string "string option" \<comment> \<open>peer_id device_id\<close>
  | AuthFailure string string \<comment> \<open>peer_id reason\<close>
  | DeviceOnline string
  | DeviceOffline string
  | AuditStreamCreate string string \<comment> \<open>stream_id device_id\<close>
  | AuditStreamDestroy string
  | ConsumerJoin string string
  | ConsumerLeave string string
  | AuditEmergencyCommand string string string string \<comment> \<open>username role vehicle command\<close>
  | DeviceRegistered string string
  | DeviceRevoked string string
  | DeviceSecretReset string string
  | ApiKeyRegistered string string
  | ApiKeyRevoked string string
  | AccountCreated string string string
  | AccountUpdated string string
  | AccountDeleted string string
  | PskViewed string
  | PskRotated string
  | AuthorizationDenied string string string \<comment> \<open>action peer_id detail\<close>

definition AUDIT_RING_CAP :: nat where "AUDIT_RING_CAP = 256"

text \<open>\<open>while ring.len() > CAP { ring.pop_front() }\<close>.\<close>

function ring_trim :: "'a list \<Rightarrow> 'a list" where
  "ring_trim ring = (if length ring > AUDIT_RING_CAP then ring_trim (tl ring) else ring)"
  by pat_completeness auto
termination
  by (relation "measure length") auto

declare ring_trim.simps [simp del]

definition log_event :: "audit_event list \<Rightarrow> audit_event \<Rightarrow> audit_event list" where
  "log_event ring e = ring_trim (ring @ [e])"

definition recent :: "audit_event list \<Rightarrow> audit_event list" where
  "recent ring = ring"

lemma ring_trim_drop: "ring_trim ring = drop (length ring - AUDIT_RING_CAP) ring"
proof (induction ring rule: ring_trim.induct)
  case (1 ring)
  show ?case
  proof (cases "length ring > AUDIT_RING_CAP")
    case True
    then obtain x xs where r: "ring = x # xs" by (cases ring) auto
    have "length xs \<ge> AUDIT_RING_CAP" using True r by simp
    then show ?thesis
      using 1 True by (simp add: r ring_trim.simps [of "x # xs"] Suc_diff_le)
  next
    case False
    then show ?thesis by (simp add: ring_trim.simps [of ring])
  qed
qed

lemma log_event_drop:
  "foldl log_event [] es = drop (length es - AUDIT_RING_CAP) es"
proof (induction es rule: rev_induct)
  case Nil
  show ?case by simp
next
  case (snoc e es)
  have "length es - (length es - 256 + 255) + (length es - 256) = length es - 255" by arith
  with snoc show ?case
    by (simp add: log_event_def ring_trim_drop AUDIT_RING_CAP_def)
qed

text \<open>
  The ring of recent audit events holds, after any sequence of logged events, exactly the
  newest 256 of them in the order they were logged (all of them when there are fewer): the
  trimming loop terminates, never drops an event it should keep, and never exceeds its bound.
\<close>

theorem audit_ring_keeps_newest:
  "recent (foldl log_event [] es) = drop (length es - AUDIT_RING_CAP) es
   \<and> length (recent (foldl log_event [] es)) = min (length es) 256"
  by (simp add: recent_def log_event_drop) (simp add: AUDIT_RING_CAP_def)

end
