(* ===== verification/Room.thy ===== *)
theory Room
  imports AuditLog "HOL-Library.Multiset"
begin

text \<open>
  The in-memory room table of the signaling server (\<open>mediaservo-server/src/room.rs\<close>) and the
  registry of the latest status report per room (\<open>mediaservo-server/src/status.rs\<close>). The
  operations take and return the room table; the audit events an operation logs are part of
  its result. Wall-clock reads (\<open>chrono::Utc::now\<close>, \<open>Instant::now\<close>) are arguments.
\<close>

section \<open>Status registry\<close>

type_synonym status_registry = "(string, signaling_message) dmap"

definition status_store :: "status_registry \<Rightarrow> string \<Rightarrow> signaling_message \<Rightarrow> status_registry" where
  "status_store reg room_id msg = dm_insert room_id msg reg"

definition status_get :: "status_registry \<Rightarrow> string \<Rightarrow> signaling_message option" where
  "status_get reg room_id = dm_get reg room_id"

definition status_remove :: "status_registry \<Rightarrow> string \<Rightarrow> status_registry" where
  "status_remove reg room_id = dm_remove room_id reg"

definition status_list :: "status_registry \<Rightarrow> (string \<times> signaling_message) list" where
  "status_list reg = map (\<lambda>(k, v). (k, v)) reg"

lemmas status_defs = status_store_def status_get_def status_remove_def status_list_def

section \<open>Rooms\<close>

datatype room_type = DeviceStream

record consumer =
  co_peer_id :: string
  co_connected_since :: string

record room =
  rm_id :: string
  rm_type :: room_type
  rm_device_id :: "string option"
  rm_stream_id :: "string option"
  rm_host :: "string option"
  rm_remote :: "string option"
  rm_consumers :: "consumer list"
  rm_created_at :: nat

type_synonym room_table = "(string, room) dmap"

text \<open>A snapshot has the fields of the room.\<close>

type_synonym room_snapshot = room

record stream_snapshot =
  st_stream_id :: string
  st_consumers :: "consumer list"
  st_online :: bool

record device_snapshot =
  ds_device_id :: string
  ds_online_since :: nat
  ds_streams :: "stream_snapshot list"

definition room_manager_new :: room_table where
  "room_manager_new = []"

definition push_consumer :: "string \<Rightarrow> string \<Rightarrow> room \<Rightarrow> room" where
  "push_consumer pid since r =
     r\<lparr>rm_consumers := rm_consumers r @ [\<lparr>co_peer_id = pid, co_connected_since = since\<rparr>]\<rparr>"

definition new_room :: "string \<Rightarrow> string \<Rightarrow> peer_role \<Rightarrow> string \<Rightarrow> nat \<Rightarrow> room" where
  "new_room room_id pid role since now =
     \<lparr>rm_id = room_id, rm_type = DeviceStream, rm_device_id = None, rm_stream_id = None,
      rm_host = (if role = Host then Some pid else None),
      rm_remote = (if role = Remote then Some pid else None),
      rm_consumers = (if role = Consumer then [\<lparr>co_peer_id = pid, co_connected_since = since\<rparr>] else []),
      rm_created_at = now\<rparr>"

definition join_room ::
  "room_table \<Rightarrow> string \<Rightarrow> string \<Rightarrow> peer_role \<Rightarrow> string \<Rightarrow> nat \<Rightarrow>
     core_error + (room_table \<times> audit_event list)" where
  "join_room rooms room_id peer_id role since now =
     (case dm_get rooms room_id of
        Some room \<Rightarrow>
          (case role of
             Host \<Rightarrow>
               if rm_host room \<noteq> None then Inl RoomFull
               else Inr (dm_modify room_id (\<lambda>r. r\<lparr>rm_host := Some peer_id\<rparr>) rooms, [])
           | Remote \<Rightarrow> Inr (dm_modify room_id (push_consumer peer_id since) rooms, [])
           | Consumer \<Rightarrow> Inr (dm_modify room_id (push_consumer peer_id since) rooms, []))
      | None \<Rightarrow>
          Inr (dm_insert room_id (new_room room_id peer_id role since now) rooms, [RoomCreate room_id]))"

definition room_occupied :: "room \<Rightarrow> bool" where
  "room_occupied r = (rm_host r \<noteq> None \<or> rm_remote r \<noteq> None \<or> rm_consumers r \<noteq> [])"

definition room_drop_peer :: "string \<Rightarrow> room \<Rightarrow> room" where
  "room_drop_peer peer_id r =
     r\<lparr>rm_host := (if rm_host r = Some peer_id then None else rm_host r),
       rm_remote := (if rm_remote r = Some peer_id then None else rm_remote r),
       rm_consumers := filter (\<lambda>c. co_peer_id c \<noteq> peer_id) (rm_consumers r)\<rparr>"

definition leave_room ::
  "room_table \<Rightarrow> string \<Rightarrow> string \<Rightarrow> room_table \<times> bool \<times> audit_event list" where
  "leave_room rooms room_id peer_id =
     (let rooms1 = dm_modify room_id (room_drop_peer peer_id) rooms;
          rooms2 = dm_retain (\<lambda>_ r. room_occupied r) rooms1;
          room_gone = (\<not> dm_contains rooms2 room_id)
      in (rooms2, room_gone, if room_gone then [RoomDestroy room_id] else []))"

definition get_other_peer :: "room_table \<Rightarrow> string \<Rightarrow> string \<Rightarrow> string option" where
  "get_other_peer rooms room_id peer_id =
     (case dm_get rooms room_id of Some r \<Rightarrow> None | None \<Rightarrow> None)"

definition active_rooms :: "room_table \<Rightarrow> nat" where
  "active_rooms rooms = length rooms"

definition get_room :: "room_table \<Rightarrow> string \<Rightarrow> room_snapshot option" where
  "get_room rooms room_id = dm_get rooms room_id"

definition remove_room :: "room_table \<Rightarrow> string \<Rightarrow> room_table \<times> bool" where
  "remove_room rooms room_id = (dm_remove room_id rooms, dm_get rooms room_id \<noteq> None)"

definition is_device_stream :: "room_table \<Rightarrow> string \<Rightarrow> bool" where
  "is_device_stream rooms room_id =
     (case dm_get rooms room_id of Some r \<Rightarrow> rm_type r = DeviceStream | None \<Rightarrow> False)"

definition room_peers :: "room \<Rightarrow> nat" where
  "room_peers r = (if rm_host r \<noteq> None then 1 else 0) + (if rm_remote r \<noteq> None then 1 else 0)
     + length (rm_consumers r)"

definition connected_peers :: "room_table \<Rightarrow> nat" where
  "connected_peers rooms = sum_list (map (\<lambda>(k, r). room_peers r) rooms)"

definition list_rooms :: "room_table \<Rightarrow> room_snapshot list" where
  "list_rooms rooms = map snd rooms"

definition disconnect_consumers :: "room_table \<Rightarrow> string \<Rightarrow> room_table \<times> string list" where
  "disconnect_consumers rooms room_id =
     (let peer_ids = (case dm_get rooms room_id of
                        Some r \<Rightarrow> map co_peer_id (rm_consumers r) | None \<Rightarrow> []);
          rooms1 = dm_modify room_id (\<lambda>r. r\<lparr>rm_consumers := []\<rparr>) rooms
      in (dm_retain (\<lambda>_ r. room_occupied r) rooms1, peer_ids))"

definition replace_device_room ::
  "room_table \<Rightarrow> string \<Rightarrow> string \<Rightarrow> room_table \<times> string option" where
  "replace_device_room rooms device_id stream_id =
     (case List.find (\<lambda>(k, r). rm_device_id r = Some device_id \<and> rm_stream_id r = Some stream_id) rooms of
        Some (k, r) \<Rightarrow> (dm_remove (rm_id r) rooms, Some (rm_id r))
      | None \<Rightarrow> (rooms, None))"

definition cleanup_stale :: "room_table \<Rightarrow> u64 \<Rightarrow> room_table" where
  "cleanup_stale rooms timeout_secs = rooms"

text \<open>The device a room belongs to: its \<open>device_id\<close>, else its id up to the last underscore.\<close>

definition room_device :: "room \<Rightarrow> string" where
  "room_device r =
     (case rm_device_id r of
        Some d \<Rightarrow> d
      | None \<Rightarrow> (case rsplit_once (rm_id r) (CHR ''_'') of Some (v, s) \<Rightarrow> v | None \<Rightarrow> rm_id r))"

definition report_streams :: "status_registry \<Rightarrow> room \<Rightarrow> stream_snapshot list" where
  "report_streams status r =
     (case status_get status (rm_id r) of
        Some (StatusReport sr) \<Rightarrow>
          map (\<lambda>sf. \<lparr>st_stream_id = sf_id sf, st_consumers = rm_consumers r, st_online = sf_connected sf\<rparr>)
            (sr_streams sr)
      | _ \<Rightarrow> [])"

definition list_devices_step ::
  "status_registry \<Rightarrow> room \<Rightarrow> (string, device_snapshot) dmap \<Rightarrow> (string, device_snapshot) dmap" where
  "list_devices_step status r dmap0 =
     (let d = room_device r;
          entry0 = (case dm_get dmap0 d of
                      Some e \<Rightarrow> e
                    | None \<Rightarrow> \<lparr>ds_device_id = d, ds_online_since = rm_created_at r, ds_streams = []\<rparr>);
          entry1 = (if rm_created_at r < ds_online_since entry0
                    then entry0\<lparr>ds_online_since := rm_created_at r\<rparr> else entry0);
          rs = report_streams status r;
          entry2 = (if rs \<noteq> [] then entry1\<lparr>ds_streams := rs\<rparr> else entry1)
      in dm_insert d entry2 dmap0)"

definition list_devices :: "room_table \<Rightarrow> status_registry \<Rightarrow> device_snapshot list" where
  "list_devices rooms status = map snd (fold (list_devices_step status) (map snd rooms) [])"

section \<open>Invariant and abstract view\<close>

text \<open>
  The invariant of the table: distinct keys, every room stored under its own id, and no
  empty room. The abstract view of a room is who holds the host slot and which peers occupy
  the other places, with repetition.
\<close>

definition rooms_inv :: "room_table \<Rightarrow> bool" where
  "rooms_inv rooms =
     (dm_wf rooms \<and> (\<forall>(k, r)\<in>set rooms. rm_id r = k \<and> room_occupied r))"

definition room_members :: "room \<Rightarrow> string list" where
  "room_members r =
     (case rm_host r of Some h \<Rightarrow> [h] | None \<Rightarrow> []) @ (case rm_remote r of Some h \<Rightarrow> [h] | None \<Rightarrow> [])
     @ map co_peer_id (rm_consumers r)"

definition members :: "room_table \<Rightarrow> string \<Rightarrow> string list" where
  "members rooms room_id = (case dm_get rooms room_id of Some r \<Rightarrow> room_members r | None \<Rightarrow> [])"

definition host_of :: "room_table \<Rightarrow> string \<Rightarrow> string option" where
  "host_of rooms room_id = (case dm_get rooms room_id of Some r \<Rightarrow> rm_host r | None \<Rightarrow> None)"

section \<open>Preservation and behaviour\<close>

lemma rooms_inv_iff:
  "rooms_inv rooms \<longleftrightarrow> dm_wf rooms \<and> (\<forall>k r. (k, r) \<in> set rooms \<longrightarrow> rm_id r = k \<and> room_occupied r)"
  by (auto simp: rooms_inv_def)

lemma room_occupied_members: "room_occupied r \<longleftrightarrow> room_members r \<noteq> []"
  by (auto simp: room_occupied_def room_members_def split: option.splits)

lemma room_drop_members [simp]:
  "room_members (room_drop_peer p r) = filter (\<lambda>q. q \<noteq> p) (room_members r)"
  by (auto simp: room_drop_peer_def room_members_def filter_map o_def split: option.splits)

lemma room_drop_id [simp]: "rm_id (room_drop_peer p r) = rm_id r"
  by (simp add: room_drop_peer_def)

lemma room_drop_host [simp]:
  "rm_host (room_drop_peer p r) = (if rm_host r = Some p then None else rm_host r)"
  by (simp add: room_drop_peer_def)

lemma push_consumer_fields [simp]:
  "rm_id (push_consumer p t r) = rm_id r" "rm_host (push_consumer p t r) = rm_host r"
  "room_members (push_consumer p t r) = room_members r @ [p]" "room_occupied (push_consumer p t r)"
  by (auto simp: push_consumer_def room_members_def room_occupied_def)

lemma new_room_fields [simp]:
  "rm_id (new_room k p role t n) = k" "room_members (new_room k p role t n) = [p]"
  "rm_host (new_room k p role t n) = (if role = Host then Some p else None)"
  "room_occupied (new_room k p role t n)"
  by (cases role; simp add: new_room_def room_members_def room_occupied_def)+

lemma rooms_invD:
  "rooms_inv rooms \<Longrightarrow> dm_get rooms k = Some r \<Longrightarrow> rm_id r = k \<and> room_occupied r"
  by (auto simp: rooms_inv_iff dest: map_of_SomeD)

lemma rooms_inv_wf: "rooms_inv rooms \<Longrightarrow> dm_wf rooms"
  by (simp add: rooms_inv_def)

lemma rooms_inv_new: "rooms_inv room_manager_new"
  by (simp add: rooms_inv_def room_manager_new_def)

lemma in_set_modify:
  "(k', r') \<in> set (dm_modify k f m) \<longleftrightarrow> (\<exists>r. (k', r) \<in> set m \<and> r' = (if k' = k then f r else r))"
  by (auto simp: dm_modify_def image_iff split: if_splits) (force+)

lemma rooms_inv_modify:
  "rooms_inv rooms \<Longrightarrow> (\<And>r. rm_id (f r) = rm_id r) \<Longrightarrow> (\<And>r. room_occupied r \<Longrightarrow> room_occupied (f r)) \<Longrightarrow>
     rooms_inv (dm_modify k f rooms)"
  by (auto simp: rooms_inv_iff in_set_modify split: if_splits)

lemma rooms_inv_modify_retain:
  "rooms_inv rooms \<Longrightarrow> (\<And>r. rm_id (f r) = rm_id r) \<Longrightarrow>
     rooms_inv (dm_retain (\<lambda>_ r. room_occupied r) (dm_modify k f rooms))"
  by (auto simp: rooms_inv_iff in_set_modify split: if_splits)

lemma rooms_inv_insert:
  "rooms_inv rooms \<Longrightarrow> rm_id r = k \<Longrightarrow> room_occupied r \<Longrightarrow> rooms_inv (dm_insert k r rooms)"
  by (auto simp: rooms_inv_iff dest!: dm_insert_elem)

lemma rooms_inv_remove: "rooms_inv rooms \<Longrightarrow> rooms_inv (dm_remove k rooms)"
  by (auto simp: rooms_inv_iff dm_set_remove)

lemma room_set_host_occupied: "room_occupied (r\<lparr>rm_host := Some p\<rparr>)"
  by (simp add: room_occupied_def)

lemma rooms_inv_join:
  "rooms_inv rooms \<Longrightarrow> join_room rooms k p role t n = Inr (rooms', ev) \<Longrightarrow> rooms_inv rooms'"
  by (auto simp: join_room_def rooms_inv_insert room_set_host_occupied intro!: rooms_inv_modify
      split: option.splits peer_role.splits if_splits)

lemma rooms_inv_leave: "rooms_inv rooms \<Longrightarrow> rooms_inv (fst (leave_room rooms k p))"
  by (simp add: leave_room_def Let_def rooms_inv_modify_retain)

lemma rooms_inv_disconnect:
  "rooms_inv rooms \<Longrightarrow> rooms_inv (fst (disconnect_consumers rooms k))"
  by (simp add: disconnect_consumers_def Let_def rooms_inv_modify_retain)

lemma rooms_inv_replace: "rooms_inv rooms \<Longrightarrow> rooms_inv (fst (replace_device_room rooms d s))"
  by (auto simp: replace_device_room_def rooms_inv_remove split: option.splits)

lemma get_retain_modify:
  "dm_wf m \<Longrightarrow> dm_get (dm_retain P (dm_modify k f m)) k' =
     (case dm_get m k' of None \<Rightarrow> None
      | Some r \<Rightarrow> let r' = (if k' = k then f r else r) in if P k' r' then Some r' else None)"
  by (auto simp: dm_get_retain Let_def split: option.splits)

lemma room_members_set_host:
  "rm_host r = None \<Longrightarrow> room_members (r\<lparr>rm_host := Some p\<rparr>) = p # room_members r"
  by (simp add: room_members_def)

lemma join_room_cases:
  assumes "join_room rooms k p role t n = Inr (rooms', ev)"
  obtains (create) "dm_get rooms k = None" "rooms' = dm_insert k (new_room k p role t n) rooms"
      "ev = [RoomCreate k]"
  | (host) r where "dm_get rooms k = Some r" "role = Host" "rm_host r = None"
      "rooms' = dm_modify k (\<lambda>r. r\<lparr>rm_host := Some p\<rparr>) rooms" "ev = []"
  | (guest) r where "dm_get rooms k = Some r" "role \<noteq> Host"
      "rooms' = dm_modify k (push_consumer p t) rooms" "ev = []"
  using assms by (auto simp: join_room_def split: option.splits peer_role.splits if_splits)

lemma members_join:
  assumes "join_room rooms k p role t n = Inr (rooms', ev)"
  shows "mset (members rooms' k) = add_mset p (mset (members rooms k))"
    and "k' \<noteq> k \<Longrightarrow> members rooms' k' = members rooms k'"
  using assms by (cases rule: join_room_cases; simp add: members_def room_members_set_host)+

lemma members_leave:
  assumes inv: "rooms_inv rooms"
  shows "members (fst (leave_room rooms k p)) k' =
       (if k' = k then filter (\<lambda>q. q \<noteq> p) (members rooms k) else members rooms k')"
proof (cases "dm_get rooms k'")
  case None
  then show ?thesis
    using inv by (auto simp: leave_room_def Let_def members_def get_retain_modify rooms_inv_wf)
next
  case (Some r)
  with inv have "room_members r \<noteq> []" by (simp add: rooms_invD room_occupied_members [symmetric])
  with Some show ?thesis
    using inv by (cases "k' = k") (simp_all add: leave_room_def Let_def members_def get_retain_modify
        rooms_inv_wf room_occupied_members)
qed

lemma leave_room_gone:
  assumes "rooms_inv rooms"
  shows "fst (snd (leave_room rooms k p)) \<longleftrightarrow> set (members rooms k) \<subseteq> {p}"
proof (cases "dm_get rooms k")
  case None
  then show ?thesis
    using assms by (simp add: leave_room_def Let_def members_def dm_contains_def get_retain_modify rooms_inv_wf)
next
  case (Some r)
  then show ?thesis
    using assms
    by (auto simp: leave_room_def Let_def members_def dm_contains_def get_retain_modify rooms_inv_wf
        room_occupied_members filter_empty_conv)
qed

lemma host_of_join:
  assumes "join_room rooms k p role t n = Inr (rooms', ev)"
  shows "host_of rooms' k' = (if k' = k \<and> role = Host then Some p else host_of rooms k')"
  using assms by (cases rule: join_room_cases) (simp_all add: host_of_def)

lemma join_host_full_iff:
  "(\<exists>e. join_room rooms k p role t n = Inl e) \<longleftrightarrow> role = Host \<and> host_of rooms k \<noteq> None"
  by (auto simp: join_room_def host_of_def split: option.splits peer_role.splits)

lemma join_leave_other_rooms:
  "rooms_inv rooms \<Longrightarrow> k' \<noteq> k \<Longrightarrow> dm_get (fst (leave_room rooms k p)) k' = dm_get rooms k'"
  by (auto simp: leave_room_def Let_def get_retain_modify rooms_inv_wf rooms_invD split: option.splits)

lemma modify_notin: "k \<notin> fst ` set m \<Longrightarrow> dm_modify k f m = m"
  by (induction m) (auto simp: dm_modify_def)

lemma modify_modify: "dm_modify k f (dm_modify k g m) = dm_modify k (f \<circ> g) m"
  by (auto simp: dm_modify_def)

lemma modify_id:
  "(\<And>r. (k, r) \<in> set m \<Longrightarrow> f r = r) \<Longrightarrow> dm_modify k f m = m"
  by (induction m) (auto simp: dm_modify_def)

lemma retain_all: "(\<And>k r. (k, r) \<in> set m \<Longrightarrow> P k r) \<Longrightarrow> dm_retain P m = m"
  by (auto simp: dm_retain_def filter_id_conv)

lemma insert_new: "dm_get m k = None \<Longrightarrow> dm_insert k v m = m @ [(k, v)]"
  by (induction m) (auto split: if_splits)

lemma filter_absent: "p \<notin> co_peer_id ` set cs \<Longrightarrow> filter (\<lambda>c. co_peer_id c \<noteq> p) cs = cs"
  by (auto simp: filter_id_conv)

lemma drop_peer_push: "p \<notin> set (room_members r) \<Longrightarrow> room_drop_peer p (push_consumer p t r) = r"
  by (cases r) (auto simp: room_drop_peer_def push_consumer_def room_members_def filter_absent)

lemma drop_peer_host:
  "p \<notin> set (room_members r) \<Longrightarrow> rm_host r = None \<Longrightarrow> room_drop_peer p (r\<lparr>rm_host := Some p\<rparr>) = r"
  by (cases r) (auto simp: room_drop_peer_def room_members_def filter_absent)

lemma leave_modified:
  assumes inv: "rooms_inv rooms" and r: "dm_get rooms k = Some r" and f: "room_drop_peer p (f r) = r"
  shows "fst (leave_room (dm_modify k f rooms) k p) = rooms"
proof -
  have "dm_modify k (room_drop_peer p \<circ> f) rooms = rooms"
  proof (rule modify_id)
    fix r'
    assume "(k, r') \<in> set rooms"
    then have "dm_get rooms k = Some r'" using inv by (simp add: rooms_inv_wf)
    with r f show "(room_drop_peer p \<circ> f) r' = r'" by simp
  qed
  moreover have "dm_retain (\<lambda>_ r. room_occupied r) rooms = rooms"
    using inv by (intro retain_all) (auto simp: rooms_inv_iff)
  ultimately show ?thesis by (simp add: leave_room_def Let_def modify_modify)
qed

lemma leave_created:
  assumes inv: "rooms_inv rooms" and none: "dm_get rooms k = None"
  shows "fst (leave_room (dm_insert k (new_room k p role t n) rooms) k p) = rooms"
proof -
  have k: "k \<notin> fst ` set rooms" using none by (simp add: map_of_eq_None_iff)
  have "\<not> room_occupied (room_drop_peer p (new_room k p role t n))"
    by (simp add: room_occupied_members)
  then have "dm_retain (\<lambda>_ r. room_occupied r)
      (dm_modify k (room_drop_peer p) (rooms @ [(k, new_room k p role t n)])) =
      dm_retain (\<lambda>_ r. room_occupied r) (dm_modify k (room_drop_peer p) rooms)"
    by (simp add: dm_modify_def dm_retain_def)
  also have "\<dots> = rooms"
    using inv k by (subst modify_notin) (auto simp: rooms_inv_iff intro: retain_all)
  finally show ?thesis by (simp add: leave_room_def Let_def insert_new [OF none])
qed

lemma join_leave_roundtrip:
  assumes inv: "rooms_inv rooms" and join: "join_room rooms k p role t n = Inr (rooms', ev)"
    and new: "p \<notin> set (members rooms k)"
  shows "fst (leave_room rooms' k p) = rooms"
  using join
proof (cases rule: join_room_cases)
  case create
  then show ?thesis using inv by (simp add: leave_created)
next
  case (host r)
  then have "p \<notin> set (room_members r)" using new by (simp add: members_def)
  with host show ?thesis using leave_modified [OF inv] by (simp add: drop_peer_host)
next
  case (guest r)
  then have "p \<notin> set (room_members r)" using new by (simp add: members_def)
  with guest show ?thesis using leave_modified [OF inv] by (simp add: drop_peer_push)
qed

text \<open>
  The contract the signaling server relies on: a join adds one occurrence of the peer to the
  room, a leave removes every occurrence of it there, neither touches another room, and both
  keep the invariant.
\<close>

locale room_service =
  fixes joins :: "'s \<Rightarrow> 'k \<Rightarrow> 'p \<Rightarrow> 's \<Rightarrow> bool"
    and leave :: "'s \<Rightarrow> 'k \<Rightarrow> 'p \<Rightarrow> 's"
    and mem :: "'s \<Rightarrow> 'k \<Rightarrow> 'p multiset"
    and inv :: "'s \<Rightarrow> bool"
  assumes inv_joins: "inv s \<Longrightarrow> joins s k p s' \<Longrightarrow> inv s'"
    and inv_leave: "inv s \<Longrightarrow> inv (leave s k p)"
    and mem_joins: "joins s k p s' \<Longrightarrow> mem s' k' = (if k' = k then add_mset p (mem s k) else mem s k')"
    and mem_leave: "inv s \<Longrightarrow> mem (leave s k p) k' =
           (if k' = k then filter_mset (\<lambda>q. q \<noteq> p) (mem s k) else mem s k')"
begin

lemma leave_gone: "inv s \<Longrightarrow> p \<notin># mem (leave s k p) k"
  by (simp add: mem_leave)

lemma leave_absent: "inv s \<Longrightarrow> p \<notin># mem s k \<Longrightarrow> mem (leave s k p) = mem s"
  by (auto simp: fun_eq_iff mem_leave filter_mset_eq_conv)

lemma join_leave_mem:
  "inv s \<Longrightarrow> joins s k p s' \<Longrightarrow> p \<notin># mem s k \<Longrightarrow> mem (leave s' k p) = mem s"
  using inv_joins by (auto simp: fun_eq_iff mem_leave mem_joins filter_mset_eq_conv)

lemma leave_others_stay:
  "inv s \<Longrightarrow> q \<noteq> p \<Longrightarrow> q \<in># mem s k' \<Longrightarrow> q \<in># mem (leave s k p) k'"
  by (auto simp: mem_leave)

lemma leaves_all_gone:
  "inv s \<Longrightarrow> p \<in> set ps \<Longrightarrow> p \<notin># mem (fold (\<lambda>q s. leave s k q) ps s) k"
proof (induction ps arbitrary: s)
  case Nil
  then show ?case by simp
next
  case (Cons q ps)
  have stay: "inv s \<Longrightarrow> p \<notin># mem s k \<Longrightarrow> p \<notin># mem (fold (\<lambda>q s. leave s k q) ps s) k" for s
    by (induction ps arbitrary: s) (auto simp: inv_leave mem_leave)
  show ?case
  proof (cases "p = q")
    case True
    with Cons.prems stay [of "leave s k p"] show ?thesis by (simp add: inv_leave leave_gone)
  next
    case False
    with Cons show ?thesis by (simp add: inv_leave)
  qed
qed

end

interpretation rooms: room_service
  "\<lambda>rooms k p rooms'. \<exists>role t n ev. join_room rooms k p role t n = Inr (rooms', ev)"
  "\<lambda>rooms k p. fst (leave_room rooms k p)"
  "\<lambda>rooms k. mset (members rooms k)"
  rooms_inv
  by unfold_locales (auto simp: rooms_inv_join rooms_inv_leave members_join members_leave)

text \<open>Peer counts.\<close>

lemma room_peers_members: "room_peers r = length (room_members r)"
  by (auto simp: room_peers_def room_members_def split: option.splits)

lemma connected_peers_modify:
  assumes wf: "dm_wf rooms" and k: "dm_get rooms k = Some r" and f: "room_peers (f r) = Suc (room_peers r)"
  shows "connected_peers (dm_modify k f rooms) = Suc (connected_peers rooms)"
  using wf k
proof (induction rooms)
  case Nil
  then show ?case by simp
next
  case (Cons e rooms)
  obtain k' r' where e: "e = (k', r')" by force
  show ?case
  proof (cases "k' = k")
    case True
    with Cons.prems e have "dm_modify k f rooms = rooms" by (auto intro: modify_notin)
    with True Cons.prems e f show ?thesis by (simp add: connected_peers_def dm_modify_def)
  next
    case False
    with Cons e show ?thesis by (simp add: connected_peers_def dm_modify_def)
  qed
qed

lemma connected_peers_join:
  assumes inv: "rooms_inv rooms" and join: "join_room rooms k p role t n = Inr (rooms', ev)"
  shows "connected_peers rooms' = Suc (connected_peers rooms)"
  using join
proof (cases rule: join_room_cases)
  case create
  then show ?thesis by (simp add: insert_new connected_peers_def room_peers_members)
next
  case (host r)
  then show ?thesis using inv
    by (auto intro!: connected_peers_modify simp: rooms_inv_wf room_peers_members room_members_set_host)
next
  case (guest r)
  then show ?thesis using inv
    by (auto intro!: connected_peers_modify simp: rooms_inv_wf room_peers_members)
qed

text \<open>The device view.\<close>

definition device_view_ok :: "room list \<Rightarrow> (string, device_snapshot) dmap \<Rightarrow> bool" where
  "device_view_ok rs m \<longleftrightarrow>
     dm_wf m \<and> fst ` set m = room_device ` set rs
     \<and> (\<forall>d e. dm_get m d = Some e \<longrightarrow> ds_device_id e = d
           \<and> (\<exists>r\<in>set rs. room_device r = d \<and> ds_online_since e = rm_created_at r)
           \<and> (\<forall>r\<in>set rs. room_device r = d \<longrightarrow> ds_online_since e \<le> rm_created_at r))"

lemma dm_keys_insert: "fst ` set (dm_insert k v m) = insert k (fst ` set m)"
  by (simp add: dom_update)

lemma device_view_step:
  assumes "device_view_ok rs m"
  shows "device_view_ok (rs @ [r]) (list_devices_step status r m)"
proof -
  let ?d = "room_device r"
  define e0 where "e0 = (case dm_get m ?d of Some e \<Rightarrow> e
    | None \<Rightarrow> \<lparr>ds_device_id = ?d, ds_online_since = rm_created_at r, ds_streams = []\<rparr>)"
  define e2 where "e2 = the (dm_get (list_devices_step status r m) ?d)"
  have ins: "list_devices_step status r m = dm_insert ?d e2 m"
    by (simp add: e2_def list_devices_step_def Let_def)
  have since: "ds_online_since e2 = min (rm_created_at r) (ds_online_since e0)"
    and did: "ds_device_id e2 = ds_device_id e0"
    by (auto simp: e2_def e0_def list_devices_step_def Let_def min_def)
  have keep: "dm_get (dm_insert ?d e2 m) d = (if d = ?d then Some e2 else dm_get m d)" for d
    by simp
  have e0: "ds_device_id e0 = ?d"
    "ds_online_since e0 = rm_created_at r \<or>
       (\<exists>r'\<in>set rs. room_device r' = ?d \<and> ds_online_since e0 = rm_created_at r')"
    "\<forall>r'\<in>set rs. room_device r' = ?d \<longrightarrow> ds_online_since e0 \<le> rm_created_at r'"
  proof -
    have "dm_get m ?d = None \<Longrightarrow> \<forall>r'\<in>set rs. room_device r' \<noteq> ?d"
      using assms by (auto simp: device_view_ok_def map_of_eq_None_iff) (metis image_eqI)
    then show "ds_device_id e0 = ?d"
      "ds_online_since e0 = rm_created_at r \<or>
         (\<exists>r'\<in>set rs. room_device r' = ?d \<and> ds_online_since e0 = rm_created_at r')"
      "\<forall>r'\<in>set rs. room_device r' = ?d \<longrightarrow> ds_online_since e0 \<le> rm_created_at r'"
      using assms by (auto simp: e0_def device_view_ok_def split: option.splits)
  qed
  show ?thesis
    unfolding ins device_view_ok_def
    using assms e0 since did
    by (auto simp: device_view_ok_def dm_keys_insert keep min_def split: if_splits)
qed

lemma device_view_fold: "device_view_ok rs (fold (list_devices_step status) rs [])"
  by (induction rs rule: rev_induct) (simp_all add: device_view_step, simp add: device_view_ok_def)

lemma device_view_min:
  assumes ok: "device_view_ok rs m" and e: "dm_get m d = Some e"
  shows "ds_online_since e = Min (rm_created_at ` {r \<in> set rs. room_device r = d})"
proof -
  from ok e obtain r where r: "r \<in> set rs" "room_device r = d" "ds_online_since e = rm_created_at r"
    unfolding device_view_ok_def by blast
  from ok e have le: "ds_online_since e \<le> rm_created_at r'" if "r' \<in> set rs" "room_device r' = d" for r'
    using that unfolding device_view_ok_def by blast
  show ?thesis
    using r le by (intro Min_eqI [symmetric]) auto
qed

section \<open>Properties\<close>

text \<open>The operations a client of the table can call, in any order.\<close>

datatype room_op =
    OpJoin string string peer_role string nat
  | OpLeave string string
  | OpRemove string
  | OpDisconnect string
  | OpReplace string string
  | OpCleanup u64

fun apply_room_op :: "room_op \<Rightarrow> room_table \<Rightarrow> room_table" where
  "apply_room_op (OpJoin k p role t n) rooms =
     (case join_room rooms k p role t n of Inr (rooms', _) \<Rightarrow> rooms' | Inl _ \<Rightarrow> rooms)"
| "apply_room_op (OpLeave k p) rooms = fst (leave_room rooms k p)"
| "apply_room_op (OpRemove k) rooms = fst (remove_room rooms k)"
| "apply_room_op (OpDisconnect k) rooms = fst (disconnect_consumers rooms k)"
| "apply_room_op (OpReplace d s) rooms = fst (replace_device_room rooms d s)"
| "apply_room_op (OpCleanup n) rooms = cleanup_stale rooms n"

lemma apply_room_op_inv: "rooms_inv rooms \<Longrightarrow> rooms_inv (apply_room_op op rooms)"
  by (cases op)
    (auto simp: rooms_inv_leave remove_room_def rooms_inv_remove rooms_inv_disconnect
      rooms_inv_replace cleanup_stale_def intro: rooms_inv_join split: sum.splits)

text \<open>
  After any sequence of joins, leaves, removals, host-gone disconnections, replacements and
  cleanups on a new room manager, the room table is well formed: one entry per room id, every
  room filed under its own id, and no room without a peer (a room exists exactly as long as
  somebody is in it, so the table cannot leak empty rooms).
\<close>

theorem room_table_always_well_formed:
  "rooms_inv (fold apply_room_op ops room_manager_new)"
  by (rule fold_invariant_list [of rooms_inv]) (auto simp: rooms_inv_new apply_room_op_inv)

text \<open>
  A peer that was not in a room and joins it, in whatever role, and leaves again leaves the
  whole room table exactly as it found it; while it is in, the room has one more connected peer.
\<close>

theorem join_then_leave_restores:
  assumes "rooms_inv rooms" and "p \<notin> set (members rooms k)"
    and "join_room rooms k p role t n = Inr (rooms', ev)"
  shows "fst (leave_room rooms' k p) = rooms \<and> connected_peers rooms' = Suc (connected_peers rooms)"
  using assms by (auto simp: join_leave_roundtrip connected_peers_join)

definition demo_rooms :: room_table where
  "demo_rooms = [(''car'', new_room ''car'' ''h'' Host ''t0'' 7)]"

lemma demo_rooms_inv: "rooms_inv demo_rooms"
  by (simp add: rooms_inv_def demo_rooms_def)

theorem join_then_leave_restores_witness:
  "fst (leave_room
     (dm_modify ''car'' (push_consumer ''v'' ''t1'') demo_rooms) ''car'' ''v'') = demo_rooms"
proof -
  have join: "join_room demo_rooms ''car'' ''v'' Remote ''t1'' 9 =
      Inr (dm_modify ''car'' (push_consumer ''v'' ''t1'') demo_rooms, [])"
    by (simp add: join_room_def demo_rooms_def)
  have new: "''v'' \<notin> set (members demo_rooms ''car'')"
    by (simp add: members_def demo_rooms_def)
  show ?thesis using join_then_leave_restores [OF demo_rooms_inv new join] by simp
qed

text \<open>
  A join fails exactly when the host slot of an existing room is asked for and taken;
  otherwise the peer is in the room afterwards, the host slot holds it if it asked for it, and
  no other room changes. A leave removes every occurrence of the peer from that room only,
  reports the room as gone exactly when nobody else was in it, and then the room is no longer
  in the table.
\<close>

theorem join_leave_behaviour:
  assumes inv: "rooms_inv rooms"
  shows "((\<exists>e. join_room rooms k p role t n = Inl e) \<longleftrightarrow> role = Host \<and> host_of rooms k \<noteq> None)
   \<and> (\<forall>rooms' ev. join_room rooms k p role t n = Inr (rooms', ev) \<longrightarrow>
        p \<in> set (members rooms' k) \<and> (role = Host \<longrightarrow> host_of rooms' k = Some p)
        \<and> (\<forall>k'. k' \<noteq> k \<longrightarrow> members rooms' k' = members rooms k'))
   \<and> (\<forall>k'. members (fst (leave_room rooms k p)) k' =
        (if k' = k then filter (\<lambda>q. q \<noteq> p) (members rooms k) else members rooms k'))
   \<and> (fst (snd (leave_room rooms k p)) \<longleftrightarrow> set (members rooms k) \<subseteq> {p})
   \<and> (fst (snd (leave_room rooms k p)) \<longleftrightarrow> get_room (fst (leave_room rooms k p)) k = None)"
proof -
  have "p \<in> set (members rooms' k)" if "join_room rooms k p role t n = Inr (rooms', ev)" for rooms' ev
    using members_join(1) [OF that] by (metis set_mset_mset union_single_eq_member)
  moreover have "fst (snd (leave_room rooms k p)) \<longleftrightarrow> get_room (fst (leave_room rooms k p)) k = None"
    by (simp add: leave_room_def Let_def dm_contains_def get_room_def)
  ultimately show ?thesis
    using inv by (auto simp: join_host_full_iff host_of_join members_join(2) members_leave leave_room_gone)
qed

theorem join_leave_behaviour_witness:
  "(\<exists>e. join_room demo_rooms ''car'' ''x'' Host ''t'' 1 = Inl e) \<and>
   members (fst (leave_room demo_rooms ''car'' ''h'')) ''car'' = []"
  using join_leave_behaviour [OF demo_rooms_inv, of "''car''" "''x''" Host "''t''" 1]
    join_leave_behaviour [OF demo_rooms_inv, of "''car''" "''h''" Host "''t''" 1]
  by (simp add: host_of_def members_def demo_rooms_def)

text \<open>
  The device view lists every device that has a room (a room's device is its recorded device
  or its id up to the last underscore) exactly once and no other, and gives as its online time
  the creation time of its oldest room.
\<close>

theorem list_devices_aggregates:
  "distinct (map ds_device_id (list_devices rooms status))
   \<and> ds_device_id ` set (list_devices rooms status) = room_device ` set (list_rooms rooms)
   \<and> (\<forall>e\<in>set (list_devices rooms status).
        ds_online_since e =
          Min (rm_created_at ` {r \<in> set (list_rooms rooms). room_device r = ds_device_id e}))"
proof -
  let ?m = "fold (list_devices_step status) (map snd rooms) []"
  have ok: "device_view_ok (map snd rooms) ?m" by (rule device_view_fold)
  then have wf: "dm_wf ?m" by (simp add: device_view_ok_def)
  have key: "ds_device_id e = d" if "(d, e) \<in> set ?m" for d e
    using ok that wf by (auto simp: device_view_ok_def)
  then have ids: "map ds_device_id (map snd ?m) = map fst ?m"
    by (induction ?m) (auto simp: case_prod_beta)
  have "ds_online_since e = Min (rm_created_at ` {r \<in> set (map snd rooms). room_device r = ds_device_id e})"
    if e: "e \<in> set (map snd ?m)" for e
  proof -
    obtain d where d: "(d, e) \<in> set ?m" using e by auto
    then have "dm_get ?m d = Some e" using wf by simp
    with device_view_min [OF ok] key [OF d] show ?thesis by simp
  qed
  then have since: "\<forall>e\<in>set (list_devices rooms status). ds_online_since e =
      Min (rm_created_at ` {r \<in> set (list_rooms rooms). room_device r = ds_device_id e})"
    by (simp add: list_devices_def list_rooms_def)
  have dist: "distinct (map ds_device_id (list_devices rooms status))"
    unfolding list_devices_def ids by (rule wf)
  have "ds_device_id ` set (list_devices rooms status) = set (map fst ?m)"
    unfolding ids [symmetric] list_devices_def by (simp add: image_image)
  also have "\<dots> = room_device ` set (list_rooms rooms)"
    using ok by (simp add: device_view_ok_def list_rooms_def)
  finally show ?thesis using dist since by blast
qed

theorem list_devices_aggregates_witness:
  "ds_device_id ` set (list_devices demo_rooms []) = {''car''} \<and>
   distinct (map ds_device_id (list_devices demo_rooms []))"
  using list_devices_aggregates [of demo_rooms "[]"]
  by (simp add: list_rooms_def demo_rooms_def room_device_def rsplit_once_def new_room_def)

end
