(* ===== verification/Strings.thy ===== *)
theory Strings
  imports Bytes
begin

text \<open>
  String and byte functions of the Rust standard library that the vehicle-side components use:
  substring search, ASCII case mapping, number printing, joining, trimming, UTF-8 validation and
  little-endian integers. A string is the list of its bytes; case mapping is the one of ASCII.
\<close>

section \<open>Text\<close>

fun str_contains :: "string \<Rightarrow> string \<Rightarrow> bool" where
  "str_contains [] pat = (pat = [])"
| "str_contains (c # s) pat = (starts_with (c # s) pat \<or> str_contains s pat)"

definition to_lowercase :: "string \<Rightarrow> string" where
  "to_lowercase = map (\<lambda>c. let n = of_char c :: nat in if 65 \<le> n \<and> n \<le> 90 then char_of (n + 32) else c)"

definition to_uppercase :: "string \<Rightarrow> string" where
  "to_uppercase = map (\<lambda>c. let n = of_char c :: nat in if 97 \<le> n \<and> n \<le> 122 then char_of (n - 32) else c)"

definition show_int :: "int \<Rightarrow> string" where
  "show_int i = (if i < 0 then ''-'' @ show_nat (nat (- i)) else show_nat (nat i))"

fun show_oct :: "nat \<Rightarrow> nat \<Rightarrow> string" where
  "show_oct 0 n = []"
| "show_oct (Suc k) n = show_oct k (n div 8) @ [char_of (48 + n mod 8)]"

definition join_str :: "string \<Rightarrow> string list \<Rightarrow> string" where
  "join_str sep xs = (case xs of [] \<Rightarrow> [] | x # ys \<Rightarrow> x @ concat (map (\<lambda>y. sep @ y) ys))"

text \<open>The characters of a string of bytes: a byte that is not a continuation starts one.\<close>

definition utf8_cont :: "char \<Rightarrow> bool" where
  "utf8_cont c = (let n = of_char c :: nat in 128 \<le> n \<and> n < 192)"

function utf8_chars :: "string \<Rightarrow> string list" where
  "utf8_chars [] = []"
| "utf8_chars (c # cs) = (c # takeWhile utf8_cont cs) # utf8_chars (dropWhile utf8_cont cs)"
  by pat_completeness auto
termination by (relation "measure length") (auto simp: le_imp_less_Suc length_dropWhile_le)

text \<open>The encodings of the Unicode white-space characters, and \<open>str::trim\<close> over them.\<close>

definition utf8_whitespace :: "nat list list" where
  "utf8_whitespace =
     [[0x09], [0x0A], [0x0B], [0x0C], [0x0D], [0x20], [0xC2, 0x85], [0xC2, 0xA0], [0xE1, 0x9A, 0x80],
      [0xE2, 0x80, 0xA8], [0xE2, 0x80, 0xA9], [0xE2, 0x80, 0xAF], [0xE2, 0x81, 0x9F], [0xE3, 0x80, 0x80]]
     @ map (\<lambda>n. [0xE2, 0x80, 0x80 + n]) [0..<11]"

function strip_any :: "nat list list \<Rightarrow> nat list \<Rightarrow> nat list" where
  "strip_any ws s =
     (case List.find (\<lambda>w. w \<noteq> [] \<and> take (length w) s = w) ws of
        None \<Rightarrow> s
      | Some w \<Rightarrow> strip_any ws (drop (length w) s))"
  by pat_completeness auto
termination
proof (relation "measure (\<lambda>(ws, s). length s)")
  show "wf (measure (\<lambda>(ws, s). length s))" by simp
  fix ws :: "nat list list" and s w
  assume "List.find (\<lambda>w. w \<noteq> [] \<and> take (length w) s = w) ws = Some w"
  then have "w \<noteq> []" "take (length w) s = w" using find_Some_in_set by fastforce+
  then show "((ws, drop (length w) s), (ws, s)) \<in> measure (\<lambda>(ws, s). length s)" by (cases s) auto
qed

declare strip_any.simps [simp del]

definition trim_str :: "string \<Rightarrow> string" where
  "trim_str s =
     map char_of (rev (strip_any (map rev utf8_whitespace) (rev (strip_any utf8_whitespace (map of_char s)))))"

text \<open>\<open>String::from_utf8\<close>: the well-formed byte sequences of the Unicode standard, table 3-7.\<close>

definition in_range :: "nat \<Rightarrow> nat \<Rightarrow> u8 \<Rightarrow> bool" where
  "in_range lo hi b = (lo \<le> unat b \<and> unat b \<le> hi)"

fun utf8_valid :: "u8 list \<Rightarrow> bool" where
  "utf8_valid [] = True"
| "utf8_valid (a # rest) =
     (if in_range 0x00 0x7F a then utf8_valid rest
      else case rest of
        b # r1 \<Rightarrow>
          if in_range 0xC2 0xDF a then in_range 0x80 0xBF b \<and> utf8_valid r1
          else (case r1 of
            c # r2 \<Rightarrow>
              if in_range 0xE0 0xEF a
              then (if a = 0xE0 then in_range 0xA0 0xBF b else if a = 0xED then in_range 0x80 0x9F b else in_range 0x80 0xBF b)
                   \<and> in_range 0x80 0xBF c \<and> utf8_valid r2
              else (case r2 of
                d # r3 \<Rightarrow>
                  in_range 0xF0 0xF4 a
                  \<and> (if a = 0xF0 then in_range 0x90 0xBF b else if a = 0xF4 then in_range 0x80 0x8F b else in_range 0x80 0xBF b)
                  \<and> in_range 0x80 0xBF c \<and> in_range 0x80 0xBF d \<and> utf8_valid r3
              | [] \<Rightarrow> False)
          | [] \<Rightarrow> False)
      | [] \<Rightarrow> False)"

section \<open>Little-endian integers\<close>

fun to_le :: "nat \<Rightarrow> nat \<Rightarrow> u8 list" where
  "to_le 0 x = []"
| "to_le (Suc n) x = of_nat (x mod 256) # to_le n (x div 256)"

fun from_le :: "u8 list \<Rightarrow> nat" where
  "from_le [] = 0"
| "from_le (b # bs) = unat b + 256 * from_le bs"

lemma length_to_le [simp]: "length (to_le n x) = n"
  by (induction n arbitrary: x) simp_all

lemma from_le_to_le: "from_le (to_le n x) = x mod 256 ^ n"
proof (induction n arbitrary: x)
  case (Suc n)
  have "unat (of_nat (x mod 256) :: u8) = x mod 256" by (simp add: unat_of_nat)
  then show ?case using Suc [of "x div 256"] by (simp add: mod_mult2_eq)
qed simp

lemma from_le_bound: "from_le bs < 256 ^ length bs"
proof (induction bs)
  case (Cons b bs)
  have "unat b < 256" using unsigned_less [where ?w = b and ?'a = nat] by simp
  then show ?case using Cons by simp
qed simp

lemma to_le_from_le: "to_le (length bs) (from_le bs) = bs"
proof (induction bs)
  case (Cons b bs)
  have "unat b < 256" using unsigned_less [where ?w = b and ?'a = nat] by simp
  then show ?case using Cons by simp
qed simp

section \<open>File names\<close>

text \<open>
  \<open>Path::with_extension\<close>: the last extension of the file name is replaced. (Names that are
  \<open>..\<close> and paths that end in a slash do not occur.)
\<close>

definition path_split :: "string \<Rightarrow> string \<times> string" where
  "path_split path =
     (case rsplit_once path (CHR ''/'') of Some (d, f) \<Rightarrow> (d @ ''/'', f) | None \<Rightarrow> ([], path))"

definition file_stem :: "string \<Rightarrow> string" where
  "file_stem fname =
     (case rsplit_once fname (CHR ''.'') of
        Some (b, e) \<Rightarrow> if b = [] then fname else b | None \<Rightarrow> fname)"

definition with_extension :: "string \<Rightarrow> string \<Rightarrow> string" where
  "with_extension path ext =
     fst (path_split path) @ file_stem (snd (path_split path)) @ ''.'' @ ext"

lemma path_split_join: "fst (path_split path) @ snd (path_split path) = path"
  by (auto simp: path_split_def split: option.splits dest: rsplit_once_Some)

lemma file_stem_extended: "CHR ''.'' \<in> set ext \<Longrightarrow> file_stem f @ CHR ''.'' # ext \<noteq> f"
proof
  assume ext: "CHR ''.'' \<in> set ext" and eq: "file_stem f @ CHR ''.'' # ext = f"
  then obtain b e where be: "rsplit_once f (CHR ''.'') = Some (b, e)" and "file_stem f = b"
    by (auto simp: file_stem_def split: option.splits if_splits)
  with eq rsplit_once_Some [OF be] ext show False by auto
qed

lemma with_extension_neq: "CHR ''.'' \<in> set ext \<Longrightarrow> with_extension path ext \<noteq> path"
  using file_stem_extended [of ext "snd (path_split path)"] path_split_join [of path]
  unfolding with_extension_def by (metis append.assoc append_Cons append_Nil same_append_eq)

lemma with_extension_simple:
  assumes "CHR ''/'' \<notin> set f" and "CHR ''/'' \<notin> set b" and "CHR ''.'' \<notin> set b" and "f \<noteq> []"
  shows "with_extension (d @ CHR ''/'' # f @ CHR ''.'' # b) ext = d @ CHR ''/'' # f @ CHR ''.'' # ext"
proof -
  have "rsplit_once (d @ CHR ''/'' # (f @ CHR ''.'' # b)) (CHR ''/'') = Some (d, f @ CHR ''.'' # b)"
    by (rule rsplit_once_join) (use assms in simp)
  then show ?thesis
    using assms by (simp add: with_extension_def path_split_def file_stem_def rsplit_once_join)
qed

end
