(* ===== verification/Credentials.thy ===== *)
theory Credentials
  imports AuditLog Strings
begin

text \<open>
  What the three credential registries of the server share (\<open>devices.rs\<close>, \<open>accounts.rs\<close>,
  \<open>apikeys.rs\<close> under \<open>mediaservo-server/src\<close>): the salted hash, the atomic write-back of the
  registry file, and the contract of a credential store. The cryptographic primitives and base64
  are third-party crates and enter as the fields of \<open>crypto\<close>.
\<close>

record crypto =
  sha256 :: "u8 list \<Rightarrow> u8 list" \<comment> \<open>\<open>sha2\<close>\<close>
  slice_ct_eq :: "u8 list \<Rightarrow> u8 list \<Rightarrow> bool" \<comment> \<open>\<open>subtle::ConstantTimeEq\<close> on byte slices\<close>
  b64_decode :: "string \<Rightarrow> u8 list option" \<comment> \<open>\<open>base64::STANDARD\<close>\<close>
  ed_key_ok :: "u8 list \<Rightarrow> bool" \<comment> \<open>\<open>ed25519_dalek::VerifyingKey::from_bytes\<close> succeeds\<close>
  ed_verify_strict :: "u8 list \<Rightarrow> u8 list \<Rightarrow> u8 list \<Rightarrow> bool" \<comment> \<open>key, message, signature\<close>

definition hash_secret :: "crypto \<Rightarrow> string \<Rightarrow> string \<Rightarrow> string" where
  "hash_secret C ident secret =
     ''sha256:'' @ hex_encode (sha256 C (bytes_of ident @ [byte_of (CHR '':'')] @ bytes_of secret))"

text \<open>\<open>accounts.rs\<close> has its own copy of the function.\<close>

definition hash_password :: "crypto \<Rightarrow> string \<Rightarrow> string \<Rightarrow> string" where
  "hash_password C username pw =
     ''sha256:'' @ hex_encode (sha256 C (bytes_of username @ [byte_of (CHR '':'')] @ bytes_of pw))"

lemma hash_secret_prefix: "starts_with (hash_secret C i s) ''sha256:''"
  by (simp add: hash_secret_def starts_with_def)

lemma hash_password_prefix: "starts_with (hash_password C i s) ''sha256:''"
  by (simp add: hash_password_def starts_with_def)

text \<open>
  What the registries rely on: SHA-256 digests have 32 bytes, and the constant-time comparison
  decides equality. \<open>demo_crypto\<close> is an instance for evaluating the definitions; its digest is the
  padded input, so that distinct short inputs have distinct digests.
\<close>

definition crypto_ok :: "crypto \<Rightarrow> bool" where
  "crypto_ok C = ((\<forall>bs. length (sha256 C bs) = 32) \<and> (\<forall>a b. slice_ct_eq C a b \<longleftrightarrow> a = b))"

definition demo_crypto :: crypto where
  "demo_crypto = \<lparr>sha256 = (\<lambda>bs. take 32 (bs @ replicate 32 0)), slice_ct_eq = (=),
     b64_decode = (\<lambda>s. Some (bytes_of s)), ed_key_ok = (\<lambda>k. True),
     ed_verify_strict = (\<lambda>k m s. take 64 (k @ m @ replicate 64 0) = s)\<rparr>"

lemma demo_crypto_ok: "crypto_ok demo_crypto"
  by (auto simp: crypto_ok_def demo_crypto_def min_def)

lemma crypto_okD:
  "crypto_ok C \<Longrightarrow> length (sha256 C bs) = 32"
  "crypto_ok C \<Longrightarrow> slice_ct_eq C a b \<longleftrightarrow> a = b"
  by (simp_all add: crypto_ok_def)

lemma hash_secret_length: "crypto_ok C \<Longrightarrow> length (hash_secret C i s) = 71"
  by (simp add: hash_secret_def crypto_okD)

lemma hash_password_length: "crypto_ok C \<Longrightarrow> length (hash_password C i s) = 71"
  by (simp add: hash_password_def crypto_okD)

section \<open>Atomic write-back\<close>

text \<open>
  \<open>save\<close> writes a temporary sibling of the file, syncs it and renames it over the file; on any
  error it removes the temporary. A file system is the table of its files. Each of the four
  system calls can fail; a failed write may have written any prefix.
\<close>

type_synonym fs = "(string, string) dmap"

datatype io_fault = NoFault | CreateFails | WriteFails nat | SyncFails | RenameFails

definition atomic_save :: "fs \<Rightarrow> string \<Rightarrow> string \<Rightarrow> io_fault \<Rightarrow> fs \<times> bool" where
  "atomic_save files path yaml fault =
     (let tmp = with_extension path ''yaml.tmp''
      in case fault of
           NoFault \<Rightarrow> (dm_insert path yaml (dm_remove tmp (dm_insert tmp yaml files)), True)
         | CreateFails \<Rightarrow> (dm_remove tmp files, False)
         | WriteFails n \<Rightarrow> (dm_remove tmp (dm_insert tmp (take n yaml) files), False)
         | SyncFails \<Rightarrow> (dm_remove tmp (dm_insert tmp yaml files), False)
         | RenameFails \<Rightarrow> (dm_remove tmp (dm_insert tmp yaml files), False))"



section \<open>Loading a registry file\<close>

text \<open>
  The three \<open>from_yaml\<close> functions share one loop: each entry of the parsed file is checked and
  converted, the first failure ends the load, and the converted entry goes into the table.
\<close>

fun load_entries ::
  "(string \<Rightarrow> 'e \<Rightarrow> 'x + 'p) \<Rightarrow> (string \<times> 'e) list \<Rightarrow> (string, 'p) dmap \<Rightarrow> 'x + (string, 'p) dmap" where
  "load_entries parse [] tab = Inr tab"
| "load_entries parse ((i, e) # rest) tab =
     (case parse i e of
        Inl err \<Rightarrow> Inl err
      | Inr p \<Rightarrow> load_entries parse rest (dm_insert i p tab))"

lemma load_entries_ok:
  assumes "dm_wf xs" and "\<forall>k e. (k, e) \<in> set xs \<longrightarrow> parse k e = Inr (f k)"
  shows "\<exists>devs. load_entries parse xs acc = Inr devs \<and> (dm_wf acc \<longrightarrow> dm_wf devs)
     \<and> (\<forall>k. dm_get devs k = (if k \<in> fst ` set xs then Some (f k) else dm_get acc k))"
  using assms
proof (induction xs arbitrary: acc)
  case Nil
  then show ?case by simp
next
  case (Cons p xs)
  obtain k e where p: "p = (k, e)" by force
  have step: "load_entries parse (p # xs) acc = load_entries parse xs (dm_insert k (f k) acc)"
    using Cons.prems(2) by (simp add: p)
  from Cons.IH [of "dm_insert k (f k) acc"] Cons.prems
  obtain devs where "load_entries parse xs (dm_insert k (f k) acc) = Inr devs"
    and "dm_wf (dm_insert k (f k) acc) \<longrightarrow> dm_wf devs"
    and "\<forall>k'. dm_get devs k' = (if k' \<in> fst ` set xs then Some (f k') else dm_get (dm_insert k (f k) acc) k')"
    by auto
  with step show ?case by (auto simp: p)
qed

lemma load_entries_sound:
  assumes parse: "\<And>k e p. parse k e = Inr p \<Longrightarrow> Q p"
  shows "load_entries parse xs acc = Inr tab \<Longrightarrow> \<forall>k p. (k, p) \<in> set acc \<longrightarrow> Q p \<Longrightarrow>
     (\<forall>k p. (k, p) \<in> set tab \<longrightarrow> Q p)"
proof (induction xs arbitrary: acc)
  case Nil
  then show ?case by simp
next
  case (Cons x xs)
  obtain i e where x: "x = (i, e)" by force
  from Cons.prems(1) obtain p where p: "parse i e = Inr p" "load_entries parse xs (dm_insert i p acc) = Inr tab"
    by (auto simp: x split: sum.splits)
  have "\<forall>k q. (k, q) \<in> set (dm_insert i p acc) \<longrightarrow> Q q"
    using Cons.prems(2) parse [OF p(1)] by (auto dest!: dm_insert_elem)
  from Cons.IH [OF p(2) this] show ?case .
qed

text \<open>
  What the registries rely on of \<open>serde_yaml\<close>: reading back a printed file gives the same table,
  possibly in another order.
\<close>

definition yaml_reads_back ::
  "(string \<Rightarrow> string + (string, 'e) dmap) \<Rightarrow> ((string, 'e) dmap \<Rightarrow> string) \<Rightarrow> (string, 'e) dmap \<Rightarrow> bool" where
  "yaml_reads_back yaml_parse yaml_print f =
     (\<exists>f'. yaml_parse (yaml_print f) = Inr f' \<and> dm_wf f' \<and> map_of f' = map_of f)"

lemma load_entries_reads_back:
  assumes yaml: "yaml_reads_back yaml_parse yaml_print (map (\<lambda>(k, e). (k, fe e)) tab)"
    and wf: "dm_wf tab" and parse: "\<And>k e. (k, e) \<in> set tab \<Longrightarrow> parse k (fe e) = Inr e"
  shows "\<exists>f' devs. yaml_parse (yaml_print (map (\<lambda>(k, e). (k, fe e)) tab)) = Inr f'
    \<and> load_entries parse f' [] = Inr devs \<and> dm_wf devs \<and> map_of devs = map_of tab"
proof -
  let ?f = "map (\<lambda>(k, e). (k, fe e)) tab"
  obtain f' where f': "yaml_parse (yaml_print ?f) = Inr f'" "dm_wf f'" "map_of f' = map_of ?f"
    using yaml by (auto simp: yaml_reads_back_def)
  have look: "dm_get ?f k = map_option fe (dm_get tab k)" for k by (simp add: map_of_map)
  have "parse k e = Inr (the (dm_get tab k))" if "(k, e) \<in> set f'" for k e
  proof -
    from that f'(2) have "dm_get f' k = Some e" by simp
    then obtain e0 where e0: "dm_get tab k = Some e0" "e = fe e0" using f'(3) look by auto
    then show ?thesis using parse [of k e0] by (auto dest: map_of_SomeD)
  qed
  with load_entries_ok [OF f'(2), of parse "\<lambda>k. the (dm_get tab k)" "[]"]
  obtain devs where devs: "load_entries parse f' [] = Inr devs" "dm_wf devs"
    and get: "\<And>k. dm_get devs k = (if k \<in> fst ` set f' then Some (the (dm_get tab k)) else None)" by auto
  have "k \<in> fst ` set f' \<longleftrightarrow> dm_get tab k \<noteq> None" for k
    using f'(3) look by (metis map_of_eq_None_iff option.map_disc_iff)
  then have "dm_get devs k = dm_get tab k" for k
    using get by (auto simp del: map_of_eq_Some_iff)
  then show ?thesis using devs f'(1) by (auto simp: fun_eq_iff)
qed

section \<open>The contract of a credential store\<close>

text \<open>
  A store verifies a credential for an identifier and is changed by management operations, each
  about one identifier. An operation never changes the verdict on another identifier, and what a
  removal took out is rejected until it is enrolled again. \<open>decoy\<close> singles out the credentials that
  coincide with the store's padding hash, the one thing an unknown identifier is compared with.
\<close>

locale credential_store =
  fixes accepts :: "'s \<Rightarrow> string \<Rightarrow> string \<Rightarrow> bool"
    and known :: "'s \<Rightarrow> string \<Rightarrow> bool"
    and step :: "'s \<Rightarrow> 'o \<Rightarrow> 's"
    and subject :: "'o \<Rightarrow> string"
    and removes :: "'o \<Rightarrow> bool"
    and decoy :: "'s \<Rightarrow> string \<Rightarrow> string \<Rightarrow> bool"
  assumes step_frame: "i \<noteq> subject op \<Longrightarrow> accepts (step s op) i p = accepts s i p"
    and known_frame: "i \<noteq> subject op \<Longrightarrow> known (step s op) i = known s i"
    and removed_unknown: "removes op \<Longrightarrow> \<not> known (step s op) (subject op)"
    and unknown_rejected: "\<not> known s i \<Longrightarrow> \<not> decoy s i p \<Longrightarrow> \<not> accepts s i p"
    and decoy_step: "decoy (step s op) i p = decoy s i p"
begin

lemma run_frame:
  "i \<notin> subject ` set ops \<Longrightarrow> accepts (foldl step s ops) i p = accepts s i p"
  by (induction ops arbitrary: s) (auto simp: step_frame)

lemma run_known:
  "i \<notin> subject ` set ops \<Longrightarrow> known (foldl step s ops) i = known s i"
  by (induction ops arbitrary: s) (auto simp: known_frame)

lemma run_decoy: "decoy (foldl step s ops) i p = decoy s i p"
  by (induction ops arbitrary: s) (auto simp: decoy_step)

lemma removed_stays_out:
  "removes op \<Longrightarrow> subject op \<notin> subject ` set ops \<Longrightarrow> \<not> decoy s (subject op) p \<Longrightarrow>
     \<not> accepts (foldl step (step s op) ops) (subject op) p"
  by (rule unknown_rejected) (auto simp: run_decoy decoy_step run_known removed_unknown)

end

end
