(* ===== verification/Devices.thy ===== *)
theory Devices
  imports Credentials Strings "HOL-Library.List_Lexorder" "HOL-Library.Char_ord"
begin

text \<open>
  The device registry, \<open>mediaservo-server/src/devices.rs\<close>: entries in the secret and in the
  public-key form, verification of both, the management operations of the admin API, loading from
  and writing to the YAML file, and the pending table of devices that wait for admission. Fresh
  UUIDs are arguments, \<open>serde_yaml\<close> is a pair of a parser and a printer of the file's structure.
\<close>

datatype device_auth_error = Incomplete | UnknownDevice | BadSecret

fun device_auth_message :: "device_auth_error \<Rightarrow> string" where
  "device_auth_message Incomplete =
     ''device authentication failed: both device_id and device_secret are required''"
| "device_auth_message UnknownDevice = ''device authentication failed: invalid device credentials''"
| "device_auth_message BadSecret = ''device authentication failed: invalid device credentials''"

datatype device_reg_error =
  DuplicateDevice | UnregisteredDevice | InvalidSecret string | InvalidPublicKey string

text \<open>The file form of an entry, and the registry's own form.\<close>

record device_entry =
  de_secret_hash :: "string option"
  de_public_key :: "string option"
  de_name :: "string option"

datatype entry = Secret string | PublicKey string "string option"

record device_registry =
  dr_devices :: "(string, entry) dmap"
  dr_dummy_hash :: string

definition new_dummy_hash :: "crypto \<Rightarrow> string \<Rightarrow> string" where
  "new_dummy_hash C uuid = hash_secret C (''ms-dummy-'' @ uuid) ''dummy''"

definition registry_new :: "crypto \<Rightarrow> string \<Rightarrow> (string, entry) dmap \<Rightarrow> device_registry" where
  "registry_new C uuid devices = \<lparr>dr_devices = devices, dr_dummy_hash = new_dummy_hash C uuid\<rparr>"

definition registry_empty :: "crypto \<Rightarrow> string \<Rightarrow> device_registry" where
  "registry_empty C uuid = registry_new C uuid []"

definition verify :: "crypto \<Rightarrow> device_registry \<Rightarrow> string \<Rightarrow> string \<Rightarrow> device_auth_error + unit" where
  "verify C reg device_id secret =
     (let known = dm_contains (dr_devices reg) device_id;
          stored = (case dm_get (dr_devices reg) device_id of
                      Some (Secret h) \<Rightarrow> h | _ \<Rightarrow> dr_dummy_hash reg);
          want = hash_secret C device_id secret;
          matched = slice_ct_eq C (bytes_of stored) (bytes_of want)
      in if matched then Inr () else if known then Inl BadSecret else Inl UnknownDevice)"

definition decode_vk :: "crypto \<Rightarrow> string \<Rightarrow> string + u8 list" where
  "decode_vk C vk_b64 =
     (case b64_decode C vk_b64 of
        None \<Rightarrow> Inl ''not valid base64''
      | Some raw \<Rightarrow>
          if length raw \<noteq> 32 then Inl ''decoded length != 32 bytes''
          else if \<not> ed_key_ok C raw then Inl ''invalid ed25519 public key''
          else Inr raw)"

definition verify_signature ::
  "crypto \<Rightarrow> string \<Rightarrow> string \<Rightarrow> string \<Rightarrow> string \<Rightarrow> string \<Rightarrow> device_auth_error + unit" where
  "verify_signature C vk_b64 nonce_b64 device_id room_id sig_b64 =
     (case decode_vk C vk_b64 of
        Inl e \<Rightarrow> Inl BadSecret
      | Inr vk_arr \<Rightarrow>
          if \<not> ed_key_ok C vk_arr then Inl BadSecret
          else (case b64_decode C nonce_b64 of
            None \<Rightarrow> Inl BadSecret
          | Some nonce \<Rightarrow>
              if length nonce \<noteq> 32 then Inl BadSecret
              else (case b64_decode C sig_b64 of
                None \<Rightarrow> Inl BadSecret
              | Some sig_bytes \<Rightarrow>
                  if length sig_bytes \<noteq> 64 then Inl BadSecret
                  else if ed_verify_strict C vk_arr
                            (nonce @ bytes_of device_id @ bytes_of room_id) sig_bytes
                       then Inr () else Inl BadSecret)))"

section \<open>The registry file\<close>

text \<open>One entry of the file; the error texts are those of \<open>from_yaml\<close>.\<close>

definition parse_entry :: "crypto \<Rightarrow> string \<Rightarrow> device_entry \<Rightarrow> string + entry" where
  "parse_entry C did e =
     (case (de_secret_hash e, de_public_key e) of
        (Some hash, None) \<Rightarrow>
          if \<not> starts_with hash ''sha256:''
          then Inl (''device '' @ did @ '': unsupported secret_hash scheme (want sha256:)'')
          else if length hash \<noteq> length ''sha256:'' + 64
          then Inl (''device '' @ did @ '': malformed sha256 hex length'')
          else Inr (Secret hash)
      | (None, Some pk) \<Rightarrow>
          (case strip_prefix pk ''ed25519:'' of
             None \<Rightarrow> Inl (''device '' @ did @ '': unsupported public_key scheme (want ed25519:)'')
           | Some vk \<Rightarrow>
               (case decode_vk C vk of
                  Inl err \<Rightarrow> Inl (''device '' @ did @ '': malformed public_key ('' @ err @ '')'')
                | Inr _ \<Rightarrow> Inr (PublicKey vk (de_name e))))
      | (Some _, Some _) \<Rightarrow>
          Inl (''device '' @ did @ '': entry carries both secret_hash and public_key (exactly one form allowed)'')
      | (None, None) \<Rightarrow> Inl (''device '' @ did @ '': entry must carry secret_hash or public_key''))"

definition from_yaml ::
  "crypto \<Rightarrow> (string \<Rightarrow> string + (string, device_entry) dmap) \<Rightarrow> string \<Rightarrow> string \<Rightarrow>
     string + device_registry" where
  "from_yaml C yaml_parse uuid content =
     (case yaml_parse content of
        Inl err \<Rightarrow> Inl (''YAML parse error: '' @ err)
      | Inr parsed \<Rightarrow>
          (case load_entries (parse_entry C) parsed [] of
             Inl err \<Rightarrow> Inl err
           | Inr devices \<Rightarrow> Inr (registry_new C uuid devices)))"

fun file_entry :: "entry \<Rightarrow> device_entry" where
  "file_entry (Secret hash) = \<lparr>de_secret_hash = Some hash, de_public_key = None, de_name = None\<rparr>"
| "file_entry (PublicKey vk name) =
     \<lparr>de_secret_hash = None, de_public_key = Some (''ed25519:'' @ vk), de_name = name\<rparr>"

definition to_yaml ::
  "((string, device_entry) dmap \<Rightarrow> string) \<Rightarrow> device_registry \<Rightarrow> string" where
  "to_yaml yaml_print reg = yaml_print (map (\<lambda>(did, e). (did, file_entry e)) (dr_devices reg))"

definition registry_save ::
  "((string, device_entry) dmap \<Rightarrow> string) \<Rightarrow> device_registry \<Rightarrow> fs \<Rightarrow> string \<Rightarrow> io_fault \<Rightarrow> fs \<times> bool" where
  "registry_save yaml_print reg files path fault = atomic_save files path (to_yaml yaml_print reg) fault"

text \<open>\<open>load\<close>; the outcome of \<open>read_to_string\<close> is an argument, with the operating system's text on error.\<close>

definition registry_load ::
  "crypto \<Rightarrow> (string \<Rightarrow> string + (string, device_entry) dmap) \<Rightarrow> string \<Rightarrow> string \<Rightarrow> string + string \<Rightarrow>
     core_error + device_registry" where
  "registry_load C yaml_parse uuid path file_read =
     (case file_read of
        Inl e \<Rightarrow> Inl (ConfigParse (''devices file '' @ path @ '': '' @ e))
      | Inr content \<Rightarrow>
          (case from_yaml C yaml_parse uuid content of
             Inl e \<Rightarrow> Inl (ConfigParse (''devices file '' @ path @ '': '' @ e))
           | Inr reg \<Rightarrow> Inr reg))"

section \<open>Management operations\<close>

text \<open>
  \<open>chars().any(char::is_whitespace)\<close> on a UTF-8 string: one of the encodings of the Unicode
  white-space characters occurs in it.
\<close>

definition has_whitespace :: "string \<Rightarrow> bool" where
  "has_whitespace s =
     list_ex (\<lambda>t. list_ex (\<lambda>w. take (length w) t = w) utf8_whitespace)
       (suffixes (map of_char s :: nat list))"

definition secret_ok :: "string \<Rightarrow> bool" where
  "secret_ok s = (\<not> (s = [] \<or> length s < 8 \<or> length s > 128 \<or> has_whitespace s))"

definition register_with_secret ::
  "crypto \<Rightarrow> string \<Rightarrow> device_registry \<Rightarrow> string \<Rightarrow> string option \<Rightarrow>
     device_reg_error + (device_registry \<times> string \<times> string)" where
  "register_with_secret C uuid reg device_id secret =
     (if dm_contains (dr_devices reg) device_id then Inl DuplicateDevice
      else if \<not> (case secret of Some s \<Rightarrow> secret_ok s | None \<Rightarrow> True)
      then Inl (InvalidSecret ''secret: 8-128 chars, no whitespace'')
      else
        let s = unwrap_or secret uuid;
            hash = hash_secret C device_id s
        in Inr (reg\<lparr>dr_devices := dm_insert device_id (Secret hash) (dr_devices reg)\<rparr>, hash, s))"

definition register_device ::
  "crypto \<Rightarrow> string \<Rightarrow> device_registry \<Rightarrow> string \<Rightarrow>
     device_reg_error + (device_registry \<times> string \<times> string)" where
  "register_device C uuid reg device_id = register_with_secret C uuid reg device_id None"

definition revoke :: "device_registry \<Rightarrow> string \<Rightarrow> device_registry \<times> (device_reg_error + unit)" where
  "revoke reg device_id =
     (reg\<lparr>dr_devices := dm_remove device_id (dr_devices reg)\<rparr>,
      if dm_contains (dr_devices reg) device_id then Inr () else Inl UnregisteredDevice)"

definition reset_secret ::
  "crypto \<Rightarrow> string \<Rightarrow> device_registry \<Rightarrow> string \<Rightarrow>
     device_reg_error + (device_registry \<times> string \<times> string)" where
  "reset_secret C uuid reg device_id =
     (case dm_get (dr_devices reg) device_id of
        Some (Secret _) \<Rightarrow>
          let hash = hash_secret C device_id uuid
          in Inr (reg\<lparr>dr_devices := dm_insert device_id (Secret hash) (dr_devices reg)\<rparr>, hash, uuid)
      | _ \<Rightarrow> Inl UnregisteredDevice)"

definition entry_of :: "device_registry \<Rightarrow> string \<Rightarrow> entry option" where
  "entry_of reg device_id = dm_get (dr_devices reg) device_id"

definition device_ids :: "device_registry \<Rightarrow> string list" where
  "device_ids reg = map fst (dr_devices reg)"

definition verify_pubkey ::
  "crypto \<Rightarrow> device_registry \<Rightarrow> string \<Rightarrow> string \<Rightarrow> string \<Rightarrow> string \<Rightarrow> device_auth_error + unit" where
  "verify_pubkey C reg device_id nonce_b64 room_id sig_b64 =
     (case entry_of reg device_id of
        Some (PublicKey vk _) \<Rightarrow> verify_signature C vk nonce_b64 device_id room_id sig_b64
      | Some (Secret _) \<Rightarrow> Inl BadSecret
      | None \<Rightarrow> Inl UnknownDevice)"

definition enroll_auto ::
  "crypto \<Rightarrow> device_registry \<Rightarrow> string \<Rightarrow> string \<Rightarrow> string option \<Rightarrow>
     device_reg_error + device_registry" where
  "enroll_auto C reg device_id vk_b64 name =
     (case decode_vk C vk_b64 of
        Inl e \<Rightarrow> Inl (InvalidPublicKey (''public_key not canonical: '' @ e))
      | Inr _ \<Rightarrow>
          if dm_contains (dr_devices reg) device_id then Inl DuplicateDevice
          else Inr (reg\<lparr>dr_devices := dm_insert device_id (PublicKey vk_b64 name) (dr_devices reg)\<rparr>))"

definition authenticate ::
  "crypto \<Rightarrow> device_registry \<Rightarrow> string option \<Rightarrow> string option \<Rightarrow> (device_auth_error + unit) option" where
  "authenticate C reg device_id device_secret =
     (case (device_id, device_secret) of
        (None, None) \<Rightarrow> None
      | (Some did, Some secret) \<Rightarrow> Some (verify C reg did secret)
      | _ \<Rightarrow> Some (Inl Incomplete))"

section \<open>Pending table\<close>

record pending_entry =
  pe_vk :: string
  pe_first_seen_ms :: u64
  pe_verified :: bool

type_synonym pending_table = "(string, pending_entry) dmap"

definition pending_insert :: "u64 \<Rightarrow> pending_table \<Rightarrow> string \<Rightarrow> string \<Rightarrow> bool \<Rightarrow> pending_table" where
  "pending_insert now_ms tab device_id vk verified =
     dm_insert device_id \<lparr>pe_vk = vk, pe_first_seen_ms = now_ms, pe_verified = verified\<rparr> tab"

definition pending_get :: "pending_table \<Rightarrow> string \<Rightarrow> pending_entry option" where
  "pending_get tab device_id = dm_get tab device_id"

definition pending_remove :: "pending_table \<Rightarrow> string \<Rightarrow> pending_table \<times> pending_entry option" where
  "pending_remove tab device_id = (dm_remove device_id tab, dm_get tab device_id)"

definition pending_list :: "pending_table \<Rightarrow> (string \<times> pending_entry) list" where
  "pending_list tab = sort_key fst tab"

section \<open>Invariant\<close>

fun entry_ok :: "crypto \<Rightarrow> entry \<Rightarrow> bool" where
  "entry_ok C (Secret h) = (starts_with h ''sha256:'' \<and> length h = 71)"
| "entry_ok C (PublicKey vk name) = (\<exists>k. decode_vk C vk = Inr k)"

definition registry_inv :: "crypto \<Rightarrow> device_registry \<Rightarrow> bool" where
  "registry_inv C reg =
     (dm_wf (dr_devices reg) \<and> (\<forall>k e. (k, e) \<in> set (dr_devices reg) \<longrightarrow> entry_ok C e))"

datatype device_op =
    DevRegister string "string option" string \<comment> \<open>device, admin-provided secret, fresh uuid\<close>
  | DevRevoke string
  | DevReset string string
  | DevEnroll string string "string option"

fun device_subject :: "device_op \<Rightarrow> string" where
  "device_subject (DevRegister d s u) = d"
| "device_subject (DevRevoke d) = d"
| "device_subject (DevReset d u) = d"
| "device_subject (DevEnroll d vk n) = d"

fun is_revoke :: "device_op \<Rightarrow> bool" where
  "is_revoke (DevRevoke d) = True"
| "is_revoke _ = False"

fun device_step :: "crypto \<Rightarrow> device_registry \<Rightarrow> device_op \<Rightarrow> device_registry" where
  "device_step C reg (DevRegister d s u) =
     (case register_with_secret C u reg d s of Inl e \<Rightarrow> reg | Inr (reg', h, s') \<Rightarrow> reg')"
| "device_step C reg (DevRevoke d) = fst (revoke reg d)"
| "device_step C reg (DevReset d u) =
     (case reset_secret C u reg d of Inl e \<Rightarrow> reg | Inr (reg', h, s') \<Rightarrow> reg')"
| "device_step C reg (DevEnroll d vk n) =
     (case enroll_auto C reg d vk n of Inl e \<Rightarrow> reg | Inr reg' \<Rightarrow> reg')"

lemmas device_op_defs =
  register_with_secret_def revoke_def reset_secret_def enroll_auto_def

lemma registry_inv_insert:
  "registry_inv C reg \<Longrightarrow> entry_ok C e \<Longrightarrow>
     registry_inv C (reg\<lparr>dr_devices := dm_insert d e (dr_devices reg)\<rparr>)"
  by (auto simp: registry_inv_def dest!: dm_insert_elem)

lemma registry_inv_empty: "registry_inv C (registry_empty C u)"
  by (simp add: registry_inv_def registry_empty_def registry_new_def)

lemma entry_ok_hash: "crypto_ok C \<Longrightarrow> entry_ok C (Secret (hash_secret C d s))"
  by (simp add: hash_secret_prefix hash_secret_length)

lemma device_step_inv:
  assumes "crypto_ok C" "registry_inv C reg"
  shows "registry_inv C (device_step C reg op)"
proof (cases op)
  case (DevRegister d s u)
  then show ?thesis
    using assms by (auto simp: register_with_secret_def Let_def entry_ok_hash
        simp del: entry_ok.simps intro!: registry_inv_insert)
next
  case (DevRevoke d)
  then show ?thesis using assms by (auto simp: revoke_def registry_inv_def dm_set_remove)
next
  case (DevReset d u)
  then show ?thesis
    using assms by (auto simp: reset_secret_def Let_def entry_ok_hash
        simp del: entry_ok.simps intro!: registry_inv_insert split: option.splits entry.splits)
next
  case (DevEnroll d vk n)
  then show ?thesis
    using assms by (auto simp: enroll_auto_def intro!: registry_inv_insert split: sum.splits)
qed

lemma device_run_inv:
  "crypto_ok C \<Longrightarrow> registry_inv C reg \<Longrightarrow> registry_inv C (foldl (device_step C) reg ops)"
  by (induction ops arbitrary: reg) (auto simp: device_step_inv)

lemma device_step_dummy [simp]: "dr_dummy_hash (device_step C reg op) = dr_dummy_hash reg"
  by (cases op) (auto simp: device_op_defs Let_def split: option.splits entry.splits sum.splits)

lemma device_step_entry:
  "d \<noteq> device_subject op \<Longrightarrow> entry_of (device_step C reg op) d = entry_of reg d"
  by (cases op) (auto simp: device_op_defs entry_of_def Let_def split: option.splits entry.splits sum.splits)

section \<open>Verification\<close>

definition is_decoy :: "crypto \<Rightarrow> device_registry \<Rightarrow> string \<Rightarrow> string \<Rightarrow> bool" where
  "is_decoy C reg d s = slice_ct_eq C (bytes_of (dr_dummy_hash reg)) (bytes_of (hash_secret C d s))"

lemma verify_entry:
  "verify C reg d s =
     (case entry_of reg d of
        Some (Secret h) \<Rightarrow>
          if slice_ct_eq C (bytes_of h) (bytes_of (hash_secret C d s)) then Inr () else Inl BadSecret
      | Some (PublicKey _ _) \<Rightarrow> if is_decoy C reg d s then Inr () else Inl BadSecret
      | None \<Rightarrow> if is_decoy C reg d s then Inr () else Inl UnknownDevice)"
  by (auto simp: verify_def entry_of_def is_decoy_def Let_def dm_contains_def split: option.splits entry.splits)

definition dev_accepts :: "crypto \<Rightarrow> device_registry \<Rightarrow> string \<Rightarrow> string \<Rightarrow> bool" where
  "dev_accepts C reg d s = (verify C reg d s = Inr ())"

definition dev_known :: "device_registry \<Rightarrow> string \<Rightarrow> bool" where
  "dev_known reg d = (entry_of reg d \<noteq> None)"

interpretation devices: credential_store "dev_accepts C" dev_known "device_step C"
    device_subject is_revoke "is_decoy C" for C
proof unfold_locales
  fix i op s p
  assume "i \<noteq> device_subject op"
  then have "entry_of (device_step C s op) i = entry_of s i" by (rule device_step_entry)
  then show "dev_accepts C (device_step C s op) i p = dev_accepts C s i p"
    and "dev_known (device_step C s op) i = dev_known s i"
    by (simp_all add: dev_accepts_def dev_known_def verify_entry is_decoy_def)
next
  fix op s
  assume "is_revoke op"
  then show "\<not> dev_known (device_step C s op) (device_subject op)"
    by (cases op) (auto simp: dev_known_def revoke_def entry_of_def)
next
  fix s i p
  assume "\<not> dev_known s i" and "\<not> is_decoy C s i p"
  then show "\<not> dev_accepts C s i p" by (simp add: dev_known_def dev_accepts_def verify_entry)
next
  fix s op i p
  show "is_decoy C (device_step C s op) i p = is_decoy C s i p" by (simp add: is_decoy_def)
qed

lemma parse_entry_file: "entry_ok C e \<Longrightarrow> parse_entry C d (file_entry e) = Inr e"
  by (cases e) (auto simp: parse_entry_def strip_prefix_def starts_with_def)

lemma from_yaml_to_yaml:
  assumes inv: "registry_inv C reg"
    and yaml: "yaml_reads_back yaml_parse yaml_print (map (\<lambda>(k, e). (k, file_entry e)) (dr_devices reg))"
  shows "\<exists>reg'. from_yaml C yaml_parse u (to_yaml yaml_print reg) = Inr reg'
    \<and> entry_of reg' = entry_of reg \<and> dm_wf (dr_devices reg')"
proof -
  have parse: "parse_entry C k (file_entry e) = Inr e" if "(k, e) \<in> set (dr_devices reg)" for k e
    using inv that by (auto simp: registry_inv_def intro: parse_entry_file)
  have wf: "dm_wf (dr_devices reg)" using inv by (simp add: registry_inv_def)
  from load_entries_reads_back [OF yaml wf, of "parse_entry C", OF parse]
  obtain f' devs where "yaml_parse (to_yaml yaml_print reg) = Inr f'"
      "load_entries (parse_entry C) f' [] = Inr devs" "dm_wf devs" "map_of devs = map_of (dr_devices reg)"
    by (auto simp: to_yaml_def)
  then show ?thesis by (auto simp: from_yaml_def registry_new_def entry_of_def fun_eq_iff)
qed

text \<open>
  What the admin operations do to the registry survives a restart: the registry reached from
  an empty one by any sequence of registrations, revocations, resets and enrollments, saved
  without an I/O fault and loaded again, has for every device exactly the same entry, in the
  same form (secret or public key) and with the same name.
\<close>

theorem device_registry_save_load:
  assumes "crypto_ok C" and reg: "reg = foldl (device_step C) (registry_empty C u) ops"
    and yaml: "yaml_reads_back yaml_parse yaml_print (map (\<lambda>(k, e). (k, file_entry e)) (dr_devices reg))"
    and save: "registry_save yaml_print reg files path NoFault = (files', ok)"
    and content: "dm_get files' path = Some content"
  shows "\<exists>reg'. registry_load C yaml_parse u' path (Inr content) = Inr reg' \<and> entry_of reg' = entry_of reg"
proof -
  have "registry_inv C reg" unfolding reg by (rule device_run_inv [OF assms(1) registry_inv_empty])
  from from_yaml_to_yaml [OF this yaml, of u'] obtain reg' where
    "from_yaml C yaml_parse u' (to_yaml yaml_print reg) = Inr reg'" "entry_of reg' = entry_of reg" by auto
  moreover have "content = to_yaml yaml_print reg"
    using save content by (auto simp: registry_save_def atomic_save_def Let_def)
  ultimately show ?thesis by (simp add: registry_load_def)
qed

definition demo_yaml_print :: "(string, device_entry) dmap \<Rightarrow> string" where
  "demo_yaml_print f = concat (map (\<lambda>(k, e). k @ '':'' @ unwrap_or (de_secret_hash e) [] @ '';'') f)"

definition demo_yaml_parse :: "string \<Rightarrow> string + (string, device_entry) dmap" where
  "demo_yaml_parse s =
     (case rsplit_once (butlast s) (CHR '':'') of
        None \<Rightarrow> Inr []
      | Some (a, h) \<Rightarrow>
          (case rsplit_once a (CHR '':'') of
             None \<Rightarrow> Inl ''unreadable''
           | Some (k, p) \<Rightarrow>
               Inr [(k, \<lparr>de_secret_hash = Some (p @ '':'' @ h), de_public_key = None, de_name = None\<rparr>)]))"

definition demo_registry :: device_registry where
  "demo_registry =
     foldl (device_step demo_crypto) (registry_empty demo_crypto ''u'') [DevRegister ''car'' None ''s1'']"

lemma demo_registry_entry:
  "entry_of demo_registry ''car'' = Some (Secret (hash_secret demo_crypto ''car'' ''s1''))"
  by (simp add: demo_registry_def registry_empty_def registry_new_def register_with_secret_def
      dm_contains_def entry_of_def Let_def)

lemma demo_registry_no_decoy: "hash_secret demo_crypto ''car'' ''s1'' \<noteq> dr_dummy_hash demo_registry"
  by (simp add: demo_registry_def registry_empty_def registry_new_def register_with_secret_def
      new_dummy_hash_def dm_contains_def Let_def hash_secret_def demo_crypto_def bytes_of_def)

theorem device_registry_save_load_witness:
  "\<exists>reg'. registry_load demo_crypto demo_yaml_parse ''v'' ''d.yaml''
      (Inr (to_yaml demo_yaml_print demo_registry)) = Inr reg'
    \<and> entry_of reg' ''car'' = Some (Secret (hash_secret demo_crypto ''car'' ''s1''))"
proof -
  define hex where "hex = hex_encode (sha256 demo_crypto (bytes_of ''car:s1''))"
  have h: "hash_secret demo_crypto ''car'' ''s1'' = ''sha256'' @ CHR '':'' # hex"
    by (simp add: hash_secret_def bytes_of_def hex_def)
  have "to_digit16 (CHR '':'') = None" by (simp add: to_digit16_def)
  then have hex: "CHR '':'' \<notin> set hex" using is_hex_of_encode unfolding hex_def by metis
  have "dr_devices demo_registry = [(''car'', Secret (''sha256'' @ CHR '':'' # hex))]"
    using h by (simp add: demo_registry_def registry_empty_def registry_new_def
        register_with_secret_def dm_contains_def Let_def)
  moreover have "rsplit_once (''car:sha256'' @ CHR '':'' # hex) (CHR '':'') = Some (''car:sha256'', hex)"
    by (rule rsplit_once_join [OF hex])
  moreover have "rsplit_once ''car:sha256'' (CHR '':'') = Some (''car'', ''sha256'')"
    using rsplit_once_join [of "CHR '':''" "''sha256''" "''car''"] by simp
  ultimately have f: "demo_yaml_parse (demo_yaml_print (map (\<lambda>(k, e). (k, file_entry e)) (dr_devices demo_registry))) =
     Inr (map (\<lambda>(k, e). (k, file_entry e)) (dr_devices demo_registry))"
    by (simp add: demo_yaml_parse_def demo_yaml_print_def butlast_append)
  then have yaml: "yaml_reads_back demo_yaml_parse demo_yaml_print
      (map (\<lambda>(k, e). (k, file_entry e)) (dr_devices demo_registry))"
    by (auto simp: yaml_reads_back_def demo_registry_def registry_empty_def registry_new_def
        register_with_secret_def dm_contains_def Let_def)
  have save: "registry_save demo_yaml_print demo_registry [] ''d.yaml'' NoFault =
      ([(''d.yaml'', to_yaml demo_yaml_print demo_registry)], True)"
    by (simp add: registry_save_def atomic_save_def with_extension_def path_split_def file_stem_def
        rsplit_once_def)
  from demo_registry_entry device_registry_save_load [OF demo_crypto_ok demo_registry_def yaml save, of "to_yaml demo_yaml_print demo_registry" "''v''"]
  show ?thesis by auto
qed

text \<open>
  The verdict on a device secret, and what it reveals. A join that carries neither id nor
  secret is left to the other paths; one of the two alone is refused as incomplete. With both, and
  apart from credentials that coincide with the registry's padding hash, the join is accepted exactly
  if the device is registered in the secret form under the hash of that secret; every refusal of
  a complete pair shows the same text, whether the device is unknown, has another secret or is
  registered with a public key.
\<close>

theorem authenticate_verdict:
  assumes "crypto_ok C"
  shows "(authenticate C reg i s = None \<longleftrightarrow> i = None \<and> s = None)
   \<and> (authenticate C reg i s = Some (Inl Incomplete) \<longleftrightarrow> (i = None) \<noteq> (s = None))
   \<and> (\<forall>d p. i = Some d \<and> s = Some p \<and> hash_secret C d p \<noteq> dr_dummy_hash reg \<longrightarrow>
        (authenticate C reg i s = Some (Inr ()) \<longleftrightarrow> entry_of reg d = Some (Secret (hash_secret C d p))))
   \<and> (\<forall>d p e. i = Some d \<and> s = Some p \<and> authenticate C reg i s = Some (Inl e) \<longrightarrow>
        device_auth_message e = ''device authentication failed: invalid device credentials'')"
proof -
  note eq = crypto_okD(2) [OF assms]
  have "authenticate C reg i s = None \<longleftrightarrow> i = None \<and> s = None"
    by (auto simp: authenticate_def split: option.splits)
  moreover have "authenticate C reg i s = Some (Inl Incomplete) \<longleftrightarrow> (i = None) \<noteq> (s = None)"
    by (auto simp: authenticate_def verify_entry split: option.splits entry.splits if_splits)
  moreover have "verify C reg d p = Inr () \<longleftrightarrow> entry_of reg d = Some (Secret (hash_secret C d p))"
    if "hash_secret C d p \<noteq> dr_dummy_hash reg" for d p
    using that by (auto simp: verify_entry is_decoy_def eq split: option.splits entry.splits)
  moreover have "device_auth_message e = ''device authentication failed: invalid device credentials''"
    if "verify C reg d p = Inl e" for d p e
    using that by (auto simp: verify_entry split: option.splits entry.splits if_splits)
  ultimately show ?thesis by (auto simp: authenticate_def)
qed

theorem authenticate_verdict_witness:
  "authenticate demo_crypto demo_registry (Some ''car'') (Some ''s1'') = Some (Inr ()) \<and>
   authenticate demo_crypto demo_registry (Some ''car'') None = Some (Inl Incomplete)"
proof -
  note authenticate_verdict [OF demo_crypto_ok, of demo_registry "Some ''car''" "Some ''s1''",
      THEN conjunct2, THEN conjunct2, THEN conjunct1, rule_format, of "''car''" "''s1''"]
    authenticate_verdict [OF demo_crypto_ok, of demo_registry "Some ''car''" None,
      THEN conjunct2, THEN conjunct1]
  with demo_registry_entry demo_registry_no_decoy show ?thesis by blast
qed

lemma secret_current:
  assumes "crypto_ok C" "entry_of reg d = Some (Secret (hash_secret C d s))" "d \<notin> device_subject ` set ops"
  shows "verify C (foldl (device_step C) reg ops) d p = Inr () \<longleftrightarrow> hash_secret C d p = hash_secret C d s"
proof -
  have "verify C (foldl (device_step C) reg ops) d p = Inr () \<longleftrightarrow> verify C reg d p = Inr ()"
    using devices.run_frame [OF assms(3), of C reg p] by (simp add: dev_accepts_def)
  then show ?thesis using assms(2) by (auto simp: verify_entry crypto_okD [OF assms(1)])
qed

lemma register_entry:
  assumes "register_with_secret C u reg d given = Inr (reg', h, s)"
  shows "entry_of reg d = None" and "entry_of reg' d = Some (Secret (hash_secret C d s))"
  using assms by (auto simp: register_with_secret_def entry_of_def dm_contains_def Let_def split: if_splits)

lemma reset_entry:
  "reset_secret C u reg d = Inr (reg', h, s) \<Longrightarrow> entry_of reg' d = Some (Secret (hash_secret C d s))"
  by (auto simp: reset_secret_def entry_of_def Let_def split: option.splits entry.splits)

lemma revoked_rejected:
  assumes "crypto_ok C" "d \<notin> device_subject ` set ops" "hash_secret C d p \<noteq> dr_dummy_hash reg"
  shows "verify C (foldl (device_step C) (fst (revoke reg d)) ops) d p \<noteq> Inr ()"
  using devices.removed_stays_out [of "DevRevoke d" ops C reg p] assms
  by (auto simp: dev_accepts_def is_decoy_def crypto_okD)

text \<open>
  C37. The life of a device secret under the admin operations. The secret handed out by a
  registration or a reset authenticates the device through any later operations on other
  devices; every secret with another hash, in particular the one before the reset, does not. A
  revoked device stays locked out, with whatever secret, through any operations on other devices,
  unless the secret coincides with the padding hash. Registering a registered device is refused.
\<close>

theorem device_secret_lifecycle:
  assumes "crypto_ok C"
  shows "(\<forall>reg' h s. register_with_secret C u reg d given = Inr (reg', h, s) \<longrightarrow>
        entry_of reg d = None \<and>
        (\<forall>ops p. d \<notin> device_subject ` set ops \<longrightarrow>
          (verify C (foldl (device_step C) reg' ops) d p = Inr () \<longleftrightarrow> hash_secret C d p = hash_secret C d s)))
   \<and> (\<forall>reg' h s. reset_secret C u reg d = Inr (reg', h, s) \<longrightarrow>
        (\<forall>ops p. d \<notin> device_subject ` set ops \<longrightarrow>
          (verify C (foldl (device_step C) reg' ops) d p = Inr () \<longleftrightarrow> hash_secret C d p = hash_secret C d s)))
   \<and> (\<forall>ops p. d \<notin> device_subject ` set ops \<and> hash_secret C d p \<noteq> dr_dummy_hash reg \<longrightarrow>
        verify C (foldl (device_step C) (fst (revoke reg d)) ops) d p \<noteq> Inr ())
   \<and> (entry_of reg d \<noteq> None \<longrightarrow> register_with_secret C u reg d given = Inl DuplicateDevice)"
proof (intro conjI allI impI)
  fix reg' h s ops p
  assume reg: "register_with_secret C u reg d given = Inr (reg', h, s)"
  then show "entry_of reg d = None" by (rule register_entry)
  assume d: "d \<notin> device_subject ` set ops"
  show "verify C (foldl (device_step C) reg' ops) d p = Inr () \<longleftrightarrow> hash_secret C d p = hash_secret C d s"
    by (rule secret_current [OF assms register_entry(2) [OF reg] d])
next
  fix reg' h s ops p
  assume reg: "reset_secret C u reg d = Inr (reg', h, s)" and d: "d \<notin> device_subject ` set ops"
  show "verify C (foldl (device_step C) reg' ops) d p = Inr () \<longleftrightarrow> hash_secret C d p = hash_secret C d s"
    by (rule secret_current [OF assms reset_entry [OF reg] d])
next
  fix ops p
  assume "d \<notin> device_subject ` set ops \<and> hash_secret C d p \<noteq> dr_dummy_hash reg"
  then show "verify C (foldl (device_step C) (fst (revoke reg d)) ops) d p \<noteq> Inr ()"
    using revoked_rejected [OF assms] by blast
next
  assume "entry_of reg d \<noteq> None"
  then show "register_with_secret C u reg d given = Inl DuplicateDevice"
    by (simp add: register_with_secret_def entry_of_def dm_contains_def)
qed

theorem device_secret_lifecycle_witness:
  "verify demo_crypto (foldl (device_step demo_crypto) (fst (revoke demo_registry ''car''))
     [DevRegister ''bus'' None ''s2'']) ''car'' ''s1'' \<noteq> Inr ()"
proof -
  note all = device_secret_lifecycle [OF demo_crypto_ok, of "''u''" demo_registry "''car''" None,
      THEN conjunct2, THEN conjunct2, THEN conjunct1, rule_format]
  show ?thesis by (rule all) (simp add: demo_registry_no_decoy)
qed

text \<open>
  A challenge response is accepted exactly if the device is registered with a public key
  and the signature, 64 bytes, verifies under that key over the 32 bytes of the challenge followed
  by the device id and the room id. A device in the secret form and an unknown device never
  pass, and a signature that was made for another challenge is only accepted if it also verifies
  for this one.
\<close>

theorem verify_pubkey_exact:
  "verify_pubkey C reg d nonce room sig = Inr () \<longleftrightarrow>
     (\<exists>vk name key n s. entry_of reg d = Some (PublicKey vk name) \<and> decode_vk C vk = Inr key
        \<and> b64_decode C nonce = Some n \<and> length n = 32 \<and> b64_decode C sig = Some s \<and> length s = 64
        \<and> ed_verify_strict C key (n @ bytes_of d @ bytes_of room) s)"
proof -
  have "ed_key_ok C key" if "decode_vk C vk = Inr key" for vk key
    using that by (auto simp: decode_vk_def split: option.splits if_splits)
  then show ?thesis
    by (auto simp: verify_pubkey_def verify_signature_def split: option.splits entry.splits sum.splits)
qed

text \<open>
  The padding hash is itself the hash of a credential: whoever learns the start-up UUID is
  authenticated under a device id that is not registered. The comment on the field
  (\<open>never matches\<close>) holds only as far as the UUID cannot be guessed.
\<close>

lemma dummy_credential_accepted:
  "crypto_ok C \<Longrightarrow> verify C (registry_empty C u) (''ms-dummy-'' @ u) ''dummy'' = Inr ()"
  by (simp add: verify_entry registry_empty_def registry_new_def entry_of_def is_decoy_def
      new_dummy_hash_def crypto_okD)

text \<open>
  The signed bytes do not separate the device id from the room id, so a signature for one pair
  verifies for every pair with the same concatenation.
\<close>

lemma signature_binding_ambiguous:
  "d @ r = d' @ r' \<Longrightarrow> verify_signature C vk n d r s = verify_signature C vk n d' r' s"
proof -
  assume "d @ r = d' @ r'"
  then have "bytes_of d @ bytes_of r = bytes_of d' @ bytes_of r'" by (metis bytes_of_append)
  then show ?thesis by (auto simp: verify_signature_def split: sum.splits option.splits)
qed

end
