(* ===== verification/Roles.thy ===== *)
theory Roles
  imports Protocol
begin

text \<open>
  The authorization matrix, \<open>mediaservo-server/src/roles.rs\<close>: cockpit roles, account identities
  and the session identity every gate of the signaling server decides on. The gates return the
  denial text as the sources do (\<open>None\<close> or \<open>Inr ()\<close> means allowed).
\<close>

datatype cockpit_role = Viewer | Operator | Admin | Dispatcher

definition role_parse :: "string \<Rightarrow> cockpit_role option" where
  "role_parse s =
     (if s = ''viewer'' then Some Viewer
      else if s = ''operator'' then Some Operator
      else if s = ''admin'' then Some Admin
      else if s = ''dispatcher'' then Some Dispatcher
      else None)"

fun role_as_str :: "cockpit_role \<Rightarrow> string" where
  "role_as_str Viewer = ''viewer''"
| "role_as_str Operator = ''operator''"
| "role_as_str Admin = ''admin''"
| "role_as_str Dispatcher = ''dispatcher''"

fun can_pull :: "cockpit_role \<Rightarrow> string \<Rightarrow> string list \<Rightarrow> bool" where
  "can_pull Admin vehicle allowed = True"
| "can_pull Dispatcher vehicle allowed = True"
| "can_pull Viewer vehicle allowed = (\<exists>v\<in>set allowed. v = vehicle)"
| "can_pull Operator vehicle allowed = (\<exists>v\<in>set allowed. v = vehicle)"

definition role_can_control :: "cockpit_role \<Rightarrow> bool" where
  "role_can_control r = (r = Operator \<or> r = Admin)"

definition role_can_emergency :: "cockpit_role \<Rightarrow> bool" where
  "role_can_emergency r = (r = Operator \<or> r = Admin)"

definition role_can_config :: "cockpit_role \<Rightarrow> bool" where
  "role_can_config r = (r = Admin)"

definition role_can_status :: "cockpit_role \<Rightarrow> bool" where
  "role_can_status r = (r = Operator \<or> r = Admin \<or> r = Dispatcher)"

definition can_audio :: "cockpit_role \<Rightarrow> string \<Rightarrow> string list \<Rightarrow> bool" where
  "can_audio r vehicle allowed = can_pull r vehicle allowed"

record account_identity =
  ai_username :: string
  ai_role :: cockpit_role
  ai_vehicles :: "string list"

definition can_access_vehicle :: "account_identity \<Rightarrow> string \<Rightarrow> bool" where
  "can_access_vehicle a vehicle = can_pull (ai_role a) vehicle (ai_vehicles a)"

datatype session_identity = Device string | Account account_identity | Legacy

fun is_account :: "session_identity \<Rightarrow> bool" where
  "is_account (Account a) = True"
| "is_account (Device d) = False"
| "is_account Legacy = False"

fun who :: "session_identity \<Rightarrow> string" where
  "who (Account a) = ai_username a @ ''['' @ role_as_str (ai_role a) @ '']''"
| "who (Device d) = ''device:'' @ d"
| "who Legacy = ''legacy-psk''"

text \<open>\<open>mediaservo-server/src/sfu.rs\<close>: audio rooms are those with the \<open>audio-\<close> prefix.\<close>

definition is_audio_room :: "string \<Rightarrow> bool" where
  "is_audio_room room_id = starts_with room_id ''audio-''"

fun join_vehicle_room :: "session_identity \<Rightarrow> string option \<Rightarrow> string option" where
  "join_vehicle_room (Device d) room_owner =
     (case room_owner of
        None \<Rightarrow> None
      | Some owner \<Rightarrow>
          if owner = d then None
          else Some (''device '' @ d @ '' cannot join room owned by another vehicle '' @ owner))"
| "join_vehicle_room (Account a) room_owner =
     (case room_owner of
        None \<Rightarrow> None
      | Some owner \<Rightarrow>
          if can_access_vehicle a owner then None
          else Some (''account '' @ ai_username a @ '' role '' @ role_as_str (ai_role a)
                 @ '' has no access to vehicle '' @ owner))"
| "join_vehicle_room Legacy room_owner = None"

fun host_join_denied :: "session_identity \<Rightarrow> string option" where
  "host_join_denied (Account a) = Some ''cockpit accounts cannot join as host role''"
| "host_join_denied (Device d) = None"
| "host_join_denied Legacy = None"

fun sess_can_control :: "session_identity \<Rightarrow> bool" where
  "sess_can_control (Account a) = role_can_control (ai_role a)"
| "sess_can_control (Device d) = True"
| "sess_can_control Legacy = True"

fun can_produce :: "session_identity \<Rightarrow> string \<Rightarrow> string + unit" where
  "can_produce (Account a) room_id =
     (if is_audio_room room_id then Inr ()
      else Inl (''account '' @ ai_username a @ '' role '' @ role_as_str (ai_role a)
             @ '' cannot produce media (cockpit is consume-only)''))"
| "can_produce (Device d) room_id = Inr ()"
| "can_produce Legacy room_id = Inr ()"

fun can_consume :: "session_identity \<Rightarrow> string option \<Rightarrow> string + unit" where
  "can_consume (Account a) producer_owner =
     (case producer_owner of
        None \<Rightarrow> Inr ()
      | Some v \<Rightarrow>
          if can_access_vehicle a v then Inr ()
          else Inl (''account '' @ ai_username a @ '' role '' @ role_as_str (ai_role a)
                 @ '' has no access to vehicle '' @ v))"
| "can_consume (Device d) producer_owner = Inr ()"
| "can_consume Legacy producer_owner = Inr ()"

fun can_emergency :: "session_identity \<Rightarrow> string option \<Rightarrow> string + unit" where
  "can_emergency (Account a) room_owner =
     (if role_can_emergency (ai_role a) then
        (case room_owner of
           Some v \<Rightarrow>
             if can_access_vehicle a v then Inr ()
             else Inl (''account '' @ ai_username a @ '' role '' @ role_as_str (ai_role a)
                    @ '' has no access to vehicle '' @ v)
         | None \<Rightarrow> Inl ''vehicle room has no owner (vehicle offline)'')
      else Inl (''account '' @ ai_username a @ '' role '' @ role_as_str (ai_role a)
             @ '' cannot send emergency (operator/admin only)''))"
| "can_emergency (Device d) room_owner =
     Inl (''device '' @ d @ '' cannot send emergency (receiver side)'')"
| "can_emergency Legacy room_owner = Inr ()"

fun sess_can_config :: "session_identity \<Rightarrow> bool" where
  "sess_can_config (Account a) = role_can_config (ai_role a)"
| "sess_can_config (Device d) = False"
| "sess_can_config Legacy = False"

section \<open>Laws of the matrix\<close>

lemma role_parse_as_str [simp]: "role_parse (role_as_str r) = Some r"
  by (cases r) (simp_all add: role_parse_def)

lemma role_parse_Some: "role_parse s = Some r \<Longrightarrow> s = role_as_str r"
  by (auto simp: role_parse_def split: if_splits)

lemma role_parse_round_trip: "role_parse s = Some r \<longleftrightarrow> s = role_as_str r"
  by (auto dest: role_parse_Some)

lemma role_as_str_eq_iff [simp]: "role_as_str r = role_as_str r' \<longleftrightarrow> r = r'"
  by (metis option.inject role_parse_as_str)

lemma can_pull_iff [gate_simps]:
  "can_pull r v allowed \<longleftrightarrow> r \<in> {Admin, Dispatcher} \<or> v \<in> set allowed"
  by (cases r) auto

lemma can_consume_allowed [gate_simps]:
  "can_consume i owner = Inr () \<longleftrightarrow>
     (\<forall>a v. i = Account a \<and> owner = Some v \<longrightarrow> can_access_vehicle a v)"
  by (cases i) (auto split: option.splits)

lemma join_vehicle_room_allowed [gate_simps]:
  "join_vehicle_room i owner = None \<longleftrightarrow>
     (\<forall>v. owner = Some v \<longrightarrow> (\<forall>d. i = Device d \<longrightarrow> d = v) \<and> (\<forall>a. i = Account a \<longrightarrow> can_access_vehicle a v))"
  by (cases i) (auto split: option.splits)

lemma can_emergency_allowed [gate_simps]:
  "can_emergency i owner = Inr () \<longleftrightarrow>
     i = Legacy \<or> (\<exists>a v. i = Account a \<and> owner = Some v \<and> role_can_emergency (ai_role a)
                     \<and> can_access_vehicle a v)"
  by (cases i) (auto split: option.splits)

lemma can_produce_allowed [gate_simps]:
  "can_produce i room = Inr () \<longleftrightarrow> (\<forall>a. i = Account a \<longrightarrow> is_audio_room room)"
  by (cases i) auto

end
