(* ===== verification/Accounts.thy ===== *)
theory Accounts
  imports Devices Roles
begin

text \<open>
  The cockpit accounts, \<open>mediaservo-server/src/accounts.rs\<close>: login verification, the admin
  operations on accounts, loading and printing the accounts file, the start-up guards, and the
  claims of the token a login issues (\<open>JwtClaims\<close>, \<open>mediaservo-common/src/auth.rs\<close>). Signing is
  \<open>jsonwebtoken\<close>'s and a parameter of the component that verifies tokens.
\<close>

datatype account_auth_error = UnknownAccount | BadPassword

fun account_auth_message :: "account_auth_error \<Rightarrow> string" where
  "account_auth_message UnknownAccount = ''account authentication failed: invalid credentials''"
| "account_auth_message BadPassword = ''account authentication failed: invalid credentials''"

datatype account_reg_error =
  DuplicateAccount | NoSuchAccount | InvalidRole string | InvalidVehicles string

record account_view =
  av_username :: string
  av_role :: string
  av_vehicles :: "string list"

record account_entry_file =
  af_password_hash :: string
  af_role :: string
  af_vehicles :: "string list"

record account_entry =
  ae_password_hash :: string
  ae_role :: cockpit_role
  ae_vehicles :: "string list"

type_synonym account_registry = "(string, account_entry) dmap"

definition accounts_empty :: account_registry where
  "accounts_empty = []"

definition zero_hash :: string where
  "zero_hash = ''sha256:'' @ replicate 64 (CHR ''0'')"

text \<open>
  Indexing the table with an unknown name panics; the result type has that outcome apart from
  the errors.
\<close>

datatype 'a outcome = Returns 'a | Panics

definition accounts_verify ::
  "crypto \<Rightarrow> account_registry \<Rightarrow> string \<Rightarrow> string \<Rightarrow> (account_auth_error + account_identity) outcome" where
  "accounts_verify C reg username password =
     (let known = dm_contains reg username;
          stored = (case dm_get reg username of Some e \<Rightarrow> ae_password_hash e | None \<Rightarrow> zero_hash);
          want = hash_password C username password;
          matched = slice_ct_eq C (bytes_of stored) (bytes_of want)
      in if matched then
           (case dm_get reg username of
              Some e \<Rightarrow> Returns (Inr \<lparr>ai_username = username, ai_role = ae_role e, ai_vehicles = ae_vehicles e\<rparr>)
            | None \<Rightarrow> Panics)
         else if known then Returns (Inl BadPassword)
         else Returns (Inl UnknownAccount))"

definition accounts_authenticate ::
  "crypto \<Rightarrow> account_registry \<Rightarrow> string \<Rightarrow> string \<Rightarrow> (account_auth_error + account_identity) outcome" where
  "accounts_authenticate C reg username password = accounts_verify C reg username password"

definition parse_account :: "string \<Rightarrow> account_entry_file \<Rightarrow> string + account_entry" where
  "parse_account username e =
     (if \<not> starts_with (af_password_hash e) ''sha256:''
      then Inl (''account '' @ username @ '': unsupported password_hash scheme (want sha256:)'')
      else if length (af_password_hash e) \<noteq> length ''sha256:'' + 64
      then Inl (''account '' @ username @ '': malformed sha256 hex length'')
      else (case role_parse (af_role e) of
              None \<Rightarrow> Inl (''account '' @ username @ '': unknown role '' @ debug_str (af_role e)
                        @ '' (want viewer|operator|admin|dispatcher)'')
            | Some role \<Rightarrow>
                Inr \<lparr>ae_password_hash = af_password_hash e, ae_role = role, ae_vehicles = af_vehicles e\<rparr>))"

definition accounts_from_yaml ::
  "(string \<Rightarrow> string + (string, account_entry_file) dmap) \<Rightarrow> string \<Rightarrow> string + account_registry" where
  "accounts_from_yaml yaml_parse content =
     (case yaml_parse content of
        Inl e \<Rightarrow> Inl (''YAML parse error: '' @ e)
      | Inr parsed \<Rightarrow> load_entries parse_account parsed [])"

text \<open>What reading the file can give: its text, the not-found error, another error with its text.\<close>

datatype file_read = Content string | NotFound | ReadError string

definition accounts_load ::
  "(string \<Rightarrow> string + (string, account_entry_file) dmap) \<Rightarrow> string \<Rightarrow> file_read \<Rightarrow>
     core_error + account_registry" where
  "accounts_load yaml_parse path rd =
     (case rd of
        NotFound \<Rightarrow> Inr accounts_empty
      | ReadError e \<Rightarrow> Inl (ConfigParse (''accounts file '' @ path @ '': '' @ e))
      | Content c \<Rightarrow>
          (case accounts_from_yaml yaml_parse c of
             Inl e \<Rightarrow> Inl (ConfigParse (''accounts file '' @ path @ '': '' @ e))
           | Inr reg \<Rightarrow> Inr reg))"

definition account_file_entry :: "account_entry \<Rightarrow> account_entry_file" where
  "account_file_entry e =
     \<lparr>af_password_hash = ae_password_hash e, af_role = role_as_str (ae_role e), af_vehicles = ae_vehicles e\<rparr>"

definition accounts_to_yaml :: "((string, account_entry_file) dmap \<Rightarrow> string) \<Rightarrow> account_registry \<Rightarrow> string" where
  "accounts_to_yaml yaml_print reg = yaml_print (map (\<lambda>(u, e). (u, account_file_entry e)) reg)"

definition accounts_save ::
  "((string, account_entry_file) dmap \<Rightarrow> string) \<Rightarrow> account_registry \<Rightarrow> fs \<Rightarrow> string \<Rightarrow> io_fault \<Rightarrow> fs \<times> bool" where
  "accounts_save yaml_print reg files path fault = atomic_save files path (accounts_to_yaml yaml_print reg) fault"

section \<open>Management operations\<close>

definition is_ascii_alphanumeric :: "char \<Rightarrow> bool" where
  "is_ascii_alphanumeric c =
     (let n = of_char c :: nat
      in (48 \<le> n \<and> n \<le> 57) \<or> (65 \<le> n \<and> n \<le> 90) \<or> (97 \<le> n \<and> n \<le> 122))"

text \<open>1 to 64 characters from \<open>[A-Za-z0-9-_]\<close>.\<close>

definition ident_ok :: "string \<Rightarrow> bool" where
  "ident_ok v =
     (v \<noteq> [] \<and> length v \<le> 64 \<and>
      list_all (\<lambda>c. is_ascii_alphanumeric c \<or> c = CHR ''-'' \<or> c = CHR ''_'') v)"

definition validate_vehicles :: "string list \<Rightarrow> account_reg_error + unit" where
  "validate_vehicles vehicles =
     (if list_ex (\<lambda>v. \<not> ident_ok v) vehicles
      then Inl (InvalidVehicles ''vehicles: each item 1-64 chars [A-Za-z0-9-_]'')
      else Inr ())"

definition create_account ::
  "crypto \<Rightarrow> account_registry \<Rightarrow> string \<Rightarrow> string \<Rightarrow> string \<Rightarrow> string list \<Rightarrow>
     account_reg_error + account_registry" where
  "create_account C reg username password role vehicles =
     (case role_parse role of
        None \<Rightarrow> Inl (InvalidRole role)
      | Some r \<Rightarrow>
          (case validate_vehicles vehicles of
             Inl e \<Rightarrow> Inl e
           | Inr _ \<Rightarrow>
               if dm_contains reg username then Inl DuplicateAccount
               else Inr (dm_insert username
                      \<lparr>ae_password_hash = hash_password C username password, ae_role = r,
                       ae_vehicles = vehicles\<rparr> reg)))"

definition update_entry ::
  "crypto \<Rightarrow> string \<Rightarrow> cockpit_role option \<Rightarrow> string list option \<Rightarrow> string option \<Rightarrow>
     account_entry \<Rightarrow> account_entry" where
  "update_entry C username role vehicles new_password e =
     \<lparr>ae_password_hash = (case new_password of
                           Some p \<Rightarrow> hash_password C username p | None \<Rightarrow> ae_password_hash e),
      ae_role = unwrap_or role (ae_role e),
      ae_vehicles = unwrap_or vehicles (ae_vehicles e)\<rparr>"

definition update_account ::
  "crypto \<Rightarrow> account_registry \<Rightarrow> string \<Rightarrow> string option \<Rightarrow> string list option \<Rightarrow> string option \<Rightarrow>
     account_reg_error + account_registry" where
  "update_account C reg username role vehicles new_password =
     (case (case role of
              None \<Rightarrow> Inr None
            | Some r \<Rightarrow> (case role_parse r of None \<Rightarrow> Inl (InvalidRole r) | Some x \<Rightarrow> Inr (Some x))) of
        Inl e \<Rightarrow> Inl e
      | Inr r \<Rightarrow>
          (case (case vehicles of None \<Rightarrow> Inr () | Some v \<Rightarrow> validate_vehicles v) of
             Inl e \<Rightarrow> Inl e
           | Inr _ \<Rightarrow>
               if dm_contains reg username
               then Inr (dm_modify username (update_entry C username r vehicles new_password) reg)
               else Inl NoSuchAccount))"

definition delete_account :: "account_registry \<Rightarrow> string \<Rightarrow> account_registry \<times> (account_reg_error + unit)" where
  "delete_account reg username =
     (dm_remove username reg, if dm_contains reg username then Inr () else Inl NoSuchAccount)"

definition list_accounts :: "account_registry \<Rightarrow> account_view list" where
  "list_accounts reg =
     sort_key av_username
       (map (\<lambda>(u, e). \<lparr>av_username = u, av_role = role_as_str (ae_role e), av_vehicles = ae_vehicles e\<rparr>) reg)"

section \<open>Start-up guards and token claims\<close>

definition DEV_CREDENTIAL_HASHES :: "(string \<times> string) list" where
  "DEV_CREDENTIAL_HASHES =
     [(''admin'', ''sha256:bf6b5bdb74c79ece9fc0ad0ac9fb0359f9555d4f35a83b2e6ec69ae99e09603d''),
      (''dispatcher'', ''sha256:51f00e625e5fb3aff1c5a55eff96d1f2f03273afd8b0bc2514961e33dd82f8b2''),
      (''operator'', ''sha256:21cfc6b0fe8e257247937406f1ee83ae8acd3dc447c38b8431abecaf6d7ea437'')]"

definition dev_credentials_present :: "account_registry \<Rightarrow> string list" where
  "dev_credentials_present reg =
     map fst (filter (\<lambda>(u, hash). list_ex (\<lambda>(k, e). ae_password_hash e = hash) reg) DEV_CREDENTIAL_HASHES)"

text \<open>The error value is the list of the names found; the source prints it into a fixed text.\<close>

definition check_dev_credentials :: "account_registry \<Rightarrow> bool \<Rightarrow> string list + unit" where
  "check_dev_credentials reg allow_dev =
     (let found = dev_credentials_present reg
      in if found = [] \<or> allow_dev then Inr () else Inl found)"

record jwt_claims =
  jc_sub :: string
  jc_iat :: u64
  jc_exp :: u64
  jc_role :: "string option"
  jc_vehicles :: "string list option"

text \<open>\<open>usize\<close> addition of the release profile wraps.\<close>

definition account_claims :: "account_identity \<Rightarrow> u64 \<Rightarrow> u64 \<Rightarrow> jwt_claims" where
  "account_claims identity now ttl_secs =
     \<lparr>jc_sub = ai_username identity, jc_iat = now, jc_exp = now + ttl_secs,
      jc_role = Some (role_as_str (ai_role identity)), jc_vehicles = Some (ai_vehicles identity)\<rparr>"

definition validate_secret_pairing :: "bool \<Rightarrow> string option \<Rightarrow> string option \<Rightarrow> bool" where
  "validate_secret_pairing accounts_configured jwt_secret admin_jwt_secret =
     (if \<not> accounts_configured then True
      else case (jwt_secret, admin_jwt_secret) of
             (Some a, Some b) \<Rightarrow> \<not> a \<noteq> b
           | _ \<Rightarrow> True)"

section \<open>Laws\<close>

datatype account_op =
    AccCreate string string string "string list"
  | AccUpdate string "string option" "string list option" "string option"
  | AccDelete string

fun account_subject :: "account_op \<Rightarrow> string" where
  "account_subject (AccCreate u p r v) = u"
| "account_subject (AccUpdate u r v p) = u"
| "account_subject (AccDelete u) = u"

fun is_delete :: "account_op \<Rightarrow> bool" where
  "is_delete (AccDelete u) = True"
| "is_delete _ = False"

fun account_step :: "crypto \<Rightarrow> account_registry \<Rightarrow> account_op \<Rightarrow> account_registry" where
  "account_step C reg (AccCreate u p r v) =
     (case create_account C reg u p r v of Inl e \<Rightarrow> reg | Inr reg' \<Rightarrow> reg')"
| "account_step C reg (AccUpdate u r v p) =
     (case update_account C reg u r v p of Inl e \<Rightarrow> reg | Inr reg' \<Rightarrow> reg')"
| "account_step C reg (AccDelete u) = fst (delete_account reg u)"

lemmas account_op_defs = create_account_def update_account_def delete_account_def

definition acc_accepts :: "crypto \<Rightarrow> account_registry \<Rightarrow> string \<Rightarrow> string \<Rightarrow> bool" where
  "acc_accepts C reg u p = (\<exists>i. accounts_authenticate C reg u p = Returns (Inr i))"

lemma account_step_frame:
  "u \<noteq> account_subject op \<Longrightarrow> dm_get (account_step C reg op) u = dm_get reg u"
  by (cases op) (auto simp: account_op_defs split: option.splits sum.splits)

lemma authenticate_entry:
  "accounts_authenticate C reg u p =
     (case dm_get reg u of
        Some e \<Rightarrow>
          if slice_ct_eq C (bytes_of (ae_password_hash e)) (bytes_of (hash_password C u p))
          then Returns (Inr \<lparr>ai_username = u, ai_role = ae_role e, ai_vehicles = ae_vehicles e\<rparr>)
          else Returns (Inl BadPassword)
      | None \<Rightarrow>
          if slice_ct_eq C (bytes_of zero_hash) (bytes_of (hash_password C u p)) then Panics
          else Returns (Inl UnknownAccount))"
  by (auto simp: accounts_authenticate_def accounts_verify_def Let_def dm_contains_def split: option.splits)

interpretation accounts: credential_store "acc_accepts C" dm_contains "account_step C"
    account_subject is_delete "\<lambda>reg u p. False" for C
proof unfold_locales
  fix i op p and s :: account_registry
  assume "i \<noteq> account_subject op"
  then have "dm_get (account_step C s op) i = dm_get s i" by (rule account_step_frame)
  then show "acc_accepts C (account_step C s op) i p = acc_accepts C s i p"
    and "dm_contains (account_step C s op) i = dm_contains s i"
    by (simp_all add: acc_accepts_def dm_contains_def authenticate_entry)
next
  fix op and s :: account_registry
  assume "is_delete op"
  then show "\<not> dm_contains (account_step C s op) (account_subject op)"
    by (cases op) (auto simp: delete_account_def)
next
  fix i p and s :: account_registry
  assume "\<not> dm_contains s i"
  then show "\<not> acc_accepts C s i p" by (simp add: dm_contains_def acc_accepts_def authenticate_entry)
qed simp_all

lemma account_run_get:
  "u \<notin> account_subject ` set ops \<Longrightarrow> dm_get (foldl (account_step C) reg ops) u = dm_get reg u"
  by (induction ops arbitrary: reg) (auto simp: account_step_frame)

lemma authenticate_stored:
  "crypto_ok C \<Longrightarrow> dm_get reg u = Some e \<Longrightarrow>
     accounts_authenticate C reg u p =
       (if hash_password C u p = ae_password_hash e
        then Returns (Inr \<lparr>ai_username = u, ai_role = ae_role e, ai_vehicles = ae_vehicles e\<rparr>)
        else Returns (Inl BadPassword))"
  by (auto simp: authenticate_entry crypto_okD)

lemma create_account_ok:
  "create_account C reg u p r v = Inr reg' \<longleftrightarrow>
     (\<exists>role. r = role_as_str role \<and> list_all ident_ok v \<and> dm_get reg u = None \<and>
        reg' = dm_insert u \<lparr>ae_password_hash = hash_password C u p, ae_role = role, ae_vehicles = v\<rparr> reg)"
  by (auto simp: create_account_def validate_vehicles_def dm_contains_def list_ex_iff list_all_iff
      role_parse_round_trip split: option.splits dest: role_parse_Some)

text \<open>
  Logging in. Barring a password whose hash is all zeros, a login returns for every input
  and grants an identity exactly if the account exists and the password hashes to the stored
  hash; the identity is the requested name with the stored role and vehicle list, nothing else.
  Every refusal shows one text. An account created with a valid role and valid vehicles logs in
  with its password and gets that role and those vehicles, through any later operations on other
  accounts; after its deletion no password logs in.
\<close>

theorem account_login:
  assumes ok: "crypto_ok C" and nz: "\<forall>u p. hash_password C u p \<noteq> zero_hash"
  shows "(\<exists>r. accounts_authenticate C reg u p = Returns r)
   \<and> (accounts_authenticate C reg u p = Returns (Inr i) \<longleftrightarrow>
        (\<exists>e. dm_get reg u = Some e \<and> ae_password_hash e = hash_password C u p
           \<and> i = \<lparr>ai_username = u, ai_role = ae_role e, ai_vehicles = ae_vehicles e\<rparr>))
   \<and> (\<forall>e. accounts_authenticate C reg u p = Returns (Inl e) \<longrightarrow>
        account_auth_message e = ''account authentication failed: invalid credentials'')
   \<and> (\<forall>role v reg' ops. create_account C reg u p (role_as_str role) v = Inr reg' \<and> u \<notin> account_subject ` set ops \<longrightarrow>
        accounts_authenticate C (foldl (account_step C) reg' ops) u p =
          Returns (Inr \<lparr>ai_username = u, ai_role = role, ai_vehicles = v\<rparr>))
   \<and> (\<forall>ops q j. u \<notin> account_subject ` set ops \<longrightarrow>
        accounts_authenticate C (foldl (account_step C) (fst (delete_account reg u)) ops) u q \<noteq> Returns (Inr j))"
proof (intro conjI allI impI)
  show "\<exists>r. accounts_authenticate C reg u p = Returns r"
    using nz by (auto simp: authenticate_entry crypto_okD [OF ok] split: option.splits dest!: sym [of zero_hash])
  show "accounts_authenticate C reg u p = Returns (Inr i) \<longleftrightarrow>
      (\<exists>e. dm_get reg u = Some e \<and> ae_password_hash e = hash_password C u p
         \<and> i = \<lparr>ai_username = u, ai_role = ae_role e, ai_vehicles = ae_vehicles e\<rparr>)"
    by (auto simp: authenticate_entry crypto_okD [OF ok] split: option.splits)
next
  fix e
  show "account_auth_message e = ''account authentication failed: invalid credentials''" by (cases e) auto
next
  fix role v reg' ops
  assume a: "create_account C reg u p (role_as_str role) v = Inr reg' \<and> u \<notin> account_subject ` set ops"
  then have "reg' = dm_insert u \<lparr>ae_password_hash = hash_password C u p, ae_role = role, ae_vehicles = v\<rparr> reg"
    by (auto simp: create_account_ok dest: arg_cong [where f = role_parse])
  then have "dm_get (foldl (account_step C) reg' ops) u =
      Some \<lparr>ae_password_hash = hash_password C u p, ae_role = role, ae_vehicles = v\<rparr>"
    using a account_run_get [of u ops C reg'] by simp
  then show "accounts_authenticate C (foldl (account_step C) reg' ops) u p =
      Returns (Inr \<lparr>ai_username = u, ai_role = role, ai_vehicles = v\<rparr>)"
    by (simp add: authenticate_stored [OF ok])
next
  fix ops q j
  assume "u \<notin> account_subject ` set ops"
  then show "accounts_authenticate C (foldl (account_step C) (fst (delete_account reg u)) ops) u q \<noteq> Returns (Inr j)"
    using accounts.removed_stays_out [of "AccDelete u" ops C reg q] by (auto simp: acc_accepts_def)
qed

definition login_crypto :: crypto where
  "login_crypto = demo_crypto\<lparr>sha256 := (\<lambda>bs. take 31 (bs @ replicate 31 0) @ [1])\<rparr>"

lemma login_crypto_ok: "crypto_ok login_crypto" "hash_password login_crypto u p \<noteq> zero_hash"
proof -
  show "crypto_ok login_crypto"
    by (auto simp: crypto_ok_def login_crypto_def demo_crypto_def min_def)
  have "hex_encode (xs @ [1 :: u8]) \<noteq> replicate 64 (CHR ''0'')" for xs
  proof
    assume "hex_encode (xs @ [1]) = replicate 64 (CHR ''0'')"
    then have "last (hex_encode (xs @ [1])) = CHR ''0''" by simp
    then show False by (simp add: hex_encode_def hex_byte_def hex_digit_def char_of_def)
  qed
  then show "hash_password login_crypto u p \<noteq> zero_hash"
    unfolding hash_password_def zero_hash_def login_crypto_def same_append_eq
    by (simp del: append_assoc take_append)
qed

theorem account_login_witness:
  "accounts_authenticate login_crypto
     (dm_insert ''eve'' \<lparr>ae_password_hash = hash_password login_crypto ''eve'' ''pw'', ae_role = Operator,
        ae_vehicles = [''car'']\<rparr> []) ''eve'' ''pw'' =
   Returns (Inr \<lparr>ai_username = ''eve'', ai_role = Operator, ai_vehicles = [''car'']\<rparr>)"
proof -
  have "create_account login_crypto [] ''eve'' ''pw'' (role_as_str Operator) [''car''] =
      Inr (dm_insert ''eve'' \<lparr>ae_password_hash = hash_password login_crypto ''eve'' ''pw'', ae_role = Operator,
        ae_vehicles = [''car'']\<rparr> [])"
    by (simp add: create_account_def role_parse_def validate_vehicles_def ident_ok_def
        is_ascii_alphanumeric_def dm_contains_def)
  with account_login [OF login_crypto_ok(1), of "[]" "''eve''" "''pw''",
      THEN conjunct2, THEN conjunct2, THEN conjunct2, THEN conjunct1, rule_format, of Operator "[''car'']" _ "[]"]
  show ?thesis by (simp add: login_crypto_ok(2))
qed

end
