(* ===== verification/ApiKeys.thy ===== *)
theory ApiKeys
  imports Accounts
begin

text \<open>
  API keys, \<open>mediaservo-server/src/apikeys.rs\<close>: the key registry, its file, the exchange of a key
  for a token and the claims of that token.
\<close>

definition valid_key_id :: "string \<Rightarrow> bool" where
  "valid_key_id i =
     (i \<noteq> [] \<and> length i \<le> 64 \<and>
      list_all (\<lambda>c. is_ascii_alphanumeric c \<or> c = CHR ''-'' \<or> c = CHR ''_'') i)"

record api_file_entry =
  kf_secret_hash :: string
  kf_role :: string
  kf_vehicles :: "string list option"
  kf_label :: "string option"

record api_key_entry =
  ke_secret_hash :: "u8 list"
  ke_role :: cockpit_role
  ke_vehicles :: "string list"
  ke_label :: "string option"

record api_key_registry =
  kr_keys :: "(string, api_key_entry) dmap"
  kr_dummy_hash :: "u8 list"

datatype api_key_reg_error = DuplicateKey | NoSuchKey | InvalidKey string

datatype api_key_auth_error = UnknownKey | BadKeySecret

definition api_key_auth_message :: "api_key_auth_error \<Rightarrow> string" where
  "api_key_auth_message e = ''api key authentication failed: invalid credentials''"

text \<open>\<open>u8::is_ascii_hexdigit\<close> accepts what \<open>to_digit(16)\<close> accepts.\<close>

definition decode_hash :: "string \<Rightarrow> u8 list option" where
  "decode_hash s =
     (case strip_prefix s ''sha256:'' of
        None \<Rightarrow> None
      | Some h \<Rightarrow>
          if length h \<noteq> 64 \<or> \<not> list_all (\<lambda>c. to_digit16 c \<noteq> None) h then None
          else collect_options
                 (map (\<lambda>chunk. case (to_digit16 (chunk ! 0), to_digit16 (chunk ! 1)) of
                                 (Some hi, Some lo) \<Rightarrow> Some (of_nat (hi * 16 + lo) :: u8)
                               | _ \<Rightarrow> None)
                    (chunks2 h)))"

text \<open>The decoded hash of a secret; \<open>expect\<close> panics if it cannot be decoded.\<close>

definition apikeys_dummy_hash :: "crypto \<Rightarrow> string \<Rightarrow> u8 list option" where
  "apikeys_dummy_hash C uuid = decode_hash (hash_secret C (''apikey-dummy-'' @ uuid) ''dummy'')"

definition apikeys_empty :: "u8 list \<Rightarrow> api_key_registry" where
  "apikeys_empty dummy = \<lparr>kr_keys = [], kr_dummy_hash = dummy\<rparr>"

definition parse_api_key :: "string \<Rightarrow> api_file_entry \<Rightarrow> core_error + api_key_entry" where
  "parse_api_key i fe =
     (if \<not> valid_key_id i then Inl (ConfigParse (''api_keys: invalid key_id '' @ debug_str i))
      else (case role_parse (kf_role fe) of
              None \<Rightarrow> Inl (ConfigParse (''api_keys['' @ i @ '']: role '' @ debug_str (kf_role fe)
                        @ '' not in viewer|operator|admin|dispatcher''))
            | Some role \<Rightarrow>
                (case decode_hash (kf_secret_hash fe) of
                   None \<Rightarrow> Inl (ConfigParse (''api_keys['' @ i @ '']: bad secret_hash''))
                 | Some hash \<Rightarrow>
                     Inr \<lparr>ke_secret_hash = hash, ke_role = role,
                          ke_vehicles = unwrap_or (kf_vehicles fe) [], ke_label = kf_label fe\<rparr>)))"

definition apikeys_from_yaml ::
  "(string \<Rightarrow> string + (string, api_file_entry) dmap) \<Rightarrow> u8 list \<Rightarrow> string \<Rightarrow> core_error + api_key_registry" where
  "apikeys_from_yaml yaml_parse dummy content =
     (case yaml_parse content of
        Inl e \<Rightarrow> Inl (ConfigParse (''api_keys yaml: '' @ e))
      | Inr parsed \<Rightarrow>
          (case load_entries parse_api_key parsed [] of
             Inl e \<Rightarrow> Inl e
           | Inr keys \<Rightarrow> Inr \<lparr>kr_keys = keys, kr_dummy_hash = dummy\<rparr>))"

definition apikeys_load ::
  "(string \<Rightarrow> string + (string, api_file_entry) dmap) \<Rightarrow> u8 list \<Rightarrow> string + string \<Rightarrow>
     core_error + api_key_registry" where
  "apikeys_load yaml_parse dummy rd =
     (case rd of
        Inl e \<Rightarrow> Inl (ConfigParse (''api_keys file: '' @ e))
      | Inr content \<Rightarrow> apikeys_from_yaml yaml_parse dummy content)"

definition api_file_entry_of :: "api_key_entry \<Rightarrow> api_file_entry" where
  "api_file_entry_of e =
     \<lparr>kf_secret_hash = ''sha256:'' @ hex_encode (ke_secret_hash e), kf_role = role_as_str (ke_role e),
      kf_vehicles = (if ke_vehicles e = [] then None else Some (ke_vehicles e)), kf_label = ke_label e\<rparr>"

definition apikeys_to_yaml :: "((string, api_file_entry) dmap \<Rightarrow> string) \<Rightarrow> api_key_registry \<Rightarrow> string" where
  "apikeys_to_yaml yaml_print reg = yaml_print (map (\<lambda>(i, e). (i, api_file_entry_of e)) (kr_keys reg))"

definition apikeys_save ::
  "((string, api_file_entry) dmap \<Rightarrow> string) \<Rightarrow> api_key_registry \<Rightarrow> fs \<Rightarrow> string \<Rightarrow> io_fault \<Rightarrow> fs \<times> bool" where
  "apikeys_save yaml_print reg files path fault = atomic_save files path (apikeys_to_yaml yaml_print reg) fault"

definition apikeys_register ::
  "crypto \<Rightarrow> string \<Rightarrow> api_key_registry \<Rightarrow> string \<Rightarrow> string \<Rightarrow> string list \<Rightarrow> string option \<Rightarrow>
     (api_key_reg_error + (api_key_registry \<times> string)) outcome" where
  "apikeys_register C uuid reg key_id role vehicles label =
     (if \<not> valid_key_id key_id then Returns (Inl (InvalidKey ''key_id: 1-64 chars [A-Za-z0-9-_]''))
      else (case role_parse role of
              None \<Rightarrow> Returns (Inl (InvalidKey ''role: viewer|operator|admin|dispatcher''))
            | Some r \<Rightarrow>
                (case decode_hash (hash_secret C key_id uuid) of
                   None \<Rightarrow> Panics
                 | Some hash \<Rightarrow>
                     if dm_contains (kr_keys reg) key_id then Returns (Inl DuplicateKey)
                     else Returns (Inr
                       (reg\<lparr>kr_keys := dm_insert key_id
                              \<lparr>ke_secret_hash = hash, ke_role = r, ke_vehicles = vehicles, ke_label = label\<rparr>
                              (kr_keys reg)\<rparr>, uuid)))))"

definition apikeys_revoke :: "api_key_registry \<Rightarrow> string \<Rightarrow> api_key_registry \<times> (api_key_reg_error + unit)" where
  "apikeys_revoke reg key_id =
     (reg\<lparr>kr_keys := dm_remove key_id (kr_keys reg)\<rparr>,
      if dm_contains (kr_keys reg) key_id then Inr () else Inl NoSuchKey)"

text \<open>The tuples are sorted; as the ids are distinct this is the order of the ids.\<close>

definition apikeys_list ::
  "api_key_registry \<Rightarrow> (string \<times> string \<times> string list \<times> string option) list" where
  "apikeys_list reg =
     sort_key fst (map (\<lambda>(i, e). (i, role_as_str (ke_role e), ke_vehicles e, ke_label e)) (kr_keys reg))"

definition apikeys_verify ::
  "crypto \<Rightarrow> api_key_registry \<Rightarrow> string \<Rightarrow> string \<Rightarrow> api_key_auth_error + api_key_entry" where
  "apikeys_verify C reg key_id secret =
     (let provided = unwrap_or (decode_hash (hash_secret C key_id secret)) (replicate 32 0)
      in case dm_get (kr_keys reg) key_id of
           Some e \<Rightarrow> if slice_ct_eq C (ke_secret_hash e) provided then Inr e else Inl BadKeySecret
         | None \<Rightarrow> Inl UnknownKey)"

definition api_claims :: "string \<Rightarrow> api_key_entry \<Rightarrow> u64 \<Rightarrow> u64 \<Rightarrow> jwt_claims" where
  "api_claims key_id e now ttl_secs =
     \<lparr>jc_sub = ''apikey:'' @ key_id, jc_iat = now, jc_exp = now + ttl_secs,
      jc_role = Some (role_as_str (ke_role e)), jc_vehicles = Some (ke_vehicles e)\<rparr>"

section \<open>Laws\<close>

lemma length_chunks2: "length (chunks2 xs) = (length xs + 1) div 2"
  by (induction xs rule: chunks2.induct) auto

lemma decode_hash_encode: "length bs = 32 \<Longrightarrow> decode_hash (''sha256:'' @ hex_encode bs) = Some bs"
proof -
  assume len: "length bs = 32"
  have "collect_options (map (\<lambda>b. case (to_digit16 (hex_byte b ! 0), to_digit16 (hex_byte b ! 1)) of
            (Some hi, Some lo) \<Rightarrow> Some (of_nat (hi * 16 + lo) :: u8) | _ \<Rightarrow> None) xs) = Some xs" for xs
    by (induction xs) (auto simp: hex_byte_def u8_div16)
  moreover have "list_all (\<lambda>c. to_digit16 c \<noteq> None) (hex_encode bs)"
    using is_hex_of_encode by (auto simp: list_all_iff)
  ultimately show ?thesis
    using len by (simp add: decode_hash_def strip_prefix_def starts_with_def chunks2_hex_encode o_def)
qed

lemma decode_hash_secret:
  "crypto_ok C \<Longrightarrow> decode_hash (hash_secret C i s) =
     Some (sha256 C (bytes_of i @ [byte_of (CHR '':'')] @ bytes_of s))"
  unfolding hash_secret_def by (rule decode_hash_encode) (simp add: crypto_okD)

definition key_digest :: "crypto \<Rightarrow> string \<Rightarrow> string \<Rightarrow> u8 list" where
  "key_digest C i s = sha256 C (bytes_of i @ [byte_of (CHR '':'')] @ bytes_of s)"

lemma apikeys_verify_digest:
  "crypto_ok C \<Longrightarrow> apikeys_verify C reg i s =
     (case dm_get (kr_keys reg) i of
        Some e \<Rightarrow> if ke_secret_hash e = key_digest C i s then Inr e else Inl BadKeySecret
      | None \<Rightarrow> Inl UnknownKey)"
  by (auto simp: apikeys_verify_def decode_hash_secret key_digest_def crypto_okD split: option.splits)

datatype api_key_op =
    KeyRegister string string "string list" "string option" string
  | KeyRevoke string

fun key_subject :: "api_key_op \<Rightarrow> string" where
  "key_subject (KeyRegister i r v l u) = i"
| "key_subject (KeyRevoke i) = i"

fun is_key_revoke :: "api_key_op \<Rightarrow> bool" where
  "is_key_revoke (KeyRevoke i) = True"
| "is_key_revoke _ = False"

fun key_step :: "crypto \<Rightarrow> api_key_registry \<Rightarrow> api_key_op \<Rightarrow> api_key_registry" where
  "key_step C reg (KeyRegister i r v l u) =
     (case apikeys_register C u reg i r v l of Returns (Inr (reg', s)) \<Rightarrow> reg' | _ \<Rightarrow> reg)"
| "key_step C reg (KeyRevoke i) = fst (apikeys_revoke reg i)"

definition key_accepts :: "crypto \<Rightarrow> api_key_registry \<Rightarrow> string \<Rightarrow> string \<Rightarrow> bool" where
  "key_accepts C reg i s = (\<exists>e. apikeys_verify C reg i s = Inr e)"

lemma key_step_frame:
  "i \<noteq> key_subject op \<Longrightarrow> dm_get (kr_keys (key_step C reg op)) i = dm_get (kr_keys reg) i"
  by (cases op) (auto simp: apikeys_register_def apikeys_revoke_def split: option.splits)

interpretation apikeys: credential_store "key_accepts C" "\<lambda>reg. dm_contains (kr_keys reg)" "key_step C"
    key_subject is_key_revoke "\<lambda>reg i s. False" for C
proof unfold_locales
  fix i op p and s :: api_key_registry
  assume "i \<noteq> key_subject op"
  then have "dm_get (kr_keys (key_step C s op)) i = dm_get (kr_keys s) i" by (rule key_step_frame)
  then show "key_accepts C (key_step C s op) i p = key_accepts C s i p"
    and "dm_contains (kr_keys (key_step C s op)) i = dm_contains (kr_keys s) i"
    by (simp_all add: key_accepts_def dm_contains_def apikeys_verify_def)
next
  fix op and s :: api_key_registry
  assume "is_key_revoke op"
  then show "\<not> dm_contains (kr_keys (key_step C s op)) (key_subject op)"
    by (cases op) (auto simp: apikeys_revoke_def)
next
  fix i p and s :: api_key_registry
  assume "\<not> dm_contains (kr_keys s) i"
  then show "\<not> key_accepts C s i p" by (simp add: dm_contains_def key_accepts_def apikeys_verify_def)
qed simp_all

lemma key_run_get:
  "i \<notin> key_subject ` set ops \<Longrightarrow> dm_get (kr_keys (foldl (key_step C) reg ops)) i = dm_get (kr_keys reg) i"
  by (induction ops arbitrary: reg) (auto simp: key_step_frame)

lemma parse_api_key_file:
  "valid_key_id i \<Longrightarrow> length (ke_secret_hash e) = 32 \<Longrightarrow> parse_api_key i (api_file_entry_of e) = Inr e"
  using decode_hash_encode [of "ke_secret_hash e"] by (simp add: parse_api_key_def api_file_entry_of_def)

lemma apikeys_register_ok:
  "crypto_ok C \<Longrightarrow> apikeys_register C u reg i r v l = Returns (Inr (reg', s)) \<longleftrightarrow>
     (\<exists>role. r = role_as_str role \<and> valid_key_id i \<and> dm_get (kr_keys reg) i = None \<and> s = u \<and>
        reg' = reg\<lparr>kr_keys := dm_insert i
          \<lparr>ke_secret_hash = key_digest C i u, ke_role = role, ke_vehicles = v, ke_label = l\<rparr> (kr_keys reg)\<rparr>)"
  by (auto simp: apikeys_register_def decode_hash_secret key_digest_def dm_contains_def
      role_parse_round_trip split: option.splits dest: role_parse_Some)

definition api_keys_inv :: "api_key_registry \<Rightarrow> bool" where
  "api_keys_inv reg = (dm_wf (kr_keys reg) \<and>
     (\<forall>k e. (k, e) \<in> set (kr_keys reg) \<longrightarrow> valid_key_id k \<and> length (ke_secret_hash e) = 32))"

lemma key_step_inv: "crypto_ok C \<Longrightarrow> api_keys_inv reg \<Longrightarrow> api_keys_inv (key_step C reg op)"
  by (cases op)
    (auto simp: api_keys_inv_def apikeys_register_def apikeys_revoke_def decode_hash_secret crypto_okD
      dm_set_remove dest!: dm_insert_elem split: option.splits)

lemma key_run_inv: "crypto_ok C \<Longrightarrow> api_keys_inv reg \<Longrightarrow> api_keys_inv (foldl (key_step C) reg ops)"
  by (induction ops arbitrary: reg) (auto simp: key_step_inv)

lemma apikeys_load_saved:
  assumes inv: "api_keys_inv reg"
    and yaml: "yaml_reads_back yaml_parse yaml_print (map (\<lambda>(k, e). (k, api_file_entry_of e)) (kr_keys reg))"
  shows "\<exists>reg'. apikeys_load yaml_parse d (Inr (apikeys_to_yaml yaml_print reg)) = Inr reg'
    \<and> dm_get (kr_keys reg') = dm_get (kr_keys reg)"
proof -
  have wf: "dm_wf (kr_keys reg)" using inv by (simp add: api_keys_inv_def)
  have parse: "parse_api_key k (api_file_entry_of e) = Inr e" if "(k, e) \<in> set (kr_keys reg)" for k e
    using inv that by (auto simp: api_keys_inv_def intro: parse_api_key_file)
  from load_entries_reads_back [OF yaml wf, of parse_api_key, OF parse] show ?thesis
    by (auto simp: apikeys_load_def apikeys_from_yaml_def apikeys_to_yaml_def)
qed

text \<open>
  C38. The life of an API key. Registering never panics and succeeds exactly for a valid, new id
  and one of the four role names. The secret it returns, and no secret with another digest, is
  exchanged for an entry with the registered role and vehicles, through any later operations on
  other keys; the token's subject is the id behind the \<open>apikey:\<close> prefix, so it is no account
  name without that prefix. A revoked key is refused from then on.
\<close>

theorem api_key_lifecycle:
  assumes ok: "crypto_ok C"
  shows "apikeys_register C u reg i r v l \<noteq> Panics
   \<and> ((\<exists>reg' s. apikeys_register C u reg i r v l = Returns (Inr (reg', s))) \<longleftrightarrow>
        valid_key_id i \<and> dm_get (kr_keys reg) i = None \<and> r \<in> role_as_str ` UNIV)
   \<and> (\<forall>reg' s ops p. apikeys_register C u reg i r v l = Returns (Inr (reg', s)) \<and> i \<notin> key_subject ` set ops \<longrightarrow>
        (\<exists>e. ke_vehicles e = v \<and> role_as_str (ke_role e) = r \<and> ke_label e = l \<and>
          jc_sub (api_claims i e now ttl) = ''apikey:'' @ i \<and> jc_role (api_claims i e now ttl) = Some r \<and>
          apikeys_verify C (foldl (key_step C) reg' ops) i p =
            (if key_digest C i p = key_digest C i s then Inr e else Inl BadKeySecret)))
   \<and> (\<forall>ops p e. i \<notin> key_subject ` set ops \<longrightarrow>
        apikeys_verify C (foldl (key_step C) (fst (apikeys_revoke reg i)) ops) i p \<noteq> Inr e)"
proof (intro conjI allI impI)
  show "apikeys_register C u reg i r v l \<noteq> Panics"
    by (simp add: apikeys_register_def decode_hash_secret [OF ok] split: option.split)
  show "(\<exists>reg' s. apikeys_register C u reg i r v l = Returns (Inr (reg', s))) \<longleftrightarrow>
        valid_key_id i \<and> dm_get (kr_keys reg) i = None \<and> r \<in> role_as_str ` UNIV"
    by (auto simp: apikeys_register_ok [OF ok])
next
  fix reg' s ops p
  assume a: "apikeys_register C u reg i r v l = Returns (Inr (reg', s)) \<and> i \<notin> key_subject ` set ops"
  then obtain role where r: "r = role_as_str role" and s: "s = u"
      and get: "dm_get (kr_keys reg') i = Some \<lparr>ke_secret_hash = key_digest C i u, ke_role = role, ke_vehicles = v, ke_label = l\<rparr>"
    by (auto simp: apikeys_register_ok [OF ok])
  let ?e = "\<lparr>ke_secret_hash = key_digest C i u, ke_role = role, ke_vehicles = v, ke_label = l\<rparr>"
  have "dm_get (kr_keys (foldl (key_step C) reg' ops)) i = Some ?e"
    using a get key_run_get [of i ops C reg'] by simp
  then have "apikeys_verify C (foldl (key_step C) reg' ops) i p =
      (if key_digest C i p = key_digest C i s then Inr ?e else Inl BadKeySecret)"
    by (auto simp: apikeys_verify_digest [OF ok] s)
  then show "\<exists>e. ke_vehicles e = v \<and> role_as_str (ke_role e) = r \<and> ke_label e = l \<and>
          jc_sub (api_claims i e now ttl) = ''apikey:'' @ i \<and> jc_role (api_claims i e now ttl) = Some r \<and>
          apikeys_verify C (foldl (key_step C) reg' ops) i p =
            (if key_digest C i p = key_digest C i s then Inr e else Inl BadKeySecret)"
    by (intro exI [of _ ?e]) (simp add: r api_claims_def)
next
  fix ops p e
  assume "i \<notin> key_subject ` set ops"
  then show "apikeys_verify C (foldl (key_step C) (fst (apikeys_revoke reg i)) ops) i p \<noteq> Inr e"
    using apikeys.removed_stays_out [of "KeyRevoke i" ops C reg p] by (auto simp: key_accepts_def)
qed

theorem api_key_lifecycle_witness:
  "\<exists>reg' s. apikeys_register demo_crypto ''u1'' (apikeys_empty []) ''k1'' ''viewer'' [''car''] None = Returns (Inr (reg', s))"
proof -
  have "valid_key_id ''k1''" "dm_get (kr_keys (apikeys_empty [])) ''k1'' = None"
    by (simp_all add: valid_key_id_def is_ascii_alphanumeric_def apikeys_empty_def)
  moreover have "''viewer'' = role_as_str Viewer" by simp
  ultimately show ?thesis
    using api_key_lifecycle [OF demo_crypto_ok, THEN conjunct2, THEN conjunct1,
        of "''u1''" "apikeys_empty []" "''k1''" "''viewer''" "[''car'']" None] by blast
qed

end
