(* ===== verification/Sfu.thy ===== *)
theory Sfu
  imports Roles
begin

text \<open>
  The SFU's bookkeeping, \<open>mediaservo-server/src/sfu.rs\<close>: per room the router and the peers, per
  peer the transports, producers and consumers. mediasoup itself is a third-party media worker:
  a call into it is an argument that carries the call's outcome (an error text, or the id and the
  parameters of what it created). An object of mediasoup is recorded by its id and the attributes
  the sources read.
\<close>

section \<open>Pure decisions\<close>

definition use_bare_metal_listen :: "string list \<Rightarrow> string list \<Rightarrow> bool" where
  "use_bare_metal_listen announced local_ips =
     (case announced of [] \<Rightarrow> False | first # _ \<Rightarrow> first \<in> set local_ips)"

definition should_teardown :: "bool \<Rightarrow> bool \<Rightarrow> bool" where
  "should_teardown room_removed has_producers = (room_removed \<and> \<not> has_producers)"

definition should_deferred_cleanup :: "bool \<Rightarrow> bool \<Rightarrow> bool" where
  "should_deferred_cleanup room_gone has_producers = (room_gone \<and> \<not> has_producers)"

definition DEFAULT_SFU_PORT :: u16 where "DEFAULT_SFU_PORT = 20000"

definition resolve_sfu_port :: "u16 option \<Rightarrow> u16 option \<Rightarrow> u16" where
  "resolve_sfu_port yaml env =
     (case yaml of Some p \<Rightarrow> p | None \<Rightarrow> unwrap_or env DEFAULT_SFU_PORT)"

text \<open>
  The addresses the WebRTC server binds, each with the address it announces; \<open>is_ip\<close> says which
  texts \<open>IpAddr::parse\<close> accepts.
\<close>

definition listen_infos :: "(string \<Rightarrow> bool) \<Rightarrow> string list \<Rightarrow> string list \<Rightarrow> (string \<times> string option) list" where
  "listen_infos is_ip announced local_ips =
     (let first_listen_ip =
            (if use_bare_metal_listen announced local_ips
             then (if is_ip (hd announced) then hd announced else ''0.0.0.0'')
             else ''0.0.0.0'')
      in (first_listen_ip, (case announced of [] \<Rightarrow> None | first # _ \<Rightarrow> Some first))
         # map (\<lambda>ip. (ip, Some ip))
             (filter (\<lambda>ip. ip \<in> set local_ips \<and> is_ip ip) (tl announced)))"

section \<open>State\<close>

text \<open>mediasoup's own media kind has no data kind.\<close>

datatype ms_kind = MsAudio | MsVideo

fun protocol_kind :: "ms_kind \<Rightarrow> media_kind" where
  "protocol_kind MsAudio = Audio"
| "protocol_kind MsVideo = Video"

record producer =
  mp_id :: string
  mp_kind :: ms_kind

record sfu_consumer =
  mc_id :: string
  mc_kind :: ms_kind
  mc_producer_id :: string

record data_producer =
  md_id :: string
  md_label :: string
  md_protocol :: string

record data_consumer =
  mx_id :: string
  mx_data_producer_id :: string

record sfu_peer =
  sfp_send_transports :: "string list"
  sfp_recv_transports :: "string list"
  sfp_producers :: "producer list"
  sfp_consumers :: "sfu_consumer list"
  sfp_data_producers :: "data_producer list"
  sfp_data_consumers :: "data_consumer list"
  sfp_producer_transports :: "(string, string) dmap"
  sfp_data_producer_transports :: "(string, string) dmap"

text \<open>The router is seen as its RTP capabilities.\<close>

record sfu_room =
  sfr_router :: json
  sfr_peers :: "(string, sfu_peer) dmap"
  sfr_producer_labels :: "(string, string) dmap"

type_synonym sfu = "(string, sfu_room) dmap"

definition new_peer :: sfu_peer where
  "new_peer = \<lparr>sfp_send_transports = [], sfp_recv_transports = [], sfp_producers = [], sfp_consumers = [],
     sfp_data_producers = [], sfp_data_consumers = [], sfp_producer_transports = [],
     sfp_data_producer_transports = []\<rparr>"

definition last_opt :: "'a list \<Rightarrow> 'a option" where
  "last_opt xs = (if xs = [] then None else Some (last xs))"

definition send_transport :: "sfu_peer \<Rightarrow> string option \<Rightarrow> string option" where
  "send_transport peer transport_id =
     (case transport_id of
        Some i \<Rightarrow> List.find (\<lambda>t. t = i) (sfp_send_transports peer)
      | None \<Rightarrow> last_opt (sfp_send_transports peer))"

definition recv_transport :: "sfu_peer \<Rightarrow> string option \<Rightarrow> string option" where
  "recv_transport peer transport_id =
     (case transport_id of
        Some i \<Rightarrow> List.find (\<lambda>t. t = i) (sfp_recv_transports peer)
      | None \<Rightarrow> last_opt (sfp_recv_transports peer))"

text \<open>Writing through the guard of one peer of one room.\<close>

definition modify_peer :: "string \<Rightarrow> string \<Rightarrow> (sfu_peer \<Rightarrow> sfu_peer) \<Rightarrow> sfu \<Rightarrow> sfu" where
  "modify_peer room_id peer_id f rooms =
     dm_modify room_id (\<lambda>r. r\<lparr>sfr_peers := dm_modify peer_id f (sfr_peers r)\<rparr>) rooms"

section \<open>Routers and transports\<close>

definition ensure_router :: "sfu \<Rightarrow> string \<Rightarrow> string + json \<Rightarrow> sfu \<times> (string + json)" where
  "ensure_router rooms room_id created =
     (case dm_get rooms room_id of
        Some room \<Rightarrow> (rooms, Inr (sfr_router room))
      | None \<Rightarrow>
          (case created of
             Inl e \<Rightarrow> (rooms, Inl (''Failed to create router: '' @ e))
           | Inr router \<Rightarrow>
               (dm_insert room_id
                  \<lparr>sfr_router = router, sfr_peers = [], sfr_producer_labels = []\<rparr> rooms,
                Inr router)))"

record transport_created =
  tr_transport_id :: string
  tr_ice_parameters :: ice_parameters
  tr_dtls_parameters :: dtls_parameters
  tr_ice_candidates :: "ice_candidate list"
  tr_sctp_parameters :: "json option"

definition add_transport :: "string \<Rightarrow> string \<Rightarrow> sfu_peer \<Rightarrow> sfu_peer" where
  "add_transport direction tid p =
     (if direction = ''send'' then p\<lparr>sfp_send_transports := sfp_send_transports p @ [tid]\<rparr>
      else if direction = ''recv'' then p\<lparr>sfp_recv_transports := sfp_recv_transports p @ [tid]\<rparr>
      else p)"

definition create_webrtc_transport ::
  "sfu \<Rightarrow> string \<Rightarrow> string \<Rightarrow> string \<Rightarrow> string + json \<Rightarrow> string + transport_created \<Rightarrow>
     sfu \<times> (string + transport_created)" where
  "create_webrtc_transport rooms room_id peer_id direction router_res transport_res =
     (case ensure_router rooms room_id router_res of
        (rooms1, Inl e) \<Rightarrow> (rooms1, Inl e)
      | (rooms1, Inr router) \<Rightarrow>
          (case transport_res of
             Inl e \<Rightarrow> (rooms1, Inl (''Failed to create transport: '' @ e))
           | Inr transport \<Rightarrow>
               (case dm_get rooms1 room_id of
                  None \<Rightarrow> (rooms1, Inr transport)
                | Some room \<Rightarrow>
                    let peer = unwrap_or (dm_get (sfr_peers room) peer_id) new_peer;
                        peer1 = add_transport direction (tr_transport_id transport) peer;
                        rooms2 = dm_modify room_id
                                   (\<lambda>r. r\<lparr>sfr_peers := dm_insert peer_id peer1 (sfr_peers r)\<rparr>) rooms1
                    in (rooms2,
                        if direction = ''send'' \<or> direction = ''recv'' then Inr transport
                        else Inl (''Invalid direction: '' @ direction)))))"

definition router_rtp_capabilities :: "sfu \<Rightarrow> string \<Rightarrow> string + json \<Rightarrow> sfu \<times> (string + json)" where
  "router_rtp_capabilities rooms room_id router_res = ensure_router rooms room_id router_res"

definition set_preferred_layers ::
  "sfu \<Rightarrow> string \<Rightarrow> string \<Rightarrow> string \<Rightarrow> string option \<Rightarrow> string + unit" where
  "set_preferred_layers rooms room_id peer_id consumer_id worker_error =
     (case dm_get rooms room_id of
        None \<Rightarrow> Inl (''Room '' @ room_id @ '' not found'')
      | Some room \<Rightarrow>
          (case dm_get (sfr_peers room) peer_id of
             None \<Rightarrow> Inl (''Peer '' @ peer_id @ '' not found in room '' @ room_id)
           | Some peer \<Rightarrow>
               (case List.find (\<lambda>c. mc_id c = consumer_id) (sfp_consumers peer) of
                  None \<Rightarrow> Inl (''Consumer '' @ consumer_id @ '' not found for peer '' @ peer_id)
                | Some c \<Rightarrow>
                    (case worker_error of
                       Some e \<Rightarrow> Inl (''set_preferred_layers failed: '' @ e)
                     | None \<Rightarrow> Inr ()))))"

definition connect_transport ::
  "sfu \<Rightarrow> string \<Rightarrow> string \<Rightarrow> string \<Rightarrow> string option \<Rightarrow> string option \<Rightarrow> string + unit" where
  "connect_transport rooms room_id peer_id transport_id dtls_error worker_error =
     (case dtls_error of
        Some e \<Rightarrow> Inl (''deserialize DtlsParameters: '' @ e)
      | None \<Rightarrow>
          (case dm_get rooms room_id of
             None \<Rightarrow> Inl (''Room '' @ room_id @ '' not found for connect'')
           | Some room \<Rightarrow>
               (case dm_get (sfr_peers room) peer_id of
                  None \<Rightarrow> Inl (''Peer '' @ peer_id @ '' not found in room '' @ room_id)
                | Some peer \<Rightarrow>
                    (case List.find (\<lambda>t. t = transport_id) (sfp_send_transports peer @ sfp_recv_transports peer) of
                       None \<Rightarrow> Inl (''Transport '' @ transport_id @ '' not found for peer '' @ peer_id)
                     | Some t \<Rightarrow>
                         (case worker_error of
                            Some e \<Rightarrow> Inl (''Failed to connect transport: '' @ e)
                          | None \<Rightarrow> Inr ())))))"

section \<open>Removal\<close>

definition sfu_remove_room :: "sfu \<Rightarrow> string \<Rightarrow> sfu \<times> bool" where
  "sfu_remove_room rooms room_id = (dm_remove room_id rooms, dm_contains rooms room_id)"

definition drop_peer :: "sfu \<Rightarrow> string \<Rightarrow> string \<Rightarrow> sfu" where
  "drop_peer rooms room_id peer_id =
     (let rooms1 = dm_modify room_id (\<lambda>r. r\<lparr>sfr_peers := dm_remove peer_id (sfr_peers r)\<rparr>) rooms
      in case dm_get rooms1 room_id of
           Some r \<Rightarrow> if sfr_peers r = [] then fst (sfu_remove_room rooms1 room_id) else rooms1
         | None \<Rightarrow> rooms1)"

definition remove_peer :: "sfu \<Rightarrow> string \<Rightarrow> string \<Rightarrow> sfu \<times> bool" where
  "remove_peer rooms room_id peer_id =
     (case dm_get rooms room_id of
        None \<Rightarrow> (rooms, False)
      | Some room \<Rightarrow>
          if dm_contains (sfr_peers room) peer_id then (drop_peer rooms room_id peer_id, True)
          else (rooms, False))"

definition closed_producers :: "sfu_peer \<Rightarrow> (string \<times> media_kind) list" where
  "closed_producers peer = map (\<lambda>p. (mp_id p, protocol_kind (mp_kind p))) (sfp_producers peer)"

definition remove_peer_global ::
  "sfu \<Rightarrow> string \<Rightarrow> sfu \<times> (string \<times> (string \<times> media_kind) list) list" where
  "remove_peer_global rooms peer_id =
     (let rooms1 = map (\<lambda>(rid, r). (rid, r\<lparr>sfr_peers := dm_remove peer_id (sfr_peers r)\<rparr>)) rooms;
          hit = filter (\<lambda>(rid, r). dm_contains (sfr_peers r) peer_id) rooms;
          out = map (\<lambda>(rid, r). (rid, case dm_get (sfr_peers r) peer_id of
                                        Some p \<Rightarrow> closed_producers p | None \<Rightarrow> [])) hit;
          empty_rooms = map fst (filter (\<lambda>(rid, r). dm_remove peer_id (sfr_peers r) = []) hit)
      in (dm_removes empty_rooms rooms1, out))"

definition remove_peer_in_room :: "sfu \<Rightarrow> string \<Rightarrow> string \<Rightarrow> sfu \<times> (string \<times> media_kind) list" where
  "remove_peer_in_room rooms room_id peer_id =
     (case dm_get rooms room_id of
        None \<Rightarrow> (rooms, [])
      | Some room \<Rightarrow>
          (case dm_get (sfr_peers room) peer_id of
             None \<Rightarrow> (rooms, [])
           | Some peer \<Rightarrow> (drop_peer rooms room_id peer_id, closed_producers peer)))"

text \<open>First pass of \<open>remove_producers_by_ids\<close> on one peer, and what it closed there.\<close>

definition owned_hits :: "string list \<Rightarrow> sfu_peer \<Rightarrow> (string \<times> media_kind) list" where
  "owned_hits ids peer =
     map (\<lambda>p. (mp_id p, protocol_kind (mp_kind p))) (filter (\<lambda>p. mp_id p \<in> set ids) (sfp_producers peer))
     @ map (\<lambda>p. (md_id p, Data)) (filter (\<lambda>p. md_id p \<in> set ids) (sfp_data_producers peer))"

definition close_owned :: "string list \<Rightarrow> sfu_peer \<Rightarrow> sfu_peer" where
  "close_owned ids peer =
     peer\<lparr>sfp_producers := filter (\<lambda>p. mp_id p \<notin> set ids) (sfp_producers peer),
          sfp_data_producers := filter (\<lambda>p. md_id p \<notin> set ids) (sfp_data_producers peer),
          sfp_producer_transports := dm_removes (map fst (owned_hits ids peer)) (sfp_producer_transports peer),
          sfp_data_producer_transports :=
            dm_removes (map fst (owned_hits ids peer)) (sfp_data_producer_transports peer)\<rparr>"

definition map_peers :: "(sfu_peer \<Rightarrow> sfu_peer) \<Rightarrow> sfu \<Rightarrow> sfu" where
  "map_peers f rooms =
     map (\<lambda>(rid, r). (rid, r\<lparr>sfr_peers := map (\<lambda>(pid, p). (pid, f p)) (sfr_peers r)\<rparr>)) rooms"

definition gone_data_producers :: "string list \<Rightarrow> sfu \<Rightarrow> string list" where
  "gone_data_producers ids rooms =
     concat (map (\<lambda>(rid, r). concat (map (\<lambda>(pid, p).
       map md_id (filter (\<lambda>d. md_id d \<in> set ids) (sfp_data_producers p))) (sfr_peers r))) rooms)"

definition remove_producers_by_ids ::
  "sfu \<Rightarrow> string list \<Rightarrow> sfu \<times> (string \<times> string \<times> media_kind) list" where
  "remove_producers_by_ids rooms producer_ids =
     (let out = concat (map (\<lambda>(rid, r). concat (map (\<lambda>(pid, p).
                  map (\<lambda>(i, k). (rid, i, k)) (owned_hits producer_ids p)) (sfr_peers r))) rooms);
          gone_dps = gone_data_producers producer_ids rooms;
          rooms1 = map_peers (close_owned producer_ids) rooms;
          rooms2 = (if gone_dps \<noteq> [] then
                      map_peers (\<lambda>p. p\<lparr>sfp_data_consumers :=
                        filter (\<lambda>c. mx_data_producer_id c \<notin> set gone_dps) (sfp_data_consumers p)\<rparr>) rooms1
                    else rooms1)
      in (rooms2, out))"

section \<open>Producing and consuming\<close>

definition create_producer ::
  "sfu \<Rightarrow> string \<Rightarrow> string \<Rightarrow> media_kind \<Rightarrow> string option \<Rightarrow> string option \<Rightarrow>
     string option \<Rightarrow> string + string \<Rightarrow> sfu \<times> (string + string \<times> media_kind)" where
  "create_producer rooms room_id peer_id kind transport_id label rtp_error produced =
     (case rtp_error of
        Some e \<Rightarrow> (rooms, Inl (''Invalid RTP parameters: '' @ e))
      | None \<Rightarrow>
          if kind = Data then (rooms, Inl ''MediaKind::Data is broadcast-only, not producible'')
          else
            let ms = (if kind = Audio then MsAudio else MsVideo)
            in case dm_get rooms room_id of
                 None \<Rightarrow> (rooms, Inl (''Room '' @ room_id @ '' not found for produce''))
               | Some room \<Rightarrow>
                   (case dm_get (sfr_peers room) peer_id of
                      None \<Rightarrow> (rooms, Inl (''Peer '' @ peer_id @ '' not found in room '' @ room_id))
                    | Some peer \<Rightarrow>
                        (case send_transport peer transport_id of
                           None \<Rightarrow> (rooms, Inl (''No send transport for peer '' @ peer_id
                                     @ '' (transport_id='' @ debug_opt transport_id @ '')''))
                         | Some transport \<Rightarrow>
                             (case produced of
                                Inl e \<Rightarrow> (rooms, Inl (''Failed to create producer: '' @ e))
                              | Inr pid \<Rightarrow>
                                  let rooms1 = modify_peer room_id peer_id
                                        (\<lambda>p. p\<lparr>sfp_producers := sfp_producers p @ [\<lparr>mp_id = pid, mp_kind = ms\<rparr>],
                                              sfp_producer_transports := dm_insert pid transport (sfp_producer_transports p)\<rparr>)
                                        rooms;
                                      rooms2 = (case label of
                                        None \<Rightarrow> rooms1
                                      | Some l \<Rightarrow> dm_modify room_id
                                          (\<lambda>r. r\<lparr>sfr_producer_labels := dm_insert pid l (sfr_producer_labels r)\<rparr>) rooms1)
                                  in (rooms2, Inr (pid, kind))))))"

definition find_producer :: "sfu_room \<Rightarrow> string \<Rightarrow> producer option" where
  "find_producer room producer_id =
     find_map (\<lambda>(pid, p). List.find (\<lambda>q. mp_id q = producer_id) (sfp_producers p)) (sfr_peers room)"

definition find_data_producer :: "sfu_room \<Rightarrow> string \<Rightarrow> data_producer option" where
  "find_data_producer room producer_id =
     find_map (\<lambda>(pid, p). List.find (\<lambda>q. md_id q = producer_id) (sfp_data_producers p)) (sfr_peers room)"

record consume_result =
  cr_consumer_id :: string
  cr_producer_id :: string
  cr_kind :: media_kind
  cr_rtp_parameters :: json

definition create_consumer ::
  "sfu \<Rightarrow> string \<Rightarrow> string \<Rightarrow> string \<Rightarrow> string option \<Rightarrow> string option \<Rightarrow> string + string \<times> json \<Rightarrow>
     sfu \<times> (string + consume_result)" where
  "create_consumer rooms room_id peer_id producer_id transport_id caps_error consumed =
     (case caps_error of
        Some e \<Rightarrow> (rooms, Inl (''Invalid RTP capabilities: '' @ e))
      | None \<Rightarrow>
          (case dm_get rooms room_id of
             None \<Rightarrow> (rooms, Inl (''Room '' @ room_id @ '' not found for consume''))
           | Some room \<Rightarrow>
               (case find_producer room producer_id of
                  None \<Rightarrow> (rooms, Inl (''Producer '' @ producer_id @ '' not found in room '' @ room_id))
                | Some src \<Rightarrow>
                    (case dm_get (sfr_peers room) peer_id of
                       None \<Rightarrow> (rooms, Inl (''Peer '' @ peer_id @ '' not found in room '' @ room_id))
                     | Some peer \<Rightarrow>
                         (case recv_transport peer transport_id of
                            None \<Rightarrow> (rooms, Inl (''No recv transport for peer '' @ peer_id
                                      @ '' (transport_id='' @ debug_opt transport_id @ '')''))
                          | Some transport \<Rightarrow>
                              (case consumed of
                                 Inl e \<Rightarrow> (rooms, Inl (''Failed to create consumer: '' @ e))
                               | Inr (cid, rtp) \<Rightarrow>
                                   (modify_peer room_id peer_id
                                      (\<lambda>p. p\<lparr>sfp_consumers := sfp_consumers p @
                                         [\<lparr>mc_id = cid, mc_kind = mp_kind src, mc_producer_id = producer_id\<rparr>]\<rparr>) rooms,
                                    Inr \<lparr>cr_consumer_id = cid, cr_producer_id = producer_id,
                                         cr_kind = protocol_kind (mp_kind src), cr_rtp_parameters = rtp\<rparr>)))))))"

definition create_data_producer ::
  "sfu \<Rightarrow> string \<Rightarrow> string \<Rightarrow> string \<Rightarrow> string \<Rightarrow> sctp_stream_parameters option \<Rightarrow> string option \<Rightarrow>
     string + string \<Rightarrow> sfu \<times> (string + string)" where
  "create_data_producer rooms room_id peer_id label proto sctp transport_id produced =
     (case sctp of
        None \<Rightarrow> (rooms, Inl ''sctp_stream_parameters required for SCTP data producer'')
      | Some _ \<Rightarrow>
          (case dm_get rooms room_id of
             None \<Rightarrow> (rooms, Inl (''Room '' @ room_id @ '' not found for produce_data''))
           | Some room \<Rightarrow>
               (case dm_get (sfr_peers room) peer_id of
                  None \<Rightarrow> (rooms, Inl (''Peer '' @ peer_id @ '' not found in room '' @ room_id))
                | Some peer \<Rightarrow>
                    (case send_transport peer transport_id of
                       None \<Rightarrow> (rooms, Inl (''No send transport for peer '' @ peer_id
                                 @ '' (transport_id='' @ debug_opt transport_id @ '')''))
                     | Some transport \<Rightarrow>
                         (case produced of
                            Inl e \<Rightarrow> (rooms, Inl (''Failed to create data producer: '' @ e))
                          | Inr did \<Rightarrow>
                              (modify_peer room_id peer_id
                                 (\<lambda>p. p\<lparr>sfp_data_producers := sfp_data_producers p @
                                          [\<lparr>md_id = did, md_label = label, md_protocol = proto\<rparr>],
                                        sfp_data_producer_transports :=
                                          dm_insert did transport (sfp_data_producer_transports p)\<rparr>) rooms,
                               Inr did))))))"

record data_consume_result =
  dc_data_consumer_id :: string
  dc_data_producer_id :: string
  dc_sctp_stream_parameters :: "sctp_stream_parameters option"
  dc_label :: string
  dc_protocol :: string

definition create_data_consumer ::
  "sfu \<Rightarrow> string \<Rightarrow> string \<Rightarrow> string \<Rightarrow> string option \<Rightarrow>
     string + (string \<times> sctp_stream_parameters option \<times> string \<times> string) \<Rightarrow>
     sfu \<times> (string + data_consume_result)" where
  "create_data_consumer rooms room_id peer_id data_producer_id transport_id consumed =
     (case dm_get rooms room_id of
        None \<Rightarrow> (rooms, Inl (''Room '' @ room_id @ '' not found for consume_data''))
      | Some room \<Rightarrow>
          (case find_data_producer room data_producer_id of
             None \<Rightarrow> (rooms, Inl (''DataProducer '' @ data_producer_id @ '' not found in room '' @ room_id))
           | Some src \<Rightarrow>
               (case dm_get (sfr_peers room) peer_id of
                  None \<Rightarrow> (rooms, Inl (''Peer '' @ peer_id @ '' not found in room '' @ room_id))
                | Some peer \<Rightarrow>
                    (case recv_transport peer transport_id of
                       None \<Rightarrow> (rooms, Inl (''No recv transport for peer '' @ peer_id
                                 @ '' (transport_id='' @ debug_opt transport_id @ '')''))
                     | Some transport \<Rightarrow>
                         (case consumed of
                            Inl e \<Rightarrow> (rooms, Inl (''Failed to create data consumer: '' @ e))
                          | Inr (cid, sctp, label, proto) \<Rightarrow>
                              (modify_peer room_id peer_id
                                 (\<lambda>p. p\<lparr>sfp_data_consumers := sfp_data_consumers p @
                                   [\<lparr>mx_id = cid, mx_data_producer_id = data_producer_id\<rparr>]\<rparr>) rooms,
                               Inr \<lparr>dc_data_consumer_id = cid, dc_data_producer_id = data_producer_id,
                                    dc_sctp_stream_parameters = sctp, dc_label = label, dc_protocol = proto\<rparr>))))))"

section \<open>Queries\<close>

definition list_data_producers :: "sfu \<Rightarrow> string \<Rightarrow> (string \<times> string \<times> string) list option" where
  "list_data_producers rooms room_id =
     map_option (\<lambda>room. concat (map (\<lambda>(pid, p). map (\<lambda>d. (md_id d, md_label d, pid)) (sfp_data_producers p))
       (sfr_peers room))) (dm_get rooms room_id)"

definition producer_transport_id :: "sfu \<Rightarrow> string \<Rightarrow> string option" where
  "producer_transport_id rooms producer_id =
     find_map (\<lambda>(rid, r). find_map (\<lambda>(pid, p). dm_get (sfp_producer_transports p) producer_id) (sfr_peers r)) rooms"

definition data_producer_transport_id :: "sfu \<Rightarrow> string \<Rightarrow> string option" where
  "data_producer_transport_id rooms producer_id =
     find_map (\<lambda>(rid, r). find_map (\<lambda>(pid, p). dm_get (sfp_data_producer_transports p) producer_id) (sfr_peers r)) rooms"

definition list_producers ::
  "sfu \<Rightarrow> string \<Rightarrow> (string \<times> media_kind \<times> string \<times> string option) list option" where
  "list_producers rooms room_id =
     map_option (\<lambda>room. map (\<lambda>(pid, kind, peer). (pid, kind, peer, dm_get (sfr_producer_labels room) pid))
       (concat (map (\<lambda>(peer_id, p). map (\<lambda>q. (mp_id q, protocol_kind (mp_kind q), peer_id)) (sfp_producers p))
          (sfr_peers room)))) (dm_get rooms room_id)"

definition room_has_producers :: "sfu \<Rightarrow> string \<Rightarrow> bool" where
  "room_has_producers rooms room_id =
     (case dm_get rooms room_id of
        None \<Rightarrow> False | Some r \<Rightarrow> list_ex (\<lambda>(pid, p). sfp_producers p \<noteq> []) (sfr_peers r))"

record sfu_room_summary =
  su_room_id :: string
  su_participants :: nat
  su_producers :: nat
  su_consumers :: nat
  su_audio :: bool
  su_producer_ids :: "string list"
  su_consumer_ids :: "string list"

definition sfu_list_rooms :: "sfu \<Rightarrow> sfu_room_summary list" where
  "sfu_list_rooms rooms = map (\<lambda>(rid, r).
     \<lparr>su_room_id = rid, su_participants = length (sfr_peers r),
      su_producers = sum_list (map (\<lambda>(pid, p). length (sfp_producers p)) (sfr_peers r)),
      su_consumers = sum_list (map (\<lambda>(pid, p). length (sfp_consumers p)) (sfr_peers r)),
      su_audio = is_audio_room rid,
      su_producer_ids = concat (map (\<lambda>(pid, p). map mp_id (sfp_producers p)) (sfr_peers r)),
      su_consumer_ids = concat (map (\<lambda>(pid, p). map mc_id (sfp_consumers p)) (sfr_peers r))\<rparr>) rooms"

text \<open>\<open>stats\<close> is what \<open>get_stats\<close> of the worker answers: byte count, packet count, score per stream.\<close>

definition producer_stats ::
  "sfu \<Rightarrow> string \<Rightarrow> string + (u64 \<times> u64 \<times> u8) list \<Rightarrow> string + media_kind \<times> u64 \<times> u64 \<times> u8" where
  "producer_stats rooms producer_id stats =
     (case find_map (\<lambda>(rid, r). find_producer r producer_id) rooms of
        None \<Rightarrow> Inl (''Producer '' @ producer_id @ '' not found'')
      | Some q \<Rightarrow>
          (case stats of
             Inl e \<Rightarrow> Inl (''Producer stats: '' @ e)
           | Inr [] \<Rightarrow> Inr (protocol_kind (mp_kind q), 0, 0, 0)
           | Inr ((b, n, s) # _) \<Rightarrow> Inr (protocol_kind (mp_kind q), b, n, s)))"

definition consumer_stats ::
  "sfu \<Rightarrow> string \<Rightarrow> string + (u64 \<times> u64 \<times> u8) \<Rightarrow> string + media_kind \<times> u64 \<times> u64 \<times> u8" where
  "consumer_stats rooms consumer_id stats =
     (case find_map (\<lambda>(rid, r). find_map (\<lambda>(pid, p).
              List.find (\<lambda>c. mc_id c = consumer_id) (sfp_consumers p)) (sfr_peers r)) rooms of
        None \<Rightarrow> Inl (''Consumer '' @ consumer_id @ '' not found'')
      | Some c \<Rightarrow>
          (case stats of
             Inl e \<Rightarrow> Inl (''Consumer stats: '' @ e)
           | Inr (b, n, s) \<Rightarrow> Inr (protocol_kind (mc_kind c), b, n, s)))"

section \<open>Abstract view and invariant\<close>

definition peer_at :: "sfu \<Rightarrow> string \<Rightarrow> string \<Rightarrow> sfu_peer option" where
  "peer_at rooms room_id peer_id =
     (case dm_get rooms room_id of Some r \<Rightarrow> dm_get (sfr_peers r) peer_id | None \<Rightarrow> None)"

text \<open>
  Every producer of a peer is bound to one of that peer's own send transports, and there are no
  bindings of producers that are gone; likewise for data producers.
\<close>

definition peer_ok :: "sfu_peer \<Rightarrow> bool" where
  "peer_ok p =
     (dom (dm_get (sfp_producer_transports p)) = mp_id ` set (sfp_producers p)
      \<and> ran (dm_get (sfp_producer_transports p)) \<subseteq> set (sfp_send_transports p)
      \<and> dom (dm_get (sfp_data_producer_transports p)) = md_id ` set (sfp_data_producers p)
      \<and> ran (dm_get (sfp_data_producer_transports p)) \<subseteq> set (sfp_send_transports p))"

definition sfu_wf :: "sfu \<Rightarrow> bool" where
  "sfu_wf rooms = (dm_wf rooms \<and> (\<forall>rid r. (rid, r) \<in> set rooms \<longrightarrow> dm_wf (sfr_peers r)))"

definition sfu_inv :: "sfu \<Rightarrow> bool" where
  "sfu_inv rooms = (sfu_wf rooms \<and> (\<forall>rid pid p. peer_at rooms rid pid = Some p \<longrightarrow> peer_ok p))"

lemma peer_ok_new: "peer_ok new_peer"
  by (simp add: peer_ok_def new_peer_def)

lemma peer_ok_add_transport: "peer_ok p \<Longrightarrow> peer_ok (add_transport d t p)"
  by (auto simp: peer_ok_def add_transport_def)

lemma dom_dm_insert: "dom (dm_get (dm_insert k v m)) = insert k (dom (dm_get m))"
  by (auto split: if_splits)

lemma ran_dm_insert: "ran (dm_get (dm_insert k v m)) \<subseteq> insert v (ran (dm_get m))"
  by (auto simp: ran_def split: if_splits)

lemma peer_ok_produce:
  "peer_ok p \<Longrightarrow> t \<in> set (sfp_send_transports p) \<Longrightarrow>
     peer_ok (p\<lparr>sfp_producers := sfp_producers p @ [\<lparr>mp_id = i, mp_kind = k\<rparr>],
                sfp_producer_transports := dm_insert i t (sfp_producer_transports p)\<rparr>)"
  using ran_dm_insert [of i t "sfp_producer_transports p"]
  by (simp add: peer_ok_def dom_dm_insert del: dm_get_insert) blast

lemma peer_ok_produce_data:
  "peer_ok p \<Longrightarrow> t \<in> set (sfp_send_transports p) \<Longrightarrow>
     peer_ok (p\<lparr>sfp_data_producers := sfp_data_producers p @ [\<lparr>md_id = i, md_label = l, md_protocol = pr\<rparr>],
                sfp_data_producer_transports := dm_insert i t (sfp_data_producer_transports p)\<rparr>)"
  using ran_dm_insert [of i t "sfp_data_producer_transports p"]
  by (simp add: peer_ok_def dom_dm_insert del: dm_get_insert) blast

lemma peer_ok_consume: "peer_ok (p\<lparr>sfp_consumers := cs\<rparr>) = peer_ok p"
  and peer_ok_consume_data: "peer_ok (p\<lparr>sfp_data_consumers := ds\<rparr>) = peer_ok p"
  by (auto simp: peer_ok_def)

lemma owned_hits_ids:
  "set (map fst (owned_hits ids p)) = set ids \<inter> (mp_id ` set (sfp_producers p) \<union> md_id ` set (sfp_data_producers p))"
  by (auto simp: owned_hits_def)

lemma dom_removes: "dom (dm_get (dm_removes ks m)) = dom (dm_get m) - set ks"
  by (auto split: if_splits)

lemma ran_removes: "ran (dm_get (dm_removes ks m)) \<subseteq> ran (dm_get m)"
  by (auto simp: ran_def split: if_splits)

lemma peer_ok_close_owned:
  assumes "peer_ok p"
  shows "peer_ok (close_owned ids p)"
proof -
  have "mp_id ` {q \<in> set (sfp_producers p). mp_id q \<notin> set ids} =
      mp_id ` set (sfp_producers p) - set (map fst (owned_hits ids p))"
    and "md_id ` {q \<in> set (sfp_data_producers p). md_id q \<notin> set ids} =
      md_id ` set (sfp_data_producers p) - set (map fst (owned_hits ids p))"
    by (auto simp: owned_hits_ids simp del: set_map)
  with assms ran_removes [of "map fst (owned_hits ids p)" "sfp_producer_transports p"]
    ran_removes [of "map fst (owned_hits ids p)" "sfp_data_producer_transports p"]
  show ?thesis
    by (auto simp: peer_ok_def close_owned_def dom_removes simp del: dm_get_removes set_map)
qed

lemma send_transport_in: "send_transport p tid = Some t \<Longrightarrow> t \<in> set (sfp_send_transports p)"
  by (auto simp: send_transport_def last_opt_def split: option.splits if_splits dest: find_Some_in_set)

lemma peer_at_modify_peer:
  "peer_at (modify_peer rid pid f rooms) rid' pid' =
     (if rid' = rid \<and> pid' = pid then map_option f (peer_at rooms rid pid) else peer_at rooms rid' pid')"
  by (auto simp: peer_at_def modify_peer_def split: option.splits)

lemma map_of_map_snd: "map_of (map (\<lambda>(k, v). (k, f v)) xs) k = map_option f (map_of xs k)"
  by (simp add: map_of_map)

lemma peer_at_map_peers: "peer_at (map_peers f rooms) rid pid = map_option f (peer_at rooms rid pid)"
  by (auto simp: peer_at_def map_peers_def map_of_map_snd split: option.splits)

lemma peer_at_drop_peer:
  "peer_at (drop_peer rooms rid pid) rid' pid' =
     (if rid' = rid \<and> pid' = pid then None else peer_at rooms rid' pid')"
proof -
  have "dm_get ps pid' = None" if "dm_remove pid ps = []" "pid' \<noteq> pid" for ps :: "(string, sfu_peer) dmap"
    using that dm_get_remove [of pid ps pid'] by simp
  then show ?thesis
    by (auto simp: peer_at_def drop_peer_def sfu_remove_room_def Let_def split: option.splits)
qed

lemma fst_comp_snd [simp]: "fst \<circ> (\<lambda>(k, v). (k, f k v)) = fst"
  by auto

lemma sfu_wf_modify:
  "sfu_wf rooms \<Longrightarrow> (\<And>r. dm_wf (sfr_peers r) \<Longrightarrow> dm_wf (sfr_peers (f r))) \<Longrightarrow> sfu_wf (dm_modify rid f rooms)"
  by (auto simp: sfu_wf_def) (auto simp: dm_modify_def)

lemma sfu_wf_modify_peer: "sfu_wf rooms \<Longrightarrow> sfu_wf (modify_peer rid pid f rooms)"
  unfolding modify_peer_def by (rule sfu_wf_modify) auto

lemma sfu_wf_map_peers: "sfu_wf rooms \<Longrightarrow> sfu_wf (map_peers f rooms)"
  by (auto simp: sfu_wf_def map_peers_def)

lemma sfu_wf_remove: "sfu_wf rooms \<Longrightarrow> sfu_wf (dm_remove rid rooms)"
  by (auto simp: sfu_wf_def dm_set_remove)

lemma sfu_wf_removes: "sfu_wf rooms \<Longrightarrow> sfu_wf (dm_removes rids rooms)"
  by (induction rids arbitrary: rooms) (auto simp: dm_removes_def sfu_wf_remove)

lemma sfu_wf_drop_peer: "sfu_wf rooms \<Longrightarrow> sfu_wf (drop_peer rooms rid pid)"
  by (auto simp: drop_peer_def sfu_remove_room_def Let_def intro!: sfu_wf_remove sfu_wf_modify split: option.splits)

lemma sfu_wf_insert: "sfu_wf rooms \<Longrightarrow> dm_wf (sfr_peers r) \<Longrightarrow> sfu_wf (dm_insert rid r rooms)"
  by (auto simp: sfu_wf_def dest!: dm_insert_elem)

lemma sfu_invD: "sfu_inv rooms \<Longrightarrow> peer_at rooms rid pid = Some p \<Longrightarrow> peer_ok p"
  by (auto simp: sfu_inv_def)

lemma sfu_inv_modify_peer:
  "sfu_inv rooms \<Longrightarrow> (\<And>p. peer_at rooms rid pid = Some p \<Longrightarrow> peer_ok (f p)) \<Longrightarrow>
     sfu_inv (modify_peer rid pid f rooms)"
  by (auto simp: sfu_inv_def sfu_wf_modify_peer peer_at_modify_peer split: if_splits)

lemma sfu_inv_map_peers: "sfu_inv rooms \<Longrightarrow> (\<And>p. peer_ok p \<Longrightarrow> peer_ok (f p)) \<Longrightarrow> sfu_inv (map_peers f rooms)"
  by (auto simp: sfu_inv_def sfu_wf_map_peers peer_at_map_peers)

lemma sfu_inv_drop_peer: "sfu_inv rooms \<Longrightarrow> sfu_inv (drop_peer rooms rid pid)"
  by (auto simp: sfu_inv_def sfu_wf_drop_peer peer_at_drop_peer split: if_splits)

lemma peer_at_removes:
  "peer_at (dm_removes rids rooms) rid pid = (if rid \<in> set rids then None else peer_at rooms rid pid)"
  by (simp add: peer_at_def)

lemma sfu_inv_removes: "sfu_inv rooms \<Longrightarrow> sfu_inv (dm_removes rids rooms)"
  by (auto simp: sfu_inv_def sfu_wf_removes peer_at_removes split: if_splits)

lemma sfu_inv_remove: "sfu_inv rooms \<Longrightarrow> sfu_inv (dm_remove rid rooms)"
  using sfu_inv_removes [of rooms "[rid]"] by (simp add: dm_removes_def)

lemma sfu_inv_labels:
  "sfu_inv rooms \<Longrightarrow> sfu_inv (dm_modify rid (\<lambda>r. r\<lparr>sfr_producer_labels := g r\<rparr>) rooms)"
proof -
  have "peer_at (dm_modify rid (\<lambda>r. r\<lparr>sfr_producer_labels := g r\<rparr>) rooms) = peer_at rooms"
    by (auto simp: fun_eq_iff peer_at_def split: option.splits)
  then show "sfu_inv rooms \<Longrightarrow> ?thesis"
    by (auto simp: sfu_inv_def intro!: sfu_wf_modify)
qed

lemma sfu_inv_insert_peer:
  assumes "sfu_inv rooms" "peer_ok q"
  shows "sfu_inv (dm_modify rid (\<lambda>r. r\<lparr>sfr_peers := dm_insert pid q (sfr_peers r)\<rparr>) rooms)"
  using assms by (auto simp: sfu_inv_def peer_at_def intro!: sfu_wf_modify split: option.splits if_splits)

lemma sfu_inv_ensure_router: "sfu_inv rooms \<Longrightarrow> sfu_inv (fst (ensure_router rooms rid res))"
  by (auto simp: ensure_router_def sfu_inv_def peer_at_def intro!: sfu_wf_insert
      split: option.splits sum.splits if_splits)

lemma peer_at_Some: "dm_get rooms rid = Some r \<Longrightarrow> dm_get (sfr_peers r) pid = Some p \<Longrightarrow> peer_at rooms rid pid = Some p"
  by (simp add: peer_at_def)

lemma sfu_inv_transport:
  assumes inv: "sfu_inv rooms"
  shows "sfu_inv (fst (create_webrtc_transport rooms rid pid dir rres tres))"
proof -
  obtain rooms1 res where e: "ensure_router rooms rid rres = (rooms1, res)" by force
  then have inv1: "sfu_inv rooms1" using sfu_inv_ensure_router [OF inv, of rid rres] by simp
  have ok: "peer_ok (unwrap_or (dm_get (sfr_peers r) pid) new_peer)" if "dm_get rooms1 rid = Some r" for r
    using that sfu_invD [OF inv1, of rid pid]
    by (cases "dm_get (sfr_peers r) pid") (auto simp: peer_at_def peer_ok_new)
  show ?thesis
    using inv1 by (auto simp: create_webrtc_transport_def e Let_def
        intro!: sfu_inv_insert_peer peer_ok_add_transport ok split: sum.splits option.splits)
qed

definition produced_state ::
  "sfu \<Rightarrow> string \<Rightarrow> string \<Rightarrow> media_kind \<Rightarrow> string option \<Rightarrow> string \<Rightarrow> string \<Rightarrow> sfu" where
  "produced_state rooms rid pid kind label t i =
     (let rooms1 = modify_peer rid pid
            (\<lambda>p. p\<lparr>sfp_producers := sfp_producers p @ [\<lparr>mp_id = i, mp_kind = (if kind = Audio then MsAudio else MsVideo)\<rparr>],
                  sfp_producer_transports := dm_insert i t (sfp_producer_transports p)\<rparr>) rooms
      in case label of None \<Rightarrow> rooms1
         | Some l \<Rightarrow> dm_modify rid (\<lambda>r. r\<lparr>sfr_producer_labels := dm_insert i l (sfr_producer_labels r)\<rparr>) rooms1)"

lemma create_producer_ok:
  "create_producer rooms rid pid kind tid label rerr produced = (rooms', Inr (i, k)) \<longleftrightarrow>
     (\<exists>p t. rerr = None \<and> kind \<noteq> Data \<and> peer_at rooms rid pid = Some p \<and> send_transport p tid = Some t \<and>
        produced = Inr i \<and> k = kind \<and> rooms' = produced_state rooms rid pid kind label t i)"
  by (auto simp: create_producer_def produced_state_def peer_at_def Let_def split: option.splits sum.splits)

lemma create_producer_failed:
  "create_producer rooms rid pid kind tid label rerr produced = (rooms', Inl e) \<Longrightarrow> rooms' = rooms"
  by (auto simp: create_producer_def Let_def split: option.splits sum.splits if_splits)

lemma sfu_inv_produce:
  assumes inv: "sfu_inv rooms"
  shows "sfu_inv (fst (create_producer rooms rid pid kind tid label rerr produced))"
proof -
  obtain rooms' res where e: "create_producer rooms rid pid kind tid label rerr produced = (rooms', res)" by force
  show ?thesis
  proof (cases res)
    case (Inl err)
    with e show ?thesis using inv by (auto dest: create_producer_failed)
  next
    case (Inr ik)
    obtain i k where "ik = (i, k)" by force
    with e Inr obtain p t where p: "peer_at rooms rid pid = Some p" "send_transport p tid = Some t"
        and r: "rooms' = produced_state rooms rid pid kind label t i"
      by (auto simp: create_producer_ok)
    have "sfu_inv (produced_state rooms rid pid kind label t i)"
      using p sfu_invD [OF inv p(1)] send_transport_in [OF p(2)] inv unfolding produced_state_def Let_def
      by (auto intro!: sfu_inv_labels sfu_inv_modify_peer peer_ok_produce split: option.splits)
    then show ?thesis using e r by simp
  qed
qed

lemma sfu_inv_consume:
  assumes "sfu_inv rooms"
  shows "sfu_inv (fst (create_consumer rooms rid pid prid tid cerr consumed))"
  using assms by (auto simp: create_consumer_def peer_ok_consume intro!: sfu_inv_modify_peer intro: sfu_invD
      split: option.splits sum.splits)

lemma sfu_inv_produce_data:
  assumes inv: "sfu_inv rooms"
  shows "sfu_inv (fst (create_data_producer rooms rid pid l pr sctp tid produced))"
proof -
  have "peer_ok p" if "peer_at rooms rid pid = Some p" for p using inv that by (auto simp: sfu_inv_def)
  then show ?thesis
    using inv by (auto simp: create_data_producer_def peer_at_def
        intro!: sfu_inv_modify_peer peer_ok_produce_data dest: send_transport_in split: option.splits sum.splits)
qed

lemma sfu_inv_consume_data:
  assumes "sfu_inv rooms"
  shows "sfu_inv (fst (create_data_consumer rooms rid pid prid tid consumed))"
  using assms by (auto simp: create_data_consumer_def peer_ok_consume_data intro!: sfu_inv_modify_peer intro: sfu_invD
      split: option.splits sum.splits)

lemma remove_peer_global_map:
  "fst (remove_peer_global rooms pid) = dm_removes
     (map fst (filter (\<lambda>(rid, r). dm_remove pid (sfr_peers r) = [])
        (filter (\<lambda>(rid, r). dm_contains (sfr_peers r) pid) rooms)))
     (map (\<lambda>(rid, r). (rid, r\<lparr>sfr_peers := dm_remove pid (sfr_peers r)\<rparr>)) rooms)"
  by (simp add: remove_peer_global_def Let_def)

lemma sfu_inv_remove_global: "sfu_inv rooms \<Longrightarrow> sfu_inv (fst (remove_peer_global rooms pid))"
proof -
  assume inv: "sfu_inv rooms"
  have "peer_at (map (\<lambda>(rid, r). (rid, r\<lparr>sfr_peers := dm_remove pid (sfr_peers r)\<rparr>)) rooms) rid q =
      (if q = pid then None else peer_at rooms rid q)" for rid q
    by (auto simp: peer_at_def map_of_map_snd split: option.splits)
  moreover have "sfu_wf (map (\<lambda>(rid, r). (rid, r\<lparr>sfr_peers := dm_remove pid (sfr_peers r)\<rparr>)) rooms)"
    using inv by (auto simp: sfu_inv_def sfu_wf_def)
  ultimately have "sfu_inv (map (\<lambda>(rid, r). (rid, r\<lparr>sfr_peers := dm_remove pid (sfr_peers r)\<rparr>)) rooms)"
    using inv by (auto simp: sfu_inv_def split: if_splits)
  then show ?thesis by (simp add: remove_peer_global_map sfu_inv_removes)
qed

lemma sfu_inv_remove_ids: "sfu_inv rooms \<Longrightarrow> sfu_inv (fst (remove_producers_by_ids rooms ids))"
  by (auto simp: remove_producers_by_ids_def Let_def peer_ok_close_owned peer_ok_consume_data
      intro!: sfu_inv_map_peers)

lemma sfu_inv_remove_in_room: "sfu_inv rooms \<Longrightarrow> sfu_inv (fst (remove_peer_in_room rooms rid pid))"
  by (auto simp: remove_peer_in_room_def sfu_inv_drop_peer split: option.splits)

lemma sfu_inv_remove_peer: "sfu_inv rooms \<Longrightarrow> sfu_inv (fst (remove_peer rooms rid pid))"
  by (auto simp: remove_peer_def sfu_inv_drop_peer split: option.splits)

section \<open>Properties\<close>

datatype sfu_op =
    SfuTransport string string string "string + json" "string + transport_created"
  | SfuCaps string "string + json"
  | SfuProduce string string media_kind "string option" "string option" "string option" "string + string"
  | SfuConsume string string string "string option" "string option" "string + string \<times> json"
  | SfuProduceData string string string string "sctp_stream_parameters option" "string option" "string + string"
  | SfuConsumeData string string string "string option"
      "string + (string \<times> sctp_stream_parameters option \<times> string \<times> string)"
  | SfuRemovePeer string string
  | SfuRemoveInRoom string string
  | SfuRemoveGlobal string
  | SfuRemoveIds "string list"
  | SfuRemoveRoom string

fun apply_sfu_op :: "sfu_op \<Rightarrow> sfu \<Rightarrow> sfu" where
  "apply_sfu_op (SfuTransport r p d x y) s = fst (create_webrtc_transport s r p d x y)"
| "apply_sfu_op (SfuCaps r x) s = fst (router_rtp_capabilities s r x)"
| "apply_sfu_op (SfuProduce r p k t l e x) s = fst (create_producer s r p k t l e x)"
| "apply_sfu_op (SfuConsume r p i t e x) s = fst (create_consumer s r p i t e x)"
| "apply_sfu_op (SfuProduceData r p l pr sp t x) s = fst (create_data_producer s r p l pr sp t x)"
| "apply_sfu_op (SfuConsumeData r p i t x) s = fst (create_data_consumer s r p i t x)"
| "apply_sfu_op (SfuRemovePeer r p) s = fst (remove_peer s r p)"
| "apply_sfu_op (SfuRemoveInRoom r p) s = fst (remove_peer_in_room s r p)"
| "apply_sfu_op (SfuRemoveGlobal p) s = fst (remove_peer_global s p)"
| "apply_sfu_op (SfuRemoveIds is) s = fst (remove_producers_by_ids s is)"
| "apply_sfu_op (SfuRemoveRoom r) s = fst (sfu_remove_room s r)"

lemmas sfu_inv_ops = sfu_inv_transport sfu_inv_ensure_router sfu_inv_produce sfu_inv_consume
  sfu_inv_produce_data sfu_inv_consume_data sfu_inv_remove_peer sfu_inv_remove_in_room
  sfu_inv_remove_global sfu_inv_remove_ids sfu_inv_remove

lemma apply_sfu_op_inv: "sfu_inv s \<Longrightarrow> sfu_inv (apply_sfu_op op s)"
  by (cases op) (auto simp: sfu_inv_ops router_rtp_capabilities_def sfu_remove_room_def)

lemma sfu_inv_empty: "sfu_inv []"
  by (simp add: sfu_inv_def sfu_wf_def peer_at_def)

text \<open>
  C36. Whatever sequence of transport creations, produce and consume requests (with whatever
  outcome of the media worker) and removals the SFU serves, each room and each peer of a room is
  recorded once, every producer and data producer of a peer is bound to one of the send
  transports of that very peer, and no binding of a closed producer remains.
\<close>

theorem sfu_bindings_valid: "sfu_inv (fold apply_sfu_op ops [])"
  by (rule fold_invariant_list [of sfu_inv, OF sfu_inv_empty]) (rule apply_sfu_op_inv)

lemma find_map_singleton_change:
  assumes "dm_wf m" and "dm_get m k = Some v" and "\<And>k' v'. (k', v') \<in> set m \<Longrightarrow> k' \<noteq> k \<Longrightarrow> f k' v' = None"
    and "f k (g v) = Some y"
  shows "find_map (\<lambda>(k, v). f k v) (dm_modify k g m) = Some y"
  using assms
proof (induction m)
  case Nil
  then show ?case by simp
next
  case (Cons a m)
  obtain k' v' where a: "a = (k', v')" by force
  show ?case
  proof (cases "k' = k")
    case True
    then show ?thesis using Cons.prems by (simp add: a dm_modify_def)
  next
    case False
    then have "f k' v' = None" using Cons.prems(3) [of k' v'] by (simp add: a)
    moreover have "find_map (\<lambda>(k, v). f k v) (dm_modify k g m) = Some y"
      by (rule Cons.IH) (use Cons.prems False in \<open>auto simp: a\<close>)
    ultimately show ?thesis using False by (simp add: a dm_modify_def)
  qed
qed

lemma find_map_modify_same:
  "(\<And>v. f k (g v) = f k v) \<Longrightarrow> find_map (\<lambda>(k, v). f k v) (dm_modify k g m) = find_map (\<lambda>(k, v). f k v) m"
proof (induction m)
  case (Cons a m)
  obtain k' v' where a: "a = (k', v')" by force
  have "f k' (if k' = k then g v' else v') = f k' v'" using Cons.prems by simp
  then show ?case using Cons by (simp add: a dm_modify_def split: option.split)
qed (simp add: dm_modify_def)

lemma producer_transport_id_labels:
  "producer_transport_id (dm_modify rid (\<lambda>r. r\<lparr>sfr_producer_labels := g r\<rparr>) rooms) i = producer_transport_id rooms i"
  unfolding producer_transport_id_def by (rule find_map_modify_same) simp

lemma producer_transport_after_bind:
  assumes wf: "sfu_wf rooms" and p: "peer_at rooms rid pid = Some p" and new: "producer_transport_id rooms i = None"
    and f: "\<And>p. sfp_producer_transports (f p) = dm_insert i t (sfp_producer_transports p)"
  shows "producer_transport_id (modify_peer rid pid f rooms) i = Some t"
proof -
  obtain r where r: "dm_get rooms rid = Some r" "dm_get (sfr_peers r) pid = Some p"
    using p by (auto simp: peer_at_def split: option.splits)
  then have rin: "(rid, r) \<in> set rooms" by (blast dest: map_of_SomeD)
  have all: "\<forall>x\<in>set rooms. (case x of (rid, r) \<Rightarrow>
      find_map (\<lambda>(pid, p). dm_get (sfp_producer_transports p) i) (sfr_peers r)) = None"
    using new unfolding producer_transport_id_def by (rule find_map_None [THEN iffD1])
  have none: "find_map (\<lambda>(pid, p). dm_get (sfp_producer_transports p) i) (sfr_peers r') = None"
    if "(rid', r') \<in> set rooms" for rid' r'
    using bspec [OF all that] by simp
  have "find_map (\<lambda>(pid, p). dm_get (sfp_producer_transports p) i) (dm_modify pid f (sfr_peers r)) = Some t"
    by (rule find_map_singleton_change [where f = "\<lambda>_ p. dm_get (sfp_producer_transports p) i" and v = p])
      (use wf rin r none [OF rin] f in \<open>auto simp: sfu_wf_def find_map_None\<close>)
  then show ?thesis
    unfolding producer_transport_id_def modify_peer_def
    by (intro find_map_singleton_change [where v = r]) (use wf r none in \<open>auto simp: sfu_wf_def\<close>)
qed

lemma produced_state_transport:
  "sfu_wf rooms \<Longrightarrow> peer_at rooms rid pid = Some p \<Longrightarrow> producer_transport_id rooms i = None \<Longrightarrow>
     producer_transport_id (produced_state rooms rid pid kind label t i) i = Some t"
  by (auto simp: produced_state_def Let_def producer_transport_id_labels intro!: producer_transport_after_bind
      split: option.splits)

lemma produced_state_others:
  "(rid', pid') \<noteq> (rid, pid) \<Longrightarrow>
     peer_at (produced_state rooms rid pid kind label t i) rid' pid' = peer_at rooms rid' pid'"
  by (auto simp: produced_state_def Let_def peer_at_def modify_peer_def split: option.splits)

lemma list_producers_iff:
  assumes "dm_get rooms rid = Some r"
  shows "\<exists>ps. list_producers rooms rid = Some ps \<and> (\<forall>i k pid l. (i, k, pid, l) \<in> set ps \<longleftrightarrow>
     (\<exists>p q. (pid, p) \<in> set (sfr_peers r) \<and> q \<in> set (sfp_producers p) \<and> i = mp_id q
        \<and> k = protocol_kind (mp_kind q) \<and> l = dm_get (sfr_producer_labels r) i))"
  using assms by (auto simp: list_producers_def image_iff case_prod_beta) (force+)

lemma produced_state_listed:
  assumes "sfu_wf rooms" "peer_at rooms rid pid = Some p" "kind \<noteq> Data"
  shows "\<exists>ps l. list_producers (produced_state rooms rid pid kind label t i) rid = Some ps
    \<and> (i, kind, pid, l) \<in> set ps \<and> (label \<noteq> None \<longrightarrow> l = label)"
proof -
  obtain r where r: "dm_get rooms rid = Some r" "dm_get (sfr_peers r) pid = Some p"
    using assms(2) by (auto simp: peer_at_def split: option.splits)
  let ?S = "produced_state rooms rid pid kind label t i"
  obtain r' p' where r': "dm_get ?S rid = Some r'" "dm_get (sfr_peers r') pid = Some p'"
      and q: "\<lparr>mp_id = i, mp_kind = (if kind = Audio then MsAudio else MsVideo)\<rparr> \<in> set (sfp_producers p')"
      and l: "label \<noteq> None \<longrightarrow> dm_get (sfr_producer_labels r') i = label"
    using r by (cases label) (auto simp: produced_state_def Let_def modify_peer_def)
  have "protocol_kind (if kind = Audio then MsAudio else MsVideo) = kind" using assms(3) by (cases kind) auto
  with list_producers_iff [OF r'(1)] q l map_of_SomeD [OF r'(2)] show ?thesis by fastforce
qed

text \<open>
  Producing binds the right transport although several processes share one peer id: a
  produce request that names a transport fails if the peer has no such send transport and
  otherwise binds the new producer to exactly that one; without a name it binds the most recently
  created one. The new producer is then listed for the peer with its kind, and with its label if
  one was given; nobody else's producers change.
\<close>

theorem produce_binds_named_transport:
  assumes inv: "sfu_inv rooms" and new: "producer_transport_id rooms i = None"
    and p: "peer_at rooms rid pid = Some p"
  shows "((\<exists>rooms'. create_producer rooms rid pid kind tid label None (Inr i) = (rooms', Inr (i, kind))) \<longleftrightarrow>
        kind \<noteq> Data \<and> sfp_send_transports p \<noteq> [] \<and> (\<forall>t. tid = Some t \<longrightarrow> t \<in> set (sfp_send_transports p)))
   \<and> (\<forall>rooms'. create_producer rooms rid pid kind tid label None (Inr i) = (rooms', Inr (i, kind)) \<longrightarrow>
        producer_transport_id rooms' i = Some (unwrap_or tid (last (sfp_send_transports p)))
        \<and> (\<exists>ps l. list_producers rooms' rid = Some ps \<and> (i, kind, pid, l) \<in> set ps \<and> (label \<noteq> None \<longrightarrow> l = label))
        \<and> (\<forall>rid' pid'. (rid', pid') \<noteq> (rid, pid) \<longrightarrow> peer_at rooms' rid' pid' = peer_at rooms rid' pid'))"
proof -
  have find: "List.find (\<lambda>t. t = x) ts = (if x \<in> set ts then Some x else None)" for x :: string and ts
    by (induction ts) auto
  then have send: "send_transport p tid = Some t \<longleftrightarrow> sfp_send_transports p \<noteq> []
      \<and> (\<forall>t. tid = Some t \<longrightarrow> t \<in> set (sfp_send_transports p)) \<and> t = unwrap_or tid (last (sfp_send_transports p))" for t
    by (auto simp: send_transport_def last_opt_def split: option.splits)
  have res: "create_producer rooms rid pid kind tid label None (Inr i) = (rooms', Inr (i, kind)) \<longleftrightarrow>
      kind \<noteq> Data \<and> (\<exists>t. send_transport p tid = Some t \<and> rooms' = produced_state rooms rid pid kind label t i)" for rooms'
    using p by (auto simp: create_producer_ok)
  have wf: "sfu_wf rooms" using inv by (simp add: sfu_inv_def)
  note facts = produced_state_transport [OF wf p new] produced_state_listed [OF wf p] produced_state_others
  show ?thesis
  proof (intro conjI allI impI)
    show "(\<exists>rooms'. create_producer rooms rid pid kind tid label None (Inr i) = (rooms', Inr (i, kind))) \<longleftrightarrow>
        kind \<noteq> Data \<and> sfp_send_transports p \<noteq> [] \<and> (\<forall>t. tid = Some t \<longrightarrow> t \<in> set (sfp_send_transports p))"
      unfolding res send by blast
  next
    fix rooms'
    assume "create_producer rooms rid pid kind tid label None (Inr i) = (rooms', Inr (i, kind))"
    then have k: "kind \<noteq> Data"
        and r: "rooms' = produced_state rooms rid pid kind label (unwrap_or tid (last (sfp_send_transports p))) i"
      by (auto simp: res send)
    show "producer_transport_id rooms' i = Some (unwrap_or tid (last (sfp_send_transports p)))"
      unfolding r by (rule facts(1))
    show "\<exists>ps l. list_producers rooms' rid = Some ps \<and> (i, kind, pid, l) \<in> set ps \<and> (label \<noteq> None \<longrightarrow> l = label)"
      unfolding r by (rule facts(2) [OF k])
    show "peer_at rooms' rid' pid' = peer_at rooms rid' pid'" if "(rid', pid') \<noteq> (rid, pid)" for rid' pid'
      unfolding r by (rule facts(3) [OF that])
  qed
qed

definition demo_transport :: "string \<Rightarrow> transport_created" where
  "demo_transport i = \<lparr>tr_transport_id = i, tr_ice_parameters = \<lparr>ip_username_fragment = ''u'', ip_password = ''p''\<rparr>,
     tr_dtls_parameters = \<lparr>dt_fingerprints = [], dt_role = ''auto''\<rparr>, tr_ice_candidates = [], tr_sctp_parameters = None\<rparr>"

definition demo_sfu :: sfu where
  "demo_sfu = fold apply_sfu_op
     [SfuTransport ''car_front'' ''host'' ''send'' (Inr JNull) (Inr (demo_transport ''t1'')),
      SfuTransport ''car_front'' ''host'' ''send'' (Inr JNull) (Inr (demo_transport ''t2'')),
      SfuProduceData ''car_front'' ''host'' ''ctl'' [] (Some \<lparr>sp_stream_id = 0, sp_ordered = True,
        sp_max_packet_life_time = None, sp_max_retransmits = None\<rparr>) (Some ''t1'') (Inr ''d1''),
      SfuTransport ''car_front'' ''v1'' ''recv'' (Inr JNull) (Inr (demo_transport ''t3'')),
      SfuConsumeData ''car_front'' ''v1'' ''d1'' None (Inr (''x1'', None, ''ctl'', []))] []"

lemma demo_sfu_inv: "sfu_inv demo_sfu"
  unfolding demo_sfu_def
  by (rule fold_invariant_list [of sfu_inv, OF sfu_inv_empty]) (rule apply_sfu_op_inv)

lemma demo_sfu_host:
  "peer_at demo_sfu ''car_front'' ''host'' = Some (new_peer\<lparr>sfp_send_transports := [''t1'', ''t2''],
     sfp_data_producers := [\<lparr>md_id = ''d1'', md_label = ''ctl'', md_protocol = []\<rparr>],
     sfp_data_producer_transports := [(''d1'', ''t1'')]\<rparr>)"
  by code_simp

theorem produce_binds_named_transport_witness:
  "\<exists>rooms'. create_producer demo_sfu ''car_front'' ''host'' Video (Some ''t1'') (Some ''front'') None (Inr ''p1'') =
      (rooms', Inr (''p1'', Video)) \<and> producer_transport_id rooms' ''p1'' = Some ''t1''"
proof -
  have "producer_transport_id demo_sfu ''p1'' = None" by code_simp
  note all = produce_binds_named_transport [OF demo_sfu_inv this demo_sfu_host,
      where tid = "Some ''t1''" and kind = Video and label = "Some ''front''"]
  from all [THEN conjunct1] obtain rooms' where r:
    "create_producer demo_sfu ''car_front'' ''host'' Video (Some ''t1'') (Some ''front'') None (Inr ''p1'') =
      (rooms', Inr (''p1'', Video))" by auto
  with all [THEN conjunct2, rule_format, OF r] show ?thesis by auto
qed

lemma peer_at_in_set:
  "sfu_wf rooms \<Longrightarrow> (\<exists>r. (rid, r) \<in> set rooms \<and> (pid, p) \<in> set (sfr_peers r)) \<longleftrightarrow> peer_at rooms rid pid = Some p"
proof -
  assume wf: "sfu_wf rooms"
  have "(rid, r) \<in> set rooms \<longleftrightarrow> dm_get rooms rid = Some r" for r
    using wf by (simp add: sfu_wf_def)
  moreover have "(pid, p) \<in> set (sfr_peers r) \<longleftrightarrow> dm_get (sfr_peers r) pid = Some p" if "(rid, r) \<in> set rooms" for r
    using wf that by (simp add: sfu_wf_def)
  ultimately show ?thesis by (auto simp: peer_at_def split: option.splits)
qed

lemma gone_data_producers_iff:
  assumes "sfu_wf rooms"
  shows "d \<in> set (gone_data_producers ids rooms) \<longleftrightarrow>
     d \<in> set ids \<and> (\<exists>rid pid p. peer_at rooms rid pid = Some p \<and> d \<in> md_id ` set (sfp_data_producers p))"
proof -
  have "d \<in> set (gone_data_producers ids rooms) \<longleftrightarrow> (\<exists>rid r pid p. (rid, r) \<in> set rooms \<and>
      (pid, p) \<in> set (sfr_peers r) \<and> d \<in> set ids \<and> d \<in> md_id ` set (sfp_data_producers p))"
    by (simp add: gone_data_producers_def Bex_def image_iff) blast
  then show ?thesis unfolding peer_at_in_set [OF assms, symmetric] by blast
qed

definition owned_cleanup :: "string list \<Rightarrow> string list \<Rightarrow> sfu_peer \<Rightarrow> sfu_peer" where
  "owned_cleanup ids gone p = (close_owned ids p)\<lparr>sfp_data_consumers :=
     filter (\<lambda>c. mx_data_producer_id c \<notin> set gone) (sfp_data_consumers p)\<rparr>"

lemma peer_at_remove_ids:
  "peer_at (fst (remove_producers_by_ids rooms ids)) rid pid =
     map_option (owned_cleanup ids (gone_data_producers ids rooms)) (peer_at rooms rid pid)"
  by (cases "peer_at rooms rid pid")
    (auto simp: remove_producers_by_ids_def Let_def peer_at_map_peers owned_cleanup_def close_owned_def)

lemma remove_ids_out:
  assumes "sfu_wf rooms"
  shows "(rid, i, k) \<in> set (snd (remove_producers_by_ids rooms ids)) \<longleftrightarrow>
     (\<exists>pid p. peer_at rooms rid pid = Some p \<and> (i, k) \<in> set (owned_hits ids p))"
proof -
  have "(rid, i, k) \<in> set (snd (remove_producers_by_ids rooms ids)) \<longleftrightarrow> (\<exists>r pid p. (rid, r) \<in> set rooms \<and>
      (pid, p) \<in> set (sfr_peers r) \<and> (i, k) \<in> set (owned_hits ids p))"
    by (simp add: remove_producers_by_ids_def Let_def Bex_def image_iff) blast
  then show ?thesis unfolding peer_at_in_set [OF assms, symmetric] by blast
qed

text \<open>
  Closing producers by id is exact: afterwards no room has a producer or data producer with
  one of the ids, every other producer is still there, no data consumer of a closed data
  producer is left (so its SCTP stream id is free again) while all other data consumers stay,
  and the report lists exactly what was closed, with its room and its kind.
\<close>

theorem remove_producers_exact:
  assumes inv: "sfu_inv rooms" and rm: "remove_producers_by_ids rooms ids = (rooms', out)"
  shows "(\<forall>rid pid. peer_at rooms' rid pid = None \<longleftrightarrow> peer_at rooms rid pid = None)
   \<and> (\<forall>rid pid p p'. peer_at rooms rid pid = Some p \<and> peer_at rooms' rid pid = Some p' \<longrightarrow>
        sfp_producers p' = filter (\<lambda>q. mp_id q \<notin> set ids) (sfp_producers p)
        \<and> sfp_data_producers p' = filter (\<lambda>q. md_id q \<notin> set ids) (sfp_data_producers p)
        \<and> (\<forall>c \<in> set (sfp_data_consumers p). c \<in> set (sfp_data_consumers p') \<longleftrightarrow>
             \<not> (\<exists>rid2 pid2 p2. peer_at rooms rid2 pid2 = Some p2 \<and> mx_data_producer_id c \<in> set ids
                  \<and> mx_data_producer_id c \<in> md_id ` set (sfp_data_producers p2))))
   \<and> (\<forall>rid i k. (rid, i, k) \<in> set out \<longleftrightarrow> i \<in> set ids \<and> (\<exists>pid p. peer_at rooms rid pid = Some p
        \<and> ((\<exists>q \<in> set (sfp_producers p). mp_id q = i \<and> protocol_kind (mp_kind q) = k)
           \<or> (k = Data \<and> i \<in> md_id ` set (sfp_data_producers p)))))"
proof -
  have wf: "sfu_wf rooms" using inv by (simp add: sfu_inv_def)
  have at: "peer_at rooms' rid pid = map_option (owned_cleanup ids (gone_data_producers ids rooms)) (peer_at rooms rid pid)"
    for rid pid using peer_at_remove_ids [of rooms ids rid pid] rm by simp
  have out: "(rid, i, k) \<in> set out \<longleftrightarrow> (\<exists>pid p. peer_at rooms rid pid = Some p \<and> (i, k) \<in> set (owned_hits ids p))"
    for rid i k using remove_ids_out [OF wf, of rid i k ids] rm by simp
  have hits: "(i, k) \<in> set (owned_hits ids p) \<longleftrightarrow> i \<in> set ids \<and>
      ((\<exists>q \<in> set (sfp_producers p). mp_id q = i \<and> protocol_kind (mp_kind q) = k)
       \<or> (k = Data \<and> i \<in> md_id ` set (sfp_data_producers p)))" for i k p
    by (auto simp: owned_hits_def)
  have "c \<in> set (sfp_data_consumers p') \<longleftrightarrow> \<not> (\<exists>rid2 pid2 p2. peer_at rooms rid2 pid2 = Some p2
      \<and> mx_data_producer_id c \<in> set ids \<and> mx_data_producer_id c \<in> md_id ` set (sfp_data_producers p2))"
    if "peer_at rooms rid pid = Some p" "peer_at rooms' rid pid = Some p'" "c \<in> set (sfp_data_consumers p)"
    for rid pid p p' c
  proof -
    have "p' = owned_cleanup ids (gone_data_producers ids rooms) p" using that by (simp add: at)
    with that(3) show ?thesis by (simp add: owned_cleanup_def gone_data_producers_iff [OF wf])
  qed
  moreover have "sfp_producers p' = filter (\<lambda>q. mp_id q \<notin> set ids) (sfp_producers p)
      \<and> sfp_data_producers p' = filter (\<lambda>q. md_id q \<notin> set ids) (sfp_data_producers p)"
    if "peer_at rooms rid pid = Some p" "peer_at rooms' rid pid = Some p'" for rid pid p p'
    using that by (auto simp: at owned_cleanup_def close_owned_def)
  moreover have "peer_at rooms' rid pid = None \<longleftrightarrow> peer_at rooms rid pid = None" for rid pid by (simp add: at)
  ultimately show ?thesis unfolding out hits by blast
qed

theorem remove_producers_exact_witness:
  "(''car_front'', ''d1'', Data) \<in> set (snd (remove_producers_by_ids demo_sfu [''d1'']))"
proof -
  have "remove_producers_by_ids demo_sfu [''d1''] =
    (fst (remove_producers_by_ids demo_sfu [''d1'']), snd (remove_producers_by_ids demo_sfu [''d1'']))" by simp
  from remove_producers_exact [OF demo_sfu_inv this, THEN conjunct2, THEN conjunct2, rule_format,
      of "''car_front''" "''d1''" Data] demo_sfu_host
  show ?thesis by force
qed

lemma peer_at_remove_in_room:
  "peer_at (fst (remove_peer_in_room rooms rid pid)) rid' pid' =
     (if rid' = rid \<and> pid' = pid then None else peer_at rooms rid' pid')"
proof -
  have "fst (remove_peer_in_room rooms rid pid) =
      (if peer_at rooms rid pid = None then rooms else drop_peer rooms rid pid)"
    by (auto simp: remove_peer_in_room_def peer_at_def split: option.splits)
  then show ?thesis by (simp add: peer_at_drop_peer)
qed

lemma dm_get_drop_peer:
  "dm_get (drop_peer rooms rid pid) rid' =
     (if rid' = rid then (case dm_get rooms rid of None \<Rightarrow> None
        | Some r \<Rightarrow> if dm_remove pid (sfr_peers r) = [] then None
                   else Some (r\<lparr>sfr_peers := dm_remove pid (sfr_peers r)\<rparr>))
      else dm_get rooms rid')"
  by (auto simp: drop_peer_def sfu_remove_room_def Let_def split: option.splits)

lemma dm_remove_Nil_iff: "dm_remove k m = [] \<longleftrightarrow> fst ` set m \<subseteq> {k}"
  by (auto simp: AList.delete_eq filter_empty_conv)

lemma fst_set_dm_get: "k \<in> fst ` set m \<longleftrightarrow> dm_get m k \<noteq> None"
  by (metis map_of_eq_None_iff)

text \<open>
  Removing a peer from one room is precise although streams of one vehicle report the same
  peer id: the peer is gone from that room, the same peer id in every other room and every other
  peer keep their state, and the report lists exactly the producers the peer had there. The router of
  the room is destroyed exactly if this was the last peer; other rooms' routers survive.
\<close>

theorem remove_peer_in_room_precise:
  assumes rm: "remove_peer_in_room rooms rid pid = (rooms', closed)"
  shows "(\<forall>rid' pid'. peer_at rooms' rid' pid' =
            (if rid' = rid \<and> pid' = pid then None else peer_at rooms rid' pid'))
   \<and> closed = (case peer_at rooms rid pid of
        Some p \<Rightarrow> map (\<lambda>q. (mp_id q, protocol_kind (mp_kind q))) (sfp_producers p) | None \<Rightarrow> [])
   \<and> (peer_at rooms rid pid \<noteq> None \<longrightarrow>
        (dm_contains rooms' rid \<longleftrightarrow> (\<exists>pid'. pid' \<noteq> pid \<and> peer_at rooms rid pid' \<noteq> None)))
   \<and> (\<forall>rid'. rid' \<noteq> rid \<longrightarrow> dm_contains rooms' rid' = dm_contains rooms rid')"
proof (intro conjI allI impI)
  show "peer_at rooms' rid' pid' = (if rid' = rid \<and> pid' = pid then None else peer_at rooms rid' pid')" for rid' pid'
    using peer_at_remove_in_room [of rooms rid pid rid' pid'] rm by simp
  show "closed = (case peer_at rooms rid pid of
        Some p \<Rightarrow> map (\<lambda>q. (mp_id q, protocol_kind (mp_kind q))) (sfp_producers p) | None \<Rightarrow> [])"
    using rm by (auto simp: remove_peer_in_room_def peer_at_def closed_producers_def split: option.splits)
next
  assume "peer_at rooms rid pid \<noteq> None"
  then obtain r where r: "dm_get rooms rid = Some r" "dm_get (sfr_peers r) pid \<noteq> None"
    by (auto simp: peer_at_def split: option.splits)
  then have "rooms' = drop_peer rooms rid pid" using rm by (auto simp: remove_peer_in_room_def)
  then have "dm_contains rooms' rid \<longleftrightarrow> \<not> fst ` set (sfr_peers r) \<subseteq> {pid}"
    using r by (simp add: dm_contains_def dm_get_drop_peer dm_remove_Nil_iff)
  then show "dm_contains rooms' rid \<longleftrightarrow> (\<exists>pid'. pid' \<noteq> pid \<and> peer_at rooms rid pid' \<noteq> None)"
    using r by (auto simp: peer_at_def subset_iff fst_set_dm_get simp del: not_None_eq)
next
  fix rid' assume "rid' \<noteq> rid"
  then show "dm_contains rooms' rid' = dm_contains rooms rid'"
    using rm by (auto simp: remove_peer_in_room_def dm_contains_def dm_get_drop_peer split: option.splits)
qed

theorem remove_peer_in_room_precise_witness:
  "dm_contains (fst (remove_peer_in_room demo_sfu ''car_front'' ''host'')) ''car_front''"
proof -
  have rm: "remove_peer_in_room demo_sfu ''car_front'' ''host'' =
    (fst (remove_peer_in_room demo_sfu ''car_front'' ''host''), snd (remove_peer_in_room demo_sfu ''car_front'' ''host''))"
    by simp
  have v1: "''v1'' \<noteq> ''host'' \<and> peer_at demo_sfu ''car_front'' ''v1'' \<noteq> None" by code_simp
  have host: "peer_at demo_sfu ''car_front'' ''host'' \<noteq> None" by (simp add: demo_sfu_host)
  show ?thesis
    by (rule remove_peer_in_room_precise [OF rm, THEN conjunct2, THEN conjunct2, THEN conjunct1,
          THEN mp, OF host, THEN iffD2]) (rule exI, rule v1)
qed

text \<open>
  The first address is bound concretely only if it is local. A list whose first address is not
  local and whose second one is makes the server bind the wildcard and a concrete address on
  the same port, which the comment on the function itself names as the conflict to avoid.
\<close>

lemma listen_infos_no_wildcard:
  assumes "use_bare_metal_listen announced local_ips" "is_ip (hd announced)" "''0.0.0.0'' \<notin> set local_ips"
  shows "''0.0.0.0'' \<notin> fst ` set (listen_infos is_ip announced local_ips)"
  using assms by (auto simp: listen_infos_def use_bare_metal_listen_def split: list.splits)

lemma listen_infos_conflict:
  "listen_infos (\<lambda>_. True) [''203.0.113.9'', ''10.0.0.2''] [''10.0.0.2''] =
     [(''0.0.0.0'', Some ''203.0.113.9''), (''10.0.0.2'', Some ''10.0.0.2'')]"
  by (simp add: listen_infos_def use_bare_metal_listen_def)

end
