(* ===== verification/SignalServer.thy ===== *)
theory SignalServer
  imports Room ApiKeys Sfu
begin

text \<open>
  The shared state of the signaling server and the operations every connection calls on it,
  \<open>mediaservo-server/src/signaling.rs\<close>: room broadcast channels, the configuration push, the table
  of retention tickets, the announcement of closed producers and the teardown of a session. The
  sources are those of the \<open>sfu-mediasoup\<close> build. A broadcast channel is its number of
  receivers; channels are never removed. What is sent on a channel, and the events for the admin
  panel, are appended to \<open>srv_out\<close>; the audit ring is the one of \<open>audit.rs\<close>. Log lines are not
  modelled. The timestamp \<open>ts\<close> of an admin event is an argument.
\<close>

section \<open>State\<close>

datatype payload = PMsg signaling_message | PText string

datatype admin_event =
    StreamCreate string string string \<comment> \<open>device_id stream_id timestamp\<close>
  | StreamDestroy string string string
  | AdminDeviceOnline string string \<comment> \<open>device_id timestamp\<close>
  | AdminDeviceOffline string string
  | AdminConsumerJoin string string string string \<comment> \<open>peer_id device_id stream_id timestamp\<close>
  | AdminConsumerLeave string string string string

datatype out_event =
    Broadcast string payload nat \<comment> \<open>room, frame, number of receivers\<close>
  | AdminEv admin_event

record held_resume =
  hr_peer_id :: string
  hr_nonce :: string
  hr_negotiated :: u32
  hr_seq :: u64

type_synonym resume_table = "(string \<times> string, held_resume) dmap"

record server =
  srv_channels :: "(string, nat) dmap"
  srv_rooms :: room_table
  srv_sfu :: sfu
  srv_shutdown :: bool
  srv_active_connections :: nat
  srv_resume :: resume_table
  srv_resume_seq :: u64
  srv_pending :: "(string, string list) dmap"
  srv_psk :: "string option"
  srv_status :: status_registry
  srv_devices :: device_registry
  srv_pending_devices :: pending_table
  srv_allow_dev_enroll :: bool
  srv_bindings :: "(string, string) dmap"
  srv_owners :: "(string, string) dmap"
  srv_producer_owners :: "(string, string) dmap"
  srv_t4_gone_seen :: "(string, u32) dmap"
  srv_audit :: "audit_event list"
  srv_out :: "out_event list"

definition server_new :: "device_registry \<Rightarrow> server" where
  "server_new reg = \<lparr>srv_channels = [], srv_rooms = room_manager_new, srv_sfu = [], srv_shutdown = False,
     srv_active_connections = 0, srv_resume = [], srv_resume_seq = 0, srv_pending = [], srv_psk = None,
     srv_status = [], srv_devices = reg, srv_pending_devices = [], srv_allow_dev_enroll = False,
     srv_bindings = [], srv_owners = [], srv_producer_owners = [], srv_t4_gone_seen = [],
     srv_audit = [], srv_out = []\<rparr>"

definition device_id_of :: "server \<Rightarrow> string \<Rightarrow> string option" where
  "device_id_of srv peer_id = dm_get (srv_bindings srv) peer_id"

definition device_binding_count :: "server \<Rightarrow> nat" where
  "device_binding_count srv = length (srv_bindings srv)"

definition room_owner_of :: "server \<Rightarrow> string \<Rightarrow> string option" where
  "room_owner_of srv room_id = dm_get (srv_owners srv) room_id"

definition room_owner_count :: "server \<Rightarrow> nat" where
  "room_owner_count srv = length (srv_owners srv)"

definition server_shutdown :: "server \<Rightarrow> server" where
  "server_shutdown srv = srv\<lparr>srv_shutdown := True\<rparr>"

definition audit_log :: "audit_event \<Rightarrow> server \<Rightarrow> server" where
  "audit_log e srv = srv\<lparr>srv_audit := log_event (srv_audit srv) e\<rparr>"

definition get_or_create_channel :: "string \<Rightarrow> server \<Rightarrow> server" where
  "get_or_create_channel room_id srv =
     (if dm_contains (srv_channels srv) room_id then srv
      else srv\<lparr>srv_channels := dm_insert room_id 0 (srv_channels srv)\<rparr>)"

definition receivers :: "server \<Rightarrow> string \<Rightarrow> nat" where
  "receivers srv room_id = unwrap_or (dm_get (srv_channels srv) room_id) 0"

text \<open>\<open>Sender::send\<close>: \<open>Ok\<close> exactly if the channel has a receiver.\<close>

definition tx_send :: "string \<Rightarrow> payload \<Rightarrow> server \<Rightarrow> server \<times> bool" where
  "tx_send room_id p srv =
     (srv\<lparr>srv_out := srv_out srv @ [Broadcast room_id p (receivers srv room_id)]\<rparr>, receivers srv room_id > 0)"

definition emit_admin :: "admin_event \<Rightarrow> server \<Rightarrow> server" where
  "emit_admin ev srv = srv\<lparr>srv_out := srv_out srv @ [AdminEv ev]\<rparr>"

definition push_config ::
  "server \<Rightarrow> string \<Rightarrow> string \<Rightarrow> u64 \<Rightarrow> string option \<Rightarrow> server \<times> (string + unit)" where
  "push_config srv room_id config version actor =
     (case List.find (\<lambda>r. rm_id r = room_id) (list_rooms (srv_rooms srv)) of
        None \<Rightarrow> (srv, Inl (''push_config: room '' @ room_id @ '' has no host''))
      | Some r \<Rightarrow>
          (case rm_host r of
             None \<Rightarrow> (srv, Inl (''push_config: room '' @ room_id @ '' has no host''))
           | Some host_peer \<Rightarrow>
               (case tx_send room_id (PMsg (ConfigPush room_id host_peer config version actor))
                       (get_or_create_channel room_id srv) of
                  (srv1, True) \<Rightarrow> (srv1, Inr ())
                | (srv1, False) \<Rightarrow> (srv1, Inl (''push_config: room '' @ room_id @ '' has no receiver'')))))"

datatype health_status = Healthy | Unhealthy string

definition check_health :: "server \<Rightarrow> health_status" where
  "check_health srv = Healthy"

definition check_readiness :: "bool \<Rightarrow> server \<Rightarrow> health_status" where
  "check_readiness worker_alive srv =
     (if \<not> worker_alive
      then Unhealthy (''mediasoup worker process has exited '' @ [CHR 0xE2, CHR 0x80, CHR 0x94] @ '' SFU unusable until this server restarts'')
      else check_health srv)"

text \<open>
  Durations in milliseconds; \<open>miss + 1\<close> is 32-bit and wraps. (The multiplication of a duration by a
  32-bit factor cannot overflow for intervals below 584 years.)
\<close>

definition pong_budget_exceeded :: "nat \<Rightarrow> nat \<Rightarrow> u32 \<Rightarrow> bool" where
  "pong_budget_exceeded silent interval miss = (silent > interval * unat (miss + 1))"

section \<open>Retention tickets\<close>

definition RESUME_GLOBAL_CAP :: nat where "RESUME_GLOBAL_CAP = 32"

fun identity_key :: "session_identity \<Rightarrow> string" where
  "identity_key (Device d) = d"
| "identity_key (Account a) = ai_username a"
| "identity_key Legacy = ''legacy''"

text \<open>\<open>iter().min_by_key(|(_, h)| h.seq)\<close>: the first entry with the least sequence number.\<close>

fun oldest_ticket :: "resume_table \<Rightarrow> ((string \<times> string) \<times> held_resume) option" where
  "oldest_ticket [] = None"
| "oldest_ticket (e # t) =
     (case oldest_ticket t of
        None \<Rightarrow> Some e
      | Some e' \<Rightarrow> if hr_seq (snd e') < hr_seq (snd e) then Some e' else Some e)"

lemma oldest_ticket_None [simp]: "oldest_ticket t = None \<longleftrightarrow> t = []"
  by (cases t) (auto split: option.splits)

lemma oldest_ticket_in: "oldest_ticket t = Some e \<Longrightarrow> e \<in> set t"
  by (induction t arbitrary: e) (auto split: option.splits if_splits)

lemma oldest_ticket_min: "oldest_ticket t = Some e \<Longrightarrow> \<forall>e'\<in>set t. hr_seq (snd e) \<le> hr_seq (snd e')"
  by (induction t arbitrary: e) (fastforce split: option.splits if_splits)+

function prune_resume :: "resume_table \<Rightarrow> nat \<Rightarrow> resume_table" where
  "prune_resume tab cap =
     (if length tab > cap
      then (case oldest_ticket tab of
              Some (k, h) \<Rightarrow> prune_resume (dm_remove k tab) cap
            | None \<Rightarrow> tab)
      else tab)"
  by pat_completeness auto
termination
proof (relation "measure (length \<circ> fst)")
  fix tab :: resume_table and cap :: nat and e k h
  assume "oldest_ticket tab = Some e" and "(k, h) = e"
  then have "dm_get tab k \<noteq> None" by (metis oldest_ticket_in weak_map_of_SomeI option.discI)
  then have "length (dm_remove k tab) < length tab" by (rule dm_length_remove_less)
  then show "((dm_remove k tab, cap), tab, cap) \<in> measure (length \<circ> fst)" by simp
qed simp

declare prune_resume.simps [simp del]

section \<open>Announcing closed producers\<close>

definition group_closed_by_room ::
  "(string \<times> string \<times> media_kind) list \<Rightarrow> (string, (string \<times> media_kind) list) dmap" where
  "group_closed_by_room xs =
     fold (\<lambda>(room, i, kind) acc. dm_insert room (unwrap_or (dm_get acc room) [] @ [(i, kind)]) acc) xs []"

definition announce_one :: "string \<Rightarrow> string \<Rightarrow> string option \<Rightarrow> string \<times> media_kind \<Rightarrow> server \<Rightarrow> server" where
  "announce_one room_id reporter_peer device_id p srv =
     (let srv1 = fst (tx_send room_id
            (PMsg (ProducerClosed room_id reporter_peer (fst p) (snd p) (Some ''peer_disconnected''))) srv)
      in if device_id \<noteq> None
         then srv1\<lparr>srv_producer_owners := dm_remove (fst p) (srv_producer_owners srv1)\<rparr> else srv1)"

definition deferred_cleanup :: "string \<Rightarrow> server \<Rightarrow> server" where
  "deferred_cleanup room_id srv =
     (if should_deferred_cleanup (get_room (srv_rooms srv) room_id = None)
           (room_has_producers (srv_sfu srv) room_id)
      then srv\<lparr>srv_status := status_remove (srv_status srv) room_id,
               srv_owners := dm_remove room_id (srv_owners srv)\<rparr>
      else srv)"

definition announce_producers_closed ::
  "string \<Rightarrow> string \<Rightarrow> string \<Rightarrow> string option \<Rightarrow> (string \<times> media_kind) list \<Rightarrow> server \<Rightarrow> server" where
  "announce_producers_closed ts room_id reporter_peer device_id closed srv =
     (if closed = [] then srv
      else
        let srv1 = get_or_create_channel room_id srv;
            srv2 = fold (announce_one room_id reporter_peer device_id) closed srv1;
            srv3 = (case device_id of
                      Some device \<Rightarrow> emit_admin (StreamDestroy device room_id ts) srv2
                    | None \<Rightarrow> srv2)
        in deferred_cleanup room_id srv3)"

section \<open>Teardown of a session\<close>

definition session_key :: "string \<Rightarrow> string" where
  "session_key peer = ''session:'' @ peer"

definition owned_by :: "string \<Rightarrow> server \<Rightarrow> string list" where
  "owned_by key srv = map fst (filter (\<lambda>(pid, o'). o' = key) (srv_producer_owners srv))"

text \<open>
  Closing the producers registered under one owner key: by id across all rooms, then announced
  room by room.
\<close>

definition reclaim_owned :: "string \<Rightarrow> string \<Rightarrow> string option \<Rightarrow> string list \<Rightarrow> server \<Rightarrow> server" where
  "reclaim_owned ts reporter device ids srv =
     (let (sfu', removed) = remove_producers_by_ids (srv_sfu srv) ids;
          srv1 = srv\<lparr>srv_sfu := sfu', srv_producer_owners := dm_removes ids (srv_producer_owners srv)\<rparr>
      in fold (\<lambda>(room, closed). announce_producers_closed ts room reporter device closed)
           (group_closed_by_room removed) srv1)"

text \<open>Nothing is done when nothing is registered under the key.\<close>

definition reclaim_key :: "string \<Rightarrow> string \<Rightarrow> string option \<Rightarrow> string \<Rightarrow> server \<Rightarrow> server" where
  "reclaim_key ts p d key s = (if owned_by key s \<noteq> [] then reclaim_owned ts p d (owned_by key s) s else s)"

text \<open>The session's own peer id is removed from all SFU rooms, and what that closed is announced.\<close>

definition global_step :: "string \<Rightarrow> string \<Rightarrow> server \<Rightarrow> server" where
  "global_step ts peer s =
     fold (\<lambda>(room, closed). announce_producers_closed ts room peer (dm_get (srv_bindings s) peer) closed)
       (snd (remove_peer_global (srv_sfu s) peer)) (s\<lparr>srv_sfu := fst (remove_peer_global (srv_sfu s) peer)\<rparr>)"

definition disconnect_sfu :: "string \<Rightarrow> string \<Rightarrow> server \<Rightarrow> server" where
  "disconnect_sfu ts peer srv =
     (let srv1 = global_step ts peer srv;
          srv2 = reclaim_key ts peer None (session_key peer) srv1;
          srv3 = srv2\<lparr>srv_t4_gone_seen := dm_remove peer (srv_t4_gone_seen srv2)\<rparr>
      in case dm_get (srv_bindings srv3) peer of
           None \<Rightarrow> srv3
         | Some device_id \<Rightarrow> reclaim_key ts peer (Some device_id) device_id srv3)"

definition is_device_stream_host :: "server \<Rightarrow> string \<Rightarrow> string \<Rightarrow> bool" where
  "is_device_stream_host srv room peer =
     (is_device_stream (srv_rooms srv) room \<and>
      (case List.find (\<lambda>r. rm_id r = room) (list_rooms (srv_rooms srv)) of
         Some r \<Rightarrow> rm_host r = Some peer | None \<Rightarrow> False))"

definition disconnect_session :: "string \<Rightarrow> string \<Rightarrow> string \<Rightarrow> server \<Rightarrow> server" where
  "disconnect_session ts peer room srv =
     (let srv1 = disconnect_sfu ts peer srv;
          host = is_device_stream_host srv1 room peer;
          (rooms2, room_removed, evs) = leave_room (srv_rooms srv1) room peer;
          srv2 = fold audit_log evs (srv1\<lparr>srv_rooms := rooms2\<rparr>);
          srv3 = srv2\<lparr>srv_bindings := dm_remove peer (srv_bindings srv2)\<rparr>;
          srv4 = audit_log (PeerLeave peer room) srv3;
          srv5 = (if host then
                    (let (rooms5, consumers) = disconnect_consumers (srv_rooms srv4) room
                     in fold (\<lambda>c. audit_log (PeerLeave c room)) consumers (srv4\<lparr>srv_rooms := rooms5\<rparr>))
                  else srv4);
          sfu_alive = room_has_producers (srv_sfu srv5) room;
          srv6 = (if should_teardown room_removed sfu_alive
                  then srv5\<lparr>srv_sfu := fst (sfu_remove_room (srv_sfu srv5) room),
                            srv_status := status_remove (srv_status srv5) room,
                            srv_owners := dm_remove room (srv_owners srv5)\<rparr>
                  else srv5)
      in fst (tx_send room (PMsg (RoomLeave room peer)) srv6))"

section \<open>Status report gate\<close>

definition status_report_denial_reason :: "session_identity \<Rightarrow> peer_role \<Rightarrow> string option" where
  "status_report_denial_reason identity role =
     (if (\<exists>d. identity = Device d) \<or> role = Host then None
      else Some ''status reports require a device session or host role'')"

lemma status_report_denial_reason_code [code]:
  "status_report_denial_reason identity role =
     (if (case identity of Device d \<Rightarrow> True | _ \<Rightarrow> False) \<or> role = Host then None
      else Some ''status reports require a device session or host role'')"
  by (auto simp: status_report_denial_reason_def split: session_identity.splits)

definition status_report_denial ::
  "session_identity \<Rightarrow> peer_role \<Rightarrow> string \<Rightarrow> string \<Rightarrow> server \<Rightarrow> server \<times> signaling_message option" where
  "status_report_denial identity role peer_id room srv =
     (case status_report_denial_reason identity role of
        None \<Rightarrow> (srv, None)
      | Some reason \<Rightarrow>
          let detail = reason @ '' (peer='' @ peer_id @ '', room='' @ room @ '')''
          in (audit_log (AuthorizationDenied ''status_report'' peer_id detail) srv, Some (Error 4031 detail)))"

section \<open>Frames\<close>

text \<open>Which parts of the state the shared operations leave alone.\<close>

lemma audit_log_frame [frame_simps]:
  "srv_channels (audit_log e s) = srv_channels s" "srv_rooms (audit_log e s) = srv_rooms s"
  "srv_sfu (audit_log e s) = srv_sfu s" "srv_shutdown (audit_log e s) = srv_shutdown s"
  "srv_active_connections (audit_log e s) = srv_active_connections s"
  "srv_resume (audit_log e s) = srv_resume s" "srv_resume_seq (audit_log e s) = srv_resume_seq s"
  "srv_pending (audit_log e s) = srv_pending s" "srv_psk (audit_log e s) = srv_psk s"
  "srv_status (audit_log e s) = srv_status s" "srv_devices (audit_log e s) = srv_devices s"
  "srv_pending_devices (audit_log e s) = srv_pending_devices s"
  "srv_allow_dev_enroll (audit_log e s) = srv_allow_dev_enroll s"
  "srv_bindings (audit_log e s) = srv_bindings s" "srv_owners (audit_log e s) = srv_owners s"
  "srv_producer_owners (audit_log e s) = srv_producer_owners s"
  "srv_t4_gone_seen (audit_log e s) = srv_t4_gone_seen s" "srv_out (audit_log e s) = srv_out s"
  by (simp_all add: audit_log_def)

text \<open>
  \<open>same_core\<close>: two states that agree on everything but channels, outputs, audit ring, producer
  owners, room owners and status reports.
\<close>

definition same_core :: "server \<Rightarrow> server \<Rightarrow> bool" where
  "same_core s t =
     (srv_rooms s = srv_rooms t \<and> srv_sfu s = srv_sfu t \<and> srv_shutdown s = srv_shutdown t
      \<and> srv_active_connections s = srv_active_connections t \<and> srv_resume s = srv_resume t
      \<and> srv_resume_seq s = srv_resume_seq t \<and> srv_pending s = srv_pending t \<and> srv_psk s = srv_psk t
      \<and> srv_devices s = srv_devices t \<and> srv_pending_devices s = srv_pending_devices t
      \<and> srv_allow_dev_enroll s = srv_allow_dev_enroll t \<and> srv_bindings s = srv_bindings t
      \<and> srv_t4_gone_seen s = srv_t4_gone_seen t)"

lemma same_core_refl [simp]: "same_core s s"
  by (simp add: same_core_def)

lemma same_core_trans: "same_core a b \<Longrightarrow> same_core b c \<Longrightarrow> same_core a c"
  by (simp add: same_core_def)

lemma same_coreD:
  assumes "same_core s t"
  shows "srv_rooms s = srv_rooms t" "srv_sfu s = srv_sfu t" "srv_shutdown s = srv_shutdown t"
    "srv_active_connections s = srv_active_connections t" "srv_resume s = srv_resume t"
    "srv_resume_seq s = srv_resume_seq t" "srv_pending s = srv_pending t" "srv_psk s = srv_psk t"
    "srv_devices s = srv_devices t" "srv_pending_devices s = srv_pending_devices t"
    "srv_allow_dev_enroll s = srv_allow_dev_enroll t" "srv_bindings s = srv_bindings t"
    "srv_t4_gone_seen s = srv_t4_gone_seen t"
  using assms by (simp_all add: same_core_def)

lemma same_core_audit: "same_core (audit_log e s) s"
  by (simp add: same_core_def audit_log_def)

lemma same_core_fold: "(\<And>x s. x \<in> set xs \<Longrightarrow> same_core (f x s) s) \<Longrightarrow> same_core (fold f xs s) s"
proof (induction xs arbitrary: s)
  case (Cons x xs)
  then show ?case using same_core_trans [of "fold f xs (f x s)" "f x s" s] by simp
qed simp

lemma same_core_channel: "same_core (get_or_create_channel r s) s"
  by (simp add: same_core_def get_or_create_channel_def)

lemma same_core_send: "same_core (fst (tx_send r p s)) s"
  by (simp add: same_core_def tx_send_def)

lemma same_core_announce: "same_core (announce_producers_closed ts r p d c s) s"
proof -
  have "same_core (announce_one r p d x s) s" for x s
    by (simp add: announce_one_def tx_send_def same_core_def Let_def)
  then have "same_core (fold (announce_one r p d) c (get_or_create_channel r s)) s"
    by (intro same_core_trans [OF same_core_fold same_core_channel])
  then show ?thesis
    by (auto simp: announce_producers_closed_def deferred_cleanup_def emit_admin_def Let_def same_core_def
        split: option.splits)
qed

lemma same_core_announce_fold:
  "same_core (fold (\<lambda>(room, closed). announce_producers_closed ts room p d closed) xs s) s"
  by (rule same_core_fold) (auto simp: same_core_announce)

lemmas announce_fold_frame [frame_simps] = same_coreD [OF same_core_announce_fold]
lemmas announce_frame [frame_simps] = same_coreD [OF same_core_announce]

text \<open>Outputs only grow; what was sent stays sent.\<close>

lemma prefix_fold: "(\<And>x s. x \<in> set xs \<Longrightarrow> prefix (g s) (g (f x s))) \<Longrightarrow> prefix (g s) (g (fold f xs s))"
proof (induction xs arbitrary: s)
  case (Cons x xs)
  have "prefix (g s) (g (f x s))" using Cons.prems by simp
  also have "prefix (g (f x s)) (g (fold f xs (f x s)))" by (rule Cons.IH) (use Cons.prems in simp)
  finally show ?case by simp
qed simp

lemma announce_one_out:
  "srv_out (announce_one r p d x s) =
     srv_out s @ [Broadcast r (PMsg (ProducerClosed r p (fst x) (snd x) (Some ''peer_disconnected''))) (receivers s r)]"
  by (simp add: announce_one_def tx_send_def Let_def)

lemma channel_out [simp]: "srv_out (get_or_create_channel r s) = srv_out s"
  by (simp add: get_or_create_channel_def)

lemma deferred_cleanup_out [simp]: "srv_out (deferred_cleanup r s) = srv_out s"
  by (simp add: deferred_cleanup_def)

lemma announce_out_prefix: "prefix (srv_out s) (srv_out (announce_producers_closed ts r p d c s))"
proof -
  have "prefix (srv_out (get_or_create_channel r s)) (srv_out (fold (announce_one r p d) c (get_or_create_channel r s)))"
    by (rule prefix_fold) (simp add: announce_one_out)
  then show ?thesis
    by (auto simp: announce_producers_closed_def emit_admin_def Let_def split: option.splits)
qed

lemma receivers_announce_one [simp]: "receivers (announce_one r p d x s) = receivers s"
  by (auto simp: announce_one_def tx_send_def receivers_def Let_def fun_eq_iff)

lemma fold_announce_one_out:
  "x \<in> set c \<Longrightarrow> Broadcast r (PMsg (ProducerClosed r p (fst x) (snd x) (Some ''peer_disconnected''))) (receivers s r)
     \<in> set (srv_out (fold (announce_one r p d) c s))"
proof (induction c arbitrary: s)
  case (Cons y c)
  show ?case
  proof (cases "x = y")
    case True
    have "prefix (srv_out (announce_one r p d y s)) (srv_out (fold (announce_one r p d) c (announce_one r p d y s)))"
      by (rule prefix_fold) (simp add: announce_one_out)
    then show ?thesis using True by (auto simp: announce_one_out prefix_def)
  next
    case False
    then show ?thesis using Cons.prems Cons.IH [of "announce_one r p d y s"] by simp
  qed
qed simp

lemma receivers_channel [simp]: "receivers (get_or_create_channel r s) = receivers s"
  by (auto simp: get_or_create_channel_def receivers_def dm_contains_def fun_eq_iff)

lemma announce_broadcasts:
  assumes "(i, k) \<in> set c"
  shows "Broadcast r (PMsg (ProducerClosed r p i k (Some ''peer_disconnected''))) (receivers s r)
     \<in> set (srv_out (announce_producers_closed ts r p d c s))"
  using fold_announce_one_out [OF assms, of r p "get_or_create_channel r s" d] assms
  by (auto simp: announce_producers_closed_def emit_admin_def Let_def split: option.splits)

lemma announce_one_owners:
  "srv_producer_owners (announce_one r p d x s) =
     (if d = None then srv_producer_owners s else dm_remove (fst x) (srv_producer_owners s))"
  by (simp add: announce_one_def tx_send_def Let_def)

lemma announce_owners:
  "dm_get (srv_producer_owners (announce_producers_closed ts r p d c s)) i =
     (if d \<noteq> None \<and> i \<in> fst ` set c then None else dm_get (srv_producer_owners s) i)"
proof -
  have "dm_get (srv_producer_owners (fold (announce_one r p d) c s)) i =
      (if d \<noteq> None \<and> i \<in> fst ` set c then None else dm_get (srv_producer_owners s) i)" for s
    by (induction c arbitrary: s) (auto simp: announce_one_owners)
  then show ?thesis
    by (cases "c = []"; cases d) (simp_all add: announce_producers_closed_def deferred_cleanup_def emit_admin_def
        get_or_create_channel_def Let_def)
qed

lemma announce_fold_owners:
  "dm_get (srv_producer_owners (fold (\<lambda>(room, closed). announce_producers_closed ts room p d closed) xs s)) i =
     (if d \<noteq> None \<and> (\<exists>x\<in>set xs. i \<in> fst ` set (snd x)) then None else dm_get (srv_producer_owners s) i)"
proof (induction xs arbitrary: s)
  case (Cons x xs)
  then show ?case by (simp add: announce_owners case_prod_beta)
qed simp

section \<open>Properties\<close>

lemma group_closed_fold:
  "dm_wf acc \<Longrightarrow>
     (let res = fold (\<lambda>(room, i, kind) acc. dm_insert room (unwrap_or (dm_get acc room) [] @ [(i, kind)]) acc) xs acc
      in dm_wf res \<and> (\<forall>room. unwrap_or (dm_get res room) [] =
           unwrap_or (dm_get acc room) [] @ map snd (filter (\<lambda>x. fst x = room) xs)))"
proof (induction xs arbitrary: acc)
  case (Cons x xs)
  obtain r i k where x: "x = (r, i, k)" by (cases x) auto
  from Cons.IH [of "dm_insert r (unwrap_or (dm_get acc r) [] @ [(i, k)]) acc"] Cons.prems
  show ?case by (simp add: x Let_def)
qed simp

lemma group_closed_wf: "dm_wf (group_closed_by_room xs)"
  using group_closed_fold [of "[]" xs] by (simp add: group_closed_by_room_def Let_def)

lemma group_closed_get:
  "unwrap_or (dm_get (group_closed_by_room xs) room) [] = map snd (filter (\<lambda>x. fst x = room) xs)"
  using group_closed_fold [of "[]" xs] by (simp add: group_closed_by_room_def Let_def)

lemma group_closed_iff:
  "(\<exists>closed. (room, closed) \<in> set (group_closed_by_room xs) \<and> (i, k) \<in> set closed) \<longleftrightarrow> (room, i, k) \<in> set xs"
proof -
  have "(\<exists>closed. (room, closed) \<in> set (group_closed_by_room xs) \<and> (i, k) \<in> set closed) \<longleftrightarrow>
      (i, k) \<in> set (unwrap_or (dm_get (group_closed_by_room xs) room) [])"
    unfolding map_of_eq_Some_iff [OF group_closed_wf, symmetric]
    by (cases "dm_get (group_closed_by_room xs) room") simp_all
  also have "\<dots> \<longleftrightarrow> (room, i, k) \<in> set xs"
    by (force simp: group_closed_get image_iff)
  finally show ?thesis .
qed

lemma group_closed_ids:
  "(\<exists>x\<in>set (group_closed_by_room xs). i \<in> fst ` set (snd x)) \<longleftrightarrow> i \<in> (fst \<circ> snd) ` set xs"
  using group_closed_iff [of _ xs i] by (auto simp: image_iff) (metis fst_conv snd_conv, force)

text \<open>The table after pruning: a sub-table of at most \<open>cap\<close> tickets, the evicted ones older than the kept.\<close>

definition pruned_to :: "resume_table \<Rightarrow> nat \<Rightarrow> resume_table \<Rightarrow> bool" where
  "pruned_to tab cap tab' =
     (length tab' \<le> max cap (if length tab \<le> cap then length tab else cap)
      \<and> set tab' \<subseteq> set tab \<and> dm_wf tab' \<and> length tab' = min (length tab) cap
      \<and> (\<forall>e\<in>set tab - set tab'. \<forall>e'\<in>set tab'. hr_seq (snd e) \<le> hr_seq (snd e')))"

lemma length_remove_key: "dm_wf tab \<Longrightarrow> dm_get tab k \<noteq> None \<Longrightarrow> Suc (length (dm_remove k tab)) = length tab"
proof (induction tab)
  case (Cons a tab)
  show ?case
  proof (cases "fst a = k")
    case True
    then have "k \<notin> fst ` set tab" using Cons.prems by auto
    then have "dm_remove k tab = tab" by (simp add: delete_id)
    then show ?thesis using True by (cases a) simp
  next
    case False
    then show ?thesis using Cons by (cases a) auto
  qed
qed simp

lemma prune_resume_pruned: "dm_wf tab \<Longrightarrow> pruned_to tab cap (prune_resume tab cap)"
proof (induction tab cap rule: prune_resume.induct)
  case (1 tab cap)
  show ?case
  proof (cases "length tab > cap")
    case False
    then show ?thesis using 1(2) by (simp add: prune_resume.simps [of tab] pruned_to_def)
  next
    case True
    then obtain k h where o: "oldest_ticket tab = Some (k, h)" by (cases "oldest_ticket tab") auto
    have kh: "(k, h) \<in> set tab" using o by (rule oldest_ticket_in)
    have len: "Suc (length (dm_remove k tab)) = length tab"
      using length_remove_key [OF 1(2), of k] kh by (metis weak_map_of_SomeI option.discI)
    have uniq: "e = (k, h)" if "e \<in> set tab" "fst e = k" for e
      using 1(2) kh that by (cases e) (metis fst_conv map_of_is_SomeI option.inject)
    have step: "prune_resume tab cap = prune_resume (dm_remove k tab) cap"
      using True o by (simp add: prune_resume.simps [of tab])
    have IH: "pruned_to (dm_remove k tab) cap (prune_resume (dm_remove k tab) cap)"
      using 1(1) [OF True o refl] 1(2) by simp
    then have sub: "set (prune_resume tab cap) \<subseteq> set (dm_remove k tab)"
      by (simp add: pruned_to_def step)
    then have sub': "set (prune_resume tab cap) \<subseteq> set tab" by (auto simp: dm_set_remove)
    have "hr_seq (snd e) \<le> hr_seq (snd e')" if "e \<in> set tab - set (prune_resume tab cap)"
        "e' \<in> set (prune_resume tab cap)" for e e'
    proof (cases "fst e = k")
      case True
      then show ?thesis using uniq [of e] oldest_ticket_min [OF o] that sub' by auto
    next
      case False
      then show ?thesis using IH that by (auto simp: pruned_to_def step dm_set_remove)
    qed
    then show ?thesis
      using IH len True sub' by (auto simp: pruned_to_def step min_def)
  qed
qed

text \<open>
  C31. Enforcing the global cap on retention tickets terminates and is exact: the table keeps
  all its tickets if they fit and exactly \<open>cap\<close> of them otherwise, and every evicted ticket is
  at most as new (by sequence number) as every ticket that is kept.
\<close>

theorem prune_resume_keeps_newest:
  assumes "dm_wf tab"
  shows "length (prune_resume tab cap) = min (length tab) cap
   \<and> set (prune_resume tab cap) \<subseteq> set tab \<and> dm_wf (prune_resume tab cap)
   \<and> (\<forall>e\<in>set tab - set (prune_resume tab cap). \<forall>e'\<in>set (prune_resume tab cap). hr_seq (snd e) \<le> hr_seq (snd e'))"
  using prune_resume_pruned [OF assms, of cap] by (simp add: pruned_to_def)

definition demo_ticket :: "string \<Rightarrow> u64 \<Rightarrow> held_resume" where
  "demo_ticket peer n = \<lparr>hr_peer_id = peer, hr_nonce = ''n'', hr_negotiated = 3, hr_seq = n\<rparr>"

theorem prune_resume_keeps_newest_witness:
  "length (prune_resume [((''a'', ''r''), demo_ticket ''p'' 2), ((''b'', ''r''), demo_ticket ''q'' 1)] 1) = 1"
  using prune_resume_keeps_newest [of "[((''a'', ''r''), demo_ticket ''p'' 2), ((''b'', ''r''), demo_ticket ''q'' 1)]" 1]
  by simp

lemma find_list_rooms:
  "rooms_inv rooms \<Longrightarrow> List.find (\<lambda>r. rm_id r = room) (list_rooms rooms) = dm_get rooms room"
  by (induction rooms) (auto simp: list_rooms_def rooms_inv_def)

text \<open>
  A pushed configuration goes to the vehicle and to nobody else's room: the push succeeds
  exactly if the room exists, has a host and its channel has a receiver, and then exactly one frame
  is sent, on that room's channel, addressed to the host. No state other than the channels and
  the outputs changes; a room without a host gets no frame at all.
\<close>

theorem push_config_to_host:
  assumes inv: "rooms_inv (srv_rooms srv)"
    and push: "push_config srv room config version actor = (srv', res)"
  shows "(res = Inr () \<longleftrightarrow> (\<exists>h. host_of (srv_rooms srv) room = Some h) \<and> receivers srv room > 0)
   \<and> srv_out srv' = srv_out srv @ (case host_of (srv_rooms srv) room of None \<Rightarrow> []
        | Some h \<Rightarrow> [Broadcast room (PMsg (ConfigPush room h config version actor)) (receivers srv room)])
   \<and> same_core srv' srv \<and> srv_owners srv' = srv_owners srv \<and> srv_status srv' = srv_status srv
   \<and> srv_producer_owners srv' = srv_producer_owners srv \<and> srv_audit srv' = srv_audit srv"
proof -
  note find = find_list_rooms [OF inv]
  show ?thesis
    using push by (auto simp: push_config_def find host_of_def tx_send_def same_core_def get_or_create_channel_def
        receivers_def dm_contains_def split: option.splits if_splits bool.splits)
qed

definition demo_server :: server where
  "demo_server = (server_new (registry_empty demo_crypto ''u''))
     \<lparr>srv_rooms := [(''car'', push_consumer ''v'' ''t'' (new_room ''car'' ''h'' Host ''t'' 1))],
      srv_channels := [(''car'', 2)], srv_bindings := [(''h'', ''car'')], srv_owners := [(''car'', ''car'')],
      srv_status := [(''car'', Error 0 ''report'')],
      srv_sfu := [(''car_front'', \<lparr>sfr_router = JNull,
          sfr_peers = [(''host'', new_peer\<lparr>sfp_send_transports := [''t1''],
            sfp_producers := [\<lparr>mp_id = ''p1'', mp_kind = MsVideo\<rparr>], sfp_producer_transports := [(''p1'', ''t1'')]\<rparr>)],
          sfr_producer_labels = []\<rparr>)],
      srv_producer_owners := [(''p1'', ''car'')]\<rparr>"

lemma demo_server_inv: "rooms_inv (srv_rooms demo_server)" "sfu_inv (srv_sfu demo_server)"
  by (auto simp: demo_server_def rooms_inv_def sfu_inv_def sfu_wf_def peer_at_def peer_ok_def new_peer_def
      split: if_splits)

theorem push_config_to_host_witness:
  "snd (push_config demo_server ''car'' ''cfg'' 7 None) = Inr ()"
proof -
  have "push_config demo_server ''car'' ''cfg'' 7 None =
      (fst (push_config demo_server ''car'' ''cfg'' 7 None), snd (push_config demo_server ''car'' ''cfg'' 7 None))" by simp
  from push_config_to_host [OF demo_server_inv(1) this, THEN conjunct1] show ?thesis
    by (simp add: demo_server_def host_of_def receivers_def)
qed

subsection \<open>Teardown\<close>

lemma peer_at_remove_global:
  assumes "sfu_wf rooms"
  shows "peer_at (fst (remove_peer_global rooms pid)) rid q = (if q = pid then None else peer_at rooms rid q)"
proof -
  let ?R = "map (\<lambda>(rid, r). (rid, r\<lparr>sfr_peers := dm_remove pid (sfr_peers r)\<rparr>)) rooms"
  let ?E = "map fst (filter (\<lambda>(rid, r). dm_remove pid (sfr_peers r) = [])
        (filter (\<lambda>(rid, r). dm_contains (sfr_peers r) pid) rooms))"
  have R: "peer_at ?R rid q = (if q = pid then None else peer_at rooms rid q)"
    by (auto simp: peer_at_def map_of_map_snd split: option.splits)
  have E: "peer_at rooms rid q = None" if "rid \<in> set ?E" "q \<noteq> pid"
  proof -
    from that obtain r where r: "(rid, r) \<in> set rooms" "dm_remove pid (sfr_peers r) = []" by auto
    have "dm_get rooms rid = Some r" using assms r(1) by (simp add: sfu_wf_def)
    moreover have "dm_get (sfr_peers r) q = None" using r(2) that(2) dm_get_remove [of pid "sfr_peers r" q] by simp
    ultimately show ?thesis by (simp add: peer_at_def)
  qed
  show ?thesis unfolding remove_peer_global_map peer_at_removes R using E by (simp del: set_map)
qed

lemma remove_global_out:
  assumes "peer_at rooms rid pid = Some p" "(i, k) \<in> set (closed_producers p)"
  shows "\<exists>closed. (rid, closed) \<in> set (snd (remove_peer_global rooms pid)) \<and> (i, k) \<in> set closed"
proof -
  obtain r where r: "dm_get rooms rid = Some r" "dm_get (sfr_peers r) pid = Some p"
    using assms(1) by (auto simp: peer_at_def split: option.splits)
  have "(rid, closed_producers p) \<in> set (snd (remove_peer_global rooms pid))"
    using map_of_SomeD [OF r(1)] r(2)
    by (force simp: remove_peer_global_def Let_def dm_contains_def image_iff)
  then show ?thesis using assms(2) by blast
qed

lemma remove_ids_subset: "(rid, i, k) \<in> set (snd (remove_producers_by_ids rooms ids)) \<Longrightarrow> i \<in> set ids"
  by (auto simp: remove_producers_by_ids_def owned_hits_def Let_def)

lemma reclaim_owned_eq:
  "reclaim_owned ts p d ids s =
     fold (\<lambda>(room, closed). announce_producers_closed ts room p d closed)
       (group_closed_by_room (snd (remove_producers_by_ids (srv_sfu s) ids)))
       (s\<lparr>srv_sfu := fst (remove_producers_by_ids (srv_sfu s) ids),
          srv_producer_owners := dm_removes ids (srv_producer_owners s)\<rparr>)"
  by (simp add: reclaim_owned_def case_prod_beta Let_def)

lemma reclaim_core:
  "same_core (reclaim_owned ts p d ids s) (s\<lparr>srv_sfu := fst (remove_producers_by_ids (srv_sfu s) ids)\<rparr>)"
  unfolding reclaim_owned_eq
  by (rule same_core_trans [OF same_core_announce_fold]) (simp add: same_core_def)

lemma reclaim_owners:
  "dm_get (srv_producer_owners (reclaim_owned ts p d ids s)) i =
     (if i \<in> set ids then None else dm_get (srv_producer_owners s) i)"
proof -
  have "i \<in> set ids" if "\<exists>x\<in>set (group_closed_by_room (snd (remove_producers_by_ids (srv_sfu s) ids))). i \<in> fst ` set (snd x)"
    using that unfolding group_closed_ids by (auto dest: remove_ids_subset)
  then show ?thesis unfolding reclaim_owned_eq announce_fold_owners by simp
qed

lemma fold_announce_prefix:
  "prefix (srv_out s) (srv_out (fold (\<lambda>(room, closed). announce_producers_closed ts room p d closed) xs s))"
  by (rule prefix_fold) (auto simp: announce_out_prefix)

definition announced :: "string \<Rightarrow> string \<Rightarrow> string \<Rightarrow> media_kind \<Rightarrow> server \<Rightarrow> bool" where
  "announced room peer i k s =
     (\<exists>n. Broadcast room (PMsg (ProducerClosed room peer i k (Some ''peer_disconnected''))) n \<in> set (srv_out s))"

lemma announced_mono: "prefix (srv_out s) (srv_out t) \<Longrightarrow> announced r p i k s \<Longrightarrow> announced r p i k t"
  by (auto simp: announced_def prefix_def)

lemma fold_announced:
  "(room, closed) \<in> set xs \<Longrightarrow> (i, k) \<in> set closed \<Longrightarrow>
     announced room p i k (fold (\<lambda>(room, closed). announce_producers_closed ts room p d closed) xs s)"
proof (induction xs arbitrary: s)
  case (Cons x xs)
  show ?case
  proof (cases "x = (room, closed)")
    case True
    have "announced room p i k (announce_producers_closed ts room p d closed s)"
      using announce_broadcasts [OF Cons.prems(2), of room p s ts d] by (auto simp: announced_def)
    then show ?thesis using True by (auto intro: announced_mono [OF fold_announce_prefix])
  next
    case False
    then show ?thesis using Cons by auto
  qed
qed simp

lemma reclaim_announced:
  assumes "sfu_wf (srv_sfu s)" "peer_at (srv_sfu s) rid q = Some p0" "(i, k) \<in> set (owned_hits ids p0)"
  shows "announced rid p i k (reclaim_owned ts p d ids s)"
proof -
  have "(rid, i, k) \<in> set (snd (remove_producers_by_ids (srv_sfu s) ids))"
    using remove_ids_out [OF assms(1)] assms(2,3) by blast
  then obtain closed where "(rid, closed) \<in> set (group_closed_by_room (snd (remove_producers_by_ids (srv_sfu s) ids)))"
      "(i, k) \<in> set closed"
    using group_closed_iff by blast
  then show ?thesis unfolding reclaim_owned_eq by (rule fold_announced)
qed

lemma reclaim_prefix: "prefix (srv_out s) (srv_out (reclaim_owned ts p d ids s))"
  unfolding reclaim_owned_eq by (rule prefix_order.trans [OF _ fold_announce_prefix]) simp

definition media_at :: "sfu \<Rightarrow> string \<Rightarrow> string \<Rightarrow> producer list" where
  "media_at rooms rid pid = (case peer_at rooms rid pid of Some p \<Rightarrow> sfp_producers p | None \<Rightarrow> [])"

definition data_at :: "sfu \<Rightarrow> string \<Rightarrow> string \<Rightarrow> data_producer list" where
  "data_at rooms rid pid = (case peer_at rooms rid pid of Some p \<Rightarrow> sfp_data_producers p | None \<Rightarrow> [])"

text \<open>mediasoup's ids are unique: no id occurs at two places.\<close>

definition ids_at :: "sfu \<Rightarrow> string \<Rightarrow> string \<Rightarrow> string set" where
  "ids_at rooms rid pid = mp_id ` set (media_at rooms rid pid) \<union> md_id ` set (data_at rooms rid pid)"

definition ids_unique :: "sfu \<Rightarrow> bool" where
  "ids_unique rooms = (\<forall>rid pid rid' pid' i. i \<in> ids_at rooms rid pid \<and> i \<in> ids_at rooms rid' pid' \<longrightarrow>
     rid = rid' \<and> pid = pid')"

text \<open>The producers a session answers for: registered under its session key or under its device.\<close>

definition doomed :: "server \<Rightarrow> string \<Rightarrow> string \<Rightarrow> bool" where
  "doomed s peer i =
     (dm_get (srv_producer_owners s) i = Some (session_key peer) \<or>
      (\<exists>d. dm_get (srv_bindings s) peer = Some d \<and> dm_get (srv_producer_owners s) i = Some d))"

text \<open>The producers the SFU files under the session's own peer id, in whatever room.\<close>

definition own_media :: "server \<Rightarrow> string \<Rightarrow> string \<Rightarrow> bool" where
  "own_media s peer i = (\<exists>rid. i \<in> mp_id ` set (media_at (srv_sfu s) rid peer))"

lemma media_at_remove_ids:
  "media_at (fst (remove_producers_by_ids rooms ids)) rid q = filter (\<lambda>x. mp_id x \<notin> set ids) (media_at rooms rid q)"
  "data_at (fst (remove_producers_by_ids rooms ids)) rid q = filter (\<lambda>x. md_id x \<notin> set ids) (data_at rooms rid q)"
  by (auto simp: media_at_def data_at_def peer_at_remove_ids owned_cleanup_def close_owned_def split: option.splits)

lemma media_at_remove_global:
  assumes "sfu_wf rooms"
  shows "media_at (fst (remove_peer_global rooms pid)) rid q = (if q = pid then [] else media_at rooms rid q)"
    and "data_at (fst (remove_peer_global rooms pid)) rid q = (if q = pid then [] else data_at rooms rid q)"
  by (simp_all add: media_at_def data_at_def peer_at_remove_global [OF assms])

lemma wf_owners_announce:
  assumes "dm_wf (srv_producer_owners s)"
  shows "dm_wf (srv_producer_owners (announce_producers_closed ts r p d c s))"
proof -
  have "dm_wf (srv_producer_owners (fold (announce_one r p d) c (get_or_create_channel r s)))"
    by (rule fold_invariant_list [of "\<lambda>s. dm_wf (srv_producer_owners s)"])
      (use assms in \<open>auto simp: announce_one_owners get_or_create_channel_def\<close>)
  with assms show ?thesis
    by (auto simp: announce_producers_closed_def deferred_cleanup_def emit_admin_def Let_def split: option.splits)
qed

lemma wf_owners_announce_fold:
  "dm_wf (srv_producer_owners s) \<Longrightarrow>
     dm_wf (srv_producer_owners (fold (\<lambda>(room, closed). announce_producers_closed ts room p d closed) xs s))"
  by (rule fold_invariant_list [of "\<lambda>s. dm_wf (srv_producer_owners s)"]) (auto intro: wf_owners_announce)

lemma wf_owners_reclaim: "dm_wf (srv_producer_owners s) \<Longrightarrow> dm_wf (srv_producer_owners (reclaim_owned ts p d ids s))"
  unfolding reclaim_owned_eq by (rule wf_owners_announce_fold) simp

lemma owned_by_iff: "dm_wf (srv_producer_owners s) \<Longrightarrow> i \<in> set (owned_by key s) \<longleftrightarrow> dm_get (srv_producer_owners s) i = Some key"
  by (force simp: owned_by_def)

lemma reclaim_key_facts:
  assumes wf: "dm_wf (srv_producer_owners s)"
  shows "dm_wf (srv_producer_owners (reclaim_key ts p d key s))"
    and "dm_get (srv_producer_owners (reclaim_key ts p d key s)) i =
       (if dm_get (srv_producer_owners s) i = Some key then None else dm_get (srv_producer_owners s) i)"
    and "media_at (srv_sfu (reclaim_key ts p d key s)) rid q =
       filter (\<lambda>x. dm_get (srv_producer_owners s) (mp_id x) \<noteq> Some key) (media_at (srv_sfu s) rid q)"
    and "data_at (srv_sfu (reclaim_key ts p d key s)) rid q =
       filter (\<lambda>x. dm_get (srv_producer_owners s) (md_id x) \<noteq> Some key) (data_at (srv_sfu s) rid q)"
    and "sfu_inv (srv_sfu s) \<Longrightarrow> sfu_inv (srv_sfu (reclaim_key ts p d key s))"
    and "same_core (reclaim_key ts p d key s) (s\<lparr>srv_sfu := srv_sfu (reclaim_key ts p d key s)\<rparr>)"
    and "prefix (srv_out s) (srv_out (reclaim_key ts p d key s))"
proof -
  note iff = owned_by_iff [OF wf]
  have none: "dm_get (srv_producer_owners s) i \<noteq> Some key" if "owned_by key s = []" for i
    using iff [of i key] that by simp
  have sfu: "srv_sfu (reclaim_owned ts p d ids s) = fst (remove_producers_by_ids (srv_sfu s) ids)" for ids
    using same_coreD(2) [OF reclaim_core] by simp
  show "dm_wf (srv_producer_owners (reclaim_key ts p d key s))"
    using wf by (simp add: reclaim_key_def wf_owners_reclaim)
  show "dm_get (srv_producer_owners (reclaim_key ts p d key s)) i =
       (if dm_get (srv_producer_owners s) i = Some key then None else dm_get (srv_producer_owners s) i)"
    using none by (auto simp: reclaim_key_def reclaim_owners iff)
  show "media_at (srv_sfu (reclaim_key ts p d key s)) rid q =
       filter (\<lambda>x. dm_get (srv_producer_owners s) (mp_id x) \<noteq> Some key) (media_at (srv_sfu s) rid q)"
    using none by (simp add: reclaim_key_def sfu media_at_remove_ids iff)
  show "data_at (srv_sfu (reclaim_key ts p d key s)) rid q =
       filter (\<lambda>x. dm_get (srv_producer_owners s) (md_id x) \<noteq> Some key) (data_at (srv_sfu s) rid q)"
    using none by (simp add: reclaim_key_def sfu media_at_remove_ids iff)
  show "sfu_inv (srv_sfu s) \<Longrightarrow> sfu_inv (srv_sfu (reclaim_key ts p d key s))"
    by (simp add: reclaim_key_def sfu sfu_inv_remove_ids)
  show "same_core (reclaim_key ts p d key s) (s\<lparr>srv_sfu := srv_sfu (reclaim_key ts p d key s)\<rparr>)"
    using reclaim_core [of ts p d "owned_by key s" s] by (simp add: reclaim_key_def same_core_def)
  show "prefix (srv_out s) (srv_out (reclaim_key ts p d key s))"
    by (simp add: reclaim_key_def reclaim_prefix)
qed

definition entity_at :: "sfu \<Rightarrow> string \<Rightarrow> string \<Rightarrow> string \<Rightarrow> media_kind \<Rightarrow> bool" where
  "entity_at rooms rid q i k =
     ((\<exists>x\<in>set (media_at rooms rid q). mp_id x = i \<and> protocol_kind (mp_kind x) = k)
      \<or> (k = Data \<and> (\<exists>y\<in>set (data_at rooms rid q). md_id y = i)))"

lemma entity_hits:
  "entity_at rooms rid q i k \<Longrightarrow> i \<in> set ids \<Longrightarrow> \<exists>p. peer_at rooms rid q = Some p \<and> (i, k) \<in> set (owned_hits ids p)"
  by (cases "peer_at rooms rid q") (auto simp: entity_at_def media_at_def data_at_def owned_hits_def)

lemma reclaim_key_announced:
  assumes "dm_wf (srv_producer_owners s)" "sfu_wf (srv_sfu s)" "dm_get (srv_producer_owners s) i = Some key"
    and e: "entity_at (srv_sfu s) rid q i k"
  shows "announced rid p i k (reclaim_key ts p d key s)"
proof -
  have i: "i \<in> set (owned_by key s)" using assms owned_by_iff by blast
  then have ne: "owned_by key s \<noteq> []" by auto
  from entity_hits [OF e i] ne assms(2) show ?thesis
    by (auto simp: reclaim_key_def intro: reclaim_announced)
qed

lemma reclaim_key_entity:
  assumes "dm_wf (srv_producer_owners s)" "dm_get (srv_producer_owners s) i \<noteq> Some key"
    and "entity_at (srv_sfu s) rid q i k"
  shows "entity_at (srv_sfu (reclaim_key ts p d key s)) rid q i k"
  using assms(2,3) by (auto simp: entity_at_def reclaim_key_facts [OF assms(1)])

lemma global_step_core:
  "same_core (global_step ts peer s) (s\<lparr>srv_sfu := fst (remove_peer_global (srv_sfu s) peer)\<rparr>)"
  unfolding global_step_def by (rule same_core_announce_fold)

lemma global_out_media:
  "sfu_wf rooms \<Longrightarrow> (\<exists>x\<in>set (snd (remove_peer_global rooms pid)). i \<in> fst ` set (snd x)) \<longleftrightarrow>
     (\<exists>rid. i \<in> mp_id ` set (media_at rooms rid pid))"
proof
  assume wf: "sfu_wf rooms" and "\<exists>x\<in>set (snd (remove_peer_global rooms pid)). i \<in> fst ` set (snd x)"
  then obtain rid r p where r: "(rid, r) \<in> set rooms" "dm_get (sfr_peers r) pid = Some p" "i \<in> mp_id ` set (sfp_producers p)"
    by (force simp: remove_peer_global_def Let_def dm_contains_def closed_producers_def)
  then have "media_at rooms rid pid = sfp_producers p"
    using wf by (simp add: media_at_def peer_at_def sfu_wf_def)
  with r(3) show "\<exists>rid. i \<in> mp_id ` set (media_at rooms rid pid)" by metis
next
  assume "\<exists>rid. i \<in> mp_id ` set (media_at rooms rid pid)"
  then obtain rid x where "x \<in> set (media_at rooms rid pid)" "i = mp_id x" by auto
  then obtain p where "peer_at rooms rid pid = Some p" "(i, protocol_kind (mp_kind x)) \<in> set (closed_producers p)"
    by (cases "peer_at rooms rid pid") (auto simp: media_at_def closed_producers_def)
  from remove_global_out [OF this] show "\<exists>x\<in>set (snd (remove_peer_global rooms pid)). i \<in> fst ` set (snd x)"
    by force
qed

lemma global_step_facts:
  assumes wf: "sfu_wf (srv_sfu s)"
  shows "dm_wf (srv_producer_owners s) \<Longrightarrow> dm_wf (srv_producer_owners (global_step ts peer s))"
    and "dm_get (srv_producer_owners (global_step ts peer s)) i =
      (if dm_get (srv_bindings s) peer \<noteq> None \<and> own_media s peer i then None else dm_get (srv_producer_owners s) i)"
    and "media_at (srv_sfu (global_step ts peer s)) rid q = (if q = peer then [] else media_at (srv_sfu s) rid q)"
    and "data_at (srv_sfu (global_step ts peer s)) rid q = (if q = peer then [] else data_at (srv_sfu s) rid q)"
    and "sfu_inv (srv_sfu s) \<Longrightarrow> sfu_inv (srv_sfu (global_step ts peer s))"
    and "prefix (srv_out s) (srv_out (global_step ts peer s))"
    and "x \<in> set (media_at (srv_sfu s) rid peer) \<Longrightarrow>
      announced rid peer (mp_id x) (protocol_kind (mp_kind x)) (global_step ts peer s)"
proof -
  have sfu: "srv_sfu (global_step ts peer s) = fst (remove_peer_global (srv_sfu s) peer)"
    using same_coreD(2) [OF global_step_core] by simp
  show "dm_wf (srv_producer_owners s) \<Longrightarrow> dm_wf (srv_producer_owners (global_step ts peer s))"
    unfolding global_step_def by (rule wf_owners_announce_fold) simp
  show "dm_get (srv_producer_owners (global_step ts peer s)) i =
      (if dm_get (srv_bindings s) peer \<noteq> None \<and> own_media s peer i then None else dm_get (srv_producer_owners s) i)"
    unfolding global_step_def announce_fold_owners global_out_media [OF wf] own_media_def by simp
  show "media_at (srv_sfu (global_step ts peer s)) rid q = (if q = peer then [] else media_at (srv_sfu s) rid q)"
    "data_at (srv_sfu (global_step ts peer s)) rid q = (if q = peer then [] else data_at (srv_sfu s) rid q)"
    by (simp_all add: sfu media_at_remove_global [OF wf])
  show "sfu_inv (srv_sfu s) \<Longrightarrow> sfu_inv (srv_sfu (global_step ts peer s))"
    by (simp add: sfu sfu_inv_remove_global)
  show "prefix (srv_out s) (srv_out (global_step ts peer s))"
    unfolding global_step_def by (rule prefix_order.trans [OF _ fold_announce_prefix]) simp
  assume "x \<in> set (media_at (srv_sfu s) rid peer)"
  then obtain p where "peer_at (srv_sfu s) rid peer = Some p" "(mp_id x, protocol_kind (mp_kind x)) \<in> set (closed_producers p)"
    by (cases "peer_at (srv_sfu s) rid peer") (auto simp: media_at_def closed_producers_def)
  from remove_global_out [OF this] show "announced rid peer (mp_id x) (protocol_kind (mp_kind x)) (global_step ts peer s)"
    unfolding global_step_def by (auto intro: fold_announced)
qed

lemma disconnect_sfu_eq:
  "disconnect_sfu ts peer s =
     (let s2 = reclaim_key ts peer None (session_key peer) (global_step ts peer s);
          s3 = s2\<lparr>srv_t4_gone_seen := dm_remove peer (srv_t4_gone_seen s2)\<rparr>
      in case dm_get (srv_bindings s) peer of None \<Rightarrow> s3 | Some d \<Rightarrow> reclaim_key ts peer (Some d) d s3)"
proof -
  have "srv_bindings (reclaim_key ts peer None key (global_step ts peer s)) = srv_bindings s" for key
    using same_coreD(12) [OF global_step_core] same_coreD(12) [OF reclaim_core]
    by (simp add: reclaim_key_def)
  then show ?thesis unfolding disconnect_sfu_def Let_def by simp
qed

lemma disconnect_sfu_facts:
  assumes inv: "sfu_inv (srv_sfu s)" and uniq: "ids_unique (srv_sfu s)" and wf: "dm_wf (srv_producer_owners s)"
    and t_def: "t = disconnect_sfu ts peer s"
  shows "media_at (srv_sfu t) rid q = (if q = peer then [] else filter (\<lambda>x. \<not> doomed s peer (mp_id x)) (media_at (srv_sfu s) rid q))"
    and "data_at (srv_sfu t) rid q = (if q = peer then [] else filter (\<lambda>x. \<not> doomed s peer (md_id x)) (data_at (srv_sfu s) rid q))"
    and "dm_get (srv_producer_owners t) i =
      (if doomed s peer i \<or> dm_get (srv_bindings s) peer \<noteq> None \<and> own_media s peer i then None
       else dm_get (srv_producer_owners s) i)"
    and "sfu_inv (srv_sfu t)" and "dm_wf (srv_producer_owners t)"
proof -
  have sw: "sfu_wf (srv_sfu s)" using inv by (simp add: sfu_inv_def)
  let ?g = "global_step ts peer s"
  let ?key = "session_key peer"
  let ?s2 = "reclaim_key ts peer None ?key ?g"
  let ?s3 = "?s2\<lparr>srv_t4_gone_seen := dm_remove peer (srv_t4_gone_seen ?s2)\<rparr>"
  note g = global_step_facts [OF sw]
  have gw: "dm_wf (srv_producer_owners ?g)" using g(1) wf by blast
  note r2 = reclaim_key_facts [OF gw, of ts peer None ?key]
  have w3: "dm_wf (srv_producer_owners ?s3)" using r2(1) by simp
  note r3 = reclaim_key_facts [OF w3, of ts peer]
  have t: "t = (case dm_get (srv_bindings s) peer of None \<Rightarrow> ?s3 | Some d \<Rightarrow> reclaim_key ts peer (Some d) d ?s3)"
    unfolding t_def disconnect_sfu_eq Let_def ..
  have own_elsewhere: "\<not> own_media s peer (mp_id x)" if "q \<noteq> peer" "x \<in> set (media_at (srv_sfu s) rid q)" for x
    using uniq that unfolding ids_unique_def own_media_def ids_at_def by blast
  have own_elsewhere_d: "\<not> own_media s peer (md_id x)" if "q \<noteq> peer" "x \<in> set (data_at (srv_sfu s) rid q)" for x
    using uniq that unfolding ids_unique_def own_media_def ids_at_def by blast
  show "media_at (srv_sfu t) rid q = (if q = peer then [] else filter (\<lambda>x. \<not> doomed s peer (mp_id x)) (media_at (srv_sfu s) rid q))"
    unfolding t doomed_def
    by (auto simp: r2 r3 g own_elsewhere split: option.split intro!: filter_cong)
  show "data_at (srv_sfu t) rid q = (if q = peer then [] else filter (\<lambda>x. \<not> doomed s peer (md_id x)) (data_at (srv_sfu s) rid q))"
    unfolding t doomed_def
    by (auto simp: r2 r3 g own_elsewhere_d split: option.split intro!: filter_cong)
  show "dm_get (srv_producer_owners t) i =
      (if doomed s peer i \<or> dm_get (srv_bindings s) peer \<noteq> None \<and> own_media s peer i then None
       else dm_get (srv_producer_owners s) i)"
    unfolding t doomed_def by (auto simp: r2 r3 g split: option.split)
  have i2: "sfu_inv (srv_sfu ?s3)" using r2(5) g(5) inv by simp
  show "sfu_inv (srv_sfu t)" unfolding t using i2 r3(5) by (auto split: option.split)
  show "dm_wf (srv_producer_owners t)" unfolding t using w3 r3(1) by (auto split: option.split)
qed

lemma reclaim_key_core: "same_core (reclaim_key ts p d key s) (s\<lparr>srv_sfu := srv_sfu (reclaim_key ts p d key s)\<rparr>)"
  using reclaim_core [of ts p d "owned_by key s" s] by (simp add: reclaim_key_def same_core_def)

lemma disconnect_sfu_frame [frame_simps]:
  "srv_rooms (disconnect_sfu ts p s) = srv_rooms s" "srv_shutdown (disconnect_sfu ts p s) = srv_shutdown s"
  "srv_active_connections (disconnect_sfu ts p s) = srv_active_connections s"
  "srv_resume (disconnect_sfu ts p s) = srv_resume s" "srv_resume_seq (disconnect_sfu ts p s) = srv_resume_seq s"
  "srv_pending (disconnect_sfu ts p s) = srv_pending s" "srv_psk (disconnect_sfu ts p s) = srv_psk s"
  "srv_devices (disconnect_sfu ts p s) = srv_devices s"
  "srv_pending_devices (disconnect_sfu ts p s) = srv_pending_devices s"
  "srv_allow_dev_enroll (disconnect_sfu ts p s) = srv_allow_dev_enroll s"
  "srv_bindings (disconnect_sfu ts p s) = srv_bindings s"
  using same_coreD [OF global_step_core [of ts p s]]
    same_coreD [OF reclaim_key_core [of ts p None "session_key p" "global_step ts p s"]]
    same_coreD [OF reclaim_key_core [of ts p _ _ "(reclaim_key ts p None (session_key p) (global_step ts p s))
      \<lparr>srv_t4_gone_seen := dm_remove p (srv_t4_gone_seen (reclaim_key ts p None (session_key p) (global_step ts p s)))\<rparr>"]]
  by (simp_all add: disconnect_sfu_eq Let_def split: option.split)

lemma disconnect_sfu_prefix:
  assumes "sfu_wf (srv_sfu s)" and wf: "dm_wf (srv_producer_owners s)"
  shows "prefix (srv_out s) (srv_out (disconnect_sfu ts peer s))"
proof -
  let ?g = "global_step ts peer s"
  let ?s2 = "reclaim_key ts peer None (session_key peer) ?g"
  let ?s3 = "?s2\<lparr>srv_t4_gone_seen := dm_remove peer (srv_t4_gone_seen ?s2)\<rparr>"
  note g = global_step_facts [OF assms(1)]
  have gw: "dm_wf (srv_producer_owners ?g)" using g(1) wf by blast
  note r2 = reclaim_key_facts [OF gw, of ts peer None "session_key peer"]
  have "dm_wf (srv_producer_owners ?s3)" using r2(1) by simp
  note r3 = reclaim_key_facts [OF this]
  have p3: "prefix (srv_out s) (srv_out ?s3)" using prefix_order.trans [OF g(6) r2(7)] by simp
  show ?thesis
    unfolding disconnect_sfu_eq Let_def
    using p3 prefix_order.trans [OF p3 r3(7)] by (simp split: option.split)
qed

lemma disconnect_sfu_steps:
  assumes inv: "sfu_inv (srv_sfu s)" and wf: "dm_wf (srv_producer_owners s)"
  obtains s2 s3 where "s2 = reclaim_key ts peer None (session_key peer) (global_step ts peer s)"
    and "dm_wf (srv_producer_owners (global_step ts peer s))" "sfu_wf (srv_sfu (global_step ts peer s))"
    and "srv_sfu s3 = srv_sfu s2" "srv_producer_owners s3 = srv_producer_owners s2" "srv_out s3 = srv_out s2"
    and "dm_wf (srv_producer_owners s3)" "sfu_wf (srv_sfu s3)"
    and "disconnect_sfu ts peer s =
      (case dm_get (srv_bindings s) peer of None \<Rightarrow> s3 | Some d \<Rightarrow> reclaim_key ts peer (Some d) d s3)"
proof -
  have sw: "sfu_wf (srv_sfu s)" using inv by (simp add: sfu_inv_def)
  let ?g = "global_step ts peer s"
  let ?s2 = "reclaim_key ts peer None (session_key peer) ?g"
  have gw: "dm_wf (srv_producer_owners ?g)" using global_step_facts(1) [OF sw] wf by blast
  have gi: "sfu_inv (srv_sfu ?g)" using global_step_facts(5) [OF sw] inv by blast
  show thesis
    by (rule that [of ?s2 "?s2\<lparr>srv_t4_gone_seen := dm_remove peer (srv_t4_gone_seen ?s2)\<rparr>"])
      (use gw gi reclaim_key_facts(1,5) [OF gw] in
        \<open>auto simp: sfu_inv_def disconnect_sfu_eq Let_def split: option.split\<close>)
qed

lemma disconnect_sfu_announced:
  assumes inv: "sfu_inv (srv_sfu s)" and uniq: "ids_unique (srv_sfu s)" and wf: "dm_wf (srv_producer_owners s)"
    and e: "entity_at (srv_sfu s) rid q i k" and d: "q \<noteq> peer \<and> doomed s peer i \<or> q = peer \<and> k \<noteq> Data"
  shows "announced rid peer i k (disconnect_sfu ts peer s)"
proof -
  have sw: "sfu_wf (srv_sfu s)" using inv by (simp add: sfu_inv_def)
  let ?g = "global_step ts peer s"
  note g = global_step_facts [OF sw]
  obtain s2 s3 where s2: "s2 = reclaim_key ts peer None (session_key peer) ?g"
    and gw: "dm_wf (srv_producer_owners ?g)" "sfu_wf (srv_sfu ?g)"
    and s3: "srv_sfu s3 = srv_sfu s2" "srv_producer_owners s3 = srv_producer_owners s2" "srv_out s3 = srv_out s2"
    and w3: "dm_wf (srv_producer_owners s3)" "sfu_wf (srv_sfu s3)"
    and eq: "disconnect_sfu ts peer s =
      (case dm_get (srv_bindings s) peer of None \<Rightarrow> s3 | Some d \<Rightarrow> reclaim_key ts peer (Some d) d s3)"
    by (rule disconnect_sfu_steps [OF inv wf])
  have later: "announced rid peer i k (disconnect_sfu ts peer s)" if "announced rid peer i k s2"
    using that announced_mono [OF reclaim_key_facts(7) [OF w3(1)]] s3(3)
    by (auto simp: eq announced_def split: option.split)
  show ?thesis
  proof (cases "q = peer")
    case True
    with d e obtain x where "x \<in> set (media_at (srv_sfu s) rid peer)" "mp_id x = i" "protocol_kind (mp_kind x) = k"
      by (auto simp: entity_at_def)
    with g(7) have "announced rid peer i k ?g" by blast
    with announced_mono [OF reclaim_key_facts(7) [OF gw(1)]] show ?thesis by (intro later) (simp add: s2)
  next
    case False
    have "i \<in> ids_at (srv_sfu s) rid q" using e by (auto simp: entity_at_def ids_at_def)
    then have "\<not> own_media s peer i"
      using uniq False unfolding ids_unique_def own_media_def ids_at_def by blast
    then have o: "dm_get (srv_producer_owners ?g) i = dm_get (srv_producer_owners s) i" by (simp add: g)
    have eg: "entity_at (srv_sfu ?g) rid q i k" using e False by (simp add: entity_at_def g)
    show ?thesis
    proof (cases "dm_get (srv_producer_owners s) i = Some (session_key peer)")
      case True
      then show ?thesis using reclaim_key_announced [OF gw _ eg] o by (auto intro!: later simp: s2)
    next
      case notsess: False
      then obtain dev where dev: "dm_get (srv_bindings s) peer = Some dev" "dm_get (srv_producer_owners s) i = Some dev"
        using d False by (auto simp: doomed_def)
      have "entity_at (srv_sfu s3) rid q i k" using reclaim_key_entity [OF gw(1) _ eg] notsess o by (simp add: s2 s3)
      moreover have "dm_get (srv_producer_owners s3) i = Some dev"
        using dev notsess o by (simp add: s2 s3 reclaim_key_facts(2) [OF gw(1)])
      ultimately show ?thesis using reclaim_key_announced [OF w3] dev(1) by (simp add: eq)
    qed
  qed
qed

lemma same_core_audit_fold: "same_core (fold audit_log evs s) s" "same_core (fold (\<lambda>c. audit_log (f c)) cs s) s"
  by (rule same_core_fold, rule same_core_audit)+

lemma audit_fold_extra [frame_simps]:
  "srv_owners (fold audit_log evs s) = srv_owners s" "srv_status (fold audit_log evs s) = srv_status s"
  "srv_producer_owners (fold audit_log evs s) = srv_producer_owners s" "srv_out (fold audit_log evs s) = srv_out s"
  "srv_channels (fold audit_log evs s) = srv_channels s"
  "srv_owners (fold (\<lambda>c. audit_log (f c)) cs s) = srv_owners s" "srv_status (fold (\<lambda>c. audit_log (f c)) cs s) = srv_status s"
  "srv_producer_owners (fold (\<lambda>c. audit_log (f c)) cs s) = srv_producer_owners s"
  "srv_out (fold (\<lambda>c. audit_log (f c)) cs s) = srv_out s" "srv_channels (fold (\<lambda>c. audit_log (f c)) cs s) = srv_channels s"
  by (rule fold_frame, simp add: audit_log_def)+

lemmas audit_fold_frame [frame_simps] = same_coreD [OF same_core_audit_fold(1)] same_coreD [OF same_core_audit_fold(2)]

definition rooms_after_leave :: "room_table \<Rightarrow> string \<Rightarrow> string \<Rightarrow> bool \<Rightarrow> room_table" where
  "rooms_after_leave rooms room peer host =
     (let rooms2 = fst (leave_room rooms room peer)
      in if host then fst (disconnect_consumers rooms2 room) else rooms2)"

definition tears_down :: "string \<Rightarrow> string \<Rightarrow> string \<Rightarrow> server \<Rightarrow> bool" where
  "tears_down ts peer room s =
     should_teardown (fst (snd (leave_room (srv_rooms s) room peer)))
       (room_has_producers (srv_sfu (disconnect_sfu ts peer s)) room)"

lemma disconnect_session_fields:
  fixes s defines "t \<equiv> \<lambda>ts peer room. disconnect_session ts peer room s"
  shows "srv_bindings (t ts peer room) = dm_remove peer (srv_bindings s)"
    and "srv_rooms (t ts peer room) = rooms_after_leave (srv_rooms s) room peer (is_device_stream_host s room peer)"
    and "srv_sfu (t ts peer room) = (if tears_down ts peer room s then dm_remove room (srv_sfu (disconnect_sfu ts peer s))
       else srv_sfu (disconnect_sfu ts peer s))"
    and "srv_producer_owners (t ts peer room) = srv_producer_owners (disconnect_sfu ts peer s)"
    and "srv_owners (t ts peer room) = (if tears_down ts peer room s then dm_remove room (srv_owners (disconnect_sfu ts peer s))
       else srv_owners (disconnect_sfu ts peer s))"
    and "srv_status (t ts peer room) = (if tears_down ts peer room s then dm_remove room (srv_status (disconnect_sfu ts peer s))
       else srv_status (disconnect_sfu ts peer s))"
    and "\<exists>n. srv_out (t ts peer room) = srv_out (disconnect_sfu ts peer s) @ [Broadcast room (PMsg (RoomLeave room peer)) n]"
    and "srv_resume (t ts peer room) = srv_resume s" "srv_resume_seq (t ts peer room) = srv_resume_seq s"
    and "srv_psk (t ts peer room) = srv_psk s" "srv_devices (t ts peer room) = srv_devices s"
    and "srv_pending_devices (t ts peer room) = srv_pending_devices s" "srv_pending (t ts peer room) = srv_pending s"
    and "srv_shutdown (t ts peer room) = srv_shutdown s" "srv_allow_dev_enroll (t ts peer room) = srv_allow_dev_enroll s"
    and "srv_active_connections (t ts peer room) = srv_active_connections s"
  unfolding t_def disconnect_session_def rooms_after_leave_def tears_down_def is_device_stream_host_def
  by (simp_all add: Let_def case_prod_beta tx_send_def frame_simps status_remove_def sfu_remove_room_def)

lemmas disconnect_session_frame [frame_simps] = disconnect_session_fields(8-16)

lemma room_has_producers_iff:
  "room_has_producers sfu room \<longleftrightarrow> (\<exists>r pid p. dm_get sfu room = Some r \<and> (pid, p) \<in> set (sfr_peers r) \<and> sfp_producers p \<noteq> [])"
  by (auto simp: room_has_producers_def list_ex_iff split: option.splits)

lemma no_producers_media:
  "\<not> room_has_producers sfu room \<Longrightarrow> media_at sfu room q = []"
  by (auto simp: room_has_producers_iff media_at_def peer_at_def split: option.splits dest: map_of_SomeD)

lemma media_at_dm_remove:
  "media_at (dm_remove room sfu) rid q = (if rid = room then [] else media_at sfu rid q)"
  "data_at (dm_remove room sfu) rid q = (if rid = room then [] else data_at sfu rid q)"
  by (simp_all add: media_at_def data_at_def peer_at_def)

lemma members_disconnect_subset:
  "rooms_inv rooms \<Longrightarrow> set (members (fst (disconnect_consumers rooms room)) room) \<subseteq> set (members rooms room)"
  by (auto simp: disconnect_consumers_def Let_def members_def get_retain_modify rooms_inv_wf room_members_def
      split: option.splits if_splits)

lemma members_disconnect_other:
  "rooms_inv rooms \<Longrightarrow> k \<noteq> room \<Longrightarrow> members (fst (disconnect_consumers rooms room)) k = members rooms k"
  by (auto simp: disconnect_consumers_def Let_def members_def get_retain_modify rooms_inv_wf
      room_occupied_members split: option.splits)

text \<open>
  C1. Tearing a session down is complete and touches nobody else. Afterwards the connection's
  device binding is gone and no other binding changed; no SFU room has a media producer filed
  under the session's peer id, nor any producer or data producer registered under its session key or
  under its device; the ownership entries of all of these are gone; every other media producer is
  still in place and every other ownership entry is unchanged; the peer is out of its room
  and the members of all other rooms are as before.
\<close>

theorem disconnect_session_complete:
  assumes rooms: "rooms_inv (srv_rooms s)" and inv: "sfu_inv (srv_sfu s)" and uniq: "ids_unique (srv_sfu s)"
    and wf: "dm_wf (srv_producer_owners s)" and t: "t = disconnect_session ts peer room s"
  shows "(\<forall>q. dm_get (srv_bindings t) q = (if q = peer then None else dm_get (srv_bindings s) q))
   \<and> (\<forall>rid q. media_at (srv_sfu t) rid q =
        (if q = peer then [] else filter (\<lambda>x. \<not> doomed s peer (mp_id x)) (media_at (srv_sfu s) rid q)))
   \<and> (\<forall>rid q. set (data_at (srv_sfu t) rid q) \<subseteq> {x \<in> set (data_at (srv_sfu s) rid q). q \<noteq> peer \<and> \<not> doomed s peer (md_id x)})
   \<and> (\<forall>i. dm_get (srv_producer_owners t) i =
        (if doomed s peer i \<or> dm_get (srv_bindings s) peer \<noteq> None \<and> own_media s peer i then None
         else dm_get (srv_producer_owners s) i))
   \<and> peer \<notin> set (members (srv_rooms t) room)
   \<and> (\<forall>k. k \<noteq> room \<longrightarrow> members (srv_rooms t) k = members (srv_rooms s) k)"
proof (intro conjI allI impI)
  note f = disconnect_session_fields [of ts peer room s, folded t]
  note d = disconnect_sfu_facts [OF inv uniq wf refl]
  show "dm_get (srv_bindings t) q = (if q = peer then None else dm_get (srv_bindings s) q)" for q
    by (simp add: f)
  show "media_at (srv_sfu t) rid q =
      (if q = peer then [] else filter (\<lambda>x. \<not> doomed s peer (mp_id x)) (media_at (srv_sfu s) rid q))" for rid q
  proof (cases "tears_down ts peer room s \<and> rid = room")
    case True
    then have "media_at (srv_sfu (disconnect_sfu ts peer s)) room q = []"
      by (intro no_producers_media) (simp add: tears_down_def should_teardown_def)
    then show ?thesis using True d(1) [of ts peer room q] by (simp add: f media_at_dm_remove split: if_splits)
  next
    case False
    then show ?thesis using d(1) [of ts peer rid q] by (auto simp: f media_at_dm_remove)
  qed
  show "set (data_at (srv_sfu t) rid q) \<subseteq> {x \<in> set (data_at (srv_sfu s) rid q). q \<noteq> peer \<and> \<not> doomed s peer (md_id x)}" for rid q
    by (auto simp: f media_at_dm_remove d(2) split: if_splits)
  show "dm_get (srv_producer_owners t) i =
        (if doomed s peer i \<or> dm_get (srv_bindings s) peer \<noteq> None \<and> own_media s peer i then None
         else dm_get (srv_producer_owners s) i)" for i
    by (simp add: f d(3))
  note left = rooms_inv_leave [OF rooms, of room peer] members_leave [OF rooms, of room peer]
  show "peer \<notin> set (members (srv_rooms t) room)"
    using left members_disconnect_subset [OF left(1), of room]
    by (auto simp: f rooms_after_leave_def Let_def)
  show "members (srv_rooms t) k = members (srv_rooms s) k" if "k \<noteq> room" for k
    using that left(2) members_disconnect_other [OF left(1) that] by (simp add: f rooms_after_leave_def Let_def)
qed

lemma demo_server_unique: "ids_unique (srv_sfu demo_server)" "dm_wf (srv_producer_owners demo_server)"
  by (auto simp: ids_unique_def ids_at_def media_at_def data_at_def peer_at_def demo_server_def new_peer_def
      split: option.splits if_splits)

theorem disconnect_session_complete_witness:
  "media_at (srv_sfu (disconnect_session ''t'' ''h'' ''car'' demo_server)) ''car_front'' ''host'' = []
   \<and> dm_get (srv_producer_owners (disconnect_session ''t'' ''h'' ''car'' demo_server)) ''p1'' = None"
proof -
  have "doomed demo_server ''h'' ''p1''" by (simp add: doomed_def demo_server_def)
  moreover have "media_at (srv_sfu demo_server) ''car_front'' ''host'' = [\<lparr>mp_id = ''p1'', mp_kind = MsVideo\<rparr>]"
    by (simp add: media_at_def peer_at_def demo_server_def)
  moreover note all = disconnect_session_complete [OF demo_server_inv demo_server_unique, of _ "''t''" "''h''" "''car''", OF refl]
  ultimately show ?thesis
    using all [THEN conjunct2, THEN conjunct1, rule_format, of "''car_front''" "''host''"]
      all [THEN conjunct2, THEN conjunct2, THEN conjunct2, THEN conjunct1, rule_format, of "''p1''"] by simp
qed

text \<open>
  C2. Viewers learn of every stream that a teardown closes: for each media producer filed under
  the session's peer id, and each media or data producer of another SFU peer that is registered
  under the session key or the device, a \<open>ProducerClosed\<close> frame with its id and kind is sent on
  the channel of the room it was in, and the last frame sent is the session's \<open>RoomLeave\<close> on its
  own room.
\<close>

theorem disconnect_session_announces:
  assumes inv: "sfu_inv (srv_sfu s)" and uniq: "ids_unique (srv_sfu s)" and wf: "dm_wf (srv_producer_owners s)"
    and t: "t = disconnect_session ts peer room s"
  shows "(\<forall>rid q x. x \<in> set (media_at (srv_sfu s) rid q) \<and> (q = peer \<or> doomed s peer (mp_id x)) \<longrightarrow>
        announced rid peer (mp_id x) (protocol_kind (mp_kind x)) t)
   \<and> (\<forall>rid q y. y \<in> set (data_at (srv_sfu s) rid q) \<and> q \<noteq> peer \<and> doomed s peer (md_id y) \<longrightarrow>
        announced rid peer (md_id y) Data t)
   \<and> (\<exists>n. last (srv_out t) = Broadcast room (PMsg (RoomLeave room peer)) n)"
proof -
  obtain n where out: "srv_out t = srv_out (disconnect_sfu ts peer s) @ [Broadcast room (PMsg (RoomLeave room peer)) n]"
    using disconnect_session_fields(7) [of ts peer room s] t by auto
  then have late: "announced r p i k t" if "announced r p i k (disconnect_sfu ts peer s)" for r p i k
    using that by (auto simp: announced_def)
  have kind: "protocol_kind k \<noteq> Data" for k by (cases k) auto
  note ann = disconnect_sfu_announced [OF inv uniq wf]
  show ?thesis
  proof (intro conjI allI impI)
    show "announced rid peer (mp_id x) (protocol_kind (mp_kind x)) t"
      if "x \<in> set (media_at (srv_sfu s) rid q) \<and> (q = peer \<or> doomed s peer (mp_id x))" for rid q x
      using that kind by (intro late ann [of rid q]) (auto simp: entity_at_def)
    show "announced rid peer (md_id y) Data t"
      if "y \<in> set (data_at (srv_sfu s) rid q) \<and> q \<noteq> peer \<and> doomed s peer (md_id y)" for rid q y
      using that by (intro late ann [of rid q]) (auto simp: entity_at_def)
    show "\<exists>n. last (srv_out t) = Broadcast room (PMsg (RoomLeave room peer)) n" by (simp add: out)
  qed
qed

theorem disconnect_session_announces_witness:
  "announced ''car_front'' ''h'' ''p1'' Video (disconnect_session ''t'' ''h'' ''car'' demo_server)"
proof -
  let ?p = "\<lparr>mp_id = ''p1'', mp_kind = MsVideo\<rparr>"
  have "?p \<in> set (media_at (srv_sfu demo_server) ''car_front'' ''host'') \<and> (''host'' = ''h'' \<or> doomed demo_server ''h'' (mp_id ?p))"
    by (simp add: media_at_def peer_at_def doomed_def demo_server_def)
  from disconnect_session_announces [OF demo_server_inv(2) demo_server_unique, of _ "''t''" "''h''" "''car''", OF refl,
      THEN conjunct1, rule_format, OF this]
  show ?thesis by simp
qed

text \<open>
  The order of the teardown loses a cleanup. \<open>room_removed\<close> is read before the viewers are
  disconnected, so when a vehicle leaves a room that still has viewers the room disappears but
  its owner and its last status report stay registered: the vehicle looks online to the gates that
  ask for the owner until some viewer's own connection ends.
\<close>

lemma host_gone_owner_stays:
  "get_room (srv_rooms (disconnect_session ts ''h'' ''car'' demo_server)) ''car'' = None
   \<and> room_owner_of (disconnect_session ts ''h'' ''car'' demo_server) ''car'' = Some ''car''"
proof -
  have leave: "leave_room (srv_rooms demo_server) ''car'' ''h'' =
      ([(''car'', room_drop_peer ''h'' (push_consumer ''v'' ''t'' (new_room ''car'' ''h'' Host ''t'' 1)))], False, [])"
    by (simp add: leave_room_def demo_server_def dm_modify_def dm_retain_def dm_contains_def room_occupied_members)
  then have stay: "\<not> tears_down ts ''h'' ''car'' demo_server" by (simp add: tears_down_def should_teardown_def)
  have host: "is_device_stream_host demo_server ''car'' ''h''"
    by (simp add: is_device_stream_host_def is_device_stream_def list_rooms_def demo_server_def push_consumer_def new_room_def)
  have "get_room (srv_rooms (disconnect_session ts ''h'' ''car'' demo_server)) ''car'' = None"
    by (simp add: disconnect_session_fields rooms_after_leave_def leave host Let_def get_room_def
        disconnect_consumers_def dm_modify_def dm_retain_def room_drop_peer_def push_consumer_def new_room_def room_occupied_def)
  moreover have "room_owner_of (disconnect_session ts ''h'' ''car'' demo_server) ''car'' = Some ''car''"
    using stay by code_simp
  ultimately show ?thesis by blast
qed

end
