(* ===== verification/SfuMessages.thy ===== *)
theory SfuMessages
  imports SignalServer
begin

text \<open>
  The SFU negotiation of a joined session, \<open>handle_sfu_message\<close> of
  \<open>mediaservo-server/src/signaling.rs\<close>: one definition per message the function handles and the
  dispatcher. The outcomes of the media worker for the message at hand are the fields of
  \<open>worker\<close>; \<open>peer_id\<close> is the id of the session, the messages carry the peer id their sender
  reports.
\<close>

text \<open>Where a call to the worker was when its five seconds were over.\<close>

datatype timeout_point = NoTimeout | InRouter | InTransport

record worker =
  w_timeout :: timeout_point
  w_router :: "string + json"
  w_transport :: "string + transport_created"
  w_dtls_error :: "string option"
  w_connect_error :: "string option"
  w_layers_error :: "string option"
  w_rtp_error :: "string option"
  w_produced :: "string + string"
  w_caps_error :: "string option"
  w_consumed :: "string + string \<times> json"
  w_data_produced :: "string + string"
  w_data_consumed :: "string + (string \<times> sctp_stream_parameters option \<times> string \<times> string)"
  w_producer_stats :: "string + (u64 \<times> u64 \<times> u8) list"
  w_consumer_stats :: "string + (u64 \<times> u64 \<times> u8)"

fun debug_kind :: "media_kind \<Rightarrow> string" where
  "debug_kind Audio = ''Audio''"
| "debug_kind Video = ''Video''"
| "debug_kind Data = ''Data''"

fun dir_str :: "transport_direction \<Rightarrow> string" where
  "dir_str Send = ''send''"
| "dir_str Recv = ''recv''"

text \<open>\<open>tokio::time::timeout\<close> around a call that first makes sure the room has a router.\<close>

definition timed_out_in :: "server \<Rightarrow> string \<Rightarrow> worker \<Rightarrow> sfu" where
  "timed_out_in srv room_id w =
     (case w_timeout w of
        InTransport \<Rightarrow> fst (ensure_router (srv_sfu srv) room_id (w_router w))
      | _ \<Rightarrow> srv_sfu srv)"

definition handle_create_transport ::
  "server \<Rightarrow> worker \<Rightarrow> string \<Rightarrow> string \<Rightarrow> string \<Rightarrow> transport_direction \<Rightarrow> server \<times> signaling_message option" where
  "handle_create_transport srv w peer_id room_id msg_peer_id direction =
     (if w_timeout w \<noteq> NoTimeout
      then (srv\<lparr>srv_sfu := timed_out_in srv room_id w\<rparr>, Some (Error 5000 ''Transport creation timed out''))
      else
        (case create_webrtc_transport (srv_sfu srv) room_id msg_peer_id (dir_str direction) (w_router w) (w_transport w) of
           (sfu', Inr created) \<Rightarrow>
             (srv\<lparr>srv_sfu := sfu'\<rparr>,
              Some (WebRtcTransportCreated
                \<lparr>tc_room_id = room_id, tc_peer_id = peer_id, tc_transport_id = tr_transport_id created,
                 tc_ice_parameters = tr_ice_parameters created, tc_dtls_parameters = tr_dtls_parameters created,
                 tc_ice_candidates = Some (tr_ice_candidates created), tc_sctp_parameters = tr_sctp_parameters created\<rparr>))
         | (sfu', Inl e) \<Rightarrow>
             (srv\<lparr>srv_sfu := sfu'\<rparr>, Some (Error 5000 (''Transport creation failed: '' @ e)))))"

definition handle_connect_transport ::
  "server \<Rightarrow> worker \<Rightarrow> string \<Rightarrow> string \<Rightarrow> string \<Rightarrow> server \<times> signaling_message option" where
  "handle_connect_transport srv w room_id msg_peer_id transport_id =
     (srv, Some (case connect_transport (srv_sfu srv) room_id msg_peer_id transport_id
                        (w_dtls_error w) (w_connect_error w) of
                   Inr _ \<Rightarrow> Error 0 ''transport_connected''
                 | Inl e \<Rightarrow> Error 5000 (''Connect failed: '' @ e)))"

definition handle_get_caps :: "server \<Rightarrow> worker \<Rightarrow> string \<Rightarrow> server \<times> signaling_message option" where
  "handle_get_caps srv w room_id =
     (if w_timeout w \<noteq> NoTimeout then (srv, Some (Error 5000 ''GetRouterRtpCapabilities timed out''))
      else
        (case router_rtp_capabilities (srv_sfu srv) room_id (w_router w) of
           (sfu', Inr caps) \<Rightarrow> (srv\<lparr>srv_sfu := sfu'\<rparr>, Some (RouterRtpCapabilities room_id caps))
         | (sfu', Inl e) \<Rightarrow>
             (srv\<lparr>srv_sfu := sfu'\<rparr>, Some (Error 5000 (''GetRouterRtpCapabilities failed: '' @ e)))))"

definition handle_set_layers ::
  "server \<Rightarrow> worker \<Rightarrow> string \<Rightarrow> string \<Rightarrow> string \<Rightarrow> server \<times> signaling_message option" where
  "handle_set_layers srv w room_id msg_peer_id consumer_id =
     (srv, Some (if w_timeout w \<noteq> NoTimeout then Error 5000 ''SetPreferredLayers timed out''
                 else case set_preferred_layers (srv_sfu srv) room_id msg_peer_id consumer_id (w_layers_error w) of
                        Inr _ \<Rightarrow> Error 0 ''preferred_layers_set''
                      | Inl e \<Rightarrow> Error 5000 (''SetPreferredLayers failed: '' @ e)))"

text \<open>A refusal: the detail goes to the audit log and, with its code, to the sender.\<close>

definition deny ::
  "server \<Rightarrow> string \<Rightarrow> string \<Rightarrow> u16 \<Rightarrow> string \<Rightarrow> server \<times> signaling_message option" where
  "deny srv action peer_id code detail =
     (audit_log (AuthorizationDenied action peer_id detail) srv, Some (Error code detail))"

text \<open>The denial texts.\<close>

definition in_room :: "string \<Rightarrow> string \<Rightarrow> string \<Rightarrow> string" where
  "in_room reason peer_id room_id = reason @ '' (peer='' @ peer_id @ '', room='' @ room_id @ '')''"

definition audio_only_detail :: "string \<Rightarrow> string \<Rightarrow> media_kind \<Rightarrow> string" where
  "audio_only_detail peer_id room_id kind =
     ''audio rooms allow audio producers only (peer='' @ peer_id @ '', room='' @ room_id
     @ '', kind='' @ debug_kind kind @ '')''"

definition dialect_reason :: "u32 \<Rightarrow> string" where
  "dialect_reason negotiated =
     ''control_denied: requires_protocol>='' @ show_nat (unat PROTOCOL_MIN_CONTROL_DC)
     @ '' negotiated='' @ show_nat (unat negotiated)"

definition producer_owner_key :: "server \<Rightarrow> string \<Rightarrow> string" where
  "producer_owner_key srv peer_id = unwrap_or (device_id_of srv peer_id) (session_key peer_id)"

definition handle_produce ::
  "server \<Rightarrow> worker \<Rightarrow> string \<Rightarrow> session_identity \<Rightarrow> produce_req \<Rightarrow> server \<times> signaling_message option" where
  "handle_produce srv w peer_id identity m =
     (if pr_transport_direction m \<noteq> Send then (srv, Some (Error 4000 ''Produce requires send transport''))
      else (case can_produce identity (pr_room_id m) of
        Inl reason \<Rightarrow>
          deny srv ''produce'' peer_id 4031
            (in_room reason peer_id (pr_room_id m))
      | Inr _ \<Rightarrow>
          if is_audio_room (pr_room_id m) \<and> pr_kind m \<noteq> Audio then
            deny srv ''produce'' peer_id 4031
              (audio_only_detail peer_id (pr_room_id m) (pr_kind m))
          else
            (case create_producer (srv_sfu srv) (pr_room_id m) (pr_peer_id m) (pr_kind m)
                    (pr_transport_id m) (pr_label m) (w_rtp_error w) (w_produced w) of
               (sfu', Inr (pid, kind)) \<Rightarrow>
                 let srv1 = srv\<lparr>srv_sfu := sfu',
                              srv_producer_owners := dm_insert pid (producer_owner_key srv peer_id) (srv_producer_owners srv)\<rparr>;
                     srv2 = fst (tx_send (pr_room_id m)
                              (PMsg (NewProducer (pr_room_id m) pid peer_id kind (pr_label m)))
                              (get_or_create_channel (pr_room_id m) srv1))
                 in (srv2, Some (Produced (pr_room_id m) pid))
             | (sfu', Inl e) \<Rightarrow>
                 (srv\<lparr>srv_sfu := sfu'\<rparr>, Some (Error 5000 (''Producer creation failed: '' @ e))))))"

definition handle_consume ::
  "server \<Rightarrow> worker \<Rightarrow> string \<Rightarrow> session_identity \<Rightarrow> string \<Rightarrow> string \<Rightarrow> string \<Rightarrow> string option \<Rightarrow>
     server \<times> signaling_message option" where
  "handle_consume srv w peer_id identity room_id msg_peer_id producer_id transport_id =
     (case can_consume identity (dm_get (srv_producer_owners srv) producer_id) of
        Inl reason \<Rightarrow>
          deny srv ''consume'' peer_id 4031 (in_room reason peer_id room_id)
      | Inr _ \<Rightarrow>
          (case create_consumer (srv_sfu srv) room_id msg_peer_id producer_id transport_id
                  (w_caps_error w) (w_consumed w) of
             (sfu', Inr c) \<Rightarrow>
               (srv\<lparr>srv_sfu := sfu'\<rparr>,
                Some (Consumed room_id (cr_consumer_id c) (cr_producer_id c) (cr_kind c) (cr_rtp_parameters c)))
           | (sfu', Inl e) \<Rightarrow>
               (srv\<lparr>srv_sfu := sfu'\<rparr>, Some (Error 5000 (''Consumer creation failed: '' @ e)))))"

text \<open>The gate on data producers: accounts need the control right and a dialect with control channels.\<close>

definition data_produce_denial ::
  "string \<Rightarrow> session_identity \<Rightarrow> u32 \<Rightarrow> string \<Rightarrow> string option" where
  "data_produce_denial peer_id identity negotiated room_id =
     (case can_produce identity room_id of
        Inr _ \<Rightarrow> None
      | Inl reason \<Rightarrow>
          if sess_can_control identity \<and> negotiated \<ge> PROTOCOL_MIN_CONTROL_DC then None
          else if sess_can_control identity then
            Some (in_room (dialect_reason negotiated) peer_id room_id)
          else Some (in_room (''control_denied: '' @ reason) peer_id room_id))"

definition handle_create_data_producer ::
  "server \<Rightarrow> worker \<Rightarrow> string \<Rightarrow> session_identity \<Rightarrow> u32 \<Rightarrow> data_produce_req \<Rightarrow>
     server \<times> signaling_message option" where
  "handle_create_data_producer srv w peer_id identity negotiated m =
     (if dp_transport_direction m \<noteq> Send
      then (srv, Some (Error 4000 ''CreateDataProducer requires send transport''))
      else (case data_produce_denial peer_id identity negotiated (dp_room_id m) of
        Some detail \<Rightarrow> deny srv ''control_dc'' peer_id 4012 detail
      | None \<Rightarrow>
          (case create_data_producer (srv_sfu srv) (dp_room_id m) (dp_peer_id m) (dp_label m) (dp_protocol m)
                  (dp_sctp_stream_parameters m) (dp_transport_id m) (w_data_produced w) of
             (sfu', Inr did) \<Rightarrow>
               let srv1 = srv\<lparr>srv_sfu := sfu',
                            srv_producer_owners := dm_insert did (producer_owner_key srv peer_id) (srv_producer_owners srv)\<rparr>;
                   srv2 = fst (tx_send (dp_room_id m)
                            (PMsg (NewDataProducer (dp_room_id m) did peer_id (dp_label m) (dp_protocol m)))
                            (get_or_create_channel (dp_room_id m) srv1))
               in (srv2, Some (DataProducerCreated (dp_room_id m) did))
           | (sfu', Inl e) \<Rightarrow>
               (srv\<lparr>srv_sfu := sfu'\<rparr>, Some (Error 5000 (''DataProducer creation failed: '' @ e))))))"

definition handle_consume_data ::
  "server \<Rightarrow> worker \<Rightarrow> string \<Rightarrow> session_identity \<Rightarrow> string \<Rightarrow> string \<Rightarrow> transport_direction \<Rightarrow> string \<Rightarrow>
     string option \<Rightarrow> server \<times> signaling_message option" where
  "handle_consume_data srv w peer_id identity room_id msg_peer_id direction data_producer_id transport_id =
     (if direction \<noteq> Recv then (srv, Some (Error 4000 ''ConsumeData requires recv transport''))
      else (case can_consume identity (dm_get (srv_producer_owners srv) data_producer_id) of
        Inl reason \<Rightarrow>
          deny srv ''consume_data'' peer_id 4031 (in_room reason peer_id room_id)
      | Inr _ \<Rightarrow>
          (case create_data_consumer (srv_sfu srv) room_id msg_peer_id data_producer_id transport_id (w_data_consumed w) of
             (sfu', Inr c) \<Rightarrow>
               (srv\<lparr>srv_sfu := sfu'\<rparr>,
                Some (DataConsumed room_id (dc_data_consumer_id c) (dc_data_producer_id c)
                        (dc_sctp_stream_parameters c) (dc_label c) (dc_protocol c)))
           | (sfu', Inl e) \<Rightarrow>
               (srv\<lparr>srv_sfu := sfu'\<rparr>, Some (Error 5000 (''DataConsumer creation failed: '' @ e))))))"

definition handle_sfu_stats ::
  "server \<Rightarrow> worker \<Rightarrow> string \<Rightarrow> session_identity \<Rightarrow> string option \<Rightarrow> string option \<Rightarrow>
     server \<times> signaling_message option" where
  "handle_sfu_stats srv w peer_id identity producer_id consumer_id =
     (case (case producer_id of Some p \<Rightarrow> Some p | None \<Rightarrow> consumer_id) of
        None \<Rightarrow> (srv, Some (Error 4000 ''SfuStatsRequest requires producer_id or consumer_id''))
      | Some qid \<Rightarrow>
          (case can_consume identity (dm_get (srv_producer_owners srv) qid) of
             Inl reason \<Rightarrow> deny srv ''sfu_stats'' peer_id 4031 (reason @ '' (peer='' @ peer_id @ '')'')
           | Inr _ \<Rightarrow>
               (srv,
                (case producer_id of
                   Some pid \<Rightarrow>
                     (case producer_stats (srv_sfu srv) pid (w_producer_stats w) of
                        Inr (kind, b, n, s) \<Rightarrow> Some (SfuStats (Some pid) None (Some kind) b n s)
                      | Inl e \<Rightarrow> Some (Error 5000 e))
                 | None \<Rightarrow>
                     (case consumer_id of
                        Some cid \<Rightarrow>
                          (case consumer_stats (srv_sfu srv) cid (w_consumer_stats w) of
                             Inr (kind, b, n, s) \<Rightarrow> Some (SfuStats None (Some cid) (Some kind) b n s)
                           | Inl e \<Rightarrow> Some (Error 5000 e))
                      | None \<Rightarrow> None)))))"

text \<open>The counter is 32-bit.\<close>

definition handle_downstream_gone ::
  "server \<Rightarrow> string \<Rightarrow> string \<Rightarrow> string \<Rightarrow> string \<Rightarrow> server \<times> signaling_message option" where
  "handle_downstream_gone srv ts peer_id gone_peer room_id =
     (case device_id_of srv peer_id of
        None \<Rightarrow> (srv, None)
      | Some device \<Rightarrow>
          let srv1 = srv\<lparr>srv_t4_gone_seen :=
                dm_insert device (unwrap_or (dm_get (srv_t4_gone_seen srv) device) 0 + 1) (srv_t4_gone_seen srv)\<rparr>;
              (sfu', closed) = remove_peer_in_room (srv_sfu srv1) room_id gone_peer;
              srv2 = srv1\<lparr>srv_sfu := sfu'\<rparr>
          in (if closed = [] then srv2
              else announce_producers_closed ts room_id gone_peer (Some device) closed srv2, None))"

definition handle_sfu_message ::
  "worker \<Rightarrow> string \<Rightarrow> server \<Rightarrow> string \<Rightarrow> session_identity \<Rightarrow> u32 \<Rightarrow> signaling_message \<Rightarrow>
     server \<times> signaling_message option" where
  "handle_sfu_message w ts srv peer_id identity negotiated msg =
     (case msg of
        CreateWebRtcTransport room_id msg_peer_id direction \<Rightarrow>
          handle_create_transport srv w peer_id room_id msg_peer_id direction
      | ConnectWebRtcTransport room_id msg_peer_id transport_id dtls \<Rightarrow>
          handle_connect_transport srv w room_id msg_peer_id transport_id
      | ControlAudit room_id seq cmd sig_present \<Rightarrow> (audit_log (EstopAudit room_id seq cmd sig_present) srv, None)
      | GetRouterRtpCapabilities room_id \<Rightarrow> handle_get_caps srv w room_id
      | SetPreferredLayers room_id msg_peer_id consumer_id spatial temporal \<Rightarrow>
          handle_set_layers srv w room_id msg_peer_id consumer_id
      | Produce m \<Rightarrow> handle_produce srv w peer_id identity m
      | Consume room_id msg_peer_id producer_id caps transport_id \<Rightarrow>
          handle_consume srv w peer_id identity room_id msg_peer_id producer_id transport_id
      | CreateDataProducer m \<Rightarrow> handle_create_data_producer srv w peer_id identity negotiated m
      | ConsumeData room_id msg_peer_id direction data_producer_id transport_id \<Rightarrow>
          handle_consume_data srv w peer_id identity room_id msg_peer_id direction data_producer_id transport_id
      | SfuStatsRequest producer_id consumer_id \<Rightarrow> handle_sfu_stats srv w peer_id identity producer_id consumer_id
      | DownstreamGone gone_peer room_id \<Rightarrow> handle_downstream_gone srv ts peer_id gone_peer room_id
      | _ \<Rightarrow> (srv, None))"

section \<open>Frame\<close>

lemmas sfu_handler_defs = handle_create_transport_def handle_connect_transport_def handle_get_caps_def
  handle_set_layers_def handle_produce_def handle_consume_def handle_create_data_producer_def
  handle_consume_data_def handle_sfu_stats_def handle_downstream_gone_def deny_def

text \<open>The SFU handlers never touch rooms, bindings, tickets, credentials or the message cache.\<close>

definition same_session_state :: "server \<Rightarrow> server \<Rightarrow> bool" where
  "same_session_state s t =
     (srv_rooms s = srv_rooms t \<and> srv_bindings s = srv_bindings t \<and> srv_resume s = srv_resume t
      \<and> srv_resume_seq s = srv_resume_seq t \<and> srv_pending s = srv_pending t \<and> srv_psk s = srv_psk t
      \<and> srv_devices s = srv_devices t \<and> srv_pending_devices s = srv_pending_devices t
      \<and> srv_allow_dev_enroll s = srv_allow_dev_enroll t \<and> srv_shutdown s = srv_shutdown t
      \<and> srv_active_connections s = srv_active_connections t)"

lemma same_session_stateD:
  assumes "same_session_state s t"
  shows "srv_rooms s = srv_rooms t" "srv_bindings s = srv_bindings t" "srv_resume s = srv_resume t"
    "srv_resume_seq s = srv_resume_seq t" "srv_pending s = srv_pending t" "srv_psk s = srv_psk t"
    "srv_devices s = srv_devices t" "srv_pending_devices s = srv_pending_devices t"
    "srv_allow_dev_enroll s = srv_allow_dev_enroll t" "srv_shutdown s = srv_shutdown t"
    "srv_active_connections s = srv_active_connections t"
  using assms by (simp_all add: same_session_state_def)

lemma same_core_session: "same_core s t \<Longrightarrow> same_session_state s t"
  by (simp add: same_core_def same_session_state_def)

lemma sss_simple [simp]:
  "same_session_state (s\<lparr>srv_sfu := x\<rparr>) t = same_session_state s t"
  "same_session_state (s\<lparr>srv_producer_owners := y\<rparr>) t = same_session_state s t"
  "same_session_state (s\<lparr>srv_t4_gone_seen := z\<rparr>) t = same_session_state s t"
  "same_session_state (audit_log e s) t = same_session_state s t"
  "same_session_state (fst (tx_send r p s)) t = same_session_state s t"
  "same_session_state (get_or_create_channel r s) t = same_session_state s t"
  "same_session_state (announce_producers_closed ts r q d c s) t = same_session_state s t"
  "same_session_state s s"
  by (simp_all add: same_session_state_def frame_simps tx_send_def get_or_create_channel_def)

lemma handle_produce_sss: "same_session_state (fst (handle_produce s w p i m)) s"
proof -
  obtain sfu' res where c: "create_producer (srv_sfu s) (pr_room_id m) (pr_peer_id m) (pr_kind m)
      (pr_transport_id m) (pr_label m) (w_rtp_error w) (w_produced w) = (sfu', res)" by force
  show ?thesis
    by (cases res; cases "can_produce i (pr_room_id m)")
      (simp_all add: handle_produce_def deny_def Let_def c case_prod_beta)
qed

lemma handle_create_data_sss: "same_session_state (fst (handle_create_data_producer s w p i n m)) s"
proof -
  obtain sfu' res where c: "create_data_producer (srv_sfu s) (dp_room_id m) (dp_peer_id m) (dp_label m) (dp_protocol m)
      (dp_sctp_stream_parameters m) (dp_transport_id m) (w_data_produced w) = (sfu', res)" by force
  show ?thesis
    by (cases res; cases "data_produce_denial p i n (dp_room_id m)")
      (simp_all add: handle_create_data_producer_def deny_def Let_def c)
qed

lemma handle_consume_sss: "same_session_state (fst (handle_consume s w p i r q x t)) s"
  and handle_consume_data_sss: "same_session_state (fst (handle_consume_data s w p i r q dir x t)) s"
  and handle_stats_sss: "same_session_state (fst (handle_sfu_stats s w p i a b)) s"
  by (auto simp: handle_consume_def handle_consume_data_def handle_sfu_stats_def deny_def
      split: sum.split option.split prod.split)

lemma handle_transport_sss:
  "same_session_state (fst (handle_create_transport s w p r q d)) s"
  "same_session_state (fst (handle_connect_transport s w r q t)) s"
  "same_session_state (fst (handle_get_caps s w r)) s"
  "same_session_state (fst (handle_set_layers s w r q c)) s"
  by (auto simp: handle_create_transport_def handle_connect_transport_def handle_get_caps_def handle_set_layers_def
      split: sum.split prod.split)

lemma handle_gone_sss: "same_session_state (fst (handle_downstream_gone s ts p g r)) s"
  by (auto simp: handle_downstream_gone_def Let_def split: option.split prod.split)

lemma handle_sfu_message_sss: "same_session_state (fst (handle_sfu_message w ts s p i n msg)) s"
  by (cases msg) (simp_all add: handle_sfu_message_def handle_produce_sss handle_create_data_sss handle_consume_sss
      handle_consume_data_sss handle_stats_sss handle_transport_sss handle_gone_sss)

section \<open>Authorization\<close>

text \<open>What a positive answer of the SFU presupposes.\<close>

definition sfu_grant_allowed ::
  "server \<Rightarrow> session_identity \<Rightarrow> u32 \<Rightarrow> signaling_message \<Rightarrow> signaling_message \<Rightarrow> bool" where
  "sfu_grant_allowed s i n msg reply =
     (case reply of
        Produced r pid \<Rightarrow>
          (case msg of Produce m \<Rightarrow>
             pr_transport_direction m = Send \<and> (is_account i \<longrightarrow> is_audio_room (pr_room_id m))
             \<and> (is_audio_room (pr_room_id m) \<longrightarrow> pr_kind m = Audio) | _ \<Rightarrow> False)
      | Consumed r c pid k rtp \<Rightarrow>
          (case msg of Consume r' q pid' caps t \<Rightarrow>
             pid = pid' \<and> can_consume i (dm_get (srv_producer_owners s) pid) = Inr () | _ \<Rightarrow> False)
      | DataProducerCreated r did \<Rightarrow>
          (case msg of CreateDataProducer m \<Rightarrow>
             dp_transport_direction m = Send \<and>
             (is_account i \<longrightarrow> is_audio_room (dp_room_id m) \<or> sess_can_control i \<and> n \<ge> PROTOCOL_MIN_CONTROL_DC)
           | _ \<Rightarrow> False)
      | DataConsumed r c pid sp l pr \<Rightarrow>
          (case msg of ConsumeData r' q d pid' t \<Rightarrow>
             d = Recv \<and> pid = pid' \<and> can_consume i (dm_get (srv_producer_owners s) pid) = Inr () | _ \<Rightarrow> False)
      | SfuStats p' c' k b pk sc \<Rightarrow>
          (case msg of SfuStatsRequest p c \<Rightarrow>
             (\<forall>q. (case p of Some x \<Rightarrow> Some x | None \<Rightarrow> c) = Some q \<longrightarrow>
                can_consume i (dm_get (srv_producer_owners s) q) = Inr ()) | _ \<Rightarrow> False)
      | _ \<Rightarrow> True)"

lemma can_produce_account: "can_produce i room = Inr () \<longleftrightarrow> (is_account i \<longrightarrow> is_audio_room room)"
  by (cases i) auto

lemma data_denial_None:
  "data_produce_denial p i n room = None \<longleftrightarrow>
     (is_account i \<longrightarrow> is_audio_room room \<or> sess_can_control i \<and> n \<ge> PROTOCOL_MIN_CONTROL_DC)"
  using can_produce_account [of i room]
  by (cases "can_produce i room") (auto simp: data_produce_denial_def)

lemma produce_result:
  assumes "handle_produce s w p i m = (t, reply)"
  shows "(\<exists>code text. reply = Some (Error code text) \<and> srv_producer_owners t = srv_producer_owners s \<and> srv_sfu t = srv_sfu s)
    \<or> (\<exists>pid. reply = Some (Produced (pr_room_id m) pid) \<and> can_produce i (pr_room_id m) = Inr ()
        \<and> pr_transport_direction m = Send \<and> (is_audio_room (pr_room_id m) \<longrightarrow> pr_kind m = Audio)
        \<and> create_producer (srv_sfu s) (pr_room_id m) (pr_peer_id m) (pr_kind m) (pr_transport_id m) (pr_label m)
            (w_rtp_error w) (w_produced w) = (srv_sfu t, Inr (pid, pr_kind m))
        \<and> srv_producer_owners t = dm_insert pid (producer_owner_key s p) (srv_producer_owners s))"
proof -
  obtain sfu' res where c: "create_producer (srv_sfu s) (pr_room_id m) (pr_peer_id m) (pr_kind m)
      (pr_transport_id m) (pr_label m) (w_rtp_error w) (w_produced w) = (sfu', res)" by force
  show ?thesis
  proof (cases res)
    case (Inl e)
    then have "sfu' = srv_sfu s" using c create_producer_failed by metis
    then show ?thesis
      using assms c Inl by (cases "can_produce i (pr_room_id m)")
        (auto simp: handle_produce_def deny_def audit_log_frame split: if_splits)
  next
    case (Inr pk)
    obtain pid k where pk: "pk = (pid, k)" by force
    then have "k = pr_kind m" using c Inr by (auto simp: create_producer_ok)
    then show ?thesis
      using assms c Inr pk by (cases "can_produce i (pr_room_id m)")
        (auto simp: handle_produce_def deny_def audit_log_frame Let_def tx_send_def get_or_create_channel_def
          split: if_splits)
  qed
qed

lemma data_produce_result:
  assumes "handle_create_data_producer s w p i n m = (t, Some (DataProducerCreated r did))"
  shows "data_produce_denial p i n (dp_room_id m) = None \<and> dp_transport_direction m = Send
    \<and> srv_producer_owners t = dm_insert did (producer_owner_key s p) (srv_producer_owners s)
    \<and> create_data_producer (srv_sfu s) (dp_room_id m) (dp_peer_id m) (dp_label m) (dp_protocol m)
        (dp_sctp_stream_parameters m) (dp_transport_id m) (w_data_produced w) = (srv_sfu t, Inr did)"
proof -
  obtain sfu' res where c: "create_data_producer (srv_sfu s) (dp_room_id m) (dp_peer_id m) (dp_label m) (dp_protocol m)
      (dp_sctp_stream_parameters m) (dp_transport_id m) (w_data_produced w) = (sfu', res)" by force
  show ?thesis
    using assms c by (cases res; cases "data_produce_denial p i n (dp_room_id m)")
      (auto simp: handle_create_data_producer_def deny_def Let_def tx_send_def get_or_create_channel_def split: if_splits)
qed

lemma create_consumer_pid:
  "create_consumer rooms r q pid t e c = (rooms', Inr x) \<Longrightarrow> cr_producer_id x = pid"
  by (auto simp: create_consumer_def split: option.splits sum.splits)

lemma create_data_consumer_pid:
  "create_data_consumer rooms r q pid t c = (rooms', Inr x) \<Longrightarrow> dc_data_producer_id x = pid"
  by (auto simp: create_data_consumer_def split: option.splits sum.splits)

lemma consume_reply:
  assumes "snd (handle_consume s w p i r q pid t) = Some reply"
  shows "(\<exists>code text. reply = Error code text) \<or>
    (\<exists>c k rtp. reply = Consumed r c pid k rtp \<and> can_consume i (dm_get (srv_producer_owners s) pid) = Inr ())"
proof -
  obtain sfu' res where c: "create_consumer (srv_sfu s) r q pid t (w_caps_error w) (w_consumed w) = (sfu', res)" by force
  show ?thesis
    using assms c by (cases res; cases "can_consume i (dm_get (srv_producer_owners s) pid)")
      (auto simp: handle_consume_def deny_def dest: create_consumer_pid)
qed

lemma consume_data_reply:
  assumes "snd (handle_consume_data s w p i r q d pid t) = Some reply"
  shows "(\<exists>code text. reply = Error code text) \<or>
    (\<exists>c sp l pr. reply = DataConsumed r c pid sp l pr \<and> d = Recv
       \<and> can_consume i (dm_get (srv_producer_owners s) pid) = Inr ())"
proof -
  obtain sfu' res where c: "create_data_consumer (srv_sfu s) r q pid t (w_data_consumed w) = (sfu', res)" by force
  show ?thesis
    using assms c by (cases res; cases "can_consume i (dm_get (srv_producer_owners s) pid)")
      (auto simp: handle_consume_data_def deny_def dest: create_data_consumer_pid split: if_splits)
qed

lemma stats_reply:
  assumes "snd (handle_sfu_stats s w p i a b) = Some reply"
  shows "(\<exists>code text. reply = Error code text) \<or>
    ((\<exists>p' c' k x y z. reply = SfuStats p' c' k x y z) \<and>
     (\<forall>q. (case a of Some x \<Rightarrow> Some x | None \<Rightarrow> b) = Some q \<longrightarrow> can_consume i (dm_get (srv_producer_owners s) q) = Inr ()))"
  using assms
  by (cases a; cases b; cases "can_consume i (dm_get (srv_producer_owners s) (the (case a of Some x \<Rightarrow> Some x | None \<Rightarrow> b)))")
    (auto simp: handle_sfu_stats_def deny_def split: sum.splits)

lemma create_data_reply:
  assumes "snd (handle_create_data_producer s w p i n m) = Some reply"
  shows "(\<exists>code text. reply = Error code text) \<or> (\<exists>did. reply = DataProducerCreated (dp_room_id m) did)"
proof -
  obtain sfu' res where c: "create_data_producer (srv_sfu s) (dp_room_id m) (dp_peer_id m) (dp_label m) (dp_protocol m)
      (dp_sctp_stream_parameters m) (dp_transport_id m) (w_data_produced w) = (sfu', res)" by force
  show ?thesis
    using assms c by (cases res; cases "data_produce_denial p i n (dp_room_id m)")
      (auto simp: handle_create_data_producer_def deny_def Let_def split: if_splits)
qed

lemma transport_reply:
  assumes "snd (handle_create_transport s w p r q d) = Some reply \<or> snd (handle_connect_transport s w r q t) = Some reply
    \<or> snd (handle_get_caps s w r) = Some reply \<or> snd (handle_set_layers s w r q c) = Some reply"
  shows "(\<exists>code text. reply = Error code text) \<or> (\<exists>x. reply = WebRtcTransportCreated x) \<or> (\<exists>x y. reply = RouterRtpCapabilities x y)"
proof -
  obtain sfu' res where c: "create_webrtc_transport (srv_sfu s) r q (dir_str d) (w_router w) (w_transport w) = (sfu', res)" by force
  obtain sfu'' res' where c': "router_rtp_capabilities (srv_sfu s) r (w_router w) = (sfu'', res')" by force
  show ?thesis
    using assms by (cases res; cases res')
      (auto simp: handle_create_transport_def handle_connect_transport_def handle_get_caps_def handle_set_layers_def
        c c' split: if_splits sum.splits)
qed

text \<open>
  C14. The authorization matrix holds on the media plane. Whatever message a session sends and
  whatever the worker answers, a positive reply implies the right: a producer is created only on a
  send transport, for an account only in an audio room, and in an audio room only for audio; a data
  producer for an account only in an audio room or with the control right and a dialect of at
  least 2; a consumer, a data consumer or statistics only if the session may consume what the named
  producer's registered owner produces.
\<close>

theorem sfu_grants_are_authorized:
  assumes "handle_sfu_message w ts s peer identity negotiated msg = (t, Some reply)"
  shows "sfu_grant_allowed s identity negotiated msg reply"
proof (cases msg)
  case (Produce m)
  then show ?thesis
    using assms produce_result [of s w peer identity m t "Some reply"]
    by (auto simp: handle_sfu_message_def sfu_grant_allowed_def can_produce_account)
next
  case (CreateDataProducer m)
  then have r: "handle_create_data_producer s w peer identity negotiated m = (t, Some reply)"
    using assms by (simp add: handle_sfu_message_def)
  then show ?thesis
    using create_data_reply [of s w peer identity negotiated m reply] data_produce_result [of s w peer identity negotiated m t]
    by (auto simp: CreateDataProducer sfu_grant_allowed_def data_denial_None)
next
  case (Consume r q pid caps tr)
  then show ?thesis
    using assms consume_reply [of s w peer identity r q pid tr reply]
    by (auto simp: handle_sfu_message_def sfu_grant_allowed_def)
next
  case (ConsumeData r q d pid tr)
  then show ?thesis
    using assms consume_data_reply [of s w peer identity r q d pid tr reply]
    by (auto simp: handle_sfu_message_def sfu_grant_allowed_def)
next
  case (SfuStatsRequest a b)
  then show ?thesis
    using assms stats_reply [of s w peer identity a b reply]
    by (auto simp: handle_sfu_message_def sfu_grant_allowed_def)
next
  case (DownstreamGone g r)
  then show ?thesis
    using assms by (auto simp: handle_sfu_message_def handle_downstream_gone_def Let_def split: option.splits prod.splits)
next
  case (CreateWebRtcTransport r q d)
  then show ?thesis
    using assms transport_reply [of s w peer r q d reply] by (auto simp: handle_sfu_message_def sfu_grant_allowed_def)
next
  case (ConnectWebRtcTransport r q tr d)
  then show ?thesis
    using assms transport_reply [of s w peer r q Send reply tr] by (auto simp: handle_sfu_message_def sfu_grant_allowed_def)
next
  case (GetRouterRtpCapabilities r)
  then show ?thesis
    using assms transport_reply [of s w peer r _ Send reply] by (auto simp: handle_sfu_message_def sfu_grant_allowed_def)
next
  case (SetPreferredLayers r q c x y)
  then show ?thesis
    using assms transport_reply [of s w peer r q Send reply _ c] by (auto simp: handle_sfu_message_def sfu_grant_allowed_def)
qed (use assms in \<open>simp_all add: handle_sfu_message_def\<close>)

definition demo_worker :: worker where
  "demo_worker = \<lparr>w_timeout = NoTimeout, w_router = Inr JNull, w_transport = Inr (demo_transport ''t9''),
     w_dtls_error = None, w_connect_error = None, w_layers_error = None, w_rtp_error = None, w_produced = Inr ''p9'',
     w_caps_error = None, w_consumed = Inr (''c9'', JNull), w_data_produced = Inr ''d9'',
     w_data_consumed = Inr (''x9'', None, ''ctl'', []), w_producer_stats = Inr [], w_consumer_stats = Inr (0, 0, 0)\<rparr>"

definition demo_produce :: produce_req where
  "demo_produce = \<lparr>pr_room_id = ''car_front'', pr_peer_id = ''host'', pr_transport_direction = Send, pr_kind = Video,
     pr_rtp_parameters = JNull, pr_transport_id = Some ''t1'', pr_label = None\<rparr>"

lemma demo_produced:
  "snd (handle_sfu_message demo_worker ''t'' demo_server ''h'' (Device ''car'') 3 (Produce demo_produce)) =
     Some (Produced ''car_front'' ''p9'')"
  by code_simp

theorem sfu_grants_are_authorized_witness:
  "sfu_grant_allowed demo_server (Device ''car'') 3 (Produce demo_produce) (Produced ''car_front'' ''p9'')"
  using sfu_grants_are_authorized [of demo_worker "''t''" demo_server "''h''" "Device ''car''" 3 "Produce demo_produce"
      "fst (handle_sfu_message demo_worker ''t'' demo_server ''h'' (Device ''car'') 3 (Produce demo_produce))"]
    demo_produced by (metis prod.collapse)

lemma log_event_last: "log_event ring e \<noteq> [] \<and> last (log_event ring e) = e"
  by (simp add: log_event_def ring_trim_drop AUDIT_RING_CAP_def)

definition refusal :: "signaling_message \<Rightarrow> bool" where
  "refusal reply = (\<exists>code text. reply = Error code text \<and> code \<in> {4031, 4012})"

lemma refusal_error [simp]: "refusal (Error c x) \<longleftrightarrow> c = 4031 \<or> c = 4012"
  by (simp add: refusal_def)

lemma deny_result: "deny s a p c d = (t, Some reply) \<Longrightarrow> \<exists>x. reply = Error c x \<and> t = audit_log (AuthorizationDenied a p x) s"
  by (auto simp: deny_def)

lemma produce_refusal:
  assumes "handle_produce s w p i m = (t, Some reply)"
  shows "refusal reply \<longleftrightarrow> pr_transport_direction m = Send \<and>
      \<not> ((is_account i \<longrightarrow> is_audio_room (pr_room_id m)) \<and> (is_audio_room (pr_room_id m) \<longrightarrow> pr_kind m = Audio))"
    and "refusal reply \<Longrightarrow> \<exists>a c x. reply = Error c x \<and> t = audit_log (AuthorizationDenied a p x) s"
proof -
  obtain sfu' res where c: "create_producer (srv_sfu s) (pr_room_id m) (pr_peer_id m) (pr_kind m)
      (pr_transport_id m) (pr_label m) (w_rtp_error w) (w_produced w) = (sfu', res)" by force
  note acc = can_produce_account [of i "pr_room_id m"]
  show "refusal reply \<longleftrightarrow> pr_transport_direction m = Send \<and>
      \<not> ((is_account i \<longrightarrow> is_audio_room (pr_room_id m)) \<and> (is_audio_room (pr_room_id m) \<longrightarrow> pr_kind m = Audio))"
    using assms c acc by (cases res; cases "can_produce i (pr_room_id m)")
      (auto simp: handle_produce_def deny_def Let_def refusal_def split: if_splits)
  show "refusal reply \<Longrightarrow> \<exists>a c x. reply = Error c x \<and> t = audit_log (AuthorizationDenied a p x) s"
    using assms c by (cases res; cases "can_produce i (pr_room_id m)")
      (auto simp: handle_produce_def deny_def Let_def refusal_def split: if_splits)
qed

lemma consume_refusal:
  assumes "handle_consume s w p i r q pid tr = (t, Some reply)"
  shows "refusal reply \<longleftrightarrow> can_consume i (dm_get (srv_producer_owners s) pid) \<noteq> Inr ()"
    and "refusal reply \<Longrightarrow> \<exists>a c x. reply = Error c x \<and> t = audit_log (AuthorizationDenied a p x) s"
proof -
  obtain sfu' res where c: "create_consumer (srv_sfu s) r q pid tr (w_caps_error w) (w_consumed w) = (sfu', res)" by force
  show "refusal reply \<longleftrightarrow> can_consume i (dm_get (srv_producer_owners s) pid) \<noteq> Inr ()"
    using assms c by (cases res; cases "can_consume i (dm_get (srv_producer_owners s) pid)")
      (auto simp: handle_consume_def deny_def refusal_def)
  show "refusal reply \<Longrightarrow> \<exists>a c x. reply = Error c x \<and> t = audit_log (AuthorizationDenied a p x) s"
    using assms c by (cases res; cases "can_consume i (dm_get (srv_producer_owners s) pid)")
      (auto simp: handle_consume_def deny_def refusal_def)
qed

lemma other_refusals:
  "handle_consume_data s w p i r q d pid tr = (t, Some reply) \<Longrightarrow> refusal reply \<Longrightarrow>
     \<exists>a c x. reply = Error c x \<and> t = audit_log (AuthorizationDenied a p x) s"
  "handle_create_data_producer s w p i n m = (t, Some reply) \<Longrightarrow> refusal reply \<Longrightarrow>
     \<exists>a c x. reply = Error c x \<and> t = audit_log (AuthorizationDenied a p x) s"
  "handle_sfu_stats s w p i a' b = (t, Some reply) \<Longrightarrow> refusal reply \<Longrightarrow>
     \<exists>a c x. reply = Error c x \<and> t = audit_log (AuthorizationDenied a p x) s"
  "handle_create_transport s w p r q dd = (t, Some reply) \<Longrightarrow> \<not> refusal reply"
  "handle_connect_transport s w r q tt = (t, Some reply) \<Longrightarrow> \<not> refusal reply"
  "handle_get_caps s w r = (t, Some reply) \<Longrightarrow> \<not> refusal reply"
  "handle_set_layers s w r q cc = (t, Some reply) \<Longrightarrow> \<not> refusal reply"
  by (auto simp: sfu_handler_defs refusal_def Let_def split: if_splits option.splits sum.splits prod.splits)

text \<open>
  A refusal of the media plane is audited and harmless, and the two main gates refuse
  exactly the unauthorized. A reply with code 4031 or 4012 comes with the newest entry of the
  audit ring being the denial, with the session's peer id and the very text that was sent, and
  nothing but the audit ring has changed. Producing on a send transport is refused exactly if the
  session is an account outside an audio room or the kind is not audio in an audio room; consuming is
  refused exactly if the owner of the producer is a vehicle the account has no access to.
\<close>

theorem sfu_refusals_audited:
  assumes "handle_sfu_message w ts s peer identity negotiated msg = (t, Some reply)"
  shows "(refusal reply \<longrightarrow> (\<exists>action code text. reply = Error code text
        \<and> last (srv_audit t) = AuthorizationDenied action peer text \<and> t = s\<lparr>srv_audit := srv_audit t\<rparr>))
   \<and> (\<forall>m. msg = Produce m \<longrightarrow> (refusal reply \<longleftrightarrow> pr_transport_direction m = Send \<and>
        ((is_account identity \<and> \<not> is_audio_room (pr_room_id m)) \<or> (is_audio_room (pr_room_id m) \<and> pr_kind m \<noteq> Audio))))
   \<and> (\<forall>r q pid caps tr. msg = Consume r q pid caps tr \<longrightarrow> (refusal reply \<longleftrightarrow>
        (\<exists>a v. identity = Account a \<and> dm_get (srv_producer_owners s) pid = Some v \<and> \<not> can_access_vehicle a v)))"
proof (intro conjI allI impI)
  have audited: "\<exists>action code text. reply = Error code text
        \<and> last (srv_audit t) = AuthorizationDenied action peer text \<and> t = s\<lparr>srv_audit := srv_audit t\<rparr>"
    if "\<exists>a c x. reply = Error c x \<and> t = audit_log (AuthorizationDenied a peer x) s"
    using that by (auto simp: audit_log_def log_event_last)
  assume ref: "refusal reply"
  show "\<exists>action code text. reply = Error code text
        \<and> last (srv_audit t) = AuthorizationDenied action peer text \<and> t = s\<lparr>srv_audit := srv_audit t\<rparr>"
  proof (rule audited, cases msg)
    case (Produce m)
    then show "\<exists>a c x. reply = Error c x \<and> t = audit_log (AuthorizationDenied a peer x) s"
      using assms ref produce_refusal(2) by (simp add: handle_sfu_message_def)
  next
    case (Consume r q pid caps tr)
    then show "\<exists>a c x. reply = Error c x \<and> t = audit_log (AuthorizationDenied a peer x) s"
      using assms ref consume_refusal(2) by (simp add: handle_sfu_message_def)
  next
    case (DownstreamGone g r)
    then show "\<exists>a c x. reply = Error c x \<and> t = audit_log (AuthorizationDenied a peer x) s"
      using assms by (auto simp: handle_sfu_message_def handle_downstream_gone_def Let_def split: option.splits prod.splits)
  qed (use assms ref other_refusals in \<open>auto simp: handle_sfu_message_def\<close>)
next
  fix m assume "msg = Produce m"
  then show "refusal reply \<longleftrightarrow> pr_transport_direction m = Send \<and>
        ((is_account identity \<and> \<not> is_audio_room (pr_room_id m)) \<or> (is_audio_room (pr_room_id m) \<and> pr_kind m \<noteq> Audio))"
    using assms produce_refusal(1) [of s w peer identity m t reply] by (auto simp: handle_sfu_message_def)
next
  fix r q pid caps tr assume "msg = Consume r q pid caps tr"
  then show "refusal reply \<longleftrightarrow>
      (\<exists>a v. identity = Account a \<and> dm_get (srv_producer_owners s) pid = Some v \<and> \<not> can_access_vehicle a v)"
    using assms consume_refusal(1) [of s w peer identity r q pid tr t reply]
    by (auto simp: handle_sfu_message_def can_consume_allowed)
qed

definition demo_viewer :: session_identity where
  "demo_viewer = Account \<lparr>ai_username = ''eve'', ai_role = Viewer, ai_vehicles = [''bus'']\<rparr>"

theorem sfu_refusals_audited_witness:
  "\<exists>code text. snd (handle_sfu_message demo_worker ''t'' demo_server ''eve-1'' demo_viewer 3
      (Consume ''car_front'' ''w1'' ''p1'' JNull None)) = Some (Error code text)
   \<and> (\<exists>action. last (srv_audit (fst (handle_sfu_message demo_worker ''t'' demo_server ''eve-1'' demo_viewer 3
      (Consume ''car_front'' ''w1'' ''p1'' JNull None)))) = AuthorizationDenied action ''eve-1'' text)"
proof -
  let ?h = "handle_sfu_message demo_worker ''t'' demo_server ''eve-1'' demo_viewer 3 (Consume ''car_front'' ''w1'' ''p1'' JNull None)"
  have "snd ?h \<noteq> None" by code_simp
  then obtain reply where r: "?h = (fst ?h, Some reply)" by (metis option.exhaust prod.collapse)
  note all = sfu_refusals_audited [OF r]
  have "\<exists>a v. demo_viewer = Account a \<and> dm_get (srv_producer_owners demo_server) ''p1'' = Some v \<and> \<not> can_access_vehicle a v"
    by (simp add: demo_viewer_def demo_server_def can_access_vehicle_def)
  then have "refusal reply" using all [THEN conjunct2, THEN conjunct2, rule_format, OF refl] by blast
  with all r show ?thesis by (metis snd_conv)
qed

text \<open>
  No stream outlives the session that published it: if a session's produce request created
  a producer, whatever peer id, room and transport it named, then tearing the session down leaves
  no media producer with that id in any room and no ownership entry for it.
\<close>

theorem stream_dies_with_session:
  assumes rooms: "rooms_inv (srv_rooms s)" and inv: "sfu_inv (srv_sfu t)" and uniq: "ids_unique (srv_sfu t)"
    and wf: "dm_wf (srv_producer_owners s)"
    and prod: "handle_sfu_message w ts s peer identity negotiated (Produce m) = (t, Some (Produced room pid))"
  shows "(\<forall>rid q. pid \<notin> mp_id ` set (media_at (srv_sfu (disconnect_session ts' peer home t)) rid q))
   \<and> dm_get (srv_producer_owners (disconnect_session ts' peer home t)) pid = None"
proof -
  have h: "handle_produce s w peer identity m = (t, Some (Produced room pid))"
    using prod by (simp add: handle_sfu_message_def)
  then have own: "srv_producer_owners t = dm_insert pid (producer_owner_key s peer) (srv_producer_owners s)"
    using produce_result [OF h] by auto
  have same: "same_session_state t s" using handle_produce_sss [of s w peer identity m] h by simp
  have "doomed t peer pid"
    using own same_session_stateD(2) [OF same]
    by (cases "dm_get (srv_bindings s) peer")
      (simp_all add: doomed_def producer_owner_key_def device_id_of_def)
  moreover have "rooms_inv (srv_rooms t)" using rooms same_session_stateD(1) [OF same] by simp
  moreover have "dm_wf (srv_producer_owners t)" using own wf by simp
  ultimately show ?thesis
    using disconnect_session_complete [OF _ inv uniq, of _ ts' peer home, OF _ _ refl] by auto
qed

theorem stream_dies_with_session_witness:
  "dm_get (srv_producer_owners (disconnect_session ''t'' ''h'' ''car''
     (fst (handle_sfu_message demo_worker ''t'' demo_server ''h'' (Device ''car'') 3 (Produce demo_produce))))) ''p9'' = None"
proof -
  let ?h = "handle_sfu_message demo_worker ''t'' demo_server ''h'' (Device ''car'') 3 (Produce demo_produce)"
  have h: "?h = (fst ?h, Some (Produced ''car_front'' ''p9''))" using demo_produced by (metis prod.collapse)
  have sfu: "srv_sfu (fst ?h) = [(''car_front'', \<lparr>sfr_router = JNull,
          sfr_peers = [(''host'', new_peer\<lparr>sfp_send_transports := [''t1''],
            sfp_producers := [\<lparr>mp_id = ''p1'', mp_kind = MsVideo\<rparr>, \<lparr>mp_id = ''p9'', mp_kind = MsVideo\<rparr>],
            sfp_producer_transports := [(''p1'', ''t1''), (''p9'', ''t1'')]\<rparr>)],
          sfr_producer_labels = []\<rparr>)]" by code_simp
  have inv: "sfu_inv (srv_sfu (fst ?h))"
    unfolding sfu by (auto simp: sfu_inv_def sfu_wf_def peer_at_def peer_ok_def new_peer_def ran_def split: if_splits)
  have uniq: "ids_unique (srv_sfu (fst ?h))"
    unfolding sfu by (auto simp: ids_unique_def ids_at_def media_at_def data_at_def peer_at_def new_peer_def
        split: option.splits if_splits)
  show ?thesis
    by (rule stream_dies_with_session [OF demo_server_inv(1) inv uniq demo_server_unique(2) h, THEN conjunct2])
qed

text \<open>
  A report that a downstream sub-session is gone has an effect only for sessions bound to a
  device; from any other session it changes nothing. For a bound session it removes exactly the
  named peer from exactly the named room (the same peer id elsewhere keeps its streams), announces
  each media producer this closed on that room's channel and drops its ownership entry.
\<close>

theorem downstream_gone_precise:
  assumes h: "handle_sfu_message w ts s peer identity negotiated (DownstreamGone gone room) = (t, reply)"
  shows "reply = None
   \<and> (device_id_of s peer = None \<longrightarrow> t = s)
   \<and> (device_id_of s peer \<noteq> None \<longrightarrow>
        (\<forall>rid q. peer_at (srv_sfu t) rid q = (if rid = room \<and> q = gone then None else peer_at (srv_sfu s) rid q))
        \<and> (\<forall>x\<in>set (media_at (srv_sfu s) room gone). announced room gone (mp_id x) (protocol_kind (mp_kind x)) t)
        \<and> (\<forall>i. dm_get (srv_producer_owners t) i =
             (if i \<in> mp_id ` set (media_at (srv_sfu s) room gone) then None else dm_get (srv_producer_owners s) i)))"
proof (cases "device_id_of s peer")
  case None
  then show ?thesis using h by (simp add: handle_sfu_message_def handle_downstream_gone_def)
next
  case (Some device)
  obtain sfu' closed where rm: "remove_peer_in_room (srv_sfu s) room gone = (sfu', closed)" by force
  let ?s1 = "s\<lparr>srv_t4_gone_seen := dm_insert device (unwrap_or (dm_get (srv_t4_gone_seen s) device) 0 + 1) (srv_t4_gone_seen s),
      srv_sfu := sfu'\<rparr>"
  have t: "t = (if closed = [] then ?s1 else announce_producers_closed ts room gone (Some device) closed ?s1)"
    and reply: "reply = None"
    using h Some rm by (auto simp: handle_sfu_message_def handle_downstream_gone_def Let_def)
  have at: "peer_at sfu' rid q = (if rid = room \<and> q = gone then None else peer_at (srv_sfu s) rid q)" for rid q
    using peer_at_remove_in_room [of "srv_sfu s" room gone rid q] rm by simp
  have closed: "closed = map (\<lambda>x. (mp_id x, protocol_kind (mp_kind x))) (media_at (srv_sfu s) room gone)"
    using rm by (auto simp: remove_peer_in_room_def media_at_def peer_at_def closed_producers_def split: option.splits)
  have "announced room gone (mp_id x) (protocol_kind (mp_kind x)) t" if "x \<in> set (media_at (srv_sfu s) room gone)" for x
    using that announce_broadcasts [of "mp_id x" "protocol_kind (mp_kind x)" closed room gone ?s1 ts "Some device"]
    by (auto simp: t closed announced_def)
  moreover have "dm_get (srv_producer_owners t) i =
      (if i \<in> mp_id ` set (media_at (srv_sfu s) room gone) then None else dm_get (srv_producer_owners s) i)" for i
    by (auto simp: t closed announce_owners image_image)
  moreover have "srv_sfu t = sfu'" by (simp add: t frame_simps)
  ultimately show ?thesis using reply Some at by simp
qed

theorem downstream_gone_precise_witness:
  "announced ''car_front'' ''host'' ''p1'' Video
     (fst (handle_sfu_message demo_worker ''t'' demo_server ''h'' (Device ''car'') 3 (DownstreamGone ''host'' ''car_front'')))"
proof -
  let ?h = "handle_sfu_message demo_worker ''t'' demo_server ''h'' (Device ''car'') 3 (DownstreamGone ''host'' ''car_front'')"
  have "?h = (fst ?h, snd ?h)" by simp
  note all = downstream_gone_precise [OF this]
  have "device_id_of demo_server ''h'' \<noteq> None" by (simp add: device_id_of_def demo_server_def)
  moreover have "\<lparr>mp_id = ''p1'', mp_kind = MsVideo\<rparr> \<in> set (media_at (srv_sfu demo_server) ''car_front'' ''host'')"
    by (simp add: media_at_def peer_at_def demo_server_def)
  ultimately show ?thesis using all by force
qed

text \<open>
  The gate on \<open>DownstreamGone\<close> asks for a device, not for the device that owns the room: here the
  session of the vehicle \<open>bus\<close> closes the stream of the vehicle \<open>car\<close>.
\<close>

lemma downstream_gone_cross_vehicle:
  "media_at (srv_sfu (fst (handle_sfu_message demo_worker ''t'' (demo_server\<lparr>srv_bindings := [(''h'', ''car''), (''b'', ''bus'')]\<rparr>)
     ''b'' (Device ''bus'') 3 (DownstreamGone ''host'' ''car_front'')))) ''car_front'' ''host'' = []"
  by code_simp

end
