(* ===== verification/Handshake.thy ===== *)
theory Handshake
  imports SfuMessages
begin

text \<open>
  The first two phases of a signaling connection, \<open>ws_handler\<close> and \<open>handle_socket\<close> of
  \<open>mediaservo-server/src/signaling.rs\<close>: authentication of the connection (JWT or pre-shared key)
  and the loop that waits for a \<open>RoomJoin\<close>, with the challenge of devices that join with a public
  key. Each definition handles one thing the connection waits for; what happens after the loop is
  in \<open>Admission\<close>. Waiting with a deadline that passes is the event \<open>TimedOut\<close>.
\<close>

section \<open>The outside of a connection\<close>

text \<open>
  The libraries the code calls: HMAC-SHA256, JWT verification (\<open>None\<close> when no secret is
  configured; a verification error is \<open>None\<close> of the inner option), the JSON reader and printer of
  messages, the test that a text is a JSON object with type \<open>frame\<close>, and the YAML printer of the
  device file.
\<close>

record conn_env =
  en_crypto :: crypto
  en_hmac :: "u8 list \<Rightarrow> u8 list \<Rightarrow> u8 list"
  en_jwt :: "(string \<Rightarrow> jwt_claims option) option"
  en_parse :: "string \<Rightarrow> signaling_message option"
  en_print :: "signaling_message \<Rightarrow> string"
  en_raw_frame :: "string \<Rightarrow> bool"
  en_yaml :: "(string, device_entry) dmap \<Rightarrow> string"
  en_devices_path :: string
  en_version :: string

text \<open>What a step reads from clocks, the random generator and the sockets.\<close>

record fresh =
  fr_uuid :: string
  fr_uuid2 :: string
  fr_nonce :: string
  fr_ticket :: string
  fr_since :: string
  fr_now :: nat
  fr_now_ms :: u64
  fr_ts :: string
  fr_fault :: io_fault
  fr_send_ok :: bool

datatype ws_frame = TextFrame string | CloseFrame | PingFrame | PongFrame | BinaryFrame

datatype conn_event = Received ws_frame | RecvError | StreamEnd | TimedOut | HeartbeatDead

record pending_auth =
  pa_nonce_b64 :: string
  pa_device_id :: string
  pa_room_id :: string
  pa_peer_role :: peer_role
  pa_offered_vk :: "string option"

definition MAX_DEFERRED_AUTH_MSGS :: nat where "MAX_DEFERRED_AUTH_MSGS = 16"

record session =
  se_room :: string
  se_role :: peer_role
  se_device :: "string option"
  se_identity :: session_identity
  se_negotiated :: u32

datatype phase =
    AwaitPsk string \<comment> \<open>the key in force when the connection was opened\<close>
  | AwaitJoin
  | AwaitAnswer pending_auth
  | InSession session
  | Closed

record conn =
  cn_peer_id :: string
  cn_account :: "account_identity option"
  cn_claim :: "u32 option"
  cn_resume_claim :: "string option"
  cn_deferred :: "signaling_message list"
  cn_phase :: phase
  cn_sent :: "payload list"

definition send_direct :: "signaling_message \<Rightarrow> conn \<Rightarrow> conn" where
  "send_direct m c = c\<lparr>cn_sent := cn_sent c @ [PMsg m]\<rparr>"

text \<open>Every way out of \<open>handle_socket\<close> drops the connection counter's guard.\<close>

definition finish :: "server \<Rightarrow> conn \<Rightarrow> server \<times> conn" where
  "finish srv c = (srv\<lparr>srv_active_connections := srv_active_connections srv - 1\<rparr>, c\<lparr>cn_phase := Closed\<rparr>)"

definition fail_with :: "u16 \<Rightarrow> string \<Rightarrow> server \<Rightarrow> conn \<Rightarrow> server \<times> conn" where
  "fail_with code text srv c = finish srv (send_direct (Error code text) c)"

section \<open>Authentication of the connection\<close>

text \<open>
  \<open>HeaderValue::to_str\<close> admits visible ASCII, the space and the tab, so \<open>trim\<close> removes spaces and
  tabs.
\<close>

definition header_text :: "string \<Rightarrow> bool" where
  "header_text s = list_all (\<lambda>ch. let n = of_char ch :: nat in n = 9 \<or> 32 \<le> n \<and> n < 127) s"

definition trim_header :: "string \<Rightarrow> string" where
  "trim_header s =
     (let ws = (\<lambda>ch. of_char ch \<in> {9, 32 :: nat}) in rev (dropWhile ws (rev (dropWhile ws s))))"

definition extract_token :: "string option \<Rightarrow> string option" where
  "extract_token header =
     (case header of
        None \<Rightarrow> None
      | Some v \<Rightarrow>
          if \<not> header_text v then None
          else (let s = unwrap_or (strip_prefix (trim_header v) ''Bearer '') (trim_header v)
                in if s = [] then None else Some s))"

definition psk_sign :: "(u8 list \<Rightarrow> u8 list \<Rightarrow> u8 list) \<Rightarrow> string \<Rightarrow> string \<Rightarrow> u8 list" where
  "psk_sign hmac psk challenge = take 8 (hmac (bytes_of psk) (bytes_of challenge))"

text \<open>The head of the join loop: a requested shutdown ends the connection.\<close>

definition join_wait :: "server \<Rightarrow> conn \<Rightarrow> server \<times> conn" where
  "join_wait srv c = (if srv_shutdown srv then finish srv c else (srv, c))"

definition auth_ack :: "server \<Rightarrow> conn \<Rightarrow> server \<times> conn" where
  "auth_ack srv c = join_wait srv (send_direct (Error 0 ''authenticated'') (c\<lparr>cn_phase := AwaitJoin\<rparr>))"

definition new_conn :: "string \<Rightarrow> conn" where
  "new_conn uuid = \<lparr>cn_peer_id = uuid, cn_account = None, cn_claim = None, cn_resume_claim = None,
     cn_deferred = [], cn_phase = Closed, cn_sent = []\<rparr>"

definition role_unknown_reason :: "string \<Rightarrow> string" where
  "role_unknown_reason role_str = ''token role '' @ debug_str role_str @ '' not recognized''"

text \<open>The verified claims of a presented token.\<close>

definition jwt_accepted :: "fresh \<Rightarrow> jwt_claims \<Rightarrow> server \<Rightarrow> conn \<Rightarrow> server \<times> conn" where
  "jwt_accepted fr claims srv c =
     (case jc_role claims of
        None \<Rightarrow>
          auth_ack (audit_log (AuthSuccess (jc_sub claims) None) srv) (c\<lparr>cn_peer_id := jc_sub claims\<rparr>)
      | Some role_str \<Rightarrow>
          (case role_parse role_str of
             None \<Rightarrow>
               fail_with 4011 (role_unknown_reason role_str)
                 (audit_log (AuthFailure (cn_peer_id c) (role_unknown_reason role_str)) srv) c
           | Some role \<Rightarrow>
               let peer = jc_sub claims @ ''-'' @ take 8 (fr_uuid2 fr)
               in auth_ack (audit_log (AuthSuccess peer None) srv)
                    (c\<lparr>cn_peer_id := peer,
                       cn_account := Some \<lparr>ai_username = jc_sub claims, ai_role = role,
                                           ai_vehicles = unwrap_or (jc_vehicles claims) []\<rparr>\<rparr>)))"

text \<open>Opening a connection.\<close>

definition open_conn :: "conn_env \<Rightarrow> fresh \<Rightarrow> string option \<Rightarrow> server \<Rightarrow> server \<times> conn" where
  "open_conn env fr token srv0 =
     (let srv = srv0\<lparr>srv_active_connections := srv_active_connections srv0 + 1\<rparr>;
          c = new_conn (fr_uuid fr)
      in case (en_jwt env, token) of
           (Some verify_jwt, Some tok) \<Rightarrow>
             (case verify_jwt tok of
                Some claims \<Rightarrow> jwt_accepted fr claims srv c
              | None \<Rightarrow>
                  fail_with 4013 ''JWT invalid or expired''
                    (audit_log (AuthFailure (cn_peer_id c) ''jwt presented but verification failed'') srv) c)
         | _ \<Rightarrow>
             (case srv_psk srv of
                None \<Rightarrow> auth_ack srv c
              | Some psk \<Rightarrow> (srv, c\<lparr>cn_phase := AwaitPsk psk\<rparr>)))"

definition psk_ok :: "conn_env \<Rightarrow> string \<Rightarrow> string \<Rightarrow> string \<Rightarrow> bool" where
  "psk_ok env psk peer text =
     (psk_sign (en_hmac env) psk peer = psk_sign (en_hmac env) psk text \<or> text = psk)"

definition psk_event :: "conn_env \<Rightarrow> string \<Rightarrow> conn_event \<Rightarrow> server \<Rightarrow> conn \<Rightarrow> server \<times> conn" where
  "psk_event env psk ev srv c =
     (case ev of
        TimedOut \<Rightarrow> finish srv c
      | Received (TextFrame text) \<Rightarrow>
          if psk_ok env psk (cn_peer_id c) text
          then auth_ack (audit_log (AuthSuccess (cn_peer_id c) None) srv) c
          else fail_with 4003 ''PSK authentication failed''
                 (audit_log (AuthFailure (cn_peer_id c) ''PSK authentication failed'') srv) c
      | _ \<Rightarrow>
          fail_with 4003 ''Authentication required''
            (audit_log (AuthFailure (cn_peer_id c) ''Authentication required'') srv) c)"

section \<open>The join loop\<close>

text \<open>
  A round of the loop leaves it with the room, the role, the device and the identity of the
  session (\<open>Admit\<close>), or does not.
\<close>

datatype verdict = Stay | Admit string peer_role "string option" session_identity

type_synonym join_state = "fs \<times> server \<times> conn \<times> verdict"

definition stay :: "fs \<Rightarrow> server \<times> conn \<Rightarrow> join_state" where
  "stay files r = (files, fst r, snd r, Stay)"

fun debug_auth_error :: "device_auth_error \<Rightarrow> string" where
  "debug_auth_error Incomplete = ''Incomplete''"
| "debug_auth_error UnknownDevice = ''Unknown''"
| "debug_auth_error BadSecret = ''BadSecret''"

definition version_detail :: "u32 option \<Rightarrow> string" where
  "version_detail claim =
     ''protocol_version_unsupported: claim ''
     @ (case claim of None \<Rightarrow> ''None'' | Some v \<Rightarrow> ''Some('' @ show_nat (unat v) @ '')'')
     @ '' below min '' @ show_nat (unat SIGNALING_PROTOCOL_MIN_SUPPORTED)"

definition secret_form_reason :: "string \<Rightarrow> string" where
  "secret_form_reason did = ''pubkey join on secret-form device '' @ did @ '' (migrate via web re-enroll)''"

definition auth_failed_reason :: "string option \<Rightarrow> device_auth_error \<Rightarrow> string" where
  "auth_failed_reason device_id e =
     ''device auth failed (device='' @ debug_opt device_id @ ''): '' @ debug_auth_error e"

definition verify_failed_reason :: "string \<Rightarrow> string" where
  "verify_failed_reason did = ''device pubkey verify failed (device='' @ did @ '')''"

definition challenge_timeout_reason :: "string \<Rightarrow> string" where
  "challenge_timeout_reason did = ''device auth challenge timeout (device='' @ did @ '')''"

text \<open>A join with a public key: always a challenge first, unless the device has a secret.\<close>

definition join_pubkey :: "fresh \<Rightarrow> room_join \<Rightarrow> server \<Rightarrow> conn \<Rightarrow> server \<times> conn" where
  "join_pubkey fr m srv c =
     (if rj_device_secret m \<noteq> None
      then fail_with 4000 ''device credentials: exactly one of device_secret / device_pubkey'' srv c
      else (case rj_device_id m of
        None \<Rightarrow> fail_with 4000 ''device_id is required with device_pubkey'' srv c
      | Some did \<Rightarrow>
          (case entry_of (srv_devices srv) did of
             Some (Secret h) \<Rightarrow>
               fail_with 4010 (device_auth_message BadSecret)
                 (audit_log (AuthFailure (cn_peer_id c) (secret_form_reason did)) srv) c
           | e \<Rightarrow>
               if \<not> fr_send_ok fr then finish srv (send_direct (DeviceAuthChallenge (fr_nonce fr)) c)
               else
                 join_wait srv
                   ((send_direct (DeviceAuthChallenge (fr_nonce fr)) c)\<lparr>cn_phase := AwaitAnswer
                      \<lparr>pa_nonce_b64 = fr_nonce fr, pa_device_id = did, pa_room_id = rj_room_id m,
                       pa_peer_role = rj_peer_role m,
                       pa_offered_vk = (case e of Some (PublicKey vk nm) \<Rightarrow> None | _ \<Rightarrow> rj_device_pubkey m)\<rparr>\<rparr>))))"

definition handle_room_join :: "conn_env \<Rightarrow> fresh \<Rightarrow> room_join \<Rightarrow> fs \<Rightarrow> server \<Rightarrow> conn \<Rightarrow> join_state" where
  "handle_room_join env fr m files srv c0 =
     (let c = c0\<lparr>cn_claim := rj_protocol m, cn_resume_claim := rj_resume m\<rparr>
      in if unwrap_or (rj_protocol m) 1 < SIGNALING_PROTOCOL_MIN_SUPPORTED
         then stay files (fail_with 4101 (version_detail (rj_protocol m)) srv c)
         else if rj_device_pubkey m \<noteq> None then stay files (join_pubkey fr m srv c)
         else (case authenticate (en_crypto env) (srv_devices srv) (rj_device_id m) (rj_device_secret m) of
             None \<Rightarrow>
               (files, srv, c, Admit (rj_room_id m) (rj_peer_role m) None
                  (case cn_account c of Some a \<Rightarrow> Account a | None \<Rightarrow> Legacy))
           | Some (Inl e) \<Rightarrow>
               stay files (fail_with 4010 (device_auth_message e)
                 (audit_log (AuthFailure (cn_peer_id c) (auth_failed_reason (rj_device_id m) e)) srv) c)
           | Some (Inr _) \<Rightarrow>
               let device = unwrap_or (rj_device_id m) []
               in (files, audit_log (AuthSuccess (cn_peer_id c) (Some device)) srv, c,
                   Admit (rj_room_id m) (rj_peer_role m) (Some device) (Device device))))"

text \<open>The loop without a challenge in flight.\<close>

definition join_event :: "conn_env \<Rightarrow> fresh \<Rightarrow> conn_event \<Rightarrow> fs \<Rightarrow> server \<Rightarrow> conn \<Rightarrow> join_state" where
  "join_event env fr ev files srv c =
     (case ev of
        Received (TextFrame text) \<Rightarrow>
          (case en_parse env text of
             Some (RoomJoin m) \<Rightarrow> handle_room_join env fr m files srv c
           | _ \<Rightarrow> stay files (join_wait srv c))
      | Received CloseFrame \<Rightarrow> stay files (finish srv c)
      | Received _ \<Rightarrow> stay files (join_wait srv c)
      | RecvError \<Rightarrow> stay files (join_wait srv c)
      | StreamEnd \<Rightarrow> stay files (finish srv c)
      | TimedOut \<Rightarrow> stay files (finish srv c)
      | HeartbeatDead \<Rightarrow> stay files (srv, c))"

text \<open>
  The answer of a challenged device. The nonce is used up before the signature is looked at. A
  registered key wins over the reported one; an unknown device that proved possession of its key
  is enrolled or put on the pending list, as the policy says.
\<close>

definition check_key :: "server \<Rightarrow> pending_auth \<Rightarrow> string option" where
  "check_key srv pa =
     (case entry_of (srv_devices srv) (pa_device_id pa) of
        Some (PublicKey vk nm) \<Rightarrow> Some vk | _ \<Rightarrow> pa_offered_vk pa)"

definition answer_verified :: "conn_env \<Rightarrow> server \<Rightarrow> pending_auth \<Rightarrow> string \<Rightarrow> bool" where
  "answer_verified env srv pa sig =
     (case check_key srv pa of
        Some vk \<Rightarrow>
          verify_signature (en_crypto env) vk (pa_nonce_b64 pa) (pa_device_id pa) (pa_room_id pa) sig = Inr ()
      | None \<Rightarrow> False)"

definition admit_answer :: "pending_auth \<Rightarrow> verdict" where
  "admit_answer pa =
     Admit (pa_room_id pa) (pa_peer_role pa) (Some (pa_device_id pa)) (Device (pa_device_id pa))"

definition enroll_policy ::
  "conn_env \<Rightarrow> fresh \<Rightarrow> pending_auth \<Rightarrow> string \<Rightarrow> fs \<Rightarrow> server \<Rightarrow> conn \<Rightarrow> join_state" where
  "enroll_policy env fr pa vk files srv c =
     (if srv_allow_dev_enroll srv then
        (case enroll_auto (en_crypto env) (srv_devices srv) (pa_device_id pa) vk None of
           Inr reg \<Rightarrow>
             let (files', _) = registry_save (en_yaml env) reg files (en_devices_path env) (fr_fault fr)
             in (files',
                 srv\<lparr>srv_devices := reg,
                     srv_pending_devices := fst (pending_remove (srv_pending_devices srv) (pa_device_id pa))\<rparr>,
                 c, admit_answer pa)
         | Inl DuplicateDevice \<Rightarrow>
             if (case entry_of (srv_devices srv) (pa_device_id pa) of
                   Some (PublicKey reg nm) \<Rightarrow> reg = vk | _ \<Rightarrow> False)
             then (files, srv, c, admit_answer pa)
             else stay files (fail_with 4010 (device_auth_message BadSecret) srv c)
         | Inl _ \<Rightarrow> stay files (fail_with 4010 (device_auth_message BadSecret) srv c))
      else
        stay files
          (finish (srv\<lparr>srv_pending_devices :=
                     pending_insert (fr_now_ms fr) (srv_pending_devices srv) (pa_device_id pa) vk True\<rparr>)
             (send_direct (DeviceAuthPending (pa_device_id pa)) c)))"

definition handle_answer ::
  "conn_env \<Rightarrow> fresh \<Rightarrow> pending_auth \<Rightarrow> string \<Rightarrow> fs \<Rightarrow> server \<Rightarrow> conn \<Rightarrow> join_state" where
  "handle_answer env fr pa sig files srv c0 =
     (let c = c0\<lparr>cn_phase := AwaitJoin\<rparr>
      in if \<not> answer_verified env srv pa sig
         then stay files (fail_with 4010 (device_auth_message BadSecret)
                (audit_log (AuthFailure (cn_peer_id c) (verify_failed_reason (pa_device_id pa))) srv) c)
         else
           let srv1 = audit_log (AuthSuccess (cn_peer_id c) (Some (pa_device_id pa))) srv
           in (case pa_offered_vk pa of
                 Some vk \<Rightarrow> enroll_policy env fr pa vk files srv1 c
               | None \<Rightarrow> (files, srv1, c, admit_answer pa)))"

text \<open>The loop with a challenge in flight.\<close>

definition answer_event ::
  "conn_env \<Rightarrow> fresh \<Rightarrow> pending_auth \<Rightarrow> conn_event \<Rightarrow> fs \<Rightarrow> server \<Rightarrow> conn \<Rightarrow> join_state" where
  "answer_event env fr pa ev files srv c =
     (case ev of
        Received (TextFrame text) \<Rightarrow>
          (case en_parse env text of
             Some (DeviceAuthResponse room sig) \<Rightarrow> handle_answer env fr pa sig files srv c
           | Some other \<Rightarrow>
               if length (cn_deferred c) \<ge> MAX_DEFERRED_AUTH_MSGS then stay files (finish srv c)
               else stay files (join_wait srv (c\<lparr>cn_deferred := cn_deferred c @ [other]\<rparr>))
           | None \<Rightarrow> stay files (join_wait srv c))
      | Received CloseFrame \<Rightarrow> stay files (finish srv c)
      | Received _ \<Rightarrow> stay files (join_wait srv c)
      | RecvError \<Rightarrow> stay files (join_wait srv c)
      | StreamEnd \<Rightarrow> stay files (finish srv c)
      | TimedOut \<Rightarrow>
          stay files (fail_with 4010 (device_auth_message BadSecret)
            (audit_log (AuthFailure (cn_peer_id c) (challenge_timeout_reason (pa_device_id pa))) srv) c)
      | HeartbeatDead \<Rightarrow> stay files (srv, c))"

section \<open>Who gets past the authentication\<close>

lemmas handshake_defs = open_conn_def jwt_accepted_def auth_ack_def join_wait_def finish_def fail_with_def
  send_direct_def new_conn_def

text \<open>The identity a verified token stands for.\<close>

definition token_ok :: "jwt_claims \<Rightarrow> bool" where
  "token_ok claims = (case jc_role claims of None \<Rightarrow> True | Some r \<Rightarrow> role_parse r \<noteq> None)"

lemma jwt_accepted_phase:
  assumes "\<not> srv_shutdown srv"
  shows "cn_phase (snd (jwt_accepted fr claims srv c)) = (if token_ok claims then AwaitJoin else Closed)"
  using assms
  by (auto simp: jwt_accepted_def auth_ack_def join_wait_def finish_def fail_with_def send_direct_def
      token_ok_def frame_simps Let_def split: option.splits)

lemma jwt_accepted_account:
  "cn_account c = None \<Longrightarrow>
     cn_account (snd (jwt_accepted fr claims srv c)) =
       (case jc_role claims of None \<Rightarrow> None
        | Some r \<Rightarrow> map_option (\<lambda>role. \<lparr>ai_username = jc_sub claims, ai_role = role,
                        ai_vehicles = unwrap_or (jc_vehicles claims) []\<rparr>) (role_parse r))"
  by (auto simp: jwt_accepted_def auth_ack_def join_wait_def finish_def fail_with_def send_direct_def
      Let_def split: option.splits)

text \<open>The connections that may send a \<open>RoomJoin\<close> right after they opened.\<close>

definition opens_authenticated :: "conn_env \<Rightarrow> string option \<Rightarrow> server \<Rightarrow> bool" where
  "opens_authenticated env token srv =
     (case (en_jwt env, token) of
        (Some verify_jwt, Some tok) \<Rightarrow>
          (case verify_jwt tok of Some claims \<Rightarrow> token_ok claims | None \<Rightarrow> False)
      | _ \<Rightarrow> srv_psk srv = None)"

text \<open>
  C16. Authentication of a connection. While the server is not shutting down, a connection reaches
  the join loop on opening exactly if it presented a token to a server that verifies tokens and
  the token verified with a known role or none, or else no pre-shared key is configured. It is
  asked for the pre-shared key only if no token was presented or tokens are not configured: a
  presented token that fails to verify, or names an unknown role, closes the connection and never
  falls back to the key. An account identity is taken from the verified claims alone.
\<close>

theorem connection_authentication:
  assumes "open_conn env fr token srv = (srv', c)" and "\<not> srv_shutdown srv"
  shows "(cn_phase c = AwaitJoin \<longleftrightarrow> opens_authenticated env token srv)
    \<and> (cn_phase c = AwaitPsk k \<longleftrightarrow> (en_jwt env = None \<or> token = None) \<and> srv_psk srv = Some k)
    \<and> (cn_phase c = Closed \<longleftrightarrow>
         (\<exists>v tok. en_jwt env = Some v \<and> token = Some tok \<and> \<not> opens_authenticated env token srv))
    \<and> (cn_account c = Some a \<longrightarrow>
         (\<exists>v tok claims r. en_jwt env = Some v \<and> token = Some tok \<and> v tok = Some claims
            \<and> jc_role claims = Some r \<and> role_parse r = Some (ai_role a)
            \<and> ai_username a = jc_sub claims \<and> ai_vehicles a = unwrap_or (jc_vehicles claims) []))
    \<and> srv_active_connections srv' + (if cn_phase c = Closed then 1 else 0)
        = srv_active_connections srv + 1"
proof -
  let ?s = "srv\<lparr>srv_active_connections := srv_active_connections srv + 1\<rparr>"
  show ?thesis
  proof (cases "\<exists>v tok. en_jwt env = Some v \<and> token = Some tok")
    case True
    then obtain v tok where j: "en_jwt env = Some v" "token = Some tok" by blast
    show ?thesis
    proof (cases "v tok")
      case None
      then show ?thesis using assms j
        by (auto simp: open_conn_def fail_with_def finish_def send_direct_def new_conn_def
            opens_authenticated_def frame_simps Let_def)
    next
      case (Some claims)
      have r: "(srv', c) = jwt_accepted fr claims ?s (new_conn (fr_uuid fr))"
        using assms(1) j Some by (simp add: open_conn_def Let_def)
      then have c: "c = snd (jwt_accepted fr claims ?s (new_conn (fr_uuid fr)))" by (metis snd_conv)
      have ph: "cn_phase c = (if token_ok claims then AwaitJoin else Closed)"
        unfolding c by (rule jwt_accepted_phase) (simp add: assms(2))
      have acc: "cn_account c = (case jc_role claims of None \<Rightarrow> None
        | Some r \<Rightarrow> map_option (\<lambda>role. \<lparr>ai_username = jc_sub claims, ai_role = role,
                        ai_vehicles = unwrap_or (jc_vehicles claims) []\<rparr>) (role_parse r))"
        unfolding c by (rule jwt_accepted_account) (simp add: new_conn_def)
      have act: "srv_active_connections srv' + (if cn_phase c = Closed then 1 else 0)
        = srv_active_connections srv + 1"
        using r assms(2) ph
        by (auto simp: jwt_accepted_def token_ok_def auth_ack_def join_wait_def fail_with_def finish_def
            send_direct_def frame_simps Let_def split: option.splits)
      show ?thesis using ph acc act j Some
        by (auto simp: opens_authenticated_def split: option.splits)
    qed
  next
    case False
    then have "open_conn env fr token srv = (case srv_psk srv of None \<Rightarrow> auth_ack ?s (new_conn (fr_uuid fr))
        | Some psk \<Rightarrow> (?s, (new_conn (fr_uuid fr))\<lparr>cn_phase := AwaitPsk psk\<rparr>))"
      by (auto simp: open_conn_def Let_def split: option.splits)
    moreover have "opens_authenticated env token srv \<longleftrightarrow> srv_psk srv = None"
      using False by (auto simp: opens_authenticated_def split: option.splits)
    ultimately show ?thesis using assms False
      by (auto simp: auth_ack_def join_wait_def send_direct_def new_conn_def split: option.splits)
  qed
qed

text \<open>An instance of the outside for the examples below.\<close>

definition demo_claims :: jwt_claims where
  "demo_claims = \<lparr>jc_sub = ''ann'', jc_iat = 0, jc_exp = 100, jc_role = Some ''viewer'',
     jc_vehicles = Some [''car'']\<rparr>"

definition demo_env :: conn_env where
  "demo_env = \<lparr>en_crypto = demo_crypto, en_hmac = (\<lambda>k m. k @ m),
     en_jwt = Some (\<lambda>tok. if tok = ''good'' then Some demo_claims else None),
     en_parse = (\<lambda>t. None), en_print = (\<lambda>m. []), en_raw_frame = (\<lambda>t. False),
     en_yaml = (\<lambda>m. ''devices''), en_devices_path = ''devices.yaml'', en_version = ''1''\<rparr>"

definition demo_fresh :: fresh where
  "demo_fresh = \<lparr>fr_uuid = ''uuid-1'', fr_uuid2 = ''12345678-9'', fr_nonce = replicate 32 (CHR ''n''),
     fr_ticket = ''ticket'',
     fr_since = ''now'', fr_now = 7, fr_now_ms = 7, fr_ts = ''ts'', fr_fault = NoFault, fr_send_ok = True\<rparr>"

theorem connection_authentication_witness:
  "cn_phase (snd (open_conn demo_env demo_fresh (Some ''good'') demo_server)) = AwaitJoin
   \<and> cn_phase (snd (open_conn demo_env demo_fresh (Some ''bad'') demo_server)) = Closed"
proof -
  have run: "\<not> srv_shutdown demo_server" by (simp add: demo_server_def server_new_def)
  have "opens_authenticated demo_env (Some ''good'') demo_server"
    "\<not> opens_authenticated demo_env (Some ''bad'') demo_server"
    by (simp_all add: opens_authenticated_def demo_env_def token_ok_def demo_claims_def role_parse_def)
  then show ?thesis
    using connection_authentication [OF surjective_pairing run, of demo_env demo_fresh "Some ''good''"]
      connection_authentication [OF surjective_pairing run, of demo_env demo_fresh "Some ''bad''"]
    by (simp add: demo_env_def)
qed

lemma psk_event_phase:
  "\<not> srv_shutdown srv \<Longrightarrow> cn_phase (snd (psk_event env psk ev srv c)) =
     (case ev of Received (TextFrame text) \<Rightarrow> if psk_ok env psk (cn_peer_id c) text then AwaitJoin else Closed
      | _ \<Rightarrow> Closed)"
  by (auto simp: psk_event_def auth_ack_def join_wait_def finish_def fail_with_def send_direct_def frame_simps
      split: conn_event.splits ws_frame.splits)

text \<open>
  The key check compares two tags computed here, so the frame that passes besides the key itself
  is the peer id; the tag of the peer id, which the comment on \<open>SimplePskAuth\<close> describes as the
  answer, is refused whenever the MAC tells it from the peer id.
\<close>

lemma psk_ok_peer_id: "psk_ok env psk peer peer" "psk_ok env psk peer psk"
  by (simp_all add: psk_ok_def)

lemma psk_ok_only:
  assumes "\<And>s t. psk_sign (en_hmac env) psk s = psk_sign (en_hmac env) psk t \<Longrightarrow> s = t"
  shows "psk_ok env psk peer text \<longleftrightarrow> text = peer \<or> text = psk"
  using assms by (auto simp: psk_ok_def)

section \<open>The device challenge\<close>

lemma stay_verdict [simp]: "stay files r = (files', srv', c', v) \<longleftrightarrow> files' = files \<and> r = (srv', c') \<and> v = Stay"
  by (cases r) (auto simp: stay_def)

lemma finish_facts [simp]:
  "cn_phase (snd (finish srv c)) = Closed" "srv_devices (fst (finish srv c)) = srv_devices srv"
  "srv_pending_devices (fst (finish srv c)) = srv_pending_devices srv"
  "cn_deferred (snd (finish srv c)) = cn_deferred c"
  by (simp_all add: finish_def)

lemma fail_with_facts [simp]:
  "cn_phase (snd (fail_with k t srv c)) = Closed" "srv_devices (fst (fail_with k t srv c)) = srv_devices srv"
  "srv_pending_devices (fst (fail_with k t srv c)) = srv_pending_devices srv"
  "cn_deferred (snd (fail_with k t srv c)) = cn_deferred c"
  by (simp_all add: fail_with_def send_direct_def)

lemma join_wait_facts [simp]:
  "srv_devices (fst (join_wait srv c)) = srv_devices srv"
  "srv_pending_devices (fst (join_wait srv c)) = srv_pending_devices srv"
  "cn_deferred (snd (join_wait srv c)) = cn_deferred c"
  "cn_phase (snd (join_wait srv c)) = (if srv_shutdown srv then Closed else cn_phase c)"
  by (simp_all add: join_wait_def)

text \<open>The answer that the server accepts, and the entry the device has afterwards.\<close>

lemma enroll_policy_admits:
  assumes "enroll_policy env fr pa vk files srv c = (files', srv', c', Admit r role dv i)"
  shows "srv_allow_dev_enroll srv \<and> Admit r role dv i = admit_answer pa \<and> c' = c
    \<and> (\<exists>nm. entry_of (srv_devices srv') (pa_device_id pa) = Some (PublicKey vk nm))
    \<and> (\<forall>d. d \<noteq> pa_device_id pa \<longrightarrow> entry_of (srv_devices srv') d = entry_of (srv_devices srv) d)"
  using assms
  by (auto simp: enroll_policy_def enroll_auto_def entry_of_def admit_answer_def
      split: if_splits sum.splits option.splits entry.splits prod.splits device_reg_error.splits)

lemma handle_answer_admits:
  assumes "handle_answer env fr pa sig files srv c = (files', srv', c', Admit r role dv i)"
  shows "Admit r role dv i = admit_answer pa
    \<and> (\<exists>vk nm. entry_of (srv_devices srv') (pa_device_id pa) = Some (PublicKey vk nm)
         \<and> verify_signature (en_crypto env) vk (pa_nonce_b64 pa) (pa_device_id pa) (pa_room_id pa) sig = Inr ())"
proof -
  have ver: "answer_verified env srv pa sig"
    using assms by (auto simp: handle_answer_def Let_def split: if_splits)
  let ?s = "audit_log (AuthSuccess (cn_peer_id (c\<lparr>cn_phase := AwaitJoin\<rparr>)) (Some (pa_device_id pa))) srv"
  show ?thesis
  proof (cases "pa_offered_vk pa")
    case None
    then show ?thesis using assms ver
      by (auto simp: handle_answer_def answer_verified_def check_key_def frame_simps Let_def
          split: option.splits entry.splits)
  next
    case (Some vk)
    then have e: "enroll_policy env fr pa vk files ?s (c\<lparr>cn_phase := AwaitJoin\<rparr>) = (files', srv', c', Admit r role dv i)"
      using assms ver by (simp add: handle_answer_def Let_def)
    note a = enroll_policy_admits [OF e]
    then obtain nm where reg: "entry_of (srv_devices srv') (pa_device_id pa) = Some (PublicKey vk nm)" by blast
    have "check_key srv pa = Some vk"
    proof (cases "entry_of (srv_devices srv) (pa_device_id pa)")
      case None
      then show ?thesis using Some by (simp add: check_key_def)
    next
      case (Some e')
      then have "srv_devices srv' = srv_devices srv" using e
        by (auto simp: enroll_policy_def enroll_auto_def dm_contains_def entry_of_def frame_simps
            split: if_splits sum.splits option.splits entry.splits)
      then show ?thesis using reg by (simp add: check_key_def)
    qed
    then show ?thesis using a reg ver by (auto simp: answer_verified_def)
  qed
qed

lemma enroll_policy_state:
  assumes "enroll_policy env fr pa vk files srv c = (files', srv', c', v)"
  shows "cn_deferred c' = cn_deferred c \<and> (v = Stay \<longrightarrow> cn_phase c' = Closed) \<and> (v \<noteq> Stay \<longrightarrow> c' = c)
    \<and> (entry_of (srv_devices srv) d = Some e \<longrightarrow> entry_of (srv_devices srv') d = Some e)
    \<and> (d \<noteq> pa_device_id pa \<longrightarrow> entry_of (srv_devices srv') d = entry_of (srv_devices srv) d)"
proof -
  have closed: "stay files (fail_with k t srv c) = (files', srv', c', v) \<Longrightarrow>
      cn_deferred c' = cn_deferred c \<and> v = Stay \<and> cn_phase c' = Closed \<and> srv_devices srv' = srv_devices srv" for k t
    using fail_with_facts [of k t srv c] by (auto simp del: fail_with_facts)
  show ?thesis
  proof (cases "srv_allow_dev_enroll srv")
    case True
    show ?thesis
    proof (cases "enroll_auto (en_crypto env) (srv_devices srv) (pa_device_id pa) vk None")
      case (Inl x)
      then show ?thesis using assms True closed
        by (cases x) (auto simp: enroll_policy_def admit_answer_def split: if_splits)
    next
      case (Inr reg)
      then have "\<not> dm_contains (dr_devices (srv_devices srv)) (pa_device_id pa)"
        "reg = (srv_devices srv)\<lparr>dr_devices := dm_insert (pa_device_id pa) (PublicKey vk None) (dr_devices (srv_devices srv))\<rparr>"
        by (auto simp: enroll_auto_def split: sum.splits if_splits)
      then show ?thesis using assms True Inr
        by (auto simp: enroll_policy_def admit_answer_def entry_of_def dm_contains_def split: prod.splits)
    qed
  next
    case False
    then show ?thesis using assms
      by (auto simp: enroll_policy_def finish_def send_direct_def)
  qed
qed

lemma handle_answer_state:
  assumes "handle_answer env fr pa sig files srv c = (files', srv', c', v)"
  shows "cn_deferred c' = cn_deferred c \<and> cn_phase c' \<in> {AwaitJoin, Closed} \<and> (v = Stay \<longrightarrow> cn_phase c' = Closed)
    \<and> (\<not> answer_verified env srv pa sig \<longrightarrow> v = Stay \<and> srv_devices srv' = srv_devices srv
         \<and> srv_pending_devices srv' = srv_pending_devices srv)
    \<and> (entry_of (srv_devices srv) d = Some e \<longrightarrow> entry_of (srv_devices srv') d = Some e)
    \<and> (d \<noteq> pa_device_id pa \<longrightarrow> entry_of (srv_devices srv') d = entry_of (srv_devices srv) d)"
proof (cases "answer_verified env srv pa sig")
  case True
  show ?thesis
  proof (cases "pa_offered_vk pa")
    case None
    then show ?thesis using assms True
      by (auto simp: handle_answer_def Let_def frame_simps admit_answer_def)
  next
    case (Some vk)
    have e: "enroll_policy env fr pa vk files
        (audit_log (AuthSuccess (cn_peer_id c) (Some (pa_device_id pa))) srv) (c\<lparr>cn_phase := AwaitJoin\<rparr>)
        = (files', srv', c', v)"
      using assms True Some by (simp add: handle_answer_def Let_def)
    show ?thesis using enroll_policy_state [OF e, of d e] True
      by (cases "v = Stay") (auto simp: frame_simps)
  qed
next
  case False
  have "(srv', c') = fail_with 4010 (device_auth_message BadSecret)
      (audit_log (AuthFailure (cn_peer_id c) (verify_failed_reason (pa_device_id pa))) srv) (c\<lparr>cn_phase := AwaitJoin\<rparr>)"
    "v = Stay"
    using assms False by (auto simp: handle_answer_def Let_def)
  then show ?thesis using False by (simp add: fail_with_def finish_def send_direct_def frame_simps)
qed

text \<open>An event that carries an accepted answer to the challenge.\<close>

definition answers :: "conn_env \<Rightarrow> server \<Rightarrow> pending_auth \<Rightarrow> conn_event \<Rightarrow> bool" where
  "answers env srv pa ev =
     (\<exists>text room sig. ev = Received (TextFrame text) \<and> en_parse env text = Some (DeviceAuthResponse room sig)
        \<and> answer_verified env srv pa sig)"

lemma answer_event_other:
  "en_parse env text = Some m \<Longrightarrow> (\<forall>r sig. m \<noteq> DeviceAuthResponse r sig) \<Longrightarrow>
     answer_event env fr pa (Received (TextFrame text)) files srv c =
       (if length (cn_deferred c) \<ge> MAX_DEFERRED_AUTH_MSGS then stay files (finish srv c)
        else stay files (join_wait srv (c\<lparr>cn_deferred := cn_deferred c @ [m]\<rparr>)))"
  by (cases m) (simp_all add: answer_event_def)

lemma answer_event_quiet:
  assumes "answer_event env fr pa ev files srv c = (files', srv', c', v)" and "cn_phase c = AwaitAnswer pa"
    and q: "\<And>text room sig. ev = Received (TextFrame text) \<Longrightarrow> en_parse env text \<noteq> Some (DeviceAuthResponse room sig)"
  shows "v = Stay \<and> srv_devices srv' = srv_devices srv \<and> srv_pending_devices srv' = srv_pending_devices srv
    \<and> cn_phase c' \<in> {AwaitAnswer pa, Closed} \<and> length (cn_deferred c') \<le> max (length (cn_deferred c)) MAX_DEFERRED_AUTH_MSGS"
proof (cases "\<exists>text m. ev = Received (TextFrame text) \<and> en_parse env text = Some m")
  case True
  then obtain tx m where m: "ev = Received (TextFrame tx)" "en_parse env tx = Some m" by blast
  have "answer_event env fr pa ev files srv c =
       (if length (cn_deferred c) \<ge> MAX_DEFERRED_AUTH_MSGS then stay files (finish srv c)
        else stay files (join_wait srv (c\<lparr>cn_deferred := cn_deferred c @ [m]\<rparr>)))"
    unfolding m(1) by (rule answer_event_other [OF m(2)]) (use q [OF m(1)] m(2) in auto)
  then show ?thesis using assms(1,2)
    by (auto simp: finish_def join_wait_def stay_def split: if_splits)
next
  case False
  then show ?thesis using assms(1,2)
    by (cases ev; cases "case ev of Received f \<Rightarrow> f | _ \<Rightarrow> CloseFrame")
      (auto simp: answer_event_def finish_def fail_with_def send_direct_def join_wait_def frame_simps split: if_splits)
qed

text \<open>
  C15. The device challenge. While a challenge is in flight, the loop is left only as the
  challenged device, into the room and role of its join, and only by an answer whose signature of
  this connection's nonce, the device id and the room verifies under a key; after that the device
  is registered with exactly this key, in automatic enrolment too. The nonce answers once: any
  answer ends the challenge. An answer that does not verify, and every other event, changes neither
  the registry nor the pending table; no answer replaces or removes an entry of the registry, or
  touches another device. At most sixteen messages wait for the end of the challenge.
\<close>

theorem device_challenge_sound:
  assumes "answer_event env fr pa ev files srv c = (files', srv', c', v)" and "cn_phase c = AwaitAnswer pa"
  shows "(v = Stay \<or> v = admit_answer pa \<and>
          (\<exists>text room sig vk nm. ev = Received (TextFrame text) \<and> en_parse env text = Some (DeviceAuthResponse room sig)
             \<and> entry_of (srv_devices srv') (pa_device_id pa) = Some (PublicKey vk nm)
             \<and> verify_signature (en_crypto env) vk (pa_nonce_b64 pa) (pa_device_id pa) (pa_room_id pa) sig = Inr ()))
    \<and> (ev = Received (TextFrame text) \<and> en_parse env text = Some (DeviceAuthResponse room sig) \<longrightarrow>
         cn_phase c' \<noteq> AwaitAnswer pa)
    \<and> (\<not> answers env srv pa ev \<longrightarrow> v = Stay \<and> srv_devices srv' = srv_devices srv
         \<and> srv_pending_devices srv' = srv_pending_devices srv)
    \<and> (entry_of (srv_devices srv) d = Some e \<longrightarrow> entry_of (srv_devices srv') d = Some e)
    \<and> (d \<noteq> pa_device_id pa \<longrightarrow> entry_of (srv_devices srv') d = entry_of (srv_devices srv) d)
    \<and> (length (cn_deferred c) \<le> MAX_DEFERRED_AUTH_MSGS \<longrightarrow> length (cn_deferred c') \<le> MAX_DEFERRED_AUTH_MSGS)"
proof (cases "\<exists>text room sig. ev = Received (TextFrame text) \<and> en_parse env text = Some (DeviceAuthResponse room sig)")
  case True
  then obtain text' room' sig' where m: "ev = Received (TextFrame text')" "en_parse env text' = Some (DeviceAuthResponse room' sig')"
    by blast
  have h: "handle_answer env fr pa sig' files srv c = (files', srv', c', v)"
    using assms(1) m by (simp add: answer_event_def)
  have adm: "v = admit_answer pa \<and> (\<exists>vk nm. entry_of (srv_devices srv') (pa_device_id pa) = Some (PublicKey vk nm)
      \<and> verify_signature (en_crypto env) vk (pa_nonce_b64 pa) (pa_device_id pa) (pa_room_id pa) sig' = Inr ())"
    if "v \<noteq> Stay"
    using that h handle_answer_admits by (cases v) blast+
  have "answers env srv pa ev \<longleftrightarrow> answer_verified env srv pa sig'"
    using m by (auto simp: answers_def)
  then show ?thesis using handle_answer_state [OF h, of d e] adm m by auto
next
  case False
  then have "\<not> answers env srv pa ev" by (auto simp: answers_def)
  then show ?thesis using answer_event_quiet [OF assms] False by (auto simp: max_def split: if_splits)
qed

text \<open>A device without an entry answers its challenge on a server that enrols automatically.\<close>

definition demo_challenge :: pending_auth where
  "demo_challenge = \<lparr>pa_nonce_b64 = replicate 32 (CHR ''n''), pa_device_id = ''car'', pa_room_id = ''car'',
     pa_peer_role = Host, pa_offered_vk = Some (replicate 32 (CHR ''k''))\<rparr>"

definition demo_answer :: string where
  "demo_answer = replicate 32 (CHR ''k'') @ replicate 32 (CHR ''n'')"

definition demo_answer_env :: conn_env where
  "demo_answer_env = demo_env\<lparr>en_parse := (\<lambda>t. Some (DeviceAuthResponse ''car'' t))\<rparr>"

lemma demo_verifies:
  "verify_signature demo_crypto (replicate 32 (CHR ''k'')) (replicate 32 (CHR ''n'')) ''car'' ''car'' demo_answer = Inr ()"
  by (simp add: verify_signature_def decode_vk_def demo_crypto_def demo_answer_def bytes_of_def)

theorem device_challenge_sound_witness:
  "\<exists>files' srv' c'.
     answer_event demo_answer_env demo_fresh demo_challenge (Received (TextFrame demo_answer)) []
       (demo_server\<lparr>srv_allow_dev_enroll := True\<rparr>) ((new_conn ''p'')\<lparr>cn_phase := AwaitAnswer demo_challenge\<rparr>)
       = (files', srv', c', admit_answer demo_challenge)
     \<and> (\<exists>nm vk. entry_of (srv_devices srv') ''car'' = Some (PublicKey vk nm))"
proof -
  let ?s = "demo_server\<lparr>srv_allow_dev_enroll := True\<rparr>"
  let ?c = "(new_conn ''p'')\<lparr>cn_phase := AwaitAnswer demo_challenge\<rparr>"
  obtain files' srv' c' v where r: "answer_event demo_answer_env demo_fresh demo_challenge
      (Received (TextFrame demo_answer)) [] ?s ?c = (files', srv', c', v)"
    by (metis prod_cases4)
  have ver: "answer_verified demo_answer_env ?s demo_challenge demo_answer"
    using demo_verifies by (simp add: answer_verified_def check_key_def demo_server_def server_new_def
        registry_empty_def registry_new_def entry_of_def demo_challenge_def demo_answer_env_def demo_env_def)
  have vk: "decode_vk demo_crypto (replicate 32 (CHR ''k'')) = Inr (replicate 32 (byte_of (CHR ''k'')))"
    by (simp add: decode_vk_def demo_crypto_def bytes_of_def)
  have "v \<noteq> Stay"
    using r ver vk
    by (auto simp: answer_event_def handle_answer_def enroll_policy_def enroll_auto_def Let_def admit_answer_def
        demo_answer_env_def demo_env_def demo_challenge_def frame_simps demo_server_def server_new_def
        registry_empty_def registry_new_def dm_contains_def split: prod.splits)
  have "cn_phase ?c = AwaitAnswer demo_challenge" by simp
  note sound = device_challenge_sound [OF r this, THEN conjunct1]
  have "pa_device_id demo_challenge = ''car''" by (simp add: demo_challenge_def)
  with sound \<open>v \<noteq> Stay\<close> show ?thesis using r by auto
qed

end
