(* ===== verification/Admission.thy ===== *)
theory Admission
  imports Handshake
begin

text \<open>
  From the end of the join loop to the relay loop, \<open>handle_socket\<close> of
  \<open>mediaservo-server/src/signaling.rs\<close>: version negotiation, the retention ticket of a device that
  reconnects, the takeover of a session left behind, the three gates of the authorization matrix,
  entering the room, the ticket for the next reconnect, the acknowledgement and what a late
  joiner is sent. The whole sequence is one step of a connection.
\<close>

section \<open>Reconnecting\<close>

text \<open>A ticket is taken out of the table when it matches, and only then.\<close>

definition take_resume ::
  "session_identity \<Rightarrow> string \<Rightarrow> u32 \<Rightarrow> string option \<Rightarrow> server \<Rightarrow> server \<times> held_resume option" where
  "take_resume identity room_id negotiated claim srv =
     (case claim of
        None \<Rightarrow> (srv, None)
      | Some n \<Rightarrow>
          if negotiated \<ge> PROTOCOL_MIN_RESUME then
            (let key = (identity_key identity, room_id)
             in case dm_get (srv_resume srv) key of
                  Some h \<Rightarrow>
                    if hr_negotiated h = negotiated \<and> ct_eq (bytes_of n) (bytes_of (hr_nonce h))
                    then (srv\<lparr>srv_resume := dm_remove key (srv_resume srv)\<rparr>, Some h)
                    else (srv, None)
                | None \<Rightarrow> (srv, None))
          else (srv, None))"

text \<open>A full join over a ticket that was not used: the session left behind is torn down at once.\<close>

definition takeover :: "string \<Rightarrow> session_identity \<Rightarrow> string \<Rightarrow> server \<Rightarrow> server" where
  "takeover ts identity room_id srv =
     (let key = (identity_key identity, room_id)
      in case dm_get (srv_resume srv) key of
           None \<Rightarrow> srv
         | Some h \<Rightarrow>
             disconnect_session ts (hr_peer_id h) room_id
               (get_or_create_channel room_id (srv\<lparr>srv_resume := dm_remove key (srv_resume srv)\<rparr>)))"

section \<open>The gates\<close>

definition no_control_detail :: "string \<Rightarrow> string \<Rightarrow> string" where
  "no_control_detail peer_id room_id =
     ''role lacks control capability for remote/P2P negotiation (peer='' @ peer_id @ '', room='' @ room_id @ '')''"

definition admission_denial :: "server \<Rightarrow> session_identity \<Rightarrow> peer_role \<Rightarrow> string \<Rightarrow> string \<Rightarrow> string option" where
  "admission_denial srv identity role peer_id room_id =
     (case (if role = Host then host_join_denied identity else None) of
        Some reason \<Rightarrow> Some (reason @ '' (peer='' @ peer_id @ '')'')
      | None \<Rightarrow>
          if role = Remote \<and> \<not> sess_can_control identity then Some (no_control_detail peer_id room_id)
          else (case room_owner_of srv room_id of
                  None \<Rightarrow> None
                | Some owner \<Rightarrow>
                    map_option (\<lambda>reason. in_room reason peer_id room_id) (join_vehicle_room identity (Some owner))))"

section \<open>Entering the room\<close>

fun debug_role :: "peer_role \<Rightarrow> string" where
  "debug_role Host = ''Host''"
| "debug_role Remote = ''Remote''"
| "debug_role Consumer = ''Consumer''"

definition bind_device :: "string \<Rightarrow> string \<Rightarrow> string option \<Rightarrow> server \<Rightarrow> server" where
  "bind_device peer_id room_id device_id srv =
     (case device_id of
        None \<Rightarrow> srv
      | Some device \<Rightarrow>
          srv\<lparr>srv_bindings := dm_insert peer_id device (srv_bindings srv),
              srv_owners := dm_insert room_id device (srv_owners srv)\<rparr>)"

text \<open>A resumed session is still a member of its room and keeps its binding.\<close>

definition enter_room ::
  "fresh \<Rightarrow> bool \<Rightarrow> string \<Rightarrow> string \<Rightarrow> peer_role \<Rightarrow> string option \<Rightarrow> server \<Rightarrow> core_error + server" where
  "enter_room fr resumed peer_id room_id role device_id srv =
     (let joined = PeerJoin peer_id room_id (debug_role role)
      in if resumed then Inr (audit_log joined srv)
         else (case join_room (srv_rooms srv) room_id peer_id role (fr_since fr) (fr_now fr) of
                 Inl e \<Rightarrow> Inl e
               | Inr (rooms, evs) \<Rightarrow>
                   Inr (audit_log joined (bind_device peer_id room_id device_id
                          (fold audit_log evs (srv\<lparr>srv_rooms := rooms\<rparr>))))))"

definition issue_ticket ::
  "fresh \<Rightarrow> session_identity \<Rightarrow> peer_role \<Rightarrow> u32 \<Rightarrow> string \<Rightarrow> string \<Rightarrow> server \<Rightarrow> server \<times> string option" where
  "issue_ticket fr identity role negotiated peer_id room_id srv =
     (if role = Host \<and> (case identity of Device d \<Rightarrow> True | _ \<Rightarrow> False) \<and> negotiated \<ge> PROTOCOL_MIN_RESUME
      then (srv\<lparr>srv_resume_seq := srv_resume_seq srv + 1,
                srv_resume := prune_resume
                  (dm_insert (identity_key identity, room_id)
                     \<lparr>hr_peer_id = peer_id, hr_nonce = fr_ticket fr, hr_negotiated = negotiated,
                      hr_seq = srv_resume_seq srv\<rparr> (srv_resume srv)) RESUME_GLOBAL_CAP\<rparr>,
            Some (fr_ticket fr))
      else (srv, None))"

text \<open>\<open>tx.subscribe()\<close>.\<close>

definition subscribe :: "string \<Rightarrow> server \<Rightarrow> server" where
  "subscribe room_id srv =
     srv\<lparr>srv_channels := dm_insert room_id (receivers srv room_id + 1) (srv_channels srv)\<rparr>"

definition late_joiner_msgs :: "sfu \<Rightarrow> string \<Rightarrow> payload list" where
  "late_joiner_msgs sfu room_id =
     map (\<lambda>(pid, kind, peer, label). PMsg (NewProducer room_id pid peer kind label))
       (unwrap_or (list_producers sfu room_id) [])
     @ map (\<lambda>(did, label, peer). PMsg (NewDataProducer room_id did peer label []))
       (unwrap_or (list_data_producers sfu room_id) [])"

text \<open>The session starts: ticket, acknowledgement, replay, subscription, existing producers.\<close>

definition start_session ::
  "conn_env \<Rightarrow> fresh \<Rightarrow> server \<Rightarrow> conn \<Rightarrow> string \<Rightarrow> peer_role \<Rightarrow> string option \<Rightarrow> session_identity \<Rightarrow> u32 \<Rightarrow> server \<times> conn" where
  "start_session env fr srv c room_id role device_id identity negotiated =
     (let (srv1, ticket) = issue_ticket fr identity role negotiated (cn_peer_id c) room_id srv;
          c1 = send_direct (RoomJoined \<lparr>rd_room_id = room_id, rd_peer_id = cn_peer_id c,
                 rd_protocol = Some negotiated, rd_server_version = Some (en_version env),
                 rd_session_nonce = ticket\<rparr>) c;
          replay = map PText (unwrap_or (dm_get (srv_pending srv1) room_id) []);
          srv2 = subscribe room_id (get_or_create_channel room_id srv1)
      in (srv2, c1\<lparr>cn_sent := cn_sent c1 @ replay @ late_joiner_msgs (srv_sfu srv2) room_id,
                   cn_phase := InSession \<lparr>se_room = room_id, se_role = role, se_device = device_id,
                                 se_identity = identity, se_negotiated = negotiated\<rparr>\<rparr>))"

definition admit ::
  "conn_env \<Rightarrow> fresh \<Rightarrow> server \<Rightarrow> conn \<Rightarrow> string \<Rightarrow> peer_role \<Rightarrow> string option \<Rightarrow> session_identity \<Rightarrow> server \<times> conn" where
  "admit env fr srv c room_id role device_id identity =
     (let negotiated = negotiate_protocol (cn_claim c);
          (srv1, resumed) = take_resume identity room_id negotiated (cn_resume_claim c) srv;
          c1 = (case resumed of Some h \<Rightarrow> c\<lparr>cn_peer_id := hr_peer_id h\<rparr> | None \<Rightarrow> c);
          srv2 = (if resumed = None then takeover (fr_ts fr) identity room_id srv1 else srv1)
      in case admission_denial srv2 identity role (cn_peer_id c1) room_id of
           Some detail \<Rightarrow>
             fail_with 4031 detail (audit_log (AuthorizationDenied ''room_join'' (cn_peer_id c1) detail) srv2) c1
         | None \<Rightarrow>
             (case enter_room fr (resumed \<noteq> None) (cn_peer_id c1) room_id role device_id srv2 of
                Inl e \<Rightarrow>
                  if e = RoomFull then fail_with 4002 ''Room is full'' srv2 c1
                  else fail_with 4001 (''Failed to join room: '' @ core_error_display e) srv2 c1
              | Inr srv3 \<Rightarrow> start_session env fr srv3 c1 room_id role device_id identity negotiated))"

text \<open>A round of the join phase, with what follows when the loop is left.\<close>

definition after_loop :: "conn_env \<Rightarrow> fresh \<Rightarrow> join_state \<Rightarrow> fs \<times> server \<times> conn" where
  "after_loop env fr r =
     (case r of
        (files, srv, c, Stay) \<Rightarrow> (files, srv, c)
      | (files, srv, c, Admit room role dev identity) \<Rightarrow> (files, admit env fr srv c room role dev identity))"

definition join_phase :: "conn_env \<Rightarrow> fresh \<Rightarrow> conn_event \<Rightarrow> fs \<Rightarrow> server \<Rightarrow> conn \<Rightarrow> fs \<times> server \<times> conn" where
  "join_phase env fr ev files srv c =
     (case cn_phase c of
        AwaitPsk psk \<Rightarrow> (files, psk_event env psk ev srv c)
      | AwaitJoin \<Rightarrow> after_loop env fr (join_event env fr ev files srv c)
      | AwaitAnswer pa \<Rightarrow> after_loop env fr (answer_event env fr pa ev files srv c)
      | _ \<Rightarrow> (files, srv, c))"

section \<open>What the steps do\<close>

lemma take_resume_Some:
  "take_resume identity room n claim srv = (srv', Some h) \<longleftrightarrow>
     claim = Some (hr_nonce h) \<and> PROTOCOL_MIN_RESUME \<le> n \<and> hr_negotiated h = n
     \<and> dm_get (srv_resume srv) (identity_key identity, room) = Some h
     \<and> srv' = srv\<lparr>srv_resume := dm_remove (identity_key identity, room) (srv_resume srv)\<rparr>"
  by (auto simp: take_resume_def Let_def split: option.splits if_splits)

lemma take_resume_None: "take_resume identity room n claim srv = (srv', None) \<Longrightarrow> srv' = srv"
  by (auto simp: take_resume_def Let_def split: option.splits if_splits)

lemma join_room_error: "join_room rooms k p role t n = Inl e \<longleftrightarrow> e = RoomFull \<and> role = Host \<and> host_of rooms k \<noteq> None"
  by (cases role) (auto simp: join_room_def host_of_def split: option.splits)

lemma channel_frame [frame_simps]:
  "srv_rooms (get_or_create_channel r s) = srv_rooms s" "srv_sfu (get_or_create_channel r s) = srv_sfu s"
  "srv_resume (get_or_create_channel r s) = srv_resume s" "srv_bindings (get_or_create_channel r s) = srv_bindings s"
  "srv_owners (get_or_create_channel r s) = srv_owners s" "srv_pending (get_or_create_channel r s) = srv_pending s"
  "srv_audit (get_or_create_channel r s) = srv_audit s" "srv_status (get_or_create_channel r s) = srv_status s"
  "srv_producer_owners (get_or_create_channel r s) = srv_producer_owners s"
  "srv_active_connections (get_or_create_channel r s) = srv_active_connections s"
  "srv_resume_seq (get_or_create_channel r s) = srv_resume_seq s" "srv_shutdown (get_or_create_channel r s) = srv_shutdown s"
  "srv_devices (get_or_create_channel r s) = srv_devices s"
  by (simp_all add: get_or_create_channel_def)

lemma subscribe_frame [frame_simps]:
  "srv_rooms (subscribe r s) = srv_rooms s" "srv_sfu (subscribe r s) = srv_sfu s"
  "srv_resume (subscribe r s) = srv_resume s" "srv_bindings (subscribe r s) = srv_bindings s"
  "srv_owners (subscribe r s) = srv_owners s" "srv_pending (subscribe r s) = srv_pending s"
  "srv_audit (subscribe r s) = srv_audit s" "srv_status (subscribe r s) = srv_status s"
  "srv_producer_owners (subscribe r s) = srv_producer_owners s" "srv_devices (subscribe r s) = srv_devices s"
  "srv_active_connections (subscribe r s) = srv_active_connections s" "srv_out (subscribe r s) = srv_out s"
  "srv_resume_seq (subscribe r s) = srv_resume_seq s" "srv_shutdown (subscribe r s) = srv_shutdown s"
  by (simp_all add: subscribe_def)

lemma ticket_frame [frame_simps]:
  fixes s fr i ro n p r
  defines "t \<equiv> fst (issue_ticket fr i ro n p r s)"
  shows "srv_rooms t = srv_rooms s" "srv_sfu t = srv_sfu s" "srv_bindings t = srv_bindings s"
    "srv_owners t = srv_owners s" "srv_pending t = srv_pending s" "srv_audit t = srv_audit s"
    "srv_status t = srv_status s" "srv_producer_owners t = srv_producer_owners s" "srv_out t = srv_out s"
    "srv_active_connections t = srv_active_connections s" "srv_channels t = srv_channels s"
    "srv_shutdown t = srv_shutdown s" "srv_devices t = srv_devices s"
  by (simp_all add: t_def issue_ticket_def)

lemma start_session_phase [simp]:
  "cn_phase (snd (start_session env fr srv c room role dev identity n)) =
     InSession \<lparr>se_room = room, se_role = role, se_device = dev, se_identity = identity, se_negotiated = n\<rparr>"
  "cn_peer_id (snd (start_session env fr srv c room role dev identity n)) = cn_peer_id c"
  by (simp_all add: start_session_def send_direct_def case_prod_beta Let_def)

lemma start_session_frame [frame_simps]:
  fixes env fr srv c room role dev identity n
  defines "t \<equiv> fst (start_session env fr srv c room role dev identity n)"
  shows "srv_rooms t = srv_rooms srv" "srv_sfu t = srv_sfu srv" "srv_bindings t = srv_bindings srv"
    "srv_owners t = srv_owners srv" "srv_pending t = srv_pending srv" "srv_audit t = srv_audit srv"
    "srv_status t = srv_status srv" "srv_producer_owners t = srv_producer_owners srv"
    "srv_out t = srv_out srv" "srv_devices t = srv_devices srv" "srv_shutdown t = srv_shutdown srv"
    "srv_active_connections t = srv_active_connections srv"
    "srv_resume t = srv_resume (fst (issue_ticket fr identity role n (cn_peer_id c) room srv))"
  by (simp_all add: t_def start_session_def case_prod_beta Let_def frame_simps)

lemma bind_device_frame [frame_simps]:
  "srv_rooms (bind_device p r d s) = srv_rooms s" "srv_sfu (bind_device p r d s) = srv_sfu s"
  "srv_resume (bind_device p r d s) = srv_resume s" "srv_pending (bind_device p r d s) = srv_pending s"
  "srv_status (bind_device p r d s) = srv_status s" "srv_producer_owners (bind_device p r d s) = srv_producer_owners s"
  "srv_out (bind_device p r d s) = srv_out s" "srv_resume_seq (bind_device p r d s) = srv_resume_seq s"
  "srv_active_connections (bind_device p r d s) = srv_active_connections s"
  "srv_shutdown (bind_device p r d s) = srv_shutdown s" "srv_devices (bind_device p r d s) = srv_devices s"
  by (auto simp: bind_device_def split: option.splits)

text \<open>The parts of \<open>admit\<close>: the connection and state the gates see.\<close>

definition admit_peer :: "conn \<Rightarrow> session_identity \<Rightarrow> string \<Rightarrow> server \<Rightarrow> string" where
  "admit_peer c identity room srv =
     (case snd (take_resume identity room (negotiate_protocol (cn_claim c)) (cn_resume_claim c) srv) of
        Some h \<Rightarrow> hr_peer_id h | None \<Rightarrow> cn_peer_id c)"

definition admit_server :: "string \<Rightarrow> conn \<Rightarrow> session_identity \<Rightarrow> string \<Rightarrow> server \<Rightarrow> server" where
  "admit_server ts c identity room srv =
     (case take_resume identity room (negotiate_protocol (cn_claim c)) (cn_resume_claim c) srv of
        (srv1, None) \<Rightarrow> takeover ts identity room srv1 | (srv1, Some h) \<Rightarrow> srv1)"

definition resumes :: "conn \<Rightarrow> session_identity \<Rightarrow> string \<Rightarrow> server \<Rightarrow> bool" where
  "resumes c identity room srv =
     (snd (take_resume identity room (negotiate_protocol (cn_claim c)) (cn_resume_claim c) srv) \<noteq> None)"

lemma admit_eq:
  "admit env fr srv c room role dev identity =
     (let c1 = c\<lparr>cn_peer_id := admit_peer c identity room srv\<rparr>;
          srv2 = admit_server (fr_ts fr) c identity room srv
      in case admission_denial srv2 identity role (cn_peer_id c1) room of
           Some detail \<Rightarrow>
             fail_with 4031 detail (audit_log (AuthorizationDenied ''room_join'' (cn_peer_id c1) detail) srv2) c1
         | None \<Rightarrow>
             (case enter_room fr (resumes c identity room srv) (cn_peer_id c1) room role dev srv2 of
                Inl e \<Rightarrow> fail_with 4002 ''Room is full'' srv2 c1
              | Inr srv3 \<Rightarrow> start_session env fr srv3 c1 room role dev identity (negotiate_protocol (cn_claim c))))"
proof -
  have full: "enter_room fr b p room role dev s = Inl e \<Longrightarrow> e = RoomFull" for b p s e
    by (auto simp: enter_room_def Let_def join_room_error split: if_splits sum.splits)
  obtain srv1 res where r: "take_resume identity room (negotiate_protocol (cn_claim c)) (cn_resume_claim c) srv = (srv1, res)"
    by force
  define c1 where "c1 = c\<lparr>cn_peer_id := admit_peer c identity room srv\<rparr>"
  define srv2 where "srv2 = admit_server (fr_ts fr) c identity room srv"
  have parts: "(case res of Some h \<Rightarrow> c\<lparr>cn_peer_id := hr_peer_id h\<rparr> | None \<Rightarrow> c) = c1"
    "(if res = None then takeover (fr_ts fr) identity room srv1 else srv1) = srv2"
    "(res \<noteq> None) = resumes c identity room srv"
    by (auto simp: r c1_def srv2_def admit_peer_def admit_server_def resumes_def split: option.splits)
  have err: "(case enter_room fr b p room role dev s of
                Inl e \<Rightarrow> if e = RoomFull then x else y e | Inr srv3 \<Rightarrow> z srv3)
    = (case enter_room fr b p room role dev s of Inl e \<Rightarrow> x | Inr srv3 \<Rightarrow> z srv3)" for b p s x y z
    using full [of b p s] by (cases "enter_room fr b p room role dev s") auto
  show ?thesis
    unfolding admit_def r Let_def prod.case parts err
    unfolding c1_def [symmetric] srv2_def [symmetric] ..
qed

lemma admission_denial_None [gate_simps]:
  "admission_denial srv identity role peer room = None \<longleftrightarrow>
     (role = Host \<longrightarrow> \<not> is_account identity) \<and> (role = Remote \<longrightarrow> sess_can_control identity)
     \<and> (\<forall>v. room_owner_of srv room = Some v \<longrightarrow> join_vehicle_room identity (Some v) = None)"
  by (cases identity) (auto simp: admission_denial_def split: option.splits)

lemma enter_room_fresh:
  "enter_room fr False p room role dev s = Inr s' \<longleftrightarrow>
     (\<exists>rooms evs. join_room (srv_rooms s) room p role (fr_since fr) (fr_now fr) = Inr (rooms, evs)
       \<and> s' = audit_log (PeerJoin p room (debug_role role))
                (bind_device p room dev (fold audit_log evs (s\<lparr>srv_rooms := rooms\<rparr>))))"
  by (auto simp: enter_room_def Let_def split: sum.splits)

lemma enter_room_resumed:
  "enter_room fr True p room role dev s = Inr (audit_log (PeerJoin p room (debug_role role)) s)"
  by (simp add: enter_room_def)

lemma enter_room_owners:
  "enter_room fr b p room role dev s = Inr s' \<Longrightarrow>
     srv_owners s' = (if b then srv_owners s else srv_owners (bind_device p room dev s))
     \<and> srv_bindings s' = (if b then srv_bindings s else srv_bindings (bind_device p room dev s))"
  by (cases b) (auto simp: enter_room_fresh enter_room_resumed frame_simps bind_device_def split: option.splits)

text \<open>A session starts only past the gates and into the room.\<close>

lemma admit_session:
  assumes "admit env fr srv c room role dev identity = (srv', c')" and "cn_phase c' = InSession se"
  obtains srv2 srv3 where "srv2 = admit_server (fr_ts fr) c identity room srv"
    "admission_denial srv2 identity role (admit_peer c identity room srv) room = None"
    "enter_room fr (resumes c identity room srv) (admit_peer c identity room srv) room role dev srv2 = Inr srv3"
    "(srv', c') = start_session env fr srv3 (c\<lparr>cn_peer_id := admit_peer c identity room srv\<rparr>) room role dev identity
       (negotiate_protocol (cn_claim c))"
    "se = \<lparr>se_room = room, se_role = role, se_device = dev, se_identity = identity,
       se_negotiated = negotiate_protocol (cn_claim c)\<rparr>"
proof -
  define srv2 where "srv2 = admit_server (fr_ts fr) c identity room srv"
  define c1 where "c1 = c\<lparr>cn_peer_id := admit_peer c identity room srv\<rparr>"
  have no_fail: "fail_with k t s x \<noteq> (srv', c')" for k t s x
    using assms(2) by (auto simp: fail_with_def finish_def)
  have "admission_denial srv2 identity role (cn_peer_id c1) room = None"
    using assms(1) no_fail by (auto simp: admit_eq Let_def srv2_def c1_def split: option.splits)
  moreover from this obtain srv3 where
    "enter_room fr (resumes c identity room srv) (cn_peer_id c1) room role dev srv2 = Inr srv3"
    "(srv', c') = start_session env fr srv3 c1 room role dev identity (negotiate_protocol (cn_claim c))"
    using assms(1) no_fail by (auto simp: admit_eq Let_def srv2_def c1_def split: sum.splits)
  moreover have "cn_phase (snd (start_session env fr srv3 c1 room role dev identity (negotiate_protocol (cn_claim c)))) = cn_phase c'"
    using calculation(3) by (metis snd_conv)
  ultimately show ?thesis using that [of srv2 srv3] assms(2) by (simp add: srv2_def c1_def)
qed

lemma join_event_admits:
  assumes "join_event env fr ev files srv c = (files', srv', c', Admit room role dev identity)"
  obtains tx m where "ev = Received (TextFrame tx)" "en_parse env tx = Some (RoomJoin m)"
    "room = rj_room_id m" "role = rj_peer_role m" "cn_claim c' = rj_protocol m" "cn_resume_claim c' = rj_resume m"
    "cn_account c' = cn_account c" "cn_peer_id c' = cn_peer_id c" "cn_deferred c' = cn_deferred c"
    "dev = None \<and> identity = (case cn_account c of Some a \<Rightarrow> Account a | None \<Rightarrow> Legacy)
     \<or> (\<exists>d sec. rj_device_id m = Some d \<and> rj_device_secret m = Some sec \<and> dev = Some d \<and> identity = Device d
          \<and> verify (en_crypto env) (srv_devices srv) d sec = Inr ())"
proof -
  obtain tx m where m: "ev = Received (TextFrame tx)" "en_parse env tx = Some (RoomJoin m)"
    "handle_room_join env fr m files srv c = (files', srv', c', Admit room role dev identity)"
    using assms
    by (auto simp: join_event_def split: conn_event.splits ws_frame.splits option.splits signaling_message.splits)
  show ?thesis
    by (rule that [OF m(1,2)]; use m(3) in \<open>auto simp: handle_room_join_def Let_def authenticate_def
        split: if_splits option.splits sum.splits\<close>)
qed

text \<open>The event that earned a device identity.\<close>

definition device_earned :: "conn_env \<Rightarrow> conn_event \<Rightarrow> server \<Rightarrow> conn \<Rightarrow> server \<Rightarrow> string \<Rightarrow> string \<Rightarrow> bool" where
  "device_earned env ev srv c srv' room d =
     ((\<exists>tx m sec. ev = Received (TextFrame tx) \<and> en_parse env tx = Some (RoomJoin m) \<and> rj_device_id m = Some d
         \<and> rj_device_secret m = Some sec \<and> rj_room_id m = room \<and> verify (en_crypto env) (srv_devices srv) d sec = Inr ())
      \<or> (\<exists>pa tx r sig vk nm. cn_phase c = AwaitAnswer pa \<and> pa_device_id pa = d \<and> pa_room_id pa = room
         \<and> ev = Received (TextFrame tx) \<and> en_parse env tx = Some (DeviceAuthResponse r sig)
         \<and> entry_of (srv_devices srv') d = Some (PublicKey vk nm)
         \<and> verify_signature (en_crypto env) vk (pa_nonce_b64 pa) d room sig = Inr ()))"

lemma audit_fold_devices [simp]: "srv_devices (fold audit_log evs s) = srv_devices s"
  by (simp add: frame_simps)

lemma takeover_devices [simp]: "srv_devices (takeover ts i r s) = srv_devices s"
  by (auto simp: takeover_def Let_def frame_simps split: option.splits)

lemma admit_server_devices [simp]: "srv_devices (admit_server ts c i r s) = srv_devices s"
  by (auto simp: admit_server_def take_resume_def Let_def split: prod.splits option.splits if_splits)

lemma enter_room_devices: "enter_room fr b p room role dev s = Inr s' \<Longrightarrow> srv_devices s' = srv_devices s"
  by (cases b) (auto simp: enter_room_fresh enter_room_resumed frame_simps)

lemma admit_devices:
  assumes "admit env fr srv c room role dev identity = (srv', c')" and "cn_phase c' = InSession se"
  shows "srv_devices srv' = srv_devices srv"
proof -
  obtain srv2 srv3 where a: "srv2 = admit_server (fr_ts fr) c identity room srv"
    "enter_room fr (resumes c identity room srv) (admit_peer c identity room srv) room role dev srv2 = Inr srv3"
    "(srv', c') = start_session env fr srv3 (c\<lparr>cn_peer_id := admit_peer c identity room srv\<rparr>) room role dev identity
       (negotiate_protocol (cn_claim c))"
    using admit_session [OF assms] by metis
  have "srv' = fst (start_session env fr srv3 (c\<lparr>cn_peer_id := admit_peer c identity room srv\<rparr>) room role dev identity
       (negotiate_protocol (cn_claim c)))" using a(3) by (metis fst_conv)
  then show ?thesis using enter_room_devices [OF a(2)] a(1) by (simp add: frame_simps)
qed

lemma handle_room_join_stay:
  assumes "handle_room_join env fr m files srv c = (f1, s1, c1, Stay)"
  shows "cn_phase c1 = Closed \<or> (\<exists>pa. cn_phase c1 = AwaitAnswer pa)"
  using assms
  by (auto simp: handle_room_join_def join_wait_def finish_def fail_with_def send_direct_def join_pubkey_def
      Let_def split: option.splits if_splits sum.splits entry.splits)

lemma join_event_other:
  "en_parse env tx = Some m \<Longrightarrow> (\<forall>j. m \<noteq> RoomJoin j) \<Longrightarrow>
     join_event env fr (Received (TextFrame tx)) files srv c = stay files (join_wait srv c)"
  by (cases m) (simp_all add: join_event_def)

lemma join_event_stay:
  assumes "join_event env fr ev files srv c = (f1, s1, c1, Stay)" and "cn_phase c = AwaitJoin"
  shows "cn_phase c1 \<noteq> InSession se"
proof (cases "\<exists>tx m. ev = Received (TextFrame tx) \<and> en_parse env tx = Some m")
  case True
  then obtain tx m where m: "ev = Received (TextFrame tx)" "en_parse env tx = Some m" by blast
  show ?thesis
  proof (cases "\<exists>j. m = RoomJoin j")
    case True
    then obtain j where "m = RoomJoin j" by blast
    then have "handle_room_join env fr j files srv c = (f1, s1, c1, Stay)"
      using assms(1) m by (simp add: join_event_def)
    then show ?thesis using handle_room_join_stay by fastforce
  next
    case False
    then have "(s1, c1) = join_wait srv c"
      using assms(1) m join_event_other [of env tx m fr files srv c] by simp
    then show ?thesis using assms(2) by (auto simp: join_wait_def finish_def split: if_splits)
  qed
next
  case False
  then show ?thesis using assms
    by (auto simp: join_event_def join_wait_def finish_def split: conn_event.splits ws_frame.splits option.splits if_splits)
qed

lemma join_phase_admits:
  assumes "join_phase env fr ev files srv c = (files', srv', c')" and "cn_phase c' = InSession se"
    and "\<And>se. cn_phase c \<noteq> InSession se"
  obtains srv1 c1 dev where "cn_phase c = AwaitJoin \<and>
        join_event env fr ev files srv c = (files', srv1, c1, Admit (se_room se) (se_role se) dev (se_identity se))
      \<or> (\<exists>pa. cn_phase c = AwaitAnswer pa \<and>
        answer_event env fr pa ev files srv c = (files', srv1, c1, Admit (se_room se) (se_role se) dev (se_identity se)))"
    "admit env fr srv1 c1 (se_room se) (se_role se) dev (se_identity se) = (srv', c')" "se_device se = dev"
proof -
  have psk: "cn_phase (snd (psk_event env k ev srv c)) \<noteq> InSession se" for k
    by (auto simp: psk_event_def auth_ack_def join_wait_def finish_def fail_with_def send_direct_def
        split: conn_event.splits ws_frame.splits)
  have stay_ans: "cn_phase c1 \<noteq> InSession se" if p: "cn_phase c = AwaitAnswer pa" "answer_event env fr pa ev files srv c = (f1, s1, c1, Stay)"
    for pa f1 s1 c1
  proof (cases "\<exists>tx r sig. ev = Received (TextFrame tx) \<and> en_parse env tx = Some (DeviceAuthResponse r sig)")
    case True
    then obtain sig where "handle_answer env fr pa sig files srv c = (f1, s1, c1, Stay)"
      using p(2) by (auto simp: answer_event_def)
    then show ?thesis using handle_answer_state [of env fr pa sig files srv c f1 s1 c1 Stay] by auto
  next
    case False
    then show ?thesis using answer_event_quiet [OF p(2,1)] by auto
  qed
  have dev: "se_room se = room \<and> se_role se = role \<and> se_identity se = i \<and> se_device se = d"
    if "admit env fr s1 c1 room role d i = (srv', c')" for s1 c1 room role d i
    by (rule admit_session [OF that assms(2)]) simp
  show ?thesis
  proof (cases "cn_phase c")
    case (AwaitPsk k)
    then show ?thesis using assms(1,2) psk [of k] by (simp add: join_phase_def)
  next
    case AwaitJoin
    obtain f1 s1 c1 v where j: "join_event env fr ev files srv c = (f1, s1, c1, v)" by (metis prod_cases4)
    show ?thesis
    proof (cases v)
      case Stay
      then show ?thesis using join_event_stay [of env fr ev files srv c f1 s1 c1 se] assms(1,2) AwaitJoin j
        by (simp add: join_phase_def after_loop_def)
    next
      case (Admit r ro d i)
      then have "files' = f1" and a: "admit env fr s1 c1 r ro d i = (srv', c')"
        using assms(1) AwaitJoin j by (simp_all add: join_phase_def after_loop_def)
      then show ?thesis using that [of s1 c1 d] dev [OF a] AwaitJoin j Admit by simp
    qed
  next
    case (AwaitAnswer pa)
    obtain f1 s1 c1 v where j: "answer_event env fr pa ev files srv c = (f1, s1, c1, v)" by (metis prod_cases4)
    show ?thesis
    proof (cases v)
      case Stay
      then show ?thesis using stay_ans [of pa f1 s1 c1] assms(1,2) AwaitAnswer j
        by (simp add: join_phase_def after_loop_def)
    next
      case (Admit r ro d i)
      then have "files' = f1" and a: "admit env fr s1 c1 r ro d i = (srv', c')"
        using assms(1) AwaitAnswer j by (simp_all add: join_phase_def after_loop_def)
      then show ?thesis using that [of s1 c1 d] dev [OF a] AwaitAnswer j Admit by simp
    qed
  next
    case (InSession s)
    then show ?thesis using assms(3) by blast
  next
    case Closed
    then show ?thesis using assms(1,2) by (simp add: join_phase_def)
  qed
qed

lemma join_phase_device:
  assumes "join_phase env fr ev files srv c = (files', srv', c')" and "cn_phase c' = InSession se"
    and "\<And>se. cn_phase c \<noteq> InSession se"
  shows "se_device se = Some d \<longleftrightarrow> se_identity se = Device d"
proof -
  obtain srv1 c1 where j: "cn_phase c = AwaitJoin \<and>
        join_event env fr ev files srv c = (files', srv1, c1, Admit (se_room se) (se_role se) (se_device se) (se_identity se))
      \<or> (\<exists>pa. cn_phase c = AwaitAnswer pa \<and>
        answer_event env fr pa ev files srv c = (files', srv1, c1, Admit (se_room se) (se_role se) (se_device se) (se_identity se)))"
    using join_phase_admits [OF assms] by metis
  have ans: "handle_answer env fr pa sig files srv c = (files', srv1, c1, Admit r ro d' i) \<Longrightarrow> i = Device (the d') \<and> d' \<noteq> None"
    for pa sig r ro d' i
    using handle_answer_admits [of env fr pa sig files srv c] by (auto simp: admit_answer_def)
  from j show ?thesis
  proof (elim disjE conjE exE)
    assume "join_event env fr ev files srv c = (files', srv1, c1, Admit (se_room se) (se_role se) (se_device se) (se_identity se))"
    then show ?thesis by (rule join_event_admits) (auto split: option.splits)
  next
    fix pa assume p: "cn_phase c = AwaitAnswer pa"
      "answer_event env fr pa ev files srv c = (files', srv1, c1, Admit (se_room se) (se_role se) (se_device se) (se_identity se))"
    then obtain tx r sig where "ev = Received (TextFrame tx)" "en_parse env tx = Some (DeviceAuthResponse r sig)"
      using answer_event_quiet [OF p(2,1)] by blast
    then show ?thesis using p(2) ans [of pa sig] by (auto simp: answer_event_def)
  qed
qed

text \<open>
  C12. A session's identity is earned. When a connection enters a room, a device identity was
  proved in that very round, for that room: by the device's secret, or by the signed answer to
  this connection's challenge under the key the registry now holds for the device. An account
  identity is the one the connection's token carried; a session without either is a legacy one,
  and a connection that has an account can never turn into one.
\<close>

theorem session_identity_earned:
  assumes "join_phase env fr ev files srv c = (files', srv', c')" and "cn_phase c' = InSession se"
    and "\<And>se. cn_phase c \<noteq> InSession se"
  shows "case se_identity se of
      Device d \<Rightarrow> se_device se = Some d \<and> device_earned env ev srv c srv' (se_room se) d
    | Account a \<Rightarrow> se_device se = None \<and> cn_account c = Some a
    | Legacy \<Rightarrow> se_device se = None \<and> cn_account c = None"
proof -
  obtain srv1 c1 dev where j: "cn_phase c = AwaitJoin \<and>
        join_event env fr ev files srv c = (files', srv1, c1, Admit (se_room se) (se_role se) dev (se_identity se))
      \<or> (\<exists>pa. cn_phase c = AwaitAnswer pa \<and>
        answer_event env fr pa ev files srv c = (files', srv1, c1, Admit (se_room se) (se_role se) dev (se_identity se)))"
    and a: "admit env fr srv1 c1 (se_room se) (se_role se) dev (se_identity se) = (srv', c')" "se_device se = dev"
    using join_phase_admits [OF assms] by metis
  have reg: "srv_devices srv' = srv_devices srv1" by (rule admit_devices [OF a(1) assms(2)])
  from j show ?thesis
  proof
    assume "cn_phase c = AwaitJoin \<and>
        join_event env fr ev files srv c = (files', srv1, c1, Admit (se_room se) (se_role se) dev (se_identity se))"
    then have "join_event env fr ev files srv c = (files', srv1, c1, Admit (se_room se) (se_role se) dev (se_identity se))" ..
    then show ?thesis
      by (rule join_event_admits) (use a(2) in \<open>auto simp: device_earned_def split: option.splits\<close>)
  next
    assume "\<exists>pa. cn_phase c = AwaitAnswer pa \<and>
        answer_event env fr pa ev files srv c = (files', srv1, c1, Admit (se_room se) (se_role se) dev (se_identity se))"
    then obtain pa where p: "cn_phase c = AwaitAnswer pa"
      "answer_event env fr pa ev files srv c = (files', srv1, c1, Admit (se_room se) (se_role se) dev (se_identity se))" by blast
    obtain tx r sig where m: "ev = Received (TextFrame tx)" "en_parse env tx = Some (DeviceAuthResponse r sig)"
      using answer_event_quiet [OF p(2,1)] by blast
    then have "handle_answer env fr pa sig files srv c = (files', srv1, c1, Admit (se_room se) (se_role se) dev (se_identity se))"
      using p(2) by (simp add: answer_event_def)
    from handle_answer_admits [OF this] show ?thesis
      using m p(1) reg a(2) by (auto simp: device_earned_def admit_answer_def)
  qed
qed


lemma admit_no_ticket:
  assumes "dm_get (srv_resume srv) (identity_key identity, room) = None"
  shows "admit_server ts c identity room srv = srv" "admit_peer c identity room srv = cn_peer_id c"
    "\<not> resumes c identity room srv"
  using assms
  by (auto simp: admit_server_def admit_peer_def resumes_def take_resume_def takeover_def Let_def split: option.splits)

lemma admit_enters:
  assumes "dm_get (srv_resume srv) (identity_key identity, room) = None"
    and "admission_denial srv identity role (cn_peer_id c) room = None"
    and "\<not> (role = Host \<and> host_of (srv_rooms srv) room \<noteq> None)"
  shows "cn_phase (snd (admit env fr srv c room role dev identity)) =
    InSession \<lparr>se_room = room, se_role = role, se_device = dev, se_identity = identity,
      se_negotiated = negotiate_protocol (cn_claim c)\<rparr>"
proof -
  obtain y where "join_room (srv_rooms srv) room (cn_peer_id c) role (fr_since fr) (fr_now fr) = Inr y"
    using assms(3) join_room_error [of "srv_rooms srv" room "cn_peer_id c" role "fr_since fr" "fr_now fr"]
    by (metis obj_sumE)
  then obtain x where x: "enter_room fr False (cn_peer_id c) room role dev srv = Inr x"
    by (cases y) (simp add: enter_room_def)
  have f: "resumes c identity room srv = False" using admit_no_ticket(3) [OF assms(1)] by simp
  have c: "c\<lparr>cn_peer_id := cn_peer_id c\<rparr> = c" by simp
  show ?thesis
    unfolding admit_eq Let_def f admit_no_ticket(1,2) [OF assms(1)] c assms(2) x option.case sum.case
    by (rule start_session_phase)
qed

lemma admit_refused:
  assumes "dm_get (srv_resume srv) (identity_key identity, room) = None"
  shows "admission_denial srv identity role (cn_peer_id c) room = Some detail \<Longrightarrow>
      admit env fr srv c room role dev identity =
        fail_with 4031 detail (audit_log (AuthorizationDenied ''room_join'' (cn_peer_id c) detail) srv) c"
    and "admission_denial srv identity role (cn_peer_id c) room = None \<Longrightarrow> role = Host \<Longrightarrow>
      host_of (srv_rooms srv) room \<noteq> None \<Longrightarrow>
      admit env fr srv c room role dev identity = fail_with 4002 ''Room is full'' srv c"
proof -
  have f: "resumes c identity room srv = False" using admit_no_ticket(3) [OF assms] by simp
  have c: "c\<lparr>cn_peer_id := cn_peer_id c\<rparr> = c" by simp
  note eq = admit_eq [of env fr srv c room role dev identity, unfolded Let_def f admit_no_ticket(1,2) [OF assms] c]
  show "admission_denial srv identity role (cn_peer_id c) room = Some detail \<Longrightarrow>
      admit env fr srv c room role dev identity =
        fail_with 4031 detail (audit_log (AuthorizationDenied ''room_join'' (cn_peer_id c) detail) srv) c"
    unfolding eq by (simp only: option.case)
  show "admission_denial srv identity role (cn_peer_id c) room = None \<Longrightarrow> role = Host \<Longrightarrow>
      host_of (srv_rooms srv) room \<noteq> None \<Longrightarrow>
      admit env fr srv c room role dev identity = fail_with 4002 ''Room is full'' srv c"
  proof -
    assume n: "admission_denial srv identity role (cn_peer_id c) room = None" "role = Host" "host_of (srv_rooms srv) room \<noteq> None"
    then have "join_room (srv_rooms srv) room (cn_peer_id c) role (fr_since fr) (fr_now fr) = Inl RoomFull"
      by (simp add: join_room_error)
    then have "enter_room fr False (cn_peer_id c) room role dev srv = Inl RoomFull" by (simp add: enter_room_def)
    then show "admit env fr srv c room role dev identity = fail_with 4002 ''Room is full'' srv c"
      unfolding eq n(1) by (simp only: option.case sum.case)
  qed
qed

text \<open>A device with no entry that answers its challenge enters its room as host.\<close>

definition demo_enroll_server :: server where
  "demo_enroll_server = (server_new (registry_empty demo_crypto ''u''))\<lparr>srv_allow_dev_enroll := True\<rparr>"

definition demo_answering :: conn where
  "demo_answering = (new_conn ''p'')\<lparr>cn_phase := AwaitAnswer demo_challenge\<rparr>"

lemma demo_enters:
  "\<exists>files' srv' c' se.
     join_phase demo_answer_env demo_fresh (Received (TextFrame demo_answer)) [] demo_enroll_server demo_answering
       = (files', srv', c') \<and> cn_phase c' = InSession se \<and> se_identity se = Device ''car'' \<and> se_role se = Host"
proof -
  let ?p = "join_phase demo_answer_env demo_fresh (Received (TextFrame demo_answer)) [] demo_enroll_server demo_answering"
  have ver: "answer_verified demo_answer_env demo_enroll_server demo_challenge demo_answer"
    using demo_verifies by (simp add: answer_verified_def check_key_def demo_enroll_server_def server_new_def
        registry_empty_def registry_new_def entry_of_def demo_challenge_def demo_answer_env_def demo_env_def)
  have vk: "decode_vk demo_crypto (replicate 32 (CHR ''k'')) = Inr (replicate 32 (byte_of (CHR ''k'')))"
    by (simp add: decode_vk_def demo_crypto_def bytes_of_def)
  obtain f s where s: "answer_event demo_answer_env demo_fresh demo_challenge (Received (TextFrame demo_answer)) []
      demo_enroll_server demo_answering = (f, s, demo_answering\<lparr>cn_phase := AwaitJoin\<rparr>, admit_answer demo_challenge)"
    and st: "srv_resume s = []" "srv_rooms s = []" "srv_owners s = []"
    using ver vk
    by (simp add: answer_event_def handle_answer_def enroll_policy_def enroll_auto_def Let_def
        demo_answer_env_def demo_env_def demo_challenge_def frame_simps demo_enroll_server_def server_new_def
        registry_empty_def registry_new_def dm_contains_def room_manager_new_def case_prod_beta)
  have "cn_phase (snd (admit demo_answer_env demo_fresh s (demo_answering\<lparr>cn_phase := AwaitJoin\<rparr>) ''car'' Host
        (Some ''car'') (Device ''car''))) =
      InSession \<lparr>se_room = ''car'', se_role = Host, se_device = Some ''car'', se_identity = Device ''car'',
      se_negotiated = negotiate_protocol (cn_claim (demo_answering\<lparr>cn_phase := AwaitJoin\<rparr>))\<rparr>"
    by (rule admit_enters) (simp_all add: st gate_simps room_owner_of_def host_of_def)
  then show ?thesis using s
    by (cases ?p) (auto simp: join_phase_def after_loop_def demo_answering_def admit_answer_def demo_challenge_def)
qed

theorem session_identity_earned_witness:
  "\<exists>srv'. device_earned demo_answer_env (Received (TextFrame demo_answer)) demo_enroll_server demo_answering srv' ''car'' ''car''"
proof -
  obtain files' srv' c' se where p: "join_phase demo_answer_env demo_fresh (Received (TextFrame demo_answer)) []
       demo_enroll_server demo_answering = (files', srv', c')" "cn_phase c' = InSession se" "se_identity se = Device ''car''"
    using demo_enters by blast
  have "\<And>se. cn_phase demo_answering \<noteq> InSession se" by (simp add: demo_answering_def)
  from session_identity_earned [OF p(1,2) this]
  have "device_earned demo_answer_env (Received (TextFrame demo_answer)) demo_enroll_server demo_answering srv' (se_room se) ''car''"
    using p(3) by simp
  moreover from this have "se_room se = ''car''"
    by (auto simp: device_earned_def demo_answer_env_def demo_answering_def demo_challenge_def)
  ultimately show ?thesis by auto
qed


section \<open>Refusals\<close>

text \<open>
  A refused join leaves nothing behind. For a connection whose identity has no retention
  ticket for the room, entering is refused exactly if a gate objects or the room already has a
  host and the connection wants its slot; the refusal is reported with code 4031 or 4002, a gate's
  objection is in the audit log, and apart from that log and the connection count the server's
  state is what it was: no member, no binding, no owner, no ticket.
\<close>

theorem refused_join_no_residue:
  assumes "dm_get (srv_resume srv) (identity_key identity, room) = None"
    and "admit env fr srv c room role dev identity = (srv', c')"
  shows "((\<exists>se. cn_phase c' = InSession se) \<longleftrightarrow> cn_phase c' \<noteq> Closed)
    \<and> (cn_phase c' = Closed \<longleftrightarrow>
         admission_denial srv identity role (cn_peer_id c) room \<noteq> None \<or> role = Host \<and> host_of (srv_rooms srv) room \<noteq> None)
    \<and> (cn_phase c' = Closed \<longrightarrow>
         srv' = srv\<lparr>srv_active_connections := srv_active_connections srv - 1, srv_audit := srv_audit srv'\<rparr>
         \<and> (case admission_denial srv identity role (cn_peer_id c) room of
              Some detail \<Rightarrow> cn_sent c' = cn_sent c @ [PMsg (Error 4031 detail)]
                \<and> srv_audit srv' = log_event (srv_audit srv) (AuthorizationDenied ''room_join'' (cn_peer_id c) detail)
            | None \<Rightarrow> cn_sent c' = cn_sent c @ [PMsg (Error 4002 ''Room is full'')] \<and> srv_audit srv' = srv_audit srv))"
proof (cases "admission_denial srv identity role (cn_peer_id c) room = None \<and> \<not> (role = Host \<and> host_of (srv_rooms srv) room \<noteq> None)")
  case True
  then have "cn_phase (snd (admit env fr srv c room role dev identity)) =
    InSession \<lparr>se_room = room, se_role = role, se_device = dev, se_identity = identity,
      se_negotiated = negotiate_protocol (cn_claim c)\<rparr>"
    by (intro admit_enters assms(1)) simp_all
  then show ?thesis using True assms(2) by auto
next
  case False
  show ?thesis
  proof (cases "admission_denial srv identity role (cn_peer_id c) room")
    case (Some detail)
    then have "(srv', c') = fail_with 4031 detail (audit_log (AuthorizationDenied ''room_join'' (cn_peer_id c) detail) srv) c"
      using admit_refused(1) [OF assms(1)] assms(2) by simp
    then have srv': "srv' = srv\<lparr>srv_active_connections := srv_active_connections srv - 1,
        srv_audit := log_event (srv_audit srv) (AuthorizationDenied ''room_join'' (cn_peer_id c) detail)\<rparr>"
      and c': "c' = c\<lparr>cn_sent := cn_sent c @ [PMsg (Error 4031 detail)], cn_phase := Closed\<rparr>"
      by (simp_all add: fail_with_def finish_def send_direct_def audit_log_def)
    show ?thesis unfolding srv' c' Some by simp
  next
    case None
    with False have "role = Host" "host_of (srv_rooms srv) room \<noteq> None" by auto
    then have "(srv', c') = fail_with 4002 ''Room is full'' srv c"
      using admit_refused(2) [OF assms(1) None] assms(2) by simp
    then have srv': "srv' = srv\<lparr>srv_active_connections := srv_active_connections srv - 1\<rparr>"
      and c': "c' = c\<lparr>cn_sent := cn_sent c @ [PMsg (Error 4002 ''Room is full'')], cn_phase := Closed\<rparr>"
      by (simp_all add: fail_with_def finish_def send_direct_def)
    show ?thesis unfolding srv' c' None using False None by simp
  qed
qed

text \<open>A viewer that asks for the host slot.\<close>

theorem refused_join_no_residue_witness:
  "cn_phase (snd (admit demo_env demo_fresh demo_server (new_conn ''p'') ''car'' Host None
     (Account \<lparr>ai_username = ''ann'', ai_role = Viewer, ai_vehicles = [''car'']\<rparr>))) = Closed"
proof -
  let ?i = "Account \<lparr>ai_username = ''ann'', ai_role = Viewer, ai_vehicles = [''car'']\<rparr>"
  have t: "dm_get (srv_resume demo_server) (identity_key ?i, ''car'') = None"
    by (simp add: demo_server_def server_new_def)
  have "admission_denial demo_server ?i Host (cn_peer_id (new_conn ''p'')) ''car'' \<noteq> None"
    by (simp add: gate_simps)
  then show ?thesis
    using refused_join_no_residue [OF t surjective_pairing, of demo_env demo_fresh "new_conn ''p''" Host None] by simp
qed

section \<open>Tickets\<close>

lemma prune_resume_get: "dm_get (prune_resume tab cap) k = Some v \<Longrightarrow> dm_get tab k = Some v"
proof (induction tab cap rule: prune_resume.induct)
  case (1 tab cap)
  show ?case
  proof (cases "length tab > cap \<and> oldest_ticket tab \<noteq> None")
    case True
    then obtain e where "oldest_ticket tab = Some e" by blast
    then obtain k' h where o: "oldest_ticket tab = Some (k', h)" by (cases e) auto
    then have "prune_resume tab cap = prune_resume (dm_remove k' tab) cap"
      using True by (simp add: prune_resume.simps [of tab])
    then have "dm_get (dm_remove k' tab) k = Some v" using 1 True o by (simp del: dm_get_remove)
    then show ?thesis by (simp split: if_splits)
  next
    case False
    then show ?thesis using "1.prems" by (auto simp: prune_resume.simps [of tab] split: if_splits option.splits)
  qed
qed

lemma prune_fits: "length tab \<le> cap \<Longrightarrow> prune_resume tab cap = tab"
  by (simp add: prune_resume.simps [of tab])

lemma start_session_resume:
  "srv_resume (fst (start_session env fr srv c room role dev identity n)) =
     (if role = Host \<and> (case identity of Device d \<Rightarrow> True | _ \<Rightarrow> False) \<and> n \<ge> PROTOCOL_MIN_RESUME
      then prune_resume (dm_insert (identity_key identity, room)
             \<lparr>hr_peer_id = cn_peer_id c, hr_nonce = fr_ticket fr, hr_negotiated = n, hr_seq = srv_resume_seq srv\<rparr>
             (srv_resume srv)) RESUME_GLOBAL_CAP
      else srv_resume srv)"
  by (simp add: frame_simps issue_ticket_def)

lemma resumes_iff:
  "resumes c identity room srv \<longleftrightarrow>
     (\<exists>h. dm_get (srv_resume srv) (identity_key identity, room) = Some h
        \<and> cn_resume_claim c = Some (hr_nonce h) \<and> hr_negotiated h = negotiate_protocol (cn_claim c)
        \<and> PROTOCOL_MIN_RESUME \<le> negotiate_protocol (cn_claim c))"
  by (auto simp: resumes_def take_resume_def Let_def split: option.splits)

text \<open>The state of a server whose ticket was taken, and what \<open>admit\<close> makes of it.\<close>

definition burnt :: "string \<times> string \<Rightarrow> server \<Rightarrow> server" where
  "burnt key srv = srv\<lparr>srv_resume := dm_remove key (srv_resume srv)\<rparr>"

lemma burnt_frame [frame_simps]:
  "srv_rooms (burnt k s) = srv_rooms s" "srv_sfu (burnt k s) = srv_sfu s" "srv_bindings (burnt k s) = srv_bindings s"
  "srv_owners (burnt k s) = srv_owners s" "srv_status (burnt k s) = srv_status s" "srv_out (burnt k s) = srv_out s"
  "srv_resume_seq (burnt k s) = srv_resume_seq s" "srv_resume (burnt k s) = dm_remove k (srv_resume s)"
  by (simp_all add: burnt_def)

lemma admit_resumed:
  assumes "resumes c identity room srv" and "dm_get (srv_resume srv) (identity_key identity, room) = Some h"
  shows "admit env fr srv c room role dev identity =
    (let s = burnt (identity_key identity, room) srv; c1 = c\<lparr>cn_peer_id := hr_peer_id h\<rparr>
     in case admission_denial s identity role (hr_peer_id h) room of
          Some detail \<Rightarrow> fail_with 4031 detail (audit_log (AuthorizationDenied ''room_join'' (hr_peer_id h) detail) s) c1
        | None \<Rightarrow> start_session env fr (audit_log (PeerJoin (hr_peer_id h) room (debug_role role)) s) c1 room role dev
            identity (negotiate_protocol (cn_claim c)))"
proof -
  have t: "take_resume identity room (negotiate_protocol (cn_claim c)) (cn_resume_claim c) srv
      = (burnt (identity_key identity, room) srv, Some h)"
    using assms by (auto simp: resumes_iff take_resume_Some burnt_def)
  have parts: "admit_server (fr_ts fr) c identity room srv = burnt (identity_key identity, room) srv"
    "admit_peer c identity room srv = hr_peer_id h"
    by (simp_all add: admit_server_def admit_peer_def t)
  show ?thesis using assms(1) by (simp add: admit_eq Let_def parts enter_room_def split: option.splits)
qed

lemma resumed_ticket:
  assumes "resumes c identity room srv"
    and "dm_get (srv_resume (fst (admit env fr srv c room role dev identity))) (identity_key identity, room) = Some x"
  shows "hr_nonce x = fr_ticket fr \<and> hr_seq x = srv_resume_seq srv"
proof -
  obtain h where h: "dm_get (srv_resume srv) (identity_key identity, room) = Some h"
    using assms(1) by (auto simp: resumes_iff)
  let ?s = "burnt (identity_key identity, room) srv"
  show ?thesis
  proof (cases "admission_denial ?s identity role (hr_peer_id h) room")
    case None
    then show ?thesis using assms(2)
      by (auto simp: admit_resumed [OF assms(1) h] Let_def start_session_resume frame_simps dest!: prune_resume_get
          split: if_splits)
  next
    case (Some detail)
    then show ?thesis using assms(2)
      by (simp add: admit_resumed [OF assms(1) h] Let_def fail_with_def finish_def send_direct_def frame_simps)
  qed
qed


text \<open>The host of a vehicle room comes back with its ticket.\<close>

definition demo_held_server :: server where
  "demo_held_server = demo_server\<lparr>srv_resume :=
     [((''car'', ''car''), \<lparr>hr_peer_id = ''h'', hr_nonce = ''n0'', hr_negotiated = 3, hr_seq = 0\<rparr>)]\<rparr>"

definition demo_returning :: "string \<Rightarrow> conn" where
  "demo_returning nonce = (new_conn ''q'')\<lparr>cn_claim := Some 3, cn_resume_claim := Some nonce\<rparr>"

lemma demo_negotiated: "negotiate_protocol (Some 3) = 3"
  by (simp add: negotiate_protocol_def protocol_consts)

lemma demo_resumes: "resumes (demo_returning n) (Device ''car'') ''car'' demo_held_server \<longleftrightarrow> n = ''n0''"
  by (auto simp: resumes_def take_resume_def demo_returning_def demo_held_server_def demo_negotiated protocol_consts
      Let_def split: if_splits)


text \<open>Tearing a session down only ever removes owners of rooms.\<close>

definition owners_shrink :: "server \<Rightarrow> server \<Rightarrow> bool" where
  "owners_shrink s t = (dm_get (srv_owners t) \<subseteq>\<^sub>m dm_get (srv_owners s))"

lemma owners_shrink_refl: "srv_owners t = srv_owners s \<Longrightarrow> owners_shrink s t"
  by (simp add: owners_shrink_def)

lemma owners_shrink_trans: "owners_shrink a b \<Longrightarrow> owners_shrink b c \<Longrightarrow> owners_shrink a c"
  unfolding owners_shrink_def by (rule map_le_trans)

lemma owners_shrinkD: "owners_shrink s t \<Longrightarrow> dm_get (srv_owners t) r = Some v \<Longrightarrow> dm_get (srv_owners s) r = Some v"
  by (auto simp: owners_shrink_def map_le_def dom_def)

lemma owners_shrink_fold:
  "(\<And>x s. x \<in> set xs \<Longrightarrow> owners_shrink s (f x s)) \<Longrightarrow> owners_shrink s (fold f xs s)"
proof (induction xs arbitrary: s)
  case (Cons x xs)
  then show ?case using owners_shrink_trans [of s "f x s" "fold f xs (f x s)"] by simp
qed (simp add: owners_shrink_refl)

lemma owners_shrink_remove: "srv_owners t = dm_remove r (srv_owners s) \<Longrightarrow> owners_shrink s t"
  by (auto simp: owners_shrink_def map_le_def split: if_splits)

lemma owners_shrink_announce: "owners_shrink s (announce_producers_closed ts r p d c s)"
proof -
  have one: "srv_owners (announce_one r p d x s) = srv_owners s" for x s
    by (simp add: announce_one_def tx_send_def Let_def)
  have "owners_shrink s (fold (announce_one r p d) c (get_or_create_channel r s))"
    by (rule owners_shrink_trans [OF _ owners_shrink_fold]) (simp_all add: owners_shrink_refl one frame_simps)
  moreover have "owners_shrink x (emit_admin e x)" "owners_shrink x (deferred_cleanup r x)" for x e
    by (auto simp: emit_admin_def owners_shrink_refl deferred_cleanup_def intro: owners_shrink_remove)
  ultimately have "owners_shrink s (deferred_cleanup r (fold (announce_one r p d) c (get_or_create_channel r s)))"
    "owners_shrink s (deferred_cleanup r (emit_admin e (fold (announce_one r p d) c (get_or_create_channel r s))))" for e
    by (blast intro: owners_shrink_trans)+
  then show ?thesis
    by (cases d) (simp_all add: announce_producers_closed_def Let_def owners_shrink_refl)
qed

lemma owners_shrink_announce_fold:
  "owners_shrink s (fold (\<lambda>(room, closed). announce_producers_closed ts room p d closed) xs s)"
  by (rule owners_shrink_fold) (auto simp: owners_shrink_announce)

lemma owners_shrink_reclaim: "owners_shrink s (reclaim_key ts p d key s)"
proof -
  have "owners_shrink s (reclaim_owned ts p d ids s)" for ids
    unfolding reclaim_owned_def Let_def case_prod_beta
    by (rule owners_shrink_trans [OF owners_shrink_refl owners_shrink_announce_fold [unfolded case_prod_beta]]) simp
  then show ?thesis by (simp add: reclaim_key_def owners_shrink_refl)
qed

lemma owners_shrink_disconnect: "owners_shrink s (disconnect_session ts p r s)"
proof -
  have g: "owners_shrink s (global_step ts p s)"
    unfolding global_step_def by (rule owners_shrink_trans [OF owners_shrink_refl owners_shrink_announce_fold]) simp
  let ?s2 = "reclaim_key ts p None (session_key p) (global_step ts p s)"
  let ?s3 = "?s2\<lparr>srv_t4_gone_seen := dm_remove p (srv_t4_gone_seen ?s2)\<rparr>"
  have s3: "owners_shrink s ?s3"
    by (rule owners_shrink_trans [OF owners_shrink_trans [OF g owners_shrink_reclaim] owners_shrink_refl]) simp
  have "owners_shrink s (disconnect_sfu ts p s)"
    unfolding disconnect_sfu_eq Let_def
    using s3 owners_shrink_trans [OF s3 owners_shrink_reclaim] by (simp split: option.split)
  moreover have "owners_shrink (disconnect_sfu ts p s) (disconnect_session ts p r s)"
    by (cases "tears_down ts p r s")
      (simp_all add: disconnect_session_fields(5) owners_shrink_refl owners_shrink_remove)
  ultimately show ?thesis by (rule owners_shrink_trans)
qed

lemma host_of_after_leave:
  assumes "rooms_inv rooms" and "host_of rooms room = Some peer \<or> host_of rooms room = None"
  shows "host_of (rooms_after_leave rooms room peer b) room = None"
proof -
  have "host_of (fst (leave_room rooms room peer)) room = None"
    using assms
    by (cases "dm_get rooms room")
      (auto simp: leave_room_def Let_def host_of_def get_retain_modify rooms_inv_wf room_drop_peer_def
        simp del: map_of_eq_Some_iff split: option.splits if_splits)
  moreover have "host_of (fst (disconnect_consumers r room)) room = None" if "host_of r room = None" "rooms_inv r" for r
    using that
    by (cases "dm_get r room")
      (auto simp: disconnect_consumers_def Let_def host_of_def get_retain_modify rooms_inv_wf
        simp del: map_of_eq_Some_iff split: option.splits if_splits)
  ultimately show ?thesis using assms(1) by (simp add: rooms_after_leave_def Let_def rooms_inv_leave)
qed

text \<open>
  C30. A device that lost its ticket is not locked out by the session it left behind. If the table
  holds a ticket of the device for the room, and the room's host is the peer that ticket stands
  for (or there is none), then a full join as host succeeds, unless another vehicle owns the room:
  the old session is torn down first, its peer is out of the room, and the connection is the host.
\<close>

theorem lost_ticket_takes_over:
  assumes inv: "rooms_inv (srv_rooms srv)"
    and held: "dm_get (srv_resume srv) (d, room) = Some h"
    and host: "host_of (srv_rooms srv) room = Some (hr_peer_id h) \<or> host_of (srv_rooms srv) room = None"
    and own: "\<forall>v. room_owner_of srv room = Some v \<longrightarrow> v = d"
    and fresh: "\<not> resumes c (Device d) room srv"
    and r: "admit env fr srv c room Host (Some d) (Device d) = (srv', c')"
  shows "(\<exists>se. cn_phase c' = InSession se \<and> se_room se = room \<and> se_identity se = Device d)
    \<and> cn_peer_id c' = cn_peer_id c \<and> host_of (srv_rooms srv') room = Some (cn_peer_id c)
    \<and> (hr_peer_id h \<noteq> cn_peer_id c \<longrightarrow> hr_peer_id h \<notin> set (members (srv_rooms srv') room))
    \<and> dm_get (srv_bindings srv') (cn_peer_id c) = Some d \<and> room_owner_of srv' room = Some d"
proof -
  define pre where "pre = get_or_create_channel room (srv\<lparr>srv_resume := dm_remove (d, room) (srv_resume srv)\<rparr>)"
  define s where "s = disconnect_session (fr_ts fr) (hr_peer_id h) room pre"
  have pre: "srv_rooms pre = srv_rooms srv" "srv_owners pre = srv_owners srv" by (simp_all add: pre_def frame_simps)
  have "snd (take_resume (Device d) room (negotiate_protocol (cn_claim c)) (cn_resume_claim c) srv) = None"
    using fresh by (simp add: resumes_def)
  then have t: "take_resume (Device d) room (negotiate_protocol (cn_claim c)) (cn_resume_claim c) srv = (srv, None)"
    by (metis prod.collapse take_resume_None)
  have parts: "admit_server (fr_ts fr) c (Device d) room srv = s" "admit_peer c (Device d) room srv = cn_peer_id c"
    by (simp_all add: admit_server_def admit_peer_def t takeover_def held Let_def s_def pre_def)
  have rooms: "srv_rooms s = rooms_after_leave (srv_rooms srv) room (hr_peer_id h) (is_device_stream_host pre room (hr_peer_id h))"
    by (simp add: s_def disconnect_session_fields(2) pre)
  have nohost: "host_of (srv_rooms s) room = None"
    unfolding rooms by (rule host_of_after_leave [OF inv host])
  have "v = d" if "room_owner_of s room = Some v" for v
    using own owners_shrinkD [OF owners_shrink_disconnect, of "fr_ts fr" "hr_peer_id h" room pre room v] that
    unfolding room_owner_of_def s_def pre by blast
  then have gates: "admission_denial s (Device d) Host (cn_peer_id c) room = None"
    unfolding admission_denial_None by simp
  obtain rooms' evs where j: "join_room (srv_rooms s) room (cn_peer_id c) Host (fr_since fr) (fr_now fr) = Inr (rooms', evs)"
    using nohost join_room_error [of "srv_rooms s" room "cn_peer_id c" Host "fr_since fr" "fr_now fr"]
    by (cases "join_room (srv_rooms s) room (cn_peer_id c) Host (fr_since fr) (fr_now fr)") auto
  define post where "post = audit_log (PeerJoin (cn_peer_id c) room (debug_role Host))
    (bind_device (cn_peer_id c) room (Some d) (fold audit_log evs (s\<lparr>srv_rooms := rooms'\<rparr>)))"
  have e: "enter_room fr False (cn_peer_id c) room Host (Some d) s = Inr post"
    using j by (simp add: enter_room_def post_def)
  have f: "resumes c (Device d) room srv = False" using fresh by simp
  have c: "c\<lparr>cn_peer_id := cn_peer_id c\<rparr> = c" by simp
  let ?t = "start_session env fr post c room Host (Some d) (Device d) (negotiate_protocol (cn_claim c))"
  have "(srv', c') = ?t"
    using r unfolding admit_eq Let_def parts f c gates option.case e sum.case by simp
  then have t': "srv' = fst ?t" "c' = snd ?t" by (metis fst_conv, metis snd_conv)
  have post: "srv_rooms srv' = rooms'" "srv_bindings srv' = srv_bindings post" "srv_owners srv' = srv_owners post"
    by (simp_all add: t' frame_simps) (simp add: post_def frame_simps)
  have left: "hr_peer_id h \<notin> set (members (srv_rooms s) room)"
    using members_leave [OF inv, of room "hr_peer_id h" room]
      members_disconnect_subset [OF rooms_inv_leave [OF inv], of room "hr_peer_id h" room]
    by (auto simp: rooms rooms_after_leave_def Let_def)
  have mem: "set (members rooms' room) = insert (cn_peer_id c) (set (members (srv_rooms s) room))"
    using members_join(1) [OF j] by (metis set_mset_mset set_mset_add_mset_insert)
  have bound: "dm_get (srv_bindings post) (cn_peer_id c) = Some d" "dm_get (srv_owners post) room = Some d"
    by (simp_all add: post_def frame_simps bind_device_def)
  have "cn_phase c' = InSession \<lparr>se_room = room, se_role = Host, se_device = Some d, se_identity = Device d,
      se_negotiated = negotiate_protocol (cn_claim c)\<rparr>" "cn_peer_id c' = cn_peer_id c"
    unfolding t' by (rule start_session_phase)+
  then show ?thesis
    using left mem bound host_of_join [OF j, of room] by (simp add: post room_owner_of_def)
qed

theorem lost_ticket_takes_over_witness:
  "let r = admit demo_env demo_fresh demo_held_server (demo_returning ''lost'') ''car'' Host (Some ''car'') (Device ''car'')
   in host_of (srv_rooms (fst r)) ''car'' = Some ''q'' \<and> ''h'' \<notin> set (members (srv_rooms (fst r)) ''car'')"
proof -
  let ?r = "admit demo_env demo_fresh demo_held_server (demo_returning ''lost'') ''car'' Host (Some ''car'') (Device ''car'')"
  have a: "rooms_inv (srv_rooms demo_held_server)" using demo_server_inv by (simp add: demo_held_server_def)
  have b: "dm_get (srv_resume demo_held_server) (''car'', ''car'') =
      Some \<lparr>hr_peer_id = ''h'', hr_nonce = ''n0'', hr_negotiated = 3, hr_seq = 0\<rparr>"
    by (simp add: demo_held_server_def)
  have c: "host_of (srv_rooms demo_held_server) ''car'' = Some ''h''" "room_owner_of demo_held_server ''car'' = Some ''car''"
    by (simp_all add: demo_held_server_def demo_server_def host_of_def room_owner_of_def)
  have d: "\<not> resumes (demo_returning ''lost'') (Device ''car'') ''car'' demo_held_server"
    by (simp add: demo_resumes)
  have e: "cn_peer_id (demo_returning ''lost'') = ''q''" by (simp add: demo_returning_def new_conn_def)
  show ?thesis
    using lost_ticket_takes_over [OF a b _ _ d surjective_pairing, of demo_env demo_fresh] c e by (simp add: Let_def)
qed

section \<open>Late joiners\<close>

lemma list_producers_media:
  assumes "sfu_wf sfu"
  shows "(\<exists>l. (pid, kind, peer, l) \<in> set (unwrap_or (list_producers sfu room) [])) \<longleftrightarrow>
     (\<exists>x\<in>set (media_at sfu room peer). mp_id x = pid \<and> protocol_kind (mp_kind x) = kind)"
  using assms
  by (cases "dm_get sfu room") (auto simp: list_producers_def media_at_def peer_at_def sfu_wf_def image_iff Bex_def
      split: option.splits dest: map_of_SomeD map_of_is_SomeI)

lemma list_data_producers_data:
  assumes "sfu_wf sfu"
  shows "(did, label, peer) \<in> set (unwrap_or (list_data_producers sfu room) []) \<longleftrightarrow>
     (\<exists>x\<in>set (data_at sfu room peer). md_id x = did \<and> md_label x = label)"
  using assms
  by (cases "dm_get sfu room") (auto simp: list_data_producers_def data_at_def peer_at_def sfu_wf_def
      split: option.splits dest: map_of_SomeD map_of_is_SomeI)

text \<open>
  A late joiner is told exactly what is there. What a starting session is sent is its
  acknowledgement, then every cached negotiation message of the room in order, then announcements:
  a media producer is announced, with its owner and kind, exactly if it is filed in this room of
  the SFU, and a data producer, with its label, likewise; nothing of another room is announced.
\<close>

theorem late_joiner_told:
  assumes "start_session env fr srv c room role dev identity n = (srv', c')" and "sfu_wf (srv_sfu srv)"
  shows "\<exists>m ann. cn_sent c' = cn_sent c @ PMsg (RoomJoined m) # map PText (unwrap_or (dm_get (srv_pending srv) room) []) @ ann
    \<and> (\<forall>pid kind peer r. (\<exists>l. PMsg (NewProducer r pid peer kind l) \<in> set ann) \<longleftrightarrow>
         r = room \<and> (\<exists>x\<in>set (media_at (srv_sfu srv') room peer). mp_id x = pid \<and> protocol_kind (mp_kind x) = kind))
    \<and> (\<forall>did label peer r. (\<exists>q. PMsg (NewDataProducer r did peer label q) \<in> set ann) \<longleftrightarrow>
         r = room \<and> (\<exists>x\<in>set (data_at (srv_sfu srv') room peer). md_id x = did \<and> md_label x = label))"
proof -
  have sfu: "srv_sfu srv' = srv_sfu srv"
    using assms(1) start_session_frame(2) [of env fr srv c room role dev identity n] by simp
  obtain s1 t1 where t: "issue_ticket fr identity role n (cn_peer_id c) room srv = (s1, t1)" by force
  have s1: "srv_sfu s1 = srv_sfu srv" "srv_pending s1 = srv_pending srv"
    using ticket_frame(2,5) [of fr identity role n "cn_peer_id c" room srv] unfolding t fst_conv .
  have "\<exists>m. cn_sent c' = cn_sent c @ PMsg (RoomJoined m)
      # map PText (unwrap_or (dm_get (srv_pending srv) room) []) @ late_joiner_msgs (srv_sfu srv) room"
    using assms(1) by (auto simp: start_session_def t s1 send_direct_def Let_def frame_simps)
  moreover have "(\<exists>l. PMsg (NewProducer r pid peer kind l) \<in> set (late_joiner_msgs (srv_sfu srv) room)) \<longleftrightarrow>
      r = room \<and> (\<exists>l. (pid, kind, peer, l) \<in> set (unwrap_or (list_producers (srv_sfu srv) room) []))" for r pid peer kind
    by (force simp: late_joiner_msgs_def)
  moreover have "(\<exists>q. PMsg (NewDataProducer r did peer label q) \<in> set (late_joiner_msgs (srv_sfu srv) room)) \<longleftrightarrow>
      r = room \<and> (did, label, peer) \<in> set (unwrap_or (list_data_producers (srv_sfu srv) room) [])" for r did peer label
    by (force simp: late_joiner_msgs_def)
  ultimately show ?thesis
    using list_producers_media [OF assms(2)] list_data_producers_data [OF assms(2)] sfu by fastforce
qed

theorem late_joiner_told_witness:
  "\<exists>l. PMsg (NewProducer ''car_front'' ''p1'' ''host'' Video l) \<in>
     set (cn_sent (snd (start_session demo_env demo_fresh demo_server (new_conn ''q'') ''car_front'' Consumer None Legacy 2)))"
proof -
  have wf: "sfu_wf (srv_sfu demo_server)" using demo_server_inv(2) by (simp add: sfu_inv_def)
  let ?r = "start_session demo_env demo_fresh demo_server (new_conn ''q'') ''car_front'' Consumer None Legacy 2"
  note told = late_joiner_told [OF surjective_pairing wf, of demo_env demo_fresh "new_conn ''q''" "''car_front''" Consumer None Legacy 2]
  then obtain m ann where s: "cn_sent (snd ?r) = cn_sent (new_conn ''q'') @ PMsg (RoomJoined m)
      # map PText (unwrap_or (dm_get (srv_pending demo_server) ''car_front'') []) @ ann"
    and a: "\<forall>pid kind peer r. (\<exists>l. PMsg (NewProducer r pid peer kind l) \<in> set ann) \<longleftrightarrow> r = ''car_front''
       \<and> (\<exists>x\<in>set (media_at (srv_sfu (fst ?r)) ''car_front'' peer). mp_id x = pid \<and> protocol_kind (mp_kind x) = kind)"
    by (elim exE conjE) rule
  have "\<exists>x\<in>set (media_at (srv_sfu (fst ?r)) ''car_front'' ''host''). mp_id x = ''p1'' \<and> protocol_kind (mp_kind x) = Video"
    by (simp add: frame_simps media_at_def peer_at_def demo_server_def)
  then obtain l where "PMsg (NewProducer ''car_front'' ''p1'' ''host'' Video l) \<in> set ann"
    using a [rule_format, of "''car_front''" "''p1''" "''host''" Video] by blast
  then show ?thesis unfolding s by (intro exI [of _ l]) simp
qed

end
