(* ===== verification/Relay.thy ===== *)
theory Relay
  imports Admission
begin

text \<open>
  The relay loop of a joined session and its end, \<open>handle_socket\<close> of
  \<open>mediaservo-server/src/signaling.rs\<close>: what a session's messages do (leave, status report,
  emergency command, configuration push, SFU negotiation, relay to the room with the cache for late
  joiners), the retention window after the connection is gone, and its expiry. One step handles one
  frame. The media worker's outcome for the frame is the argument \<open>w\<close>.
\<close>

section \<open>One text of a session\<close>

text \<open>\<open>Inl\<close> leaves the loop, \<open>Inr\<close> goes on.\<close>

type_synonym relay_state = "server \<times> conn"

definition PENDING_CAP :: nat where "PENDING_CAP = 64"

text \<open>The sets of stream ids of the stored and of the new report differ.\<close>

definition streams_changed :: "signaling_message option \<Rightarrow> status_report \<Rightarrow> bool" where
  "streams_changed stored r =
     (case stored of
        Some (StatusReport old) \<Rightarrow> set (map sf_id (sr_streams old)) \<noteq> set (map sf_id (sr_streams r))
      | _ \<Rightarrow> set (map sf_id (sr_streams r)) \<noteq> {})"

definition handle_status_report ::
  "string \<Rightarrow> session \<Rightarrow> status_report \<Rightarrow> server \<Rightarrow> conn \<Rightarrow> relay_state" where
  "handle_status_report ts se r srv c =
     (case status_report_denial (se_identity se) (se_role se) (cn_peer_id c) (se_room se) srv of
        (srv1, Some err) \<Rightarrow> (srv1, send_direct err c)
      | (srv1, None) \<Rightarrow>
          let srv2 = (if streams_changed (status_get (srv_status srv1) (se_room se)) r
                      then fold (\<lambda>s. emit_admin (StreamCreate (se_room se) (sf_id s) ts)) (sr_streams r) srv1
                      else srv1)
          in (srv2\<lparr>srv_status := status_store (srv_status srv2) (se_room se) (StatusReport r)\<rparr>, c))"

definition handle_emergency :: "session \<Rightarrow> string \<Rightarrow> string \<Rightarrow> server \<Rightarrow> conn \<Rightarrow> relay_state" where
  "handle_emergency se command text_str srv c =
     (let owner = room_owner_of srv (se_room se)
      in case can_emergency (se_identity se) owner of
           Inr _ \<Rightarrow>
             let (username, role) = (case se_identity se of
                     Account a \<Rightarrow> (ai_username a, role_as_str (ai_role a))
                   | _ \<Rightarrow> (cn_peer_id c, ''legacy''))
             in (fst (tx_send (se_room se) (PText text_str)
                   (audit_log (AuditEmergencyCommand username role (unwrap_or owner []) command) srv)), c)
         | Inl reason \<Rightarrow>
             let detail = in_room reason (cn_peer_id c) (se_room se)
             in (audit_log (AuthorizationDenied ''emergency'' (cn_peer_id c) detail) srv,
                 send_direct (Error 4031 detail) c))"

definition reject_config_push :: "server \<Rightarrow> conn \<Rightarrow> relay_state" where
  "reject_config_push srv c =
     (audit_log (AuthorizationDenied ''config_push'' (cn_peer_id c)
        (''config push is server-initiated only (peer='' @ cn_peer_id c @ '')'')) srv,
      send_direct (Error 4031 ''config push is server-initiated only'') c)"

text \<open>What is relayed at all; a text that is no message is relayed if it is a raw frame.\<close>

fun relayed_kind :: "signaling_message \<Rightarrow> bool" where
  "relayed_kind (Sdp r t s) = True"
| "relayed_kind (RTCIceCandidate r t c m i) = True"
| "relayed_kind (Frame r c s k d) = True"
| "relayed_kind (EncoderStatus e) = True"
| "relayed_kind _ = False"

fun is_negotiation :: "signaling_message \<Rightarrow> bool" where
  "is_negotiation (Sdp r t s) = True"
| "is_negotiation (RTCIceCandidate r t c m i) = True"
| "is_negotiation _ = False"

fun is_frame_kind :: "signaling_message \<Rightarrow> bool" where
  "is_frame_kind (Frame r c s k d) = True"
| "is_frame_kind (EncoderStatus e) = True"
| "is_frame_kind _ = False"

definition should_relay :: "conn_env \<Rightarrow> string \<Rightarrow> bool" where
  "should_relay env text_str =
     (case en_parse env text_str of Some m \<Rightarrow> relayed_kind m | None \<Rightarrow> en_raw_frame env text_str)"

definition text_negotiation :: "conn_env \<Rightarrow> string \<Rightarrow> bool" where
  "text_negotiation env text_str = (case en_parse env text_str of Some m \<Rightarrow> is_negotiation m | None \<Rightarrow> False)"

definition text_frame :: "conn_env \<Rightarrow> string \<Rightarrow> bool" where
  "text_frame env text_str =
     (case en_parse env text_str of Some m \<Rightarrow> is_frame_kind m | None \<Rightarrow> en_raw_frame env text_str)"

definition relay_target_room :: "conn_env \<Rightarrow> string \<Rightarrow> string \<Rightarrow> string" where
  "relay_target_room env text_str fallback_room =
     (case en_parse env text_str of Some (EncoderStatus e) \<Rightarrow> es_room_id e | _ \<Rightarrow> fallback_room)"

text \<open>\<open>msgs.push(text); if msgs.len() > 64 { msgs.remove(0) }\<close>.\<close>

definition cache_push :: "string \<Rightarrow> string \<Rightarrow> server \<Rightarrow> server" where
  "cache_push room_id text_str srv =
     (let msgs = unwrap_or (dm_get (srv_pending srv) room_id) [] @ [text_str];
          msgs' = (if length msgs > PENDING_CAP then tl msgs else msgs)
      in srv\<lparr>srv_pending := dm_insert room_id msgs' (srv_pending srv)\<rparr>)"

definition no_negotiation_detail :: "string \<Rightarrow> string \<Rightarrow> string" where
  "no_negotiation_detail peer_id room_id =
     ''control negotiation (SDP/ICE) requires control capability (peer='' @ peer_id @ '', room='' @ room_id @ '')''"

definition relay_out :: "conn_env \<Rightarrow> session \<Rightarrow> string \<Rightarrow> server \<Rightarrow> server" where
  "relay_out env se text_str srv =
     (let target = relay_target_room env text_str (se_room se);
          (srv1, delivered) = tx_send target (PText text_str) (get_or_create_channel target srv)
      in if delivered \<and> text_negotiation env text_str then cache_push (se_room se) text_str srv1 else srv1)"

definition relay_message :: "conn_env \<Rightarrow> session \<Rightarrow> string \<Rightarrow> server \<Rightarrow> conn \<Rightarrow> server" where
  "relay_message env se text_str srv c =
     (let device_room = is_device_stream (srv_rooms srv) (se_room se)
      in if \<not> device_room \<and> \<not> sess_can_control (se_identity se) \<and> text_negotiation env text_str
         then audit_log (AuthorizationDenied ''control_negotiation'' (cn_peer_id c)
                (no_negotiation_detail (cn_peer_id c) (se_room se))) srv
         else if device_room \<and> \<not> text_frame env text_str then srv
         else relay_out env se text_str srv)"

definition relay_parsed ::
  "conn_env \<Rightarrow> worker \<Rightarrow> string \<Rightarrow> session \<Rightarrow> string \<Rightarrow> signaling_message \<Rightarrow> server \<Rightarrow> conn \<Rightarrow> relay_state" where
  "relay_parsed env w ts se text_str m srv c =
     (case handle_sfu_message w ts srv (cn_peer_id c) (se_identity se) (se_negotiated se) m of
        (srv1, Some response) \<Rightarrow> (srv1, send_direct response c)
      | (srv1, None) \<Rightarrow>
          (if should_relay env text_str then relay_message env se text_str srv1 c else srv1, c))"

definition relay_text ::
  "conn_env \<Rightarrow> worker \<Rightarrow> string \<Rightarrow> session \<Rightarrow> string \<Rightarrow> server \<Rightarrow> conn \<Rightarrow> relay_state + relay_state" where
  "relay_text env w ts se text_str srv c =
     (case en_parse env text_str of
        None \<Rightarrow> Inr (if should_relay env text_str then relay_message env se text_str srv c else srv, c)
      | Some m \<Rightarrow>
          (case m of
             RoomLeave r p \<Rightarrow> Inl (fst (tx_send (se_room se) (PText text_str) srv), c)
           | StatusReport r \<Rightarrow> Inr (handle_status_report ts se r srv c)
           | EmergencyCommand r command \<Rightarrow> Inr (handle_emergency se command text_str srv c)
           | ConfigPush r t cfg v a \<Rightarrow> Inr (reject_config_push srv c)
           | _ \<Rightarrow> Inr (relay_parsed env w ts se text_str m srv c)))"

section \<open>The loop\<close>

text \<open>One frame: a shutdown in progress ends the session before the frame is looked at.\<close>

definition relay_frame ::
  "conn_env \<Rightarrow> worker \<Rightarrow> string \<Rightarrow> session \<Rightarrow> ws_frame \<Rightarrow> server \<Rightarrow> conn \<Rightarrow> relay_state + relay_state" where
  "relay_frame env w ts se f srv c =
     (if srv_shutdown srv
      then Inl (fst (tx_send (se_room se) (PMsg (RoomLeave (se_room se) (cn_peer_id c))) srv), c)
      else (case f of
        TextFrame text_str \<Rightarrow> relay_text env w ts se text_str srv c
      | CloseFrame \<Rightarrow> Inl (srv, c)
      | _ \<Rightarrow> Inr (srv, c)))"

text \<open>
  After the loop the relay task is aborted, which drops its receiver. If the session still holds
  its ticket, the teardown waits for the retention window to pass (\<open>Some\<close>: the key and sequence
  number the delayed task remembers); otherwise it happens now.
\<close>

definition unsubscribe :: "string \<Rightarrow> server \<Rightarrow> server" where
  "unsubscribe room_id srv =
     srv\<lparr>srv_channels := dm_insert room_id (receivers srv room_id - 1) (srv_channels srv)\<rparr>"

record hold =
  ho_key :: "string \<times> string"
  ho_seq :: u64
  ho_peer :: string
  ho_room :: string

definition end_session :: "string \<Rightarrow> session \<Rightarrow> server \<Rightarrow> conn \<Rightarrow> server \<times> conn \<times> hold option" where
  "end_session ts se srv c =
     (let srv1 = unsubscribe (se_room se) srv;
          key = (identity_key (se_identity se), se_room se)
      in case dm_get (srv_resume srv1) key of
           Some h \<Rightarrow>
             if hr_peer_id h = cn_peer_id c
             then (case finish srv1 c of (srv2, c2) \<Rightarrow>
                     (srv2, c2, Some \<lparr>ho_key = key, ho_seq = hr_seq h, ho_peer = cn_peer_id c, ho_room = se_room se\<rparr>))
             else (case finish (disconnect_session ts (cn_peer_id c) (se_room se) srv1) c of (srv2, c2) \<Rightarrow> (srv2, c2, None))
         | None \<Rightarrow>
             (case finish (disconnect_session ts (cn_peer_id c) (se_room se) srv1) c of (srv2, c2) \<Rightarrow> (srv2, c2, None)))"

text \<open>The delayed task: the ticket is still the one it was armed for, or it does nothing.\<close>

definition hold_expired :: "string \<Rightarrow> hold \<Rightarrow> server \<Rightarrow> server" where
  "hold_expired ts ho srv =
     (case dm_get (srv_resume srv) (ho_key ho) of
        Some h \<Rightarrow>
          if hr_seq h = ho_seq ho
          then disconnect_session ts (ho_peer ho) (ho_room ho)
                 (srv\<lparr>srv_resume := dm_remove (ho_key ho) (srv_resume srv)\<rparr>)
          else srv
      | None \<Rightarrow> srv)"

text \<open>Deferred messages are handled before anything is read from the socket.\<close>

definition session_input ::
  "conn_env \<Rightarrow> worker \<Rightarrow> string \<Rightarrow> session \<Rightarrow> conn_event \<Rightarrow> server \<Rightarrow> conn \<Rightarrow> relay_state + relay_state" where
  "session_input env w ts se ev srv c =
     (case cn_deferred c of
        d # ds \<Rightarrow> relay_frame env w ts se (TextFrame (en_print env d)) srv (c\<lparr>cn_deferred := ds\<rparr>)
      | [] \<Rightarrow> (case ev of Received f \<Rightarrow> relay_frame env w ts se f srv c | _ \<Rightarrow> Inl (srv, c)))"

definition session_step ::
  "conn_env \<Rightarrow> worker \<Rightarrow> string \<Rightarrow> session \<Rightarrow> conn_event \<Rightarrow> server \<Rightarrow> conn \<Rightarrow> server \<times> conn \<times> hold option" where
  "session_step env w ts se ev srv c =
     (case session_input env w ts se ev srv c of
        Inr (srv1, c1) \<Rightarrow> (srv1, c1, None)
      | Inl (srv1, c1) \<Rightarrow> end_session ts se srv1 c1)"

section \<open>Emergency commands\<close>

lemma tx_send_frame [frame_simps]:
  "srv_rooms (fst (tx_send r p s)) = srv_rooms s" "srv_sfu (fst (tx_send r p s)) = srv_sfu s"
  "srv_resume (fst (tx_send r p s)) = srv_resume s" "srv_bindings (fst (tx_send r p s)) = srv_bindings s"
  "srv_owners (fst (tx_send r p s)) = srv_owners s" "srv_pending (fst (tx_send r p s)) = srv_pending s"
  "srv_audit (fst (tx_send r p s)) = srv_audit s" "srv_status (fst (tx_send r p s)) = srv_status s"
  "srv_producer_owners (fst (tx_send r p s)) = srv_producer_owners s" "srv_shutdown (fst (tx_send r p s)) = srv_shutdown s"
  "srv_active_connections (fst (tx_send r p s)) = srv_active_connections s"
  "srv_resume_seq (fst (tx_send r p s)) = srv_resume_seq s" "srv_channels (fst (tx_send r p s)) = srv_channels s"
  "srv_devices (fst (tx_send r p s)) = srv_devices s"
  by (simp_all add: tx_send_def)

definition emergency_allowed :: "session_identity \<Rightarrow> string option \<Rightarrow> bool" where
  "emergency_allowed i owner =
     (i = Legacy \<or> (\<exists>a v. i = Account a \<and> owner = Some v \<and> ai_role a \<in> {Operator, Admin} \<and> can_access_vehicle a v))"

definition emergency_actor :: "session \<Rightarrow> conn \<Rightarrow> string \<times> string" where
  "emergency_actor se c =
     (case se_identity se of Account a \<Rightarrow> (ai_username a, role_as_str (ai_role a)) | _ \<Rightarrow> (cn_peer_id c, ''legacy''))"

text \<open>
  An emergency command goes out exactly if it may, and never unrecorded. A session's emergency
  command reaches the channel of its room, as the one frame sent and with the text unchanged,
  exactly if the session is a legacy one or an account of an operator or admin with access to the
  vehicle that owns the room; the newest audit event is then the command with who gave it, in which
  role and for which vehicle. Otherwise nothing is sent to the room, the sender gets error 4031, and
  the newest audit event is the denial with the same text. Either way no other state changes and
  the session goes on.
\<close>

theorem emergency_command_audited:
  assumes "en_parse env t = Some (EmergencyCommand r command)"
  shows "\<exists>srv' c'. relay_text env w ts se t srv c = Inr (srv', c')
    \<and> srv' = srv\<lparr>srv_audit := srv_audit srv', srv_out := srv_out srv'\<rparr>
    \<and> (if emergency_allowed (se_identity se) (room_owner_of srv (se_room se))
       then c' = c \<and> srv_out srv' = srv_out srv @ [Broadcast (se_room se) (PText t) (receivers srv (se_room se))]
         \<and> srv_audit srv' = log_event (srv_audit srv) (AuditEmergencyCommand (fst (emergency_actor se c))
             (snd (emergency_actor se c)) (unwrap_or (room_owner_of srv (se_room se)) []) command)
       else srv_out srv' = srv_out srv
         \<and> (\<exists>detail. c' = send_direct (Error 4031 detail) c
              \<and> srv_audit srv' = log_event (srv_audit srv) (AuthorizationDenied ''emergency'' (cn_peer_id c) detail)))"
proof -
  have gate: "can_emergency (se_identity se) (room_owner_of srv (se_room se)) = Inr () \<longleftrightarrow>
      emergency_allowed (se_identity se) (room_owner_of srv (se_room se))"
    by (auto simp: gate_simps emergency_allowed_def role_can_emergency_def)
  show ?thesis
  proof (cases "can_emergency (se_identity se) (room_owner_of srv (se_room se))")
    case (Inl reason)
    then show ?thesis using gate assms
      by (auto simp: relay_text_def handle_emergency_def Let_def audit_log_def)
  next
    case (Inr u)
    then have "emergency_allowed (se_identity se) (room_owner_of srv (se_room se))" using gate by simp
    then show ?thesis using Inr assms
      by (auto simp: relay_text_def handle_emergency_def Let_def audit_log_def tx_send_def emergency_actor_def
          receivers_def split: session_identity.splits)
  qed
qed

definition demo_operator :: session where
  "demo_operator = \<lparr>se_room = ''car'', se_role = Consumer, se_device = None,
     se_identity = Account \<lparr>ai_username = ''op'', ai_role = Operator, ai_vehicles = [''car'']\<rparr>, se_negotiated = 2\<rparr>"

theorem emergency_command_audited_witness:
  "\<exists>srv' c'. relay_text (demo_env\<lparr>en_parse := (\<lambda>t. Some (EmergencyCommand ''car'' ''stop''))\<rparr>) demo_worker ''ts''
      demo_operator ''cmd'' demo_server (new_conn ''q'') = Inr (srv', c')
    \<and> srv_out srv' = srv_out demo_server @ [Broadcast ''car'' (PText ''cmd'') 2]"
proof -
  let ?env = "demo_env\<lparr>en_parse := (\<lambda>t. Some (EmergencyCommand ''car'' ''stop''))\<rparr>"
  have p: "en_parse ?env ''cmd'' = Some (EmergencyCommand ''car'' ''stop'')" by simp
  have room: "se_room demo_operator = ''car''" by (simp add: demo_operator_def)
  have "room_owner_of demo_server ''car'' = Some ''car''" and rec: "receivers demo_server ''car'' = 2"
    by (simp_all add: room_owner_of_def demo_server_def receivers_def)
  then have "emergency_allowed (se_identity demo_operator) (room_owner_of demo_server (se_room demo_operator))"
    by (simp add: room emergency_allowed_def can_access_vehicle_def) (simp add: demo_operator_def)
  then show ?thesis
    using emergency_command_audited [OF p, of demo_worker "''ts''" demo_operator demo_server "new_conn ''q''"] rec
    by (auto simp: room)
qed

section \<open>What is forwarded\<close>

text \<open>The client texts among the frames sent so far, with the room they went to.\<close>

fun texts :: "out_event list \<Rightarrow> (string \<times> string) list" where
  "texts [] = []"
| "texts (Broadcast r (PText x) n # es) = (r, x) # texts es"
| "texts (Broadcast r (PMsg m) n # es) = texts es"
| "texts (AdminEv a # es) = texts es"

lemma texts_append [simp]: "texts (xs @ ys) = texts xs @ texts ys"
  by (induction xs rule: texts.induct) auto

definition sent :: "server \<Rightarrow> (string \<times> string) list" where
  "sent srv = texts (srv_out srv)"

lemma sent_simps [simp]:
  "sent (fst (tx_send r (PMsg m) s)) = sent s" "sent (fst (tx_send r (PText x) s)) = sent s @ [(r, x)]"
  "sent (audit_log e s) = sent s" "sent (emit_admin a s) = sent s" "sent (get_or_create_channel r s) = sent s"
  "sent (s\<lparr>srv_sfu := f\<rparr>) = sent s" "sent (s\<lparr>srv_producer_owners := g\<rparr>) = sent s"
  "sent (s\<lparr>srv_t4_gone_seen := h\<rparr>) = sent s" "sent (s\<lparr>srv_status := i\<rparr>) = sent s"
  "sent (s\<lparr>srv_pending := j\<rparr>) = sent s" "sent (deferred_cleanup r s) = sent s"
  by (simp_all add: sent_def tx_send_def emit_admin_def frame_simps)

lemma sent_fold: "(\<And>x s. x \<in> set xs \<Longrightarrow> sent (f x s) = sent s) \<Longrightarrow> sent (fold f xs s) = sent s"
  by (induction xs arbitrary: s) auto

lemma sent_announce [simp]: "sent (announce_producers_closed ts r p d c s) = sent s"
proof -
  have one: "sent (announce_one r p d x s) = sent s" for x s
    by (simp add: announce_one_def Let_def)
  then have "sent (fold (announce_one r p d) c (get_or_create_channel r s)) = sent s"
    by (subst sent_fold) simp_all
  then show ?thesis by (cases d) (simp_all add: announce_producers_closed_def Let_def)
qed

lemma sent_produce [simp]: "sent (fst (handle_produce s w p i m)) = sent s"
proof -
  obtain sfu' res where c: "create_producer (srv_sfu s) (pr_room_id m) (pr_peer_id m) (pr_kind m)
      (pr_transport_id m) (pr_label m) (w_rtp_error w) (w_produced w) = (sfu', res)" by force
  show ?thesis
    by (cases res; cases "can_produce i (pr_room_id m)")
      (simp_all add: handle_produce_def deny_def Let_def c case_prod_beta)
qed

lemma sent_create_data [simp]: "sent (fst (handle_create_data_producer s w p i n m)) = sent s"
proof -
  obtain sfu' res where c: "create_data_producer (srv_sfu s) (dp_room_id m) (dp_peer_id m) (dp_label m) (dp_protocol m)
      (dp_sctp_stream_parameters m) (dp_transport_id m) (w_data_produced w) = (sfu', res)" by force
  show ?thesis
    by (cases res; cases "data_produce_denial p i n (dp_room_id m)")
      (simp_all add: handle_create_data_producer_def deny_def Let_def c)
qed

lemma sent_other_handlers [simp]:
  "sent (fst (handle_consume s w p i r q x t)) = sent s"
  "sent (fst (handle_consume_data s w p i r q dir x t)) = sent s"
  "sent (fst (handle_sfu_stats s w p i a b)) = sent s"
  "sent (fst (handle_create_transport s w p r q d)) = sent s"
  "sent (fst (handle_connect_transport s w r q tr)) = sent s"
  "sent (fst (handle_get_caps s w r)) = sent s"
  "sent (fst (handle_set_layers s w r q k)) = sent s"
  "sent (fst (handle_downstream_gone s ts p g r)) = sent s"
  by (auto simp: handle_consume_def handle_consume_data_def handle_sfu_stats_def deny_def handle_create_transport_def
      handle_connect_transport_def handle_get_caps_def handle_set_layers_def handle_downstream_gone_def Let_def
      split: sum.split option.split prod.split)

lemma sent_sfu_message [simp]: "sent (fst (handle_sfu_message w ts s p i n m)) = sent s"
  by (cases m) (simp_all add: handle_sfu_message_def)

lemma sent_cache_push [simp]: "sent (cache_push r x s) = sent s"
  by (simp add: cache_push_def Let_def)

lemma sent_relay_out: "sent (relay_out env se t s) = sent s @ [(relay_target_room env t (se_room se), t)]"
proof -
  have "sent (fst (tx_send r (PText x) (get_or_create_channel r s))) = sent s @ [(r, x)]" for r x s by simp
  then show ?thesis by (simp add: relay_out_def Let_def case_prod_beta)
qed

text \<open>The texts of a session that its room sees.\<close>

definition forwards :: "conn_env \<Rightarrow> session \<Rightarrow> server \<Rightarrow> string \<Rightarrow> bool" where
  "forwards env se srv t =
     (case en_parse env t of
        None \<Rightarrow> en_raw_frame env t
      | Some m \<Rightarrow>
          (case m of
             RoomLeave r p \<Rightarrow> True
           | EmergencyCommand r cmd \<Rightarrow> emergency_allowed (se_identity se) (room_owner_of srv (se_room se))
           | _ \<Rightarrow> is_frame_kind m
                 \<or> is_negotiation m \<and> \<not> is_device_stream (srv_rooms srv) (se_room se) \<and> sess_can_control (se_identity se)))"

definition server_after :: "relay_state + relay_state \<Rightarrow> server" where
  "server_after r = (case r of Inl x \<Rightarrow> fst x | Inr x \<Rightarrow> fst x)"

lemma relay_message_sent:
  assumes "should_relay env t"
  shows "sent (relay_message env se t s c) = sent s @
    (if text_frame env t \<or> text_negotiation env t \<and> \<not> is_device_stream (srv_rooms s) (se_room se) \<and> sess_can_control (se_identity se)
     then [(relay_target_room env t (se_room se), t)] else [])"
proof (cases "en_parse env t")
  case None
  then show ?thesis using assms
    by (simp add: relay_message_def Let_def text_frame_def text_negotiation_def should_relay_def sent_relay_out)
next
  case (Some m)
  then show ?thesis using assms
    by (cases m) (simp_all add: relay_message_def Let_def text_frame_def text_negotiation_def should_relay_def sent_relay_out)
qed

lemma relay_parsed_sent:
  assumes "en_parse env t = Some m"
  shows "sent (fst (relay_parsed env w ts se t m s c)) = sent s @
    (if is_frame_kind m \<or> is_negotiation m \<and> \<not> is_device_stream (srv_rooms s) (se_room se) \<and> sess_can_control (se_identity se)
     then [(relay_target_room env t (se_room se), t)] else [])"
proof (cases "relayed_kind m")
  case True
  then have h: "handle_sfu_message w ts s p i n m = (s, None)" for p i n
    by (cases m) (simp_all add: handle_sfu_message_def)
  show ?thesis using True assms
    by (simp add: relay_parsed_def h should_relay_def relay_message_sent text_frame_def text_negotiation_def)
next
  case False
  then have k: "\<not> is_frame_kind m" "\<not> is_negotiation m" by (cases m; simp)+
  obtain s1 r where r: "handle_sfu_message w ts s (cn_peer_id c) (se_identity se) (se_negotiated se) m = (s1, r)" by force
  have "sent s1 = sent s" using sent_sfu_message [of w ts s "cn_peer_id c" "se_identity se" "se_negotiated se" m] r by simp
  then show ?thesis using False k assms by (cases r) (simp_all add: relay_parsed_def r should_relay_def)
qed

lemma status_report_sent: "sent (fst (handle_status_report ts se r s c)) = sent s"
proof -
  obtain s1 e where d: "status_report_denial (se_identity se) (se_role se) (cn_peer_id c) (se_room se) s = (s1, e)" by force
  then have "sent s1 = sent s" by (auto simp: status_report_denial_def Let_def split: option.splits)
  moreover have "sent (fold (\<lambda>x. emit_admin (StreamCreate (se_room se) (sf_id x) ts)) xs s1) = sent s1" for xs
    by (rule sent_fold) simp
  ultimately show ?thesis by (cases e) (auto simp: handle_status_report_def d Let_def if_distrib [of sent])
qed

text \<open>
  C35. Of the texts a session sends, its room sees exactly these, each once and unchanged: media
  frames and encoder reports (the latter in the room the report names), also frames in the raw
  form; its own leave; an emergency command that may be given; and negotiation messages, these only
  from identities that may control and only while the room is no device-stream room. Nothing else
  a client writes is ever put on a channel, whatever the SFU does with it.
\<close>

theorem relay_forwards_exactly:
  "sent (server_after (relay_text env w ts se t srv c)) = sent srv @
     (if forwards env se srv t then [(relay_target_room env t (se_room se), t)] else [])"
proof (cases "en_parse env t")
  case None
  then show ?thesis
    by (simp add: relay_text_def server_after_def forwards_def should_relay_def relay_message_sent text_frame_def
        text_negotiation_def)
next
  case (Some m)
  have emergency: "sent (fst (handle_emergency se cmd t srv c)) =
      sent srv @ (if emergency_allowed (se_identity se) (room_owner_of srv (se_room se)) then [(se_room se, t)] else [])" for cmd
  proof -
    have gate: "can_emergency (se_identity se) (room_owner_of srv (se_room se)) = Inr () \<longleftrightarrow>
        emergency_allowed (se_identity se) (room_owner_of srv (se_room se))"
      by (auto simp: gate_simps emergency_allowed_def role_can_emergency_def)
    show ?thesis using gate
      by (cases "can_emergency (se_identity se) (room_owner_of srv (se_room se))")
        (auto simp: handle_emergency_def Let_def split: prod.splits)
  qed
  show ?thesis using Some
    by (cases m) (simp_all add: relay_text_def server_after_def forwards_def relay_parsed_sent status_report_sent
        emergency reject_config_push_def relay_target_room_def)
qed

text \<open>
  In the table a room always is a device-stream room, so as long as the session's room exists no
  negotiation message is relayed, from whomever.
\<close>

lemma negotiation_never_relayed:
  assumes "dm_get (srv_rooms srv) (se_room se) \<noteq> None" and "en_parse env t = Some m" and "is_negotiation m"
  shows "sent (server_after (relay_text env w ts se t srv c)) = sent srv"
proof -
  have "is_device_stream (srv_rooms srv) (se_room se)"
    using assms(1) by (auto simp: is_device_stream_def intro: room_type.exhaust)
  then show ?thesis using assms(2,3) by (cases m) (simp_all add: relay_text_def server_after_def relay_parsed_sent)
qed

section \<open>The retention window\<close>

lemma unsubscribe_frame [frame_simps]:
  "srv_rooms (unsubscribe r s) = srv_rooms s" "srv_sfu (unsubscribe r s) = srv_sfu s"
  "srv_resume (unsubscribe r s) = srv_resume s" "srv_bindings (unsubscribe r s) = srv_bindings s"
  "srv_owners (unsubscribe r s) = srv_owners s" "srv_pending (unsubscribe r s) = srv_pending s"
  "srv_status (unsubscribe r s) = srv_status s" "srv_producer_owners (unsubscribe r s) = srv_producer_owners s"
  "srv_shutdown (unsubscribe r s) = srv_shutdown s" "srv_resume_seq (unsubscribe r s) = srv_resume_seq s"
  "srv_active_connections (unsubscribe r s) = srv_active_connections s" "srv_audit (unsubscribe r s) = srv_audit s"
  "srv_devices (unsubscribe r s) = srv_devices s" "srv_out (unsubscribe r s) = srv_out s"
  by (simp_all add: unsubscribe_def)

text \<open>The ticket a session holds for the time after its connection.\<close>

definition holds_ticket :: "session \<Rightarrow> conn \<Rightarrow> server \<Rightarrow> held_resume \<Rightarrow> bool" where
  "holds_ticket se c srv h =
     (dm_get (srv_resume srv) (identity_key (se_identity se), se_room se) = Some h \<and> hr_peer_id h = cn_peer_id c)"

lemma end_session_held:
  assumes "holds_ticket se c srv h"
  shows "end_session ts se srv c = (fst (finish (unsubscribe (se_room se) srv) c), snd (finish (unsubscribe (se_room se) srv) c),
    Some \<lparr>ho_key = (identity_key (se_identity se), se_room se), ho_seq = hr_seq h, ho_peer = cn_peer_id c, ho_room = se_room se\<rparr>)"
  using assms by (simp add: end_session_def Let_def holds_ticket_def frame_simps case_prod_beta)

lemma end_session_now:
  assumes "\<nexists>h. holds_ticket se c srv h"
  shows "end_session ts se srv c =
    (let r = finish (disconnect_session ts (cn_peer_id c) (se_room se) (unsubscribe (se_room se) srv)) c in (fst r, snd r, None))"
  using assms by (auto simp: end_session_def Let_def holds_ticket_def frame_simps case_prod_beta split: option.split)


text \<open>The host of a vehicle room loses its connection and comes back in time.\<close>

definition demo_host :: session where
  "demo_host = \<lparr>se_room = ''car'', se_role = Host, se_device = Some ''car'', se_identity = Device ''car'', se_negotiated = 3\<rparr>"

definition demo_window_server :: server where
  "demo_window_server = demo_held_server\<lparr>srv_resume_seq := 1\<rparr>"


text \<open>
  The task armed by a stale socket. A device that resumes while its old connection has not ended
  yet shares the peer id with it; when the old connection ends, it finds the new ticket and arms
  its delayed task for that one, and the task tears the live session down.
\<close>

lemma stale_socket_ends_resumed_session:
  fixes env :: conn_env and fr :: fresh
  assumes res: "resumes c2 (se_identity se) (se_room se) srv" and h: "holds_ticket se c srv h"
    and i: "se_identity se = Device d" and fits: "length (srv_resume srv) \<le> RESUME_GLOBAL_CAP" "dm_wf (srv_resume srv)"
    and gate: "admission_denial (burnt (d, se_room se) srv) (Device d) Host (hr_peer_id h) (se_room se) = None"
  defines "live \<equiv> admit env fr srv c2 (se_room se) Host (Some d) (Device d)"
  shows "cn_peer_id (snd live) = cn_peer_id c \<and> (\<exists>se2. cn_phase (snd live) = InSession se2)
    \<and> (\<exists>ho srv2 c'. end_session ts se (fst live) c = (srv2, c', Some ho)
         \<and> hold_expired ts' ho srv2 = disconnect_session ts' (cn_peer_id c) (se_room se) (burnt (d, se_room se) srv2))"
proof -
  let ?key = "(d, se_room se)"
  have k: "dm_get (srv_resume srv) ?key = Some h" and p: "hr_peer_id h = cn_peer_id c"
    using h i by (simp_all add: holds_ticket_def)
  have res': "resumes c2 (Device d) (se_room se) srv" using res i by simp
  have n3: "PROTOCOL_MIN_RESUME \<le> negotiate_protocol (cn_claim c2)" using res' by (auto simp: resumes_iff)
  have live: "live = start_session env fr (audit_log (PeerJoin (hr_peer_id h) (se_room se) (debug_role Host)) (burnt ?key srv))
      (c2\<lparr>cn_peer_id := hr_peer_id h\<rparr>) (se_room se) Host (Some d) (Device d) (negotiate_protocol (cn_claim c2))"
    unfolding live_def admit_resumed [OF res', unfolded identity_key.simps, OF k] using gate by (simp add: Let_def)
  let ?new = "\<lparr>hr_peer_id = hr_peer_id h, hr_nonce = fr_ticket fr, hr_negotiated = negotiate_protocol (cn_claim c2),
      hr_seq = srv_resume_seq srv\<rparr>"
  have "Suc (length (dm_remove ?key (srv_resume srv))) = length (srv_resume srv)"
    by (rule length_remove_key [OF fits(2)]) (simp add: k)
  then have "length (dm_insert ?key ?new (dm_remove ?key (srv_resume srv))) \<le> RESUME_GLOBAL_CAP"
    using fits(1) dm_length_insert [of ?key ?new "dm_remove ?key (srv_resume srv)"] by simp
  then have "dm_get (srv_resume (fst live)) ?key = Some ?new"
    using n3 by (simp add: live start_session_resume frame_simps prune_fits)
  then have held: "holds_ticket se c (fst live) ?new" using i p by (simp add: holds_ticket_def)
  have "hold_expired ts' \<lparr>ho_key = ?key, ho_seq = hr_seq ?new, ho_peer = cn_peer_id c, ho_room = se_room se\<rparr>
      (fst (finish (unsubscribe (se_room se) (fst live)) c))
    = disconnect_session ts' (cn_peer_id c) (se_room se) (burnt ?key (fst (finish (unsubscribe (se_room se) (fst live)) c)))"
    using held i by (simp add: hold_expired_def finish_def frame_simps holds_ticket_def burnt_def)
  then show ?thesis
    using end_session_held [OF held, of ts] i p by (simp add: live)
qed

section \<open>Status reports and the cache\<close>

text \<open>
  Only a device session or the host of the room can set what the room reports. A report from
  anyone else is answered with error 4031 and audited, and the registry keeps its reports. An
  accepted report replaces the room's, whatever room it names itself, and no other room's; the
  admin panel gets one event per stream exactly if the set of stream ids differs from the one
  reported before (or, at the first report, if there are any).
\<close>

theorem status_report_stored:
  assumes "en_parse env t = Some (StatusReport r)"
  shows "\<exists>srv' c'. relay_text env w ts se t srv c = Inr (srv', c')
    \<and> srv_rooms srv' = srv_rooms srv \<and> srv_sfu srv' = srv_sfu srv
    \<and> (if (\<exists>d. se_identity se = Device d) \<or> se_role se = Host
       then c' = c \<and> srv_audit srv' = srv_audit srv
         \<and> (\<forall>k. status_get (srv_status srv') k = (if k = se_room se then Some (StatusReport r) else status_get (srv_status srv) k))
         \<and> srv_out srv' = srv_out srv @
             (if streams_changed (status_get (srv_status srv) (se_room se)) r
              then map (\<lambda>s. AdminEv (StreamCreate (se_room se) (sf_id s) ts)) (sr_streams r) else [])
       else srv_status srv' = srv_status srv \<and> srv_out srv' = srv_out srv
         \<and> (\<exists>x. c' = send_direct (Error 4031 x) c
              \<and> srv_audit srv' = log_event (srv_audit srv) (AuthorizationDenied ''status_report'' (cn_peer_id c) x)))"
proof (cases "(\<exists>d. se_identity se = Device d) \<or> se_role se = Host")
  case True
  have ev: "fold (\<lambda>s. emit_admin (StreamCreate (se_room se) (sf_id s) ts)) xs s =
      s\<lparr>srv_out := srv_out s @ map (\<lambda>s. AdminEv (StreamCreate (se_room se) (sf_id s) ts)) xs\<rparr>" for xs s
    by (induction xs arbitrary: s) (simp_all add: emit_admin_def)
  have d: "status_report_denial (se_identity se) (se_role se) (cn_peer_id c) (se_room se) srv = (srv, None)"
    using True by (simp add: status_report_denial_def status_report_denial_reason_def)
  show ?thesis using assms True
    by (auto simp: relay_text_def handle_status_report_def d Let_def ev status_defs)
next
  case False
  then obtain reason where "status_report_denial_reason (se_identity se) (se_role se) = Some reason"
    unfolding status_report_denial_reason_def by simp
  then show ?thesis using assms False
    by (auto simp: relay_text_def handle_status_report_def status_report_denial_def Let_def audit_log_def)
qed

theorem status_report_stored_witness:
  "\<exists>r srv' c'. relay_text (demo_env\<lparr>en_parse := (\<lambda>t. Some (StatusReport r))\<rparr>) demo_worker ''ts'' demo_host ''x''
       demo_server (new_conn ''h'') = Inr (srv', c') \<and> status_get (srv_status srv') ''car'' = Some (StatusReport r)"
proof -
  fix r
  let ?env = "demo_env\<lparr>en_parse := (\<lambda>t. Some (StatusReport r))\<rparr>"
  have p: "en_parse ?env ''x'' = Some (StatusReport r)" by simp
  have "se_identity demo_host = Device ''car''" "se_room demo_host = ''car''" by (simp_all add: demo_host_def)
  then show ?thesis
    using status_report_stored [OF p, of demo_worker "''ts''" demo_host demo_server "new_conn ''h''"]
    by (intro exI [of _ r]) auto
qed

lemma cache_push_bound:
  assumes "\<forall>r xs. dm_get (srv_pending s) r = Some xs \<longrightarrow> length xs \<le> PENDING_CAP"
  shows "\<forall>r xs. dm_get (srv_pending (cache_push room t s)) r = Some xs \<longrightarrow> length xs \<le> PENDING_CAP"
proof (intro allI impI)
  fix r xs
  assume g: "dm_get (srv_pending (cache_push room t s)) r = Some xs"
  have "length (unwrap_or (dm_get (srv_pending s) room) []) \<le> PENDING_CAP"
    using assms by (cases "dm_get (srv_pending s) room") auto
  then show "length xs \<le> PENDING_CAP"
    using g assms by (auto simp: cache_push_def Let_def split: if_splits)
qed

end
