(* ===== verification/SignalSystem.thy ===== *)
theory SignalSystem
  imports Relay
begin

text \<open>
  The signaling server as a transition system: connections that open, join, talk and end in any
  interleaving, delayed tasks of the retention windows, configuration pushes and the changes the
  admin interface makes to what connections read. A step handles one event of one connection, so
  two connections interleave between events and not inside one; the lock-free interleavings of the
  asynchronous runtime inside a handler are not modelled.
\<close>

section \<open>The server invariant\<close>

definition pending_ok :: "server \<Rightarrow> bool" where
  "pending_ok s = (\<forall>r xs. dm_get (srv_pending s) r = Some xs \<longrightarrow> length xs \<le> PENDING_CAP)"

definition server_inv :: "server \<Rightarrow> bool" where
  "server_inv s =
     (rooms_inv (srv_rooms s) \<and> sfu_inv (srv_sfu s)
      \<and> dm_wf (srv_resume s) \<and> length (srv_resume s) \<le> RESUME_GLOBAL_CAP
      \<and> pending_ok s \<and> length (srv_audit s) \<le> AUDIT_RING_CAP
      \<and> dm_wf (srv_bindings s) \<and> dm_wf (srv_owners s) \<and> dm_wf (srv_producer_owners s))"

named_theorems inv_intros \<open>operations that keep the server invariant\<close>

lemma log_event_bound: "length (log_event ring e) \<le> AUDIT_RING_CAP"
  by (simp add: log_event_def ring_trim_drop AUDIT_RING_CAP_def)

lemma inv_audit [inv_intros]: "server_inv s \<Longrightarrow> server_inv (audit_log e s)"
  by (simp add: server_inv_def pending_ok_def audit_log_def log_event_bound)

lemma inv_send [inv_intros]: "server_inv s \<Longrightarrow> server_inv (fst (tx_send r p s))"
  by (simp add: server_inv_def pending_ok_def tx_send_def)

lemma inv_channel [inv_intros]: "server_inv s \<Longrightarrow> server_inv (get_or_create_channel r s)"
  by (simp add: server_inv_def pending_ok_def get_or_create_channel_def)

lemma inv_subscribe [inv_intros]:
  "server_inv s \<Longrightarrow> server_inv (subscribe r s)" "server_inv s \<Longrightarrow> server_inv (unsubscribe r s)"
  by (simp_all add: server_inv_def pending_ok_def subscribe_def unsubscribe_def)

lemma inv_emit [inv_intros]: "server_inv s \<Longrightarrow> server_inv (emit_admin e s)"
  by (simp add: server_inv_def pending_ok_def emit_admin_def)

lemma inv_free_fields [simp]:
  "server_inv (s\<lparr>srv_active_connections := n\<rparr>) = server_inv s" "server_inv (s\<lparr>srv_shutdown := b\<rparr>) = server_inv s"
  "server_inv (s\<lparr>srv_psk := k\<rparr>) = server_inv s" "server_inv (s\<lparr>srv_devices := reg\<rparr>) = server_inv s"
  "server_inv (s\<lparr>srv_pending_devices := tab\<rparr>) = server_inv s" "server_inv (s\<lparr>srv_allow_dev_enroll := a\<rparr>) = server_inv s"
  "server_inv (s\<lparr>srv_status := st\<rparr>) = server_inv s" "server_inv (s\<lparr>srv_t4_gone_seen := g\<rparr>) = server_inv s"
  by (simp_all add: server_inv_def pending_ok_def)

lemma inv_sfu [inv_intros]: "server_inv s \<Longrightarrow> sfu_inv f \<Longrightarrow> server_inv (s\<lparr>srv_sfu := f\<rparr>)"
  by (simp add: server_inv_def pending_ok_def)

lemma inv_rooms [inv_intros]: "server_inv s \<Longrightarrow> rooms_inv r \<Longrightarrow> server_inv (s\<lparr>srv_rooms := r\<rparr>)"
  by (simp add: server_inv_def pending_ok_def)

lemma inv_producer_owners [inv_intros]: "server_inv s \<Longrightarrow> dm_wf m \<Longrightarrow> server_inv (s\<lparr>srv_producer_owners := m\<rparr>)"
  by (simp add: server_inv_def pending_ok_def)

lemma inv_owners [inv_intros]: "server_inv s \<Longrightarrow> dm_wf m \<Longrightarrow> server_inv (s\<lparr>srv_owners := m\<rparr>)"
  by (simp add: server_inv_def pending_ok_def)

lemma inv_bindings [inv_intros]: "server_inv s \<Longrightarrow> dm_wf m \<Longrightarrow> server_inv (s\<lparr>srv_bindings := m\<rparr>)"
  by (simp add: server_inv_def pending_ok_def)

lemma inv_burnt [inv_intros]: "server_inv s \<Longrightarrow> server_inv (s\<lparr>srv_resume := dm_remove k (srv_resume s)\<rparr>)"
proof -
  have "length (dm_remove k m) \<le> length m" for m :: resume_table
    by (rule length_delete_le)
  then show "server_inv s \<Longrightarrow> ?thesis"
    by (auto simp: server_inv_def pending_ok_def intro: le_trans)
qed

lemma invD:
  assumes "server_inv s"
  shows "rooms_inv (srv_rooms s)" "sfu_inv (srv_sfu s)" "dm_wf (srv_resume s)" "length (srv_resume s) \<le> RESUME_GLOBAL_CAP"
    "pending_ok s" "dm_wf (srv_bindings s)" "dm_wf (srv_owners s)" "dm_wf (srv_producer_owners s)"
  using assms by (simp_all add: server_inv_def)

lemma inv_fold:
  "(\<And>x s. x \<in> set xs \<Longrightarrow> server_inv s \<Longrightarrow> server_inv (f x s)) \<Longrightarrow> server_inv s \<Longrightarrow> server_inv (fold f xs s)"
  by (induction xs arbitrary: s) auto

lemma inv_announce_one: "server_inv s \<Longrightarrow> server_inv (announce_one r p d x s)"
proof -
  assume s: "server_inv s"
  have "server_inv (t\<lparr>srv_producer_owners := dm_remove (fst x) (srv_producer_owners t)\<rparr>)" if "server_inv t" for t
    by (intro inv_producer_owners dm_wf_remove invD(8) that)
  then show ?thesis using inv_send [OF s] by (simp add: announce_one_def Let_def)
qed

lemma inv_deferred_cleanup: "server_inv s \<Longrightarrow> server_inv (deferred_cleanup r s)"
proof -
  assume s: "server_inv s"
  have "server_inv (s\<lparr>srv_status := x, srv_owners := dm_remove r (srv_owners s)\<rparr>)" for x
    by (rule inv_owners) (simp_all add: s dm_wf_remove [OF invD(7) [OF s]])
  then show ?thesis using s unfolding deferred_cleanup_def by (simp only: if_split) blast
qed

lemma inv_announce [inv_intros]: "server_inv s \<Longrightarrow> server_inv (announce_producers_closed ts r p d c s)"
  by (cases d) (simp_all add: announce_producers_closed_def Let_def inv_deferred_cleanup inv_emit inv_fold inv_announce_one inv_channel)

lemma inv_announce_fold [inv_intros]:
  "server_inv s \<Longrightarrow> server_inv (fold (\<lambda>(room, closed). announce_producers_closed ts room p d closed) xs s)"
  by (rule inv_fold) (auto intro: inv_intros)

lemma inv_reclaim_key: "server_inv s \<Longrightarrow> server_inv (reclaim_key ts p d key s)"
proof -
  assume s: "server_inv s"
  have "server_inv (reclaim_owned ts p d ids s)" for ids
  proof -
    obtain f rem where f: "remove_producers_by_ids (srv_sfu s) ids = (f, rem)" by force
    then have "sfu_inv f" using sfu_inv_remove_ids [OF invD(2) [OF s], of ids] by simp
    then have "server_inv (s\<lparr>srv_sfu := f, srv_producer_owners := dm_removes ids (srv_producer_owners s)\<rparr>)"
      using inv_producer_owners [OF inv_sfu [OF s]] invD(8) [OF s] by (simp add: dm_wf_removes)
    then show ?thesis by (simp add: reclaim_owned_def f Let_def inv_announce_fold)
  qed
  then show ?thesis using s by (simp add: reclaim_key_def)
qed

lemma inv_disconnect_sfu: "server_inv s \<Longrightarrow> server_inv (disconnect_sfu ts p s)"
proof -
  assume s: "server_inv s"
  have "server_inv (s\<lparr>srv_sfu := fst (remove_peer_global (srv_sfu s) p)\<rparr>)"
    by (intro inv_sfu s sfu_inv_remove_global invD(2) [OF s])
  then have "server_inv (global_step ts p s)" unfolding global_step_def by (rule inv_announce_fold)
  then have "server_inv (reclaim_key ts p None (session_key p) (global_step ts p s))" by (rule inv_reclaim_key)
  then show ?thesis by (simp add: disconnect_sfu_def Let_def inv_reclaim_key split: option.split)
qed

lemma inv_disconnect_session [inv_intros]: "server_inv s \<Longrightarrow> server_inv (disconnect_session ts p r s)"
proof -
  assume s: "server_inv s"
  define s1 where "s1 = disconnect_sfu ts p s"
  have i1: "server_inv s1" unfolding s1_def by (rule inv_disconnect_sfu [OF s])
  obtain rooms2 gone evs where l: "leave_room (srv_rooms s1) r p = (rooms2, gone, evs)" by (metis prod_cases3)
  have r2: "rooms_inv rooms2" using rooms_inv_leave [OF invD(1) [OF i1], of r p] l by simp
  define s2 where "s2 = fold audit_log evs (s1\<lparr>srv_rooms := rooms2\<rparr>)"
  have i2: "server_inv s2" unfolding s2_def by (intro inv_fold inv_audit inv_rooms i1 r2)
  define s4 where "s4 = audit_log (PeerLeave p r) (s2\<lparr>srv_bindings := dm_remove p (srv_bindings s2)\<rparr>)"
  have i4: "server_inv s4" unfolding s4_def by (intro inv_audit inv_bindings i2 dm_wf_remove invD(6) [OF i2])
  define s5 where "s5 = (if is_device_stream_host s1 r p then
      (let (rooms5, consumers) = disconnect_consumers (srv_rooms s4) r
       in fold (\<lambda>c. audit_log (PeerLeave c r)) consumers (s4\<lparr>srv_rooms := rooms5\<rparr>)) else s4)"
  have i5: "server_inv s5"
    unfolding s5_def Let_def case_prod_beta
    using rooms_inv_disconnect [OF invD(1) [OF i4], of r] by (auto intro!: inv_fold inv_audit inv_rooms i4)
  have "server_inv (s5\<lparr>srv_sfu := fst (sfu_remove_room (srv_sfu s5) r), srv_status := x, srv_owners := dm_remove r (srv_owners s5)\<rparr>)" for x
    using inv_owners [OF inv_sfu [OF i5 sfu_inv_remove [OF invD(2) [OF i5], of r]], of "dm_remove r (srv_owners s5)"]
      dm_wf_remove [OF invD(7) [OF i5]] by (simp add: sfu_remove_room_def server_inv_def pending_ok_def)
  then show ?thesis
    unfolding disconnect_session_def Let_def s1_def [symmetric] l prod.case s2_def [symmetric] s4_def [symmetric]
      s5_def [unfolded Let_def, symmetric]
    using i5 by (auto intro!: inv_send)
qed

text \<open>The SFU handlers.\<close>

lemma inv_owner_insert:
  "server_inv s \<Longrightarrow> sfu_inv f \<Longrightarrow> server_inv (s\<lparr>srv_sfu := f, srv_producer_owners := dm_insert k v (srv_producer_owners s)\<rparr>)"
  using inv_producer_owners [OF inv_sfu [of s f], of "dm_insert k v (srv_producer_owners s)"] invD(8) [of s]
  by (simp add: dm_wf_insert)

lemma inv_produce: "server_inv s \<Longrightarrow> server_inv (fst (handle_produce s w p i m))"
proof -
  assume s: "server_inv s"
  obtain f res where c: "create_producer (srv_sfu s) (pr_room_id m) (pr_peer_id m) (pr_kind m)
      (pr_transport_id m) (pr_label m) (w_rtp_error w) (w_produced w) = (f, res)" by force
  have f: "sfu_inv f" using sfu_inv_produce [OF invD(2) [OF s]] c by (metis fst_conv)
  show ?thesis
    using s f inv_sfu [OF s f] inv_owner_insert [OF s f]
    by (cases res; cases "can_produce i (pr_room_id m)")
      (simp_all add: handle_produce_def deny_def Let_def c case_prod_beta inv_audit inv_send inv_channel)
qed

lemma inv_create_data: "server_inv s \<Longrightarrow> server_inv (fst (handle_create_data_producer s w p i n m))"
proof -
  assume s: "server_inv s"
  obtain f res where c: "create_data_producer (srv_sfu s) (dp_room_id m) (dp_peer_id m) (dp_label m) (dp_protocol m)
      (dp_sctp_stream_parameters m) (dp_transport_id m) (w_data_produced w) = (f, res)" by force
  have f: "sfu_inv f" using sfu_inv_produce_data [OF invD(2) [OF s]] c by (metis fst_conv)
  show ?thesis
    using s f inv_sfu [OF s f] inv_owner_insert [OF s f]
    by (cases res; cases "data_produce_denial p i n (dp_room_id m)")
      (simp_all add: handle_create_data_producer_def deny_def Let_def c inv_audit inv_send inv_channel)
qed

lemma inv_consume: "server_inv s \<Longrightarrow> server_inv (fst (handle_consume s w p i r q x t))"
proof -
  assume s: "server_inv s"
  obtain f res where c: "create_consumer (srv_sfu s) r q x t (w_caps_error w) (w_consumed w) = (f, res)" by force
  have f: "sfu_inv f" using sfu_inv_consume [OF invD(2) [OF s]] c by (metis fst_conv)
  show ?thesis using s inv_sfu [OF s f]
    by (cases res; cases "can_consume i (dm_get (srv_producer_owners s) x)")
      (simp_all add: handle_consume_def deny_def c inv_audit)
qed

lemma inv_consume_data: "server_inv s \<Longrightarrow> server_inv (fst (handle_consume_data s w p i r q d x t))"
proof -
  assume s: "server_inv s"
  obtain f res where c: "create_data_consumer (srv_sfu s) r q x t (w_data_consumed w) = (f, res)" by force
  have f: "sfu_inv f" using sfu_inv_consume_data [OF invD(2) [OF s]] c by (metis fst_conv)
  show ?thesis using s inv_sfu [OF s f]
    by (cases res; cases "can_consume i (dm_get (srv_producer_owners s) x)")
      (simp_all add: handle_consume_data_def deny_def c inv_audit)
qed

lemma inv_stats: "server_inv s \<Longrightarrow> server_inv (fst (handle_sfu_stats s w p i a b))"
  by (auto simp: handle_sfu_stats_def deny_def inv_audit split: option.split sum.split)

lemma inv_transport:
  assumes s: "server_inv s"
  shows "server_inv (fst (handle_create_transport s w p r q d))" "server_inv (fst (handle_connect_transport s w r q t))"
    "server_inv (fst (handle_get_caps s w r))" "server_inv (fst (handle_set_layers s w r q c))"
proof -
  have "sfu_inv (timed_out_in s r w)"
    using sfu_inv_ensure_router [OF invD(2) [OF s]] invD(2) [OF s] by (simp add: timed_out_in_def split: timeout_point.split)
  moreover obtain f res where c: "create_webrtc_transport (srv_sfu s) r q (dir_str d) (w_router w) (w_transport w) = (f, res)" by force
  moreover have "sfu_inv f" using sfu_inv_transport [OF invD(2) [OF s]] c by (metis fst_conv)
  ultimately show "server_inv (fst (handle_create_transport s w p r q d))"
    by (cases res) (simp_all add: handle_create_transport_def inv_sfu s)
  obtain f' res' where c': "router_rtp_capabilities (srv_sfu s) r (w_router w) = (f', res')" by force
  have "sfu_inv f'"
    using sfu_inv_ensure_router [OF invD(2) [OF s], of r "w_router w"] c' by (auto simp: router_rtp_capabilities_def)
  then show "server_inv (fst (handle_get_caps s w r))"
    by (cases res') (simp_all add: handle_get_caps_def c' inv_sfu s)
qed (simp_all add: handle_connect_transport_def handle_set_layers_def s)

lemma inv_gone: "server_inv s \<Longrightarrow> server_inv (fst (handle_downstream_gone s ts p g r))"
proof -
  assume s: "server_inv s"
  obtain f closed where c: "remove_peer_in_room (srv_sfu s) r g = (f, closed)" by force
  have f: "sfu_inv f" using sfu_inv_remove_in_room [OF invD(2) [OF s]] c by (metis fst_conv)
  have "server_inv (s\<lparr>srv_t4_gone_seen := x, srv_sfu := f\<rparr>)" for x by (rule inv_sfu [OF _ f]) (simp add: s)
  then show ?thesis using s
    by (simp add: handle_downstream_gone_def Let_def c inv_announce split: option.split)
qed

lemma inv_sfu_message [inv_intros]: "server_inv s \<Longrightarrow> server_inv (fst (handle_sfu_message w ts s p i n m))"
  by (cases m) (simp_all add: handle_sfu_message_def inv_produce inv_create_data inv_consume inv_consume_data inv_stats
      inv_transport inv_gone inv_audit)

text \<open>Admission.\<close>

lemma inv_admit_server: "server_inv s \<Longrightarrow> server_inv (admit_server ts c i r s)"
proof -
  assume s: "server_inv s"
  have t: "server_inv (takeover ts i r s)"
    by (auto simp: takeover_def Let_def s intro!: inv_disconnect_session inv_channel inv_burnt split: option.split)
  obtain s1 res where r: "take_resume i r (negotiate_protocol (cn_claim c)) (cn_resume_claim c) s = (s1, res)" by force
  show ?thesis
  proof (cases res)
    case None
    then have "s1 = s" using r take_resume_None by blast
    then show ?thesis using t r None by (simp add: admit_server_def)
  next
    case (Some h)
    then have "s1 = s\<lparr>srv_resume := dm_remove (identity_key i, r) (srv_resume s)\<rparr>" using r by (simp add: take_resume_Some)
    then show ?thesis using Some r inv_burnt [OF s] by (simp add: admit_server_def)
  qed
qed

lemma inv_enter_room:
  assumes s: "server_inv s" and e: "enter_room fr b p room role dev s = Inr s'"
  shows "server_inv s'"
proof (cases b)
  case True
  then show ?thesis using e s by (auto simp: enter_room_resumed intro: inv_audit)
next
  case False
  then obtain rooms evs where j: "join_room (srv_rooms s) room p role (fr_since fr) (fr_now fr) = Inr (rooms, evs)"
    and s': "s' = audit_log (PeerJoin p room (debug_role role)) (bind_device p room dev (fold audit_log evs (s\<lparr>srv_rooms := rooms\<rparr>)))"
    using e by (auto simp: enter_room_fresh)
  have "rooms_inv rooms" using rooms_inv_join [OF invD(1) [OF s]] j by blast
  then have t: "server_inv (fold audit_log evs (s\<lparr>srv_rooms := rooms\<rparr>))" by (intro inv_fold inv_audit inv_rooms s)
  have "server_inv (bind_device p room dev t)" if "server_inv t" for t
    unfolding bind_device_def
    using inv_owners [OF inv_bindings [OF that dm_wf_insert [OF invD(6) [OF that]]] dm_wf_insert [OF invD(7) [OF that]]] that
    by (auto split: option.split)
  then show ?thesis unfolding s' using t by (blast intro: inv_audit)
qed

lemma inv_issue_ticket: "server_inv s \<Longrightarrow> server_inv (fst (issue_ticket fr i role n p r s))"
proof -
  assume s: "server_inv s"
  let ?tab = "dm_insert (identity_key i, r) \<lparr>hr_peer_id = p, hr_nonce = fr_ticket fr, hr_negotiated = n, hr_seq = srv_resume_seq s\<rparr>
    (srv_resume s)"
  have "dm_wf ?tab" by (rule dm_wf_insert [OF invD(3) [OF s]])
  from prune_resume_pruned [OF this, of RESUME_GLOBAL_CAP]
  have "dm_wf (prune_resume ?tab RESUME_GLOBAL_CAP)" "length (prune_resume ?tab RESUME_GLOBAL_CAP) \<le> RESUME_GLOBAL_CAP"
    by (simp_all add: pruned_to_def)
  then show ?thesis using s by (simp add: issue_ticket_def server_inv_def pending_ok_def)
qed

lemma inv_start_session: "server_inv s \<Longrightarrow> server_inv (fst (start_session env fr s c room role dev i n))"
  using inv_issue_ticket [of s fr i role n "cn_peer_id c" room]
  by (simp add: start_session_def Let_def case_prod_beta inv_subscribe inv_channel)

lemma inv_finish: "server_inv s \<Longrightarrow> server_inv (fst (finish s c))" "server_inv s \<Longrightarrow> server_inv (fst (fail_with k t s c))"
  by (simp_all add: finish_def fail_with_def)

lemma inv_admit: "server_inv s \<Longrightarrow> server_inv (fst (admit env fr s c room role dev i))"
proof -
  assume "server_inv s"
  then have s: "server_inv (admit_server (fr_ts fr) c i room s)" by (rule inv_admit_server)
  show ?thesis
    unfolding admit_eq Let_def
    using s inv_enter_room [OF s]
    by (auto simp: inv_finish inv_audit intro!: inv_start_session split: option.split sum.split)
qed

text \<open>The join phase and the relay loop.\<close>

lemma inv_join_wait: "server_inv s \<Longrightarrow> server_inv (fst (join_wait s c))" "server_inv s \<Longrightarrow> server_inv (fst (auth_ack s c))"
  by (simp_all add: join_wait_def auth_ack_def inv_finish)

lemma inv_open: "server_inv s \<Longrightarrow> server_inv (fst (open_conn env fr token s))"
  by (auto simp: open_conn_def jwt_accepted_def Let_def inv_join_wait inv_finish inv_audit split: option.split)

lemma inv_psk: "server_inv s \<Longrightarrow> server_inv (fst (psk_event env k ev s c))"
  by (simp add: psk_event_def inv_join_wait inv_finish inv_audit split: conn_event.split ws_frame.split)

definition inv_of :: "join_state \<Rightarrow> bool" where
  "inv_of r = server_inv (fst (snd r))"

lemma inv_stay [simp]: "inv_of (stay files r) = server_inv (fst r)"
  by (simp add: inv_of_def stay_def)

lemma inv_join_pubkey: "server_inv s \<Longrightarrow> server_inv (fst (join_pubkey fr m s c))"
  by (cases "rj_device_id m"; cases "entry_of (srv_devices s) (the (rj_device_id m))"; cases "the (entry_of (srv_devices s) (the (rj_device_id m)))")
    (simp_all add: join_pubkey_def inv_join_wait inv_finish inv_audit)

lemma inv_room_join: "server_inv s \<Longrightarrow> inv_of (handle_room_join env fr m files s c)"
  by (simp add: handle_room_join_def Let_def inv_join_pubkey inv_finish inv_audit split: option.split sum.split)
    (simp add: inv_of_def inv_audit)

lemma inv_join_event: "server_inv s \<Longrightarrow> inv_of (join_event env fr ev files s c)"
proof -
  assume s: "server_inv s"
  have "inv_of (case en_parse env t of Some (RoomJoin m) \<Rightarrow> handle_room_join env fr m files s c | _ \<Rightarrow> stay files (join_wait s c))" for t
    using s by (simp add: inv_room_join inv_join_wait split: option.split signaling_message.split)
  then show ?thesis using s
    by (simp add: join_event_def inv_join_wait inv_finish split: conn_event.split ws_frame.split)
qed

lemma inv_enroll: "server_inv s \<Longrightarrow> inv_of (enroll_policy env fr pa vk files s c)"
proof -
  assume s: "server_inv s"
  show ?thesis
  proof (cases "enroll_auto (en_crypto env) (srv_devices s) (pa_device_id pa) vk None")
    case (Inl e)
    then show ?thesis using s by (cases e) (simp_all add: enroll_policy_def inv_finish inv_of_def stay_def)
  next
    case (Inr reg)
    then show ?thesis using s by (simp add: enroll_policy_def inv_finish inv_of_def stay_def case_prod_beta)
  qed
qed

lemma inv_answer: "server_inv s \<Longrightarrow> inv_of (handle_answer env fr pa sig files s c)"
  by (simp add: handle_answer_def Let_def inv_finish inv_audit inv_enroll inv_of_def stay_def [of files] split: option.split)
    (simp add: inv_enroll [unfolded inv_of_def] inv_audit)

lemma inv_answer_event: "server_inv s \<Longrightarrow> inv_of (answer_event env fr pa ev files s c)"
proof -
  assume s: "server_inv s"
  have "inv_of (answer_event env fr pa (Received (TextFrame t)) files s c)" for t
  proof (cases "en_parse env t")
    case None
    then show ?thesis using s by (simp add: answer_event_def inv_join_wait)
  next
    case (Some m)
    show ?thesis
    proof (cases "\<exists>r sig. m = DeviceAuthResponse r sig")
      case True
      then show ?thesis using s Some by (auto simp: answer_event_def inv_answer)
    next
      case False
      then show ?thesis using s answer_event_other [OF Some, of fr pa files s c] by (simp add: inv_join_wait inv_finish)
    qed
  qed
  then show ?thesis using s
    by (cases ev; cases "case ev of Received f \<Rightarrow> f | _ \<Rightarrow> CloseFrame")
      (simp_all add: answer_event_def inv_join_wait inv_finish inv_audit)
qed

lemma inv_after_loop: "inv_of r \<Longrightarrow> server_inv (fst (snd (after_loop env fr r)))"
  by (cases r) (auto simp: after_loop_def inv_of_def split: verdict.split intro: inv_admit)

lemma inv_join_phase: "server_inv s \<Longrightarrow> server_inv (fst (snd (join_phase env fr ev files s c)))"
  by (simp add: join_phase_def inv_psk inv_after_loop inv_join_event inv_answer_event split: phase.split)

lemma inv_cache: "server_inv s \<Longrightarrow> server_inv (cache_push r t s)"
  using cache_push_bound [of s r t] by (simp add: server_inv_def pending_ok_def) (simp add: cache_push_def Let_def)

lemma inv_relay_message: "server_inv s \<Longrightarrow> server_inv (relay_message env se t s c)"
  by (simp add: relay_message_def relay_out_def Let_def case_prod_beta inv_audit inv_send inv_channel inv_cache)

lemma inv_relay_parsed: "server_inv s \<Longrightarrow> server_inv (fst (relay_parsed env w ts se t m s c))"
proof -
  assume s: "server_inv s"
  obtain s1 r where r: "handle_sfu_message w ts s (cn_peer_id c) (se_identity se) (se_negotiated se) m = (s1, r)" by force
  have "server_inv s1" using inv_sfu_message [OF s] r by (metis fst_conv)
  then show ?thesis by (cases r) (simp_all add: relay_parsed_def r inv_relay_message)
qed

lemma inv_status: "server_inv s \<Longrightarrow> server_inv (fst (handle_status_report ts se r s c))"
proof -
  assume s: "server_inv s"
  obtain s1 e where d: "status_report_denial (se_identity se) (se_role se) (cn_peer_id c) (se_room se) s = (s1, e)" by force
  have s1: "server_inv s1" using d s by (auto simp: status_report_denial_def Let_def inv_audit split: option.splits)
  have "server_inv (fold (\<lambda>x. emit_admin (StreamCreate (se_room se) (sf_id x) ts)) xs s1)" for xs :: "stream_flow list"
    by (intro inv_fold inv_emit s1)
  then show ?thesis using s1 by (cases e) (simp_all add: handle_status_report_def d Let_def)
qed

lemma inv_relay_text: "server_inv s \<Longrightarrow> server_inv (server_after (relay_text env w ts se t s c))"
proof -
  assume s: "server_inv s"
  have em: "server_inv (fst (handle_emergency se cmd t s c))" for cmd
    using s by (simp add: handle_emergency_def Let_def case_prod_beta inv_audit inv_send split: sum.split)
  show ?thesis
  proof (cases "en_parse env t")
    case None
    then show ?thesis using s by (simp add: relay_text_def server_after_def inv_relay_message)
  next
    case (Some m)
    then show ?thesis using s
      by (cases m) (simp_all add: relay_text_def server_after_def inv_send inv_status em inv_relay_parsed
          reject_config_push_def inv_audit)
  qed
qed

lemma inv_relay_frame: "server_inv s \<Longrightarrow> server_inv (server_after (relay_frame env w ts se f s c))"
proof (cases "srv_shutdown s")
  case False
  then show "server_inv s \<Longrightarrow> ?thesis"
    by (cases f) (simp_all add: relay_frame_def inv_relay_text, simp_all add: server_after_def)
qed (simp add: relay_frame_def server_after_def inv_send)

lemma inv_end_session: "server_inv s \<Longrightarrow> server_inv (fst (end_session ts se s c))"
  by (cases "\<exists>h. holds_ticket se c s h")
    (auto simp: end_session_held end_session_now Let_def finish_def intro!: inv_disconnect_session inv_subscribe)

lemma inv_session_step: "server_inv s \<Longrightarrow> server_inv (fst (session_step env w ts se ev s c))"
proof -
  assume s: "server_inv s"
  have "server_inv (server_after (session_input env w ts se ev s c))"
    using s by (simp add: session_input_def inv_relay_frame split: list.split conn_event.split) (simp add: server_after_def)
  then show ?thesis
    by (auto simp: session_step_def server_after_def inv_end_session split: sum.split)
qed

lemma inv_hold_expired: "server_inv s \<Longrightarrow> server_inv (hold_expired ts ho s)"
  by (simp add: hold_expired_def inv_disconnect_session inv_burnt split: option.split)

lemma inv_push: "server_inv s \<Longrightarrow> server_inv (fst (push_config s r cfg v a))"
proof -
  assume s: "server_inv s"
  have "server_inv (fst (case tx_send r p (get_or_create_channel r s) of (x, True) \<Rightarrow> (x, y) | (x, False) \<Rightarrow> (x, z)))" for p and y z :: "string + unit"
    using inv_send [OF inv_channel [OF s, of r], of r p] by (cases "tx_send r p (get_or_create_channel r s)") (simp split: bool.split)
  then show ?thesis using s by (simp add: push_config_def split: option.split)
qed

section \<open>Connections\<close>

text \<open>What holds of a session, and of every connection.\<close>

definition session_ok :: "conn \<Rightarrow> session \<Rightarrow> bool" where
  "session_ok c se =
     ((se_role se = Host \<longrightarrow> \<not> is_account (se_identity se))
      \<and> (se_role se = Remote \<longrightarrow> sess_can_control (se_identity se))
      \<and> (\<forall>d. se_device se = Some d \<longleftrightarrow> se_identity se = Device d)
      \<and> (case se_identity se of Account a \<Rightarrow> cn_account c = Some a | Legacy \<Rightarrow> cn_account c = None | Device d \<Rightarrow> True)
      \<and> se_negotiated se \<le> SIGNALING_PROTOCOL_VERSION)"

definition conn_inv :: "conn \<Rightarrow> bool" where
  "conn_inv c = (length (cn_deferred c) \<le> MAX_DEFERRED_AUTH_MSGS \<and> (\<forall>se. cn_phase c = InSession se \<longrightarrow> session_ok c se))"

lemma session_ok_account: "cn_account c = cn_account c' \<Longrightarrow> session_ok c se = session_ok c' se"
  by (cases "se_identity se") (simp_all add: session_ok_def)

definition conn_after :: "relay_state + relay_state \<Rightarrow> conn" where
  "conn_after r = (case r of Inl x \<Rightarrow> snd x | Inr x \<Rightarrow> snd x)"

lemma relay_text_conn: "\<exists>xs. conn_after (relay_text env w ts se t s c) = c\<lparr>cn_sent := xs\<rparr>"
proof -
  have same: "\<exists>xs. c = c\<lparr>cn_sent := xs\<rparr>" by (rule exI [of _ "cn_sent c"]) simp
  have sd: "\<exists>xs. send_direct m c = c\<lparr>cn_sent := xs\<rparr>" for m by (auto simp: send_direct_def)
  have parsed: "\<exists>xs. snd (relay_parsed env w ts se t m s c) = c\<lparr>cn_sent := xs\<rparr>" for m
  proof -
    obtain s1 r where "handle_sfu_message w ts s (cn_peer_id c) (se_identity se) (se_negotiated se) m = (s1, r)" by force
    then show ?thesis using same sd by (cases r) (simp_all add: relay_parsed_def)
  qed
  have status: "\<exists>xs. snd (handle_status_report ts se r s c) = c\<lparr>cn_sent := xs\<rparr>" for r
  proof -
    obtain s1 e where "status_report_denial (se_identity se) (se_role se) (cn_peer_id c) (se_room se) s = (s1, e)" by force
    then show ?thesis using same sd by (cases e) (simp_all add: handle_status_report_def Let_def)
  qed
  have em: "\<exists>xs. snd (handle_emergency se cmd t s c) = c\<lparr>cn_sent := xs\<rparr>" for cmd
    using same sd by (simp add: handle_emergency_def Let_def case_prod_beta split: sum.split)
  show ?thesis
  proof (cases "en_parse env t")
    case None
    then show ?thesis using same by (simp add: relay_text_def conn_after_def)
  next
    case (Some m)
    then show ?thesis using same sd parsed status em
      by (cases m) (simp_all add: relay_text_def conn_after_def reject_config_push_def)
  qed
qed

lemma relay_frame_conn: "\<exists>xs. conn_after (relay_frame env w ts se f s c) = c\<lparr>cn_sent := xs\<rparr>"
proof -
  have same: "\<exists>xs. c = c\<lparr>cn_sent := xs\<rparr>" by (rule exI [of _ "cn_sent c"]) simp
  then show ?thesis using relay_text_conn
    by (cases "srv_shutdown s"; cases f) (auto simp: relay_frame_def, auto simp: conn_after_def)
qed

lemma session_input_conn:
  "\<exists>xs ds. conn_after (session_input env w ts se ev s c) = c\<lparr>cn_sent := xs, cn_deferred := ds\<rparr> \<and> length ds \<le> length (cn_deferred c)"
proof (cases "cn_deferred c")
  case (Cons d ds)
  obtain xs where "conn_after (relay_frame env w ts se (TextFrame (en_print env d)) s (c\<lparr>cn_deferred := ds\<rparr>)) = c\<lparr>cn_deferred := ds, cn_sent := xs\<rparr>"
    using relay_frame_conn [of env w ts se "TextFrame (en_print env d)" s "c\<lparr>cn_deferred := ds\<rparr>"] by auto
  then show ?thesis using Cons by (intro exI [of _ xs] exI [of _ ds]) (simp add: session_input_def)
next
  case Nil
  have same: "c\<lparr>cn_sent := xs, cn_deferred := cn_deferred c\<rparr> = c\<lparr>cn_sent := xs\<rparr>" for xs by simp
  have keep: "c = c\<lparr>cn_sent := cn_sent c, cn_deferred := cn_deferred c\<rparr>" by simp
  show ?thesis
  proof (cases ev)
    case (Received f)
    obtain xs where "conn_after (relay_frame env w ts se f s c) = c\<lparr>cn_sent := xs\<rparr>" using relay_frame_conn by blast
    then have "conn_after (session_input env w ts se ev s c) = c\<lparr>cn_sent := xs, cn_deferred := cn_deferred c\<rparr>"
      using Nil Received unfolding same by (simp add: session_input_def)
    then show ?thesis by blast
  qed (rule exI [of _ "cn_sent c"], rule exI [of _ "cn_deferred c"], use Nil in \<open>simp add: session_input_def conn_after_def\<close>)+
qed

lemma end_session_closes: "cn_phase (fst (snd (end_session ts se s c))) = Closed"
  "cn_deferred (fst (snd (end_session ts se s c))) = cn_deferred c"
  by (cases "\<exists>h. holds_ticket se c s h"; auto simp: end_session_held end_session_now Let_def finish_def)+

lemma conn_inv_session_step:
  assumes "conn_inv c" and "cn_phase c = InSession se"
  shows "conn_inv (fst (snd (session_step env w ts se ev s c)))"
proof -
  obtain xs ds where c1: "conn_after (session_input env w ts se ev s c) = c\<lparr>cn_sent := xs, cn_deferred := ds\<rparr>"
    and len: "length ds \<le> length (cn_deferred c)" using session_input_conn by blast
  let ?c = "c\<lparr>cn_sent := xs, cn_deferred := ds\<rparr>"
  have ok: "conn_inv ?c" using assms(1) len by (simp add: conn_inv_def session_ok_account [of ?c c])
  have closed: "conn_inv (fst (snd (end_session ts se s1 ?c)))" for s1
    using ok end_session_closes [of ts se s1 ?c] by (simp add: conn_inv_def)
  show ?thesis using c1 ok closed
    by (auto simp: session_step_def conn_after_def split: sum.splits)
qed

text \<open>What a round of the join phase does to the connection's own fields.\<close>

lemma admit_conn:
  "cn_account (snd (admit env fr s c room role dev i)) = cn_account c"
  "cn_deferred (snd (admit env fr s c room role dev i)) = cn_deferred c"
  by (auto simp: admit_eq Let_def fail_with_def finish_def send_direct_def start_session_def case_prod_beta
      split: option.split sum.split)

definition conn_of :: "join_state \<Rightarrow> conn" where
  "conn_of r = fst (snd (snd r))"

lemma conn_of_stay [simp]: "conn_of (stay files r) = snd r"
  by (simp add: conn_of_def stay_def)

lemma room_join_deferred: "cn_deferred (conn_of (handle_room_join env fr m files s c)) = cn_deferred c"
proof -
  have pub: "cn_deferred (snd (join_pubkey fr m s c1)) = cn_deferred c1" for s c1
    by (cases "rj_device_id m"; cases "entry_of (srv_devices s) (the (rj_device_id m))"; cases "the (entry_of (srv_devices s) (the (rj_device_id m)))")
      (simp_all add: join_pubkey_def join_wait_def fail_with_def finish_def send_direct_def)
  show ?thesis
    by (simp add: handle_room_join_def Let_def pub fail_with_def finish_def send_direct_def split: option.split sum.split)
      (simp add: conn_of_def)
qed

lemma join_event_deferred: "cn_deferred (conn_of (join_event env fr ev files s c)) = cn_deferred c"
proof -
  have "cn_deferred (conn_of (case en_parse env t of Some (RoomJoin m) \<Rightarrow> handle_room_join env fr m files s c | _ \<Rightarrow> stay files (join_wait s c))) = cn_deferred c" for t
    by (simp add: room_join_deferred join_wait_def finish_def split: option.split signaling_message.split)
  then show ?thesis
    by (simp add: join_event_def join_wait_def finish_def split: conn_event.split ws_frame.split)
qed

lemma answer_event_deferred:
  assumes "cn_phase c = AwaitAnswer pa" and "length (cn_deferred c) \<le> MAX_DEFERRED_AUTH_MSGS"
  shows "length (cn_deferred (conn_of (answer_event env fr pa ev files s c))) \<le> MAX_DEFERRED_AUTH_MSGS"
proof -
  obtain f1 s1 c1 v where a: "answer_event env fr pa ev files s c = (f1, s1, c1, v)" by (metis prod_cases4)
  show ?thesis
  proof (cases "\<exists>tx r sig. ev = Received (TextFrame tx) \<and> en_parse env tx = Some (DeviceAuthResponse r sig)")
    case True
    then obtain sig where "handle_answer env fr pa sig files s c = (f1, s1, c1, v)" using a by (auto simp: answer_event_def)
    then show ?thesis using handle_answer_state a assms(2) by (fastforce simp: conn_of_def)
  next
    case False
    then show ?thesis using answer_event_quiet [OF a assms(1)] a assms(2) by (auto simp: conn_of_def)
  qed
qed

lemma after_loop_deferred: "cn_deferred (snd (snd (after_loop env fr r))) = cn_deferred (conn_of r)"
  by (cases r) (auto simp: after_loop_def conn_of_def admit_conn split: verdict.split)

lemma join_phase_deferred:
  assumes "length (cn_deferred c) \<le> MAX_DEFERRED_AUTH_MSGS"
  shows "length (cn_deferred (snd (snd (join_phase env fr ev files s c)))) \<le> MAX_DEFERRED_AUTH_MSGS"
proof -
  have psk: "cn_deferred (snd (psk_event env k ev s c)) = cn_deferred c" for k
    by (auto simp: psk_event_def auth_ack_def join_wait_def finish_def fail_with_def send_direct_def
        split: conn_event.split ws_frame.split)
  show ?thesis using assms answer_event_deferred [of c _ env fr ev files s]
    by (simp add: join_phase_def psk after_loop_deferred join_event_deferred split: phase.split)
qed

lemma join_phase_session:
  assumes "join_phase env fr ev files s c = (files', s', c')" and "cn_phase c' = InSession se"
    and "\<And>se. cn_phase c \<noteq> InSession se"
  shows "session_ok c' se"
proof -
  obtain s1 c1 dev where j: "cn_phase c = AwaitJoin \<and>
        join_event env fr ev files s c = (files', s1, c1, Admit (se_room se) (se_role se) dev (se_identity se))
      \<or> (\<exists>pa. cn_phase c = AwaitAnswer pa \<and>
        answer_event env fr pa ev files s c = (files', s1, c1, Admit (se_room se) (se_role se) dev (se_identity se)))"
    and a: "admit env fr s1 c1 (se_room se) (se_role se) dev (se_identity se) = (s', c')"
    using join_phase_admits [OF assms] by metis
  have acc: "cn_account c' = cn_account c1" using admit_conn(1) [of env fr s1 c1] a by (metis snd_conv)
  have dev: "\<forall>d. se_device se = Some d \<longleftrightarrow> se_identity se = Device d" using join_phase_device [OF assms] by blast
  have id: "case se_identity se of Account a \<Rightarrow> cn_account c1 = Some a | Legacy \<Rightarrow> cn_account c1 = None | Device d \<Rightarrow> True"
    using j
  proof (elim disjE conjE exE)
    assume "join_event env fr ev files s c = (files', s1, c1, Admit (se_room se) (se_role se) dev (se_identity se))"
    then show ?thesis by (rule join_event_admits) (auto split: option.splits)
  next
    fix pa assume p: "cn_phase c = AwaitAnswer pa"
      "answer_event env fr pa ev files s c = (files', s1, c1, Admit (se_room se) (se_role se) dev (se_identity se))"
    then obtain tx r sig where "ev = Received (TextFrame tx)" "en_parse env tx = Some (DeviceAuthResponse r sig)"
      using answer_event_quiet [OF p(2,1)] by blast
    then have "handle_answer env fr pa sig files s c = (files', s1, c1, Admit (se_room se) (se_role se) dev (se_identity se))"
      using p(2) by (simp add: answer_event_def)
    from handle_answer_admits [OF this] show ?thesis by (auto simp: admit_answer_def)
  qed
  show ?thesis
    using admit_session [OF a assms(2)]
  proof cases
    case (1 s2 s3)
    have neg: "se_negotiated se = negotiate_protocol (cn_claim c1)" by (subst 1(5)) simp
    have "(se_role se = Host \<longrightarrow> \<not> is_account (se_identity se)) \<and> (se_role se = Remote \<longrightarrow> sess_can_control (se_identity se))"
      using 1(2) by (simp add: admission_denial_None)
    then show ?thesis using dev id unfolding session_ok_def acc neg by (simp add: negotiate_upper)
  qed
qed

lemma conn_inv_join_phase:
  assumes "conn_inv c" and "\<And>se. cn_phase c \<noteq> InSession se"
  shows "conn_inv (snd (snd (join_phase env fr ev files s c)))"
proof -
  obtain files' s' c' where j: "join_phase env fr ev files s c = (files', s', c')" by (metis prod_cases3)
  show ?thesis
    using join_phase_session [OF j _ assms(2)] join_phase_deferred [of c env fr ev files s] assms(1) j
    by (simp add: conn_inv_def)
qed

lemma conn_inv_open: "conn_inv (snd (open_conn env fr token s))"
  by (auto simp: open_conn_def jwt_accepted_def Let_def auth_ack_def join_wait_def fail_with_def finish_def send_direct_def
      conn_inv_def new_conn_def split: option.split)

section \<open>The system\<close>

record system =
  sy_server :: server
  sy_files :: fs
  sy_conns :: "conn list"
  sy_holds :: "hold list"

text \<open>
  One event of one connection, one delayed task, one call from outside. A timer that fires in a
  session is the heartbeat, before it the timeout of the join phase; a configuration push and the
  changes of key, enrollment policy and device registry come from the admin interface, which is
  left free to make any change of those.
\<close>

inductive sys_step :: "conn_env \<Rightarrow> system \<Rightarrow> system \<Rightarrow> bool" for env :: conn_env where
  step_open: "open_conn env fr token (sy_server sy) = (srv', c) \<Longrightarrow>
     sys_step env sy (sy\<lparr>sy_server := srv', sy_conns := sy_conns sy @ [c]\<rparr>)"
| step_join: "i < length (sy_conns sy) \<Longrightarrow> (\<And>se. cn_phase (sy_conns sy ! i) \<noteq> InSession se) \<Longrightarrow> ev \<noteq> HeartbeatDead \<Longrightarrow>
     join_phase env fr ev (sy_files sy) (sy_server sy) (sy_conns sy ! i) = (files', srv', c') \<Longrightarrow>
     sys_step env sy (sy\<lparr>sy_server := srv', sy_files := files', sy_conns := (sy_conns sy)[i := c']\<rparr>)"
| step_session: "i < length (sy_conns sy) \<Longrightarrow> cn_phase (sy_conns sy ! i) = InSession se \<Longrightarrow> ev \<noteq> TimedOut \<Longrightarrow>
     session_step env w ts se ev (sy_server sy) (sy_conns sy ! i) = (srv', c', ho) \<Longrightarrow>
     sys_step env sy (sy\<lparr>sy_server := srv', sy_conns := (sy_conns sy)[i := c'],
                         sy_holds := sy_holds sy @ (case ho of None \<Rightarrow> [] | Some h \<Rightarrow> [h])\<rparr>)"
| step_expire: "ho \<in> set (sy_holds sy) \<Longrightarrow>
     sys_step env sy (sy\<lparr>sy_server := hold_expired ts ho (sy_server sy), sy_holds := remove1 ho (sy_holds sy)\<rparr>)"
| step_push: "push_config (sy_server sy) room cfg version actor = (srv', res) \<Longrightarrow>
     sys_step env sy (sy\<lparr>sy_server := srv'\<rparr>)"
| step_shutdown: "sys_step env sy (sy\<lparr>sy_server := server_shutdown (sy_server sy)\<rparr>)"
| step_admin: "sys_step env sy (sy\<lparr>sy_server := (sy_server sy)\<lparr>srv_psk := psk, srv_allow_dev_enroll := b,
       srv_devices := reg, srv_pending_devices := tab\<rparr>, sy_files := files'\<rparr>)"

definition sys_init :: "device_registry \<Rightarrow> fs \<Rightarrow> system" where
  "sys_init reg files = \<lparr>sy_server = server_new reg, sy_files = files, sy_conns = [], sy_holds = []\<rparr>"

inductive reachable :: "conn_env \<Rightarrow> system \<Rightarrow> bool" for env :: conn_env where
  reach_init: "reachable env (sys_init reg files)"
| reach_step: "reachable env sy \<Longrightarrow> sys_step env sy sy' \<Longrightarrow> reachable env sy'"

definition system_inv :: "system \<Rightarrow> bool" where
  "system_inv sy = (server_inv (sy_server sy) \<and> (\<forall>c \<in> set (sy_conns sy). conn_inv c))"

lemma inv_new: "server_inv (server_new reg)"
  by (simp add: server_new_def server_inv_def pending_ok_def rooms_inv_new sfu_inv_empty)

lemma system_inv_step:
  assumes "system_inv sy" and "sys_step env sy sy'"
  shows "system_inv sy'"
proof -
  have s: "server_inv (sy_server sy)" and cs: "\<And>c. c \<in> set (sy_conns sy) \<Longrightarrow> conn_inv c"
    using assms(1) by (simp_all add: system_inv_def)
  have upd: "conn_inv c' \<Longrightarrow> c \<in> set ((sy_conns sy)[i := c']) \<Longrightarrow> conn_inv c" for c c' i
    using cs set_update_subset_insert [of "sy_conns sy" i c'] by blast
  from assms(2) show ?thesis
  proof cases
    case (step_open fr token srv' c)
    then show ?thesis using inv_open [OF s, of env fr token] conn_inv_open [of env fr token "sy_server sy"] cs
      by (auto simp: system_inv_def)
  next
    case (step_join i ev fr files' srv' c')
    then have "conn_inv c'" "server_inv srv'"
      using conn_inv_join_phase [OF cs [OF nth_mem], of i env fr ev] inv_join_phase [OF s, of env fr ev "sy_files sy" "sy_conns sy ! i"]
      by (metis snd_conv fst_conv)+
    then show ?thesis using upd step_join by (auto simp: system_inv_def)
  next
    case (step_session i se ev w ts srv' c' ho)
    then have "conn_inv c'" "server_inv srv'"
      using conn_inv_session_step [OF cs [OF nth_mem], of i se env w ts ev] inv_session_step [OF s, of env w ts se ev "sy_conns sy ! i"]
      by (metis snd_conv fst_conv)+
    then show ?thesis using upd step_session by (auto simp: system_inv_def)
  next
    case (step_expire ho ts)
    then show ?thesis using inv_hold_expired [OF s] cs by (simp add: system_inv_def)
  next
    case (step_push room cfg version actor srv' res)
    then show ?thesis using inv_push [OF s, of room cfg version actor] cs by (simp add: system_inv_def)
  next
    case step_shutdown
    then show ?thesis using s cs by (simp add: system_inv_def server_shutdown_def)
  next
    case (step_admin psk b reg tab files')
    then show ?thesis using s cs by (simp add: system_inv_def)
  qed
qed

lemma system_inv_reachable: "reachable env sy \<Longrightarrow> system_inv sy"
proof (induction rule: reachable.induct)
  case (reach_init reg files)
  then show ?case by (simp add: system_inv_def sys_init_def inv_new)
qed (rule system_inv_step)

section \<open>What holds in every reachable state\<close>

text \<open>C11. Whatever connections do, in any interleaving and with any admin changes, the server's
  tables stay within their caps: at most 32 resume tickets are held and no key holds two, every
  room's replay cache holds at most 64 messages, the audit ring at most 256 events, and a
  connection has at most 16 deferred messages.\<close>

theorem system_resource_bounds:
  assumes "reachable env sy"
  shows "length (srv_resume (sy_server sy)) \<le> 32 \<and> distinct (map fst (srv_resume (sy_server sy)))
    \<and> length (srv_audit (sy_server sy)) \<le> 256
    \<and> (\<forall>room xs. dm_get (srv_pending (sy_server sy)) room = Some xs \<longrightarrow> length xs \<le> 64)
    \<and> (\<forall>c \<in> set (sy_conns sy). length (cn_deferred c) \<le> 16)"
  using system_inv_reachable [OF assms]
  by (simp add: system_inv_def server_inv_def pending_ok_def conn_inv_def RESUME_GLOBAL_CAP_def AUDIT_RING_CAP_def
      PENDING_CAP_def MAX_DEFERRED_AUTH_MSGS_def)


text \<open>A run of two steps: a client without a token opens a connection and joins as a consumer.\<close>

definition demo_join_env :: conn_env where
  "demo_join_env = demo_env\<lparr>en_parse := (\<lambda>t. Some (RoomJoin \<lparr>rj_room_id = ''car'', rj_peer_role = Consumer,
     rj_stream_id = None, rj_device_id = None, rj_device_secret = None, rj_device_pubkey = None, rj_protocol = Some 3,
     rj_client_version = None, rj_resume = None\<rparr>))\<rparr>"

definition demo_boot :: system where
  "demo_boot = sys_init (registry_empty demo_crypto ''u'') []"

definition demo_opened :: "server \<times> conn" where
  "demo_opened = open_conn demo_join_env demo_fresh None (sy_server demo_boot)"

lemma demo_opened_eq: "demo_opened =
  ((sy_server demo_boot)\<lparr>srv_active_connections := 1\<rparr>, (new_conn ''uuid-1'')\<lparr>cn_phase := AwaitJoin, cn_sent := [PMsg (Error 0 ''authenticated'')]\<rparr>)"
  by (simp add: demo_opened_def open_conn_def demo_join_env_def demo_env_def demo_boot_def sys_init_def server_new_def
      auth_ack_def join_wait_def send_direct_def new_conn_def demo_fresh_def)

definition demo_joined :: "fs \<times> server \<times> conn" where
  "demo_joined = join_phase demo_join_env demo_fresh (Received (TextFrame ''j'')) [] (fst demo_opened) (snd demo_opened)"

lemma demo_joined_phase:
  "cn_phase (snd (snd demo_joined)) = InSession \<lparr>se_room = ''car'', se_role = Consumer, se_device = None, se_identity = Legacy, se_negotiated = 3\<rparr>"
  "srv_audit (fst (snd demo_joined)) \<noteq> []"
  unfolding demo_joined_def demo_opened_eq
  by code_simp+

lemma demo_reachable:
  "\<exists>sy. reachable demo_join_env sy \<and> sy_conns sy = [snd (snd demo_joined)] \<and> sy_server sy = fst (snd demo_joined)"
proof -
  let ?one = "demo_boot\<lparr>sy_server := fst demo_opened, sy_conns := sy_conns demo_boot @ [snd demo_opened]\<rparr>"
  let ?two = "?one\<lparr>sy_server := fst (snd demo_joined), sy_files := fst demo_joined, sy_conns := (sy_conns ?one)[0 := snd (snd demo_joined)]\<rparr>"
  have "reachable demo_join_env ?one"
    by (rule reach_step [OF reach_init [of _ "registry_empty demo_crypto ''u''" "[]", folded demo_boot_def] step_open [of _ demo_fresh None]])
      (simp add: demo_opened_def)
  moreover have "sys_step demo_join_env ?one ?two"
    by (rule step_join [of 0 _ "Received (TextFrame ''j'')" _ demo_fresh])
      (simp_all add: demo_boot_def sys_init_def demo_joined_def, simp add: demo_opened_eq)
  ultimately have "reachable demo_join_env ?two" by (rule reach_step)
  then show ?thesis by (intro exI [of _ ?two]) (simp add: demo_boot_def sys_init_def)
qed

theorem system_resource_bounds_witness:
  "\<exists>sy. reachable demo_join_env sy \<and> srv_audit (sy_server sy) \<noteq> [] \<and> length (srv_audit (sy_server sy)) \<le> 256"
  using demo_reachable demo_joined_phase(2) system_resource_bounds by metis


end
