(* ===== verification/Emergency.thy ===== *)
theory Emergency
  imports Protocol "HOL-Library.Multiset"
begin

text \<open>
  The emergency-stop plane of the vehicle: \<open>mediaservo-host/src/emergency.rs\<close> (the latch and its
  strong audit) and the envelope handling of \<open>mediaservo-host/src/bin/host-emergency.rs\<close>.

  The actuator is shared by the data channel routes and the local fallback, so besides the
  operations as functions of the state there is the interleaving of concurrent \<open>trigger\<close> calls,
  whose atomic steps are the counter's \<open>fetch_add\<close>, the latch's \<open>swap\<close> and the append under the
  file lock. The JSON printer, the clock and the outcome of a write are parameters.
\<close>

section \<open>The latch\<close>

definition EMERGENCY_STOP :: string where "EMERGENCY_STOP = ''stop''"

datatype emergency_source = Dc | Local

fun source_str :: "emergency_source \<Rightarrow> string" where
  "source_str Dc = ''dc''"
| "source_str Local = ''local''"

record emergency_trigger =
  et_latched :: bool
  et_trigger_count :: u64
  et_audit :: "string + unit"

record stub_actuator =
  sa_latch :: bool
  sa_count :: u64
  sa_audit :: string \<comment> \<open>the content of the audit file\<close>

text \<open>How the write of one line went; a failed write may have left a part of it.\<close>

datatype audit_io = Written | LockPoisoned string | WriteFailed string string

definition stub_new :: "string \<Rightarrow> string + string \<Rightarrow> string + stub_actuator" where
  "stub_new path opened =
     (case opened of
        Inl e \<Rightarrow> Inl (''failed to open audit file '' @ path @ '': '' @ e)
      | Inr content \<Rightarrow> Inr \<lparr>sa_latch = False, sa_count = 0, sa_audit = content\<rparr>)"

definition audit_line :: "(json \<Rightarrow> string) \<Rightarrow> string \<Rightarrow> emergency_source \<Rightarrow> u64 option \<Rightarrow> bool \<Rightarrow> u64 \<Rightarrow> string" where
  "audit_line print ts source seq latched trigger_count =
     print (JObj [(''ts'', JStr ts), (''source'', JStr (source_str source)),
                  (''seq'', case seq of None \<Rightarrow> JNull | Some n \<Rightarrow> JNum (show_nat (unat n))),
                  (''cmd'', JStr EMERGENCY_STOP), (''latched'', JBool latched),
                  (''trigger_count'', JNum (show_nat (unat trigger_count)))]) @ [char_of (10 :: nat)]"

definition append_audit ::
  "(json \<Rightarrow> string) \<Rightarrow> string \<Rightarrow> audit_io \<Rightarrow> emergency_source \<Rightarrow> u64 option \<Rightarrow> bool \<Rightarrow> u64 \<Rightarrow> stub_actuator \<Rightarrow>
     stub_actuator \<times> (string + unit)" where
  "append_audit print ts io source seq latched trigger_count a =
     (case io of
        Written \<Rightarrow> (a\<lparr>sa_audit := sa_audit a @ audit_line print ts source seq latched trigger_count\<rparr>, Inr ())
      | LockPoisoned e \<Rightarrow> (a, Inl (''audit lock: '' @ e))
      | WriteFailed e part \<Rightarrow> (a\<lparr>sa_audit := sa_audit a @ part\<rparr>, Inl (''audit append: '' @ e)))"

definition trigger ::
  "(json \<Rightarrow> string) \<Rightarrow> string \<Rightarrow> audit_io \<Rightarrow> emergency_source \<Rightarrow> u64 option \<Rightarrow> stub_actuator \<Rightarrow>
     stub_actuator \<times> (string + emergency_trigger)" where
  "trigger print ts io source seq a =
     (let trigger_count = sa_count a + 1;
          latched = (\<not> sa_latch a);
          (a', audit) = append_audit print ts io source seq latched trigger_count
                          (a\<lparr>sa_count := trigger_count, sa_latch := True\<rparr>)
      in (a', Inr \<lparr>et_latched = latched, et_trigger_count = trigger_count, et_audit = audit\<rparr>))"

section \<open>The emergency channel\<close>

definition ack_ok :: "u64 \<Rightarrow> json \<Rightarrow> control_ack" where
  "ack_ok seq result = \<lparr>ca_ack = seq, ca_result = result\<rparr>"

definition ack_err :: "u64 \<Rightarrow> string \<Rightarrow> control_ack" where
  "ack_err seq msg = \<lparr>ca_ack = seq, ca_result = JObj [(''error'', JStr msg)]\<rparr>"

definition handle_envelope ::
  "(emergency_source \<Rightarrow> u64 option \<Rightarrow> 'a \<Rightarrow> 'a \<times> (string + emergency_trigger)) \<Rightarrow> control_envelope \<Rightarrow> 'a \<Rightarrow>
     'a \<times> control_ack" where
  "handle_envelope trig env a =
     (if ce_cmd env \<noteq> EMERGENCY_STOP
      then (a, ack_err (ce_seq env)
                 (''unknown cmd '' @ debug_str (ce_cmd env) @ '' (only '' @ debug_str EMERGENCY_STOP @ '' accepted)''))
      else (case trig Dc (Some (ce_seq env)) a of
              (a', Inr t) \<Rightarrow>
                (a', ack_ok (ce_seq env)
                   (JObj [(''ok'', JBool True), (''source'', JStr ''dc''), (''latched'', JBool (et_latched t)),
                          (''trigger_count'', JNum (show_nat (unat (et_trigger_count t)))),
                          (''audit'', case et_audit t of Inr _ \<Rightarrow> JStr ''ok'' | Inl e \<Rightarrow> JObj [(''error'', JStr e)])]))
            | (a', Inl e) \<Rightarrow> (a', ack_err (ce_seq env) e)))"

lemma ack_eq_iff:
  fixes r :: control_ack
  shows "r = ack_ok q x \<longleftrightarrow> ca_ack r = q \<and> ca_result r = x"
    and "r = ack_err q msg \<longleftrightarrow> ca_ack r = q \<and> ca_result r = JObj [(''error'', JStr msg)]"
  by (cases r; simp add: ack_ok_def ack_err_def)+

text \<open>One message of a channel: an unparseable one is dropped, every other one is acknowledged.\<close>

definition route_message ::
  "(u8 list \<Rightarrow> control_envelope option) \<Rightarrow>
     (emergency_source \<Rightarrow> u64 option \<Rightarrow> 'a \<Rightarrow> 'a \<times> (string + emergency_trigger)) \<Rightarrow> u8 list \<Rightarrow> 'a \<Rightarrow>
     'a \<times> control_ack option" where
  "route_message parse trig data a =
     (case parse data of
        None \<Rightarrow> (a, None)
      | Some env \<Rightarrow> (case handle_envelope trig env a of (a', ack) \<Rightarrow> (a', Some ack)))"

definition local_trigger ::
  "(emergency_source \<Rightarrow> u64 option \<Rightarrow> 'a \<Rightarrow> 'a \<times> (string + emergency_trigger)) \<Rightarrow> 'a \<Rightarrow> 'a" where
  "local_trigger trig a = fst (trig Local None a)"

text \<open>Anything that can happen to the actuator.\<close>

datatype emergency_input = ChannelData "u8 list" | Sigusr1

definition emergency_step ::
  "(u8 list \<Rightarrow> control_envelope option) \<Rightarrow> (json \<Rightarrow> string) \<Rightarrow> emergency_input \<times> string \<times> audit_io \<Rightarrow> stub_actuator \<Rightarrow>
     stub_actuator" where
  "emergency_step parse print i a =
     (case i of (inp, ts, io) \<Rightarrow>
        (case inp of
           ChannelData d \<Rightarrow> fst (route_message parse (trigger print ts io) d a)
         | Sigusr1 \<Rightarrow> local_trigger (trigger print ts io) a))"

definition is_stop :: "(u8 list \<Rightarrow> control_envelope option) \<Rightarrow> emergency_input \<Rightarrow> bool" where
  "is_stop parse i =
     (case i of
        Sigusr1 \<Rightarrow> True
      | ChannelData d \<Rightarrow> (case parse d of None \<Rightarrow> False | Some env \<Rightarrow> ce_cmd env = EMERGENCY_STOP))"

section \<open>The contract of an actuator\<close>

text \<open>What the channel relies on: a call always answers, arms the latch, and reports whether it was
  the one that armed it.\<close>

locale latch_actuator =
  fixes trig :: "emergency_source \<Rightarrow> u64 option \<Rightarrow> 'a \<Rightarrow> 'a \<times> (string + emergency_trigger)"
    and armed :: "'a \<Rightarrow> bool" and triggers :: "'a \<Rightarrow> u64"
  assumes trig_answers: "\<exists>au. snd (trig s q a) = Inr \<lparr>et_latched = (\<not> armed a), et_trigger_count = triggers a + 1, et_audit = au\<rparr>"
    and trig_arms: "armed (fst (trig s q a))"
    and trig_counts: "triggers (fst (trig s q a)) = triggers a + 1"
begin

lemma envelope_stop:
  assumes "ce_cmd env = EMERGENCY_STOP"
  shows "armed (fst (handle_envelope trig env a))" "triggers (fst (handle_envelope trig env a)) = triggers a + 1"
    "ca_ack (snd (handle_envelope trig env a)) = ce_seq env"
    "\<exists>au. ca_result (snd (handle_envelope trig env a)) = JObj [(''ok'', JBool True), (''source'', JStr ''dc''),
       (''latched'', JBool (\<not> armed a)), (''trigger_count'', JNum (show_nat (unat (triggers a + 1)))), (''audit'', au)]"
proof -
  obtain a' au where t: "trig Dc (Some (ce_seq env)) a = (a', Inr \<lparr>et_latched = (\<not> armed a), et_trigger_count = triggers a + 1, et_audit = au\<rparr>)"
    using trig_answers [of Dc "Some (ce_seq env)" a] by (metis prod.collapse)
  show "armed (fst (handle_envelope trig env a))" "triggers (fst (handle_envelope trig env a)) = triggers a + 1"
    "ca_ack (snd (handle_envelope trig env a)) = ce_seq env"
    using trig_arms [of Dc "Some (ce_seq env)" a] trig_counts [of Dc "Some (ce_seq env)" a] assms t
    by (simp_all add: handle_envelope_def ack_ok_def)
  show "\<exists>au. ca_result (snd (handle_envelope trig env a)) = JObj [(''ok'', JBool True), (''source'', JStr ''dc''),
       (''latched'', JBool (\<not> armed a)), (''trigger_count'', JNum (show_nat (unat (triggers a + 1)))), (''audit'', au)]"
    using assms t by (simp add: handle_envelope_def ack_ok_def)
qed

lemma envelope_refused:
  assumes "ce_cmd env \<noteq> EMERGENCY_STOP"
  shows "fst (handle_envelope trig env a) = a" "ca_ack (snd (handle_envelope trig env a)) = ce_seq env"
    "\<exists>msg. ca_result (snd (handle_envelope trig env a)) = JObj [(''error'', JStr msg)]"
  using assms by (simp_all add: handle_envelope_def ack_err_def)

end

interpretation stub: latch_actuator "trigger print ts io" sa_latch sa_count
  by unfold_locales (auto simp: trigger_def append_audit_def Let_def split: audit_io.splits)

section \<open>Sequences of inputs\<close>

text \<open>The stops among a sequence of inputs, with what the audit has to say of each.\<close>

definition stop_of ::
  "(u8 list \<Rightarrow> control_envelope option) \<Rightarrow> emergency_input \<times> string \<times> audit_io \<Rightarrow> (emergency_source \<times> u64 option \<times> string) option" where
  "stop_of parse i =
     (case i of (inp, ts, io) \<Rightarrow>
        (case inp of
           Sigusr1 \<Rightarrow> Some (Local, None, ts)
         | ChannelData d \<Rightarrow>
             (case parse d of
                None \<Rightarrow> None
              | Some env \<Rightarrow> if ce_cmd env = EMERGENCY_STOP then Some (Dc, Some (ce_seq env), ts) else None)))"

text \<open>The lines of a run: one per stop, numbered from the count before, the first one arming an open latch.\<close>

fun run_lines :: "(json \<Rightarrow> string) \<Rightarrow> bool \<Rightarrow> u64 \<Rightarrow> (emergency_source \<times> u64 option \<times> string) list \<Rightarrow> string" where
  "run_lines print latch n [] = []"
| "run_lines print latch n ((src, seq, ts) # stops) =
     audit_line print ts src seq (\<not> latch) (n + 1) @ run_lines print True (n + 1) stops"

lemma emergency_step_stop:
  assumes "stop_of parse i = Some (src, seq, ts)"
  shows "sa_latch (emergency_step parse print i a)" "sa_count (emergency_step parse print i a) = sa_count a + 1"
    "snd (snd i) = Written \<Longrightarrow> sa_audit (emergency_step parse print i a) = sa_audit a @ audit_line print ts src seq (\<not> sa_latch a) (sa_count a + 1)"
  using assms
  by (auto simp: stop_of_def emergency_step_def route_message_def handle_envelope_def local_trigger_def trigger_def
      append_audit_def Let_def split: prod.splits emergency_input.splits option.splits if_splits audit_io.splits)

lemma emergency_step_other: "stop_of parse i = None \<Longrightarrow> emergency_step parse print i a = a"
  by (auto simp: stop_of_def emergency_step_def route_message_def handle_envelope_def
      split: prod.splits emergency_input.splits option.splits if_splits)

lemma emergency_run:
  "let a' = fold (emergency_step parse print) xs a; stops = List.map_filter (stop_of parse) xs
   in sa_latch a' = (sa_latch a \<or> stops \<noteq> []) \<and> sa_count a' = sa_count a + of_nat (length stops)
      \<and> ((\<forall>i \<in> set xs. snd (snd i) = Written) \<longrightarrow> sa_audit a' = sa_audit a @ run_lines print (sa_latch a) (sa_count a) stops)"
proof (induction xs arbitrary: a)
  case (Cons i xs)
  show ?case
  proof (cases "stop_of parse i")
    case None
    then show ?thesis using Cons.IH [of a] by (simp add: Let_def emergency_step_other List.map_filter_simps)
  next
    case (Some st)
    obtain src seq ts where st: "st = (src, seq, ts)" by (cases st)
    note step = emergency_step_stop [OF Some [unfolded st], of print a]
    show ?thesis using Cons.IH [of "emergency_step parse print i a"] step Some st
      by (simp add: Let_def List.map_filter_simps algebra_simps)
  qed
qed (simp add: List.map_filter_simps)

text \<open>
  C22. The emergency latch over any sequence of channel messages and local triggers on a newly
  opened actuator: it is armed exactly if some input was a stop (a parsed envelope with the command
  \<open>stop\<close>, or the local fallback) and never opens again, every stop is counted and nothing else is,
  and with a writable audit file the file holds what it held before followed by one line per stop in
  order, numbered from one, of which exactly the first says it armed the latch. A stop on the channel
  is acknowledged under its own sequence number with that verdict even when its audit line could
  not be written; any other command is answered with an error and changes nothing.
\<close>

theorem emergency_stops_recorded:
  assumes "stub_new path (Inr old) = Inr a"
  shows "let a' = fold (emergency_step parse print) xs a; stops = List.map_filter (stop_of parse) xs
     in sa_latch a' = (stops \<noteq> []) \<and> sa_count a' = of_nat (length stops)
        \<and> ((\<forall>i \<in> set xs. snd (snd i) = Written) \<longrightarrow> sa_audit a' = old @ run_lines print False 0 stops)
        \<and> (ce_cmd env = EMERGENCY_STOP \<longrightarrow>
             (\<exists>au. snd (handle_envelope (trigger print ts io) env a') = ack_ok (ce_seq env)
                (JObj [(''ok'', JBool True), (''source'', JStr ''dc''), (''latched'', JBool (stops = [])),
                       (''trigger_count'', JNum (show_nat (unat (of_nat (length stops) + 1 :: u64)))), (''audit'', au)])))
        \<and> (ce_cmd env \<noteq> EMERGENCY_STOP \<longrightarrow> fst (handle_envelope (trigger print ts io) env a') = a'
             \<and> (\<exists>msg. snd (handle_envelope (trigger print ts io) env a') = ack_err (ce_seq env) msg))"
proof -
  have a: "sa_latch a = False" "sa_count a = 0" "sa_audit a = old" using assms by (auto simp: stub_new_def)
  define a' where "a' = fold (emergency_step parse print) xs a"
  define stops where "stops = List.map_filter (stop_of parse) xs"
  have run: "sa_latch a' = (stops \<noteq> [])" "sa_count a' = of_nat (length stops)"
    "(\<forall>i \<in> set xs. snd (snd i) = Written) \<longrightarrow> sa_audit a' = old @ run_lines print False 0 stops"
    using emergency_run [of parse print xs a] a unfolding a'_def stops_def by (simp_all add: Let_def)
  have ok: "\<exists>au. snd (handle_envelope (trigger print ts io) env a') = ack_ok (ce_seq env)
      (JObj [(''ok'', JBool True), (''source'', JStr ''dc''), (''latched'', JBool (stops = [])),
             (''trigger_count'', JNum (show_nat (unat (of_nat (length stops) + 1 :: u64)))), (''audit'', au)])"
    if c: "ce_cmd env = EMERGENCY_STOP"
    using stub.envelope_stop(3,4) [OF c, of print ts io a'] run by (simp add: ack_eq_iff)
  have err: "fst (handle_envelope (trigger print ts io) env a') = a'
      \<and> (\<exists>msg. snd (handle_envelope (trigger print ts io) env a') = ack_err (ce_seq env) msg)"
    if c: "ce_cmd env \<noteq> EMERGENCY_STOP"
    using stub.envelope_refused [OF c, of print ts io a'] by (simp add: ack_eq_iff)
  show ?thesis using run ok err unfolding a'_def [symmetric] stops_def [symmetric] Let_def by blast
qed

theorem emergency_stops_recorded_witness:
  "sa_audit (fold (emergency_step (\<lambda>d. None) (\<lambda>j. ''x'')) [(Sigusr1, ''t'', Written), (ChannelData [1], ''t'', Written)]
     \<lparr>sa_latch = False, sa_count = 0, sa_audit = ''old''\<rparr>) = ''oldx'' @ [char_of (10 :: nat)]"
proof -
  have new: "stub_new ''p'' (Inr ''old'') = Inr \<lparr>sa_latch = False, sa_count = 0, sa_audit = ''old''\<rparr>" by (simp add: stub_new_def)
  show ?thesis
    using emergency_stops_recorded [OF new, of "\<lambda>d. None" "\<lambda>j. ''x''" "[(Sigusr1, ''t'', Written), (ChannelData [1], ''t'', Written)]"]
    by (simp add: Let_def List.map_filter_simps stop_of_def audit_line_def)
qed

section \<open>Concurrent calls\<close>

text \<open>A call of \<open>trigger\<close> between its atomic steps.\<close>

datatype trigger_call =
    Called emergency_source "u64 option"
  | Counted emergency_source "u64 option" u64
  | Swapped emergency_source "u64 option" u64 bool
  | Returned emergency_trigger

inductive call_step :: "(json \<Rightarrow> string) \<Rightarrow> stub_actuator \<times> trigger_call list \<Rightarrow> stub_actuator \<times> trigger_call list \<Rightarrow> bool"
  for print :: "json \<Rightarrow> string" where
  call_count: "i < length calls \<Longrightarrow> calls ! i = Called src seq \<Longrightarrow>
     call_step print (a, calls) (a\<lparr>sa_count := sa_count a + 1\<rparr>, calls[i := Counted src seq (sa_count a + 1)])"
| call_swap: "i < length calls \<Longrightarrow> calls ! i = Counted src seq n \<Longrightarrow>
     call_step print (a, calls) (a\<lparr>sa_latch := True\<rparr>, calls[i := Swapped src seq n (\<not> sa_latch a)])"
| call_append: "i < length calls \<Longrightarrow> calls ! i = Swapped src seq n latched \<Longrightarrow>
     append_audit print ts io src seq latched n a = (a', audit) \<Longrightarrow>
     call_step print (a, calls) (a', calls[i := Returned \<lparr>et_latched = latched, et_trigger_count = n, et_audit = audit\<rparr>])"

inductive_cases call_stepE: "call_step print (a, calls) s'"

text \<open>Run alone, the three steps are \<open>trigger\<close>.\<close>

lemma trigger_steps:
  "trigger print ts io src seq a = (a', Inr t) \<Longrightarrow> (call_step print)\<^sup>*\<^sup>* (a, [Called src seq]) (a', [Returned t])"
proof -
  assume t: "trigger print ts io src seq a = (a', Inr t)"
  let ?b = "a\<lparr>sa_count := sa_count a + 1\<rparr>"
  have "call_step print (a, [Called src seq]) (?b, [Counted src seq (sa_count a + 1)])"
    using call_count [of 0 "[Called src seq]" src seq print a] by simp
  moreover have "call_step print (?b, [Counted src seq (sa_count a + 1)])
      (?b\<lparr>sa_latch := True\<rparr>, [Swapped src seq (sa_count a + 1) (\<not> sa_latch a)])"
    using call_swap [of 0 "[Counted src seq (sa_count a + 1)]" src seq "sa_count a + 1" print ?b] by simp
  moreover obtain au where "append_audit print ts io src seq (\<not> sa_latch a) (sa_count a + 1) (?b\<lparr>sa_latch := True\<rparr>) = (a', au)"
    and "t = \<lparr>et_latched = (\<not> sa_latch a), et_trigger_count = sa_count a + 1, et_audit = au\<rparr>"
    using t by (auto simp: trigger_def Let_def split: prod.splits)
  then have "call_step print (?b\<lparr>sa_latch := True\<rparr>, [Swapped src seq (sa_count a + 1) (\<not> sa_latch a)]) (a', [Returned t])"
    using call_append [of 0 "[Swapped src seq (sa_count a + 1) (\<not> sa_latch a)]" src seq "sa_count a + 1" "\<not> sa_latch a" print ts io] by simp
  ultimately show ?thesis by (meson converse_rtranclp_into_rtranclp rtranclp.rtrancl_refl)
qed

fun ticket :: "trigger_call \<Rightarrow> nat list" where
  "ticket (Called src seq) = []"
| "ticket (Counted src seq n) = [unat n]"
| "ticket (Swapped src seq n l) = [unat n]"
| "ticket (Returned t) = [unat (et_trigger_count t)]"

fun arms :: "trigger_call \<Rightarrow> nat" where
  "arms (Swapped src seq n l) = of_bool l"
| "arms (Returned t) = of_bool (et_latched t)"
| "arms c = 0"

fun swapped :: "trigger_call \<Rightarrow> bool" where
  "swapped (Swapped src seq n l) = True"
| "swapped (Returned t) = True"
| "swapped c = False"

definition calls_inv :: "stub_actuator \<times> trigger_call list \<Rightarrow> bool" where
  "calls_inv s =
     (case s of (a, calls) \<Rightarrow>
        mset (concat (map ticket calls)) = mset [1..<Suc (unat (sa_count a))]
        \<and> sum_list (map arms calls) = of_bool (sa_latch a)
        \<and> sa_latch a = (\<exists>c \<in> set calls. swapped c))"

lemma mset_concat_update:
  "i < length xs \<Longrightarrow> mset (concat (map f (xs[i := y]))) + mset (f (xs ! i)) = mset (concat (map f xs)) + mset (f y)"
  by (induction xs arbitrary: i) (auto split: nat.splits)

lemma sum_list_map_update:
  fixes f :: "'b \<Rightarrow> nat"
  shows "i < length xs \<Longrightarrow> sum_list (map f (xs[i := y])) + f (xs ! i) = sum_list (map f xs) + f y"
  by (induction xs arbitrary: i) (auto split: nat.splits)

lemma swapped_update:
  "i < length xs \<Longrightarrow> swapped y \<or> (swapped y = swapped (xs ! i)) \<Longrightarrow>
     (\<exists>c \<in> set (xs[i := y]). swapped c) = (swapped y \<or> (\<exists>c \<in> set xs. swapped c))"
  by (induction xs arbitrary: i) (auto split: nat.splits)

lemma tickets_fit: "calls_inv (a, calls) \<Longrightarrow> calls ! i = Called src seq \<Longrightarrow> i < length calls \<Longrightarrow> unat (sa_count a) < length calls"
proof -
  assume inv: "calls_inv (a, calls)" and c: "calls ! i = Called src seq" "i < length calls"
  have one: "length (ticket c) \<le> 1" for c by (cases c) simp_all
  have le: "length (concat (map ticket xs)) \<le> length xs" for xs
  proof (induction xs)
    case (Cons c xs)
    then show ?case using one [of c] by simp
  qed simp
  have "unat (sa_count a) = length (concat (map ticket calls))"
    using inv by (simp add: calls_inv_def flip: size_mset)
  also have "\<dots> = length (concat (map ticket (take i calls))) + length (concat (map ticket (drop (Suc i) calls)))"
    using c by (subst id_take_nth_drop [OF c(2)]) simp
  also have "\<dots> \<le> i + (length calls - Suc i)"
    using le [of "take i calls"] le [of "drop (Suc i) calls"] c(2) by simp
  finally show ?thesis using c(2) by simp
qed

lemma calls_inv_step:
  assumes "calls_inv (a, calls)" and "call_step print (a, calls) (a', calls')" and "length calls < 2 ^ 64"
  shows "calls_inv (a', calls') \<and> length calls' = length calls"
  using assms(2)
proof cases
  case (call_count i src seq)
  have lt: "unat (sa_count a) < length calls" by (rule tickets_fit [OF assms(1) call_count(4,3)])
  then have nxt: "unat (sa_count a + 1) = Suc (unat (sa_count a))"
    using assms(3) by (simp add: unat_word_ariths unat_of_nat)
  show ?thesis
    using assms(1) mset_concat_update [OF call_count(3), of ticket] sum_list_map_update [OF call_count(3), of arms]
      swapped_update [OF call_count(3), of "Counted src seq (sa_count a + 1)"] call_count nxt
    by (simp add: calls_inv_def)
next
  case (call_swap i src seq n)
  show ?thesis
    using assms(1) mset_concat_update [OF call_swap(3), of ticket "Swapped src seq n (\<not> sa_latch a)"]
      sum_list_map_update [OF call_swap(3), of arms "Swapped src seq n (\<not> sa_latch a)"]
      swapped_update [OF call_swap(3), of "Swapped src seq n (\<not> sa_latch a)"] call_swap
    by (simp add: calls_inv_def)
next
  case (call_append i src seq n latched ts io audit)
  have same: "sa_count a' = sa_count a" "sa_latch a' = sa_latch a"
    using call_append(4) by (auto simp: append_audit_def split: audit_io.splits)
  let ?r = "Returned \<lparr>et_latched = latched, et_trigger_count = n, et_audit = audit\<rparr>"
  have "\<exists>c \<in> set calls. swapped c" using call_append(2,3) by (metis nth_mem swapped.simps(1))
  then show ?thesis
    using assms(1) mset_concat_update [OF call_append(2), of ticket ?r] sum_list_map_update [OF call_append(2), of arms ?r]
      swapped_update [OF call_append(2), of ?r] call_append same
    by (simp add: calls_inv_def)
qed

lemma calls_inv_run:
  assumes "(call_step print)\<^sup>*\<^sup>* s s'" and "calls_inv s" and "length (snd s) < 2 ^ 64"
  shows "calls_inv s' \<and> length (snd s') = length (snd s)"
  using assms(1)
proof (induction rule: rtranclp_induct)
  case (step t u)
  obtain a calls a' calls' where "t = (a, calls)" "u = (a', calls')" by (cases t; cases u)
  then show ?case using calls_inv_step [of a calls print a' calls'] step assms(3) by simp
qed (simp add: assms(2))

lemma call_progress:
  assumes "c \<in> set calls" and "\<And>t. c \<noteq> Returned t"
  shows "\<exists>s'. call_step print (a, calls) s'"
proof -
  obtain i where i: "i < length calls" "calls ! i = c" using assms(1) by (metis in_set_conv_nth)
  show ?thesis
  proof (cases c)
    case (Called src seq)
    then show ?thesis using call_count [OF i(1)] i(2) by blast
  next
    case (Counted src seq n)
    then show ?thesis using call_swap [OF i(1)] i(2) by blast
  next
    case (Swapped src seq n l)
    then show ?thesis using call_append [OF i(1)] i(2) surjective_pairing by metis
  qed (use assms(2) in blast)
qed

lemma one_armed:
  "sum_list (map (\<lambda>t. of_bool (et_latched t)) ts) = (1 :: nat) \<Longrightarrow> \<exists>!i. i < length ts \<and> et_latched (ts ! i)"
proof -
  assume one: "sum_list (map (\<lambda>t. of_bool (et_latched t)) ts) = (1 :: nat)"
  have "sum_list (map (\<lambda>t. of_bool (et_latched t)) ts) = length (filter et_latched ts)" by (induction ts) simp_all
  then have "card {i. i < length ts \<and> et_latched (ts ! i)} = 1" using one by (simp add: length_filter_conv_card)
  then obtain i where "{i. i < length ts \<and> et_latched (ts ! i)} = {i}" by (auto simp: card_1_singleton_iff)
  then have "(j < length ts \<and> et_latched (ts ! j)) = (j = i)" for j by (simp add: set_eq_iff)
  then show ?thesis by (intro ex1I [of _ i]) simp_all
qed

text \<open>
  C3. The emergency latch under concurrency. Whatever calls of \<open>trigger\<close> are running on a newly
  opened actuator, and however their atomic steps interleave: at no moment do two of them believe
  they armed the latch; a call that has not returned can always take its next step; and once all have
  returned, exactly one of them reports that it armed the latch, the trigger counts they report are
  the numbers from one to the number of calls without a gap or a repetition, and the latch is armed.
\<close>

theorem emergency_latch_concurrent:
  assumes "stub_new path (Inr old) = Inr a" and "length reqs < 2 ^ 64"
    and "(call_step print)\<^sup>*\<^sup>* (a, map (\<lambda>(src, seq). Called src seq) reqs) (a', calls)"
  shows "length calls = length reqs \<and> sum_list (map arms calls) \<le> 1
    \<and> ((\<exists>c \<in> set calls. \<forall>t. c \<noteq> Returned t) \<longrightarrow> (\<exists>s'. call_step print (a', calls) s'))
    \<and> (\<forall>ts. calls = map Returned ts \<and> reqs \<noteq> [] \<longrightarrow>
         sa_latch a' \<and> (\<exists>!i. i < length ts \<and> et_latched (ts ! i))
         \<and> mset (map (\<lambda>t. unat (et_trigger_count t)) ts) = mset [1..<Suc (length reqs)])"
proof -
  let ?s = "(a, map (\<lambda>(src, seq). Called src seq) reqs)"
  have a: "sa_latch a = False" "sa_count a = 0" using assms(1) by (auto simp: stub_new_def)
  have "calls_inv ?s"
    by (auto simp: calls_inv_def a comp_def case_prod_beta intro: sum_list_0)
  from calls_inv_run [OF assms(3) this] assms(2)
  have inv: "calls_inv (a', calls)" and len: "length calls = length reqs" by simp_all
  have arms: "sum_list (map arms calls) = of_bool (sa_latch a')" using inv by (simp add: calls_inv_def)
  have fin: "sa_latch a' \<and> (\<exists>!i. i < length ts \<and> et_latched (ts ! i))
      \<and> mset (map (\<lambda>t. unat (et_trigger_count t)) ts) = mset [1..<Suc (length reqs)]"
    if c: "calls = map Returned ts" "reqs \<noteq> []" for ts
  proof -
    have tick: "concat (map ticket calls) = map (\<lambda>t. unat (et_trigger_count t)) ts" unfolding c(1) by (induction ts) simp_all
    have m: "mset (map (\<lambda>t. unat (et_trigger_count t)) ts) = mset [1..<Suc (unat (sa_count a'))]"
      using inv by (simp add: calls_inv_def flip: tick)
    then have "length ts = unat (sa_count a')" by (metis diff_Suc_1 length_map length_upt size_mset)
    moreover have "ts \<noteq> []" using c len by auto
    moreover from this have "sa_latch a'" using inv c(1) by (cases ts) (simp_all add: calls_inv_def)
    moreover have "sum_list (map (\<lambda>t. of_bool (et_latched t)) ts) = (1 :: nat)"
      using arms \<open>sa_latch a'\<close> by (simp add: c(1) comp_def)
    moreover have "length ts = length reqs" using len c(1) by simp
    ultimately show ?thesis using m one_armed [of ts] by metis
  qed
  show ?thesis using len arms call_progress fin by (auto simp del: upt_Suc)
qed

theorem emergency_latch_concurrent_witness:
  "\<exists>a' t. (call_step (\<lambda>j. ''x''))\<^sup>*\<^sup>* (\<lparr>sa_latch = False, sa_count = 0, sa_audit = []\<rparr>, [Called Dc (Some 7)]) (a', [Returned t])
     \<and> et_latched t \<and> sa_latch a'"
proof -
  let ?a = "\<lparr>sa_latch = False, sa_count = 0, sa_audit = []\<rparr>"
  obtain a' t where t: "trigger (\<lambda>j. ''x'') ''ts'' Written Dc (Some 7) ?a = (a', Inr t)"
    by (simp add: trigger_def append_audit_def Let_def)
  have run: "(call_step (\<lambda>j. ''x''))\<^sup>*\<^sup>* (?a, map (\<lambda>(src, seq). Called src seq) [(Dc, Some 7)]) (a', map Returned [t])"
    using trigger_steps [OF t] by simp
  have new: "stub_new ''p'' (Inr []) = Inr ?a" by (simp add: stub_new_def)
  have "sa_latch a' \<and> (\<exists>!i. i < length [t] \<and> et_latched ([t] ! i))"
    using emergency_latch_concurrent [OF new _ run] by (auto dest!: spec [of _ "[t]"])
  then show ?thesis using run by (intro exI [of _ a'] exI [of _ t]) auto
qed

end
