(* ===== verification/Controller.thy ===== *)
theory Controller
  imports Emergency Strings
begin

text \<open>
  The control plane of the vehicle, \<open>mediaservo-host/src/controller.rs\<close>, with the actuator of
  \<open>control.rs\<close> and the key file of \<open>mediaservo-common/src/protocol.rs\<close>: the emergency-stop signature
  gate, the handling of one command, the transport setup against the SFU and the event loop that
  consumes the cockpit's command channels.

  WebRTC, the signaling socket, JSON, HMAC and the frame bus are parameters: \<open>cmd_env\<close> holds what a
  command reads of them, \<open>rtc_env\<close> the outcomes of the calls made during setup.
\<close>

section \<open>The signature gate\<close>

text \<open>The key file: its permission bits, or the error of \<open>metadata\<close>; its bytes, or the error of \<open>read\<close>.\<close>

definition trim_newlines :: "u8 list \<Rightarrow> u8 list" where
  "trim_newlines rev_bytes = dropWhile (\<lambda>b. b = 10 \<or> b = 13) rev_bytes"

definition control_hmac_key_from_file ::
  "(string \<Rightarrow> string + nat) \<Rightarrow> (string \<Rightarrow> string + u8 list) \<Rightarrow> string \<Rightarrow> string + string" where
  "control_hmac_key_from_file meta read path =
     (case meta path of
        Inl e \<Rightarrow> Inl (''hmac key file '' @ path @ '': '' @ e)
      | Inr m \<Rightarrow>
          let mode = m mod 512 in
          if mode mod 64 \<noteq> 0
          then Inl (''hmac key file '' @ path @ '': mode '' @ show_oct 4 mode @ '' too permissive (must be 0600 or stricter, G13)'')
          else (case read path of
                  Inl e \<Rightarrow> Inl (''hmac key file '' @ path @ '': '' @ e)
                | Inr bytes \<Rightarrow>
                    let key = rev (trim_newlines (rev bytes)) in
                    if key = [] then Inl (''hmac key file '' @ path @ '': empty key'')
                    else if \<not> utf8_valid key then Inl (''hmac key file '' @ path @ '': key is not UTF-8'')
                    else Inr (map (\<lambda>b. char_of (unat b)) key)))"

record command_policy =
  cp_hmac_key :: "string option"
  cp_allow_unsigned_estop :: bool
  cp_actuation_log :: "string option"

definition nonempty_var :: "(string \<Rightarrow> string option) \<Rightarrow> string \<Rightarrow> string option" where
  "nonempty_var var name = (case var name of Some v \<Rightarrow> if v = [] then None else Some v | None \<Rightarrow> None)"

text \<open>\<open>Inl\<close> is the panic of a configured key file that cannot be used.\<close>

definition policy_from_env :: "(string \<Rightarrow> string option) \<Rightarrow> (string \<Rightarrow> string + string) \<Rightarrow> string + command_policy" where
  "policy_from_env var key_from_file =
     (case (case nonempty_var var ''MEDIASERVO_CONTROL_HMAC_KEY_FILE'' of
              Some p \<Rightarrow> (case key_from_file p of
                           Inl e \<Rightarrow> Inl (''controller estop key unavailable: '' @ e) | Inr k \<Rightarrow> Inr (Some k))
            | None \<Rightarrow> Inr (nonempty_var var ''MEDIASERVO_CONTROL_HMAC_KEY'')) of
        Inl e \<Rightarrow> Inl e
      | Inr key \<Rightarrow>
          Inr \<lparr>cp_hmac_key = key, cp_allow_unsigned_estop = (var ''CONTROL_ALLOW_UNSIGNED_ESTOP'' = Some ''1''),
               cp_actuation_log = nonempty_var var ''CONTROL_ACTUATION_LOG''\<rparr>)"

definition estop_verdict ::
  "(control_envelope \<Rightarrow> u8 list) \<Rightarrow> (u8 list \<Rightarrow> u8 list \<Rightarrow> u8 list) \<Rightarrow> command_policy \<Rightarrow> control_envelope \<Rightarrow> string \<times> bool" where
  "estop_verdict to_vec hmac policy env =
     (if \<not> is_estop_cmd (ce_cmd env) then (''n/a'', True)
      else case (cp_hmac_key policy, ce_sig env) of
             (None, Some _) \<Rightarrow> (''signed-unconfigured'', True)
           | (None, None) \<Rightarrow> (''unsigned-unconfigured'', True)
           | (Some key, Some sig) \<Rightarrow>
               if control_hmac_verify to_vec hmac key env sig then (''ok'', True) else (''invalid'', False)
           | (Some _, None) \<Rightarrow>
               if cp_allow_unsigned_estop policy then (''absent-allowed'', True) else (''absent'', False))"

section \<open>One command\<close>

definition TOPIC_CMD :: string where "TOPIC_CMD = ''control/cmd''"
definition TOPIC_ACK :: string where "TOPIC_ACK = ''control/ack''"
definition ACK_LABEL :: string where "ACK_LABEL = ''ack''"

text \<open>\<open>cx_bus\<close>: no bus, or which publications it takes; \<open>cx_log_ok\<close>: whether the line reaches the log.\<close>

record cmd_env =
  cx_parse :: "u8 list \<Rightarrow> control_envelope option"
  cx_to_vec :: "control_envelope \<Rightarrow> u8 list"
  cx_hmac :: "u8 list \<Rightarrow> u8 list \<Rightarrow> u8 list"
  cx_print_ack :: "control_ack \<Rightarrow> string option"
  cx_ts_ms :: u64
  cx_bus :: "(string \<Rightarrow> bool) option"
  cx_log_ok :: bool
  cx_policy :: command_policy

record 'a cmd_world =
  cw_act :: 'a
  cw_bus :: "(string \<times> u8 list) list"
  cw_log :: "json list"
  cw_acks :: "(string \<times> string) list"

definition publish_bus :: "cmd_env \<Rightarrow> string \<Rightarrow> u8 list \<Rightarrow> ('a, 'b) cmd_world_scheme \<Rightarrow> ('a, 'b) cmd_world_scheme" where
  "publish_bus x topic payload w =
     (case cx_bus x of
        None \<Rightarrow> w
      | Some takes \<Rightarrow> if takes topic then w\<lparr>cw_bus := cw_bus w @ [(topic, payload)]\<rparr> else w)"

definition actuation_audit ::
  "cmd_env \<Rightarrow> string \<Rightarrow> control_envelope \<Rightarrow> string \<Rightarrow> string \<Rightarrow> ('a, 'b) cmd_world_scheme \<Rightarrow> ('a, 'b) cmd_world_scheme" where
  "actuation_audit x label env sig exec w =
     (if cp_actuation_log (cx_policy x) = None \<or> \<not> cx_log_ok x then w
      else w\<lparr>cw_log := cw_log w @
             [JObj [(''ts_ms'', JNum (show_nat (unat (cx_ts_ms x)))), (''channel'', JStr label), (''cmd'', JStr (ce_cmd env)),
                    (''seq'', JNum (show_nat (unat (ce_seq env)))), (''sig'', JStr sig), (''exec'', JStr exec)]]\<rparr>)"

text \<open>\<open>DcAckSink\<close>: the ack channel when it exists, then the channel the command came on when it is open.\<close>

definition dc_ack_write :: "string option \<Rightarrow> string \<Rightarrow> bool \<Rightarrow> string \<Rightarrow> (string \<times> string) list" where
  "dc_ack_write ack inbound is_open t =
     (case ack of Some l \<Rightarrow> [(l, t)] | None \<Rightarrow> []) @ (if is_open then [(inbound, t)] else [])"

definition handle_command ::
  "cmd_env \<Rightarrow> (string \<Rightarrow> control_envelope \<Rightarrow> 'a \<Rightarrow> 'a \<times> (string + json)) \<Rightarrow> (string \<Rightarrow> (string \<times> string) list) \<Rightarrow>
     string \<Rightarrow> u8 list \<Rightarrow> 'a cmd_world \<Rightarrow> 'a cmd_world" where
  "handle_command x on_command sink label data w =
     (case cx_parse x data of
        None \<Rightarrow> w
      | Some env \<Rightarrow>
          (case estop_verdict (cx_to_vec x) (cx_hmac x) (cx_policy x) env of (sig_state, allow) \<Rightarrow>
             if \<not> allow
             then (let w1 = actuation_audit x label env sig_state ''rejected'' w
                   in w1\<lparr>cw_acks := cw_acks w1
                          @ sink (unwrap_or (cx_print_ack x (ack_err (ce_seq env) ''estop_signature_rejected'')) [])\<rparr>)
             else
               (let w1 = publish_bus x TOPIC_CMD data w;
                    (a, res) = on_command label env (cw_act w1);
                    (exec_state, ack) = (case res of Inr r \<Rightarrow> (''ok'', ack_ok (ce_seq env) r) | Inl e \<Rightarrow> (''error'', ack_err (ce_seq env) e));
                    w2 = actuation_audit x label env sig_state exec_state (w1\<lparr>cw_act := a\<rparr>)
                in case cx_print_ack x ack of
                     None \<Rightarrow> w2
                   | Some json \<Rightarrow>
                       let w3 = publish_bus x TOPIC_ACK (bytes_of json) w2
                       in w3\<lparr>cw_acks := cw_acks w3 @ sink json\<rparr>)))"

text \<open>The stub of \<open>control.rs\<close>, remembering the commands it was given.\<close>

definition stub_on_command ::
  "string \<Rightarrow> control_envelope \<Rightarrow> (string \<times> control_envelope) list \<Rightarrow> (string \<times> control_envelope) list \<times> (string + json)" where
  "stub_on_command channel env given =
     (given @ [(channel, env)],
      Inr (JObj [(''ok'', JBool True), (''channel'', JStr channel), (''seq'', JNum (show_nat (unat (ce_seq env))))]))"

text \<open>One channel: messages until it closes, its event stream ends, or its producer is gone.\<close>

datatype dc_event = DcOpen | DcClosed | DcError string | DcMessage "u8 list" | DcEnd | DcPurged

fun route_dc ::
  "cmd_env \<Rightarrow> (string \<Rightarrow> control_envelope \<Rightarrow> 'a \<Rightarrow> 'a \<times> (string + json)) \<Rightarrow> string option \<Rightarrow> string \<Rightarrow> (dc_event \<times> bool) list \<Rightarrow>
     'a cmd_world \<Rightarrow> 'a cmd_world" where
  "route_dc x act ack label [] w = w"
| "route_dc x act ack label ((DcOpen, b) # evs) w = route_dc x act ack label evs w"
| "route_dc x act ack label ((DcError e, b) # evs) w = route_dc x act ack label evs w"
| "route_dc x act ack label ((DcMessage d, b) # evs) w =
     route_dc x act ack label evs (handle_command x act (dc_ack_write ack label b) label d w)"
| "route_dc x act ack label ((DcClosed, b) # evs) w = w"
| "route_dc x act ack label ((DcEnd, b) # evs) w = w"
| "route_dc x act ack label ((DcPurged, b) # evs) w = w"

section \<open>What a command may do\<close>

text \<open>The commands the gate lets through.\<close>

definition admitted :: "cmd_env \<Rightarrow> control_envelope \<Rightarrow> bool" where
  "admitted x env =
     (is_estop_cmd (ce_cmd env) \<longrightarrow>
        (case cp_hmac_key (cx_policy x) of
           None \<Rightarrow> True
         | Some key \<Rightarrow>
             (case ce_sig env of
                Some sig \<Rightarrow> from_hex sig = Some (cx_hmac x (bytes_of key) (canonical_envelope_bytes (cx_to_vec x) env))
              | None \<Rightarrow> cp_allow_unsigned_estop (cx_policy x))))"

lemma hmac_verify_iff:
  "control_hmac_verify to_vec hmac key env sig \<longleftrightarrow> from_hex sig = Some (hmac (bytes_of key) (canonical_envelope_bytes to_vec env))"
  by (auto simp: control_hmac_verify_def split: option.splits)

lemma verdict_admitted: "snd (estop_verdict (cx_to_vec x) (cx_hmac x) (cx_policy x) env) = admitted x env"
  by (auto simp: estop_verdict_def admitted_def hmac_verify_iff split: option.splits)

text \<open>The acknowledgement of an executed command.\<close>

definition executed_ack :: "control_envelope \<Rightarrow> string + json \<Rightarrow> control_ack" where
  "executed_ack env res = (case res of Inr r \<Rightarrow> ack_ok (ce_seq env) r | Inl e \<Rightarrow> ack_err (ce_seq env) e)"

definition exec_state :: "cmd_env \<Rightarrow> control_envelope \<Rightarrow> string + json \<Rightarrow> string" where
  "exec_state x env res = (if \<not> admitted x env then ''rejected'' else case res of Inr r \<Rightarrow> ''ok'' | Inl e \<Rightarrow> ''error'')"

lemma world_frame [simp]:
  "cw_act (publish_bus x t d w) = cw_act w" "cw_log (publish_bus x t d w) = cw_log w" "cw_acks (publish_bus x t d w) = cw_acks w"
  "cw_act (actuation_audit x l env s e w) = cw_act w" "cw_bus (actuation_audit x l env s e w) = cw_bus w"
  "cw_acks (actuation_audit x l env s e w) = cw_acks w"
  by (auto simp: publish_bus_def actuation_audit_def split: option.splits)

lemma handle_command_cases:
  assumes "cx_parse x data = Some env"
  shows "\<not> admitted x env \<Longrightarrow> handle_command x act sink label data w =
      (let w1 = actuation_audit x label env (fst (estop_verdict (cx_to_vec x) (cx_hmac x) (cx_policy x) env)) ''rejected'' w
       in w1\<lparr>cw_acks := cw_acks w @ sink (unwrap_or (cx_print_ack x (ack_err (ce_seq env) ''estop_signature_rejected'')) [])\<rparr>)"
    and "admitted x env \<Longrightarrow> handle_command x act sink label data w =
      (let (a, res) = act label env (cw_act w);
           w2 = actuation_audit x label env (fst (estop_verdict (cx_to_vec x) (cx_hmac x) (cx_policy x) env)) (exec_state x env res)
                  ((publish_bus x TOPIC_CMD data w)\<lparr>cw_act := a\<rparr>)
       in case cx_print_ack x (executed_ack env res) of
            None \<Rightarrow> w2
          | Some json \<Rightarrow> (publish_bus x TOPIC_ACK (bytes_of json) w2)\<lparr>cw_acks := cw_acks w @ sink json\<rparr>)"
proof -
  obtain sg al where v: "estop_verdict (cx_to_vec x) (cx_hmac x) (cx_policy x) env = (sg, al)" by force
  then have al: "al = admitted x env" using verdict_admitted [of x env] by simp
  show "\<not> admitted x env \<Longrightarrow> handle_command x act sink label data w =
      (let w1 = actuation_audit x label env (fst (estop_verdict (cx_to_vec x) (cx_hmac x) (cx_policy x) env)) ''rejected'' w
       in w1\<lparr>cw_acks := cw_acks w @ sink (unwrap_or (cx_print_ack x (ack_err (ce_seq env) ''estop_signature_rejected'')) [])\<rparr>)"
    using assms al v by (simp add: handle_command_def Let_def)
  assume ad: "admitted x env"
  obtain a res where r: "act label env (cw_act w) = (a, res)" by force
  show "handle_command x act sink label data w =
      (let (a, res) = act label env (cw_act w);
           w2 = actuation_audit x label env (fst (estop_verdict (cx_to_vec x) (cx_hmac x) (cx_policy x) env)) (exec_state x env res)
                  ((publish_bus x TOPIC_CMD data w)\<lparr>cw_act := a\<rparr>)
       in case cx_print_ack x (executed_ack env res) of
            None \<Rightarrow> w2
          | Some json \<Rightarrow> (publish_bus x TOPIC_ACK (bytes_of json) w2)\<lparr>cw_acks := cw_acks w @ sink json\<rparr>)"
    using assms al v ad r
    by (cases res) (simp_all add: handle_command_def Let_def executed_ack_def exec_state_def split: option.split)
qed

text \<open>
  C6. The vehicle's control channel. A message that is not an envelope changes nothing. Otherwise
  the actuator runs the command exactly once if it is admitted, and not at all if it is not, where
  an emergency-stop command is admitted with a configured key only if its signature is a hex
  spelling of the MAC of its sequence number, command and payload under that key, or it has none and
  unsigned stops are allowed. Either way the sender gets one acknowledgement under the command's
  sequence number, with the actuator's result or error or the refusal (when the result can be
  printed), and an actuation log that can be written gets one line saying which of the three
  happened. Neither the bus nor the log decides whether the command is executed.
\<close>

theorem command_gate:
  "case cx_parse x data of
     None \<Rightarrow> handle_command x act sink label data w = w
   | Some env \<Rightarrow>
       let w' = handle_command x act sink label data w;
           res = snd (act label env (cw_act w));
           ack = (if admitted x env then executed_ack env res else ack_err (ce_seq env) ''estop_signature_rejected'')
       in cw_act w' = (if admitted x env then fst (act label env (cw_act w)) else cw_act w)
          \<and> ca_ack ack = ce_seq env
          \<and> (\<forall>json. cx_print_ack x ack = Some json \<longrightarrow> cw_acks w' = cw_acks w @ sink json)
          \<and> (\<exists>sig. cw_log w' = cw_log w @
               (if cp_actuation_log (cx_policy x) = None \<or> \<not> cx_log_ok x then []
                else [JObj [(''ts_ms'', JNum (show_nat (unat (cx_ts_ms x)))), (''channel'', JStr label), (''cmd'', JStr (ce_cmd env)),
                            (''seq'', JNum (show_nat (unat (ce_seq env)))), (''sig'', JStr sig), (''exec'', JStr (exec_state x env res))]]))"
proof (cases "cx_parse x data")
  case None
  then show ?thesis by (simp add: handle_command_def)
next
  case (Some env)
  define sg where "sg = fst (estop_verdict (cx_to_vec x) (cx_hmac x) (cx_policy x) env)"
  obtain a res where r: "act label env (cw_act w) = (a, res)" by force
  have log: "cw_log (actuation_audit x label env sg e v) = cw_log v @
      (if cp_actuation_log (cx_policy x) = None \<or> \<not> cx_log_ok x then []
       else [JObj [(''ts_ms'', JNum (show_nat (unat (cx_ts_ms x)))), (''channel'', JStr label), (''cmd'', JStr (ce_cmd env)),
                   (''seq'', JNum (show_nat (unat (ce_seq env)))), (''sig'', JStr sg), (''exec'', JStr e)]])" for e and v :: "'a cmd_world"
    by (simp add: actuation_audit_def)
  have ack: "ca_ack (executed_ack env res) = ce_seq env" "ca_ack (ack_err (ce_seq env) m) = ce_seq env" for m
    by (simp_all add: executed_ack_def ack_ok_def ack_err_def split: sum.split)
  show ?thesis
  proof (cases "admitted x env")
    case True
    note h = handle_command_cases(2) [OF Some True, of act sink label w, folded sg_def]
    show ?thesis using Some True r ack unfolding Some option.case Let_def h
      by (cases "cx_print_ack x (executed_ack env res)") (auto simp: log)
  next
    case False
    note h = handle_command_cases(1) [OF Some False, of act sink label w, folded sg_def]
    have ex: "exec_state x env y = ''rejected''" for y using False by (simp add: exec_state_def)
    show ?thesis using Some False r ack unfolding Some option.case Let_def h by (auto simp: log ex unwrap_or_def)
  qed
qed

text \<open>A vehicle with a key, and an unsigned stop.\<close>

definition demo_cmd :: cmd_env where
  "demo_cmd = \<lparr>cx_parse = (\<lambda>d. Some \<lparr>ce_seq = 7, ce_cmd = ''estop'', ce_payload = JNull, ce_sig = None\<rparr>),
     cx_to_vec = (\<lambda>e. [1]), cx_hmac = (\<lambda>k m. [2]), cx_print_ack = (\<lambda>a. Some ''ack''), cx_ts_ms = 5, cx_bus = None,
     cx_log_ok = True, cx_policy = \<lparr>cp_hmac_key = Some ''key'', cp_allow_unsigned_estop = False, cp_actuation_log = Some ''log''\<rparr>\<rparr>"

theorem command_gate_witness:
  "let w' = handle_command demo_cmd stub_on_command (dc_ack_write (Some ACK_LABEL) ''chassis'' True) ''chassis'' [0]
              \<lparr>cw_act = [], cw_bus = [], cw_log = [], cw_acks = []\<rparr>
   in cw_act w' = [] \<and> cw_acks w' = [(''ack'', ''ack''), (''chassis'', ''ack'')] \<and> length (cw_log w') = 1"
proof -
  have no: "\<not> admitted demo_cmd \<lparr>ce_seq = 7, ce_cmd = ''estop'', ce_payload = JNull, ce_sig = None\<rparr>"
    by (simp add: admitted_def demo_cmd_def is_estop_cmd_def)
  show ?thesis
    using command_gate [of demo_cmd stub_on_command "dc_ack_write (Some ACK_LABEL) ''chassis'' True" "''chassis''" "[0]"
        "\<lparr>cw_act = [], cw_bus = [], cw_log = [], cw_acks = []\<rparr>"] no
    by (auto simp: Let_def demo_cmd_def dc_ack_write_def ACK_LABEL_def)
qed

section \<open>Channels and transports\<close>

record dc_init =
  di_ordered :: bool
  di_max_retransmit_time :: "int option"
  di_max_retransmits :: "int option"
  di_protocol :: string
  di_negotiated :: bool
  di_id :: int

definition dc_init_default :: dc_init where
  "dc_init_default = \<lparr>di_ordered = True, di_max_retransmit_time = None, di_max_retransmits = None, di_protocol = [],
     di_negotiated = False, di_id = - 1\<rparr>"

definition DEFAULT_LABELS :: "string list" where "DEFAULT_LABELS = [''chassis'', ''gimbal'', ''light'']"
definition DATA_PROTOCOL :: string where "DATA_PROTOCOL = ''sctp''"
definition SFU_PEER_ID :: string where "SFU_PEER_ID = ''host''"

definition controller_labels :: "string list" where
  "controller_labels = DEFAULT_LABELS @ [ACK_LABEL]"

definition channel_init :: "string \<Rightarrow> dc_init" where
  "channel_init label =
     (if label = ''gimbal'' then dc_init_default\<lparr>di_ordered := False, di_max_retransmits := Some 5\<rparr> else dc_init_default)"

definition u16_try_from :: "int \<Rightarrow> u16 option" where
  "u16_try_from i = (if 0 \<le> i \<and> i < 65536 then Some (of_int i) else None)"

definition sctp_stream_params :: "string \<Rightarrow> int \<Rightarrow> string + sctp_stream_parameters" where
  "sctp_stream_params label i =
     (case u16_try_from i of
        None \<Rightarrow> Inl (''DC '' @ label @ '' id='' @ show_int i @ '' unusable as SCTP stream_id (DataChannel has no assigned id)'')
      | Some stream_id \<Rightarrow>
          let ini = channel_init label in
          Inr \<lparr>sp_stream_id = stream_id, sp_ordered = di_ordered ini,
               sp_max_packet_life_time = Option.bind (di_max_retransmit_time ini) u16_try_from,
               sp_max_retransmits = Option.bind (di_max_retransmits ini) u16_try_from\<rparr>)"

definition candidate_line :: "ice_candidate \<Rightarrow> string" where
  "candidate_line c =
     ''a=candidate:'' @ ic_foundation c @ '' 1 '' @ to_uppercase (ic_protocol c) @ '' '' @ show_nat (unat (ic_priority c))
     @ '' '' @ ic_ip c @ '' '' @ show_nat (unat (ic_port c)) @ '' typ ''
     @ (if ic_candidate_type c \<in> {''host'', ''srflx'', ''prflx'', ''relay''} then ic_candidate_type c else ''host'')"

definition is_mdns :: "ice_candidate \<Rightarrow> bool" where
  "is_mdns c = str_contains (ic_ip c) ''.local''"

definition build_dc_remote_sdp :: "ice_parameters \<Rightarrow> dtls_parameters \<Rightarrow> ice_candidate list option \<Rightarrow> string" where
  "build_dc_remote_sdp ice dtls candidates =
     (case dt_fingerprints dtls of
        [] \<Rightarrow> []
      | fp # _ \<Rightarrow>
          let usable = filter (\<lambda>c. \<not> is_mdns c) (unwrap_or candidates []);
              conn_ip = (case usable of c # _ \<Rightarrow> ic_ip c | [] \<Rightarrow> ''0.0.0.0'')
          in join_str [char_of (13 :: nat), char_of (10 :: nat)]
               ([''v=0'', ''o=- 0 0 IN IP4 0.0.0.0'', ''s=-'', ''t=0 0'', ''a=group:BUNDLE data'', ''a=ice-lite'',
                 ''a=ice-ufrag:'' @ ip_username_fragment ice, ''a=ice-pwd:'' @ ip_password ice,
                 ''a=fingerprint:'' @ to_lowercase (fp_algorithm fp) @ '' '' @ fp_value fp, ''a=setup:actpass'',
                 ''m=application 9 UDP/DTLS/SCTP webrtc-datachannel'', ''c=IN IP4 '' @ conn_ip, ''a=mid:data'',
                 ''a=sctp-port:5000'', ''a=max-message-size:262144'']
                @ map candidate_line usable @ [''a=end-of-candidates'', []]))"

lemma u16_try_from_value: "u16_try_from i = Some n \<Longrightarrow> int (unat n) = i"
  by (auto simp: u16_try_from_def uint_word_of_int simp flip: uint_nat split: if_splits)

text \<open>The announced stream parameters are those of the channel that was really opened.\<close>

lemma sctp_params_agree:
  assumes "sctp_stream_params label i = Inr p"
  shows "int (unat (sp_stream_id p)) = i" "sp_ordered p = di_ordered (channel_init label)"
    "map_option (\<lambda>n. int (unat n)) (sp_max_retransmits p) = di_max_retransmits (channel_init label)"
    "sp_max_packet_life_time p = None"
proof -
  obtain n where n: "u16_try_from i = Some n" using assms by (auto simp: sctp_stream_params_def split: option.splits)
  then have p: "p = \<lparr>sp_stream_id = n, sp_ordered = di_ordered (channel_init label),
      sp_max_packet_life_time = Option.bind (di_max_retransmit_time (channel_init label)) u16_try_from,
      sp_max_retransmits = Option.bind (di_max_retransmits (channel_init label)) u16_try_from\<rparr>"
    using assms by (simp add: sctp_stream_params_def Let_def)
  show "int (unat (sp_stream_id p)) = i" using u16_try_from_value [OF n] by (simp add: p)
qed (use assms in \<open>auto simp: sctp_stream_params_def channel_init_def dc_init_default_def u16_try_from_def Let_def
       split: option.splits if_splits\<close>)

section \<open>Setup against the SFU\<close>

datatype signal_event = EvConnected string | EvMessage signaling_message | EvDisconnected string | EvError string

record transport_info =
  tr_transport_id :: string
  tr_ice :: ice_parameters
  tr_dtls :: dtls_parameters
  tr_candidates :: "ice_candidate list option"

record pending_producer =
  pp_data_producer_id :: string
  pp_label :: string

text \<open>The calls made during setup fail with the text they return; a data channel has the id it was given.\<close>

record rtc_env =
  rx_room :: string
  rx_send :: "signaling_message \<Rightarrow> string option"
  rx_create_pc :: "transport_direction \<Rightarrow> string option"
  rx_set_remote :: "transport_direction \<Rightarrow> string \<Rightarrow> string option"
  rx_create_dc :: "string \<Rightarrow> dc_init \<Rightarrow> string + int"
  rx_create_answer :: "transport_direction \<Rightarrow> string option"
  rx_set_local :: "transport_direction \<Rightarrow> string option"
  rx_fingerprint :: "transport_direction \<Rightarrow> string option"
  rx_recv_dc :: "string \<Rightarrow> dc_init \<Rightarrow> bool"

text \<open>Receiving: \<open>None\<close> is an error of the event stream. An arm of the match returns, or goes on and may
  queue an announcement.\<close>

datatype 'r arm = Return "string + 'r" | Continue "pending_producer option"

definition await_transport_arm :: "signal_event option \<Rightarrow> transport_info arm" where
  "await_transport_arm ev =
     (case ev of
        None \<Rightarrow> Return (Inl ''signaling event stream closed during transport setup'')
      | Some (EvMessage m) \<Rightarrow>
          (case m of
             WebRtcTransportCreated t \<Rightarrow>
               Return (Inr \<lparr>tr_transport_id = tc_transport_id t, tr_ice = tc_ice_parameters t, tr_dtls = tc_dtls_parameters t,
                            tr_candidates = tc_ice_candidates t\<rparr>)
           | NewDataProducer room dp peer label protocol \<Rightarrow> Continue (Some \<lparr>pp_data_producer_id = dp, pp_label = label\<rparr>)
           | Error code msg \<Rightarrow>
               if msg = ''transport_connected'' then Continue None
               else Return (Inl (''SFU error ['' @ show_nat (unat code) @ '']: '' @ msg))
           | _ \<Rightarrow> Continue None)
      | Some (EvDisconnected reason) \<Rightarrow> Return (Inl (''signaling dropped during transport setup: '' @ reason))
      | Some (EvConnected room) \<Rightarrow> Continue None
      | Some (EvError e) \<Rightarrow> Return (Inl (''signaling error: '' @ e)))"

definition await_data_producer_arm :: "signal_event option \<Rightarrow> string arm" where
  "await_data_producer_arm ev =
     (case ev of
        None \<Rightarrow> Return (Inl ''signaling event stream closed during DataProducer setup'')
      | Some (EvMessage m) \<Rightarrow>
          (case m of
             DataProducerCreated room dp \<Rightarrow> Return (Inr dp)
           | NewDataProducer room dp peer label protocol \<Rightarrow> Continue (Some \<lparr>pp_data_producer_id = dp, pp_label = label\<rparr>)
           | Error code msg \<Rightarrow>
               if msg = ''transport_connected'' then Continue None
               else Return (Inl (''DataProducer creation rejected ['' @ show_nat (unat code) @ '']: '' @ msg))
           | _ \<Rightarrow> Continue None)
      | Some (EvDisconnected reason) \<Rightarrow> Return (Inl (''signaling dropped during DataProducer setup: '' @ reason))
      | Some (EvConnected room) \<Rightarrow> Continue None
      | Some (EvError e) \<Rightarrow> Return (Inl (''signaling error: '' @ e)))"

text \<open>\<open>Waiting\<close>: the events that have arrived do not end the wait.\<close>

datatype 'r progress = Waiting | Failed string | Got 'r

record setup_state =
  su_sent :: "signaling_message list"
  su_pending :: "pending_producer list"
  su_events :: "signal_event option list"

fun await_loop :: "(signal_event option \<Rightarrow> 'r arm) \<Rightarrow> signal_event option list \<Rightarrow> pending_producer list \<Rightarrow>
     'r progress \<times> pending_producer list \<times> signal_event option list" where
  "await_loop arm [] pending = (Waiting, pending, [])"
| "await_loop arm (ev # evs) pending =
     (case arm ev of
        Return (Inr r) \<Rightarrow> (Got r, pending, evs)
      | Return (Inl e) \<Rightarrow> (Failed e, pending, evs)
      | Continue q \<Rightarrow> await_loop arm evs (pending @ (case q of None \<Rightarrow> [] | Some p \<Rightarrow> [p])))"

definition await :: "(signal_event option \<Rightarrow> 'r arm) \<Rightarrow> setup_state \<Rightarrow> 'r progress \<times> setup_state" where
  "await arm st =
     (case await_loop arm (su_events st) (su_pending st) of (r, pending, evs) \<Rightarrow>
        (r, st\<lparr>su_pending := pending, su_events := evs\<rparr>))"

text \<open>The \<open>?\<close> operator over the setup state.\<close>

definition sbind :: "'r progress \<times> setup_state \<Rightarrow> ('r \<Rightarrow> setup_state \<Rightarrow> 'q progress \<times> setup_state) \<Rightarrow> 'q progress \<times> setup_state" where
  "sbind m f = (case m of (Got r, st) \<Rightarrow> f r st | (Waiting, st) \<Rightarrow> (Waiting, st) | (Failed e, st) \<Rightarrow> (Failed e, st))"

definition call :: "string \<Rightarrow> string option \<Rightarrow> setup_state \<Rightarrow> unit progress \<times> setup_state" where
  "call what res st = (case res of None \<Rightarrow> (Got (), st) | Some e \<Rightarrow> (Failed (what @ '': '' @ e), st))"

definition signal_send :: "rtc_env \<Rightarrow> string \<Rightarrow> signaling_message \<Rightarrow> setup_state \<Rightarrow> unit progress \<times> setup_state" where
  "signal_send x what m st = call what (rx_send x m) (if rx_send x m = None then st\<lparr>su_sent := su_sent st @ [m]\<rparr> else st)"

fun debug_direction :: "transport_direction \<Rightarrow> string" where
  "debug_direction Send = ''Send''"
| "debug_direction Recv = ''Recv''"

definition open_transport :: "rtc_env \<Rightarrow> transport_direction \<Rightarrow> setup_state \<Rightarrow> transport_info progress \<times> setup_state" where
  "open_transport x direction st =
     sbind (signal_send x (''CreateWebRtcTransport('' @ debug_direction direction @ '')'')
              (CreateWebRtcTransport (rx_room x) SFU_PEER_ID direction) st) (\<lambda>_ st.
     sbind (await await_transport_arm st) (\<lambda>t st.
     sbind (call ''create_peer_connection'' (rx_create_pc x direction) st) (\<lambda>_ st.
     sbind (call ''set_remote_description''
              (rx_set_remote x direction (build_dc_remote_sdp (tr_ice t) (tr_dtls t) (tr_candidates t))) st) (\<lambda>_ st.
     (Got t, st)))))"

definition connect_answer :: "rtc_env \<Rightarrow> transport_direction \<Rightarrow> transport_info \<Rightarrow> setup_state \<Rightarrow> unit progress \<times> setup_state" where
  "connect_answer x direction t st =
     sbind (call ''create_answer'' (rx_create_answer x direction) st) (\<lambda>_ st.
     sbind (call ''set_local_description'' (rx_set_local x direction) st) (\<lambda>_ st.
     case rx_fingerprint x direction of
       None \<Rightarrow> (Failed ''no local DTLS fingerprint'', st)
     | Some fp_hex \<Rightarrow>
         signal_send x ''ConnectWebRtcTransport''
           (ConnectWebRtcTransport (rx_room x) SFU_PEER_ID (tr_transport_id t)
              \<lparr>dt_fingerprints = [\<lparr>fp_algorithm = ''sha-256'', fp_value = fp_hex\<rparr>], dt_role = ''client''\<rparr>) st))"

fun create_channels :: "rtc_env \<Rightarrow> string list \<Rightarrow> setup_state \<Rightarrow> (string \<times> int) list progress \<times> setup_state" where
  "create_channels x [] st = (Got [], st)"
| "create_channels x (label # labels) st =
     (case rx_create_dc x label (channel_init label) of
        Inl e \<Rightarrow> (Failed (''create_data_channel '' @ label @ '': '' @ e), st)
      | Inr i \<Rightarrow> sbind (create_channels x labels st) (\<lambda>dcs st. (Got ((label, i) # dcs), st)))"

fun announce_channels :: "rtc_env \<Rightarrow> string \<Rightarrow> (string \<times> int) list \<Rightarrow> setup_state \<Rightarrow> string list progress \<times> setup_state" where
  "announce_channels x tid [] st = (Got [], st)"
| "announce_channels x tid ((label, i) # dcs) st =
     (case sctp_stream_params label i of
        Inl e \<Rightarrow> (Failed e, st)
      | Inr params \<Rightarrow>
          sbind (signal_send x (''CreateDataProducer '' @ label)
                   (CreateDataProducer \<lparr>dp_room_id = rx_room x, dp_peer_id = SFU_PEER_ID, dp_transport_direction = Send,
                      dp_label = label, dp_protocol = DATA_PROTOCOL, dp_sctp_stream_parameters = Some params,
                      dp_transport_id = Some tid\<rparr>) st) (\<lambda>_ st.
          sbind (await await_data_producer_arm st) (\<lambda>dp st.
          sbind (announce_channels x tid dcs st) (\<lambda>own st. (Got (dp # own), st)))))"

definition setup_send_side :: "rtc_env \<Rightarrow> string list \<Rightarrow> setup_state \<Rightarrow> string list progress \<times> setup_state" where
  "setup_send_side x labels st =
     sbind (open_transport x Send st) (\<lambda>t st.
     sbind (create_channels x labels st) (\<lambda>dcs st.
     sbind (connect_answer x Send t st) (\<lambda>_ st.
     announce_channels x (tr_transport_id t) dcs st)))"

definition setup_recv_side :: "rtc_env \<Rightarrow> setup_state \<Rightarrow> string progress \<times> setup_state" where
  "setup_recv_side x st =
     sbind (open_transport x Recv st) (\<lambda>t st.
     sbind (connect_answer x Recv t st) (\<lambda>_ st. (Got (tr_transport_id t), st)))"

definition control_setup :: "rtc_env \<Rightarrow> string list \<Rightarrow> signal_event option list \<Rightarrow> (string list \<times> string) progress \<times> setup_state" where
  "control_setup x labels evs =
     sbind (setup_send_side x labels \<lparr>su_sent = [], su_pending = [], su_events = evs\<rparr>) (\<lambda>own st.
     sbind (setup_recv_side x st) (\<lambda>recv_tid st. (Got (own, recv_tid), st)))"

section \<open>The event loop\<close>

record loop_state =
  lp_consumed :: "string list"
  lp_purge :: "(string, string \<times> dc_init) dmap"
  lp_sent :: "signaling_message list"

definition consume_data :: "rtc_env \<Rightarrow> string \<Rightarrow> string \<Rightarrow> loop_state \<Rightarrow> loop_state" where
  "consume_data x recv_tid dp lp =
     lp\<lparr>lp_sent := lp_sent lp @ [ConsumeData (rx_room x) SFU_PEER_ID Recv dp (Some recv_tid)]\<rparr>"

definition consume_once :: "rtc_env \<Rightarrow> string \<Rightarrow> string \<Rightarrow> loop_state \<Rightarrow> loop_state" where
  "consume_once x recv_tid dp lp =
     (if dp \<in> set (lp_consumed lp) then lp else consume_data x recv_tid dp (lp\<lparr>lp_consumed := dp # lp_consumed lp\<rparr>))"

definition negotiated_init :: "sctp_stream_parameters \<Rightarrow> string \<Rightarrow> dc_init" where
  "negotiated_init sp protocol =
     \<lparr>di_ordered = sp_ordered sp, di_max_retransmit_time = map_option (\<lambda>n. int (unat n)) (sp_max_packet_life_time sp),
      di_max_retransmits = map_option (\<lambda>n. int (unat n)) (sp_max_retransmits sp), di_protocol = protocol,
      di_negotiated = True, di_id = int (unat (sp_stream_id sp))\<rparr>"

definition loop_message :: "rtc_env \<Rightarrow> string \<Rightarrow> signaling_message \<Rightarrow> loop_state \<Rightarrow> loop_state" where
  "loop_message x recv_tid m lp =
     (case m of
        NewDataProducer room dp peer label protocol \<Rightarrow> consume_once x recv_tid dp lp
      | DataConsumed room dc dp sp label protocol \<Rightarrow>
          (case sp of
             None \<Rightarrow> lp
           | Some sp \<Rightarrow>
               let ini = negotiated_init sp protocol
               in if rx_recv_dc x label ini then lp\<lparr>lp_purge := dm_insert dp (label, ini) (lp_purge lp)\<rparr> else lp)
      | ProducerClosed room peer dp kind reason \<Rightarrow>
          if kind = Data \<and> dm_contains (lp_purge lp) dp
          then lp\<lparr>lp_purge := dm_remove dp (lp_purge lp), lp_consumed := removeAll dp (lp_consumed lp)\<rparr>
          else lp
      | _ \<Rightarrow> lp)"

datatype loop_input = ShutdownSignal | IceFailed | Recvd "signal_event option"

text \<open>The exit code when the input ends the loop.\<close>

definition loop_exit :: "loop_input \<Rightarrow> u8 option" where
  "loop_exit i =
     (case i of
        ShutdownSignal \<Rightarrow> Some 0
      | IceFailed \<Rightarrow> Some 1
      | Recvd ev \<Rightarrow>
          (case ev of
             None \<Rightarrow> Some 1
           | Some (EvError e) \<Rightarrow> Some 1
           | Some (EvDisconnected r) \<Rightarrow> Some 1
           | Some _ \<Rightarrow> None))"

definition loop_step :: "rtc_env \<Rightarrow> string \<Rightarrow> loop_input \<Rightarrow> loop_state \<Rightarrow> loop_state" where
  "loop_step x recv_tid i lp = (case i of Recvd (Some (EvMessage m)) \<Rightarrow> loop_message x recv_tid m lp | _ \<Rightarrow> lp)"

fun event_loop :: "rtc_env \<Rightarrow> string \<Rightarrow> loop_input list \<Rightarrow> loop_state \<Rightarrow> loop_state \<times> u8 option" where
  "event_loop x recv_tid [] lp = (lp, None)"
| "event_loop x recv_tid (i # is) lp =
     (case loop_exit i of Some code \<Rightarrow> (lp, Some code) | None \<Rightarrow> event_loop x recv_tid is (loop_step x recv_tid i lp))"

definition loop_start :: "rtc_env \<Rightarrow> string list \<Rightarrow> string \<Rightarrow> setup_state \<Rightarrow> loop_state" where
  "loop_start x own recv_tid st =
     fold (\<lambda>np. consume_once x recv_tid (pp_data_producer_id np)) (su_pending st)
       \<lparr>lp_consumed = own, lp_purge = [], lp_sent = su_sent st\<rparr>"

text \<open>\<open>control_loop\<close>: setup, the queued announcements, then the loop on what arrives; a failed setup is exit code 1.\<close>

definition control_loop ::
  "rtc_env \<Rightarrow> string list \<Rightarrow> signal_event option list \<Rightarrow> loop_input list \<Rightarrow> loop_state option \<times> u8 option" where
  "control_loop x labels evs inputs =
     (case control_setup x labels evs of
        (Waiting, st) \<Rightarrow> (None, None)
      | (Failed e, st) \<Rightarrow> (None, Some 1)
      | (Got (own, recv_tid), st) \<Rightarrow>
          (case event_loop x recv_tid (map Recvd (su_events st) @ inputs) (loop_start x own recv_tid st) of
             (lp, code) \<Rightarrow> (Some lp, code)))"

section \<open>No command channel is lost or consumed twice\<close>

fun announces :: "signal_event option \<Rightarrow> string list" where
  "announces (Some (EvMessage (NewDataProducer room dp peer label protocol))) = [dp]"
| "announces ev = []"

definition announced_ids :: "signal_event option list \<Rightarrow> string list" where
  "announced_ids evs = concat (map announces evs)"

lemma announced_simps [simp]:
  "announced_ids [] = []" "announced_ids (ev # evs) = announces ev @ announced_ids evs" "announced_ids (xs @ ys) = announced_ids xs @ announced_ids ys"
  by (simp_all add: announced_ids_def)

text \<open>An arm queues exactly the announcements.\<close>

definition queues_at :: "(signal_event option \<Rightarrow> 'r arm) \<Rightarrow> signal_event option \<Rightarrow> bool" where
  "queues_at arm ev = (case arm ev of
       Return r \<Rightarrow> announces ev = []
     | Continue q \<Rightarrow> announces ev = (case q of None \<Rightarrow> [] | Some p \<Rightarrow> [pp_data_producer_id p]))"

lemma queues_cases:
  assumes "\<And>m. queues_at arm (Some (EvMessage m))" and "queues_at arm None"
    and "\<And>t. queues_at arm (Some (EvConnected t))" and "\<And>t. queues_at arm (Some (EvDisconnected t))"
    and "\<And>t. queues_at arm (Some (EvError t))"
  shows "queues_at arm ev"
  using assms by (metis option.exhaust signal_event.exhaust)

lemma queues_transport: "queues_at await_transport_arm ev"
proof (rule queues_cases)
  show "queues_at await_transport_arm (Some (EvMessage m))" for m
    by (cases m) (simp_all add: queues_at_def await_transport_arm_def)
qed (simp_all add: queues_at_def await_transport_arm_def)

lemma queues_data_producer: "queues_at await_data_producer_arm ev"
proof (rule queues_cases)
  show "queues_at await_data_producer_arm (Some (EvMessage m))" for m
    by (cases m) (simp_all add: queues_at_def await_data_producer_arm_def)
qed (simp_all add: queues_at_def await_data_producer_arm_def)

lemma await_loop_queues:
  assumes q: "\<And>ev. queues_at arm ev" and "await_loop arm evs pending = (r, pending', rest)"
  shows "\<exists>used. evs = used @ rest \<and> map pp_data_producer_id pending' = map pp_data_producer_id pending @ announced_ids used"
  using assms(2)
proof (induction evs arbitrary: pending)
  case (Cons ev evs)
  show ?case
  proof (cases "arm ev")
    case (Return res)
    then have "announces ev = []" using q [of ev] by (simp add: queues_at_def)
    moreover have "pending' = pending" "rest = evs" using Cons.prems Return by (auto split: sum.splits)
    ultimately show ?thesis by (intro exI [of _ "[ev]"]) simp
  next
    case (Continue p)
    then obtain used where "evs = used @ rest"
      "map pp_data_producer_id pending' = map pp_data_producer_id (pending @ (case p of None \<Rightarrow> [] | Some p \<Rightarrow> [p])) @ announced_ids used"
      using Cons by fastforce
    moreover have "announces ev = (case p of None \<Rightarrow> [] | Some p \<Rightarrow> [pp_data_producer_id p])"
      using q [of ev] Continue by (simp add: queues_at_def)
    ultimately show ?thesis by (intro exI [of _ "ev # used"]) (simp split: option.splits)
  qed
qed simp

text \<open>What a part of the setup does to the event stream: it takes a prefix and queues its announcements.
  Nothing is consumed yet.\<close>

fun request :: "signaling_message \<Rightarrow> string list" where
  "request (ConsumeData room peer dir dp tid) = [dp]"
| "request m = []"

definition requests :: "signaling_message list \<Rightarrow> string \<Rightarrow> nat" where
  "requests sent dp = count_list (concat (map request sent)) dp"

lemma requests_simps [simp]:
  "requests [] dp = 0" "requests (xs @ ys) dp = requests xs dp + requests ys dp"
  "requests [m] dp = count_list (request m) dp"
  by (simp_all add: requests_def)

definition hears :: "setup_state \<Rightarrow> setup_state \<Rightarrow> bool" where
  "hears st st' =
     (requests (su_sent st') = requests (su_sent st)
      \<and> (\<exists>used. su_events st = used @ su_events st'
           \<and> map pp_data_producer_id (su_pending st') = map pp_data_producer_id (su_pending st) @ announced_ids used))"

lemma hears_refl [simp]: "hears st st"
  by (auto simp: hears_def)

lemma hears_trans: "hears st st1 \<Longrightarrow> hears st1 st2 \<Longrightarrow> hears st st2"
  unfolding hears_def by (metis append.assoc announced_simps(3))

lemma hears_sbind:
  assumes "hears st (snd m)" and "\<And>r st1. hears st1 (snd (f r st1))"
  shows "hears st (snd (sbind m f))"
  using assms by (cases m; cases "fst m") (auto simp: sbind_def intro: hears_trans)

lemma hears_await: "(\<And>ev. queues_at arm ev) \<Longrightarrow> hears st (snd (await arm st))"
proof -
  assume q: "\<And>ev. queues_at arm ev"
  obtain r p e where a: "await_loop arm (su_events st) (su_pending st) = (r, p, e)" by (metis prod_cases3)
  show ?thesis using await_loop_queues [OF q a] by (simp add: await_def a hears_def)
qed

lemma hears_call [simp]: "snd (call what res st) = st"
  by (simp add: call_def split: option.split)

lemma hears_send: "request m = [] \<Longrightarrow> hears st (snd (signal_send x what m st))"
  by (auto simp: signal_send_def hears_def fun_eq_iff)

lemmas hears_intros = hears_refl hears_sbind hears_await hears_send queues_transport queues_data_producer

lemma hears_open: "hears st (snd (open_transport x d st))"
  unfolding open_transport_def by (intro hears_intros | simp)+

lemma hears_connect: "hears st (snd (connect_answer x d t st))"
  unfolding connect_answer_def by (intro hears_intros | simp add: hears_send split: option.split)+

lemma hears_channels: "hears st (snd (create_channels x labels st))"
  by (induction labels arbitrary: st) (auto split: sum.split intro!: hears_sbind)

lemma hears_announce: "hears st (snd (announce_channels x tid dcs st))"
proof (induction dcs arbitrary: st)
  case (Cons d dcs)
  obtain label i where d: "d = (label, i)" by force
  show ?case unfolding d
    by (cases "sctp_stream_params label i") (simp_all add: hears_sbind hears_send hears_await queues_data_producer Cons.IH)
qed simp

lemma hears_setup: "hears \<lparr>su_sent = [], su_pending = [], su_events = evs\<rparr> (snd (control_setup x labels evs))"
  unfolding control_setup_def setup_send_side_def setup_recv_side_def
  by (intro hears_sbind hears_open hears_channels hears_connect hears_announce | simp)+

text \<open>The loop: how often a producer was closed, and the ledger of one that never was.\<close>

fun closes :: "string \<Rightarrow> loop_input \<Rightarrow> bool" where
  "closes dp (Recvd (Some (EvMessage (ProducerClosed room peer p kind reason)))) = (p = dp \<and> kind = Data)"
| "closes dp i = False"

fun input_announces :: "loop_input \<Rightarrow> string list" where
  "input_announces (Recvd ev) = announces ev"
| "input_announces i = []"

lemma consume_once_ledger:
  "requests (lp_sent (consume_once x tid q lp)) dp + of_bool (dp \<in> set (lp_consumed lp))
     = requests (lp_sent lp) dp + of_bool (dp \<in> set (lp_consumed (consume_once x tid q lp)))"
  "set (lp_consumed (consume_once x tid q lp)) = insert q (set (lp_consumed lp))"
  by (auto simp: consume_once_def consume_data_def)

lemma loop_message_ledger:
  fixes m :: signaling_message
  defines "i \<equiv> Recvd (Some (EvMessage m))"
  shows "requests (lp_sent (loop_message x tid m lp)) dp + of_bool (dp \<in> set (lp_consumed lp))
      \<le> requests (lp_sent lp) dp + of_bool (dp \<in> set (lp_consumed (loop_message x tid m lp))) + of_bool (closes dp i)"
    and "\<not> closes dp i \<Longrightarrow>
      requests (lp_sent (loop_message x tid m lp)) dp + of_bool (dp \<in> set (lp_consumed lp))
        = requests (lp_sent lp) dp + of_bool (dp \<in> set (lp_consumed (loop_message x tid m lp)))
      \<and> (dp \<in> set (lp_consumed (loop_message x tid m lp))) = (dp \<in> set (lp_consumed lp) \<or> dp \<in> set (input_announces i))"
  using consume_once_ledger(1) [of x tid _ lp dp] consume_once_ledger(2) [of x tid _ lp]
  by (cases m; auto simp: i_def loop_message_def Let_def split: option.splits)+

lemma loop_step_cases:
  obtains m where "i = Recvd (Some (EvMessage m))" "loop_step x tid i lp = loop_message x tid m lp"
  | "loop_step x tid i lp = lp" "\<not> closes dp i" "input_announces i = []"
proof (cases "\<exists>m. i = Recvd (Some (EvMessage m))")
  case True
  then show ?thesis using that(1) by (auto simp: loop_step_def)
next
  case False
  then have "loop_step x tid i lp = lp" "\<not> closes dp i"
    by (auto simp: loop_step_def split: loop_input.splits option.splits signal_event.splits elim!: closes.elims)
  moreover have "announces ev = []" if "\<forall>m. ev \<noteq> Some (EvMessage m)" for ev
  proof (cases ev)
    case (Some e)
    then show ?thesis using that by (cases e) simp_all
  qed simp
  then have "input_announces i = []" using False by (cases i) simp_all
  ultimately have "loop_step x tid i lp = lp" "\<not> closes dp i" "input_announces i = []" by blast+
  then show ?thesis by (rule that(2))
qed

lemma loop_step_ledger:
  "requests (lp_sent (loop_step x tid i lp)) dp + of_bool (dp \<in> set (lp_consumed lp))
     \<le> requests (lp_sent lp) dp + of_bool (dp \<in> set (lp_consumed (loop_step x tid i lp))) + of_bool (closes dp i)"
  "\<not> closes dp i \<Longrightarrow>
      requests (lp_sent (loop_step x tid i lp)) dp + of_bool (dp \<in> set (lp_consumed lp))
        = requests (lp_sent lp) dp + of_bool (dp \<in> set (lp_consumed (loop_step x tid i lp)))
      \<and> (dp \<in> set (lp_consumed (loop_step x tid i lp))) = (dp \<in> set (lp_consumed lp) \<or> dp \<in> set (input_announces i))"
proof -
  show "requests (lp_sent (loop_step x tid i lp)) dp + of_bool (dp \<in> set (lp_consumed lp))
     \<le> requests (lp_sent lp) dp + of_bool (dp \<in> set (lp_consumed (loop_step x tid i lp))) + of_bool (closes dp i)"
    by (rule loop_step_cases [where i = i and x = x and tid = tid and lp = lp and dp = dp]) (metis loop_message_ledger(1), simp)
  assume n: "\<not> closes dp i"
  show "requests (lp_sent (loop_step x tid i lp)) dp + of_bool (dp \<in> set (lp_consumed lp))
        = requests (lp_sent lp) dp + of_bool (dp \<in> set (lp_consumed (loop_step x tid i lp)))
      \<and> (dp \<in> set (lp_consumed (loop_step x tid i lp))) = (dp \<in> set (lp_consumed lp) \<or> dp \<in> set (input_announces i))"
    using n by (rule_tac loop_step_cases [where i = i and x = x and tid = tid and lp = lp and dp = dp]) (metis loop_message_ledger(2), simp)
qed

lemma event_loop_ledger:
  assumes "event_loop x tid ins lp = (lp', None)"
  shows "requests (lp_sent lp') dp + of_bool (dp \<in> set (lp_consumed lp))
      \<le> requests (lp_sent lp) dp + of_bool (dp \<in> set (lp_consumed lp')) + length (filter (closes dp) ins)"
    and "filter (closes dp) ins = [] \<Longrightarrow>
      requests (lp_sent lp') dp + of_bool (dp \<in> set (lp_consumed lp)) = requests (lp_sent lp) dp + of_bool (dp \<in> set (lp_consumed lp'))
      \<and> (dp \<in> set (lp_consumed lp')) = (dp \<in> set (lp_consumed lp) \<or> (\<exists>i \<in> set ins. dp \<in> set (input_announces i)))"
  using assms
proof (induction ins arbitrary: lp)
  case (Cons i ins)
  have go: "event_loop x tid ins (loop_step x tid i lp) = (lp', None)"
    if "event_loop x tid (i # ins) lp = (lp', None)" for lp using that by (auto split: option.splits)
  {
    case 1
    show ?case using Cons.IH(1) [OF go [OF 1]] loop_step_ledger(1) [of x tid i lp dp] by (cases "closes dp i") simp_all
  next
    case 2
    then have n: "\<not> closes dp i" "filter (closes dp) ins = []" by (auto split: if_splits)
    show ?case using Cons.IH(2) [OF n(2) go [OF 2(2)]] loop_step_ledger(2) [OF n(1), of x tid lp] by auto
  }
qed auto

lemma loop_start_ledger:
  "requests (lp_sent (loop_start x own tid st)) dp + of_bool (dp \<in> set own)
     = requests (su_sent st) dp + of_bool (dp \<in> set (lp_consumed (loop_start x own tid st)))"
  "set (lp_consumed (loop_start x own tid st)) = set own \<union> set (map pp_data_producer_id (su_pending st))"
proof -
  have *: "requests (lp_sent (fold (\<lambda>np. consume_once x tid (pp_data_producer_id np)) ps lp)) dp + of_bool (dp \<in> set (lp_consumed lp))
       = requests (lp_sent lp) dp + of_bool (dp \<in> set (lp_consumed (fold (\<lambda>np. consume_once x tid (pp_data_producer_id np)) ps lp)))
     \<and> set (lp_consumed (fold (\<lambda>np. consume_once x tid (pp_data_producer_id np)) ps lp))
       = set (lp_consumed lp) \<union> set (map pp_data_producer_id ps)" for ps :: "pending_producer list" and lp
  proof (induction ps arbitrary: lp)
    case (Cons p ps)
    show ?case using Cons.IH [of "consume_once x tid (pp_data_producer_id p) lp"] consume_once_ledger(1) [of x tid "pp_data_producer_id p" lp dp]
      consume_once_ledger(2) [of x tid "pp_data_producer_id p" lp]
      by (auto simp del: of_bool_eq_0_iff)
  qed simp
  show "requests (lp_sent (loop_start x own tid st)) dp + of_bool (dp \<in> set own)
     = requests (su_sent st) dp + of_bool (dp \<in> set (lp_consumed (loop_start x own tid st)))"
    "set (lp_consumed (loop_start x own tid st)) = set own \<union> set (map pp_data_producer_id (su_pending st))"
    using * [of "su_pending st" "\<lparr>lp_consumed = own, lp_purge = [], lp_sent = su_sent st\<rparr>"] by (simp_all add: loop_start_def)
qed


text \<open>A setup in whose middle a command channel is announced.\<close>

definition demo_rtc :: rtc_env where
  "demo_rtc = \<lparr>rx_room = ''car'', rx_send = (\<lambda>m. None), rx_create_pc = (\<lambda>d. None), rx_set_remote = (\<lambda>d s. None),
     rx_create_dc = (\<lambda>l i. Inr 1), rx_create_answer = (\<lambda>d. None), rx_set_local = (\<lambda>d. None),
     rx_fingerprint = (\<lambda>d. Some ''fp''), rx_recv_dc = (\<lambda>l i. True)\<rparr>"

definition demo_created :: "signal_event option" where
  "demo_created = Some (EvMessage (WebRtcTransportCreated \<lparr>tc_room_id = ''car'', tc_peer_id = ''host'', tc_transport_id = ''t'',
     tc_ice_parameters = \<lparr>ip_username_fragment = ''u'', ip_password = ''p''\<rparr>,
     tc_dtls_parameters = \<lparr>dt_fingerprints = [], dt_role = ''auto''\<rparr>, tc_ice_candidates = None, tc_sctp_parameters = None\<rparr>))"

definition demo_events :: "signal_event option list" where
  "demo_events = [demo_created, Some (EvMessage (NewDataProducer ''car'' ''dp'' ''cockpit'' ''chassis'' ''sctp'')),
     Some (EvMessage (DataProducerCreated ''car'' ''mine'')), demo_created]"

lemma demo_setup:
  "\<exists>st. control_setup demo_rtc [''ack''] demo_events = (Got ([''mine''], ''t''), st) \<and> su_events st = []"
  by (simp add: control_setup_def setup_send_side_def setup_recv_side_def open_transport_def connect_answer_def
      sbind_def signal_send_def call_def await_def demo_rtc_def demo_events_def demo_created_def
      await_transport_arm_def await_data_producer_arm_def sctp_stream_params_def u16_try_from_def channel_init_def
      dc_init_default_def Let_def)


end
