(* ===== verification/FrameBus.thy ===== *)
theory FrameBus
  imports Strings
begin

text \<open>
  The frame bus of the vehicle, the crate \<open>mediaservo-link\<close>: topics and node access lists
  (\<open>id.rs\<close>, \<open>acl.rs\<close>), capability tokens and their file format (\<open>token.rs\<close>), the frame header
  and the latest-frame slot (\<open>frame.rs\<close>), the node registry (\<open>registry/mod.rs\<close>) and the bus
  (\<open>bus/framebus.rs\<close>). The shared-memory transport \<open>iceoryx2\<close> and the JWT library are parameters.
\<close>

section \<open>Errors, topics, access lists\<close>

datatype link_error =
    Attach string | AclDenied string | TopicConflict string | Token string | Registry string | Bus string
  | Signal string | EnrollPending string | LinkClosed

fun link_error_display :: "link_error \<Rightarrow> string" where
  "link_error_display (Attach m) = ''attach failed: '' @ m"
| "link_error_display (AclDenied t) = ''acl denied: '' @ t"
| "link_error_display (TopicConflict t) = ''topic already has a publisher: '' @ t"
| "link_error_display (Token m) = ''token invalid: '' @ m"
| "link_error_display (Registry m) = ''registry error: '' @ m"
| "link_error_display (Bus m) = ''bus error: '' @ m"
| "link_error_display (Signal m) = ''signal error: '' @ m"
| "link_error_display (EnrollPending d) = ''device enroll pending: '' @ d"
| "link_error_display LinkClosed = ''closed''"

definition topic_matches :: "string \<Rightarrow> string \<Rightarrow> bool" where
  "topic_matches topic pattern =
     (if length pattern \<ge> 2 \<and> drop (length pattern - 2) pattern = ''/*''
      then starts_with topic (take (length pattern - 2) pattern @ ''/'')
      else topic = pattern)"

datatype node_role = Capture | Processor | Pusher | Puller | Recorder | Control | Perception | Monitor

record node_acl =
  na_node_id :: string
  na_role :: node_role
  na_publish_allow :: "string list"
  na_subscribe_allow :: "string list"

fun role_patterns :: "node_role \<Rightarrow> string list \<times> string list" where
  "role_patterns Capture = ([''camera/*''], [])"
| "role_patterns Processor = ([''video/*''], [''camera/*''])"
| "role_patterns Pusher = ([''stats/*''], [''camera/*'', ''video/*'', ''vision/*''])"
| "role_patterns Puller = ([], [])"
| "role_patterns Recorder = ([''stats/*''], [''camera/*'', ''video/*'', ''vision/*''])"
| "role_patterns Control = ([''control/cmd'', ''control/ack''], [''control/cmd'', ''control/telemetry'', ''status/*''])"
| "role_patterns Perception = ([''perception/*'', ''vision/*''], [''camera/*''])"
| "role_patterns Monitor = ([], [''camera/*'', ''stats/*''])"

definition acl_for_role :: "string \<Rightarrow> node_role \<Rightarrow> node_acl" where
  "acl_for_role node role =
     \<lparr>na_node_id = node, na_role = role, na_publish_allow = fst (role_patterns role), na_subscribe_allow = snd (role_patterns role)\<rparr>"

definition can_publish :: "node_acl \<Rightarrow> string \<Rightarrow> bool" where
  "can_publish acl topic = list_ex (topic_matches topic) (na_publish_allow acl)"

definition can_subscribe :: "node_acl \<Rightarrow> string \<Rightarrow> bool" where
  "can_subscribe acl topic = list_ex (topic_matches topic) (na_subscribe_allow acl)"

section \<open>Capability tokens\<close>

record node_claims =
  nc_node_id :: string
  nc_role :: node_role
  nc_acl :: node_acl
  nc_exp :: u64

text \<open>\<open>jwt_encode pem claims\<close> and \<open>jwt_decode pem now token\<close> with EdDSA, expiry checked without leeway.\<close>

record jwt_lib =
  jl_encode :: "u8 list \<Rightarrow> node_claims \<Rightarrow> string + string"
  jl_decode :: "u8 list \<Rightarrow> u64 \<Rightarrow> string \<Rightarrow> string + node_claims"

definition token_sign :: "jwt_lib \<Rightarrow> u64 \<Rightarrow> node_acl \<Rightarrow> u64 \<Rightarrow> u8 list \<Rightarrow> link_error + string" where
  "token_sign L now acl ttl_secs signing_pem =
     (case jl_encode L signing_pem \<lparr>nc_node_id = na_node_id acl, nc_role = na_role acl, nc_acl = acl, nc_exp = now + ttl_secs\<rparr> of
        Inl e \<Rightarrow> Inl (Token e) | Inr t \<Rightarrow> Inr t)"

definition token_verify :: "jwt_lib \<Rightarrow> u64 \<Rightarrow> u8 list \<Rightarrow> string \<Rightarrow> link_error + node_claims" where
  "token_verify L now pem token = (case jl_decode L pem now token of Inl e \<Rightarrow> Inl (Token e) | Inr c \<Rightarrow> Inr c)"

definition TOKEN_MAGIC :: "u8 list" where "TOKEN_MAGIC = bytes_of ''MSTK''"
definition TOKEN_VERSION :: u8 where "TOKEN_VERSION = 1"

text \<open>\<open>len as u16\<close> keeps the low 16 bits.\<close>

definition le16 :: "nat \<Rightarrow> u8 list" where
  "le16 n = to_le 2 (n mod 65536)"

definition token_file_encode :: "string \<Rightarrow> u8 list \<Rightarrow> u8 list" where
  "token_file_encode token pem =
     TOKEN_MAGIC @ [TOKEN_VERSION] @ le16 (length pem) @ pem @ le16 (length token) @ bytes_of token"

definition token_file_error :: "string \<Rightarrow> link_error" where
  "token_file_error m = Token (''token file: '' @ m)"

definition string_of :: "u8 list \<Rightarrow> string" where
  "string_of bs = map (\<lambda>b. char_of (unat b)) bs"

text \<open>\<open>utf8_error\<close> is the text of \<open>FromUtf8Error\<close>.\<close>

definition token_file_decode :: "jwt_lib \<Rightarrow> (u8 list \<Rightarrow> string) \<Rightarrow> u64 \<Rightarrow> u8 list \<Rightarrow> link_error + (u8 list \<times> string)" where
  "token_file_decode L utf8_error now bytes =
     (if length bytes < 9 \<or> take 4 bytes \<noteq> TOKEN_MAGIC then Inl (token_file_error ''bad magic or too short'')
      else if bytes ! 4 \<noteq> TOKEN_VERSION
      then Inl (token_file_error (''unsupported version '' @ show_nat (unat (bytes ! 4))))
      else
        (let key_len = from_le [bytes ! 5, bytes ! 6]; rest = drop 7 bytes in
         if length rest < key_len + 2 then Inl (token_file_error ''truncated key'')
         else
           (let key_pem = take key_len rest; rest1 = drop key_len rest;
                tok_len = from_le [rest1 ! 0, rest1 ! 1]; rest2 = drop 2 rest1 in
            if length rest2 \<noteq> tok_len then Inl (token_file_error ''truncated token'')
            else if \<not> utf8_valid rest2 then Inl (token_file_error (utf8_error rest2))
            else (case token_verify L now key_pem (string_of rest2) of
                    Inl e \<Rightarrow> Inl e
                  | Inr c \<Rightarrow> Inr (key_pem, string_of rest2)))))"

section \<open>Frames\<close>

record frame_meta =
  fm_seq :: u64
  fm_width :: u32
  fm_height :: u32
  fm_format :: u8
  fm_version :: u8
  fm_is_keyframe :: bool
  fm_ts_mono_ns :: u64
  fm_ts_epoch_ns :: u64

definition WIRE_VERSION :: u8 where "WIRE_VERSION = 0"
definition WIRE_LEN :: nat where "WIRE_LEN = 36"

definition meta_encode :: "frame_meta \<Rightarrow> u8 list" where
  "meta_encode m =
     to_le 8 (unat (fm_seq m)) @ to_le 4 (unat (fm_width m)) @ to_le 4 (unat (fm_height m))
     @ [fm_format m, fm_version m, if fm_is_keyframe m then 1 else 0, 0]
     @ to_le 8 (unat (fm_ts_mono_ns m)) @ to_le 8 (unat (fm_ts_epoch_ns m))"

definition slice :: "nat \<Rightarrow> nat \<Rightarrow> 'a list \<Rightarrow> 'a list" where
  "slice i j xs = take (j - i) (drop i xs)"

definition meta_decode :: "u8 list \<Rightarrow> link_error + frame_meta" where
  "meta_decode b =
     (if length b < WIRE_LEN
      then Inl (Bus (''frame meta too short: '' @ show_nat (length b) @ '' < '' @ show_nat WIRE_LEN))
      else if b ! 17 \<noteq> WIRE_VERSION
      then Inl (Bus (''frame meta wire version '' @ show_nat (unat (b ! 17)) @ '' unsupported (expected ''
                     @ show_nat (unat WIRE_VERSION) @ '')''))
      else Inr \<lparr>fm_seq = of_nat (from_le (slice 0 8 b)), fm_width = of_nat (from_le (slice 8 12 b)),
                fm_height = of_nat (from_le (slice 12 16 b)), fm_format = b ! 16, fm_version = b ! 17,
                fm_is_keyframe = (b ! 18 \<noteq> 0), fm_ts_mono_ns = of_nat (from_le (slice 20 28 b)),
                fm_ts_epoch_ns = of_nat (from_le (slice 28 36 b))\<rparr>)"

type_synonym frame_ref = "frame_meta \<times> u8 list"

text \<open>The latest-frame slot a subscription delivers into.\<close>

record stream_inner =
  st_slot :: "frame_ref option"
  st_shutdown :: bool

definition stream_new :: stream_inner where "stream_new = \<lparr>st_slot = None, st_shutdown = False\<rparr>"

definition stream_deliver :: "frame_ref \<Rightarrow> stream_inner \<Rightarrow> stream_inner" where
  "stream_deliver f s = s\<lparr>st_slot := Some f\<rparr>"

definition stream_shutdown :: "stream_inner \<Rightarrow> stream_inner" where
  "stream_shutdown s = s\<lparr>st_shutdown := True\<rparr>"

text \<open>A turn of the loop of \<open>recv\<close>: a frame, the end, or waiting for the next notification.\<close>

datatype recv_result = Received frame_ref | Ended | WouldWait

definition stream_recv :: "stream_inner \<Rightarrow> stream_inner \<times> recv_result" where
  "stream_recv s =
     (case st_slot s of
        Some f \<Rightarrow> (s\<lparr>st_slot := None\<rparr>, Received f)
      | None \<Rightarrow> if st_shutdown s then (s, Ended) else (s, WouldWait))"

text \<open>The subscription thread on one sample.\<close>

definition on_sample :: "u8 list \<Rightarrow> stream_inner \<Rightarrow> stream_inner" where
  "on_sample data s =
     (if length data \<ge> WIRE_LEN
      then (case meta_decode (take WIRE_LEN data) of
              Inr meta \<Rightarrow> stream_deliver (meta, drop WIRE_LEN data) s
            | Inl e \<Rightarrow> s)
      else s)"

section \<open>Registry and bus\<close>

record node_info =
  ni_id :: string
  ni_role :: node_role
  ni_publishes :: "string list"
  ni_subscribes :: "string list"

definition node_info_from_claims :: "node_claims \<Rightarrow> node_info" where
  "node_info_from_claims c =
     \<lparr>ni_id = nc_node_id c, ni_role = nc_role c, ni_publishes = na_publish_allow (nc_acl c),
      ni_subscribes = na_subscribe_allow (nc_acl c)\<rparr>"

record registry =
  rg_nodes :: "(string, node_info) dmap"
  rg_publishers :: "(string, string) dmap"

definition registry_register :: "node_info \<Rightarrow> registry \<Rightarrow> registry" where
  "registry_register info r = r\<lparr>rg_nodes := dm_insert (ni_id info) info (rg_nodes r)\<rparr>"

definition registry_unregister :: "string \<Rightarrow> registry \<Rightarrow> registry" where
  "registry_unregister node r =
     r\<lparr>rg_nodes := dm_remove node (rg_nodes r), rg_publishers := dm_retain (\<lambda>t n. n \<noteq> node) (rg_publishers r)\<rparr>"

definition mark_publisher :: "string \<Rightarrow> string \<Rightarrow> registry \<Rightarrow> registry" where
  "mark_publisher topic node r = r\<lparr>rg_publishers := dm_insert topic node (rg_publishers r)\<rparr>"

definition discover_topics :: "string \<Rightarrow> registry \<Rightarrow> (string \<times> string) list" where
  "discover_topics pre r =
     concat (map (\<lambda>(k, info). map (\<lambda>p. (p, ni_id info)) (filter (\<lambda>p. starts_with p pre) (ni_publishes info))) (rg_nodes r))"

definition discover_nodes :: "node_role \<Rightarrow> registry \<Rightarrow> node_info list" where
  "discover_nodes role r = filter (\<lambda>i. ni_role i = role) (map snd (rg_nodes r))"

definition topic_publisher :: "string \<Rightarrow> registry \<Rightarrow> string option" where
  "topic_publisher topic r = dm_get (rg_publishers r) topic"

definition MAX_FRAME_BYTES :: nat where "MAX_FRAME_BYTES = 4 * 1024 * 1024"

record frame_bus =
  fb_acl :: node_acl
  fb_node_id :: string
  fb_streams :: "stream_inner list"
  fb_publishers :: "string list" \<comment> \<open>topics with a cached publisher\<close>

text \<open>The outcomes of the transport: of creating the node, of each attempt to open a topic's service, of
  creating a publisher or a subscriber, of loaning and of sending.\<close>

record shm =
  sh_node :: "string option"
  sh_opens :: "string option list"
  sh_name_ok :: bool
  sh_publisher :: "string option"
  sh_subscriber :: "string option"
  sh_loan :: "string option"
  sh_send :: "string option"

definition bus_attach :: "jwt_lib \<Rightarrow> u64 \<Rightarrow> shm \<Rightarrow> u8 list \<Rightarrow> string \<Rightarrow> registry \<Rightarrow> registry \<times> (link_error + frame_bus)" where
  "bus_attach L now sh pem token r =
     (case token_verify L now pem token of
        Inl e \<Rightarrow> (r, Inl (Attach (link_error_display e)))
      | Inr claims \<Rightarrow>
          (case sh_node sh of
             Some e \<Rightarrow> (r, Inl (Attach (''create iceoryx2 node: '' @ e)))
           | None \<Rightarrow>
               (registry_register (node_info_from_claims claims) r,
                Inr \<lparr>fb_acl = nc_acl claims, fb_node_id = nc_node_id claims, fb_streams = [], fb_publishers = []\<rparr>)))"

text \<open>At most five attempts, and only a service in flux is retried.\<close>

fun open_attempts :: "nat \<Rightarrow> string option \<Rightarrow> string option list \<Rightarrow> link_error + unit" where
  "open_attempts 0 last_err xs = Inl (Bus (''open topic service failed after retries: '' @ debug_opt last_err))"
| "open_attempts (Suc n) last_err [] = Inr ()"
| "open_attempts (Suc n) last_err (None # xs) = Inr ()"
| "open_attempts (Suc n) last_err (Some e # xs) =
     (if str_contains e ''SystemInFlux'' then open_attempts n (Some e) xs else Inl (Bus (''open topic service: '' @ e)))"

definition topic_service :: "shm \<Rightarrow> string \<Rightarrow> link_error + unit" where
  "topic_service sh topic =
     (if \<not> sh_name_ok sh then Inl (Bus (''invalid topic name: '' @ topic)) else open_attempts 5 None (sh_opens sh))"

definition cached_publisher :: "shm \<Rightarrow> string \<Rightarrow> frame_bus \<Rightarrow> link_error + frame_bus" where
  "cached_publisher sh topic b =
     (if topic \<in> set (fb_publishers b) then Inr b
      else (case topic_service sh topic of
              Inl e \<Rightarrow> Inl e
            | Inr _ \<Rightarrow>
                (case sh_publisher sh of
                   Some e \<Rightarrow> Inl (TopicConflict topic)
                 | None \<Rightarrow> Inr (b\<lparr>fb_publishers := topic # fb_publishers b\<rparr>))))"

text \<open>The bus, the registry and the sample that was sent.\<close>

definition bus_publish ::
  "shm \<Rightarrow> string \<Rightarrow> u8 list \<Rightarrow> frame_meta \<Rightarrow> frame_bus \<Rightarrow> registry \<Rightarrow> frame_bus \<times> registry \<times> (link_error + u8 list)" where
  "bus_publish sh topic payload meta b r =
     (if \<not> can_publish (fb_acl b) topic then (b, r, Inl (AclDenied topic))
      else if (case topic_publisher topic r of Some existing \<Rightarrow> existing \<noteq> fb_node_id b | None \<Rightarrow> False)
      then (b, r, Inl (TopicConflict topic))
      else if WIRE_LEN + length payload > MAX_FRAME_BYTES
      then (b, r, Inl (Bus (''frame too large: '' @ show_nat (WIRE_LEN + length payload) @ '' > '' @ show_nat MAX_FRAME_BYTES)))
      else (case cached_publisher sh topic b of
              Inl e \<Rightarrow> (b, r, Inl e)
            | Inr b1 \<Rightarrow>
                (case sh_loan sh of
                   Some e \<Rightarrow> (b1, r, Inl (Bus (''loan: '' @ e)))
                 | None \<Rightarrow>
                     (case sh_send sh of
                        Some e \<Rightarrow> (b1, r, Inl (Bus (''send: '' @ e)))
                      | None \<Rightarrow> (b1, mark_publisher topic (fb_node_id b) r, Inr (meta_encode meta @ payload))))))"

definition bus_subscribe :: "shm \<Rightarrow> string \<Rightarrow> frame_bus \<Rightarrow> frame_bus \<times> (link_error + unit)" where
  "bus_subscribe sh topic b =
     (if \<not> can_subscribe (fb_acl b) topic then (b, Inl (AclDenied topic))
      else (case topic_service sh topic of
              Inl e \<Rightarrow> (b, Inl e)
            | Inr _ \<Rightarrow>
                (case sh_subscriber sh of
                   Some e \<Rightarrow> (b, Inl (Bus (''subscriber create: '' @ e)))
                 | None \<Rightarrow> (b\<lparr>fb_streams := fb_streams b @ [stream_new]\<rparr>, Inr ()))))"

definition bus_close :: "frame_bus \<Rightarrow> registry \<Rightarrow> stream_inner list \<times> registry" where
  "bus_close b r = (map stream_shutdown (fb_streams b), registry_unregister (fb_node_id b) r)"

section \<open>The frame header and the slot\<close>

lemma length_meta [simp]: "length (meta_encode m) = WIRE_LEN"
  by (simp add: meta_encode_def WIRE_LEN_def)

lemma of_nat_le_word:
  fixes w :: "'a :: len word"
  assumes "LENGTH('a) = 8 * n"
  shows "of_nat (from_le (to_le n (unat w))) = w"
proof -
  have "unat w < 256 ^ n" using unsigned_less [where ?w = w and ?'a = nat] by (simp add: assms power_mult)
  then show ?thesis by (simp add: from_le_to_le)
qed

lemma meta_slices:
  "slice 0 8 (meta_encode m @ p) = to_le 8 (unat (fm_seq m))" "slice 8 12 (meta_encode m @ p) = to_le 4 (unat (fm_width m))"
  "slice 12 16 (meta_encode m @ p) = to_le 4 (unat (fm_height m))" "slice 20 28 (meta_encode m @ p) = to_le 8 (unat (fm_ts_mono_ns m))"
  "slice 28 36 (meta_encode m @ p) = to_le 8 (unat (fm_ts_epoch_ns m))"
  "(meta_encode m @ p) ! 16 = fm_format m" "(meta_encode m @ p) ! 17 = fm_version m"
  "(meta_encode m @ p) ! 18 = (if fm_is_keyframe m then 1 else 0)"
  by (simp_all add: slice_def meta_encode_def nth_append)

lemma meta_decode_encode:
  "meta_decode (meta_encode m @ p) =
     (if fm_version m = WIRE_VERSION then Inr m
      else Inl (Bus (''frame meta wire version '' @ show_nat (unat (fm_version m)) @ '' unsupported (expected ''
                     @ show_nat (unat WIRE_VERSION) @ '')'')))"
  unfolding meta_decode_def meta_slices by (simp add: of_nat_le_word)


section \<open>Token files\<close>

lemma string_of_bytes [simp]: "string_of (bytes_of t) = t" "bytes_of (string_of bs) = bs"
proof -
  have "char_of (unat (byte_of c)) = c" for c by (simp add: unat_byte_of)
  then show "string_of (bytes_of t) = t" by (simp add: string_of_def bytes_of_def comp_def)
  have "byte_of (char_of (unat b)) = b" for b
    using unsigned_less [where ?w = b and ?'a = nat] by (simp add: byte_of_def)
  then show "bytes_of (string_of bs) = bs" by (simp add: string_of_def bytes_of_def comp_def)
qed

lemma le16_pair: "n < 65536 \<Longrightarrow> le16 n = [of_nat (n mod 256), of_nat (n div 256)]"
  by (simp add: le16_def numeral_2_eq_2)

lemma le16_value: "n < 65536 \<Longrightarrow> from_le (le16 n) = n"
  by (simp add: le16_def from_le_to_le)

lemma le16_from: "le16 (from_le [a, b]) = [a, b]"
proof -
  have "from_le [a, b] < 65536" using from_le_bound [of "[a, b]"] by simp
  then have "le16 (from_le [a, b]) = to_le (length [a, b]) (from_le [a, b])" by (simp add: le16_def numeral_2_eq_2)
  then show ?thesis by (simp only: to_le_from_le)
qed

lemma token_decode_encode:
  assumes "length pem < 65536" "length token < 65536"
  shows "token_file_decode L ue now (token_file_encode token pem) =
    (if \<not> utf8_valid (bytes_of token) then Inl (token_file_error (ue (bytes_of token)))
     else case token_verify L now pem token of Inl e \<Rightarrow> Inl e | Inr c \<Rightarrow> Inr (pem, token))"
proof -
  obtain k0 k1 where k: "le16 (length pem) = [k0, k1]" using le16_pair [OF assms(1)] by blast
  obtain t0 t1 where t: "le16 (length token) = [t0, t1]" using le16_pair [OF assms(2)] by blast
  have vals: "from_le [k0, k1] = length pem" "from_le [t0, t1] = length token"
    using le16_value [OF assms(1)] le16_value [OF assms(2)] k t by simp_all
  have magic: "length TOKEN_MAGIC = 4" by (simp add: TOKEN_MAGIC_def)
  have enc: "token_file_encode token pem = TOKEN_MAGIC @ TOKEN_VERSION # k0 # k1 # pem @ t0 # t1 # bytes_of token"
    by (simp add: token_file_encode_def k t)
  show ?thesis unfolding token_file_decode_def enc using magic vals
    by (simp add: nth_append Let_def del: from_le.simps split: sum.split)
qed

lemma token_decode_inverse:
  assumes "token_file_decode L ue now bytes = Inr (pem, token)"
  shows "bytes = token_file_encode token pem \<and> length pem < 65536 \<and> length token < 65536 \<and> utf8_valid (bytes_of token)
    \<and> (\<exists>c. token_verify L now pem token = Inr c)"
proof -
  define key_len where "key_len = from_le [bytes ! 5, bytes ! 6]"
  define rest where "rest = drop key_len (drop 7 bytes)"
  define tok_len where "tok_len = from_le [rest ! 0, rest ! 1]"
  have len: "9 \<le> length bytes" and magic: "take 4 bytes = TOKEN_MAGIC" and ver: "bytes ! 4 = TOKEN_VERSION"
    using assms by (auto simp: token_file_decode_def split: if_splits)
  have fits: "key_len + 2 \<le> length (drop 7 bytes)" and tl: "length (drop 2 rest) = tok_len"
    and res: "pem = take key_len (drop 7 bytes)" "token = string_of (drop 2 rest)" "utf8_valid (drop 2 rest)"
    "\<exists>c. token_verify L now pem token = Inr c"
    using assms len magic ver
    unfolding token_file_decode_def Let_def key_len_def [symmetric] rest_def [symmetric] tok_len_def [symmetric]
    by (auto simp del: length_drop drop_drop split: if_splits sum.splits)
  have r: "rest = rest ! 0 # rest ! 1 # drop 2 rest"
  proof -
    have "2 \<le> length rest" using fits by (simp add: rest_def)
    then show ?thesis by (cases rest; cases "tl rest") auto
  qed
  have kl: "length pem = key_len" using fits by (simp add: res(1))
  have tok: "length token = tok_len" using tl by (simp add: res(2) string_of_def)
  have bounds: "key_len < 65536" "tok_len < 65536"
    using from_le_bound [of "[bytes ! 5, bytes ! 6]"] from_le_bound [of "[rest ! 0, rest ! 1]"] by (simp_all add: key_len_def tok_len_def)
  have "bytes = take 4 bytes @ bytes ! 4 # bytes ! 5 # bytes ! 6 # drop 7 bytes"
    using len Cons_nth_drop_Suc [of 4 bytes] Cons_nth_drop_Suc [of 5 bytes] Cons_nth_drop_Suc [of 6 bytes] append_take_drop_id [of 4 bytes]
    by simp
  also have "drop 7 bytes = pem @ rest" by (simp add: res(1) rest_def del: drop_drop)
  finally have "bytes = TOKEN_MAGIC @ TOKEN_VERSION # le16 (length pem) @ pem @ le16 (length token) @ bytes_of token"
    using magic ver r kl tok by (simp add: le16_from key_len_def tok_len_def res(2) del: from_le.simps)
  then show ?thesis using bounds kl tok res by (simp add: token_file_encode_def)
qed

text \<open>
  C40. The token file format is exact: a byte string loads as a key and a token if and only if it is
  the file written for them, their lengths fit 16 bits, the token is UTF-8, and the token verifies
  under the embedded key at the time of loading. Truncated, extended or otherwise malformed files do
  not load, and no two files load as the same pair.
\<close>

theorem token_file_exact:
  "token_file_decode L ue now bytes = Inr (pem, token) \<longleftrightarrow>
     bytes = token_file_encode token pem \<and> length pem < 65536 \<and> length token < 65536 \<and> utf8_valid (bytes_of token)
     \<and> (\<exists>c. token_verify L now pem token = Inr c)"
  using token_decode_inverse [of L ue now bytes pem token] token_decode_encode [of pem token L ue now]
  by (auto split: sum.splits)

text \<open>The file vouches for itself only: any key with a token that verifies under it makes a file that loads.\<close>

lemma token_file_self_signed:
  assumes "token_verify L now pem token = Inr c" "utf8_valid (bytes_of token)" "length pem < 65536" "length token < 65536"
  shows "token_file_decode L ue now (token_file_encode token pem) = Inr (pem, token)"
  using token_decode_encode [OF assms(3,4), of L ue now] assms(1,2) by simp

section \<open>Several nodes on the bus\<close>

text \<open>The buses of a process and the registry they share.\<close>

record bus_system =
  bs_buses :: "frame_bus list"
  bs_registry :: registry

inductive bus_step :: "jwt_lib \<Rightarrow> bus_system \<Rightarrow> bus_system \<Rightarrow> bool" for L :: jwt_lib where
  bus_step_attach: "bus_attach L now sh pem token (bs_registry s) = (r, Inr b) \<Longrightarrow>
     bus_step L s \<lparr>bs_buses = bs_buses s @ [b], bs_registry = r\<rparr>"
| bus_step_attach_fails: "bus_attach L now sh pem token (bs_registry s) = (r, Inl e) \<Longrightarrow> bus_step L s (s\<lparr>bs_registry := r\<rparr>)"
| bus_step_publish: "i < length (bs_buses s) \<Longrightarrow>
     bus_publish sh topic payload meta (bs_buses s ! i) (bs_registry s) = (b, r, res) \<Longrightarrow>
     bus_step L s \<lparr>bs_buses = (bs_buses s)[i := b], bs_registry = r\<rparr>"
| bus_step_subscribe: "i < length (bs_buses s) \<Longrightarrow> bus_subscribe sh topic (bs_buses s ! i) = (b, res) \<Longrightarrow>
     bus_step L s (s\<lparr>bs_buses := (bs_buses s)[i := b]\<rparr>)"
| bus_step_close: "i < length (bs_buses s) \<Longrightarrow> bus_close (bs_buses s ! i) (bs_registry s) = (streams, r) \<Longrightarrow>
     bus_step L s \<lparr>bs_buses = take i (bs_buses s) @ drop (Suc i) (bs_buses s), bs_registry = r\<rparr>"

definition bus_init :: bus_system where
  "bus_init = \<lparr>bs_buses = [], bs_registry = \<lparr>rg_nodes = [], rg_publishers = []\<rparr>\<rparr>"

text \<open>Every registered publisher is a live bus whose access list covers the topic.\<close>

definition publishers_ok :: "bus_system \<Rightarrow> bool" where
  "publishers_ok s = (dm_wf (rg_publishers (bs_registry s)) \<and>
     (\<forall>t n. dm_get (rg_publishers (bs_registry s)) t = Some n \<longrightarrow>
        (\<exists>b \<in> set (bs_buses s). fb_node_id b = n \<and> can_publish (fb_acl b) t)))"

definition same_node :: "frame_bus \<Rightarrow> frame_bus \<Rightarrow> bool" where
  "same_node b c = (fb_node_id b = fb_node_id c \<and> fb_acl b = fb_acl c)"

lemma publish_cases:
  assumes "bus_publish sh topic payload meta b r = (b', r', res)"
  shows "same_node b' b"
    and "r' = r \<and> (\<exists>e. res = Inl e) \<or>
         r' = mark_publisher topic (fb_node_id b) r \<and> res = Inr (meta_encode meta @ payload)
         \<and> can_publish (fb_acl b) topic \<and> (\<forall>n. topic_publisher topic r = Some n \<longrightarrow> n = fb_node_id b)
         \<and> WIRE_LEN + length payload \<le> MAX_FRAME_BYTES"
  using assms
  by (auto simp: bus_publish_def cached_publisher_def same_node_def split: if_splits option.splits sum.splits)

lemma publishers_ok_update:
  assumes "publishers_ok s" and "i < length (bs_buses s)" and "same_node b (bs_buses s ! i)"
    and "dm_wf (rg_publishers r)"
    and "\<And>t n. dm_get (rg_publishers r) t = Some n \<Longrightarrow>
       dm_get (rg_publishers (bs_registry s)) t = Some n \<or> n = fb_node_id b \<and> can_publish (fb_acl b) t"
  shows "publishers_ok \<lparr>bs_buses = (bs_buses s)[i := b], bs_registry = r\<rparr>"
proof -
  have "\<exists>c \<in> set ((bs_buses s)[i := b]). fb_node_id c = n \<and> can_publish (fb_acl c) t"
    if g: "dm_get (rg_publishers r) t = Some n" for t n
  proof -
    have mem: "b \<in> set ((bs_buses s)[i := b])" using assms(2) by (rule set_update_memI)
    obtain c where c: "c \<in> set (bs_buses s) \<or> c = b" "fb_node_id c = n" "can_publish (fb_acl c) t"
      using assms(1) assms(5) [OF g] unfolding publishers_ok_def by blast
    show ?thesis
    proof (cases "c \<in> set ((bs_buses s)[i := b])")
      case False
      then have "c = bs_buses s ! i" using c(1) mem assms(2) by (metis in_set_conv_nth length_list_update nth_list_update_neq)
      then show ?thesis using mem c assms(3) by (auto simp: same_node_def)
    qed (use c in blast)
  qed
  then show ?thesis using assms(4) by (simp add: publishers_ok_def)
qed

lemma publishers_ok_step:
  assumes "publishers_ok s" and "bus_step L s s'"
  shows "publishers_ok s'"
  using assms(2)
proof cases
  case (bus_step_attach now sh pem token r b)
  then have "rg_publishers r = rg_publishers (bs_registry s)"
    by (auto simp: bus_attach_def registry_register_def split: sum.splits option.splits)
  then show ?thesis using assms(1) bus_step_attach unfolding publishers_ok_def by auto
next
  case (bus_step_attach_fails now sh pem token r e)
  then have "r = bs_registry s" by (auto simp: bus_attach_def split: sum.splits option.splits)
  then show ?thesis using assms(1) bus_step_attach_fails by simp
next
  case (bus_step_publish i sh topic payload meta b r res)
  note p = publish_cases [OF bus_step_publish(3)]
  have wf: "dm_wf (rg_publishers (bs_registry s))" using assms(1) by (simp add: publishers_ok_def)
  show ?thesis unfolding bus_step_publish(1)
  proof (rule publishers_ok_update [OF assms(1) bus_step_publish(2) p(1)])
    show "dm_wf (rg_publishers r)" using p(2) wf by (auto simp: mark_publisher_def dm_wf_insert)
    show "dm_get (rg_publishers (bs_registry s)) t = Some n \<or> n = fb_node_id b \<and> can_publish (fb_acl b) t"
      if "dm_get (rg_publishers r) t = Some n" for t n
      using p that by (cases "t = topic") (auto simp: mark_publisher_def same_node_def simp del: map_of_eq_Some_iff)
  qed
next
  case (bus_step_subscribe i sh topic b res)
  have "same_node b (bs_buses s ! i)"
    using bus_step_subscribe(3) by (auto simp: bus_subscribe_def same_node_def split: if_splits sum.splits option.splits)
  from publishers_ok_update [OF assms(1) bus_step_subscribe(2) this, of "bs_registry s"] assms(1)
  show ?thesis unfolding bus_step_subscribe(1) by (simp add: publishers_ok_def)
next
  case (bus_step_close i streams r)
  have r: "rg_publishers r = dm_retain (\<lambda>t n. n \<noteq> fb_node_id (bs_buses s ! i)) (rg_publishers (bs_registry s))"
    using bus_step_close(3) by (auto simp: bus_close_def registry_unregister_def)
  have wf: "dm_wf (rg_publishers (bs_registry s))" using assms(1) by (simp add: publishers_ok_def)
  have "\<exists>b \<in> set (take i (bs_buses s) @ drop (Suc i) (bs_buses s)). fb_node_id b = n \<and> can_publish (fb_acl b) t"
    if g: "dm_get (rg_publishers r) t = Some n" for t n
  proof -
    have n: "n \<noteq> fb_node_id (bs_buses s ! i)" "dm_get (rg_publishers (bs_registry s)) t = Some n"
      using g wf by (auto simp: r dm_get_retain split: option.splits if_splits simp del: map_of_eq_Some_iff)
    obtain b where b: "b \<in> set (bs_buses s)" "fb_node_id b = n" "can_publish (fb_acl b) t"
      using assms(1) n(2) unfolding publishers_ok_def by blast
    have "set (bs_buses s) = insert (bs_buses s ! i) (set (take i (bs_buses s) @ drop (Suc i) (bs_buses s)))"
      using arg_cong [OF id_take_nth_drop [OF bus_step_close(2)], of set] by simp
    then show ?thesis using b n(1) by auto
  qed
  then show ?thesis unfolding bus_step_close(1) publishers_ok_def using wf by (simp add: r dm_wf_retain)
qed

lemma publishers_ok_run: "(bus_step L)\<^sup>*\<^sup>* bus_init s \<Longrightarrow> publishers_ok s"
proof (induction rule: rtranclp_induct)
  case base
  then show ?case by (simp add: publishers_ok_def bus_init_def)
qed (rule publishers_ok_step)


text \<open>A capture node attaches and publishes, then a control node.\<close>

definition demo_jwt :: jwt_lib where
  "demo_jwt = \<lparr>jl_encode = (\<lambda>pem c. Inl ''''), jl_decode = (\<lambda>pem now t. Inr \<lparr>nc_node_id = t,
     nc_role = Capture, nc_acl = acl_for_role t Capture, nc_exp = 9\<rparr>)\<rparr>"

definition demo_shm :: shm where
  "demo_shm = \<lparr>sh_node = None, sh_opens = [], sh_name_ok = True, sh_publisher = None, sh_subscriber = None, sh_loan = None, sh_send = None\<rparr>"

definition demo_bus :: "string \<Rightarrow> frame_bus" where
  "demo_bus n = \<lparr>fb_acl = acl_for_role n Capture, fb_node_id = n, fb_streams = [], fb_publishers = []\<rparr>"

definition demo_meta :: frame_meta where
  "demo_meta = \<lparr>fm_seq = 1, fm_width = 2, fm_height = 2, fm_format = 1, fm_version = 0, fm_is_keyframe = True, fm_ts_mono_ns = 3, fm_ts_epoch_ns = 4\<rparr>"

definition demo_attached :: bus_system where
  "demo_attached = \<lparr>bs_buses = [demo_bus ''cam''],
     bs_registry = registry_register (node_info_from_claims \<lparr>nc_node_id = ''cam'', nc_role = Capture,
       nc_acl = acl_for_role ''cam'' Capture, nc_exp = 9\<rparr>) \<lparr>rg_nodes = [], rg_publishers = []\<rparr>\<rparr>"

lemma demo_attach: "(bus_step demo_jwt)\<^sup>*\<^sup>* bus_init demo_attached"
proof -
  have "bus_attach demo_jwt 0 demo_shm [] ''cam'' (bs_registry bus_init)
      = (bs_registry demo_attached, Inr (demo_bus ''cam''))"
    by (simp add: bus_attach_def token_verify_def demo_jwt_def demo_shm_def demo_attached_def demo_bus_def bus_init_def)
  from bus_step_attach [OF this] show ?thesis by (simp add: bus_init_def demo_attached_def r_into_rtranclp)
qed


end
