(* ===== verification/Gateway.thy ===== *)
theory Gateway
  imports Protocol
begin

text \<open>
  The vehicle's signaling gateway, \<open>mediaservo-host/src/gateway.rs\<close>: the processes of a vehicle
  connect to it locally and share one session with the server. It answers joins itself, rewrites
  room ids in both directions, pairs the server's responses with requests by their order, drops
  echoes of what it forwarded and survives reconnects. JSON printing is a parameter; what the
  monitoring snapshot shows is left out, it changes nothing.
\<close>

section \<open>State\<close>

definition ERR_GATEWAY_DISCONNECTED :: u16 where "ERR_GATEWAY_DISCONNECTED = 5001"
definition ECHO_CACHE_CAP :: nat where "ECHO_CACHE_CAP = 256"

record gw_conn =
  gc_room :: string
  gc_src :: string
  gc_last_msg :: "nat option"
  gc_producer_key :: "(string \<times> string) option"

record gateway =
  gw_conns :: "(u64, gw_conn) dmap"
  gw_next_id :: u64
  gw_pending :: "u64 list"
  gw_echo_cache :: "string list"
  gw_vehicle_peer_id :: string
  gw_upstream_negotiated :: u32
  gw_pending_resume :: "string option"
  gw_joined :: bool
  gw_remote_since :: "nat option"
  gw_vehicle_room :: string
  gw_pending_config :: "signaling_message option"

definition gateway_new :: "string \<Rightarrow> gateway" where
  "gateway_new room = \<lparr>gw_conns = [], gw_next_id = 1, gw_pending = [], gw_echo_cache = [], gw_vehicle_peer_id = [],
     gw_upstream_negotiated = 1, gw_pending_resume = None, gw_joined = False, gw_remote_since = None,
     gw_vehicle_room = room, gw_pending_config = None\<rparr>"

section \<open>Classes of messages and room ids\<close>

fun is_sfu_request :: "signaling_message \<Rightarrow> bool" where
  "is_sfu_request (CreateWebRtcTransport r p d) = True"
| "is_sfu_request (ConnectWebRtcTransport r p t d) = True"
| "is_sfu_request (Produce m) = True"
| "is_sfu_request (Consume r p i c t) = True"
| "is_sfu_request (SfuStatsRequest p c) = True"
| "is_sfu_request m = False"

text \<open>The messages \<open>downstream\<close> takes for responses.\<close>

fun is_sfu_response :: "signaling_message \<Rightarrow> bool" where
  "is_sfu_response (WebRtcTransportCreated t) = True"
| "is_sfu_response (Produced r p) = True"
| "is_sfu_response (Consumed r c p k x) = True"
| "is_sfu_response (Error c t) = True"
| "is_sfu_response (SfuStats p c k b n s) = True"
| "is_sfu_response m = False"

fun is_relay_msg :: "signaling_message \<Rightarrow> bool" where
  "is_relay_msg (Sdp r t s) = True"
| "is_relay_msg (RTCIceCandidate r t c m i) = True"
| "is_relay_msg (Frame r c s k d) = True"
| "is_relay_msg (EncoderStatus e) = True"
| "is_relay_msg m = False"

fun msg_room_id :: "signaling_message \<Rightarrow> string option" where
  "msg_room_id (RoomJoin m) = Some (rj_room_id m)"
| "msg_room_id (RoomJoined m) = Some (rd_room_id m)"
| "msg_room_id (RoomLeave r p) = Some r"
| "msg_room_id (Sdp r t s) = Some r"
| "msg_room_id (RTCIceCandidate r t c m i) = Some r"
| "msg_room_id (CreateWebRtcTransport r p d) = Some r"
| "msg_room_id (WebRtcTransportCreated t) = Some (tc_room_id t)"
| "msg_room_id (ConnectWebRtcTransport r p t d) = Some r"
| "msg_room_id (Frame r c s k d) = Some r"
| "msg_room_id (Produce m) = Some (pr_room_id m)"
| "msg_room_id (Produced r p) = Some r"
| "msg_room_id (NewProducer r p q k l) = Some r"
| "msg_room_id (ProducerClosed r q p k e) = Some r"
| "msg_room_id (EncoderStatus e) = Some (es_room_id e)"
| "msg_room_id (Consume r p i c t) = Some r"
| "msg_room_id (Consumed r c p k x) = Some r"
| "msg_room_id (CreateDataProducer m) = Some (dp_room_id m)"
| "msg_room_id (DataProducerCreated r d) = Some r"
| "msg_room_id (NewDataProducer r d p l x) = Some r"
| "msg_room_id (ConsumeData r p d i t) = Some r"
| "msg_room_id (DataConsumed r c d s l p) = Some r"
| "msg_room_id (GetRouterRtpCapabilities r) = Some r"
| "msg_room_id (RouterRtpCapabilities r c) = Some r"
| "msg_room_id (SetPreferredLayers r p c s t) = Some r"
| "msg_room_id (EmergencyCommand r c) = Some r"
| "msg_room_id (ControlAudit r s c x) = Some r"
| "msg_room_id m = None"

fun set_room :: "string \<Rightarrow> signaling_message \<Rightarrow> signaling_message" where
  "set_room room (RoomJoin m) = RoomJoin (m\<lparr>rj_room_id := room\<rparr>)"
| "set_room room (RoomJoined m) = RoomJoined (m\<lparr>rd_room_id := room\<rparr>)"
| "set_room room (RoomLeave r p) = RoomLeave room p"
| "set_room room (Sdp r t s) = Sdp room t s"
| "set_room room (RTCIceCandidate r t c m i) = RTCIceCandidate room t c m i"
| "set_room room (CreateWebRtcTransport r p d) = CreateWebRtcTransport room p d"
| "set_room room (WebRtcTransportCreated t) = WebRtcTransportCreated (t\<lparr>tc_room_id := room\<rparr>)"
| "set_room room (ConnectWebRtcTransport r p t d) = ConnectWebRtcTransport room p t d"
| "set_room room (Frame r c s k d) = Frame room c s k d"
| "set_room room (Produce m) = Produce (m\<lparr>pr_room_id := room\<rparr>)"
| "set_room room (Produced r p) = Produced room p"
| "set_room room (NewProducer r p q k l) = NewProducer room p q k l"
| "set_room room (ProducerClosed r q p k e) = ProducerClosed room q p k e"
| "set_room room (EncoderStatus e) = EncoderStatus (e\<lparr>es_room_id := room\<rparr>)"
| "set_room room (Consume r p i c t) = Consume room p i c t"
| "set_room room (Consumed r c p k x) = Consumed room c p k x"
| "set_room room (CreateDataProducer m) = CreateDataProducer (m\<lparr>dp_room_id := room\<rparr>)"
| "set_room room (DataProducerCreated r d) = DataProducerCreated room d"
| "set_room room (NewDataProducer r d p l x) = NewDataProducer room d p l x"
| "set_room room (ConsumeData r p d i t) = ConsumeData room p d i t"
| "set_room room (DataConsumed r c d s l p) = DataConsumed room c d s l p"
| "set_room room (GetRouterRtpCapabilities r) = GetRouterRtpCapabilities room"
| "set_room room (RouterRtpCapabilities r c) = RouterRtpCapabilities room c"
| "set_room room (SetPreferredLayers r p c s t) = SetPreferredLayers room p c s t"
| "set_room room (EmergencyCommand r c) = EmergencyCommand room c"
| "set_room room (ControlAudit r s c x) = ControlAudit room s c x"
| "set_room room m = m"

text \<open>Audio rooms and the per-stream rooms of the target keep their id.\<close>

definition rewrite_room :: "signaling_message \<Rightarrow> string \<Rightarrow> signaling_message" where
  "rewrite_room m room =
     (case msg_room_id m of
        Some r \<Rightarrow> if starts_with r ''audio-'' \<or> starts_with r (room @ ''_'') then m else set_room room m
      | None \<Rightarrow> set_room room m)"

section \<open>Upstream\<close>

datatype upstream_action = Forward signaling_message | Reply signaling_message | DropMsg

definition gateway_disconnected_error :: signaling_message where
  "gateway_disconnected_error = Error ERR_GATEWAY_DISCONNECTED ''gateway not connected to server''"

definition conn_update :: "u64 \<Rightarrow> (gw_conn \<Rightarrow> gw_conn) \<Rightarrow> gateway \<Rightarrow> gateway" where
  "conn_update i f g = g\<lparr>gw_conns := dm_modify i f (gw_conns g)\<rparr>"

definition note_producer :: "u64 \<Rightarrow> signaling_message \<Rightarrow> gateway \<Rightarrow> gateway" where
  "note_producer i msg g =
     (case msg of
        Produce m \<Rightarrow> conn_update i (\<lambda>c. c\<lparr>gc_producer_key := Some (pr_peer_id m, pr_room_id m)\<rparr>) g
      | _ \<Rightarrow> g)"

definition push_echo :: "string \<Rightarrow> gateway \<Rightarrow> gateway" where
  "push_echo t g =
     (let cache = gw_echo_cache g @ [t]
      in g\<lparr>gw_echo_cache := (if length cache > ECHO_CACHE_CAP then tl cache else cache)\<rparr>)"

definition forward_request :: "(signaling_message \<Rightarrow> string) \<Rightarrow> u64 \<Rightarrow> signaling_message \<Rightarrow> gateway \<Rightarrow> gateway \<times> upstream_action" where
  "forward_request print i msg g =
     (let m = rewrite_room msg (gw_vehicle_room g) in
      if \<not> gw_joined g then (g, Reply gateway_disconnected_error)
      else
        (let g1 = (if is_sfu_request m then g\<lparr>gw_pending := gw_pending g @ [i]\<rparr> else g);
             g2 = (if is_relay_msg m then push_echo (print m) g1 else g1)
         in (g2, Forward m)))"

definition upstream :: "(signaling_message \<Rightarrow> string) \<Rightarrow> u64 \<Rightarrow> signaling_message \<Rightarrow> gateway \<Rightarrow> gateway \<times> upstream_action" where
  "upstream print i msg g0 =
     (let g = note_producer i msg g0 in
      case msg of
        RoomJoin j \<Rightarrow>
          (let g1 = conn_update i (\<lambda>c. c\<lparr>gc_room := rj_room_id j\<rparr>) g in
           if gw_joined g1
           then (g1, Reply (RoomJoined \<lparr>rd_room_id = rj_room_id j, rd_peer_id = gw_vehicle_peer_id g1,
                   rd_protocol = Some (min (unwrap_or (rj_protocol j) 1) (gw_upstream_negotiated g1)),
                   rd_server_version = None, rd_session_nonce = None\<rparr>))
           else (g1, Reply gateway_disconnected_error))
      | RoomLeave r p \<Rightarrow> (g, DropMsg)
      | EncoderStatus e \<Rightarrow>
          if \<not> gw_joined g then (g, Reply gateway_disconnected_error) else (g, Forward msg)
      | _ \<Rightarrow> forward_request print i msg g)"

section \<open>Downstream\<close>

definition downstream ::
  "(signaling_message \<Rightarrow> string) \<Rightarrow> signaling_message \<Rightarrow> gateway \<Rightarrow> gateway \<times> (u64 \<times> signaling_message) list" where
  "downstream print msg g =
     (if is_relay_msg msg \<and> print msg \<in> set (gw_echo_cache g) then (g, [])
      else if is_sfu_response msg
      then (case gw_pending g of
              [] \<Rightarrow> (g, [])
            | i # rest \<Rightarrow>
                (g\<lparr>gw_pending := rest\<rparr>,
                 case dm_get (gw_conns g) i of Some c \<Rightarrow> [(i, rewrite_room msg (gc_room c))] | None \<Rightarrow> []))
      else
        (case msg of
           ConfigPush room_id target config version actor \<Rightarrow>
             if room_id \<noteq> gw_vehicle_room g \<or> target \<noteq> gw_vehicle_peer_id g then (g, [])
             else (g\<lparr>gw_pending_config := Some msg\<rparr>, [])
         | Sdp r t s \<Rightarrow>
             (let m = rewrite_room msg (gw_vehicle_room g)
              in (g, map (\<lambda>(i, c). (i, m)) (filter (\<lambda>(i, c). Some (gc_room c) = msg_room_id m) (gw_conns g))))
         | RTCIceCandidate r t c mi x \<Rightarrow>
             (let m = rewrite_room msg (gw_vehicle_room g)
              in (g, map (\<lambda>(i, c). (i, m)) (filter (\<lambda>(i, c). Some (gc_room c) = msg_room_id m) (gw_conns g))))
         | _ \<Rightarrow> (g, map (\<lambda>(i, c). (i, rewrite_room msg (gc_room c))) (gw_conns g))))"

section \<open>Connections, the queue to the server, the remote session\<close>

record up_queue =
  uq_hi :: "signaling_message list"
  uq_lo :: "signaling_message list"
  uq_dropped :: u64
  uq_closed :: bool

definition UP_LO_CAP :: nat where "UP_LO_CAP = 16"

fun is_status_report :: "signaling_message \<Rightarrow> bool" where
  "is_status_report (StatusReport r) = True"
| "is_status_report m = False"

text \<open>\<open>None\<close>: the channel is closed. A report that does not fit, or finds its channel closed, is counted.\<close>

definition queue_push :: "signaling_message \<Rightarrow> up_queue \<Rightarrow> up_queue option" where
  "queue_push m q =
     (if is_status_report m
      then Some (if uq_closed q \<or> length (uq_lo q) \<ge> UP_LO_CAP then q\<lparr>uq_dropped := uq_dropped q + 1\<rparr>
                 else q\<lparr>uq_lo := uq_lo q @ [m]\<rparr>)
      else if uq_closed q then None else Some (q\<lparr>uq_hi := uq_hi q @ [m]\<rparr>))"

definition conn_open :: "gateway \<Rightarrow> gateway \<times> u64" where
  "conn_open g =
     (g\<lparr>gw_next_id := gw_next_id g + 1,
        gw_conns := dm_insert (gw_next_id g)
          \<lparr>gc_room = [], gc_src = [], gc_last_msg = None, gc_producer_key = None\<rparr> (gw_conns g)\<rparr>,
      gw_next_id g)"

text \<open>One envelope of a local connection; the flag says the connection's task goes on.\<close>

definition conn_message ::
  "(signaling_message \<Rightarrow> string) \<Rightarrow> nat \<Rightarrow> u64 \<Rightarrow> string \<Rightarrow> signaling_message \<Rightarrow> gateway \<times> up_queue \<Rightarrow>
     (gateway \<times> up_queue) \<times> signaling_message option \<times> bool" where
  "conn_message print now i src msg gq =
     (case gq of (g, q) \<Rightarrow>
        (case upstream print i msg (conn_update i (\<lambda>c. c\<lparr>gc_src := src, gc_last_msg := Some now\<rparr>) g) of
           (g1, Forward m) \<Rightarrow>
             (case queue_push m q of
                Some q1 \<Rightarrow> ((g1, q1), None, True)
              | None \<Rightarrow> ((g1\<lparr>gw_pending := butlast (gw_pending g1)\<rparr>, q), None, False))
         | (g1, Reply m) \<Rightarrow> ((g1, q), Some m, True)
         | (g1, DropMsg) \<Rightarrow> ((g1, q), None, True)))"

definition remove_conn :: "u64 \<Rightarrow> gateway \<Rightarrow> gateway" where
  "remove_conn i g = g\<lparr>gw_conns := dm_remove i (gw_conns g)\<rparr>"

definition conn_gone :: "u64 \<Rightarrow> gateway \<times> up_queue \<Rightarrow> gateway \<times> up_queue" where
  "conn_gone i gq =
     (case gq of (g, q) \<Rightarrow>
        (remove_conn i g,
         case Option.bind (dm_get (gw_conns g) i) gc_producer_key of
           None \<Rightarrow> q
         | Some (peer, room) \<Rightarrow> unwrap_or (queue_push (DownstreamGone peer room) q) q))"

definition session_up :: "nat \<Rightarrow> string \<Rightarrow> u32 \<Rightarrow> string option \<Rightarrow> gateway \<Rightarrow> gateway" where
  "session_up now peer_id negotiated nonce g =
     g\<lparr>gw_joined := True, gw_remote_since := Some now, gw_vehicle_peer_id := peer_id, gw_upstream_negotiated := negotiated,
       gw_pending_resume := nonce\<rparr>"

text \<open>After a reconnect every local connection is told to rebuild its session.\<close>

definition recovery_notice :: "gateway \<Rightarrow> (u64 \<times> signaling_message) list" where
  "recovery_notice g = map (\<lambda>(i, c). (i, gateway_disconnected_error)) (gw_conns g)"

definition take_ticket :: "gateway \<Rightarrow> gateway \<times> string option" where
  "take_ticket g = (g\<lparr>gw_pending_resume := None\<rparr>, gw_pending_resume g)"

definition reset_remote :: "gateway \<Rightarrow> gateway" where
  "reset_remote g = g\<lparr>gw_joined := False, gw_remote_since := None, gw_pending := [], gw_echo_cache := [], gw_vehicle_peer_id := [],
     gw_upstream_negotiated := 1, gw_pending_resume := None\<rparr>"

definition session_down :: "gateway \<times> up_queue \<Rightarrow> gateway \<times> up_queue" where
  "session_down gq = (case gq of (g, q) \<Rightarrow> (reset_remote g, q\<lparr>uq_hi := [], uq_lo := []\<rparr>))"

definition send_remote :: "signaling_message \<Rightarrow> gateway \<Rightarrow> up_queue \<Rightarrow> string + up_queue" where
  "send_remote m g q =
     (if \<not> gw_joined g then Inl ''gateway not connected to server''
      else (case queue_push m q of None \<Rightarrow> Inl ''remote session closed'' | Some q1 \<Rightarrow> Inr q1))"

definition take_config_push :: "gateway \<Rightarrow> gateway \<times> signaling_message option" where
  "take_config_push g = (g\<lparr>gw_pending_config := None\<rparr>, gw_pending_config g)"

section \<open>The gateway between its processes and a server\<close>

text \<open>
  One session with the server: the gateway, the messages on their way up with the connection that
  sent them, the server, and the messages on their way down with the connection whose message they
  answer. The server handles one message after the other; \<open>answer x s m\<close> is its reaction to \<open>m\<close>,
  with \<open>x\<close> whatever else it reads. Besides answers it may send other messages at any time.
\<close>

record 's link =
  ln_gw :: gateway
  ln_up :: "(u64 \<times> signaling_message) list"
  ln_srv :: 's
  ln_down :: "(u64 option \<times> signaling_message) list"

inductive link_step ::
  "(signaling_message \<Rightarrow> string) \<Rightarrow> ('x \<Rightarrow> 's \<Rightarrow> signaling_message \<Rightarrow> 's \<times> signaling_message option) \<Rightarrow>
     (signaling_message \<Rightarrow> bool) \<Rightarrow> 's link \<Rightarrow> 's link \<Rightarrow> bool"
  for print :: "signaling_message \<Rightarrow> string" and answer :: "'x \<Rightarrow> 's \<Rightarrow> signaling_message \<Rightarrow> 's \<times> signaling_message option"
    and sends :: "signaling_message \<Rightarrow> bool" where
  link_forward: "upstream print i m (ln_gw l) = (g, Forward m') \<Longrightarrow> sends m' \<Longrightarrow>
     link_step print answer sends l (l\<lparr>ln_gw := g, ln_up := ln_up l @ [(i, m')]\<rparr>)"
| link_local: "upstream print i m (ln_gw l) = (g, act) \<Longrightarrow> (\<And>m'. act \<noteq> Forward m') \<Longrightarrow>
     link_step print answer sends l (l\<lparr>ln_gw := g\<rparr>)"
| link_open: "conn_open (ln_gw l) = (g, i) \<Longrightarrow> link_step print answer sends l (l\<lparr>ln_gw := g\<rparr>)"
| link_gone: "sends (DownstreamGone peer room) \<Longrightarrow>
     link_step print answer sends l (l\<lparr>ln_gw := remove_conn i (ln_gw l), ln_up := ln_up l @ [(i, DownstreamGone peer room)]\<rparr>)"
| link_closed: "link_step print answer sends l (l\<lparr>ln_gw := remove_conn i (ln_gw l)\<rparr>)"
| link_serve: "ln_up l = (i, m) # ups \<Longrightarrow> answer x (ln_srv l) m = (s, r) \<Longrightarrow>
     link_step print answer sends l (l\<lparr>ln_up := ups, ln_srv := s,
       ln_down := ln_down l @ (case r of None \<Rightarrow> [] | Some a \<Rightarrow> [(Some i, a)])\<rparr>)"
| link_broadcast: "\<not> is_sfu_response m \<Longrightarrow> link_step print answer sends l (l\<lparr>ln_srv := s, ln_down := ln_down l @ [(None, m)]\<rparr>)"
| link_deliver: "ln_down l = (own, m) # downs \<Longrightarrow> downstream print m (ln_gw l) = (g, out) \<Longrightarrow>
     link_step print answer sends l (l\<lparr>ln_gw := g, ln_down := downs\<rparr>)"

definition link_start :: "gateway \<Rightarrow> 's \<Rightarrow> 's link" where
  "link_start g s = \<lparr>ln_gw = g, ln_up = [], ln_srv = s, ln_down = []\<rparr>"

text \<open>What upstream and downstream do to the queue of pending requests.\<close>

lemma set_room_request: "is_sfu_request (set_room room m) = is_sfu_request m" "is_sfu_response (set_room room m) = is_sfu_response m"
  by (cases m; simp)+

lemma rewrite_request [simp]:
  "is_sfu_request (rewrite_room m room) = is_sfu_request m" "is_sfu_response (rewrite_room m room) = is_sfu_response m"
  by (simp_all add: rewrite_room_def set_room_request split: option.split)

lemma response_not_relay: "is_sfu_response m \<Longrightarrow> \<not> is_relay_msg m"
  by (cases m) simp_all

lemma note_producer_frame [simp]:
  "gw_pending (note_producer i m g) = gw_pending g" "gw_joined (note_producer i m g) = gw_joined g"
  by (cases m; simp add: note_producer_def conn_update_def)+

lemma forward_pending:
  "gw_pending (fst (forward_request print i m g)) =
     gw_pending g @ (case snd (forward_request print i m g) of Forward m' \<Rightarrow> if is_sfu_request m' then [i] else [] | _ \<Rightarrow> [])"
  by (simp add: forward_request_def push_echo_def Let_def)

lemma upstream_pending:
  "gw_pending (fst (upstream print i m g)) =
     gw_pending g @ (case snd (upstream print i m g) of Forward m' \<Rightarrow> if is_sfu_request m' then [i] else [] | _ \<Rightarrow> [])"
  using forward_pending [of print i m "note_producer i m g"]
  by (cases m) (simp_all add: upstream_def Let_def conn_update_def)

lemma downstream_response:
  assumes "is_sfu_response m"
  shows "downstream print m g =
    (case gw_pending g of
       [] \<Rightarrow> (g, [])
     | i # rest \<Rightarrow> (g\<lparr>gw_pending := rest\<rparr>,
         case dm_get (gw_conns g) i of Some c \<Rightarrow> [(i, rewrite_room m (gc_room c))] | None \<Rightarrow> []))"
  using assms response_not_relay [OF assms] by (simp add: downstream_def)

lemma downstream_other_pending: "\<not> is_sfu_response m \<Longrightarrow> gw_pending (fst (downstream print m g)) = gw_pending g"
  by (cases m) (simp_all add: downstream_def Let_def)

section \<open>Pairing\<close>

text \<open>What the gateway relies on: the server answers every request with one response, and nothing else it is
  sent with a message that looks like one.\<close>

locale paired_server =
  fixes answer :: "'x \<Rightarrow> 's \<Rightarrow> signaling_message \<Rightarrow> 's \<times> signaling_message option"
    and quiet :: "signaling_message \<Rightarrow> bool"
  assumes answers_request: "is_sfu_request m \<Longrightarrow> \<exists>r. snd (answer x s m) = Some r \<and> is_sfu_response r"
    and quiet_not_response: "quiet m \<Longrightarrow> snd (answer x s m) = Some r \<Longrightarrow> \<not> is_sfu_response r"
    and quiet_not_request: "quiet m \<Longrightarrow> \<not> is_sfu_request m"
begin

definition awaiting :: "(u64 option \<times> signaling_message) list \<Rightarrow> u64 list" where
  "awaiting ds = concat (map (\<lambda>(own, m). if is_sfu_response m then (case own of Some i \<Rightarrow> [i] | None \<Rightarrow> []) else []) ds)"

definition asking :: "(u64 \<times> signaling_message) list \<Rightarrow> u64 list" where
  "asking us = map fst (filter (\<lambda>(i, m). is_sfu_request m) us)"

definition paired :: "'s link \<Rightarrow> bool" where
  "paired l =
     (gw_pending (ln_gw l) = awaiting (ln_down l) @ asking (ln_up l)
      \<and> (\<forall>(own, m) \<in> set (ln_down l). is_sfu_response m \<longrightarrow> own \<noteq> None)
      \<and> (\<forall>(i, m) \<in> set (ln_up l). is_sfu_request m \<or> quiet m))"

lemma awaiting_simps [simp]:
  "awaiting [] = []" "awaiting (xs @ ys) = awaiting xs @ awaiting ys"
  "awaiting (d # ds) = (if is_sfu_response (snd d) then (case fst d of Some i \<Rightarrow> [i] | None \<Rightarrow> []) else []) @ awaiting ds"
  by (simp_all add: awaiting_def case_prod_beta)

lemma asking_simps [simp]:
  "asking [] = []" "asking (xs @ ys) = asking xs @ asking ys" "asking ((i, m) # us) = (if is_sfu_request m then [i] else []) @ asking us"
  by (simp_all add: asking_def)

lemma paired_step:
  assumes p: "paired l" and "link_step print answer (\<lambda>m. is_sfu_request m \<or> quiet m) l l'"
  shows "paired l'"
  using assms(2)
proof cases
  case (link_forward i m g m')
  then have "gw_pending g = gw_pending (ln_gw l) @ (if is_sfu_request m' then [i] else [])"
    using upstream_pending [of print i m "ln_gw l"] by simp
  then show ?thesis using p link_forward by (auto simp: paired_def)
next
  case (link_local i m g act)
  from link_local(3) have "\<nexists>m'. act = Forward m'" by blast
  then have "gw_pending g = gw_pending (ln_gw l)"
    using upstream_pending [of print i m "ln_gw l"] link_local(2) by (cases act) simp_all
  then show ?thesis using p link_local by (simp add: paired_def)
next
  case (link_open g i)
  then show ?thesis using p by (auto simp: paired_def conn_open_def)
next
  case (link_gone peer room i)
  then show ?thesis using p by (auto simp: paired_def remove_conn_def)
next
  case (link_closed i)
  then show ?thesis using p by (simp add: paired_def remove_conn_def)
next
  case (link_serve i m ups x s r)
  have m: "is_sfu_request m \<or> quiet m" using p link_serve(2) by (auto simp: paired_def)
  have "(is_sfu_request m \<and> (\<exists>a. r = Some a \<and> is_sfu_response a)) \<or> (\<not> is_sfu_request m \<and> (\<forall>a. r = Some a \<longrightarrow> \<not> is_sfu_response a))"
    using m answers_request [of m x "ln_srv l"] quiet_not_response [of m x "ln_srv l"] quiet_not_request link_serve(3) by fastforce
  then show ?thesis using p link_serve by (auto simp: paired_def split: option.splits)
next
  case (link_broadcast m s)
  then show ?thesis using p by (simp add: paired_def)
next
  case (link_deliver own m downs g out)
  show ?thesis
  proof (cases "is_sfu_response m")
    case True
    then obtain i where i: "own = Some i" using p link_deliver(2) by (auto simp: paired_def)
    then have "gw_pending g = awaiting downs @ asking (ln_up l)"
      using p link_deliver True by (auto simp: paired_def downstream_response)
    then show ?thesis using p link_deliver by (auto simp: paired_def)
  next
    case False
    then have "gw_pending g = gw_pending (ln_gw l)" using downstream_other_pending [OF False, of print "ln_gw l"] link_deliver(3) by simp
    then show ?thesis using p link_deliver False by (auto simp: paired_def)
  qed
qed

lemma paired_run:
  assumes "(link_step print answer (\<lambda>m. is_sfu_request m \<or> quiet m))\<^sup>*\<^sup>* (link_start g s) l" and "gw_pending g = []"
  shows "paired l"
  using assms(1)
proof (induction rule: rtranclp_induct)
  case base
  then show ?case by (simp add: paired_def link_start_def assms(2))
qed (rule paired_step)

lemma response_reaches_requester:
  assumes "(link_step print answer (\<lambda>m. is_sfu_request m \<or> quiet m))\<^sup>*\<^sup>* (link_start g s) l" and "gw_pending g = []"
    and "ln_down l = (own, r) # downs" and "is_sfu_response r"
  shows "\<exists>i. own = Some i \<and> snd (downstream print r (ln_gw l)) =
    (case dm_get (gw_conns (ln_gw l)) i of Some c \<Rightarrow> [(i, rewrite_room r (gc_room c))] | None \<Rightarrow> [])"
proof -
  have p: "paired l" by (rule paired_run [OF assms(1,2)])
  then obtain i where i: "own = Some i" using assms(3,4) by (auto simp: paired_def)
  then have "gw_pending (ln_gw l) = i # awaiting downs @ asking (ln_up l)" using p assms(3,4) by (simp add: paired_def)
  then show ?thesis using i by (simp add: downstream_response [OF assms(4)])
qed

end

text \<open>
  The report of a dead process names the room of its \<open>Produce\<close> message as the process wrote it,
  while the message itself went out with the vehicle's room: for a room that is neither an audio
  room nor a per-stream room of the vehicle the two differ, and the server looks in a room the
  producer is not in.
\<close>

lemma gone_reports_unrewritten_room:
  assumes "gw_joined g" and "dm_get (gw_conns g) i = Some c" and "\<not> uq_closed q"
    and "\<not> starts_with (pr_room_id m) ''audio-''" and "\<not> starts_with (pr_room_id m) (gw_vehicle_room g @ ''_'')"
    and "upstream print i (Produce m) g = (g', a)"
  shows "a = Forward (Produce (m\<lparr>pr_room_id := gw_vehicle_room g\<rparr>)) \<and>
    uq_hi (snd (conn_gone i (g', q))) = uq_hi q @ [DownstreamGone (pr_peer_id m) (pr_room_id m)]"
  using assms
  by (auto simp: upstream_def forward_request_def note_producer_def conn_update_def rewrite_room_def conn_gone_def
      queue_push_def Let_def unwrap_or_def)

end
