(* ===== verification/VehicleLink.thy ===== *)
theory VehicleLink
  imports Gateway SfuMessages
begin

text \<open>
  The gateway of the vehicle (\<open>mediaservo-host/src/gateway.rs\<close>) in front of the server's SFU handler
  (\<open>mediaservo-server/src/signaling.rs\<close>): the gateway pairs requests and responses by their order,
  which is right as far as the handler keeps the contract \<open>paired_server\<close>.
\<close>

section \<open>The server keeps the contract of the pairing\<close>

text \<open>The server's reaction to a message of the vehicle's session, as \<open>handle_sfu_message\<close> computes it.\<close>

definition sfu_answer ::
  "string \<Rightarrow> session_identity \<Rightarrow> u32 \<Rightarrow> worker \<times> string \<Rightarrow> server \<Rightarrow> signaling_message \<Rightarrow> server \<times> signaling_message option" where
  "sfu_answer peer identity negotiated x s m = handle_sfu_message (fst x) (snd x) s peer identity negotiated m"

text \<open>What the vehicle may send beside requests without the server answering with a response.\<close>

fun sfu_quiet :: "signaling_message \<Rightarrow> bool" where
  "sfu_quiet (CreateWebRtcTransport r p d) = False"
| "sfu_quiet (ConnectWebRtcTransport r p t d) = False"
| "sfu_quiet (Produce m) = False"
| "sfu_quiet (Consume r p i c t) = False"
| "sfu_quiet (SfuStatsRequest p c) = False"
| "sfu_quiet (GetRouterRtpCapabilities r) = False"
| "sfu_quiet (SetPreferredLayers r p c s t) = False"
| "sfu_quiet (CreateDataProducer m) = False"
| "sfu_quiet (ConsumeData r p d i t) = False"
| "sfu_quiet (EmergencyCommand r c) = False"
| "sfu_quiet (ConfigPush r t c v a) = False"
| "sfu_quiet (StatusReport r) = False"
| "sfu_quiet m = True"

definition vehicle_sends :: "signaling_message \<Rightarrow> bool" where
  "vehicle_sends m = (is_sfu_request m \<or> sfu_quiet m)"

lemma create_transport_answered: "\<exists>r. snd (handle_create_transport s w peer room p d) = Some r \<and> is_sfu_response r"
  by (auto simp: handle_create_transport_def split: prod.splits sum.splits)

lemma produce_answered: "\<exists>r. snd (handle_produce s w peer identity m) = Some r \<and> is_sfu_response r"
  by (auto simp: handle_produce_def deny_def Let_def split: prod.splits sum.splits)

lemma consume_answered: "\<exists>r. snd (handle_consume s w peer identity room p i t) = Some r \<and> is_sfu_response r"
  by (auto simp: handle_consume_def deny_def split: prod.splits sum.splits)

lemma stats_answered: "\<exists>r. snd (handle_sfu_stats s w peer identity p c) = Some r \<and> is_sfu_response r"
  by (cases p; cases c) (auto simp: handle_sfu_stats_def deny_def split: prod.splits sum.splits)

lemma connect_answered: "\<exists>r. snd (handle_connect_transport s w room p t) = Some r \<and> is_sfu_response r"
  by (auto simp: handle_connect_transport_def split: sum.splits)

lemma gone_unanswered: "snd (handle_downstream_gone s ts peer gone room) = None"
  by (simp add: handle_downstream_gone_def Let_def split: option.split prod.split)

interpretation vl: paired_server "sfu_answer peer identity negotiated" sfu_quiet for peer identity negotiated
proof unfold_locales
  fix m s and x :: "worker \<times> string"
  assume "is_sfu_request m"
  then show "\<exists>r. snd (sfu_answer peer identity negotiated x s m) = Some r \<and> is_sfu_response r"
    by (cases m) (simp_all add: sfu_answer_def handle_sfu_message_def create_transport_answered produce_answered
      consume_answered stats_answered connect_answered)
next
  fix m s r and x :: "worker \<times> string"
  assume "sfu_quiet m" and "snd (sfu_answer peer identity negotiated x s m) = Some r"
  then show "\<not> is_sfu_response r"
    by (cases m) (simp_all add: sfu_answer_def handle_sfu_message_def gone_unanswered)
next
  fix m
  assume "sfu_quiet m"
  then show "\<not> is_sfu_request m" by (cases m) simp_all
qed

section \<open>Responses reach the process that asked\<close>


text \<open>Two processes ask at once; the server has answered the first.\<close>

definition demo_gateway :: gateway where
  "demo_gateway = (gateway_new ''car'')\<lparr>gw_joined := True, gw_vehicle_peer_id := ''h'', gw_next_id := 3, gw_conns :=
     [(1, \<lparr>gc_room = ''rear'', gc_src = [], gc_last_msg = None, gc_producer_key = None\<rparr>),
      (2, \<lparr>gc_room = ''front'', gc_src = [], gc_last_msg = None, gc_producer_key = None\<rparr>)]\<rparr>"

definition demo_asking :: gateway where
  "demo_asking = fst (upstream (\<lambda>m. []) 2 (Produce demo_produce) demo_gateway)"

definition demo_asked :: gateway where
  "demo_asked = fst (upstream (\<lambda>m. []) 1 (SfuStatsRequest None None) demo_asking)"

definition demo_answered :: "server link" where
  "demo_answered = \<lparr>ln_gw = demo_asked, ln_up = [(1, SfuStatsRequest None None)],
     ln_srv = fst (handle_sfu_message demo_worker ''t'' demo_server ''h'' (Device ''car'') 3 (Produce demo_produce)),
     ln_down = [(Some 2, Produced ''car_front'' ''p9'')]\<rparr>"

lemma demo_upstream:
  "snd (upstream (\<lambda>m. []) 2 (Produce demo_produce) demo_gateway) = Forward (Produce demo_produce)"
  "snd (upstream (\<lambda>m. []) 1 (SfuStatsRequest None None) demo_asking) =
     Forward (SfuStatsRequest None None)"
  by code_simp+

lemma demo_run:
  "(link_step (\<lambda>m. []) (sfu_answer ''h'' (Device ''car'') 3) vehicle_sends)\<^sup>*\<^sup>* (link_start demo_gateway demo_server) demo_answered"
proof -
  let ?step = "link_step (\<lambda>m. []) (sfu_answer ''h'' (Device ''car'') 3) vehicle_sends"
  define l1 where "l1 = (link_start demo_gateway demo_server)\<lparr>ln_gw := demo_asking,
    ln_up := [(2, Produce demo_produce)]\<rparr>"
  define l2 where "l2 = l1\<lparr>ln_gw := demo_asked, ln_up := [(2, Produce demo_produce), (1, SfuStatsRequest None None)]\<rparr>"
  have "?step (link_start demo_gateway demo_server) l1"
    using link_forward [of "\<lambda>m. []" 2 "Produce demo_produce" "link_start demo_gateway demo_server" demo_asking "Produce demo_produce" vehicle_sends]
      demo_upstream(1) by (simp add: l1_def link_start_def vehicle_sends_def prod_eq_iff demo_asking_def)
  moreover have "?step l1 l2"
    using link_forward [of "\<lambda>m. []" 1 "SfuStatsRequest None None" l1 demo_asked "SfuStatsRequest None None" vehicle_sends]
      demo_upstream(2) by (simp add: l2_def l1_def link_start_def vehicle_sends_def prod_eq_iff demo_asked_def)
  moreover have "?step l2 demo_answered"
    using link_serve [of l2 2 "Produce demo_produce" "[(1, SfuStatsRequest None None)]" "sfu_answer ''h'' (Device ''car'') 3"
        "(demo_worker, ''t'')" "ln_srv demo_answered" "Some (Produced ''car_front'' ''p9'')" "\<lambda>m. []" vehicle_sends] demo_produced
    by (simp add: l2_def l1_def link_start_def sfu_answer_def prod_eq_iff demo_answered_def)
  ultimately show ?thesis by (meson rtranclp.intros(1) rtranclp.rtrancl_into_rtrancl)
qed


section \<open>Where the pairing fails\<close>

text \<open>
  The condition on what the vehicle sends is needed. A change of preferred layers takes no place in
  the queue of pending requests, but the server answers it with an \<open>Error\<close> whether it succeeds or not,
  and the gateway gives that answer to the connection that asked first for something else.
\<close>

lemma layers_always_answered:
  "\<exists>code t. snd (sfu_answer peer identity negotiated x s (SetPreferredLayers r p c sp tp)) = Some (Error code t)"
  by (auto simp: sfu_answer_def handle_sfu_message_def handle_set_layers_def split: sum.splits)

lemma layers_answer_misrouted:
  assumes "gw_joined g" and "gw_pending g = []"
    and "upstream print i (SetPreferredLayers r p c sp tp) g = (g1, a1)"
    and "upstream print j (SfuStatsRequest q k) g1 = (g2, a2)" and "dm_get (gw_conns g) j = Some cn"
  shows "a1 = Forward (rewrite_room (SetPreferredLayers r p c sp tp) (gw_vehicle_room g)) \<and>
    snd (downstream print (Error code t) g2) = [(j, Error code t)]"
  using assms by (auto simp: upstream_def forward_request_def note_producer_def downstream_def rewrite_room_def split: option.splits if_splits)

end
