(* ===== verification/AdminApi.thy ===== *)
theory AdminApi
  imports SignalSystem Strings
begin

text \<open>
  The administration interface, \<open>mediaservo-server/src/admin.rs\<close>: login and key exchange, the
  authorization of every request, and the handlers over the registries, rooms, the pre-shared key
  and the SFU. JWT, YAML and JSON reading are parameters; a request carries what axum's extractors
  made of its body. A response carries the values the handler serializes; the texts of operating
  system errors are part of what a request reads from outside.
\<close>

section \<open>State, requests, responses\<close>

text \<open>What is fixed at start.\<close>

record admin_config =
  ac_jwt_secret :: "string option"
  ac_listen_host :: string
  ac_listen_port :: u16
  ac_rate_limit :: u32
  ac_room_capacity :: nat
  ac_consumer_limit :: nat
  ac_devices_path :: string
  ac_accounts_path :: string
  ac_api_keys_path :: string
  ac_config_path :: string
  ac_api_token_ttl :: u64
  ac_crypto :: crypto
  ac_verify :: "string \<Rightarrow> string \<Rightarrow> jwt_claims option" \<comment> \<open>secret, token\<close>
  ac_encode :: "string \<Rightarrow> jwt_claims \<Rightarrow> string option"
  ac_yaml_devices :: "(string, device_entry) dmap \<Rightarrow> string"
  ac_yaml_accounts :: "(string, account_entry_file) dmap \<Rightarrow> string"
  ac_yaml_keys :: "(string, api_file_entry) dmap \<Rightarrow> string"

text \<open>The registry of devices, the pending devices, the key and the SFU are those of the signaling server.\<close>

record admin =
  ad_server :: server
  ad_accounts :: account_registry
  ad_keys :: api_key_registry
  ad_files :: fs

text \<open>Clock, random values and faults; \<open>None\<close> for a clock before the epoch.\<close>

record api_fresh =
  ax_uuid :: string
  ax_now :: "u64 option"
  ax_now_ms :: u64
  ax_ts :: string
  ax_fault :: io_fault
  ax_io_text :: string

datatype http_method = GET | HEAD | POST | PUT | DELETE | OtherMethod

record request =
  rq_method :: http_method
  rq_path :: string
  rq_query :: "string option"
  rq_authorization :: "string option"
  rq_body :: string
  rq_no_upgrade :: "nat option" \<comment> \<open>the status of the rejection if the request is no WebSocket upgrade\<close>

text \<open>Bodies after their JSON was read.\<close>

record register_key_req =
  rk_key_id :: string
  rk_role :: string
  rk_vehicles :: "string list"
  rk_label :: "string option"

record update_account_req =
  ua_role :: "string option"
  ua_vehicles :: "string list option"
  ua_new_password :: "string option"

datatype api_body =
    ErrorBody string
  | LoginBody string string string u64 \<comment> \<open>token username role expires_in_secs\<close>
  | KeysBody "(string \<times> string \<times> string list \<times> string option) list"
  | KeySecretBody string string \<comment> \<open>key_id secret\<close>
  | RevokedBody string
  | PushedBody string u64
  | DevicesBody "string list" nat
  | DeviceSecretBody string string "string option" \<comment> \<open>device_id secret secret_hash\<close>
  | PendingBody "(string \<times> pending_entry) list" nat
  | ApprovedBody string string "string option" \<comment> \<open>device_id public_key name\<close>
  | AccountsBody "account_view list" nat
  | CreatedBody string
  | UpdatedBody string
  | DeletedBody string
  | PskBody string string \<comment> \<open>psk hint\<close>
  | RoomsBody "device_snapshot list" "room_snapshot list"
  | RoomBody room_snapshot
  | RemovedBody string
  | KickedBody string "string list"
  | StatsBody nat nat nat
  | StatusBody "(string \<times> signaling_message) list"
  | SfuRoomsBody "sfu_room_summary list"
  | SfuStatsBody json
  | ServerConfigBody string u16 u32 nat nat string
  | EventsBody
  | EmptyBody

text \<open>A panic in a handler ends the connection without an answer.\<close>

datatype http_response = Response nat api_body | NoResponse

definition rest_error :: "nat \<Rightarrow> string \<Rightarrow> http_response" where
  "rest_error code msg = Response code (ErrorBody msg)"

definition log_admin :: "audit_event \<Rightarrow> admin \<Rightarrow> admin" where
  "log_admin e st = st\<lparr>ad_server := audit_log e (ad_server st)\<rparr>"

section \<open>Login and exchange\<close>

definition issue_account_token :: "admin_config \<Rightarrow> string \<Rightarrow> u64 option \<Rightarrow> account_identity \<Rightarrow> u64 \<Rightarrow> string option" where
  "issue_account_token cfg secret now identity ttl =
     Option.bind now (\<lambda>t. ac_encode cfg secret (account_claims identity t ttl))"

definition issue_api_token :: "admin_config \<Rightarrow> string \<Rightarrow> u64 option \<Rightarrow> string \<Rightarrow> api_key_entry \<Rightarrow> u64 \<Rightarrow> string option" where
  "issue_api_token cfg secret now key_id e ttl =
     Option.bind now (\<lambda>t. ac_encode cfg secret (api_claims key_id e t ttl))"

definition LOGIN_TTL :: u64 where "LOGIN_TTL = 12 * 3600"

definition bad_login :: http_response where
  "bad_login = rest_error 401 ''account authentication failed: invalid credentials''"

definition login :: "admin_config \<Rightarrow> api_fresh \<Rightarrow> string \<Rightarrow> string \<Rightarrow> admin \<Rightarrow> admin \<times> http_response" where
  "login cfg fr username password st =
     (case ac_jwt_secret cfg of
        None \<Rightarrow> (st, rest_error 503 ''admin jwt secret not configured'')
      | Some secret \<Rightarrow>
          if ad_accounts st = [] then (st, bad_login)
          else (case accounts_authenticate (ac_crypto cfg) (ad_accounts st) username password of
            Panics \<Rightarrow> (st, NoResponse)
          | Returns (Inl e) \<Rightarrow> (log_admin (AuthFailure username ''account login failed'') st, bad_login)
          | Returns (Inr identity) \<Rightarrow>
              (case issue_account_token cfg secret (ax_now fr) identity LOGIN_TTL of
                 None \<Rightarrow> (st, rest_error 500 ''token issuance failed'')
               | Some token \<Rightarrow>
                   (log_admin (AuthSuccess (ai_username identity) None) st,
                    Response 200 (LoginBody token (ai_username identity) (role_as_str (ai_role identity)) LOGIN_TTL)))))"

definition exchange :: "admin_config \<Rightarrow> api_fresh \<Rightarrow> string \<Rightarrow> string \<Rightarrow> admin \<Rightarrow> admin \<times> http_response" where
  "exchange cfg fr key_id key_secret st =
     (case ac_jwt_secret cfg of
        None \<Rightarrow> (st, rest_error 503 ''admin jwt secret not configured'')
      | Some signing \<Rightarrow>
          (case apikeys_verify (ac_crypto cfg) (ad_keys st) key_id key_secret of
             Inl e \<Rightarrow>
               (log_admin (AuthFailure (''apikey:'' @ key_id) ''api key exchange failed'') st,
                rest_error 401 (api_key_auth_message e))
           | Inr entry \<Rightarrow>
               (case issue_api_token cfg signing (ax_now fr) key_id entry (ac_api_token_ttl cfg) of
                  None \<Rightarrow> (st, rest_error 500 ''token issuance failed'')
                | Some token \<Rightarrow>
                    (log_admin (AuthSuccess (''apikey:'' @ key_id) None) st,
                     Response 200 (LoginBody token key_id (role_as_str (ke_role entry)) (ac_api_token_ttl cfg))))))"

section \<open>Authorization\<close>

fun split_on :: "char \<Rightarrow> string \<Rightarrow> string list" where
  "split_on c [] = [[]]"
| "split_on c (x # xs) = (if x = c then [] # split_on c xs else (case split_on c xs of y # ys \<Rightarrow> (x # y) # ys | [] \<Rightarrow> [[x]]))"

definition admin_extract_token :: "request \<Rightarrow> string option" where
  "admin_extract_token rq =
     (let bearer = Option.bind (rq_authorization rq) (\<lambda>v. if header_text v then strip_prefix v ''Bearer '' else None);
          tok = (case bearer of
                   Some t \<Rightarrow> Some t
                 | None \<Rightarrow> Option.bind (rq_query rq) (\<lambda>q. find_map (\<lambda>kv. strip_prefix kv ''token='') (split_on (CHR ''&'') q)))
      in case tok of Some t \<Rightarrow> if t = [] then None else Some t | None \<Rightarrow> None)"

definition check_auth :: "admin_config \<Rightarrow> request \<Rightarrow> http_response + jwt_claims" where
  "check_auth cfg rq =
     (case ac_jwt_secret cfg of
        None \<Rightarrow> Inl (rest_error 503 ''admin jwt secret not configured'')
      | Some secret \<Rightarrow>
          (case admin_extract_token rq of
             None \<Rightarrow> Inl (rest_error 401 ''missing authorization token'')
           | Some token \<Rightarrow>
               (case ac_verify cfg secret token of
                  None \<Rightarrow> Inl (rest_error 401 ''invalid token'')
                | Some claims \<Rightarrow> Inr claims)))"

definition dispatcher_may :: "request \<Rightarrow> bool" where
  "dispatcher_may rq =
     (rq_method rq = GET \<and> \<not> starts_with (rq_path rq) ''/api/admin/config'' \<and> \<not> starts_with (rq_path rq) ''/api/admin/psk'')"

text \<open>\<open>auth_middleware\<close>: the claims go to the handler as an extension of the request.\<close>

definition auth_middleware :: "admin_config \<Rightarrow> request \<Rightarrow> (jwt_claims \<Rightarrow> admin \<Rightarrow> admin \<times> http_response) \<Rightarrow> admin \<Rightarrow> admin \<times> http_response" where
  "auth_middleware cfg rq handler st =
     (case check_auth cfg rq of
        Inl r \<Rightarrow> (st, r)
      | Inr claims \<Rightarrow>
          (let role = unwrap_or (jc_role claims) [] in
           if role \<noteq> ''admin'' \<and> role \<noteq> ''dispatcher'' then (st, rest_error 401 ''admin or dispatcher role required'')
           else if role \<noteq> ''admin'' \<and> \<not> dispatcher_may rq
           then (log_admin (AuthorizationDenied ''admin_api'' (jc_sub claims)
                   (''dispatcher role is read-only'' @ '' (path='' @ rq_path rq @ '')'')) st,
                 rest_error 401 ''dispatcher role is read-only'')
           else handler claims st))"

section \<open>Saving\<close>

text \<open>The three registries with the text of a failed save.\<close>

definition devices_of :: "admin \<Rightarrow> device_registry" where
  "devices_of st = srv_devices (ad_server st)"

definition set_devices :: "device_registry \<Rightarrow> admin \<Rightarrow> admin" where
  "set_devices reg st = st\<lparr>ad_server := (ad_server st)\<lparr>srv_devices := reg\<rparr>\<rparr>"

definition set_pending :: "pending_table \<Rightarrow> admin \<Rightarrow> admin" where
  "set_pending tab st = st\<lparr>ad_server := (ad_server st)\<lparr>srv_pending_devices := tab\<rparr>\<rparr>"

definition save_devices :: "admin_config \<Rightarrow> api_fresh \<Rightarrow> admin \<Rightarrow> admin \<times> bool" where
  "save_devices cfg fr st =
     (case registry_save (ac_yaml_devices cfg) (devices_of st) (ad_files st) (ac_devices_path cfg) (ax_fault fr) of
        (files, ok) \<Rightarrow> (st\<lparr>ad_files := files\<rparr>, ok))"

definition save_accounts :: "admin_config \<Rightarrow> api_fresh \<Rightarrow> admin \<Rightarrow> admin \<times> bool" where
  "save_accounts cfg fr st =
     (case accounts_save (ac_yaml_accounts cfg) (ad_accounts st) (ad_files st) (ac_accounts_path cfg) (ax_fault fr) of
        (files, ok) \<Rightarrow> (st\<lparr>ad_files := files\<rparr>, ok))"

definition save_keys :: "admin_config \<Rightarrow> api_fresh \<Rightarrow> admin \<Rightarrow> admin \<times> bool" where
  "save_keys cfg fr st =
     (case apikeys_save (ac_yaml_keys cfg) (ad_keys st) (ad_files st) (ac_api_keys_path cfg) (ax_fault fr) of
        (files, ok) \<Rightarrow> (st\<lparr>ad_files := files\<rparr>, ok))"

definition save_error :: "string \<Rightarrow> string \<Rightarrow> string \<Rightarrow> api_fresh \<Rightarrow> http_response" where
  "save_error what kind path fr =
     rest_error 500 (what @ core_error_display (ConfigParse (kind @ '' file '' @ path @ '': write failed: '' @ ax_io_text fr)))"

section \<open>API keys and configuration push\<close>

definition list_api_keys :: "admin \<Rightarrow> admin \<times> http_response" where
  "list_api_keys st = (st, Response 200 (KeysBody (apikeys_list (ad_keys st))))"

fun api_key_error :: "api_key_reg_error \<Rightarrow> http_response" where
  "api_key_error DuplicateKey = rest_error 409 ''api key already registered''"
| "api_key_error (InvalidKey msg) = rest_error 400 msg"
| "api_key_error NoSuchKey = rest_error 500 ''api key registry internal error''"

definition register_api_key ::
  "admin_config \<Rightarrow> api_fresh \<Rightarrow> register_key_req \<Rightarrow> jwt_claims \<Rightarrow> admin \<Rightarrow> admin \<times> http_response" where
  "register_api_key cfg fr req claims st =
     (case apikeys_register (ac_crypto cfg) (ax_uuid fr) (ad_keys st) (rk_key_id req) (rk_role req) (rk_vehicles req) (rk_label req) of
        Panics \<Rightarrow> (st, NoResponse)
      | Returns (Inl e) \<Rightarrow> (st, api_key_error e)
      | Returns (Inr (reg, secret)) \<Rightarrow>
          (case save_keys cfg fr (st\<lparr>ad_keys := reg\<rparr>) of
             (st1, False) \<Rightarrow>
               (st1\<lparr>ad_keys := fst (apikeys_revoke (ad_keys st1) (rk_key_id req))\<rparr>,
                save_error ''api keys file write failed: '' ''api_keys'' (ac_api_keys_path cfg) fr)
           | (st1, True) \<Rightarrow>
               (log_admin (ApiKeyRegistered (rk_key_id req) (jc_sub claims)) st1,
                Response 201 (KeySecretBody (rk_key_id req) secret))))"

definition revoke_api_key ::
  "admin_config \<Rightarrow> api_fresh \<Rightarrow> string \<Rightarrow> jwt_claims \<Rightarrow> admin \<Rightarrow> admin \<times> http_response" where
  "revoke_api_key cfg fr key_id claims st =
     (case apikeys_revoke (ad_keys st) key_id of
        (reg, Inl e) \<Rightarrow> (st\<lparr>ad_keys := reg\<rparr>, rest_error 404 ''api key not found'')
      | (reg, Inr _) \<Rightarrow>
          (case save_keys cfg fr (st\<lparr>ad_keys := reg\<rparr>) of
             (st1, False) \<Rightarrow> (st1, save_error ''api keys file write failed: '' ''api_keys'' (ac_api_keys_path cfg) fr)
           | (st1, True) \<Rightarrow>
               (log_admin (ApiKeyRevoked key_id (jc_sub claims)) st1, Response 200 (RevokedBody key_id))))"

definition admin_push_config ::
  "string \<Rightarrow> string \<Rightarrow> u64 \<Rightarrow> jwt_claims \<Rightarrow> admin \<Rightarrow> admin \<times> http_response" where
  "admin_push_config room_id config version claims st =
     (case push_config (ad_server st) room_id config version (Some (jc_sub claims)) of
        (srv, Inr _) \<Rightarrow> (st\<lparr>ad_server := srv\<rparr>, Response 200 (PushedBody room_id version))
      | (srv, Inl e) \<Rightarrow> (st\<lparr>ad_server := srv\<rparr>, rest_error 404 e))"

section \<open>Devices\<close>

definition validate_device_id :: "string \<Rightarrow> http_response + unit" where
  "validate_device_id i =
     (if i \<noteq> [] \<and> length i \<le> 64 \<and> list_all (\<lambda>c. is_ascii_alphanumeric c \<or> c = CHR ''-'' \<or> c = CHR ''_'') i
      then Inr ()
      else Inl (rest_error 400 (''invalid device_id '' @ debug_str i @ '': want 1-64 chars of [A-Za-z0-9-_]'')))"

definition admin_list_devices :: "admin \<Rightarrow> admin \<times> http_response" where
  "admin_list_devices st =
     (let ids = sort (device_ids (devices_of st)) in (st, Response 200 (DevicesBody ids (length ids))))"

definition already_registered :: "string \<Rightarrow> http_response" where
  "already_registered i = rest_error 409 (''device '' @ i @ '' already registered'')"

fun register_error :: "string \<Rightarrow> device_reg_error \<Rightarrow> http_response" where
  "register_error i DuplicateDevice = already_registered i"
| "register_error i UnregisteredDevice = rest_error 500 ''device registry internal error''"
| "register_error i (InvalidSecret msg) = rest_error 400 msg"
| "register_error i (InvalidPublicKey msg) = rest_error 400 msg"

definition admin_register_device ::
  "admin_config \<Rightarrow> api_fresh \<Rightarrow> string \<Rightarrow> string option \<Rightarrow> jwt_claims \<Rightarrow> admin \<Rightarrow> admin \<times> http_response" where
  "admin_register_device cfg fr device_id secret claims st =
     (case validate_device_id device_id of
        Inl r \<Rightarrow> (st, r)
      | Inr _ \<Rightarrow>
          (case register_with_secret (ac_crypto cfg) (ax_uuid fr) (devices_of st) device_id secret of
             Inl e \<Rightarrow> (st, register_error device_id e)
           | Inr (reg, secret_hash, plain) \<Rightarrow>
               (case save_devices cfg fr (set_devices reg st) of
                  (st1, False) \<Rightarrow>
                    (set_devices (fst (revoke (devices_of st1) device_id)) st1,
                     save_error ''device registry write failed: '' ''devices'' (ac_devices_path cfg) fr)
                | (st1, True) \<Rightarrow>
                    (log_admin (DeviceRegistered device_id (jc_sub claims)) st1,
                     Response 201 (DeviceSecretBody device_id plain (Some secret_hash))))))"

definition not_registered :: "string \<Rightarrow> http_response" where
  "not_registered i = rest_error 404 (''device '' @ i @ '' not registered'')"

definition revoke_device ::
  "admin_config \<Rightarrow> api_fresh \<Rightarrow> string \<Rightarrow> jwt_claims \<Rightarrow> admin \<Rightarrow> admin \<times> http_response" where
  "revoke_device cfg fr device_id claims st =
     (case revoke (devices_of st) device_id of
        (reg, Inl e) \<Rightarrow> (set_devices reg st, not_registered device_id)
      | (reg, Inr _) \<Rightarrow>
          (case save_devices cfg fr (set_devices reg st) of
             (st1, False) \<Rightarrow> (st1, save_error ''device registry write failed: '' ''devices'' (ac_devices_path cfg) fr)
           | (st1, True) \<Rightarrow>
               (log_admin (DeviceRevoked device_id (jc_sub claims)) st1, Response 200 (RevokedBody device_id))))"

definition reset_device_secret ::
  "admin_config \<Rightarrow> api_fresh \<Rightarrow> string \<Rightarrow> jwt_claims \<Rightarrow> admin \<Rightarrow> admin \<times> http_response" where
  "reset_device_secret cfg fr device_id claims st =
     (case reset_secret (ac_crypto cfg) (ax_uuid fr) (devices_of st) device_id of
        Inl e \<Rightarrow> (st, not_registered device_id)
      | Inr (reg, h, secret) \<Rightarrow>
          (case save_devices cfg fr (set_devices reg st) of
             (st1, False) \<Rightarrow>
               (st1, save_error ''device registry write failed (registry may diverge): '' ''devices'' (ac_devices_path cfg) fr)
           | (st1, True) \<Rightarrow>
               (log_admin (DeviceSecretReset device_id (jc_sub claims)) st1,
                Response 201 (DeviceSecretBody device_id secret None))))"

definition list_pending_devices :: "admin \<Rightarrow> admin \<times> http_response" where
  "list_pending_devices st =
     (let pending = pending_list (srv_pending_devices (ad_server st))
      in (st, Response 200 (PendingBody pending (length pending))))"

fun debug_reg_error :: "device_reg_error \<Rightarrow> string" where
  "debug_reg_error DuplicateDevice = ''Duplicate''"
| "debug_reg_error UnregisteredDevice = ''Unknown''"
| "debug_reg_error (InvalidSecret msg) = ''InvalidSecret('' @ debug_str msg @ '')''"
| "debug_reg_error (InvalidPublicKey msg) = ''InvalidPublicKey('' @ debug_str msg @ '')''"

definition restore_pending :: "api_fresh \<Rightarrow> string \<Rightarrow> pending_entry \<Rightarrow> admin \<Rightarrow> admin" where
  "restore_pending fr device_id e st =
     set_pending (pending_insert (ax_now_ms fr) (srv_pending_devices (ad_server st)) device_id (pe_vk e) (pe_verified e)) st"

definition approve_pending_device ::
  "admin_config \<Rightarrow> api_fresh \<Rightarrow> string \<Rightarrow> string option \<Rightarrow> jwt_claims \<Rightarrow> admin \<Rightarrow> admin \<times> http_response" where
  "approve_pending_device cfg fr device_id name claims st =
     (case validate_device_id device_id of
        Inl r \<Rightarrow> (st, r)
      | Inr _ \<Rightarrow>
          (case pending_remove (srv_pending_devices (ad_server st)) device_id of
             (tab, None) \<Rightarrow>
               (set_pending tab st,
                rest_error 404 (''no pending device '' @ device_id @ '' (never reported or already handled)''))
           | (tab, Some entry) \<Rightarrow>
               (let st1 = set_pending tab st in
                case enroll_auto (ac_crypto cfg) (devices_of st1) device_id (pe_vk entry) name of
                  Inl e \<Rightarrow>
                    (restore_pending fr device_id entry st1,
                     case e of DuplicateDevice \<Rightarrow> already_registered device_id
                     | _ \<Rightarrow> rest_error 500 (''enroll failed: '' @ debug_reg_error e))
                | Inr reg \<Rightarrow>
                    (case save_devices cfg fr (set_devices reg st1) of
                       (st2, False) \<Rightarrow>
                         (restore_pending fr device_id entry (set_devices (fst (revoke (devices_of st2) device_id)) st2),
                          save_error ''device registry write failed: '' ''devices'' (ac_devices_path cfg) fr)
                     | (st2, True) \<Rightarrow>
                         (log_admin (DeviceRegistered device_id (jc_sub claims)) st2,
                          Response 201 (ApprovedBody device_id (''ed25519:'' @ pe_vk entry) name))))))"

section \<open>Accounts\<close>

definition admin_list_accounts :: "admin \<Rightarrow> admin \<times> http_response" where
  "admin_list_accounts st =
     (let accounts = list_accounts (ad_accounts st) in (st, Response 200 (AccountsBody accounts (length accounts))))"

fun map_account_reg_error :: "account_reg_error \<Rightarrow> http_response" where
  "map_account_reg_error DuplicateAccount = rest_error 409 ''account already exists''"
| "map_account_reg_error NoSuchAccount = rest_error 404 ''account not found''"
| "map_account_reg_error (InvalidRole role) =
     rest_error 400 (''invalid role '' @ debug_str role @ '': want viewer|operator|admin|dispatcher'')"
| "map_account_reg_error (InvalidVehicles msg) = rest_error 400 msg"

definition admin_create_account ::
  "admin_config \<Rightarrow> api_fresh \<Rightarrow> string \<Rightarrow> string \<Rightarrow> string \<Rightarrow> string list \<Rightarrow> jwt_claims \<Rightarrow> admin \<Rightarrow> admin \<times> http_response" where
  "admin_create_account cfg fr username password role vehicles claims st =
     (if username = [] \<or> length username > 64 then (st, rest_error 400 ''invalid username: 1-64 chars'')
      else (case create_account (ac_crypto cfg) (ad_accounts st) username password role vehicles of
        Inl e \<Rightarrow> (st, map_account_reg_error e)
      | Inr reg \<Rightarrow>
          (case save_accounts cfg fr (st\<lparr>ad_accounts := reg\<rparr>) of
             (st1, False) \<Rightarrow>
               (st1\<lparr>ad_accounts := fst (delete_account (ad_accounts st1) username)\<rparr>,
                save_error ''accounts file write failed: '' ''accounts'' (ac_accounts_path cfg) fr)
           | (st1, True) \<Rightarrow>
               (log_admin (AccountCreated username (jc_sub claims) role) st1, Response 201 (CreatedBody username)))))"

definition admin_update_account ::
  "admin_config \<Rightarrow> api_fresh \<Rightarrow> string \<Rightarrow> update_account_req \<Rightarrow> jwt_claims \<Rightarrow> admin \<Rightarrow> admin \<times> http_response" where
  "admin_update_account cfg fr username req claims st =
     (case update_account (ac_crypto cfg) (ad_accounts st) username (ua_role req) (ua_vehicles req) (ua_new_password req) of
        Inl e \<Rightarrow> (st, map_account_reg_error e)
      | Inr reg \<Rightarrow>
          (case save_accounts cfg fr (st\<lparr>ad_accounts := reg\<rparr>) of
             (st1, False) \<Rightarrow>
               (st1, save_error ''accounts file write failed (registry may diverge): '' ''accounts'' (ac_accounts_path cfg) fr)
           | (st1, True) \<Rightarrow>
               (log_admin (AccountUpdated username (jc_sub claims)) st1, Response 200 (UpdatedBody username))))"

definition admin_delete_account ::
  "admin_config \<Rightarrow> api_fresh \<Rightarrow> string \<Rightarrow> jwt_claims \<Rightarrow> admin \<Rightarrow> admin \<times> http_response" where
  "admin_delete_account cfg fr username claims st =
     (if username = jc_sub claims then (st, rest_error 400 ''cannot delete the account you are logged in as'')
      else (case delete_account (ad_accounts st) username of
        (reg, Inl e) \<Rightarrow> (st\<lparr>ad_accounts := reg\<rparr>, map_account_reg_error e)
      | (reg, Inr _) \<Rightarrow>
          (case save_accounts cfg fr (st\<lparr>ad_accounts := reg\<rparr>) of
             (st1, False) \<Rightarrow> (st1, save_error ''accounts file write failed: '' ''accounts'' (ac_accounts_path cfg) fr)
           | (st1, True) \<Rightarrow>
               (log_admin (AccountDeleted username (jc_sub claims)) st1, Response 200 (DeletedBody username)))))"

section \<open>The pre-shared key\<close>

text \<open>\<open>str::lines\<close>: every line loses its newline and a carriage return before it; a last line without newline keeps its text.\<close>

definition strip_cr :: "string \<Rightarrow> string" where
  "strip_cr l = (if l \<noteq> [] \<and> last l = CHR 13 then butlast l else l)"

definition str_lines :: "string \<Rightarrow> string list" where
  "str_lines s =
     (let ps = split_on (CHR 10) s
      in map strip_cr (butlast ps) @ (if last ps = [] then [] else [last ps]))"

definition mask_psk :: "string \<Rightarrow> string" where
  "mask_psk psk =
     (if psk = [] then []
      else if length (utf8_chars psk) \<le> 2 then psk
      else concat (take 2 (utf8_chars psk)) @ [CHR 0xC2, CHR 0xB7, CHR 0xC2, CHR 0xB7])"

text \<open>Whether trimming leaves nothing.\<close>

function all_white :: "nat list \<Rightarrow> bool" where
  "all_white [] = True"
| "all_white (x # xs) =
     (case List.find (\<lambda>w. w \<noteq> [] \<and> take (length w) (x # xs) = w) utf8_whitespace of
        None \<Rightarrow> False
      | Some w \<Rightarrow> all_white (drop (length w) (x # xs)))"
  by pat_completeness auto
termination by (relation "measure length") (auto simp: find_Some_iff)

definition psk_line_tail :: "string \<Rightarrow> string" where
  "psk_line_tail line =
     (case rsplit_once line (CHR 34) of
        None \<Rightarrow> []
      | Some (before, tail) \<Rightarrow>
          (case dropWhile (\<lambda>c. c \<noteq> CHR ''#'') tail of
             [] \<Rightarrow> []
           | h # c \<Rightarrow> if all_white (map of_char c) then [] else ''  #'' @ c))"

definition psk_line :: "string \<Rightarrow> string \<Rightarrow> string" where
  "psk_line psk line = (if starts_with line ''psk:'' then ''psk: '' @ debug_str psk @ psk_line_tail line else line)"

definition psk_text :: "string \<Rightarrow> string \<Rightarrow> string" where
  "psk_text psk t =
     (if list_ex (\<lambda>l. starts_with l ''psk:'') (str_lines t) then join_str [CHR 10] (map (psk_line psk) (str_lines t))
      else t @ [CHR 10] @ ''psk: '' @ debug_str psk @ [CHR 10])"

definition write_back_psk :: "string \<Rightarrow> string \<Rightarrow> string \<Rightarrow> fs \<Rightarrow> io_fault \<Rightarrow> fs \<times> (string + unit)" where
  "write_back_psk path psk io_text files fault =
     (case dm_get files path of
        Some t \<Rightarrow>
          if utf8_valid (bytes_of t)
          then (case atomic_save files path (psk_text psk t) fault of
                  (files', True) \<Rightarrow> (files', Inr ())
                | (files', False) \<Rightarrow> (files', Inl (''server config '' @ path @ '': write failed: '' @ io_text)))
          else (files, Inl (''server config '' @ path @ '': read failed: '' @ io_text))
      | None \<Rightarrow> (files, Inl (''server config '' @ path @ '': read failed: '' @ io_text)))"

definition validate_psk_value :: "string \<Rightarrow> bool" where
  "validate_psk_value v = (\<not> (v = [] \<or> length v < 8 \<or> length v > 128 \<or> CHR 34 \<in> set v \<or> has_whitespace v))"

definition get_psk :: "jwt_claims \<Rightarrow> admin \<Rightarrow> admin \<times> http_response" where
  "get_psk claims st =
     (case srv_psk (ad_server st) of
        None \<Rightarrow> (st, rest_error 404 ''psk not configured (no server.yaml psk / MEDIASERVO_PSK)'')
      | Some psk \<Rightarrow> (log_admin (PskViewed (jc_sub claims)) st, Response 200 (PskBody psk (mask_psk psk))))"

definition rotate_psk ::
  "admin_config \<Rightarrow> api_fresh \<Rightarrow> string option \<Rightarrow> jwt_claims \<Rightarrow> admin \<Rightarrow> admin \<times> http_response" where
  "rotate_psk cfg fr password claims st =
     (case (case password of
              Some p \<Rightarrow> if validate_psk_value p then Some p else None
            | None \<Rightarrow> Some (filter (\<lambda>c. c \<noteq> CHR ''-'') (ax_uuid fr))) of
        None \<Rightarrow> (st, rest_error 400 ''invalid psk: 8-128 chars, no whitespace'')
      | Some new_psk \<Rightarrow>
          (case write_back_psk (ac_config_path cfg) new_psk (ax_io_text fr) (ad_files st) (ax_fault fr) of
             (files, Inl e) \<Rightarrow> (st\<lparr>ad_files := files\<rparr>, rest_error 500 (''server config write failed: '' @ e))
           | (files, Inr _) \<Rightarrow>
               (log_admin (PskRotated (jc_sub claims))
                  (st\<lparr>ad_files := files, ad_server := (ad_server st)\<lparr>srv_psk := Some new_psk\<rparr>\<rparr>),
                Response 200 (PskBody new_psk (mask_psk new_psk)))))"

section \<open>Rooms, peers, status, SFU\<close>

definition admin_list_rooms :: "admin \<Rightarrow> admin \<times> http_response" where
  "admin_list_rooms st =
     (st, Response 200 (RoomsBody (list_devices (srv_rooms (ad_server st)) (srv_status (ad_server st)))
                          (list_rooms (srv_rooms (ad_server st)))))"

definition room_not_found :: "string \<Rightarrow> http_response" where
  "room_not_found i = rest_error 404 (''room '' @ i @ '' not found'')"

definition admin_get_room :: "string \<Rightarrow> admin \<Rightarrow> admin \<times> http_response" where
  "admin_get_room i st =
     (st, case get_room (srv_rooms (ad_server st)) i of Some r \<Rightarrow> Response 200 (RoomBody r) | None \<Rightarrow> room_not_found i)"

definition admin_remove_room :: "api_fresh \<Rightarrow> string \<Rightarrow> admin \<Rightarrow> admin \<times> http_response" where
  "admin_remove_room fr i st =
     (case remove_room (srv_rooms (ad_server st)) i of
        (rooms, removed) \<Rightarrow>
          (let srv = (ad_server st)\<lparr>srv_rooms := rooms\<rparr> in
           if removed then (st\<lparr>ad_server := emit_admin (AdminDeviceOffline i (ax_ts fr)) srv\<rparr>, Response 200 (RemovedBody i))
           else (st\<lparr>ad_server := srv\<rparr>, room_not_found i)))"

definition room_holds :: "string \<Rightarrow> room_snapshot \<Rightarrow> bool" where
  "room_holds peer_id r =
     (rm_host r = Some peer_id \<or> rm_remote r = Some peer_id \<or> list_ex (\<lambda>c. co_peer_id c = peer_id) (rm_consumers r))"

text \<open>\<open>leave_room\<close> logs its own audit events.\<close>

definition kick_from :: "string \<Rightarrow> string \<Rightarrow> server \<Rightarrow> server" where
  "kick_from peer_id rid srv =
     (case leave_room (srv_rooms srv) rid peer_id of
        (rooms, gone, events) \<Rightarrow> fold audit_log events (srv\<lparr>srv_rooms := rooms\<rparr>))"

definition kick_peer :: "api_fresh \<Rightarrow> string \<Rightarrow> admin \<Rightarrow> admin \<times> http_response" where
  "kick_peer fr peer_id st =
     (let room_ids = map rm_id (filter (room_holds peer_id) (list_rooms (srv_rooms (ad_server st)))) in
      if room_ids \<noteq> []
      then (st\<lparr>ad_server := emit_admin (AdminConsumerLeave peer_id [] [] (ax_ts fr)) (fold (kick_from peer_id) room_ids (ad_server st))\<rparr>,
            Response 200 (KickedBody peer_id room_ids))
      else (st, rest_error 404 (''peer '' @ peer_id @ '' not found in any room'')))"

definition admin_stats :: "admin \<Rightarrow> admin \<times> http_response" where
  "admin_stats st =
     (let srv = ad_server st
      in (st, Response 200 (StatsBody (active_rooms (srv_rooms srv)) (connected_peers (srv_rooms srv)) (srv_active_connections srv))))"

definition admin_list_status :: "admin \<Rightarrow> admin \<times> http_response" where
  "admin_list_status st = (st, Response 200 (StatusBody (status_list (srv_status (ad_server st)))))"

definition admin_sfu_rooms :: "admin \<Rightarrow> admin \<times> http_response" where
  "admin_sfu_rooms st = (st, Response 200 (SfuRoomsBody (sfu_list_rooms (srv_sfu (ad_server st)))))"

definition server_config :: "admin_config \<Rightarrow> admin \<Rightarrow> admin \<times> http_response" where
  "server_config cfg st =
     (st, Response 200 (ServerConfigBody (ac_listen_host cfg) (ac_listen_port cfg) (ac_rate_limit cfg) (ac_room_capacity cfg)
            (ac_consumer_limit cfg) (unwrap_or (map_option mask_psk (srv_psk (ad_server st))) [])))"

text \<open>
  Statistics of one stream, completed by the transport fields of its row in the listing, or the
  listing. The rows come from the SFU worker.
\<close>

definition T_FIELDS :: "string list" where
  "T_FIELDS = [''transport_id'', ''local_port'', ''remote_ip'', ''remote_port'', ''rtp_packet_loss_sent'',
     ''rtp_packet_loss_received'', ''available_outgoing_bitrate'', ''available_incoming_bitrate'']"

definition stat_object :: "string option \<Rightarrow> string option \<Rightarrow> media_kind \<times> u64 \<times> u64 \<times> u8 \<Rightarrow> (string, json) dmap" where
  "stat_object pid cid v =
     (case v of (kind, b, n, score) \<Rightarrow>
        [(''producer_id'', case pid of Some i \<Rightarrow> JStr i | None \<Rightarrow> JNull),
         (''consumer_id'', case cid of Some i \<Rightarrow> JStr i | None \<Rightarrow> JNull),
         (''kind'', JStr (case kind of Audio \<Rightarrow> ''audio'' | Video \<Rightarrow> ''video'' | Data \<Rightarrow> ''data'')),
         (''byte_count'', JNum (show_nat (unat b))), (''packet_count'', JNum (show_nat (unat n))),
         (''score'', JNum (show_nat (unat score)))])"

definition enrich_stats :: "json list \<Rightarrow> string \<Rightarrow> (string, json) dmap \<Rightarrow> (string, json) dmap" where
  "enrich_stats rows qid obj =
     (case List.find (\<lambda>row. json_get row ''id'' = Some (JStr qid)) rows of
        None \<Rightarrow> obj
      | Some row \<Rightarrow> fold (\<lambda>k o1. case json_get row k of Some v \<Rightarrow> dm_insert k v o1 | None \<Rightarrow> o1) T_FIELDS obj)"

definition admin_sfu_stats ::
  "worker \<Rightarrow> (string option \<Rightarrow> json list) \<Rightarrow> (string, string) dmap \<Rightarrow> admin \<Rightarrow> admin \<times> http_response" where
  "admin_sfu_stats w rows params st =
     (st, case (dm_get params ''producer_id'', dm_get params ''consumer_id'') of
        (Some p, Some c) \<Rightarrow> rest_error 400 ''producer_id and consumer_id are mutually exclusive''
      | (Some p, None) \<Rightarrow>
          (case producer_stats (srv_sfu (ad_server st)) p (w_producer_stats w) of
             Inl e \<Rightarrow> rest_error 404 e
           | Inr v \<Rightarrow> Response 200 (SfuStatsBody (JObj (enrich_stats (rows None) p (stat_object (Some p) None v)))))
      | (None, Some c) \<Rightarrow>
          (case consumer_stats (srv_sfu (ad_server st)) c (w_consumer_stats w) of
             Inl e \<Rightarrow> rest_error 404 e
           | Inr v \<Rightarrow> Response 200 (SfuStatsBody (JObj (enrich_stats (rows None) c (stat_object None (Some c) v)))))
      | (None, None) \<Rightarrow> Response 200 (SfuStatsBody (JObj [(''streams'', JArr (rows (dm_get params ''room'')))])))"

section \<open>The event socket\<close>

text \<open>SFU messages of an administrator's socket go straight to the SFU. Other messages are ignored.\<close>

definition handle_admin_sfu :: "worker \<Rightarrow> signaling_message \<Rightarrow> sfu \<Rightarrow> sfu \<times> signaling_message list" where
  "handle_admin_sfu w msg s =
     (case msg of
        CreateWebRtcTransport room_id peer_id direction \<Rightarrow>
          (case create_webrtc_transport s room_id peer_id (case direction of Send \<Rightarrow> ''send'' | Recv \<Rightarrow> ''recv'') (w_router w) (w_transport w) of
             (s', Inr created) \<Rightarrow>
               (s', [WebRtcTransportCreated
                  \<lparr>tc_room_id = room_id, tc_peer_id = peer_id, tc_transport_id = tr_transport_id created,
                   tc_ice_parameters = tr_ice_parameters created, tc_dtls_parameters = tr_dtls_parameters created,
                   tc_ice_candidates = Some (tr_ice_candidates created), tc_sctp_parameters = tr_sctp_parameters created\<rparr>])
           | (s', Inl e) \<Rightarrow> (s', [Error 5000 (''Transport creation failed: '' @ e)]))
      | ConnectWebRtcTransport room_id peer_id transport_id dtls \<Rightarrow>
          (s, [case connect_transport s room_id peer_id transport_id (w_dtls_error w) (w_connect_error w) of
                 Inr _ \<Rightarrow> Error 0 ''transport_connected''
               | Inl e \<Rightarrow> Error 5000 (''Connect failed: '' @ e)])
      | Consume room_id peer_id producer_id caps transport_id \<Rightarrow>
          (case create_consumer s room_id peer_id producer_id transport_id (w_caps_error w) (w_consumed w) of
             (s', Inr c) \<Rightarrow>
               (s', [Consumed room_id (cr_consumer_id c) (cr_producer_id c) (cr_kind c) (cr_rtp_parameters c)])
           | (s', Inl e) \<Rightarrow> (s', [Error 5000 (''Consumer creation failed: '' @ e)]))
      | _ \<Rightarrow> (s, []))"

definition setup_claims :: "u64 \<Rightarrow> jwt_claims" where
  "setup_claims now =
     \<lparr>jc_sub = ''admin'', jc_iat = now, jc_exp = now + 365 * 86400, jc_role = Some ''admin'', jc_vehicles = None\<rparr>"

section \<open>Routes\<close>

datatype endpoint =
    EpListRooms | EpGetRoom | EpRemoveRoom | EpKickPeer | EpStats | EpStatus | EpConfig | EpPushConfig
  | EpListDevices | EpRegisterDevice | EpRevokeDevice | EpResetSecret | EpPending | EpApprove
  | EpListAccounts | EpCreateAccount | EpUpdateAccount | EpDeleteAccount
  | EpListKeys | EpRegisterKey | EpRevokeKey | EpGetPsk | EpRotatePsk | EpEvents | EpSfuRooms | EpSfuStats

definition route_table :: "(string \<times> (http_method \<times> endpoint) list) list" where
  "route_table =
     [(''/api/admin/rooms'', [(GET, EpListRooms)]),
      (''/api/admin/rooms/{id}'', [(GET, EpGetRoom), (DELETE, EpRemoveRoom)]),
      (''/api/admin/peers/{id}'', [(DELETE, EpKickPeer)]),
      (''/api/admin/stats'', [(GET, EpStats)]),
      (''/api/admin/status'', [(GET, EpStatus)]),
      (''/api/admin/config'', [(GET, EpConfig)]),
      (''/api/admin/config/push'', [(POST, EpPushConfig)]),
      (''/api/admin/devices'', [(GET, EpListDevices), (POST, EpRegisterDevice)]),
      (''/api/admin/devices/:device_id'', [(DELETE, EpRevokeDevice)]),
      (''/api/admin/devices/:device_id/reset-secret'', [(POST, EpResetSecret)]),
      (''/api/admin/devices/pending'', [(GET, EpPending)]),
      (''/api/admin/devices/approve'', [(POST, EpApprove)]),
      (''/api/admin/accounts'', [(GET, EpListAccounts), (POST, EpCreateAccount)]),
      (''/api/admin/accounts/:username'', [(PUT, EpUpdateAccount), (DELETE, EpDeleteAccount)]),
      (''/api/admin/apikeys'', [(GET, EpListKeys), (POST, EpRegisterKey)]),
      (''/api/admin/apikeys/:key_id'', [(DELETE, EpRevokeKey)]),
      (''/api/admin/psk'', [(GET, EpGetPsk), (POST, EpRotatePsk)]),
      (''/api/admin/events'', [(GET, EpEvents)]),
      (''/api/admin/sfu/rooms'', [(GET, EpSfuRooms)]),
      (''/api/admin/sfu/stats'', [(GET, EpSfuStats)])]"

text \<open>
  How axum 0.7 matches: a segment that starts with a colon takes any segment that is not empty,
  every other segment only itself; a route without parameters is preferred. A \<open>GET\<close> route serves
  \<open>HEAD\<close> too.
\<close>

definition is_param :: "string \<Rightarrow> bool" where
  "is_param seg = starts_with seg '':''"

fun match_segments :: "string list \<Rightarrow> string list \<Rightarrow> string list option" where
  "match_segments [] [] = Some []"
| "match_segments (p # ps) (s # ss) =
     (if is_param p then (if s = [] then None else map_option (Cons s) (match_segments ps ss))
      else if p = s then match_segments ps ss else None)"
| "match_segments ps ss = None"

definition match_route :: "string \<Rightarrow> string \<Rightarrow> string list option" where
  "match_route pattern path = match_segments (split_on (CHR ''/'') pattern) (split_on (CHR ''/'') path)"

definition find_route :: "string \<Rightarrow> (string list \<times> (http_method \<times> endpoint) list) option" where
  "find_route path =
     (case find_map (\<lambda>(pat, ms). if match_route pat path = Some [] then Some ([], ms) else None) route_table of
        Some r \<Rightarrow> Some r
      | None \<Rightarrow> find_map (\<lambda>(pat, ms). map_option (\<lambda>ps. (ps, ms)) (match_route pat path)) route_table)"

definition find_endpoint :: "http_method \<Rightarrow> (http_method \<times> endpoint) list \<Rightarrow> endpoint option" where
  "find_endpoint m ms =
     (case map_of ms m of Some e \<Rightarrow> Some e | None \<Rightarrow> if m = HEAD then map_of ms GET else None)"

text \<open>axum's extractors: the status of a rejection, or what the handler gets.\<close>

record extractors =
  ex_path :: "string \<Rightarrow> nat + string"
  ex_query :: "string option \<Rightarrow> nat + (string, string) dmap"
  ex_push :: "string \<Rightarrow> nat + string \<times> string \<times> u64"
  ex_device :: "string \<Rightarrow> nat + string \<times> string option"
  ex_approve :: "string \<Rightarrow> nat + string \<times> string option"
  ex_account :: "string \<Rightarrow> nat + string \<times> string \<times> string \<times> string list"
  ex_update :: "string \<Rightarrow> nat + update_account_req"
  ex_key :: "string \<Rightarrow> nat + register_key_req"
  ex_psk :: "string \<Rightarrow> nat + string option"

definition extracted :: "nat + 'a \<Rightarrow> ('a \<Rightarrow> admin \<Rightarrow> admin \<times> http_response) \<Rightarrow> admin \<Rightarrow> admin \<times> http_response" where
  "extracted x handler st = (case x of Inl code \<Rightarrow> (st, Response code EmptyBody) | Inr v \<Rightarrow> handler v st)"

definition path_arg :: "extractors \<Rightarrow> string list \<Rightarrow> (string \<Rightarrow> admin \<Rightarrow> admin \<times> http_response) \<Rightarrow> admin \<Rightarrow> admin \<times> http_response" where
  "path_arg ex ps handler = (case ps of [p] \<Rightarrow> extracted (ex_path ex p) handler | _ \<Rightarrow> (\<lambda>st. (st, Response 500 EmptyBody)))"

fun call_endpoint ::
  "admin_config \<Rightarrow> extractors \<Rightarrow> worker \<Rightarrow> (string option \<Rightarrow> json list) \<Rightarrow> api_fresh \<Rightarrow> request \<Rightarrow> string list \<Rightarrow> jwt_claims \<Rightarrow>
     endpoint \<Rightarrow> admin \<Rightarrow> admin \<times> http_response" where
  "call_endpoint cfg ex w rows fr rq ps claims EpListRooms = admin_list_rooms"
| "call_endpoint cfg ex w rows fr rq ps claims EpGetRoom = path_arg ex ps admin_get_room"
| "call_endpoint cfg ex w rows fr rq ps claims EpRemoveRoom = path_arg ex ps (admin_remove_room fr)"
| "call_endpoint cfg ex w rows fr rq ps claims EpKickPeer = path_arg ex ps (kick_peer fr)"
| "call_endpoint cfg ex w rows fr rq ps claims EpStats = admin_stats"
| "call_endpoint cfg ex w rows fr rq ps claims EpStatus = admin_list_status"
| "call_endpoint cfg ex w rows fr rq ps claims EpConfig = server_config cfg"
| "call_endpoint cfg ex w rows fr rq ps claims EpPushConfig =
     extracted (ex_push ex (rq_body rq)) (\<lambda>(room, config, version). admin_push_config room config version claims)"
| "call_endpoint cfg ex w rows fr rq ps claims EpListDevices = admin_list_devices"
| "call_endpoint cfg ex w rows fr rq ps claims EpRegisterDevice =
     extracted (ex_device ex (rq_body rq)) (\<lambda>(i, secret). admin_register_device cfg fr i secret claims)"
| "call_endpoint cfg ex w rows fr rq ps claims EpRevokeDevice = path_arg ex ps (\<lambda>i. revoke_device cfg fr i claims)"
| "call_endpoint cfg ex w rows fr rq ps claims EpResetSecret = path_arg ex ps (\<lambda>i. reset_device_secret cfg fr i claims)"
| "call_endpoint cfg ex w rows fr rq ps claims EpPending = list_pending_devices"
| "call_endpoint cfg ex w rows fr rq ps claims EpApprove =
     extracted (ex_approve ex (rq_body rq)) (\<lambda>(i, name). approve_pending_device cfg fr i name claims)"
| "call_endpoint cfg ex w rows fr rq ps claims EpListAccounts = admin_list_accounts"
| "call_endpoint cfg ex w rows fr rq ps claims EpCreateAccount =
     extracted (ex_account ex (rq_body rq)) (\<lambda>(u, p, r, vs). admin_create_account cfg fr u p r vs claims)"
| "call_endpoint cfg ex w rows fr rq ps claims EpUpdateAccount =
     path_arg ex ps (\<lambda>u. extracted (ex_update ex (rq_body rq)) (\<lambda>req. admin_update_account cfg fr u req claims))"
| "call_endpoint cfg ex w rows fr rq ps claims EpDeleteAccount = path_arg ex ps (\<lambda>u. admin_delete_account cfg fr u claims)"
| "call_endpoint cfg ex w rows fr rq ps claims EpListKeys = list_api_keys"
| "call_endpoint cfg ex w rows fr rq ps claims EpRegisterKey =
     extracted (ex_key ex (rq_body rq)) (\<lambda>req. register_api_key cfg fr req claims)"
| "call_endpoint cfg ex w rows fr rq ps claims EpRevokeKey = path_arg ex ps (\<lambda>i. revoke_api_key cfg fr i claims)"
| "call_endpoint cfg ex w rows fr rq ps claims EpGetPsk = get_psk claims"
| "call_endpoint cfg ex w rows fr rq ps claims EpRotatePsk =
     extracted (ex_psk ex (rq_body rq)) (\<lambda>p. rotate_psk cfg fr p claims)"
| "call_endpoint cfg ex w rows fr rq ps claims EpEvents =
     (\<lambda>st. (st, case rq_no_upgrade rq of None \<Rightarrow> Response 101 EventsBody | Some code \<Rightarrow> Response code EmptyBody))"
| "call_endpoint cfg ex w rows fr rq ps claims EpSfuRooms = admin_sfu_rooms"
| "call_endpoint cfg ex w rows fr rq ps claims EpSfuStats =
     extracted (ex_query ex (rq_query rq)) (admin_sfu_stats w rows)"

definition admin_api ::
  "admin_config \<Rightarrow> extractors \<Rightarrow> worker \<Rightarrow> (string option \<Rightarrow> json list) \<Rightarrow> api_fresh \<Rightarrow> request \<Rightarrow> admin \<Rightarrow> admin \<times> http_response" where
  "admin_api cfg ex w rows fr rq =
     auth_middleware cfg rq (\<lambda>claims st.
       case find_route (rq_path rq) of
         None \<Rightarrow> (st, Response 404 EmptyBody)
       | Some (ps, ms) \<Rightarrow>
           (case find_endpoint (rq_method rq) ms of
              None \<Rightarrow> (st, Response 405 EmptyBody)
            | Some e \<Rightarrow> call_endpoint cfg ex w rows fr rq ps claims e st))"

section \<open>Routing\<close>

lemma split_on_not_Nil [simp]: "split_on c s \<noteq> []"
  by (cases s) (auto split: list.split)

lemma split_on_Cons_other: "x \<noteq> c \<Longrightarrow> split_on c (x # xs) = (x # hd (split_on c xs)) # tl (split_on c xs)"
  by (simp split: list.split)

lemma join_split [simp]: "join_str [c] (split_on c s) = s"
proof (induction s)
  case (Cons x s)
  obtain y ys where ys: "split_on c s = y # ys" by (cases "split_on c s") auto
  then show ?case using Cons by (auto simp: join_str_def)
qed (simp add: join_str_def)

lemma split_on_inj: "split_on c s = split_on c t \<Longrightarrow> s = t"
  by (metis join_split)

lemma match_segments_static:
  "match_segments ps ss = Some qs \<Longrightarrow> list_all (\<lambda>p. \<not> is_param p) ps \<Longrightarrow> ss = ps \<and> qs = []"
  by (induction ps ss arbitrary: qs rule: match_segments.induct) (auto split: if_splits)

lemma match_route_static:
  assumes "match_route pat path = Some qs" and "list_all (\<lambda>p. \<not> is_param p) (split_on (CHR ''/'') pat)"
  shows "path = pat \<and> qs = []"
  using match_segments_static [OF assms(1) [unfolded match_route_def] assms(2)] by (auto dest: split_on_inj)

lemma find_route_Some:
  "find_route path = Some (ps, ms) \<Longrightarrow> \<exists>pat. (pat, ms) \<in> set route_table \<and> match_route pat path = Some ps"
  by (fastforce simp: find_route_def split: option.splits if_splits dest!: find_map_Some)

text \<open>Which patterns have no parameter. The rooms and peers routes are written in the syntax of a later axum.\<close>

lemma find_endpoint_mem: "find_endpoint m ms = Some e \<Longrightarrow> \<exists>m'. (m', e) \<in> set ms \<and> (m' = m \<or> m = HEAD)"
  by (auto simp: find_endpoint_def split: option.splits if_splits dest: map_of_SomeD)

lemma route_table_static:
  "list_all (\<lambda>(pat, ms). list_all (\<lambda>(m, e). e \<in> set [EpGetRoom, EpRemoveRoom, EpKickPeer, EpConfig, EpGetPsk] \<longrightarrow>
     list_all (\<lambda>p. \<not> is_param p) (split_on (CHR ''/'') pat) \<and> (e = EpConfig \<longrightarrow> pat = ''/api/admin/config'')
     \<and> (e = EpGetPsk \<longrightarrow> pat = ''/api/admin/psk'')) ms) route_table"
  by code_simp

lemma route_table_get:
  "list_all (\<lambda>(pat, ms). list_all (\<lambda>(m, e). m = GET \<longrightarrow> e \<in> set [EpListRooms, EpGetRoom, EpStats, EpStatus, EpConfig,
     EpListDevices, EpPending, EpListAccounts, EpListKeys, EpGetPsk, EpEvents, EpSfuRooms, EpSfuStats]) ms) route_table"
  by code_simp

lemma static_routes:
  assumes "(pat, ms) \<in> set route_table" and "find_endpoint m ms = Some e"
    and "e \<in> {EpGetRoom, EpRemoveRoom, EpKickPeer, EpConfig, EpGetPsk}"
  shows "list_all (\<lambda>p. \<not> is_param p) (split_on (CHR ''/'') pat) \<and>
    (e = EpConfig \<longrightarrow> pat = ''/api/admin/config'') \<and> (e = EpGetPsk \<longrightarrow> pat = ''/api/admin/psk'')"
proof -
  obtain m' where "(m', e) \<in> set ms" using find_endpoint_mem [OF assms(2)] by blast
  with route_table_static assms(1,3) show ?thesis by (fastforce simp: list_all_iff)
qed

lemma get_endpoints:
  assumes "(pat, ms) \<in> set route_table" and "find_endpoint GET ms = Some e"
  shows "e \<in> {EpListRooms, EpGetRoom, EpStats, EpStatus, EpConfig, EpListDevices, EpPending, EpListAccounts, EpListKeys,
    EpGetPsk, EpEvents, EpSfuRooms, EpSfuStats}"
proof -
  have "(GET, e) \<in> set ms" using find_endpoint_mem [OF assms(2)] by auto
  with route_table_get assms(1) show ?thesis by (fastforce simp: list_all_iff)
qed

section \<open>Who may do what\<close>

text \<open>The endpoints that only read.\<close>

definition reads_only :: "endpoint \<Rightarrow> bool" where
  "reads_only e =
     (e \<in> {EpListRooms, EpGetRoom, EpStats, EpStatus, EpListDevices, EpPending, EpListAccounts, EpListKeys, EpEvents,
           EpSfuRooms, EpSfuStats})"

lemma extracted_fst: "(\<And>v. fst (h v st) = st) \<Longrightarrow> fst (extracted x h st) = st"
  by (simp add: extracted_def split: sum.split)

lemma path_arg_fst: "(\<And>v. fst (h v st) = st) \<Longrightarrow> fst (path_arg ex ps h st) = st"
  by (auto simp: path_arg_def extracted_fst split: list.split)

lemma read_unchanged: "reads_only e \<Longrightarrow> fst (call_endpoint cfg ex w rows fr rq ps claims e st) = st"
  by (cases e) (simp_all add: reads_only_def admin_list_rooms_def admin_get_room_def path_arg_fst admin_stats_def admin_list_status_def
      admin_list_devices_def list_pending_devices_def admin_list_accounts_def list_api_keys_def admin_sfu_rooms_def Let_def
      extracted_fst admin_sfu_stats_def)

definition discloses :: "http_response \<Rightarrow> bool" where
  "discloses r =
     (case r of
        Response code (PskBody p h) \<Rightarrow> True
      | Response code (ServerConfigBody a b c d e f) \<Rightarrow> True
      | Response code (KeySecretBody i s) \<Rightarrow> True
      | Response code (DeviceSecretBody i s h) \<Rightarrow> True
      | _ \<Rightarrow> False)"

lemma rest_error_not_disclose [simp]: "\<not> discloses (rest_error code msg)"
  by (simp add: discloses_def rest_error_def)

lemma extracted_snd: "(\<And>v. P (snd (h v st))) \<Longrightarrow> (\<And>code. P (Response code EmptyBody)) \<Longrightarrow> P (snd (extracted x h st))"
  by (simp add: extracted_def split: sum.split)

lemma path_arg_snd:
  "(\<And>v. P (snd (h v st))) \<Longrightarrow> (\<And>code. P (Response code EmptyBody)) \<Longrightarrow> P (snd (path_arg ex ps h st))"
  by (auto simp: path_arg_def extracted_snd split: list.split)

lemma empty_not_disclose [simp]: "\<not> discloses (Response code EmptyBody)"
  by (simp add: discloses_def)

lemma get_room_not_disclose: "\<not> discloses (snd (admin_get_room i st))"
  by (simp add: admin_get_room_def room_not_found_def discloses_def rest_error_def split: option.split)

lemma sfu_stats_not_disclose: "\<not> discloses (snd (admin_sfu_stats w rows params st))"
  by (simp add: admin_sfu_stats_def discloses_def rest_error_def split: option.split sum.split)

lemma read_not_disclose: "reads_only e \<Longrightarrow> \<not> discloses (snd (call_endpoint cfg ex w rows fr rq ps claims e st))"
proof (cases e)
  case EpGetRoom
  then show ?thesis by (simp add: path_arg_snd [where P = "\<lambda>r. \<not> discloses r"] get_room_not_disclose)
next
  case EpSfuStats
  then show ?thesis by (simp add: extracted_snd [where P = "\<lambda>r. \<not> discloses r"] sfu_stats_not_disclose)
qed (simp_all add: reads_only_def discloses_def admin_list_rooms_def admin_stats_def admin_list_status_def
      admin_list_devices_def list_pending_devices_def admin_list_accounts_def list_api_keys_def admin_sfu_rooms_def Let_def
      split: option.split)

lemma dispatcher_endpoint:
  assumes "dispatcher_may rq" and "find_route (rq_path rq) = Some (ps, ms)" and "find_endpoint (rq_method rq) ms = Some e"
  shows "reads_only e"
proof -
  obtain pat where pat: "(pat, ms) \<in> set route_table" "match_route pat (rq_path rq) = Some ps"
    using find_route_Some [OF assms(2)] by blast
  have get: "find_endpoint GET ms = Some e" using assms(1,3) by (simp add: dispatcher_may_def)
  have "e \<noteq> EpConfig \<and> e \<noteq> EpGetPsk"
  proof (rule ccontr)
    assume "\<not> ?thesis"
    then have e: "e = EpConfig \<or> e = EpGetPsk" by blast
    with static_routes [OF pat(1) get] have "list_all (\<lambda>p. \<not> is_param p) (split_on (CHR ''/'') pat)"
      and "pat = ''/api/admin/config'' \<or> pat = ''/api/admin/psk''" by auto
    with match_route_static [OF pat(2)] have "rq_path rq = ''/api/admin/config'' \<or> rq_path rq = ''/api/admin/psk''" by simp
    with assms(1) show False by (auto simp: dispatcher_may_def starts_with_def)
  qed
  with get_endpoints [OF pat(1) get] show ?thesis by (auto simp: reads_only_def)
qed


section \<open>Changes of the registries\<close>

lemma atomic_save_path:
  "dm_get (fst (atomic_save files path yaml fault)) path = (if snd (atomic_save files path yaml fault) then Some yaml else dm_get files path)"
  "snd (atomic_save files path yaml fault) \<longleftrightarrow> fault = NoFault"
  using with_extension_neq [of "''yaml.tmp''" path] by (cases fault; auto simp: atomic_save_def Let_def)+

lemma save_devices_outcome:
  assumes "save_devices cfg fr st = (st1, ok)"
  shows "st1 = st\<lparr>ad_files := ad_files st1\<rparr>" "ok \<longleftrightarrow> ax_fault fr = NoFault"
    "dm_get (ad_files st1) (ac_devices_path cfg) =
       (if ok then Some (to_yaml (ac_yaml_devices cfg) (devices_of st)) else dm_get (ad_files st) (ac_devices_path cfg))"
  using assms atomic_save_path [of "ad_files st" "ac_devices_path cfg" "to_yaml (ac_yaml_devices cfg) (devices_of st)" "ax_fault fr"]
  by (auto simp: save_devices_def registry_save_def split: prod.splits)

lemma save_accounts_outcome:
  assumes "save_accounts cfg fr st = (st1, ok)"
  shows "st1 = st\<lparr>ad_files := ad_files st1\<rparr>" "ok \<longleftrightarrow> ax_fault fr = NoFault"
    "dm_get (ad_files st1) (ac_accounts_path cfg) =
       (if ok then Some (accounts_to_yaml (ac_yaml_accounts cfg) (ad_accounts st)) else dm_get (ad_files st) (ac_accounts_path cfg))"
  using assms atomic_save_path [of "ad_files st" "ac_accounts_path cfg" "accounts_to_yaml (ac_yaml_accounts cfg) (ad_accounts st)" "ax_fault fr"]
  by (auto simp: save_accounts_def accounts_save_def split: prod.splits)

lemma save_keys_outcome:
  assumes "save_keys cfg fr st = (st1, ok)"
  shows "st1 = st\<lparr>ad_files := ad_files st1\<rparr>" "ok \<longleftrightarrow> ax_fault fr = NoFault"
    "dm_get (ad_files st1) (ac_api_keys_path cfg) =
       (if ok then Some (apikeys_to_yaml (ac_yaml_keys cfg) (ad_keys st)) else dm_get (ad_files st) (ac_api_keys_path cfg))"
  using assms atomic_save_path [of "ad_files st" "ac_api_keys_path cfg" "apikeys_to_yaml (ac_yaml_keys cfg) (ad_keys st)" "ax_fault fr"]
  by (auto simp: save_keys_def apikeys_save_def split: prod.splits)

text \<open>What an endpoint changes: its registry, the file of it, and whether a failed save is taken back.\<close>

fun registry_path :: "admin_config \<Rightarrow> endpoint \<Rightarrow> string" where
  "registry_path cfg e =
     (if e \<in> {EpCreateAccount, EpUpdateAccount, EpDeleteAccount} then ac_accounts_path cfg
      else if e \<in> {EpRegisterKey, EpRevokeKey} then ac_api_keys_path cfg else ac_devices_path cfg)"

fun registry_text :: "admin_config \<Rightarrow> admin \<Rightarrow> endpoint \<Rightarrow> string" where
  "registry_text cfg st e =
     (if e \<in> {EpCreateAccount, EpUpdateAccount, EpDeleteAccount} then accounts_to_yaml (ac_yaml_accounts cfg) (ad_accounts st)
      else if e \<in> {EpRegisterKey, EpRevokeKey} then apikeys_to_yaml (ac_yaml_keys cfg) (ad_keys st)
      else to_yaml (ac_yaml_devices cfg) (devices_of st))"

definition creates :: "endpoint \<Rightarrow> bool" where
  "creates e = (e \<in> {EpRegisterDevice, EpApprove, EpCreateAccount, EpRegisterKey})"

definition alters :: "endpoint \<Rightarrow> bool" where
  "alters e = (e \<in> {EpRevokeDevice, EpResetSecret, EpUpdateAccount, EpDeleteAccount, EpRevokeKey})"

definition same_registries :: "admin \<Rightarrow> admin \<Rightarrow> bool" where
  "same_registries st st' =
     (dm_get (dr_devices (devices_of st')) = dm_get (dr_devices (devices_of st)) \<and> dm_get (ad_accounts st') = dm_get (ad_accounts st)
      \<and> dm_get (kr_keys (ad_keys st')) = dm_get (kr_keys (ad_keys st)))"

fun event_actor :: "audit_event \<Rightarrow> string option" where
  "event_actor (DeviceRegistered d a) = Some a"
| "event_actor (DeviceRevoked d a) = Some a"
| "event_actor (DeviceSecretReset d a) = Some a"
| "event_actor (ApiKeyRegistered k a) = Some a"
| "event_actor (ApiKeyRevoked k a) = Some a"
| "event_actor (AccountCreated u a r) = Some a"
| "event_actor (AccountUpdated u a) = Some a"
| "event_actor (AccountDeleted u a) = Some a"
| "event_actor e = None"

fun refused :: "http_response \<Rightarrow> bool" where
  "refused (Response code (ErrorBody msg)) = True"
| "refused (Response code EmptyBody) = True"
| "refused (Response code b) = False"
| "refused NoResponse = True"

lemma refused_error [simp]: "refused (rest_error code msg)"
  by (simp add: rest_error_def)

text \<open>A change went through, or left registries and file alone, or (for a change that is not taken back) left the file alone.\<close>

definition change_done :: "admin_config \<Rightarrow> jwt_claims \<Rightarrow> endpoint \<Rightarrow> admin \<Rightarrow> admin \<times> http_response \<Rightarrow> bool" where
  "change_done cfg claims e st x =
     (case x of (st', r) \<Rightarrow> \<not> refused r \<and> dm_get (ad_files st') (registry_path cfg e) = Some (registry_text cfg st' e)
        \<and> (\<exists>ev. srv_audit (ad_server st') = log_event (srv_audit (ad_server st)) ev \<and> event_actor ev = Some (jc_sub claims)))"

definition change_refused :: "admin_config \<Rightarrow> api_fresh \<Rightarrow> endpoint \<Rightarrow> admin \<Rightarrow> admin \<times> http_response \<Rightarrow> bool" where
  "change_refused cfg fr e st x =
     (case x of (st', r) \<Rightarrow> refused r \<and> dm_get (ad_files st') (registry_path cfg e) = dm_get (ad_files st) (registry_path cfg e)
        \<and> srv_audit (ad_server st') = srv_audit (ad_server st)
        \<and> (same_registries st st' \<or> (alters e \<and> ax_fault fr \<noteq> NoFault \<and> (\<exists>msg. r = rest_error 500 msg))))"

lemma refused_unchanged: "refused r \<Longrightarrow> change_refused cfg fr e st (st, r)"
  by (simp add: change_refused_def same_registries_def)

lemmas change_defs = change_done_def change_refused_def same_registries_def devices_of_def set_devices_def set_pending_def
  log_admin_def audit_log_def alters_def save_error_def restore_pending_def

lemma device_errors_refused [simp]:
  "refused (already_registered i)" "refused (not_registered i)" "validate_device_id i = Inl r \<Longrightarrow> refused r"
  by (auto simp: already_registered_def not_registered_def validate_device_id_def split: if_splits)

lemma register_error_refused [simp]: "refused (register_error i err)"
  by (cases err) simp_all

lemma key_error_refused [simp]: "refused (api_key_error ke)"
  by (cases ke) simp_all

lemma account_error_refused [simp]: "refused (map_account_reg_error ae)"
  by (cases ae) simp_all

lemma remove_inserted: "dm_get m k = None \<Longrightarrow> dm_get (dm_remove k (dm_insert k v m)) = dm_get m"
  by (rule ext) simp

lemma remove_missing: "dm_get m k = None \<Longrightarrow> dm_get (dm_remove k m) = dm_get m"
  by (rule ext) simp

text \<open>The common end of the handlers: save, then log the change or undo it.\<close>

definition saves :: "admin_config \<Rightarrow> api_fresh \<Rightarrow> endpoint \<Rightarrow> admin \<Rightarrow> admin \<times> bool \<Rightarrow> bool" where
  "saves cfg fr e s0 x =
     (case x of (s1, ok) \<Rightarrow> s1 = s0\<lparr>ad_files := ad_files s1\<rparr> \<and> (ok \<longleftrightarrow> ax_fault fr = NoFault)
        \<and> dm_get (ad_files s1) (registry_path cfg e) =
            (if ok then Some (registry_text cfg s0 e) else dm_get (ad_files s0) (registry_path cfg e)))"

lemma saves_devices:
  "e \<in> {EpRegisterDevice, EpRevokeDevice, EpResetSecret, EpApprove} \<Longrightarrow> saves cfg fr e s0 (save_devices cfg fr s0)"
  using save_devices_outcome [of cfg fr s0 "fst (save_devices cfg fr s0)" "snd (save_devices cfg fr s0)"]
  by (auto simp: saves_def split: prod.split)

lemma saves_accounts:
  "e \<in> {EpCreateAccount, EpUpdateAccount, EpDeleteAccount} \<Longrightarrow> saves cfg fr e s0 (save_accounts cfg fr s0)"
  using save_accounts_outcome [of cfg fr s0 "fst (save_accounts cfg fr s0)" "snd (save_accounts cfg fr s0)"]
  by (auto simp: saves_def split: prod.split)

lemma saves_keys: "e \<in> {EpRegisterKey, EpRevokeKey} \<Longrightarrow> saves cfg fr e s0 (save_keys cfg fr s0)"
  using save_keys_outcome [of cfg fr s0 "fst (save_keys cfg fr s0)" "snd (save_keys cfg fr s0)"]
  by (auto simp: saves_def split: prod.split)

lemma save_or_undo:
  assumes sv: "saves cfg fr e s0 x" and s0: "ad_files s0 = ad_files st" "srv_audit (ad_server s0) = srv_audit (ad_server st)"
    and ok: "event_actor ev = Some (jc_sub claims)" "\<not> refused resp"
    and undo: "\<And>files. ad_files (undo (s0\<lparr>ad_files := files\<rparr>)) = files"
      "\<And>files. srv_audit (ad_server (undo (s0\<lparr>ad_files := files\<rparr>))) = srv_audit (ad_server st)"
      "\<And>files. same_registries st (undo (s0\<lparr>ad_files := files\<rparr>)) \<or> alters e"
  shows "change_done cfg claims e st (case x of (s1, False) \<Rightarrow> (undo s1, save_error what kind path fr) | (s1, True) \<Rightarrow> (log_admin ev s1, resp))
    \<or> change_refused cfg fr e st (case x of (s1, False) \<Rightarrow> (undo s1, save_error what kind path fr) | (s1, True) \<Rightarrow> (log_admin ev s1, resp))"
proof -
  obtain s1 b where x: "x = (s1, b)" by force
  then have s1: "s1 = s0\<lparr>ad_files := ad_files s1\<rparr>" and b: "b \<longleftrightarrow> ax_fault fr = NoFault"
    and disk: "dm_get (ad_files s1) (registry_path cfg e) = (if b then Some (registry_text cfg s0 e) else dm_get (ad_files s0) (registry_path cfg e))"
    using sv by (simp_all add: saves_def)
  show ?thesis
  proof (cases b)
    case True
    have "registry_text cfg (log_admin ev s1) e = registry_text cfg s0 e"
      by (subst s1) (simp add: log_admin_def audit_log_def devices_of_def)
    moreover have "srv_audit (ad_server s1) = srv_audit (ad_server st)" by (subst s1) (simp add: s0)
    ultimately have "change_done cfg claims e st (log_admin ev s1, resp)"
      using True disk ok by (auto simp: change_done_def log_admin_def audit_log_def)
    with True x show ?thesis by simp
  next
    case False
    have "change_refused cfg fr e st (undo s1, save_error what kind path fr)"
      using False b disk undo(1) [of "ad_files s1"] undo(2) [of "ad_files s1"] undo(3) [of "ad_files s1"] s1 [symmetric] s0
      by (auto simp: change_refused_def save_error_def)
    with False x show ?thesis by simp
  qed
qed

lemma register_device_change:
  "change_done cfg claims EpRegisterDevice st (admin_register_device cfg fr i secret claims st)
   \<or> change_refused cfg fr EpRegisterDevice st (admin_register_device cfg fr i secret claims st)"
proof (cases "validate_device_id i")
  case (Inl r)
  then show ?thesis by (simp add: admin_register_device_def refused_unchanged)
next
  case valid: (Inr u)
  show ?thesis
  proof (cases "register_with_secret (ac_crypto cfg) (ax_uuid fr) (devices_of st) i secret")
    case (Inl e)
    with valid show ?thesis by (simp add: admin_register_device_def refused_unchanged)
  next
    case (Inr x)
    obtain reg h plain where x: "x = (reg, h, plain)" by (cases x) auto
    obtain v where v: "dr_devices reg = dm_insert i v (dr_devices (devices_of st))" "dm_get (dr_devices (devices_of st)) i = None"
      using Inr x by (auto simp: register_with_secret_def dm_contains_def Let_def split: if_splits)
    have eq: "admin_register_device cfg fr i secret claims st =
        (case save_devices cfg fr (set_devices reg st) of
           (st1, False) \<Rightarrow> (set_devices (fst (revoke (devices_of st1) i)) st1,
             save_error ''device registry write failed: '' ''devices'' (ac_devices_path cfg) fr)
         | (st1, True) \<Rightarrow> (log_admin (DeviceRegistered i (jc_sub claims)) st1, Response 201 (DeviceSecretBody i plain (Some h))))"
      using valid Inr x by (simp add: admin_register_device_def)
    show ?thesis unfolding eq
      by (rule save_or_undo [where undo = "\<lambda>s. set_devices (fst (revoke (devices_of s) i)) s", OF saves_devices])
        (use v in \<open>simp_all add: change_defs revoke_def remove_inserted\<close>)
  qed
qed

lemma approve_change:
  "change_done cfg claims EpApprove st (approve_pending_device cfg fr i name claims st)
   \<or> change_refused cfg fr EpApprove st (approve_pending_device cfg fr i name claims st)"
proof (cases "validate_device_id i")
  case (Inl r)
  then show ?thesis by (simp add: approve_pending_device_def refused_unchanged)
next
  case valid: (Inr u)
  show ?thesis
  proof (cases "dm_get (srv_pending_devices (ad_server st)) i")
    case None
    with valid show ?thesis
      by (auto simp: approve_pending_device_def pending_remove_def change_defs)
  next
    case pend: (Some entry)
    let ?s = "set_pending (dm_remove i (srv_pending_devices (ad_server st))) st"
    show ?thesis
    proof (cases "enroll_auto (ac_crypto cfg) (devices_of ?s) i (pe_vk entry) name")
      case (Inl e)
      with valid pend show ?thesis
        by (cases e) (auto simp: approve_pending_device_def pending_remove_def change_defs)
    next
      case (Inr reg)
      obtain v where v: "dr_devices reg = dm_insert i v (dr_devices (devices_of st))" "dm_get (dr_devices (devices_of st)) i = None"
        using Inr by (auto simp: enroll_auto_def dm_contains_def devices_of_def set_pending_def split: if_splits sum.splits)
      have eq: "approve_pending_device cfg fr i name claims st =
          (case save_devices cfg fr (set_devices reg ?s) of
             (st1, False) \<Rightarrow> (restore_pending fr i entry (set_devices (fst (revoke (devices_of st1) i)) st1),
               save_error ''device registry write failed: '' ''devices'' (ac_devices_path cfg) fr)
           | (st1, True) \<Rightarrow> (log_admin (DeviceRegistered i (jc_sub claims)) st1,
               Response 201 (ApprovedBody i (''ed25519:'' @ pe_vk entry) name)))"
        using valid pend Inr by (simp add: approve_pending_device_def pending_remove_def split: prod.split bool.split)
      show ?thesis unfolding eq
        by (rule save_or_undo [where undo = "\<lambda>s. restore_pending fr i entry (set_devices (fst (revoke (devices_of s) i)) s)",
              OF saves_devices])
          (use v in \<open>simp_all add: change_defs revoke_def remove_inserted\<close>)
    qed
  qed
qed

lemma revoke_device_change:
  "change_done cfg claims EpRevokeDevice st (revoke_device cfg fr i claims st)
   \<or> change_refused cfg fr EpRevokeDevice st (revoke_device cfg fr i claims st)"
proof (cases "dm_contains (dr_devices (devices_of st)) i")
  case False
  then show ?thesis by (auto simp: revoke_device_def revoke_def change_defs not_registered_def dm_contains_def remove_missing)
next
  case True
  have eq: "revoke_device cfg fr i claims st =
      (case save_devices cfg fr (set_devices (fst (revoke (devices_of st) i)) st) of
         (st1, False) \<Rightarrow> (id st1, save_error ''device registry write failed: '' ''devices'' (ac_devices_path cfg) fr)
       | (st1, True) \<Rightarrow> (log_admin (DeviceRevoked i (jc_sub claims)) st1, Response 200 (RevokedBody i)))"
    using True by (simp add: revoke_device_def revoke_def split: prod.split bool.split)
  show ?thesis unfolding eq
    by (rule save_or_undo [where undo = id, OF saves_devices]) (simp_all add: change_defs)
qed

lemma reset_secret_change:
  "change_done cfg claims EpResetSecret st (reset_device_secret cfg fr i claims st)
   \<or> change_refused cfg fr EpResetSecret st (reset_device_secret cfg fr i claims st)"
proof (cases "reset_secret (ac_crypto cfg) (ax_uuid fr) (devices_of st) i")
  case (Inl e)
  then show ?thesis by (simp add: reset_device_secret_def refused_unchanged)
next
  case (Inr x)
  obtain reg h secret where x: "x = (reg, h, secret)" by (cases x) auto
  have eq: "reset_device_secret cfg fr i claims st =
      (case save_devices cfg fr (set_devices reg st) of
         (st1, False) \<Rightarrow> (id st1, save_error ''device registry write failed (registry may diverge): '' ''devices'' (ac_devices_path cfg) fr)
       | (st1, True) \<Rightarrow> (log_admin (DeviceSecretReset i (jc_sub claims)) st1, Response 201 (DeviceSecretBody i secret None)))"
    using Inr x by (simp add: reset_device_secret_def split: prod.split bool.split)
  show ?thesis unfolding eq
    by (rule save_or_undo [where undo = id, OF saves_devices]) (simp_all add: change_defs)
qed

lemma create_account_change:
  "change_done cfg claims EpCreateAccount st (admin_create_account cfg fr u pw role vs claims st)
   \<or> change_refused cfg fr EpCreateAccount st (admin_create_account cfg fr u pw role vs claims st)"
proof (cases "(u = [] \<or> length u > 64) \<or> (\<exists>e. create_account (ac_crypto cfg) (ad_accounts st) u pw role vs = Inl e)")
  case True
  then show ?thesis by (auto simp: admin_create_account_def refused_unchanged)
next
  case False
  then obtain reg where reg: "create_account (ac_crypto cfg) (ad_accounts st) u pw role vs = Inr reg"
    by (cases "create_account (ac_crypto cfg) (ad_accounts st) u pw role vs") auto
  then obtain v where v: "reg = dm_insert u v (ad_accounts st)" "dm_get (ad_accounts st) u = None"
    by (auto simp: create_account_def dm_contains_def Let_def split: option.splits sum.splits if_splits)
  have eq: "admin_create_account cfg fr u pw role vs claims st =
      (case save_accounts cfg fr (st\<lparr>ad_accounts := reg\<rparr>) of
         (st1, False) \<Rightarrow> (st1\<lparr>ad_accounts := fst (delete_account (ad_accounts st1) u)\<rparr>,
           save_error ''accounts file write failed: '' ''accounts'' (ac_accounts_path cfg) fr)
       | (st1, True) \<Rightarrow> (log_admin (AccountCreated u (jc_sub claims) role) st1, Response 201 (CreatedBody u)))"
    using False reg by (auto simp: admin_create_account_def)
  show ?thesis unfolding eq
    by (rule save_or_undo [where undo = "\<lambda>s. s\<lparr>ad_accounts := fst (delete_account (ad_accounts s) u)\<rparr>", OF saves_accounts])
      (use v in \<open>simp_all add: change_defs delete_account_def remove_inserted\<close>)
qed

lemma update_account_change:
  "change_done cfg claims EpUpdateAccount st (admin_update_account cfg fr u req claims st)
   \<or> change_refused cfg fr EpUpdateAccount st (admin_update_account cfg fr u req claims st)"
proof (cases "update_account (ac_crypto cfg) (ad_accounts st) u (ua_role req) (ua_vehicles req) (ua_new_password req)")
  case (Inl e)
  then show ?thesis by (simp add: admin_update_account_def refused_unchanged)
next
  case (Inr reg)
  have eq: "admin_update_account cfg fr u req claims st =
      (case save_accounts cfg fr (st\<lparr>ad_accounts := reg\<rparr>) of
         (st1, False) \<Rightarrow> (id st1, save_error ''accounts file write failed (registry may diverge): '' ''accounts'' (ac_accounts_path cfg) fr)
       | (st1, True) \<Rightarrow> (log_admin (AccountUpdated u (jc_sub claims)) st1, Response 200 (UpdatedBody u)))"
    using Inr by (simp add: admin_update_account_def split: prod.split bool.split)
  show ?thesis unfolding eq
    by (rule save_or_undo [where undo = id, OF saves_accounts]) (simp_all add: change_defs)
qed

lemma delete_account_change:
  "change_done cfg claims EpDeleteAccount st (admin_delete_account cfg fr u claims st)
   \<or> change_refused cfg fr EpDeleteAccount st (admin_delete_account cfg fr u claims st)"
proof (cases "u = jc_sub claims \<or> \<not> dm_contains (ad_accounts st) u")
  case True
  then show ?thesis
    by (cases "u = jc_sub claims")
      (auto simp: admin_delete_account_def refused_unchanged delete_account_def change_defs dm_contains_def remove_missing)
next
  case False
  have eq: "admin_delete_account cfg fr u claims st =
      (case save_accounts cfg fr (st\<lparr>ad_accounts := dm_remove u (ad_accounts st)\<rparr>) of
         (st1, False) \<Rightarrow> (id st1, save_error ''accounts file write failed: '' ''accounts'' (ac_accounts_path cfg) fr)
       | (st1, True) \<Rightarrow> (log_admin (AccountDeleted u (jc_sub claims)) st1, Response 200 (DeletedBody u)))"
    using False by (simp add: admin_delete_account_def delete_account_def split: prod.split bool.split)
  show ?thesis unfolding eq
    by (rule save_or_undo [where undo = id, OF saves_accounts]) (simp_all add: change_defs)
qed

lemma register_key_change:
  "change_done cfg claims EpRegisterKey st (register_api_key cfg fr req claims st)
   \<or> change_refused cfg fr EpRegisterKey st (register_api_key cfg fr req claims st)"
proof (cases "apikeys_register (ac_crypto cfg) (ax_uuid fr) (ad_keys st) (rk_key_id req) (rk_role req) (rk_vehicles req) (rk_label req)")
  case Panics
  then show ?thesis by (simp add: register_api_key_def refused_unchanged)
next
  case (Returns x)
  show ?thesis
  proof (cases x)
    case (Inl e)
    with Returns show ?thesis by (simp add: register_api_key_def refused_unchanged)
  next
    case (Inr y)
    obtain reg secret where y: "y = (reg, secret)" by force
    obtain v where v: "kr_keys reg = dm_insert (rk_key_id req) v (kr_keys (ad_keys st))" "dm_get (kr_keys (ad_keys st)) (rk_key_id req) = None"
      using Returns Inr y by (auto simp: apikeys_register_def dm_contains_def split: option.splits if_splits)
    have eq: "register_api_key cfg fr req claims st =
        (case save_keys cfg fr (st\<lparr>ad_keys := reg\<rparr>) of
           (st1, False) \<Rightarrow> (st1\<lparr>ad_keys := fst (apikeys_revoke (ad_keys st1) (rk_key_id req))\<rparr>,
             save_error ''api keys file write failed: '' ''api_keys'' (ac_api_keys_path cfg) fr)
         | (st1, True) \<Rightarrow> (log_admin (ApiKeyRegistered (rk_key_id req) (jc_sub claims)) st1, Response 201 (KeySecretBody (rk_key_id req) secret)))"
      using Returns Inr y by (simp add: register_api_key_def)
    show ?thesis unfolding eq
      by (rule save_or_undo [where undo = "\<lambda>s. s\<lparr>ad_keys := fst (apikeys_revoke (ad_keys s) (rk_key_id req))\<rparr>", OF saves_keys])
        (use v in \<open>simp_all add: change_defs apikeys_revoke_def remove_inserted\<close>)
  qed
qed

lemma revoke_key_change:
  "change_done cfg claims EpRevokeKey st (revoke_api_key cfg fr i claims st)
   \<or> change_refused cfg fr EpRevokeKey st (revoke_api_key cfg fr i claims st)"
proof (cases "dm_contains (kr_keys (ad_keys st)) i")
  case False
  then show ?thesis by (auto simp: revoke_api_key_def apikeys_revoke_def change_defs dm_contains_def remove_missing)
next
  case True
  have eq: "revoke_api_key cfg fr i claims st =
      (case save_keys cfg fr (st\<lparr>ad_keys := fst (apikeys_revoke (ad_keys st) i)\<rparr>) of
         (st1, False) \<Rightarrow> (id st1, save_error ''api keys file write failed: '' ''api_keys'' (ac_api_keys_path cfg) fr)
       | (st1, True) \<Rightarrow> (log_admin (ApiKeyRevoked i (jc_sub claims)) st1, Response 200 (RevokedBody i)))"
    using True by (simp add: revoke_api_key_def apikeys_revoke_def split: prod.split bool.split)
  show ?thesis unfolding eq
    by (rule save_or_undo [where undo = id, OF saves_keys]) (simp_all add: change_defs)
qed

lemma extracted_change:
  assumes "\<And>v. change_done cfg claims e st (h v st) \<or> change_refused cfg fr e st (h v st)"
  shows "change_done cfg claims e st (extracted x h st) \<or> change_refused cfg fr e st (extracted x h st)"
  using assms by (auto simp: extracted_def refused_unchanged split: sum.split)

lemma path_arg_change:
  assumes "\<And>v. change_done cfg claims e st (h v st) \<or> change_refused cfg fr e st (h v st)"
  shows "change_done cfg claims e st (path_arg ex ps h st) \<or> change_refused cfg fr e st (path_arg ex ps h st)"
  using assms by (auto simp: path_arg_def refused_unchanged extracted_change split: list.split)

lemma endpoint_change:
  assumes "creates e \<or> alters e"
  shows "change_done cfg claims e st (call_endpoint cfg ex w rows fr rq ps claims e st)
    \<or> change_refused cfg fr e st (call_endpoint cfg ex w rows fr rq ps claims e st)"
  using assms
  by (cases e)
    (auto simp: creates_def alters_def simp del: registry_path.simps registry_text.simps
      intro!: extracted_change path_arg_change register_device_change approve_change revoke_device_change reset_secret_change
        create_account_change update_account_change delete_account_change register_key_change revoke_key_change)

text \<open>
  C27. Every change of a registry by an administrator is durable and recorded, or did not happen.
  If an endpoint that registers, approves, revokes, resets, creates, updates or deletes answers
  with anything but an error, the registry's file holds exactly the text of the registry as it now
  is in memory, and one audit event was added that names the administrator. If it answers with an
  error, whichever file-system call failed, the file is what it was and no event is recorded; every
  registry is what it was too, except that a revocation, reset, update or deletion whose save
  failed, reported as error 500, stays in memory. A registration or approval never does.
\<close>

theorem admin_change_durable:
  assumes "call_endpoint cfg ex w rows fr rq ps claims e st = (st', r)" and "creates e \<or> alters e"
  shows "(if refused r
     then dm_get (ad_files st') (registry_path cfg e) = dm_get (ad_files st) (registry_path cfg e)
       \<and> srv_audit (ad_server st') = srv_audit (ad_server st)
       \<and> (same_registries st st' \<or> (alters e \<and> ax_fault fr \<noteq> NoFault \<and> (\<exists>msg. r = rest_error 500 msg)))
     else dm_get (ad_files st') (registry_path cfg e) = Some (registry_text cfg st' e)
       \<and> (\<exists>ev. srv_audit (ad_server st') = log_event (srv_audit (ad_server st)) ev \<and> event_actor ev = Some (jc_sub claims)))"
  using endpoint_change [OF assms(2), of cfg claims st ex w rows fr rq ps] assms(1)
  by (auto simp: change_done_def change_refused_def simp del: registry_path.simps registry_text.simps)

lemma bearer_extracted:
  "header_text t \<Longrightarrow> t \<noteq> [] \<Longrightarrow> rq_authorization rq = Some (''Bearer '' @ t) \<Longrightarrow> admin_extract_token rq = Some t"
  by (simp add: admin_extract_token_def header_text_def strip_prefix_def starts_with_def)

definition demo_admin_claims :: jwt_claims where
  "demo_admin_claims = \<lparr>jc_sub = ''root'', jc_iat = 0, jc_exp = 43200, jc_role = Some ''admin'', jc_vehicles = Some []\<rparr>"

definition demo_admin_config :: admin_config where
  "demo_admin_config = \<lparr>ac_jwt_secret = Some ''k'', ac_listen_host = ''h'', ac_listen_port = 1, ac_rate_limit = 1, ac_room_capacity = 1,
     ac_consumer_limit = 1, ac_devices_path = ''d.yaml'', ac_accounts_path = ''a.yaml'', ac_api_keys_path = ''k.yaml'',
     ac_config_path = ''s.yaml'', ac_api_token_ttl = 60, ac_crypto = login_crypto,
     ac_verify = (\<lambda>s t. if t = ''adm'' then Some demo_admin_claims
        else if t = ''dis'' then Some (demo_admin_claims\<lparr>jc_role := Some ''dispatcher''\<rparr>) else None),
     ac_encode = (\<lambda>s c. if c = demo_admin_claims then Some ''adm'' else None),
     ac_yaml_devices = (\<lambda>m. ''yaml:'' @ concat (map fst m)), ac_yaml_accounts = (\<lambda>m. []), ac_yaml_keys = (\<lambda>m. [])\<rparr>"

definition demo_admin :: admin where
  "demo_admin = \<lparr>ad_server = server_new (registry_empty demo_crypto ''u''),
     ad_accounts = [(''root'', \<lparr>ae_password_hash = hash_password login_crypto ''root'' ''pw'', ae_role = Admin, ae_vehicles = []\<rparr>)],
     ad_keys = apikeys_empty [], ad_files = [(''d.yaml'', ''old''), (''s.yaml'', ''a: 1'' @ [CHR 10] @ ''psk: x'')]\<rparr>"

definition demo_api_fresh :: "io_fault \<Rightarrow> api_fresh" where
  "demo_api_fresh fault = \<lparr>ax_uuid = ''u-1'', ax_now = Some 0, ax_now_ms = 0, ax_ts = [], ax_fault = fault, ax_io_text = ''disk''\<rparr>"

definition demo_extractors :: extractors where
  "demo_extractors = \<lparr>ex_path = Inr, ex_query = (\<lambda>q. Inr []), ex_push = (\<lambda>b. Inl 422), ex_device = (\<lambda>b. Inr (b, None)),
     ex_approve = (\<lambda>b. Inl 422), ex_account = (\<lambda>b. Inl 422), ex_update = (\<lambda>b. Inl 422), ex_key = (\<lambda>b. Inl 422), ex_psk = (\<lambda>b. Inr None)\<rparr>"

definition demo_request :: "http_method \<Rightarrow> string \<Rightarrow> string \<Rightarrow> string \<Rightarrow> request" where
  "demo_request m path tok b = \<lparr>rq_method = m, rq_path = path, rq_query = None, rq_authorization = Some (''Bearer '' @ tok), rq_body = b,
     rq_no_upgrade = None\<rparr>"


definition demo_registered :: "admin \<times> http_response" where
  "demo_registered = call_endpoint demo_admin_config demo_extractors demo_worker (\<lambda>r. []) (demo_api_fresh NoFault)
     (demo_request POST ''/api/admin/devices'' ''adm'' ''bus'') [] demo_admin_claims EpRegisterDevice demo_admin"

lemmas demo_defs = demo_registered_def demo_admin_config_def demo_extractors_def demo_api_fresh_def demo_request_def demo_admin_claims_def
  demo_admin_def extracted_def admin_register_device_def validate_device_id_def is_ascii_alphanumeric_def devices_of_def set_devices_def
  server_new_def registry_empty_def registry_new_def register_with_secret_def dm_contains_def Let_def save_devices_def registry_save_def
  atomic_save_def log_admin_def audit_log_def to_yaml_def

lemma demo_registered_ok: "\<not> refused (snd demo_registered)"
  by (simp add: demo_defs)

lemma demo_registered_text: "registry_text demo_admin_config (fst demo_registered) EpRegisterDevice = ''yaml:bus''"
  by (simp add: demo_defs)

lemma demo_registered_path: "registry_path demo_admin_config EpRegisterDevice = ''d.yaml''" "creates EpRegisterDevice"
  by (simp_all add: demo_admin_config_def creates_def)

theorem admin_change_durable_witness: "dm_get (ad_files (fst demo_registered)) ''d.yaml'' = Some ''yaml:bus''"
proof -
  note facts = demo_registered_ok demo_registered_text demo_registered_path
  have x: "call_endpoint demo_admin_config demo_extractors demo_worker (\<lambda>r. []) (demo_api_fresh NoFault)
     (demo_request POST ''/api/admin/devices'' ''adm'' ''bus'') [] demo_admin_claims EpRegisterDevice demo_admin =
     (fst demo_registered, snd demo_registered)" unfolding demo_registered_def by (rule prod.collapse [symmetric])
  from admin_change_durable [OF x disjI1 [OF facts(4)]]
  have "dm_get (ad_files (fst demo_registered)) (registry_path demo_admin_config EpRegisterDevice) =
      Some (registry_text demo_admin_config (fst demo_registered) EpRegisterDevice)"
    unfolding if_not_P [OF facts(1)] by (rule conjunct1)
  then show ?thesis unfolding facts(2,3) .
qed

section \<open>Tokens\<close>

text \<open>What a JWT library promises: a token is header text, and verifies under its secret with the claims it was made of.\<close>

definition jwt_sound :: "admin_config \<Rightarrow> bool" where
  "jwt_sound cfg = (\<forall>secret claims token. ac_encode cfg secret claims = Some token \<longrightarrow>
     token \<noteq> [] \<and> header_text token \<and> ac_verify cfg secret token = Some claims)"

lemma demo_jwt_sound: "jwt_sound demo_admin_config"
  by (auto simp: jwt_sound_def demo_admin_config_def header_text_def split: if_splits)

lemma account_names: "accounts_authenticate C reg u p = Returns (Inr i) \<Longrightarrow> ai_username i = u"
  by (auto simp: accounts_authenticate_def accounts_verify_def Let_def split: if_splits option.splits)

text \<open>
  A login answers with a token exactly if a signing secret and accounts are configured, name
  and password authenticate and the token can be signed; it never changes anything but the audit
  log, which gets one event. A request that carries the token is authorized with exactly the
  account's name, role and vehicles: an administrator's token opens every endpoint, a dispatcher's
  the reading ones, every other is turned away by the role check.
\<close>

lemma login_issues:
  assumes "login cfg fr u p st = (st', r)"
  shows "(\<exists>token name role. r = Response 200 (LoginBody token name role LOGIN_TTL)) \<longleftrightarrow>
      (\<exists>secret i token. ac_jwt_secret cfg = Some secret \<and> ad_accounts st \<noteq> []
        \<and> accounts_authenticate (ac_crypto cfg) (ad_accounts st) u p = Returns (Inr i)
        \<and> issue_account_token cfg secret (ax_now fr) i LOGIN_TTL = Some token)"
    and "st' = st \<or> (\<exists>ev. st' = log_admin ev st \<and> ev \<in> {AuthSuccess u None, AuthFailure u ''account login failed''})"
  using assms by (auto simp: login_def bad_login_def rest_error_def account_names split: option.splits if_splits outcome.splits sum.splits)

lemma login_token:
  assumes jwt: "jwt_sound cfg" and "login cfg fr u p st = (st', Response 200 (LoginBody token name role LOGIN_TTL))"
    and rq: "rq_authorization rq = Some (''Bearer '' @ token)"
  shows "\<exists>i now. accounts_authenticate (ac_crypto cfg) (ad_accounts st) u p = Returns (Inr i) \<and> name = u
    \<and> role = role_as_str (ai_role i) \<and> check_auth cfg rq = Inr (account_claims i now LOGIN_TTL)"
proof -
  obtain secret i now where i: "ac_jwt_secret cfg = Some secret" "accounts_authenticate (ac_crypto cfg) (ad_accounts st) u p = Returns (Inr i)"
      "ac_encode cfg secret (account_claims i now LOGIN_TTL) = Some token" "name = ai_username i" "role = role_as_str (ai_role i)"
    using assms(2) by (auto simp: login_def bad_login_def rest_error_def issue_account_token_def bind_eq_Some_conv
        split: option.splits if_splits outcome.splits sum.splits)
  then have "token \<noteq> [] \<and> header_text token \<and> ac_verify cfg secret token = Some (account_claims i now LOGIN_TTL)"
    using jwt by (simp add: jwt_sound_def)
  then show ?thesis using i bearer_extracted [OF _ _ rq] by (auto simp: check_auth_def account_names)
qed

text \<open>
  A login answers with a token exactly if a signing secret and accounts are configured, name
  and password authenticate and the token can be signed; it never changes anything but the audit
  log, which gets at most one event. A request that carries the token is then authorized with
  exactly the account's name, role and vehicles, provided the JWT library verifies what it signed.
\<close>

theorem login_token_authorizes:
  assumes "jwt_sound cfg" and "login cfg fr u p st = (st', r)"
  shows "((\<exists>token name role. r = Response 200 (LoginBody token name role LOGIN_TTL)) \<longleftrightarrow>
      (\<exists>secret i token. ac_jwt_secret cfg = Some secret \<and> ad_accounts st \<noteq> []
        \<and> accounts_authenticate (ac_crypto cfg) (ad_accounts st) u p = Returns (Inr i)
        \<and> issue_account_token cfg secret (ax_now fr) i LOGIN_TTL = Some token))
    \<and> (st' = st \<or> (\<exists>ev. st' = log_admin ev st \<and> ev \<in> {AuthSuccess u None, AuthFailure u ''account login failed''}))
    \<and> (\<forall>token name role rq. r = Response 200 (LoginBody token name role LOGIN_TTL) \<longrightarrow>
        rq_authorization rq = Some (''Bearer '' @ token) \<longrightarrow>
        (\<exists>i now. accounts_authenticate (ac_crypto cfg) (ad_accounts st) u p = Returns (Inr i) \<and> name = u
          \<and> role = role_as_str (ai_role i) \<and> check_auth cfg rq = Inr (account_claims i now LOGIN_TTL)))"
  using login_issues [OF assms(2)] login_token [OF assms(1)] assms(2) by blast

theorem login_token_authorizes_witness:
  "check_auth demo_admin_config (demo_request GET ''/api/admin/stats'' ''adm'' []) =
     Inr (account_claims \<lparr>ai_username = ''root'', ai_role = Admin, ai_vehicles = []\<rparr> 0 LOGIN_TTL)"
proof -
  define x where "x = login demo_admin_config (demo_api_fresh NoFault) ''root'' ''pw'' demo_admin"
  have a: "accounts_authenticate (ac_crypto demo_admin_config) (ad_accounts demo_admin) ''root'' ''pw'' =
      Returns (Inr \<lparr>ai_username = ''root'', ai_role = Admin, ai_vehicles = []\<rparr>)"
    by (simp add: accounts_authenticate_def accounts_verify_def demo_admin_config_def demo_admin_def crypto_okD [OF login_crypto_ok(1)])
  have r: "snd x = Response 200 (LoginBody ''adm'' ''root'' ''admin'' LOGIN_TTL)"
    using a by (simp add: x_def login_def issue_account_token_def demo_admin_config_def demo_api_fresh_def account_claims_def
        demo_admin_claims_def LOGIN_TTL_def demo_admin_def)
  have l: "login demo_admin_config (demo_api_fresh NoFault) ''root'' ''pw'' demo_admin = (fst x, snd x)" by (simp add: x_def)
  have q: "rq_authorization (demo_request GET ''/api/admin/stats'' ''adm'' []) = Some (''Bearer '' @ ''adm'')" by (simp add: demo_request_def)
  from login_token_authorizes [OF demo_jwt_sound l] r q a
  obtain now where c: "check_auth demo_admin_config (demo_request GET ''/api/admin/stats'' ''adm'' []) =
      Inr (account_claims \<lparr>ai_username = ''root'', ai_role = Admin, ai_vehicles = []\<rparr> now LOGIN_TTL)" by auto
  have "check_auth demo_admin_config (demo_request GET ''/api/admin/stats'' ''adm'' []) = Inr demo_admin_claims"
    by (simp add: check_auth_def admin_extract_token_def strip_prefix_def starts_with_def header_text_def demo_request_def demo_admin_config_def)
  with c have "now = 0" by (simp add: account_claims_def demo_admin_claims_def)
  with c show ?thesis by simp
qed

section \<open>Rotating the pre-shared key\<close>

lemma hex_digit_code: "n < 16 \<Longrightarrow> (48 :: nat) \<le> of_char (hex_digit n)"
  by (auto simp: hex_digit_def of_char_of)

lemma debug_char_no_newline: "CHR 10 \<notin> set (debug_char c)"
proof
  assume a: "CHR 10 \<in> set (debug_char c)"
  define n where "n = (of_char c :: nat)"
  have n: "n < 256" "c = char_of n" using nat_of_char_less_256 [of c] by (simp_all add: n_def)
  have ten: "of_char (CHR 10) = (10 :: nat)" by simp
  have h: "CHR 10 \<noteq> hex_digit k" if "k < 16" for k using hex_digit_code [OF that] ten by force
  have b: "CHR 10 \<noteq> char_of (92 :: nat)" by (simp add: char_of_def)
  have "n div 16 < 16" "n mod 16 < 16" using n by auto
  then show False using a h [of n] h [of "n div 16"] h [of "n mod 16"] b ten unfolding debug_char_def n_def [symmetric] Let_def
    by (auto split: if_splits simp: n_def)
qed

lemma split_on_no_sep: "c \<notin> set x \<Longrightarrow> split_on c (x @ c # s) = x # split_on c s" "c \<notin> set x \<Longrightarrow> split_on c x = [x]"
  by (induction x) auto

lemma split_join: "xs \<noteq> [] \<Longrightarrow> \<forall>x\<in>set xs. c \<notin> set x \<Longrightarrow> split_on c (join_str [c] xs) = xs"
proof (induction xs)
  case (Cons x xs)
  then show ?case by (cases xs) (auto simp: join_str_def split_on_no_sep)
qed simp

lemma split_on_pieces: "p \<in> set (split_on c s) \<Longrightarrow> c \<notin> set p"
proof (induction s arbitrary: p)
  case (Cons x s)
  obtain y ys where ys: "split_on c s = y # ys" by (cases "split_on c s") auto
  show ?case using Cons.prems Cons.IH [of y] Cons.IH [of p] by (auto simp: ys split: if_splits)
qed simp

lemma str_lines_no_newline: "l \<in> set (str_lines t) \<Longrightarrow> CHR 10 \<notin> set l"
proof -
  have b: "set (strip_cr x) \<subseteq> set x" for x by (auto simp: strip_cr_def dest: in_set_butlastD)
  assume "l \<in> set (str_lines t)"
  then show ?thesis using split_on_pieces [of _ "CHR 10" t] b
    by (auto simp: str_lines_def Let_def split: if_splits dest!: in_set_butlastD)
qed

lemma psk_tail_no_newline: "CHR 10 \<notin> set l \<Longrightarrow> CHR 10 \<notin> set (psk_line_tail l)"
proof -
  assume l: "CHR 10 \<notin> set l"
  have "CHR 10 \<notin> set c" if "Some (b, u) = rsplit_once l (CHR 34)" "h # c = dropWhile (\<lambda>c. c \<noteq> CHR ''#'') u" for b u h c
    using l rsplit_once_Some [OF that(1) [symmetric]] set_dropWhileD [of "CHR 10" "\<lambda>c. c \<noteq> CHR ''#''" u] that(2) [symmetric] by auto
  then show ?thesis by (auto simp: psk_line_tail_def split: option.splits list.splits)
qed

lemma psk_line_no_newline: "CHR 10 \<notin> set l \<Longrightarrow> CHR 10 \<notin> set (psk_line psk l)"
proof -
  have "CHR 10 \<noteq> char_of (34 :: nat)" by (simp add: char_of_def)
  then show "CHR 10 \<notin> set l \<Longrightarrow> ?thesis"
    by (auto simp: psk_line_def debug_str_def debug_char_no_newline psk_tail_no_newline)
qed

lemma psk_text_lines:
  assumes "list_ex (\<lambda>l. starts_with l ''psk:'') (str_lines t)"
  shows "split_on (CHR 10) (psk_text psk t) = map (psk_line psk) (str_lines t)"
  unfolding psk_text_def using assms
  by (simp add: psk_line_no_newline str_lines_no_newline, subst split_join) (auto simp: psk_line_no_newline str_lines_no_newline)

text \<open>
  Rotating the pre-shared key writes the file first and switches the key in memory only if
  that succeeded. On success the key in force, the key answered and the key in the file are the
  same, it is the one requested (which then has 8 to 128 bytes, no white space and no quote) or a
  generated one, every line of the configuration that does not set the key is kept in its place,
  every line that does carries the new key, and the rotation is audited. On failure the answer is
  an error, and the key in force, the file and the audit log are what they were.
\<close>

theorem rotate_psk_disk_first:
  assumes "rotate_psk cfg fr password claims st = (st', r)"
  shows "if refused r then st' = st\<lparr>ad_files := ad_files st'\<rparr> \<and> dm_get (ad_files st') (ac_config_path cfg) = dm_get (ad_files st) (ac_config_path cfg)
    else \<exists>psk t. r = Response 200 (PskBody psk (mask_psk psk)) \<and> srv_psk (ad_server st') = Some psk
      \<and> (case password of Some p \<Rightarrow> psk = p \<and> validate_psk_value p | None \<Rightarrow> psk = filter (\<lambda>c. c \<noteq> CHR ''-'') (ax_uuid fr))
      \<and> srv_audit (ad_server st') = log_event (srv_audit (ad_server st)) (PskRotated (jc_sub claims))
      \<and> ad_accounts st' = ad_accounts st \<and> ad_keys st' = ad_keys st
      \<and> dm_get (ad_files st) (ac_config_path cfg) = Some t \<and> dm_get (ad_files st') (ac_config_path cfg) = Some (psk_text psk t)
      \<and> (if list_ex (\<lambda>l. starts_with l ''psk:'') (str_lines t)
         then split_on (CHR 10) (psk_text psk t) =
           map (\<lambda>l. if starts_with l ''psk:'' then ''psk: '' @ debug_str psk @ psk_line_tail l else l) (str_lines t)
         else psk_text psk t = t @ [CHR 10] @ ''psk: '' @ debug_str psk @ [CHR 10])"
proof -
  define choice where "choice = (case password of Some p \<Rightarrow> if validate_psk_value p then Some p else None
            | None \<Rightarrow> Some (filter (\<lambda>c. c \<noteq> CHR ''-'') (ax_uuid fr)))"
  show ?thesis
  proof (cases choice)
    case None
    then show ?thesis using assms by (auto simp: rotate_psk_def choice_def)
  next
    case (Some psk)
    obtain files w where w: "write_back_psk (ac_config_path cfg) psk (ax_io_text fr) (ad_files st) (ax_fault fr) = (files, w)" by force
    have r: "(st', r) = (case w of Inl e \<Rightarrow> (st\<lparr>ad_files := files\<rparr>, rest_error 500 (''server config write failed: '' @ e))
        | Inr u \<Rightarrow> (log_admin (PskRotated (jc_sub claims)) (st\<lparr>ad_files := files, ad_server := (ad_server st)\<lparr>srv_psk := Some psk\<rparr>\<rparr>),
            Response 200 (PskBody psk (mask_psk psk))))"
      using assms Some w by (simp add: rotate_psk_def choice_def split: sum.splits)
    have lines: "psk_line psk = (\<lambda>l. if starts_with l ''psk:'' then ''psk: '' @ debug_str psk @ psk_line_tail l else l)"
      by (rule ext) (simp add: psk_line_def)
    show ?thesis
    proof (cases w)
      case (Inl e)
      then have "dm_get files (ac_config_path cfg) = dm_get (ad_files st) (ac_config_path cfg)"
        using w atomic_save_path(1) [of "ad_files st" "ac_config_path cfg" _ "ax_fault fr"]
        by (auto simp: write_back_psk_def split: option.splits prod.splits bool.splits if_splits) (metis fst_conv snd_conv)+
      then show ?thesis using r Inl by auto
    next
      case (Inr u)
      obtain t where t: "dm_get (ad_files st) (ac_config_path cfg) = Some t"
          "atomic_save (ad_files st) (ac_config_path cfg) (psk_text psk t) (ax_fault fr) = (files, True)"
        using w Inr by (auto simp: write_back_psk_def split: option.splits prod.splits bool.splits if_splits)
      have "dm_get files (ac_config_path cfg) = Some (psk_text psk t)"
        using atomic_save_path(1) [of "ad_files st" "ac_config_path cfg" "psk_text psk t" "ax_fault fr"] t(2) by simp
      moreover have "case password of Some p \<Rightarrow> psk = p \<and> validate_psk_value p | None \<Rightarrow> psk = filter (\<lambda>c. c \<noteq> CHR ''-'') (ax_uuid fr)"
        using Some by (auto simp: choice_def split: option.splits if_splits)
      moreover have "if list_ex (\<lambda>l. starts_with l ''psk:'') (str_lines t)
         then split_on (CHR 10) (psk_text psk t) = map (psk_line psk) (str_lines t)
         else psk_text psk t = t @ [CHR 10] @ ''psk: '' @ debug_str psk @ [CHR 10]"
        using psk_text_lines [of t psk] by (auto simp: psk_text_def)
      ultimately show ?thesis
        using r Inr t(1) by (auto simp: log_admin_def audit_log_def lines)
    qed
  qed
qed

lemma demo_psk_text: "psk_text ''u1'' (''a: 1'' @ [CHR 10] @ ''psk: x'') = ''a: 1'' @ [CHR 10] @ ''psk: '' @ [CHR 34] @ ''u1'' @ [CHR 34]"
  by code_simp

theorem rotate_psk_disk_first_witness:
  "dm_get (ad_files (fst (rotate_psk demo_admin_config (demo_api_fresh NoFault) None demo_admin_claims demo_admin))) ''s.yaml'' =
     Some (''a: 1'' @ [CHR 10] @ ''psk: '' @ [CHR 34] @ ''u1'' @ [CHR 34])"
proof -
  define x where "x = rotate_psk demo_admin_config (demo_api_fresh NoFault) None demo_admin_claims demo_admin"
  have ok: "utf8_valid (bytes_of (''a: 1'' @ [CHR 10] @ ''psk: x''))" by code_simp
  have "\<not> refused (snd x)" using ok
    by (simp add: x_def rotate_psk_def write_back_psk_def demo_api_fresh_def demo_admin_config_def demo_admin_def atomic_save_def Let_def)
  moreover have "rotate_psk demo_admin_config (demo_api_fresh NoFault) None demo_admin_claims demo_admin = (fst x, snd x)" by (simp add: x_def)
  ultimately obtain psk t where "psk = ''u1''" "dm_get (ad_files demo_admin) ''s.yaml'' = Some t"
      "dm_get (ad_files (fst x)) ''s.yaml'' = Some (psk_text psk t)"
    using rotate_psk_disk_first [of demo_admin_config "demo_api_fresh NoFault" None demo_admin_claims demo_admin "fst x" "snd x"]
    by (auto simp: demo_admin_config_def demo_api_fresh_def)
  then show ?thesis using demo_psk_text by (simp add: demo_admin_def x_def)
qed

section \<open>What does not work\<close>

text \<open>
  The routes of one room and one peer are written with braces, which axum 0.7 takes literally: they
  match no id, so no request to the interface ever removes a room or a peer.
\<close>

lemma room_routes_dead:
  assumes "find_route path = Some (ps, ms)" and "find_endpoint m ms = Some e" and "e \<in> {EpGetRoom, EpRemoveRoom, EpKickPeer}"
  shows "ps = []"
proof -
  obtain pat where pat: "(pat, ms) \<in> set route_table" "match_route pat path = Some ps" using find_route_Some [OF assms(1)] by blast
  with match_route_static static_routes [OF pat(1) assms(2)] assms(3) show ?thesis by blast
qed

lemma save_rooms:
  "save_devices cfg fr s = (s1, b) \<Longrightarrow> srv_rooms (ad_server s1) = srv_rooms (ad_server s)"
  "save_accounts cfg fr s = (s1, b) \<Longrightarrow> srv_rooms (ad_server s1) = srv_rooms (ad_server s)"
  "save_keys cfg fr s = (s1, b) \<Longrightarrow> srv_rooms (ad_server s1) = srv_rooms (ad_server s)"
  by (auto simp: save_devices_def save_accounts_def save_keys_def split: prod.splits)

lemma room_frame [simp]:
  "srv_rooms (ad_server (set_devices reg st)) = srv_rooms (ad_server st)"
  "srv_rooms (ad_server (set_pending tab st)) = srv_rooms (ad_server st)"
  "srv_rooms (ad_server (restore_pending fr i e st)) = srv_rooms (ad_server st)"
  "srv_rooms (ad_server (log_admin ev st)) = srv_rooms (ad_server st)"
  by (simp_all add: set_devices_def set_pending_def restore_pending_def log_admin_def audit_log_def)

definition keeps_rooms :: "admin \<Rightarrow> admin \<times> http_response \<Rightarrow> bool" where
  "keeps_rooms st x = (srv_rooms (ad_server (fst x)) = srv_rooms (ad_server st))"

lemma device_handlers_keep:
  "keeps_rooms st (admin_register_device cfg fr i s claims st)" "keeps_rooms st (revoke_device cfg fr i claims st)"
  "keeps_rooms st (reset_device_secret cfg fr i claims st)" "keeps_rooms st (approve_pending_device cfg fr i n claims st)"
  by (auto simp: keeps_rooms_def admin_register_device_def revoke_device_def reset_device_secret_def approve_pending_device_def Let_def
      split: sum.split prod.split bool.split option.split dest!: save_rooms)

lemma registry_handlers_keep:
  "keeps_rooms st (admin_create_account cfg fr u p r vs claims st)" "keeps_rooms st (admin_update_account cfg fr u ureq claims st)"
  "keeps_rooms st (admin_delete_account cfg fr u claims st)" "keeps_rooms st (register_api_key cfg fr req claims st)"
  "keeps_rooms st (revoke_api_key cfg fr i claims st)"
  by (auto simp: keeps_rooms_def admin_create_account_def admin_update_account_def admin_delete_account_def register_api_key_def
      revoke_api_key_def split: sum.split prod.split bool.split option.split outcome.split dest!: save_rooms)

lemma other_handlers_keep:
  "keeps_rooms st (admin_push_config room c v claims st)" "keeps_rooms st (get_psk claims st)" "keeps_rooms st (rotate_psk cfg fr p claims st)"
  by (auto simp: keeps_rooms_def admin_push_config_def push_config_def get_or_create_channel_def tx_send_def get_psk_def rotate_psk_def
      split: sum.split prod.split option.split bool.split)

lemma extracted_keeps: "(\<And>v. keeps_rooms st (h v st)) \<Longrightarrow> keeps_rooms st (extracted x h st)"
  by (simp add: extracted_def keeps_rooms_def split: sum.split)

lemma path_arg_keeps: "(\<forall>v. keeps_rooms st (h v st)) \<or> ps = [] \<Longrightarrow> keeps_rooms st (path_arg ex ps h st)"
  by (auto simp: path_arg_def extracted_def keeps_rooms_def split: sum.split list.split)

lemma rooms_kept:
  assumes "e \<notin> {EpRemoveRoom, EpKickPeer} \<or> ps = []"
  shows "keeps_rooms st (call_endpoint cfg ex w rows fr rq ps claims e st)"
proof (cases "reads_only e")
  case True
  then show ?thesis by (simp add: keeps_rooms_def read_unchanged)
next
  case False
  then show ?thesis using assms
    by (cases e) (auto simp: reads_only_def path_arg_keeps extracted_keeps device_handlers_keep registry_handlers_keep other_handlers_keep
        server_config_def keeps_rooms_def [of st "(st, _)"] split: prod.split intro!: extracted_keeps)
qed

lemma admin_api_keeps_rooms: "srv_rooms (ad_server (fst (admin_api cfg ex w rows fr rq st))) = srv_rooms (ad_server st)"
proof -
  have "srv_rooms (ad_server (fst (call_endpoint cfg ex w rows fr rq ps claims e st))) = srv_rooms (ad_server st)"
    if "find_route (rq_path rq) = Some (ps, ms)" "find_endpoint (rq_method rq) ms = Some e" for ps ms e claims
    using rooms_kept [of e ps st cfg ex w rows fr rq claims] room_routes_dead [OF that] by (auto simp: keeps_rooms_def)
  then show ?thesis
    by (auto simp: admin_api_def auth_middleware_def Let_def split: sum.split option.split prod.split)
qed

text \<open>A device whose name is that of a fixed route cannot be revoked.\<close>

lemma pending_not_revocable: "find_route ''/api/admin/devices/pending'' = Some ([], [(GET, EpPending)])"
  by code_simp

text \<open>A key with a control character passes the checks and is written with an escape that is no YAML.\<close>

lemma psk_escape: "validate_psk_value (''secret-'' @ [CHR 0x01])" "debug_str [CHR 0x01] = [CHR 34, CHR 92] @ ''u{1}'' @ [CHR 34]"
  by code_simp+

end
