(* ===== verification/RoomsApi.thy ===== *)
theory RoomsApi
  imports AdminApi
begin

text \<open>
  Room discovery for consumers, \<open>mediaservo-server/src/rooms.rs\<close>: what \<open>GET /api/rooms\<close> lists to the
  holder of an account or key token, and to the holder of the pre-shared key. Rooms are listed in
  the order of the room table.
\<close>

section \<open>Model\<close>

record room_entry =
  re_room_id :: string
  re_kind :: string
  re_parent :: "string option"
  re_streams :: "string list option"

definition room_kind :: "string \<Rightarrow> bool \<Rightarrow> string" where
  "room_kind room_id is_stream_room =
     (if starts_with room_id ''audio-'' then ''audio'' else if is_stream_room then ''video'' else ''control'')"

definition online_stream_ids :: "status_registry \<Rightarrow> string \<Rightarrow> string list" where
  "online_stream_ids status room_id =
     (case status_get status room_id of
        Some (StatusReport sr) \<Rightarrow> map sf_id (filter sf_connected (sr_streams sr))
      | _ \<Rightarrow> [])"

definition room_visible :: "cockpit_role \<Rightarrow> string list \<Rightarrow> string option \<Rightarrow> bool" where
  "room_visible role allowed owner =
     (case owner of
        None \<Rightarrow> False
      | Some v \<Rightarrow> (case role of Admin \<Rightarrow> True | Dispatcher \<Rightarrow> True | Viewer \<Rightarrow> can_pull role v allowed | Operator \<Rightarrow> can_pull role v allowed))"

definition stream_room :: "string \<Rightarrow> string \<Rightarrow> string" where
  "stream_room base sid = base @ ''_'' @ sid"

subsection \<open>With the pre-shared key\<close>

text \<open>The comparison starts with the exclusive or of the lengths, cut to a byte.\<close>

definition psk_diff :: "u8 list \<Rightarrow> u8 list \<Rightarrow> u8" where
  "psk_diff a b = byte_diff (ucast ((of_nat (length a) :: u64) XOR of_nat (length b))) a b"

definition streams_of :: "server \<Rightarrow> (string, string list) dmap" where
  "streams_of srv =
     fold (\<lambda>r acc. if starts_with (rm_id r) ''audio-'' \<or> CHR ''_'' \<in> set (rm_id r) then acc
         else fold (\<lambda>sid acc1. dm_insert (rm_id r) (unwrap_or (dm_get acc1 (rm_id r)) [] @ [sid]) acc1)
                (online_stream_ids (srv_status srv) (rm_id r)) acc)
       (list_rooms (srv_rooms srv)) []"

definition video_entry :: "string \<Rightarrow> string \<Rightarrow> room_entry" where
  "video_entry room_id parent = \<lparr>re_room_id = room_id, re_kind = ''video'', re_parent = Some parent, re_streams = None\<rparr>"

type_synonym discovery = "room_entry list \<times> string list \<times> (string, string list) dmap"

definition discover_step :: "room_snapshot \<Rightarrow> discovery \<Rightarrow> discovery" where
  "discover_step r acc =
     (case acc of (rooms, emitted, so) \<Rightarrow>
        if starts_with (rm_id r) ''audio-''
        then (rooms @ [\<lparr>re_room_id = rm_id r, re_kind = ''audio'', re_parent = None, re_streams = None\<rparr>], emitted, so)
        else (case Option.bind (rsplit_once (rm_id r) (CHR ''_''))
                     (\<lambda>(base, sid). case dm_get so base of
                        Some streams \<Rightarrow> if sid \<in> set streams then Some base else None | None \<Rightarrow> None) of
                Some parent \<Rightarrow> (rooms @ [video_entry (rm_id r) parent], rm_id r # emitted, so)
              | None \<Rightarrow>
                  (let streams = dm_get so (rm_id r);
                       own = \<lparr>re_room_id = rm_id r, re_kind = ''control'', re_parent = None, re_streams = streams\<rparr>;
                       derived = map (\<lambda>i. video_entry i (rm_id r))
                         (filter (\<lambda>i. i \<notin> set emitted) (map (stream_room (rm_id r)) (unwrap_or streams [])))
                   in (rooms @ [own] @ derived, emitted, dm_remove (rm_id r) so))))"

definition psk_discover :: "request \<Rightarrow> server \<Rightarrow> (http_response + room_entry list) option" where
  "psk_discover rq srv =
     (case Option.bind (rq_authorization rq) (\<lambda>v. if header_text v then strip_prefix v ''Psk '' else None) of
        None \<Rightarrow> None
      | Some secret \<Rightarrow>
          Some (case srv_psk srv of
                  None \<Rightarrow> Inl (rest_error 401 ''psk authentication failed'')
                | Some configured \<Rightarrow>
                    if psk_diff (bytes_of configured) (bytes_of secret) \<noteq> 0 then Inl (rest_error 401 ''psk authentication failed'')
                    else Inr (fst (fold discover_step (list_rooms (srv_rooms srv)) ([], [], streams_of srv)))))"

subsection \<open>With a token\<close>

text \<open>The streams online in owned rooms: stream room, owner, stream.\<close>

definition derived_rooms :: "server \<Rightarrow> (string \<times> string \<times> string) list" where
  "derived_rooms srv =
     concat (map (\<lambda>r. if starts_with (rm_id r) ''audio-'' then []
         else case room_owner_of srv (rm_id r) of
                None \<Rightarrow> []
              | Some owner \<Rightarrow> map (\<lambda>sid. (stream_room (rm_id r) sid, owner, sid)) (online_stream_ids (srv_status srv) (rm_id r)))
       (list_rooms (srv_rooms srv)))"

definition stream_room_ids :: "server \<Rightarrow> string list" where
  "stream_room_ids srv =
     map fst (derived_rooms srv)
     @ filter (\<lambda>i. case rsplit_once i (CHR ''_'') of
                     None \<Rightarrow> False
                   | Some (base, s) \<Rightarrow> \<not> starts_with i ''audio-'' \<and> online_stream_ids (srv_status srv) base \<noteq> []
                       \<and> i \<in> set (map fst (derived_rooms srv)))
         (map rm_id (list_rooms (srv_rooms srv)))"

definition derived_match :: "server \<Rightarrow> string \<Rightarrow> (string \<times> string) option" where
  "derived_match srv i =
     (case rsplit_once i (CHR ''_'') of
        None \<Rightarrow> None
      | Some (base, sid) \<Rightarrow>
          if starts_with i ''audio-'' then None
          else map_option (\<lambda>(d, owner, s). (base, owner)) (List.find (\<lambda>(d, owner, s). d = i \<and> s = sid) (derived_rooms srv)))"

definition list_entry :: "cockpit_role \<Rightarrow> string list \<Rightarrow> server \<Rightarrow> room_snapshot \<Rightarrow> room_entry option" where
  "list_entry role vehicles srv r =
     (case derived_match srv (rm_id r) of
        Some (base, owner) \<Rightarrow> if room_visible role vehicles (Some owner) then Some (video_entry (rm_id r) base) else None
      | None \<Rightarrow>
          (let streams = map (\<lambda>(d, owner, sid). sid)
                 (filter (\<lambda>(d, owner, sid). (case rsplit_once d (CHR ''_'') of Some (b, s) \<Rightarrow> b = rm_id r | None \<Rightarrow> False)
                    \<and> room_visible role vehicles (Some owner)) (derived_rooms srv))
           in if room_visible role vehicles (room_owner_of srv (rm_id r))
              then Some \<lparr>re_room_id = rm_id r, re_kind = room_kind (rm_id r) (rm_id r \<in> set (stream_room_ids srv)), re_parent = None,
                         re_streams = (if streams = [] then None else Some streams)\<rparr>
              else None))"

text \<open>The vehicles the listing goes by; \<open>Inl\<close> the early answers.\<close>

definition listing_vehicles ::
  "jwt_claims \<Rightarrow> cockpit_role \<Rightarrow> account_registry \<Rightarrow> (http_response + room_entry list) + string list" where
  "listing_vehicles claims role reg =
     (let account = List.find (\<lambda>a. av_username a = jc_sub claims) (list_accounts reg);
          privileged = (role = Admin \<or> role = Dispatcher);
          apikey = (if starts_with (jc_sub claims) ''apikey:'' then Some (unwrap_or (jc_vehicles claims) []) else None)
      in case account of
           Some a \<Rightarrow>
             if role_parse (av_role a) \<noteq> Some role then Inl (Inl (rest_error 401 ''account role mismatch'')) else Inr (av_vehicles a)
         | None \<Rightarrow>
             (case apikey of
                Some v \<Rightarrow> Inr v
              | None \<Rightarrow> if privileged then Inr [] else Inl (Inr [])))"

definition rooms_api :: "admin_config \<Rightarrow> request \<Rightarrow> admin \<Rightarrow> admin \<times> (http_response + room_entry list)" where
  "rooms_api cfg rq st =
     (case psk_discover rq (ad_server st) of
        Some res \<Rightarrow> (st, res)
      | None \<Rightarrow>
          (case check_auth cfg rq of
             Inl e \<Rightarrow> (st, Inl e)
           | Inr claims \<Rightarrow>
               (case Option.bind (jc_role claims) role_parse of
                  None \<Rightarrow>
                    (log_admin (AuthorizationDenied ''api_rooms'' (jc_sub claims) ''non-account or unknown role token'') st,
                     Inl (rest_error 401 ''account role required''))
                | Some role \<Rightarrow>
                    (case listing_vehicles claims role (ad_accounts st) of
                       Inl res \<Rightarrow> (st, res)
                     | Inr vehicles \<Rightarrow>
                         (st, Inr (List.map_filter (list_entry role vehicles (ad_server st)) (list_rooms (srv_rooms (ad_server st)))))))))"

section \<open>What a token holder sees\<close>

text \<open>
  The specification: a room is the stream room of a vehicle room if its name is the vehicle room's
  with the id of a stream that is online there; it is then governed by the owner of the vehicle
  room, every other room by its own. A room is shown to who may access the vehicle that governs it.
\<close>

definition stream_parent :: "server \<Rightarrow> string \<Rightarrow> string option" where
  "stream_parent srv i =
     (case rsplit_once i (CHR ''_'') of
        None \<Rightarrow> None
      | Some (base, sid) \<Rightarrow>
          if \<not> starts_with i ''audio-'' \<and> \<not> starts_with base ''audio-'' \<and> base \<in> rm_id ` set (list_rooms (srv_rooms srv))
             \<and> room_owner_of srv base \<noteq> None \<and> sid \<in> set (online_stream_ids (srv_status srv) base)
          then Some base else None)"

definition governing_owner :: "server \<Rightarrow> string \<Rightarrow> string option" where
  "governing_owner srv i = (case stream_parent srv i of Some base \<Rightarrow> room_owner_of srv base | None \<Rightarrow> room_owner_of srv i)"

definition may_see :: "account_identity \<Rightarrow> string option \<Rightarrow> bool" where
  "may_see a owner = (case owner of None \<Rightarrow> False | Some v \<Rightarrow> can_access_vehicle a v)"

lemma room_visible_iff: "room_visible role vs owner = may_see \<lparr>ai_username = u, ai_role = role, ai_vehicles = vs\<rparr> owner"
  by (cases role) (auto simp: room_visible_def may_see_def can_access_vehicle_def split: option.split)

lemma derived_rooms_iff:
  "(d, owner, sid) \<in> set (derived_rooms srv) \<longleftrightarrow>
     (\<exists>base \<in> rm_id ` set (list_rooms (srv_rooms srv)). \<not> starts_with base ''audio-'' \<and> room_owner_of srv base = Some owner
        \<and> sid \<in> set (online_stream_ids (srv_status srv) base) \<and> d = stream_room base sid)"
proof -
  have "(d, owner, sid) \<in> set (if starts_with b ''audio-'' then []
         else case room_owner_of srv b of None \<Rightarrow> []
              | Some o1 \<Rightarrow> map (\<lambda>sid. (stream_room b sid, o1, sid)) (online_stream_ids (srv_status srv) b)) \<longleftrightarrow>
      \<not> starts_with b ''audio-'' \<and> room_owner_of srv b = Some owner \<and> sid \<in> set (online_stream_ids (srv_status srv) b)
        \<and> d = stream_room b sid" for b
    by (auto split: option.split)
  then show ?thesis by (simp only: derived_rooms_def set_concat set_map bex_simps UN_iff image_image)
qed

lemma derived_match_spec:
  "derived_match srv i = map_option (\<lambda>base. (base, the (room_owner_of srv base))) (stream_parent srv i)"
proof (cases "rsplit_once i (CHR ''_'')")
  case None
  then show ?thesis by (simp add: derived_match_def stream_parent_def)
next
  case (Some bs)
  obtain base sid where bs: "bs = (base, sid)" by force
  have i: "i = stream_room base sid" using rsplit_once_Some [of i] Some bs by (auto simp: stream_room_def)
  have hit: "(case t of (d, owner, s) \<Rightarrow> d = i \<and> s = sid) \<longleftrightarrow> (\<exists>owner. t = (i, owner, sid))" for t :: "string \<times> string \<times> string"
    by (cases t) auto
  show ?thesis
  proof (cases "List.find (\<lambda>(d, owner, s). d = i \<and> s = sid) (derived_rooms srv)")
    case None
    then have "\<not> (\<exists>owner. (i, owner, sid) \<in> set (derived_rooms srv))" by (auto simp: find_None_iff)
    then have "\<not> (base \<in> rm_id ` set (list_rooms (srv_rooms srv)) \<and> \<not> starts_with base ''audio-'' \<and> room_owner_of srv base \<noteq> None
        \<and> sid \<in> set (online_stream_ids (srv_status srv) base))"
      using i by (auto simp: derived_rooms_iff)
    then show ?thesis using Some bs None by (auto simp: derived_match_def stream_parent_def)
  next
    case (Some t)
    then obtain owner where t: "t = (i, owner, sid)" and "(i, owner, sid) \<in> set (derived_rooms srv)"
      by (auto simp: find_Some_iff) (metis nth_mem)
    then obtain b where b: "b \<in> rm_id ` set (list_rooms (srv_rooms srv))" "\<not> starts_with b ''audio-''" "room_owner_of srv b = Some owner"
        "sid \<in> set (online_stream_ids (srv_status srv) b)" "i = stream_room b sid"
      by (auto simp: derived_rooms_iff)
    with i have "b = base" by (simp add: stream_room_def)
    with b Some t \<open>rsplit_once i (CHR ''_'') = Some bs\<close> bs show ?thesis
      by (auto simp: derived_match_def stream_parent_def)
  qed
qed

lemma map_filter_ids:
  assumes "\<And>r. f r = (if P r then Some (g r) else None)" and "\<And>r. k (g r) = h r"
  shows "map k (List.map_filter f rs) = map h (filter P rs)"
  by (induction rs) (simp_all add: map_filter_simps assms)

lemma list_entry_shown:
  fixes u role vs srv
  defines "a \<equiv> \<lparr>ai_username = u, ai_role = role, ai_vehicles = vs\<rparr>"
  shows "list_entry role vs srv r \<noteq> None \<longleftrightarrow> may_see a (governing_owner srv (rm_id r))"
    and "list_entry role vs srv r = Some en \<Longrightarrow> re_room_id en = rm_id r \<and> re_parent en = stream_parent srv (rm_id r)
      \<and> (re_parent en \<noteq> None \<longrightarrow> re_kind en = ''video'')"
proof -
  have vis: "room_visible role vs o1 = may_see a o1" for o1 using room_visible_iff a_def by simp
  have owner: "room_owner_of srv base \<noteq> None" if "stream_parent srv (rm_id r) = Some base" for base
    using that by (auto simp: stream_parent_def split: option.splits if_splits)
  show "list_entry role vs srv r \<noteq> None \<longleftrightarrow> may_see a (governing_owner srv (rm_id r))"
    using owner by (auto simp: list_entry_def derived_match_spec vis governing_owner_def Let_def split: option.splits)
  show "list_entry role vs srv r = Some en \<Longrightarrow> re_room_id en = rm_id r \<and> re_parent en = stream_parent srv (rm_id r)
      \<and> (re_parent en \<noteq> None \<longrightarrow> re_kind en = ''video'')"
    by (auto simp: list_entry_def derived_match_spec video_entry_def Let_def split: option.splits if_splits)
qed


text \<open>A vehicle with an online stream, a consumer in the stream's room, and another vehicle.\<close>

definition demo_report :: status_report where
  "demo_report = \<lparr>sr_room_id = ''car'', sr_topics = [],
     sr_streams = [\<lparr>sf_id = ''front'', sf_bytes_sent = 1, sf_frames_encoded = 1, sf_frame_width = 1, sf_frame_height = 1, sf_connected = True\<rparr>],
     sr_processes = [],
     sr_signal = \<lparr>ss_remote_connected = True, ss_remote_since_secs = None, ss_remote_peer_id = [], ss_children = [], ss_agent_uptime_secs = 0\<rparr>,
     sr_ts = 0, sr_config_version = 0, sr_config_running = None, sr_config_file = None, sr_config_last_push = None, sr_config_flags = None\<rparr>"

definition demo_room_server :: "string list \<Rightarrow> server" where
  "demo_room_server ids = (server_new (registry_empty demo_crypto ''u''))
     \<lparr>srv_rooms := map (\<lambda>i. (i, new_room i ''p'' Consumer ''t'' 0)) ids, srv_owners := [(''car'', ''car''), (''bus'', ''bus'')],
      srv_status := [(''car'', StatusReport demo_report)], srv_psk := Some ''psk''\<rparr>"

definition demo_rooms_admin :: admin where
  "demo_rooms_admin = demo_admin\<lparr>ad_server := demo_room_server [''car'', ''car_front'', ''bus''],
     ad_accounts := [(''root'', \<lparr>ae_password_hash = [], ae_role = Viewer, ae_vehicles = [''car'']\<rparr>)]\<rparr>"

definition demo_rooms_config :: admin_config where
  "demo_rooms_config = demo_admin_config\<lparr>ac_verify := (\<lambda>s t. Some (demo_admin_claims\<lparr>jc_role := Some ''viewer''\<rparr>))\<rparr>"


section \<open>Where discovery fails\<close>

text \<open>
  With the pre-shared key a registered stream room is listed once if it comes before its vehicle
  room in the table, and twice, the second time as a control room, if it comes after.
\<close>

lemma discovery_order:
  "map_option (map_sum id (map (\<lambda>e. (re_room_id e, re_kind e))))
     (psk_discover (demo_request GET [] [] []\<lparr>rq_authorization := Some ''Psk psk''\<rparr>) (demo_room_server [''car_front'', ''car''])) =
   Some (Inr [(''car_front'', ''video''), (''car'', ''control'')])"
  "map_option (map_sum id (map (\<lambda>e. (re_room_id e, re_kind e))))
     (psk_discover (demo_request GET [] [] []\<lparr>rq_authorization := Some ''Psk psk''\<rparr>) (demo_room_server [''car'', ''car_front''])) =
   Some (Inr [(''car'', ''control''), (''car_front'', ''video''), (''car_front'', ''control'')])"
  by code_simp+

text \<open>A secret that continues the key by 256 bytes is taken for the key.\<close>

lemma byte_diff_prefix: "byte_diff 0 a (a @ b) = 0"
proof -
  have "fold (\<lambda>(x, y) d. d OR (x XOR y)) (zip a (a @ b)) (0 :: u8) = 0" by (induction a) simp_all
  then show ?thesis by (simp add: byte_diff_def)
qed

lemma low_byte: "(ucast (of_nat n :: u64) :: u8) = of_nat n"
  by (rule bit_word_eqI) (auto simp: bit_simps)

lemma psk_extended_accepted:
  assumes "256 dvd length b"
  shows "psk_diff a (a @ b) = 0"
proof -
  have "(of_nat (length b) :: u8) = 0" using assms by (simp add: word_of_nat_eq_0_iff)
  then have "(of_nat (length (a @ b)) :: u8) = of_nat (length a)" by simp
  then have "(ucast ((of_nat (length a) :: u64) XOR of_nat (length (a @ b))) :: u8) = 0"
    by (simp only: unsigned_xor_eq low_byte) simp
  then show ?thesis unfolding psk_diff_def using byte_diff_prefix by simp
qed

end
