(* ===== verification/Translate.thy ===== *)
theory Translate
  imports Protocol Strings
begin

text \<open>
  The vehicle's configuration translator, \<open>mediaservo-host/src/translate.rs\<close>, with the brand
  reader \<open>mediaservo-common/src/brand.rs\<close> and the stream presets of \<open>mediaservo-field/src/config.rs\<close>:
  the resolution of \<open>host.yaml\<close> (entry, then \<open>defaults\<close>, then builtin), its validation, the process
  roster and the text of \<open>oxfile.toml\<close>, and the names the monitor expects. \<open>serde_yaml\<close> is a parameter
  from the text to the structure the source derives; strings are their bytes, paths are strings.
\<close>

section \<open>Results and paths\<close>

text \<open>The operator \<open>?\<close>, and \<open>collect\<close> into a \<open>Result\<close>.\<close>

fun and_then :: "'e + 'a \<Rightarrow> ('a \<Rightarrow> 'e + 'b) \<Rightarrow> 'e + 'b" where
  "and_then (Inl e) f = Inl e"
| "and_then (Inr x) f = f x"

fun try_map :: "('a \<Rightarrow> 'e + 'b) \<Rightarrow> 'a list \<Rightarrow> 'e + 'b list" where
  "try_map f [] = Inr []"
| "try_map f (x # xs) = and_then (f x) (\<lambda>y. and_then (try_map f xs) (\<lambda>ys. Inr (y # ys)))"

named_theorems result_simps

lemma and_then_Inr [result_simps]: "and_then r f = Inr y \<longleftrightarrow> (\<exists>x. r = Inr x \<and> f x = Inr y)"
  by (cases r) auto

lemma and_then_Inl [result_simps]: "and_then r f = Inl e \<longleftrightarrow> r = Inl e \<or> (\<exists>x. r = Inr x \<and> f x = Inl e)"
  by (cases r) auto

lemma try_map_Inr: "try_map f xs = Inr ys \<longleftrightarrow> list_all2 (\<lambda>x y. f x = Inr y) xs ys"
  by (induction xs arbitrary: ys) (auto simp: result_simps list_all2_Cons1)

lemma try_map_map:
  assumes "try_map f xs = Inr ys" and "\<And>x y. f x = Inr y \<Longrightarrow> h y = g x"
  shows "map h ys = map g xs"
  using assms(1) unfolding try_map_Inr by (induction rule: list_all2_induct) (use assms(2) in auto)

text \<open>
  \<open>Path::join\<close> and \<open>Path::parent\<close>, the latter on a path without repeated or trailing separators as
  \<open>std::path::absolute\<close> returns it.
\<close>

definition path_absolute :: "string \<Rightarrow> bool" where
  "path_absolute p = starts_with p ''/''"

definition path_join :: "string \<Rightarrow> string \<Rightarrow> string" where
  "path_join d p =
     (if path_absolute p \<or> d = [] then p else if last d = CHR ''/'' then d @ p else d @ ''/'' @ p)"

definition path_parent :: "string \<Rightarrow> string option" where
  "path_parent p =
     (if p = [] \<or> p = ''/'' then None
      else case rsplit_once p (CHR ''/'') of None \<Rightarrow> Some [] | Some (a, b) \<Rightarrow> Some (if a = [] then ''/'' else a))"

definition ascii_lower :: "char \<Rightarrow> bool" where
  "ascii_lower c = (let n = of_char c :: nat in 97 \<le> n \<and> n \<le> 122)"

definition ascii_digit :: "char \<Rightarrow> bool" where
  "ascii_digit c = (let n = of_char c :: nat in 48 \<le> n \<and> n \<le> 57)"

definition ascii_alphanumeric :: "char \<Rightarrow> bool" where
  "ascii_alphanumeric c = (let n = of_char c :: nat in ascii_lower c \<or> ascii_digit c \<or> 65 \<le> n \<and> n \<le> 90)"

definition quoted :: "string \<Rightarrow> string" where
  "quoted s = CHR 34 # s @ [CHR 34]"

abbreviation newline :: string where
  "newline \<equiv> [CHR 10]"

section \<open>The brand\<close>

record Brand =
  br_product :: string
  br_display :: string
  br_id :: string
  br_app_prefix :: string
  br_unit_prefix :: string
  br_device_prefix :: string
  br_namespace :: string
  br_bin_prefix :: string

definition valid_brand :: "string \<Rightarrow> bool" where
  "valid_brand s =
     (s \<noteq> [] \<and> length s \<le> 32 \<and> list_all (\<lambda>c. ascii_lower c \<or> ascii_digit c \<or> c = CHR ''-'') s)"

definition default_brand :: Brand where
  "default_brand =
     \<lparr>br_product = ''mediaservo-host'', br_display = ''MediaServo'', br_id = ''mediaservo'',
      br_app_prefix = ''host-'', br_unit_prefix = ''oxmgr-host-'', br_device_prefix = ''ms-'',
      br_namespace = ''mediaservo-host'', br_bin_prefix = ''mediaservo-''\<rparr>"

definition media_brand_from :: "string option \<Rightarrow> Brand" where
  "media_brand_from brand =
     (case brand of
        Some p \<Rightarrow>
          if valid_brand p \<and> p \<noteq> ''mediaservo''
          then \<lparr>br_product = p, br_display = p, br_id = p, br_app_prefix = p @ ''-'',
                br_unit_prefix = ''oxmgr-'' @ p @ ''-'', br_device_prefix = p @ ''-'',
                br_namespace = p @ ''-host'', br_bin_prefix = p @ ''-''\<rparr>
          else default_brand
      | None \<Rightarrow> default_brand)"

text \<open>The cached value: a valid environment variable, else the value compiled in.\<close>

definition env_product :: "string option \<Rightarrow> string option \<Rightarrow> string option" where
  "env_product env compiled =
     (case env of Some v \<Rightarrow> if valid_brand v then Some v else compiled | None \<Rightarrow> compiled)"

definition media_brand :: "string option \<Rightarrow> string option \<Rightarrow> Brand" where
  "media_brand env compiled =
     (let product = (case env_product env compiled of Some p \<Rightarrow> p | None \<Rightarrow> ''mediaservo'')
      in media_brand_from (case env_product env compiled of Some p \<Rightarrow> Some p | None \<Rightarrow> Some product))"

section \<open>Stream presets\<close>

datatype StreamMode = Smooth | Balanced | Quality

datatype Degradation = DegFixed | DegMaintainFramerate | DegMaintainResolution | DegBalanced

datatype ContentHint = HintNone | HintFluid

record PresetBundle =
  pb_degradation :: Degradation
  pb_content_hint :: ContentHint
  pb_min_bitrate_kbps :: "u32 option"
  pb_bitrate_kbps :: "u32 option"

fun mode_to_str :: "StreamMode \<Rightarrow> string" where
  "mode_to_str Smooth = ''smooth''"
| "mode_to_str Balanced = ''balanced''"
| "mode_to_str Quality = ''quality''"

fun preset_bundle :: "StreamMode \<Rightarrow> PresetBundle" where
  "preset_bundle Smooth =
     \<lparr>pb_degradation = DegMaintainFramerate, pb_content_hint = HintFluid, pb_min_bitrate_kbps = None, pb_bitrate_kbps = None\<rparr>"
| "preset_bundle Balanced =
     \<lparr>pb_degradation = DegBalanced, pb_content_hint = HintNone, pb_min_bitrate_kbps = None, pb_bitrate_kbps = None\<rparr>"
| "preset_bundle Quality =
     \<lparr>pb_degradation = DegMaintainResolution, pb_content_hint = HintNone, pb_min_bitrate_kbps = None,
      pb_bitrate_kbps = Some 3000\<rparr>"

definition mode_from_str :: "string \<Rightarrow> string + StreamMode" where
  "mode_from_str s =
     (let t = to_lowercase (trim_str s)
      in if t = ''smooth'' then Inr Smooth
         else if t = ''balanced'' then Inr Balanced
         else if t = ''quality'' then Inr Quality
         else Inl (''illegal stream_mode value '' @ debug_str s @ '' (legal: smooth|balanced|quality)''))"

section \<open>The configuration file\<close>

datatype SourceMode = ModeCamera | ModeGenerator | ModeDesktop | ModeSubscriber

record Source =
  so_id :: string
  so_mode :: "SourceMode option"
  so_backend :: "string option"
  so_input :: "string option"
  so_width :: "u32 option"
  so_height :: "u32 option"
  so_fps :: "u32 option"
  so_reconnect_ms :: "u64 option"
  so_source :: "string option"

record StreamEntry =
  st_id :: string
  st_source :: "string option"
  st_codec :: "string option"
  st_encoder_backend :: "string option"
  st_bitrate_kbps :: "u32 option"
  st_stream_mode :: "string option"
  st_min_bitrate_kbps :: "u32 option"
  st_keyframe_interval :: "u32 option"

record SourceDefaults =
  sd_backend :: "string option"
  sd_width :: "u32 option"
  sd_height :: "u32 option"
  sd_fps :: "u32 option"
  sd_reconnect_ms :: "u64 option"

record StreamDefaults =
  td_codec :: "string option"
  td_encoder_backend :: "string option"
  td_bitrate_kbps :: "u32 option"
  td_stream_mode :: "string option"
  td_min_bitrate_kbps :: "u32 option"
  td_keyframe_interval :: "u32 option"

record DefaultsCfg =
  df_sources :: SourceDefaults
  df_streams :: StreamDefaults

record RecordSection =
  rs_enabled :: "bool option"
  rs_out_dir :: "string option"

record SignalingSection =
  ss_local_port :: "u16 option"
  ss_room :: "string option"
  ss_server_url :: "string option"
  ss_psk :: "string option"

record ControlSection =
  cs_hmac_key_file :: "string option"

record HostConfig =
  hc_sources :: "Source list"
  hc_streams :: "StreamEntry list"
  hc_record :: "RecordSection option"
  hc_signaling :: "SignalingSection option"
  hc_defaults :: DefaultsCfg
  hc_control :: "ControlSection option"

record SourceConfig =
  sc_id :: string
  sc_mode :: SourceMode
  sc_width :: u32
  sc_height :: u32
  sc_fps :: u32
  sc_input :: "string option"
  sc_reconnect_ms :: "u64 option"

record StreamConfig =
  tc_id :: string
  tc_source :: string
  tc_codec :: string
  tc_encoder_backend :: "string option"
  tc_bitrate_kbps :: "u32 option"
  tc_stream_mode :: "string option"
  tc_min_bitrate_kbps :: "u32 option"
  tc_keyframe_interval :: "u32 option"

record RecordConfig =
  rc_enabled :: bool
  rc_out_dir :: string

text \<open>What the process reads from the machine: the brand, the directory of its executable, the hostname file, and the two path resolutions.\<close>

record HostEnv =
  he_brand :: Brand
  he_exe_dir :: "string option"
  he_hostname :: "string option"
  he_absolute :: "string \<Rightarrow> string option"
  he_canonical :: "string \<Rightarrow> string option"

type_synonym yaml_parser = "string \<Rightarrow> string + HostConfig"

definition option_or :: "'a option \<Rightarrow> 'a option \<Rightarrow> 'a option" where
  "option_or a b = (case a of Some x \<Rightarrow> Some x | None \<Rightarrow> b)"

section \<open>Resolution of the sections\<close>

definition parse_config :: "yaml_parser \<Rightarrow> string \<Rightarrow> string + HostConfig" where
  "parse_config yaml cfg =
     (case yaml cfg of Inl e \<Rightarrow> Inl (''host.yaml parse failed: '' @ e) | Inr hc \<Rightarrow> Inr hc)"

definition cfg_local_port :: "HostConfig \<Rightarrow> u16 option" where
  "cfg_local_port hc = Option.bind (hc_signaling hc) ss_local_port"

definition signaling_local_port :: "yaml_parser \<Rightarrow> string \<Rightarrow> string + u16 option" where
  "signaling_local_port yaml cfg = and_then (parse_config yaml cfg) (\<lambda>hc. Inr (cfg_local_port hc))"

definition system_hostname_room :: "HostEnv \<Rightarrow> string option" where
  "system_hostname_room E =
     (case he_hostname E of
        None \<Rightarrow> None
      | Some raw \<Rightarrow>
          let h = to_lowercase (trim_str raw)
          in if h \<noteq> [] \<and> list_all (\<lambda>c. ascii_alphanumeric c \<or> c = CHR ''-'' \<or> c = CHR ''_'') h then Some h else None)"

definition cfg_room :: "HostEnv \<Rightarrow> HostConfig \<Rightarrow> string option" where
  "cfg_room E hc = option_or (Option.bind (hc_signaling hc) ss_room) (system_hostname_room E)"

definition signaling_room :: "HostEnv \<Rightarrow> yaml_parser \<Rightarrow> string \<Rightarrow> string + string option" where
  "signaling_room E yaml cfg = and_then (parse_config yaml cfg) (\<lambda>hc. Inr (cfg_room E hc))"

definition cfg_hmac_key_file :: "HostConfig \<Rightarrow> string option" where
  "cfg_hmac_key_file hc = Option.bind (hc_control hc) cs_hmac_key_file"

definition control_hmac_key_file :: "yaml_parser \<Rightarrow> string \<Rightarrow> string + string option" where
  "control_hmac_key_file yaml cfg = and_then (parse_config yaml cfg) (\<lambda>hc. Inr (cfg_hmac_key_file hc))"

definition cfg_server_url :: "HostConfig \<Rightarrow> string option" where
  "cfg_server_url hc = Option.bind (hc_signaling hc) ss_server_url"

definition cfg_psk :: "HostConfig \<Rightarrow> string option" where
  "cfg_psk hc = Option.bind (hc_signaling hc) ss_psk"

definition DEFAULT_LOCAL_PORT :: u16 where
  "DEFAULT_LOCAL_PORT = 17980"

definition cfg_gateway_url :: "HostConfig \<Rightarrow> string" where
  "cfg_gateway_url hc =
     ''ws://127.0.0.1:'' @ show_nat (unat (unwrap_or (cfg_local_port hc) DEFAULT_LOCAL_PORT)) @ ''/ws''"

definition DEFAULT_SOURCE_WIDTH :: u32 where
  "DEFAULT_SOURCE_WIDTH = 1280"

definition DEFAULT_SOURCE_HEIGHT :: u32 where
  "DEFAULT_SOURCE_HEIGHT = 720"

definition DEFAULT_SOURCE_FPS :: u32 where
  "DEFAULT_SOURCE_FPS = 30"

definition source_config :: "SourceDefaults \<Rightarrow> Source \<Rightarrow> string + SourceConfig" where
  "source_config d c =
     and_then (case so_source c of
        Some src \<Rightarrow>
          if src \<noteq> ''stub''
          then Inl (''host.yaml parse failed: video source '' @ so_id c @ '' uses the legacy field source='' @ src
                    @ '', unsupported (stub only; for v4l2/mipi switch to mode: camera + backend)'')
          else Inr ()
      | None \<Rightarrow> Inr ())
     (\<lambda>_.
      let fps = unwrap_or (option_or (so_fps c) (sd_fps d)) DEFAULT_SOURCE_FPS in
      if fps = 0 then Inl (''host.yaml parse failed: video source '' @ so_id c @ '' fps=0 invalid (must be > 0)'')
      else if fps > 60
      then Inl (''host.yaml parse failed: video source '' @ so_id c @ '' fps='' @ show_nat (unat fps) @ '' exceeds the cap (<=60)'')
      else Inr \<lparr>sc_id = so_id c, sc_mode = unwrap_or (so_mode c) ModeGenerator,
                sc_width = unwrap_or (option_or (so_width c) (sd_width d)) DEFAULT_SOURCE_WIDTH,
                sc_height = unwrap_or (option_or (so_height c) (sd_height d)) DEFAULT_SOURCE_HEIGHT,
                sc_fps = fps, sc_input = so_input c,
                sc_reconnect_ms = option_or (so_reconnect_ms c) (sd_reconnect_ms d)\<rparr>)"

definition cfg_sources :: "HostConfig \<Rightarrow> string + SourceConfig list" where
  "cfg_sources hc = try_map (source_config (df_sources (hc_defaults hc))) (hc_sources hc)"

definition camera_configs :: "yaml_parser \<Rightarrow> string \<Rightarrow> string + SourceConfig list" where
  "camera_configs yaml cfg = and_then (parse_config yaml cfg) cfg_sources"

definition camera_config :: "yaml_parser \<Rightarrow> string \<Rightarrow> string \<Rightarrow> string + SourceConfig option" where
  "camera_config yaml cfg ident = and_then (camera_configs yaml cfg) (\<lambda>cs. Inr (List.find (\<lambda>c. sc_id c = ident) cs))"

definition DEFAULT_RECORD_DIR :: string where
  "DEFAULT_RECORD_DIR = ''/tmp/mediaservo-recordings''"

definition cfg_record :: "HostConfig \<Rightarrow> RecordConfig" where
  "cfg_record hc =
     (let rec = unwrap_or (hc_record hc) \<lparr>rs_enabled = None, rs_out_dir = None\<rparr>
      in \<lparr>rc_enabled = unwrap_or (rs_enabled rec) False, rc_out_dir = unwrap_or (rs_out_dir rec) DEFAULT_RECORD_DIR\<rparr>)"

definition record_config :: "yaml_parser \<Rightarrow> string \<Rightarrow> string + RecordConfig" where
  "record_config yaml cfg = and_then (parse_config yaml cfg) (\<lambda>hc. Inr (cfg_record hc))"

definition cfg_record_enabled_raw :: "HostConfig \<Rightarrow> bool option" where
  "cfg_record_enabled_raw hc = Option.bind (hc_record hc) rs_enabled"

definition stream_config_of :: "StreamDefaults \<Rightarrow> StreamEntry \<Rightarrow> string + StreamConfig" where
  "stream_config_of d s =
     and_then (case option_or (st_stream_mode s) (td_stream_mode d) of
        Some m \<Rightarrow>
          (case mode_from_str m of
             Inl _ \<Rightarrow> Inl (''host.yaml parse failed: stream '' @ st_id s @ '' stream_mode='' @ m
                          @ '' illegal (legal: smooth|balanced|quality)'')
           | Inr _ \<Rightarrow> Inr ())
      | None \<Rightarrow> Inr ())
     (\<lambda>_.
      let codec = unwrap_or (option_or (st_codec s) (td_codec d)) ''h264'' in
      if codec \<notin> {''vp8'', ''h264'', ''vp9'', ''av1''}
      then Inl (''host.yaml parse failed: stream '' @ st_id s @ '' codec='' @ codec @ '' illegal (legal: vp8|h264|vp9|av1)'')
      else Inr \<lparr>tc_id = st_id s, tc_source = unwrap_or (st_source s) (st_id s), tc_codec = codec,
                tc_encoder_backend = option_or (st_encoder_backend s) (td_encoder_backend d),
                tc_bitrate_kbps = option_or (st_bitrate_kbps s) (td_bitrate_kbps d),
                tc_stream_mode = option_or (st_stream_mode s) (td_stream_mode d),
                tc_min_bitrate_kbps = option_or (st_min_bitrate_kbps s) (td_min_bitrate_kbps d),
                tc_keyframe_interval = option_or (st_keyframe_interval s) (td_keyframe_interval d)\<rparr>)"

definition cfg_streams :: "HostConfig \<Rightarrow> string + StreamConfig list" where
  "cfg_streams hc = try_map (stream_config_of (df_streams (hc_defaults hc))) (hc_streams hc)"

definition stream_configs :: "yaml_parser \<Rightarrow> string \<Rightarrow> string + StreamConfig list" where
  "stream_configs yaml cfg = and_then (parse_config yaml cfg) cfg_streams"

definition stream_config :: "yaml_parser \<Rightarrow> string \<Rightarrow> string \<Rightarrow> string + StreamConfig option" where
  "stream_config yaml cfg ident = and_then (stream_configs yaml cfg) (\<lambda>ss. Inr (List.find (\<lambda>s. tc_id s = ident) ss))"

section \<open>Validation\<close>

definition id_char :: "char \<Rightarrow> bool" where
  "id_char c = (ascii_alphanumeric c \<or> c = CHR ''-'' \<or> c = CHR ''_'')"

definition check_id :: "string \<Rightarrow> string \<Rightarrow> string + unit" where
  "check_id kind ident =
     (if ident = [] \<or> \<not> list_all id_char ident
      then Inl (''host.yaml parse failed: '' @ kind @ '' id invalid: '' @ debug_str ident @ '' (only [A-Za-z0-9_-]+ allowed)'')
      else Inr ())"

text \<open>The loop over the ids with its set of the ids seen.\<close>

fun check_ids :: "string \<Rightarrow> string \<Rightarrow> string set \<Rightarrow> string list \<Rightarrow> string + unit" where
  "check_ids kind dup seen [] = Inr ()"
| "check_ids kind dup seen (i # is') =
     and_then (check_id kind i) (\<lambda>_.
       if i \<in> seen then Inl (''host.yaml parse failed: duplicate '' @ dup @ '' id: '' @ i)
       else check_ids kind dup (insert i seen) is')"

definition validate :: "HostEnv \<Rightarrow> yaml_parser \<Rightarrow> string \<Rightarrow> string + unit" where
  "validate E yaml cfg =
     and_then (camera_configs yaml cfg) (\<lambda>sources.
     and_then (stream_configs yaml cfg) (\<lambda>streams.
     and_then (record_config yaml cfg) (\<lambda>_.
     and_then (signaling_local_port yaml cfg) (\<lambda>_.
     and_then (signaling_room E yaml cfg) (\<lambda>_.
     and_then (check_ids ''source'' ''video source'' {} (map sc_id sources)) (\<lambda>_.
     check_ids ''stream'' ''stream'' {} (map tc_id streams)))))))"

section \<open>The process roster\<close>

definition FIXED_APP_BASES :: "string list" where
  "FIXED_APP_BASES = [''agent'', ''recorder'', ''controller'', ''emergency'', ''audio'']"

definition app_name :: "HostEnv \<Rightarrow> string \<Rightarrow> string" where
  "app_name E base = br_app_prefix (he_brand E) @ base"

definition instance_name :: "string \<Rightarrow> string \<Rightarrow> string" where
  "instance_name kind ident = kind @ ''-'' @ ident"

definition exe_cmd :: "HostEnv \<Rightarrow> string \<Rightarrow> string" where
  "exe_cmd E name = (case he_exe_dir E of Some d \<Rightarrow> path_join d name | None \<Rightarrow> name)"

definition smooth_bitrate_floor_kbps :: "u32 \<Rightarrow> u32" where
  "smooth_bitrate_floor_kbps fps = max (fps * 100 div 30) 50"

definition resolved_encoder_backend :: "string \<Rightarrow> string option \<Rightarrow> string option" where
  "resolved_encoder_backend codec backend =
     (if (backend = None \<or> backend = Some ''auto'') \<and> codec = ''h264'' then Some ''software'' else backend)"

record App =
  ap_name :: string
  ap_command :: string
  ap_policy :: string

text \<open>An argument that is printed only when it has a value.\<close>

definition opt_arg :: "string \<Rightarrow> ('a \<Rightarrow> string) \<Rightarrow> 'a option \<Rightarrow> string" where
  "opt_arg flag pr v = (case v of Some x \<Rightarrow> '' '' @ flag @ '' '' @ pr x | None \<Rightarrow> [])"

definition path_args :: "string \<Rightarrow> string \<Rightarrow> string \<Rightarrow> string" where
  "path_args config_path token_dir token =
     (if config_path = [] then []
      else '' --config '' @ config_path @ '' --token '' @ token_dir @ ''/'' @ token)"

definition fixed_app :: "HostEnv \<Rightarrow> HostConfig \<Rightarrow> string \<Rightarrow> string \<Rightarrow> string option \<Rightarrow> string \<Rightarrow> App" where
  "fixed_app E hc config_path token_dir inst_root base =
     (let name = app_name E base;
          recorder = (if name = app_name E ''recorder'' then path_args config_path token_dir ''recorder.token'' else []);
          agent =
            (if name = app_name E ''agent''
             then opt_arg ''--port'' (\<lambda>p. show_nat (unat p)) (cfg_local_port hc)
                  @ opt_arg ''--room'' id (cfg_room E hc)
                  @ opt_arg ''--remote'' id (cfg_server_url hc)
                  @ opt_arg ''--psk'' id (cfg_psk hc)
                  @ path_args config_path token_dir ''agent.token''
             else []);
          hmac =
            (if name = app_name E ''controller''
             then opt_arg ''--hmac-key-file''
                    (\<lambda>rel. case inst_root of
                        Some r \<Rightarrow> if path_absolute rel then rel else r @ ''/'' @ rel
                      | None \<Rightarrow> rel)
                    (cfg_hmac_key_file hc)
             else []);
          audio =
            (if name = app_name E ''audio'' then '' --room audio-'' @ unwrap_or (cfg_room E hc) ''vehicle'' else [])
      in \<lparr>ap_name = name, ap_command = exe_cmd E name @ recorder @ agent @ hmac @ audio,
          ap_policy = (if name = app_name E ''recorder'' then ''on_failure'' else ''always'')\<rparr>)"

definition capturer_app :: "HostEnv \<Rightarrow> string \<Rightarrow> string \<Rightarrow> SourceConfig \<Rightarrow> App" where
  "capturer_app E config_path token_dir src =
     \<lparr>ap_name = instance_name (app_name E ''capturer'') (sc_id src),
      ap_command = exe_cmd E (app_name E ''capturer'') @ '' --camera '' @ sc_id src
        @ (if sc_mode src = ModeCamera
           then opt_arg ''--reconnect-ms'' (\<lambda>ms. show_nat (unat ms)) (sc_reconnect_ms src) else [])
        @ path_args config_path token_dir (sc_id src @ ''.token''),
      ap_policy = ''always''\<rparr>"

fun degradation_arg :: "Degradation \<Rightarrow> string" where
  "degradation_arg DegFixed = '' --degradation fixed''"
| "degradation_arg DegMaintainFramerate = '' --degradation framerate''"
| "degradation_arg DegMaintainResolution = '' --degradation resolution''"
| "degradation_arg DegBalanced = []"

text \<open>The value of a preset string that validation has admitted; \<open>None\<close> is the panic of \<open>expect\<close>.\<close>

definition preset_mode :: "string option \<Rightarrow> StreamMode option" where
  "preset_mode m =
     (case m of None \<Rightarrow> Some Balanced | Some s \<Rightarrow> (case mode_from_str s of Inl _ \<Rightarrow> None | Inr k \<Rightarrow> Some k))"

definition encoder_args :: "(string \<rightharpoonup> u32) \<Rightarrow> StreamConfig \<Rightarrow> StreamMode \<Rightarrow> string" where
  "encoder_args source_fps sc mode =
     (let b = preset_bundle mode;
          bitrate = option_or (tc_bitrate_kbps sc) (pb_bitrate_kbps b);
          floor_kbps = (if mode = Smooth
                        then Some (smooth_bitrate_floor_kbps (unwrap_or (source_fps (tc_source sc)) DEFAULT_SOURCE_FPS))
                        else None);
          min_bitrate = option_or (option_or (tc_min_bitrate_kbps sc) floor_kbps) (pb_min_bitrate_kbps b)
      in opt_arg ''--encoder-backend'' id (resolved_encoder_backend (tc_codec sc) (tc_encoder_backend sc))
         @ degradation_arg (pb_degradation b)
         @ (if pb_content_hint b = HintFluid then '' --content-hint fluid'' else [])
         @ opt_arg ''--bitrate-kbps'' (\<lambda>k. show_nat (unat k)) bitrate
         @ opt_arg ''--min-bitrate-kbps'' (\<lambda>k. show_nat (unat k)) min_bitrate
         @ opt_arg ''--keyframe-interval'' (\<lambda>g. show_nat (unat g)) (tc_keyframe_interval sc))"

definition streamer_app ::
  "HostEnv \<Rightarrow> HostConfig \<Rightarrow> string \<Rightarrow> string \<Rightarrow> (string \<rightharpoonup> StreamConfig) \<Rightarrow> (string \<rightharpoonup> u32) \<Rightarrow> string \<Rightarrow> App option" where
  "streamer_app E hc config_path token_dir stream_cfgs source_fps stream =
     map_option (\<lambda>args.
     \<lparr>ap_name = instance_name (app_name E ''streamer'') stream,
      ap_command = exe_cmd E (app_name E ''streamer'') @ '' --stream '' @ stream @ '' --gateway '' @ cfg_gateway_url hc
        @ args @ path_args config_path token_dir (stream @ ''-stream.token''),
      ap_policy = ''always''\<rparr>)
     (case stream_cfgs stream of
        None \<Rightarrow> Some []
      | Some sc \<Rightarrow> map_option (encoder_args source_fps sc) (preset_mode (tc_stream_mode sc)))"

text \<open>
  The roster of \<open>to_oxfile_with_paths\<close>: the fixed processes less a recorder that is explicitly
  disabled, one capturer per source and one streamer per stream. Collecting into a \<open>HashMap\<close> keeps
  the last of equal keys. \<open>Inr None\<close> is the panic of an illegal preset.
\<close>

definition inst_root_of :: "string \<Rightarrow> string option" where
  "inst_root_of config_path = Option.bind (path_parent config_path) path_parent"

definition last_wins :: "('a \<times> 'b) list \<Rightarrow> 'a \<rightharpoonup> 'b" where
  "last_wins kvs = map_of (rev kvs)"

definition roster ::
  "HostEnv \<Rightarrow> HostConfig \<Rightarrow> string \<Rightarrow> string \<Rightarrow> string + App list option" where
  "roster E hc config_path token_dir =
     and_then (cfg_sources hc) (\<lambda>sources.
       let root = inst_root_of config_path;
           fixed = map (fixed_app E hc config_path token_dir root)
                     (filter (\<lambda>base. \<not> (base = ''recorder'' \<and> cfg_record_enabled_raw hc = Some False)) FIXED_APP_BASES);
           capturers = map (capturer_app E config_path token_dir) sources
       in and_then (cfg_streams hc) (\<lambda>scs.
            Inr (map_option (\<lambda>streamers. fixed @ capturers @ streamers)
              (collect_options
                (map (streamer_app E hc config_path token_dir (last_wins (map (\<lambda>s. (tc_id s, s)) scs))
                        (last_wins (map (\<lambda>s. (sc_id s, sc_fps s)) sources)))
                   (map st_id (hc_streams hc)))))))"

section \<open>The oxfile\<close>

definition push_app :: "string option \<Rightarrow> string \<Rightarrow> App \<Rightarrow> string" where
  "push_app log_dir out a =
     (let logs = unwrap_or log_dir ''logs'' @ ''/'' @ ap_name a
      in out @ ''[[apps]]'' @ newline
         @ ''name = '' @ quoted (ap_name a) @ newline
         @ ''command = '' @ quoted (ap_command a) @ newline
         @ ''restart_policy = '' @ quoted (ap_policy a) @ newline
         @ ''[apps.logs]'' @ newline
         @ ''stdout = '' @ quoted (logs @ ''.out.log'') @ newline
         @ ''stderr = '' @ quoted (logs @ ''.err.log'') @ newline @ newline)"

definition oxfile_head :: "HostEnv \<Rightarrow> string option \<Rightarrow> string" where
  "oxfile_head E root =
     ''version = 1'' @ newline @ newline @ ''[defaults]'' @ newline
     @ ''namespace = '' @ quoted (br_namespace (he_brand E)) @ newline
     @ ''restart_policy = '' @ quoted ''always'' @ newline
     @ (case root of Some cwd \<Rightarrow> ''cwd = '' @ quoted cwd @ newline | None \<Rightarrow> []) @ newline"

definition to_oxfile_with_paths ::
  "HostEnv \<Rightarrow> yaml_parser \<Rightarrow> string \<Rightarrow> string \<Rightarrow> string \<Rightarrow> string + string option" where
  "to_oxfile_with_paths E yaml cfg config_path token_dir =
     and_then (parse_config yaml cfg) (\<lambda>hc.
     and_then (roster E hc config_path token_dir) (\<lambda>apps.
       let root = inst_root_of config_path;
           log_dir = map_option (\<lambda>d. d @ ''/run/logs'') root
       in Inr (map_option (foldl (push_app log_dir) (oxfile_head E root)) apps)))"

definition to_oxfile :: "HostEnv \<Rightarrow> yaml_parser \<Rightarrow> string \<Rightarrow> string + string option" where
  "to_oxfile E yaml cfg = to_oxfile_with_paths E yaml cfg [] []"

definition host_yaml :: "string \<Rightarrow> string" where
  "host_yaml dir = path_join (path_join dir ''etc'') ''host.yaml''"

definition to_oxfile_in_dir :: "HostEnv \<Rightarrow> yaml_parser \<Rightarrow> string \<Rightarrow> string \<Rightarrow> string + string option" where
  "to_oxfile_in_dir E yaml cfg dir =
     (let token_dir = path_join (path_join dir ''etc'') ''link''
      in to_oxfile_with_paths E yaml cfg
           (unwrap_or (he_absolute E (host_yaml dir)) (host_yaml dir))
           (unwrap_or (he_absolute E token_dir) token_dir))"

section \<open>The expected processes\<close>

definition cfg_expected :: "HostEnv \<Rightarrow> HostConfig \<Rightarrow> string list" where
  "cfg_expected E hc =
     (let base = map (app_name E) FIXED_APP_BASES;
          fixed = (if rc_enabled (cfg_record hc) then base else filter (\<lambda>n. n \<noteq> app_name E ''recorder'') base)
      in fixed @ map (\<lambda>s. instance_name (app_name E ''capturer'') (so_id s)) (hc_sources hc)
         @ map (\<lambda>s. instance_name (app_name E ''streamer'') (st_id s)) (hc_streams hc))"

definition expected_process_names :: "HostEnv \<Rightarrow> yaml_parser \<Rightarrow> string \<Rightarrow> string + string list" where
  "expected_process_names E yaml cfg = and_then (parse_config yaml cfg) (\<lambda>hc. Inr (cfg_expected E hc))"

section \<open>What a validated file renders to\<close>

lemma unwrap_option_or: "unwrap_or (option_or a b) d = unwrap_or a (unwrap_or b d)"
  by (simp add: option_or_def unwrap_or_def split: option.split)

lemma source_config_fields:
  assumes "source_config d c = Inr s"
  shows "sc_id s = so_id c" and "1 \<le> sc_fps s" and "sc_fps s \<le> 60"
    and "sc_fps s = unwrap_or (so_fps c) (unwrap_or (sd_fps d) DEFAULT_SOURCE_FPS)"
proof -
  have "sc_fps s \<noteq> 0 \<and> sc_fps s \<le> 60 \<and> sc_id s = so_id c
    \<and> sc_fps s = unwrap_or (so_fps c) (unwrap_or (sd_fps d) DEFAULT_SOURCE_FPS)"
    using assms by (auto simp: source_config_def and_then_Inr Let_def unwrap_option_or split: if_splits)
  then show "sc_id s = so_id c" "1 \<le> sc_fps s" "sc_fps s \<le> 60"
    "sc_fps s = unwrap_or (so_fps c) (unwrap_or (sd_fps d) DEFAULT_SOURCE_FPS)"
    by (auto simp: word_le_nat_alt unat_gt_0 Suc_le_eq)
qed

lemma stream_config_fields:
  assumes "stream_config_of d s = Inr c"
  shows "tc_id c = st_id s" and "preset_mode (tc_stream_mode c) \<noteq> None"
  using assms
  by (auto simp: stream_config_of_def and_then_Inr Let_def preset_mode_def split: if_splits option.splits sum.splits)

lemma cfg_sources_ids: "cfg_sources hc = Inr ss \<Longrightarrow> map sc_id ss = map so_id (hc_sources hc)"
  unfolding cfg_sources_def by (erule try_map_map) (rule source_config_fields(1))

lemma cfg_streams_ids: "cfg_streams hc = Inr ss \<Longrightarrow> map tc_id ss = map st_id (hc_streams hc)"
  unfolding cfg_streams_def by (erule try_map_map) (rule stream_config_fields(1))

lemma cfg_sources_fps:
  assumes "cfg_sources hc = Inr ss" and "s \<in> set ss"
  shows "1 \<le> sc_fps s \<and> sc_fps s \<le> 60"
  using assms source_config_fields
  by (fastforce simp: cfg_sources_def try_map_Inr list_all2_conv_all_nth in_set_conv_nth)

lemma cfg_streams_preset:
  assumes "cfg_streams hc = Inr ss" and "s \<in> set ss"
  shows "preset_mode (tc_stream_mode s) \<noteq> None"
  using assms stream_config_fields(2)
  by (fastforce simp: cfg_streams_def try_map_Inr list_all2_conv_all_nth in_set_conv_nth)

lemma collect_options_Some: "collect_options xs = Some ys \<longleftrightarrow> xs = map Some ys"
  by (induction xs arbitrary: ys rule: collect_options.induct) (auto split: option.splits)

lemma collect_options_total: "(\<forall>x\<in>set xs. x \<noteq> None) \<Longrightarrow> collect_options xs = Some (map the xs)"
  by (auto simp: collect_options_Some comp_def intro!: map_idI [symmetric])

lemma last_wins_in: "last_wins kvs k = Some v \<Longrightarrow> (k, v) \<in> set kvs"
  by (auto simp: last_wins_def dest: map_of_SomeD)

lemma streamer_app_total:
  assumes "cfg_streams hc = Inr scs"
  shows "streamer_app E hc cp td (last_wins (map (\<lambda>s. (tc_id s, s)) scs)) fps stream \<noteq> None"
  using cfg_streams_preset [OF assms] last_wins_in [of "map (\<lambda>s. (tc_id s, s)) scs" stream]
  by (fastforce simp: streamer_app_def split: option.splits)

lemma streamer_app_name:
  "streamer_app E hc cp td m fps stream = Some a \<Longrightarrow> ap_name a = instance_name (app_name E ''streamer'') stream"
  by (auto simp: streamer_app_def)

lemma fixed_app_name [simp]: "ap_name (fixed_app E hc cp td root base) = app_name E base"
  by (simp add: fixed_app_def Let_def)

lemma capturer_app_name [simp]: "ap_name (capturer_app E cp td s) = instance_name (app_name E ''capturer'') (sc_id s)"
  by (simp add: capturer_app_def)

text \<open>The names of the roster, in order.\<close>

definition roster_bases :: "HostConfig \<Rightarrow> string list" where
  "roster_bases hc =
     filter (\<lambda>base. \<not> (base = ''recorder'' \<and> cfg_record_enabled_raw hc = Some False)) FIXED_APP_BASES"

definition roster_names :: "HostEnv \<Rightarrow> HostConfig \<Rightarrow> string list" where
  "roster_names E hc =
     map (app_name E)
       (roster_bases hc @ map (\<lambda>s. ''capturer-'' @ so_id s) (hc_sources hc) @ map (\<lambda>s. ''streamer-'' @ st_id s) (hc_streams hc))"

lemma instance_app_name:
  "instance_name (app_name E ''capturer'') i = app_name E (''capturer-'' @ i)"
  "instance_name (app_name E ''streamer'') i = app_name E (''streamer-'' @ i)"
  by (simp_all add: instance_name_def app_name_def)

lemma streamer_apps:
  assumes "cfg_streams hc = Inr ts"
  shows "\<exists>apps. collect_options (map (streamer_app E hc cp td (last_wins (map (\<lambda>s. (tc_id s, s)) ts)) fps) is') = Some apps
    \<and> map ap_name apps = map (\<lambda>i. app_name E (''streamer-'' @ i)) is'"
proof -
  define f where "f = streamer_app E hc cp td (last_wins (map (\<lambda>s. (tc_id s, s)) ts)) fps"
  have tot: "f i \<noteq> None" for i unfolding f_def by (rule streamer_app_total [OF assms])
  have "ap_name (the (f i)) = instance_name (app_name E ''streamer'') i" for i
    by (rule streamer_app_name) (use tot [of i] in \<open>simp add: f_def\<close>)
  then have "map ap_name (map (the \<circ> f) is') = map (\<lambda>i. app_name E (''streamer-'' @ i)) is'"
    by (simp only: map_map comp_def instance_app_name(2))
  moreover have "collect_options (map f is') = Some (map (the \<circ> f) is')"
    using tot by (subst collect_options_total) auto
  ultimately show ?thesis unfolding f_def by blast
qed

lemma roster_Inr:
  assumes "cfg_sources hc = Inr ss" and "cfg_streams hc = Inr ts"
  shows "\<exists>apps. roster E hc cp td = Inr (Some apps) \<and> map ap_name apps = roster_names E hc"
proof -
  obtain streamers where st:
    "collect_options (map (streamer_app E hc cp td (last_wins (map (\<lambda>s. (tc_id s, s)) ts))
       (last_wins (map (\<lambda>s. (sc_id s, sc_fps s)) ss))) (map st_id (hc_streams hc))) = Some streamers"
    "map ap_name streamers = map (\<lambda>i. app_name E (''streamer-'' @ i)) (map st_id (hc_streams hc))"
    using streamer_apps [OF assms(2)] by blast
  define fixed where "fixed = map (fixed_app E hc cp td (inst_root_of cp)) (roster_bases hc)"
  have "roster E hc cp td = Inr (Some (fixed @ map (capturer_app E cp td) ss @ streamers))"
    by (simp only: roster_def assms and_then.simps Let_def st(1) option.map fixed_def roster_bases_def)
  moreover have "map ap_name fixed = map (app_name E) (roster_bases hc)"
    unfolding fixed_def by (simp only: map_map comp_def fixed_app_name)
  moreover have "map ap_name (map (capturer_app E cp td) ss) = map (\<lambda>i. app_name E (''capturer-'' @ i)) (map sc_id ss)"
    by (simp only: map_map comp_def capturer_app_name instance_app_name(1))
  ultimately show ?thesis
    by (simp only: roster_names_def map_append st(2) cfg_sources_ids [OF assms(1)] map_map comp_def ex_simps simp_thms sum.inject option.inject)
qed

lemma roster_Some:
  assumes "roster E hc cp td = Inr r"
  shows "\<exists>apps. r = Some apps \<and> map ap_name apps = roster_names E hc"
proof -
  obtain ss ts where "cfg_sources hc = Inr ss" "cfg_streams hc = Inr ts"
    using assms by (auto simp: roster_def and_then_Inr Let_def)
  from roster_Inr [OF this] assms show ?thesis by (metis sum.inject(2))
qed

lemma check_ids_ok:
  "check_ids kind dup seen is' = Inr u \<longleftrightarrow>
     (\<forall>i\<in>set is'. i \<noteq> [] \<and> list_all id_char i) \<and> distinct is' \<and> set is' \<inter> seen = {}"
  by (induction is' arbitrary: seen) (auto simp: result_simps check_id_def split: if_splits)

lemma validate_Inr:
  "validate E yaml cfg = Inr () \<longleftrightarrow>
     (\<exists>hc ss ts. yaml cfg = Inr hc \<and> cfg_sources hc = Inr ss \<and> cfg_streams hc = Inr ts
        \<and> (\<forall>s\<in>set (hc_sources hc). so_id s \<noteq> [] \<and> list_all id_char (so_id s)) \<and> distinct (map so_id (hc_sources hc))
        \<and> (\<forall>s\<in>set (hc_streams hc). st_id s \<noteq> [] \<and> list_all id_char (st_id s)) \<and> distinct (map st_id (hc_streams hc)))"
  (is "?l \<longleftrightarrow> ?r")
proof -
  have "?l \<longleftrightarrow> (\<exists>hc ss ts. yaml cfg = Inr hc \<and> cfg_sources hc = Inr ss \<and> cfg_streams hc = Inr ts
      \<and> check_ids ''source'' ''video source'' {} (map sc_id ss) = Inr ()
      \<and> check_ids ''stream'' ''stream'' {} (map tc_id ts) = Inr ())"
    by (auto simp: validate_def camera_configs_def stream_configs_def record_config_def signaling_local_port_def
        signaling_room_def parse_config_def result_simps split: sum.splits)
  also have "\<dots> \<longleftrightarrow> ?r"
  proof -
    have src: "check_ids ''source'' ''video source'' {} (map sc_id ss) = Inr () \<longleftrightarrow>
        (\<forall>s\<in>set (hc_sources hc). so_id s \<noteq> [] \<and> list_all id_char (so_id s)) \<and> distinct (map so_id (hc_sources hc))"
      if "cfg_sources hc = Inr ss" for hc ss
      by (simp only: cfg_sources_ids [OF that] check_ids_ok) simp
    have str: "check_ids ''stream'' ''stream'' {} (map tc_id ts) = Inr () \<longleftrightarrow>
        (\<forall>s\<in>set (hc_streams hc). st_id s \<noteq> [] \<and> list_all id_char (st_id s)) \<and> distinct (map st_id (hc_streams hc))"
      if "cfg_streams hc = Inr ts" for hc ts
      by (simp only: cfg_streams_ids [OF that] check_ids_ok) simp
    show ?thesis by (simp only: src str conj_assoc cong: conj_cong)
  qed
  finally show ?thesis .
qed

lemma id_char_alphanumeric [simp]: "ascii_lower c \<Longrightarrow> id_char c" "ascii_digit c \<Longrightarrow> id_char c" "id_char (CHR ''-'')"
  by (auto simp: id_char_def ascii_alphanumeric_def Let_def)

lemma media_brand_prefix: "list_all id_char (br_app_prefix (media_brand env compiled))"
  by (auto simp: media_brand_def media_brand_from_def default_brand_def valid_brand_def Let_def list_all_iff
      id_char_def ascii_alphanumeric_def ascii_lower_def ascii_digit_def split: option.splits)

lemma roster_bases_subset: "set (roster_bases hc) \<subseteq> set FIXED_APP_BASES"
  by (auto simp: roster_bases_def)

lemma fixed_bases:
  assumes "b \<in> set FIXED_APP_BASES"
  shows "b \<noteq> []" and "list_all id_char b" and "take 9 b \<noteq> ''capturer-''" and "take 9 b \<noteq> ''streamer-''"
  using assms unfolding FIXED_APP_BASES_def
  by (auto simp: id_char_def ascii_alphanumeric_def ascii_lower_def)

lemma roster_bases_distinct: "distinct (roster_bases hc)"
  unfolding roster_bases_def by (rule distinct_filter) (simp add: FIXED_APP_BASES_def)

lemma roster_bases_fixed:
  assumes "b \<in> set (roster_bases hc)"
  shows "b \<noteq> ''capturer-'' @ i" and "b \<noteq> ''streamer-'' @ i"
  using fixed_bases(3,4) [of b] assms roster_bases_subset by fastforce+

lemma roster_names_distinct:
  assumes "distinct (map so_id (hc_sources hc))" and "distinct (map st_id (hc_streams hc))"
  shows "distinct (roster_names E hc)"
proof -
  let ?c = "map (\<lambda>s. ''capturer-'' @ so_id s) (hc_sources hc)" and ?s = "map (\<lambda>s. ''streamer-'' @ st_id s) (hc_streams hc)"
  have inj: "inj_on (app_name E) A" for A by (auto simp: inj_on_def app_name_def)
  have "distinct ?c" "distinct ?s" using assms by (simp_all add: distinct_map inj_on_def)
  moreover have "set (roster_bases hc) \<inter> set ?c = {}" "set (roster_bases hc) \<inter> set ?s = {}"
    using roster_bases_fixed [of _ hc] by fastforce+
  moreover have "set ?c \<inter> set ?s = {}" by auto
  ultimately have "distinct (roster_bases hc @ ?c @ ?s)"
    using roster_bases_distinct [of hc] by (simp only: distinct_append set_append Int_Un_distrib Un_empty simp_thms)
  then show ?thesis unfolding roster_names_def distinct_map using inj by blast
qed

lemma roster_names_chars:
  assumes "list_all id_char (br_app_prefix (he_brand E))"
    and "\<forall>s\<in>set (hc_sources hc). list_all id_char (so_id s)"
    and "\<forall>s\<in>set (hc_streams hc). list_all id_char (st_id s)"
    and "n \<in> set (roster_names E hc)"
  shows "list_all id_char n"
proof -
  have kinds: "list_all id_char ''capturer-''" "list_all id_char ''streamer-''"
    by (simp_all add: id_char_def ascii_alphanumeric_def ascii_lower_def)
  have "list_all id_char b" if "b \<in> set (roster_bases hc)" for b
    using that fixed_bases(2) roster_bases_subset by blast
  then show ?thesis
    using assms kinds unfolding roster_names_def app_name_def set_map set_append image_Un
    by (elim UnE imageE; hypsubst; unfold list_all_append; blast)
qed

text \<open>
  C8. A host.yaml that passes validation always renders: no preset panics, every process name of the
  roster is distinct, and each is written with letters, digits, underscores and hyphens only, so no name
  can break out of its quotes in the oxfile; this holds for every brand the environment can select.
\<close>

theorem validated_config_renders:
  assumes "validate E yaml cfg = Inr ()" and "he_brand E = media_brand env compiled"
  shows "\<exists>hc apps oxfile. yaml cfg = Inr hc \<and> roster E hc config_path token_dir = Inr (Some apps)
    \<and> to_oxfile_with_paths E yaml cfg config_path token_dir = Inr (Some oxfile)
    \<and> distinct (map ap_name apps) \<and> (\<forall>a\<in>set apps. ap_name a \<noteq> [] \<and> list_all id_char (ap_name a))"
proof -
  obtain hc ss ts where hc: "yaml cfg = Inr hc" "cfg_sources hc = Inr ss" "cfg_streams hc = Inr ts"
    and ids: "\<forall>s\<in>set (hc_sources hc). list_all id_char (so_id s)" "distinct (map so_id (hc_sources hc))"
      "\<forall>s\<in>set (hc_streams hc). list_all id_char (st_id s)" "distinct (map st_id (hc_streams hc))"
    using assms(1) unfolding validate_Inr by blast
  obtain apps where apps: "roster E hc config_path token_dir = Inr (Some apps)" "map ap_name apps = roster_names E hc"
    using roster_Inr [OF hc(2,3)] by blast
  have "list_all id_char (br_app_prefix (he_brand E))" using assms(2) media_brand_prefix by simp
  then have "\<forall>n\<in>set (map ap_name apps). list_all id_char n"
    unfolding apps(2) using roster_names_chars ids by blast
  moreover have "\<forall>n\<in>set (map ap_name apps). n \<noteq> []"
    unfolding apps(2) using fixed_bases(1) roster_bases_subset [of hc] by (auto simp: roster_names_def app_name_def)
  moreover have "distinct (map ap_name apps)"
    unfolding apps(2) by (rule roster_names_distinct [OF ids(2,4)])
  moreover have "\<exists>oxfile. to_oxfile_with_paths E yaml cfg config_path token_dir = Inr (Some oxfile)"
    by (simp add: to_oxfile_with_paths_def parse_config_def Let_def hc(1) apps(1))
  ultimately show ?thesis using apps(1) hc(1) by simp
qed

text \<open>A small vehicle: one generated camera, one stream in the smooth preset.\<close>

definition demo_source :: Source where
  "demo_source =
     \<lparr>so_id = ''cam0'', so_mode = None, so_backend = None, so_input = None, so_width = None, so_height = None,
      so_fps = Some 24, so_reconnect_ms = None, so_source = None\<rparr>"

definition demo_stream :: StreamEntry where
  "demo_stream =
     \<lparr>st_id = ''t1'', st_source = Some ''cam0'', st_codec = None, st_encoder_backend = None, st_bitrate_kbps = None,
      st_stream_mode = Some ''smooth'', st_min_bitrate_kbps = None, st_keyframe_interval = None\<rparr>"

definition no_defaults :: DefaultsCfg where
  "no_defaults =
     \<lparr>df_sources = \<lparr>sd_backend = None, sd_width = None, sd_height = None, sd_fps = None, sd_reconnect_ms = None\<rparr>,
      df_streams = \<lparr>td_codec = None, td_encoder_backend = None, td_bitrate_kbps = None, td_stream_mode = None,
                    td_min_bitrate_kbps = None, td_keyframe_interval = None\<rparr>\<rparr>"

definition demo_config :: "SignalingSection option \<Rightarrow> HostConfig" where
  "demo_config signaling =
     \<lparr>hc_sources = [demo_source], hc_streams = [demo_stream], hc_record = None, hc_signaling = signaling,
      hc_defaults = no_defaults, hc_control = None\<rparr>"

definition demo_yaml :: yaml_parser where
  "demo_yaml cfg = (if cfg = ''demo'' then Inr (demo_config None) else Inl ''no document'')"

definition demo_host_env :: HostEnv where
  "demo_host_env =
     \<lparr>he_brand = media_brand None None, he_exe_dir = Some ''/opt/bin'', he_hostname = None,
      he_absolute = (\<lambda>p. Some p), he_canonical = (\<lambda>p. Some p)\<rparr>"

lemma demo_stream_config:
  "stream_config_of (df_streams no_defaults) demo_stream =
     Inr \<lparr>tc_id = ''t1'', tc_source = ''cam0'', tc_codec = ''h264'', tc_encoder_backend = None, tc_bitrate_kbps = None,
          tc_stream_mode = Some ''smooth'', tc_min_bitrate_kbps = None, tc_keyframe_interval = None\<rparr>"
  by code_simp

lemma demo_source_config:
  "source_config (df_sources no_defaults) demo_source =
     Inr \<lparr>sc_id = ''cam0'', sc_mode = ModeGenerator, sc_width = 1280, sc_height = 720, sc_fps = 24, sc_input = None,
          sc_reconnect_ms = None\<rparr>"
  by code_simp

lemma demo_validates:
  assumes "yaml cfg = Inr (demo_config s)"
  shows "validate E yaml cfg = Inr ()"
proof -
  have "cfg_sources (demo_config s) = Inr [\<lparr>sc_id = ''cam0'', sc_mode = ModeGenerator, sc_width = 1280, sc_height = 720,
      sc_fps = 24, sc_input = None, sc_reconnect_ms = None\<rparr>]"
    by (simp add: cfg_sources_def demo_config_def demo_source_config)
  moreover have "\<exists>ts. cfg_streams (demo_config s) = Inr ts"
    by (simp add: cfg_streams_def demo_config_def demo_stream_config)
  ultimately show ?thesis
    unfolding validate_Inr assms
    by (auto simp: demo_config_def demo_source_def demo_stream_def id_char_def ascii_alphanumeric_def ascii_lower_def ascii_digit_def)
qed

theorem validated_config_renders_witness:
  "\<exists>hc apps oxfile. demo_yaml ''demo'' = Inr hc
    \<and> roster demo_host_env hc ''/opt/etc/host.yaml'' ''/opt/etc/link'' = Inr (Some apps)
    \<and> to_oxfile_with_paths demo_host_env demo_yaml ''demo'' ''/opt/etc/host.yaml'' ''/opt/etc/link'' = Inr (Some oxfile)
    \<and> distinct (map ap_name apps) \<and> (\<forall>a\<in>set apps. ap_name a \<noteq> [] \<and> list_all id_char (ap_name a))"
proof (rule validated_config_renders)
  show "validate demo_host_env demo_yaml ''demo'' = Inr ()"
    by (rule demo_validates [of _ _ None]) (simp add: demo_yaml_def)
  show "he_brand demo_host_env = media_brand None None" by (simp add: demo_host_env_def)
qed

text \<open>
  The ids are the only values the guard covers: a room name with a quote and a newline passes
  validation and starts an app of its own in the rendered roster.
\<close>

definition quote_room :: string where
  "quote_room = CHR 34 # newline @ ''[[apps]]'' @ newline @ ''name = '' @ [CHR 34] @ ''x''"

lemma room_breaks_quotes:
  defines "hc \<equiv> demo_config (Some \<lparr>ss_local_port = None, ss_room = Some quote_room, ss_server_url = None, ss_psk = None\<rparr>)"
  shows "validate E (\<lambda>_. Inr hc) cfg = Inr ()"
    and "\<exists>pre post. ap_command (fixed_app demo_host_env hc [] [] None ''agent'') = pre @ quote_room @ post"
proof -
  show "validate E (\<lambda>_. Inr hc) cfg = Inr ()" unfolding hc_def by (rule demo_validates) simp
  have "ap_command (fixed_app demo_host_env hc [] [] None ''agent'') = ''/opt/bin/host-agent --room '' @ quote_room @ []"
    unfolding hc_def quote_room_def by code_simp
  then show "\<exists>pre post. ap_command (fixed_app demo_host_env hc [] [] None ''agent'') = pre @ quote_room @ post" by blast
qed

text \<open>
  The frame rate every consumer sees lies between 1 and 60, whichever of entry, defaults and builtin
  it came from; the bitrate floor of the smooth preset is therefore computed without 32-bit
  wrap-around and lies between 50 and 200 kbps.
\<close>

theorem smooth_floor_exact:
  assumes "camera_configs yaml cfg = Inr sources" and "s \<in> set sources"
  shows "1 \<le> sc_fps s \<and> sc_fps s \<le> 60
    \<and> unat (smooth_bitrate_floor_kbps (sc_fps s)) = max (unat (sc_fps s) * 100 div 30) 50
    \<and> 50 \<le> smooth_bitrate_floor_kbps (sc_fps s) \<and> smooth_bitrate_floor_kbps (sc_fps s) \<le> 200"
proof -
  have fps: "1 \<le> sc_fps s \<and> sc_fps s \<le> 60"
    using assms cfg_sources_fps by (auto simp: camera_configs_def and_then_Inr)
  then have small: "unat (sc_fps s) \<le> 60" by (simp add: word_le_nat_alt)
  have times: "unat (sc_fps s * 100) = unat (sc_fps s) * 100"
    using small by (simp add: unat_word_ariths)
  then have div: "unat (sc_fps s * 100 div 30) = unat (sc_fps s) * 100 div 30" by (simp add: unat_div)
  have "unat (max a b) = max (unat a) (unat b)" for a b :: u32 by (auto simp: max_def word_le_nat_alt)
  then have eq: "unat (smooth_bitrate_floor_kbps (sc_fps s)) = max (unat (sc_fps s) * 100 div 30) 50"
    unfolding smooth_bitrate_floor_kbps_def div [symmetric] by simp
  have "50 \<le> smooth_bitrate_floor_kbps (sc_fps s) \<and> smooth_bitrate_floor_kbps (sc_fps s) \<le> 200"
    unfolding word_le_nat_alt eq using small by auto
  with fps eq show ?thesis by blast
qed

theorem smooth_floor_exact_witness:
  "unat (smooth_bitrate_floor_kbps 24) = 80"
proof -
  define s where "s = \<lparr>sc_id = ''cam0'', sc_mode = ModeGenerator, sc_width = 1280, sc_height = 720, sc_fps = 24,
    sc_input = None, sc_reconnect_ms = None\<rparr>"
  have "camera_configs demo_yaml ''demo'' = Inr [s]"
    by (simp add: camera_configs_def parse_config_def demo_yaml_def cfg_sources_def demo_config_def demo_source_config s_def)
  from smooth_floor_exact [OF this, of s] show ?thesis by (simp add: s_def)
qed

end
