(* ===== verification/HostIO.thy ===== *)
theory HostIO
  imports Translate "HOL-Library.Countable"
begin

text \<open>
  Effects of the vehicle's configuration core: a world of files, of the machine's state (processes,
  clock, locks, the \<open>oxmgr\<close> daemon) and of faults, and computations over it that return, fail, crash
  or give up. Every effect takes the next fault of the world: it proceeds, fails with an error, or
  the process dies there; a write that fails or dies may leave a prefix of its text behind. A theorem
  over all worlds is therefore a theorem over every I/O error and every crash point.
\<close>

section \<open>Text\<close>

definition ends_with :: "string \<Rightarrow> string \<Rightarrow> bool" where
  "ends_with s t = suffix t s"

definition em_dash :: string where
  "em_dash = [CHR 0xE2, CHR 0x80, CHR 0x94]"

text \<open>
  \<open>String::from_utf8_lossy\<close>: a maximal ill-formed prefix becomes one replacement character.
\<close>

definition utf8_width :: "nat \<Rightarrow> nat" where
  "utf8_width a =
     (if a < 0x80 then 1 else if 0xC2 \<le> a \<and> a \<le> 0xDF then 2 else if 0xE0 \<le> a \<and> a \<le> 0xEF then 3
      else if 0xF0 \<le> a \<and> a \<le> 0xF4 then 4 else 0)"

definition utf8_second :: "nat \<Rightarrow> nat \<Rightarrow> bool" where
  "utf8_second a b =
     ((if a = 0xE0 then 0xA0 else if a = 0xF0 then 0x90 else 0x80) \<le> b
      \<and> b \<le> (if a = 0xED then 0x9F else if a = 0xF4 then 0x8F else 0xBF))"

definition utf8_tail :: "nat \<Rightarrow> string \<Rightarrow> string" where
  "utf8_tail a r =
     (case take (utf8_width a - 1) r of
        [] \<Rightarrow> []
      | b # cs \<Rightarrow> if utf8_second a (of_char b) then b # takeWhile utf8_cont cs else [])"

function utf8_lossy :: "string \<Rightarrow> string" where
  "utf8_lossy [] = []"
| "utf8_lossy (c # r) =
     (let a = of_char c :: nat; t = utf8_tail a r
      in (if utf8_width a \<noteq> 0 \<and> length t = utf8_width a - 1 then c # t else [CHR 0xEF, CHR 0xBF, CHR 0xBD])
         @ utf8_lossy (drop (length t) r))"
  by pat_completeness auto
termination by (relation "measure length") (auto simp: le_imp_less_Suc)

section \<open>Worlds and runs\<close>

datatype Fate = Proceed | IoFail string "nat option" | CrashAt "nat option"

text \<open>The list of child processes started so far is only observed, no computation reads it.\<close>

record 'd World =
  wo_files :: "string \<rightharpoonup> string"
  wo_sys :: 'd
  wo_fates :: "Fate list"
  wo_cmds :: "(string \<times> string list) list"

datatype 'a Run = Done 'a | Failed string | Crashed | Stuck

type_synonym ('d, 'a) core = "'d World \<Rightarrow> 'a Run \<times> 'd World"

definition ret :: "'a \<Rightarrow> ('d, 'a) core" where
  "ret x w = (Done x, w)"

definition throw :: "string \<Rightarrow> ('d, 'a) core" where
  "throw e w = (Failed e, w)"

definition bind_c :: "('d, 'a) core \<Rightarrow> ('a \<Rightarrow> ('d, 'b) core) \<Rightarrow> ('d, 'b) core" where
  "bind_c m f w =
     (case m w of
        (Done x, w') \<Rightarrow> f x w'
      | (Failed e, w') \<Rightarrow> (Failed e, w')
      | (Crashed, w') \<Rightarrow> (Crashed, w')
      | (Stuck, w') \<Rightarrow> (Stuck, w'))"

text \<open>A \<open>Result\<close> that is looked at instead of propagated, a rewritten error, and a value that may be an error.\<close>

definition attempt :: "('d, 'a) core \<Rightarrow> ('d, string + 'a) core" where
  "attempt m w =
     (case m w of
        (Done x, w') \<Rightarrow> (Done (Inr x), w')
      | (Failed e, w') \<Rightarrow> (Done (Inl e), w')
      | (Crashed, w') \<Rightarrow> (Crashed, w')
      | (Stuck, w') \<Rightarrow> (Stuck, w'))"

definition map_err :: "(string \<Rightarrow> string) \<Rightarrow> ('d, 'a) core \<Rightarrow> ('d, 'a) core" where
  "map_err f m w = (case m w of (Failed e, w') \<Rightarrow> (Failed (f e), w') | r \<Rightarrow> r)"

definition lift_res :: "string + 'a \<Rightarrow> ('d, 'a) core" where
  "lift_res r = (case r of Inl e \<Rightarrow> throw e | Inr x \<Rightarrow> ret x)"

text \<open>A panic ends the process.\<close>

definition panic :: "('d, 'a) core" where
  "panic w = (Crashed, w)"

fun for_each :: "('a \<Rightarrow> ('d, unit) core) \<Rightarrow> 'a list \<Rightarrow> ('d, unit) core" where
  "for_each f [] = ret ()"
| "for_each f (x # xs) = bind_c (f x) (\<lambda>_. for_each f xs)"

section \<open>Effects\<close>

definition fated :: "('d, 'a) core \<Rightarrow> (nat \<Rightarrow> 'd World \<Rightarrow> 'd World) \<Rightarrow> ('d, 'a) core" where
  "fated act torn w =
     (case wo_fates w of
        [] \<Rightarrow> act w
      | f # fs \<Rightarrow>
          let w1 = w\<lparr>wo_fates := fs\<rparr>;
              part = (\<lambda>n. case n of None \<Rightarrow> w1 | Some k \<Rightarrow> torn k w1)
          in case f of
               Proceed \<Rightarrow> act w1
             | IoFail e n \<Rightarrow> (Failed e, part n)
             | CrashAt n \<Rightarrow> (Crashed, part n))"

abbreviation put_file :: "string \<Rightarrow> string \<Rightarrow> 'd World \<Rightarrow> 'd World" where
  "put_file p t w \<equiv> w\<lparr>wo_files := (wo_files w)(p \<mapsto> t)\<rparr>"

abbreviation del_file :: "string \<Rightarrow> 'd World \<Rightarrow> 'd World" where
  "del_file p w \<equiv> w\<lparr>wo_files := (wo_files w)(p := None)\<rparr>"

definition not_found :: string where
  "not_found = ''No such file or directory (os error 2)''"

definition read_file :: "string \<Rightarrow> ('d, string) core" where
  "read_file p =
     fated (\<lambda>w. case wo_files w p of Some t \<Rightarrow> (Done t, w) | None \<Rightarrow> (Failed not_found, w)) (\<lambda>_ w. w)"

definition read_text :: "string \<Rightarrow> ('d, string) core" where
  "read_text p =
     bind_c (read_file p) (\<lambda>t. if utf8_valid (bytes_of t) then ret t else throw ''stream did not contain valid UTF-8'')"

definition path_exists :: "string \<Rightarrow> ('d, bool) core" where
  "path_exists p w = (Done (wo_files w p \<noteq> None), w)"

definition write_file :: "string \<Rightarrow> string \<Rightarrow> ('d, unit) core" where
  "write_file p t = fated (\<lambda>w. (Done (), put_file p t w)) (\<lambda>n. put_file p (take n t))"

definition rename_file :: "string \<Rightarrow> string \<Rightarrow> ('d, unit) core" where
  "rename_file a b =
     fated (\<lambda>w. case wo_files w a of
                  Some t \<Rightarrow> (Done (), put_file b t (del_file a w))
                | None \<Rightarrow> (Failed not_found, w)) (\<lambda>_ w. w)"

definition remove_file :: "string \<Rightarrow> ('d, unit) core" where
  "remove_file p =
     fated (\<lambda>w. if wo_files w p = None then (Failed not_found, w) else (Done (), del_file p w)) (\<lambda>_ w. w)"

definition create_dir_all :: "string \<Rightarrow> ('d, unit) core" where
  "create_dir_all d = fated (\<lambda>w. (Done (), w)) (\<lambda>_ w. w)"

definition copy_file :: "string \<Rightarrow> string \<Rightarrow> ('d, unit) core" where
  "copy_file a b =
     fated (\<lambda>w. case wo_files w a of
                  Some t \<Rightarrow> (Done (), put_file b t w)
                | None \<Rightarrow> (Failed not_found, w))
           (\<lambda>n w. case wo_files w a of Some t \<Rightarrow> put_file b (take n t) w | None \<Rightarrow> w)"

section \<open>Triples\<close>

text \<open>
  From a world in \<open>P\<close>, a run that returns ends in \<open>Q\<close> of its value, a run that fails in \<open>F\<close>, and a run
  that crashes or gives up in \<open>C\<close>.
\<close>

definition triple ::
  "('d World \<Rightarrow> bool) \<Rightarrow> ('d, 'a) core \<Rightarrow> ('a \<Rightarrow> 'd World \<Rightarrow> bool) \<Rightarrow> ('d World \<Rightarrow> bool) \<Rightarrow> ('d World \<Rightarrow> bool) \<Rightarrow> bool"
where
  "triple P m Q F C \<longleftrightarrow>
     (\<forall>w. P w \<longrightarrow>
        (case m w of
           (Done x, w') \<Rightarrow> Q x w'
         | (Failed e, w') \<Rightarrow> F w'
         | (Crashed, w') \<Rightarrow> C w'
         | (Stuck, w') \<Rightarrow> C w'))"

named_theorems core_rules

lemma triple_conseq:
  assumes "triple P' m Q' F' C'" and "\<And>w. P w \<Longrightarrow> P' w" and "\<And>x w. Q' x w \<Longrightarrow> Q x w"
    and "\<And>w. F' w \<Longrightarrow> F w" and "\<And>w. C' w \<Longrightarrow> C w"
  shows "triple P m Q F C"
  using assms unfolding triple_def by (fastforce split: prod.splits Run.splits)

lemma triple_pre: "triple P' m Q F C \<Longrightarrow> (\<And>w. P w \<Longrightarrow> P' w) \<Longrightarrow> triple P m Q F C"
  by (erule triple_conseq)

lemma triple_bind:
  assumes "triple P m M F C" and "\<And>x. triple (M x) (f x) Q F C"
  shows "triple P (bind_c m f) Q F C"
  using assms unfolding triple_def bind_c_def by (fastforce split: prod.splits Run.splits)

lemma triple_ret [core_rules]: "(\<And>w. P w \<Longrightarrow> Q x w) \<Longrightarrow> triple P (ret x) Q F C"
  by (simp add: triple_def ret_def)

lemma triple_throw [core_rules]: "(\<And>w. P w \<Longrightarrow> F w) \<Longrightarrow> triple P (throw e) Q F C"
  by (simp add: triple_def throw_def)

lemma triple_panic [core_rules]: "(\<And>w. P w \<Longrightarrow> C w) \<Longrightarrow> triple P panic Q F C"
  by (simp add: triple_def panic_def)

lemma triple_lift_res [core_rules]:
  "(\<And>x w. r = Inr x \<Longrightarrow> P w \<Longrightarrow> Q x w) \<Longrightarrow> (\<And>w. P w \<Longrightarrow> F w) \<Longrightarrow> triple P (lift_res r) Q F C"
  by (auto simp: triple_def lift_res_def throw_def ret_def split: sum.split)

lemma triple_attempt:
  "triple P m (\<lambda>x. Q (Inr x)) (\<lambda>w. \<forall>e. Q (Inl e) w) C \<Longrightarrow> triple P (attempt m) Q F C"
  unfolding triple_def attempt_def by (fastforce split: prod.splits Run.splits)

lemma triple_map_err [core_rules]: "triple P m Q F C \<Longrightarrow> triple P (map_err f m) Q F C"
  unfolding triple_def map_err_def by (fastforce split: prod.splits Run.splits)

lemma triple_for_each [core_rules]:
  assumes "\<And>x. x \<in> set xs \<Longrightarrow> triple I (f x) (\<lambda>_. I) F C"
  shows "triple I (for_each f xs) (\<lambda>_. I) F C"
  using assms
proof (induction xs)
  case Nil
  show ?case by (simp add: triple_ret)
next
  case (Cons x xs)
  have "triple I (bind_c (f x) (\<lambda>_. for_each f xs)) (\<lambda>_. I) F C"
    by (rule triple_bind [where M = "\<lambda>_. I"]) (use Cons in auto)
  then show ?case by simp
qed

lemma triple_fated:
  assumes "triple P act Q F C" and "\<And>w fs. P w \<Longrightarrow> P (w\<lparr>wo_fates := fs\<rparr>)"
    and "\<And>w. P w \<Longrightarrow> F w \<and> C w" and "\<And>n w. P w \<Longrightarrow> F (torn n w) \<and> C (torn n w)"
  shows "triple P (fated act torn) Q F C"
  using assms unfolding triple_def fated_def by (auto split: list.split Fate.split option.split simp: Let_def)

end
