(* ===== verification/ConfigLedger.thy ===== *)
theory ConfigLedger
  imports HostIO
begin

text \<open>
  The vehicle's configuration ledger, \<open>mediaservo-host/src/config_core/ledger.rs\<close>: its rows, loading
  and atomic saving of \<open>run/config-state.json\<close>, the bounded history and the lines of \<open>host status\<close>;
  and the record of what the configuration core takes from the machine and from third-party code.
\<close>

section \<open>The machine\<close>

datatype Flock = FlockAcquired | FlockBusy | FlockError string

record CmdOut =
  co_code :: "int option"
  co_stdout :: string
  co_stderr :: string

text \<open>One entry of \<open>/proc\<close>; a file that cannot be read is \<open>None\<close>.\<close>

record ProcEntry =
  pe_pid :: nat
  pe_cmdline :: "string option"
  pe_exe :: "string option"
  pe_environ :: "string option"

record OxProcess =
  ox_name :: string
  ox_status :: string

datatype TomlValue = TomlString string | TomlArray "TomlValue list" | TomlTable "(string \<times> TomlValue) list" | TomlOther

record Running =
  ru_hash :: string
  ru_at :: string
  ru_origin :: string
  ru_actor :: "string option"

record LastPush =
  lp_hash :: string
  lp_actor :: "string option"
  lp_at :: string

record PendingApply =
  pa_hash :: string
  pa_at :: string

record Flags =
  fl_pending :: bool
  fl_error :: bool
  fl_conflict :: bool

record HistoryEntry =
  hi_hash :: string
  hi_origin :: string
  hi_actor :: "string option"
  hi_at :: string
  hi_result :: string

record Ledger =
  le_running :: "Running option"
  le_last_push :: "LastPush option"
  le_pending_apply :: "PendingApply option"
  le_flags :: Flags
  le_history :: "HistoryEntry list"

text \<open>
  The process's surroundings: its environment, the parsers and printers of third-party crates
  (\<open>serde_yaml\<close>, \<open>toml\<close>, \<open>serde_json\<close>, \<open>sha2\<close>), child processes, the clock, the file lock, the process table.
\<close>

record 'd HostSys =
  hs_env :: HostEnv
  hs_yaml :: yaml_parser
  hs_toml :: "string \<Rightarrow> string + TomlValue"
  hs_json :: "string \<Rightarrow> string + json"
  hs_oxprocs :: "string \<Rightarrow> string + OxProcess list"
  hs_ledger_of :: "string \<Rightarrow> Ledger option"
  hs_ledger_text :: "Ledger \<Rightarrow> string"
  hs_sha256 :: "u8 list \<Rightarrow> u8 list"
  hs_spawn :: "string \<Rightarrow> (string \<times> string) list \<Rightarrow> string list \<Rightarrow> (string \<rightharpoonup> string) \<Rightarrow> 'd \<Rightarrow> CmdOut \<times> 'd"
  hs_now :: "'d \<Rightarrow> nat"
  hs_sleep :: "nat \<Rightarrow> 'd \<Rightarrow> 'd"
  hs_flock :: "'d \<Rightarrow> Flock \<times> 'd"
  hs_unlock :: "'d \<Rightarrow> 'd"
  hs_procs :: "'d \<Rightarrow> ProcEntry list"
  hs_pid :: nat
  hs_stamp :: "'d \<Rightarrow> string"
  hs_user :: "string option"

definition spawn :: "'d HostSys \<Rightarrow> string \<Rightarrow> (string \<times> string) list \<Rightarrow> string list \<Rightarrow> ('d, CmdOut) core" where
  "spawn S prog env args =
     fated (\<lambda>w. case hs_spawn S prog env args (wo_files w) (wo_sys w) of
                  (out, d) \<Rightarrow> (Done out, w\<lparr>wo_sys := d, wo_cmds := wo_cmds w @ [(prog, args)]\<rparr>)) (\<lambda>_ w. w)"

definition stamp :: "'d HostSys \<Rightarrow> ('d, string) core" where
  "stamp S w = (Done (hs_stamp S (wo_sys w)), w)"

section \<open>Fingerprints\<close>

definition file_hash :: "'d HostSys \<Rightarrow> string \<Rightarrow> string" where
  "file_hash S t = hex_encode (hs_sha256 S (bytes_of t))"

text \<open>\<open>str::get\<close> of a range: \<open>None\<close> beyond the end or inside a character.\<close>

definition char_boundary :: "string \<Rightarrow> nat \<Rightarrow> bool" where
  "char_boundary s n = (n = length s \<or> n < length s \<and> \<not> utf8_cont (s ! n))"

definition str_get :: "string \<Rightarrow> nat \<Rightarrow> nat \<Rightarrow> string option" where
  "str_get s a b = (if a \<le> b \<and> char_boundary s a \<and> char_boundary s b then Some (take (b - a) (drop a s)) else None)"

definition short12 :: "string \<Rightarrow> string" where
  "short12 h = unwrap_or (str_get h 0 12) h"

section \<open>Loading, saving, history\<close>

definition run_path :: "string \<Rightarrow> string \<Rightarrow> string" where
  "run_path dir name = path_join (path_join dir ''run'') name"

definition ledger_path :: "string \<Rightarrow> string" where
  "ledger_path dir = run_path dir ''config-state.json''"

definition no_flags :: Flags where
  "no_flags = \<lparr>fl_pending = False, fl_error = False, fl_conflict = False\<rparr>"

definition default_ledger :: Ledger where
  "default_ledger =
     \<lparr>le_running = None, le_last_push = None, le_pending_apply = None, le_flags = no_flags, le_history = []\<rparr>"

definition ledger_load :: "'d HostSys \<Rightarrow> string \<Rightarrow> ('d, Ledger) core" where
  "ledger_load S dir =
     bind_c (attempt (read_text (ledger_path dir))) (\<lambda>r.
       ret (case r of
              Inl _ \<Rightarrow> default_ledger
            | Inr t \<Rightarrow> (case hs_ledger_of S t of Some l \<Rightarrow> l | None \<Rightarrow> default_ledger)))"

definition io_err :: "string \<Rightarrow> string \<Rightarrow> string \<Rightarrow> string" where
  "io_err verb path e = verb @ '' '' @ path @ '' failed: '' @ e"

definition ledger_save :: "'d HostSys \<Rightarrow> string \<Rightarrow> Ledger \<Rightarrow> ('d, unit) core" where
  "ledger_save S dir l =
     (let path = ledger_path dir;
          tmp = run_path dir ''config-state.json.tmp''
      in bind_c (map_err (io_err ''create'' (path_join dir ''run'')) (create_dir_all (path_join dir ''run''))) (\<lambda>_.
         bind_c (map_err (io_err ''write'' tmp) (write_file tmp (hs_ledger_text S l))) (\<lambda>_.
         map_err (io_err ''rename'' path) (rename_file tmp path))))"

definition HISTORY_CAP :: nat where
  "HISTORY_CAP = 64"

definition push_history :: "string \<Rightarrow> string \<Rightarrow> string option \<Rightarrow> string \<Rightarrow> string \<Rightarrow> Ledger \<Rightarrow> Ledger" where
  "push_history hash origin actor result now l =
     (let h = le_history l @ [\<lparr>hi_hash = hash, hi_origin = origin, hi_actor = actor, hi_at = now, hi_result = result\<rparr>]
      in l\<lparr>le_history := (if length h > HISTORY_CAP then drop (length h - HISTORY_CAP) h else h)\<rparr>)"

section \<open>The status lines\<close>

definition date16 :: "string \<Rightarrow> string" where
  "date16 ts = map (\<lambda>c. if c = CHR ''T'' then CHR '' '' else c) (unwrap_or (str_get ts 0 16) ts)"

definition hm :: "string \<Rightarrow> string" where
  "hm ts = unwrap_or (str_get ts 11 16) ts"

definition trunc :: "string \<Rightarrow> nat \<Rightarrow> string" where
  "trunc s n = (if n < length (utf8_chars s) then concat (take n (utf8_chars s)) else s)"

definition running_line :: "Running option \<Rightarrow> string" where
  "running_line r =
     (case r of
        Some r \<Rightarrow> ''config:  running  = '' @ short12 (ru_hash r) @ ''  (origin '' @ ru_origin r @ '', actor ''
                  @ unwrap_or (ru_actor r) ''-'' @ '', '' @ date16 (ru_at r) @ '')''
      | None \<Rightarrow> ''config:  running  = -  (nothing applied yet)'')"

definition file_note :: "Ledger \<Rightarrow> string \<Rightarrow> string" where
  "file_note led now =
     (if (case le_pending_apply led of Some p \<Rightarrow> pa_hash p = now | None \<Rightarrow> False) then ''BOOT-PENDING: apply in progress''
      else if (case le_running led of Some r \<Rightarrow> ru_hash r = now | None \<Rightarrow> False) then ''= matches''
      else ''PENDING: edited, not applied'')"

definition push_line :: "Ledger \<Rightarrow> string" where
  "push_line led =
     (case le_last_push led of
        Some p \<Rightarrow>
          ''         last push= '' @ short12 (lp_hash p)
          @ (case le_running led of
               Some r \<Rightarrow> if ru_hash r = lp_hash p then ''  [consistent]'' else ''  [CONFLICT: site changed since push]''
             | None \<Rightarrow> [])
      | None \<Rightarrow> ''         last push= -  (no cloud push recorded)'')"

definition config_status_lines :: "Ledger \<Rightarrow> string \<Rightarrow> string list" where
  "config_status_lines led now =
     (if le_running led = None \<and> le_last_push led = None \<and> le_pending_apply led = None \<and> le_history led = []
      then [''config: no config-state.json yet (pre-T1'' @ [CHR 0xE2, CHR 0x80, CHR 0xB3] @ '' state or never applied)'']
      else
        [running_line (le_running led),
         ''         file     = '' @ short12 now @ ''  ['' @ file_note led now @ '']'',
         push_line led]
        @ (if le_history led = [] then []
           else [''         history: '' @ join_str ''  |  ''
                   (map (\<lambda>h. hm (hi_at h) @ '' '' @ hi_origin h @ '':'' @ unwrap_or (hi_actor h) ''-'' @ '' '' @ trunc (hi_result h) 48)
                      (take 3 (rev (le_history led))))]))"

section \<open>Facts about the ledger\<close>

lemma push_history_fields [simp]:
  "le_running (push_history h o' a r t l) = le_running l"
  "le_last_push (push_history h o' a r t l) = le_last_push l"
  "le_pending_apply (push_history h o' a r t l) = le_pending_apply l"
  "le_flags (push_history h o' a r t l) = le_flags l"
  by (simp_all add: push_history_def Let_def)

lemma push_history_bounded: "length (le_history l) \<le> 64 \<Longrightarrow> length (le_history (push_history h o' a r t l)) \<le> 64"
  by (simp add: push_history_def HISTORY_CAP_def Let_def)

lemma push_history_last:
  "le_history (push_history h o' a r t l) =
     drop (length (le_history l) - 63) (le_history l)
     @ [\<lparr>hi_hash = h, hi_origin = o', hi_actor = a, hi_at = t, hi_result = r\<rparr>]"
  if "length (le_history l) \<le> 64"
  using that by (auto simp: push_history_def HISTORY_CAP_def Let_def)

end
