(* ===== verification/ConfigCore.thy ===== *)
theory ConfigCore
  imports ConfigLedger
begin

text \<open>
  The configuration core, \<open>mediaservo-host/src/config_core/mod.rs\<close>, with the parts of \<open>translate.rs\<close>
  and \<open>conflict.rs\<close> it runs: the seven steps of \<open>execute\<close> under the instance lock (fingerprint, gates,
  staging, teardown, verification, prepare and activate, reconcile and commit), the boot fast path and
  the startup pass. Child processes, the clock and \<open>/proc\<close> are the machine of \<open>ConfigLedger\<close>; every
  effect may fail or be the last one before a crash.
\<close>

section \<open>The process manager\<close>

definition oxmgr_home :: "'d HostSys \<Rightarrow> string \<Rightarrow> string" where
  "oxmgr_home S dir = path_join (path_join (unwrap_or (he_canonical (hs_env S) dir) dir) ''run'') ''oxmgr''"

text \<open>The sum of the path's bytes stays far below 32 bits.\<close>

definition oxmgr_env :: "'d HostSys \<Rightarrow> string \<Rightarrow> (string \<times> string) list" where
  "oxmgr_env S dir =
     (let home = oxmgr_home S dir;
          port = 18000 + sum_list (map of_char home) mod 400
      in [(''OXMGR_HOME'', home), (''OXMGR_DATA_DIR'', home),
          (''OXMGR_DAEMON_ADDR'', ''127.0.0.1:'' @ show_nat port),
          (''OXMGR_API_ADDR'', ''127.0.0.1:'' @ show_nat (port + 1000))])"

definition oxmgr_bin :: "'d HostSys \<Rightarrow> ('d, string) core" where
  "oxmgr_bin S =
     (case he_exe_dir (hs_env S) of
        None \<Rightarrow> ret ''oxmgr''
      | Some d \<Rightarrow> bind_c (path_exists (path_join d ''oxmgr'')) (\<lambda>ex. ret (if ex then path_join d ''oxmgr'' else ''oxmgr'')))"

definition oxmgr :: "'d HostSys \<Rightarrow> string \<Rightarrow> string list \<Rightarrow> ('d, CmdOut) core" where
  "oxmgr S dir args = bind_c (oxmgr_bin S) (\<lambda>bin. spawn S bin (oxmgr_env S dir) args)"

definition exec_hint :: "string \<Rightarrow> string" where
  "exec_hint e = ''oxmgr exec failed: '' @ e @ '' '' @ em_dash @ '' install OxMgr and put it on PATH first''"

definition exit_error :: "string \<Rightarrow> CmdOut \<Rightarrow> string" where
  "exit_error verb out =
     ''oxmgr '' @ verb @ '' failed (exit '' @ show_int (unwrap_or (co_code out) 1) @ ''): '' @ trim_str (utf8_lossy (co_stderr out))"

fun json_str :: "json option \<Rightarrow> string option" where
  "json_str (Some (JStr s)) = Some s"
| "json_str _ = None"

fun json_array :: "json \<Rightarrow> json list" where
  "json_array (JArr xs) = xs"
| "json_array _ = []"

definition host_apps_of :: "string \<Rightarrow> json \<Rightarrow> string list" where
  "host_apps_of namespace v =
     List.map_filter (\<lambda>p. json_str (json_get p ''name''))
       (filter (\<lambda>p. json_str (json_get p ''namespace'') = Some namespace) (json_array v))"

definition live_host_apps :: "'d HostSys \<Rightarrow> string \<Rightarrow> ('d, string list) core" where
  "live_host_apps S dir =
     bind_c (map_err exec_hint (oxmgr S dir [''list'', ''--json''])) (\<lambda>out.
       if co_code out \<noteq> Some 0 then throw (exit_error ''list'' out)
       else case hs_json S (co_stdout out) of
              Inl e \<Rightarrow> throw (''oxmgr list --json parse failed: '' @ e)
            | Inr v \<Rightarrow> ret (host_apps_of (br_namespace (he_brand (hs_env S))) v))"

fun toml_get :: "TomlValue \<Rightarrow> string \<Rightarrow> TomlValue option" where
  "toml_get (TomlTable kvs) k = map_of kvs k"
| "toml_get _ k = None"

fun toml_str :: "TomlValue option \<Rightarrow> string option" where
  "toml_str (Some (TomlString s)) = Some s"
| "toml_str _ = None"

definition toml_app_names :: "TomlValue \<Rightarrow> string list" where
  "toml_app_names v =
     (case toml_get v ''apps'' of
        Some (TomlArray apps) \<Rightarrow> List.map_filter (\<lambda>a. toml_str (toml_get a ''name'')) apps
      | _ \<Rightarrow> [])"

definition oxfile_app_names :: "'d HostSys \<Rightarrow> string \<Rightarrow> ('d, string list) core" where
  "oxfile_app_names S path =
     bind_c (map_err (io_err ''read'' path) (read_text path)) (\<lambda>t.
       case hs_toml S t of
         Inl e \<Rightarrow> throw (io_err ''parse'' path e)
       | Inr v \<Rightarrow> ret (toml_app_names v))"

definition removed_apps :: "string list \<Rightarrow> string list \<Rightarrow> string list" where
  "removed_apps live desired = filter (\<lambda>n. n \<notin> set desired) live"

definition oxfile_path :: "string \<Rightarrow> string" where
  "oxfile_path dir = run_path dir ''oxfile.toml''"

definition oxmgr_apply :: "'d HostSys \<Rightarrow> string \<Rightarrow> ('d, unit) core" where
  "oxmgr_apply S dir =
     bind_c (path_exists (oxfile_path dir)) (\<lambda>ex.
     if \<not> ex then throw (oxfile_path dir @ '' missing '' @ em_dash @ '' run write_oxfile/host apply first'')
     else
       bind_c (map_err exec_hint (oxmgr S dir [''apply'', oxfile_path dir])) (\<lambda>out.
       if co_code out \<noteq> Some 0 then throw (exit_error ''apply'' out)
       else
         bind_c (live_host_apps S dir) (\<lambda>live.
         bind_c (oxfile_app_names S (oxfile_path dir)) (\<lambda>desired.
         for_each (\<lambda>name. bind_c (attempt (oxmgr S dir [''delete'', name])) (\<lambda>_. ret ())) (removed_apps live desired)))))"

section \<open>Survivors\<close>

record SurvivorInfo =
  su_pid :: nat
  su_first_arg :: string
  su_owner :: string

definition SWEEP_BASES :: "string list" where
  "SWEEP_BASES = [''agent'', ''streamer'', ''capturer'', ''recorder'', ''controller'', ''emergency'', ''audio'']"

definition stop_sweep_names :: "string \<Rightarrow> string list" where
  "stop_sweep_names app_prefix = concat (map (\<lambda>b. [app_prefix @ b, ''host-'' @ b]) SWEEP_BASES)"

definition basename :: "string \<Rightarrow> string" where
  "basename p = rev (takeWhile (\<lambda>c. c \<noteq> CHR ''/'') (rev p))"

definition survivor_match :: "string \<Rightarrow> string list \<Rightarrow> bool" where
  "survivor_match first_arg family =
     (\<not> str_contains first_arg ''/target/'' \<and> list_ex (starts_with (basename first_arg)) family)"

fun split_nul :: "string \<Rightarrow> string list" where
  "split_nul [] = [[]]"
| "split_nul (c # cs) =
     (if c = CHR 0x00 then [] # split_nul cs
      else case split_nul cs of x # xs \<Rightarrow> (c # x) # xs | [] \<Rightarrow> [[c]])"

definition parse_oxmgr_home :: "string \<Rightarrow> string option" where
  "parse_oxmgr_home environ =
     find_map (\<lambda>kv. case strip_prefix kv ''OXMGR_HOME='' of
                      Some v \<Rightarrow> if v = [] then None else Some (utf8_lossy v)
                    | None \<Rightarrow> None) (split_nul environ)"

definition OWNER_UNKNOWN :: string where
  "OWNER_UNKNOWN = ''owner unknown''"

definition survivor_of :: "'d HostSys \<Rightarrow> ProcEntry \<Rightarrow> SurvivorInfo option" where
  "survivor_of S p =
     (let family = stop_sweep_names (br_app_prefix (he_brand (hs_env S))) in
      if pe_pid p = hs_pid S then None
      else case pe_cmdline p of
             None \<Rightarrow> None
           | Some cmd \<Rightarrow>
               if \<not> utf8_valid (bytes_of cmd) then None
               else
                 let first_arg = takeWhile (\<lambda>c. c \<noteq> CHR 0x00) cmd in
                 if \<not> survivor_match first_arg family then None
                 else if str_contains (unwrap_or (map_option utf8_lossy (pe_exe p)) []) ''/target/'' then None
                 else Some \<lparr>su_pid = pe_pid p, su_first_arg = first_arg,
                            su_owner = unwrap_or (Option.bind (pe_environ p) parse_oxmgr_home) OWNER_UNKNOWN\<rparr>)"

definition stop_survivors :: "'d HostSys \<Rightarrow> 'd \<Rightarrow> SurvivorInfo list" where
  "stop_survivors S d = List.map_filter (survivor_of S) (hs_procs S d)"

definition instance_scoped :: "string \<Rightarrow> string \<Rightarrow> string list \<Rightarrow> SurvivorInfo \<Rightarrow> bool" where
  "instance_scoped dir_prefix home family s =
     (starts_with (su_first_arg s) dir_prefix \<or> su_owner s = home
      \<or> su_owner s = OWNER_UNKNOWN \<and> list_ex (starts_with (basename (su_first_arg s))) family)"

section \<open>Pure decisions\<close>

datatype Topology = AgentRun | CliRun

datatype Outcome = NoOp string | Applied string | Refused string | Residue "SurvivorInfo list"

datatype WatchAction = Follow | Wait | Trigger string

definition watch_tick :: "string option \<Rightarrow> string option \<Rightarrow> string \<Rightarrow> WatchAction" where
  "watch_tick cur prev baseline =
     (case cur of
        None \<Rightarrow> Follow
      | Some h \<Rightarrow> if h = baseline then Follow else if prev = Some h then Trigger h else Wait)"

definition should_reconcile :: "bool \<Rightarrow> bool \<Rightarrow> bool \<Rightarrow> bool \<Rightarrow> bool" where
  "should_reconcile force running_match pending_mismatch flags_pending =
     (force \<or> \<not> running_match \<or> pending_mismatch \<or> flags_pending)"

definition running_matches :: "Ledger \<Rightarrow> string \<Rightarrow> bool" where
  "running_matches led hash = (case le_running led of Some r \<Rightarrow> ru_hash r = hash | None \<Rightarrow> False)"

definition pending_matches :: "Ledger \<Rightarrow> string \<Rightarrow> bool" where
  "pending_matches led hash = (case le_pending_apply led of Some p \<Rightarrow> pa_hash p = hash | None \<Rightarrow> False)"

definition pending_mismatches :: "Ledger \<Rightarrow> string \<Rightarrow> bool" where
  "pending_mismatches led hash = (case le_pending_apply led of Some p \<Rightarrow> pa_hash p \<noteq> hash | None \<Rightarrow> False)"

definition gate_needs_reconcile :: "Ledger \<Rightarrow> string \<Rightarrow> bool" where
  "gate_needs_reconcile led hash =
     should_reconcile False (running_matches led hash) (pending_mismatches led hash) (fl_pending (le_flags led))"

datatype NoOpVerdict = VerdictNoOp | VerdictExecute

definition noop_verdict :: "bool \<Rightarrow> bool \<Rightarrow> NoOpVerdict" where
  "noop_verdict fingerprint_matches roster_live_ok =
     (if fingerprint_matches \<and> roster_live_ok then VerdictNoOp else VerdictExecute)"

definition dead_apps :: "string list \<Rightarrow> OxProcess list \<Rightarrow> string list" where
  "dead_apps expected registry =
     filter (\<lambda>n. \<not> list_ex (\<lambda>p. ox_name p = n \<and> ox_status p = ''running'') registry) expected"

definition flags_after_commit :: "Running \<Rightarrow> LastPush option \<Rightarrow> Flags" where
  "flags_after_commit r push =
     \<lparr>fl_pending = False, fl_error = False,
      fl_conflict = (case push of Some p \<Rightarrow> lp_hash p \<noteq> ru_hash r | None \<Rightarrow> False)\<rparr>"

definition teardown_rank :: "string \<Rightarrow> nat" where
  "teardown_rank n =
     (if ends_with n ''agent'' then 3
      else if list_ex (str_contains n) [''streamer'', ''audio'', ''controller'', ''emergency'', ''recorder''] then 0
      else if str_contains n ''capturer'' then 1
      else 2)"

definition order_teardown :: "string list \<Rightarrow> string list" where
  "order_teardown names = sort_key teardown_rank names"

definition gate_clean :: "string list \<Rightarrow> Topology \<Rightarrow> bool" where
  "gate_clean registry topo =
     (case topo of CliRun \<Rightarrow> registry = [] | AgentRun \<Rightarrow> list_all (\<lambda>n. ends_with n ''agent'') registry)"

definition debug_list :: "string list \<Rightarrow> string" where
  "debug_list xs = ''['' @ join_str '', '' (map debug_str xs) @ '']''"

definition reconcile_mismatch :: "string list \<Rightarrow> string list \<Rightarrow> string list \<Rightarrow> string \<Rightarrow> string option" where
  "reconcile_mismatch rost registry expected recorder =
     (let missing = filter (\<lambda>n. n \<notin> set registry) rost;
          extra = filter (\<lambda>n. n \<notin> set rost) registry;
          unregistered = filter (\<lambda>n. n \<notin> set rost) expected
      in if missing \<noteq> [] \<or> extra \<noteq> []
         then Some (''registry != roster: missing='' @ debug_list missing @ '' extra='' @ debug_list extra)
         else if unregistered \<noteq> [] then Some (''expected apps not in roster: '' @ debug_list unregistered)
         else case List.find (\<lambda>n. n \<notin> set expected \<and> n \<noteq> recorder) rost of
                Some bad \<Rightarrow> Some (''roster carries unexpected app '' @ bad @ '' (only the falsy recorder slot may exceed expected)'')
              | None \<Rightarrow> None)"

text \<open>The loop of \<open>token_paths\<close>: the text after each occurrence of the flag, up to a blank or a quote.\<close>

fun split_at_needle :: "string \<Rightarrow> string \<Rightarrow> string option" where
  "split_at_needle needle [] = None"
| "split_at_needle needle (c # s) =
     (case strip_prefix (c # s) needle of Some rest \<Rightarrow> Some rest | None \<Rightarrow> split_at_needle needle s)"

definition token_char :: "char \<Rightarrow> bool" where
  "token_char c = (c \<notin> {CHR '' '', CHR 34, CHR 10, CHR 13, CHR 9})"

lemma split_at_needle_shorter: "split_at_needle needle s = Some rest \<Longrightarrow> length rest + length needle \<le> length s"
proof (induction s)
  case (Cons c s)
  then show ?case
  proof (cases "strip_prefix (c # s) needle")
    case (Some r)
    then have "c # s = needle @ r" by (simp add: strip_prefix_Some)
    then have "length (c # s) = length needle + length r" by simp
    then show ?thesis using Cons.prems Some by simp
  qed (use Cons in auto)
qed simp

function token_paths :: "string \<Rightarrow> string list" where
  "token_paths rest =
     (case split_at_needle ''--token '' rest of
        None \<Rightarrow> []
      | Some r \<Rightarrow>
          let p = takeWhile token_char r
          in (if p = [] then [] else [p]) @ token_paths (dropWhile token_char r))"
  by pat_completeness auto
termination
proof (relation "measure length")
  show "wf (measure (length :: string \<Rightarrow> nat))" by simp
  fix rest r p :: string
  assume "split_at_needle ''--token '' rest = Some r"
  then have "length r < length rest" using split_at_needle_shorter by fastforce
  then show "(dropWhile token_char r, rest) \<in> measure length"
    using length_dropWhile_le [of token_char r] by (simp add: le_less_trans)
qed

declare token_paths.simps [simp del]

section \<open>The lock\<close>

definition LOCK_TIMEOUT :: nat where
  "LOCK_TIMEOUT = 120000"

definition GATE_TIMEOUT :: nat where
  "GATE_TIMEOUT = 15000"

definition RETRY_STEP :: nat where
  "RETRY_STEP = 500"

definition stuck :: "('d, 'a) core" where
  "stuck w = (Stuck, w)"

definition now_ms :: "'d HostSys \<Rightarrow> ('d, nat) core" where
  "now_ms S w = (Done (hs_now S (wo_sys w)), w)"

definition sleep_ms :: "'d HostSys \<Rightarrow> nat \<Rightarrow> ('d, unit) core" where
  "sleep_ms S n w = (Done (), w\<lparr>wo_sys := hs_sleep S n (wo_sys w)\<rparr>)"

definition flock_try :: "'d HostSys \<Rightarrow> ('d, Flock) core" where
  "flock_try S w = (case hs_flock S (wo_sys w) of (r, d) \<Rightarrow> (Done r, w\<lparr>wo_sys := d\<rparr>))"

text \<open>
  The two polling loops take the number of polls as fuel and give up at zero; \<open>lock_polls\<close> and
  \<open>gate_polls\<close> are the numbers after which a clock that advances by the sleep has passed the deadline.
\<close>

definition lock_polls :: nat where
  "lock_polls = 241"

definition gate_polls :: nat where
  "gate_polls = 31"

fun lock_loop :: "'d HostSys \<Rightarrow> string \<Rightarrow> nat \<Rightarrow> nat \<Rightarrow> ('d, unit) core" where
  "lock_loop S path deadline 0 = stuck"
| "lock_loop S path deadline (Suc n) =
     bind_c (flock_try S) (\<lambda>r.
       case r of
         FlockAcquired \<Rightarrow> ret ()
       | FlockError e \<Rightarrow> throw (''flock('' @ path @ '') failed '' @ e)
       | FlockBusy \<Rightarrow>
           bind_c (now_ms S) (\<lambda>t.
             if deadline \<le> t
             then throw (''config-core lock '' @ path @ '' busy for 120s '' @ em_dash @ '' another executor holds it'')
             else bind_c (sleep_ms S RETRY_STEP) (\<lambda>_. lock_loop S path deadline n)))"

definition lock_path :: "string \<Rightarrow> string" where
  "lock_path dir = run_path dir ''config-core.lock''"

definition lock_acquire :: "'d HostSys \<Rightarrow> string \<Rightarrow> ('d, unit) core" where
  "lock_acquire S dir =
     bind_c (map_err (io_err ''create'' (path_join dir ''run'')) (create_dir_all (path_join dir ''run''))) (\<lambda>_.
     bind_c (map_err (io_err ''create'' (lock_path dir)) (write_file (lock_path dir) [])) (\<lambda>_.
     bind_c (now_ms S) (\<lambda>t. lock_loop S (lock_path dir) (t + LOCK_TIMEOUT) lock_polls)))"

text \<open>The guard releases the lock on every way out, the kernel does so when the process dies.\<close>

definition releasing :: "'d HostSys \<Rightarrow> ('d, 'a) core \<Rightarrow> ('d, 'a) core" where
  "releasing S m w = (case m w of (r, w') \<Rightarrow> (r, w'\<lparr>wo_sys := hs_unlock S (wo_sys w')\<rparr>))"

definition with_lock :: "'d HostSys \<Rightarrow> string \<Rightarrow> ('d, 'a) core \<Rightarrow> ('d, 'a) core" where
  "with_lock S dir m = bind_c (lock_acquire S dir) (\<lambda>_. releasing S m)"

section \<open>The steps\<close>

record ExecuteOpts =
  op_origin :: string
  op_actor :: "string option"

definition noop_liveness :: "'d HostSys \<Rightarrow> string \<Rightarrow> string \<Rightarrow> ('d, string list \<times> nat) core" where
  "noop_liveness S dir bytes =
     (if \<not> utf8_valid (bytes_of bytes) then throw ''host.yaml is not valid utf-8''
      else
        bind_c (lift_res (expected_process_names (hs_env S) (hs_yaml S) bytes)) (\<lambda>expected.
        bind_c (map_err (\<lambda>e. ''oxmgr exec failed: '' @ e) (oxmgr S dir [''list'', ''--json''])) (\<lambda>out.
        if co_code out \<noteq> Some 0 then throw (exit_error ''list'' out)
        else
          bind_c (map_err (\<lambda>e. ''oxmgr list --json parse failed: '' @ e) (lift_res (hs_oxprocs S (utf8_lossy (co_stdout out))))) (\<lambda>registry.
          ret (dead_apps expected registry, length expected)))))"

definition noop_may_skip :: "'d HostSys \<Rightarrow> string \<Rightarrow> string \<Rightarrow> bool \<Rightarrow> ('d, bool) core" where
  "noop_may_skip S dir bytes fingerprint_matches =
     bind_c (attempt (noop_liveness S dir bytes)) (\<lambda>r.
       ret (case r of
              Inr (dead, n) \<Rightarrow> noop_verdict fingerprint_matches (dead = []) = VerdictNoOp
            | Inl _ \<Rightarrow> False))"

fun missing_files :: "string list \<Rightarrow> ('d, string list) core" where
  "missing_files [] = ret []"
| "missing_files (p # ps) =
     bind_c (path_exists p) (\<lambda>ex. bind_c (missing_files ps) (\<lambda>ms. ret (if ex then ms else p # ms)))"

definition render :: "'d HostSys \<Rightarrow> string \<Rightarrow> string \<Rightarrow> ('d, string) core" where
  "render S dir cfg =
     (case to_oxfile_in_dir (hs_env S) (hs_yaml S) cfg dir of
        Inl e \<Rightarrow> throw e
      | Inr None \<Rightarrow> panic
      | Inr (Some t) \<Rightarrow> ret t)"

text \<open>Step 1 after the fingerprint: the reason of a refusal, or the rendered roster.\<close>

definition hmac_missing :: "string \<Rightarrow> string" where
  "hmac_missing p = ''[control].hmac_key_file points to a missing file: '' @ p"

definition core_gates :: "'d HostSys \<Rightarrow> string \<Rightarrow> string \<Rightarrow> ('d, string + string) core" where
  "core_gates S dir cfg =
     (case validate (hs_env S) (hs_yaml S) cfg of
        Inl e \<Rightarrow> ret (Inl e)
      | Inr _ \<Rightarrow>
          bind_c (lift_res (control_hmac_key_file (hs_yaml S) cfg)) (\<lambda>key.
          bind_c (case key of None \<Rightarrow> ret True | Some rel \<Rightarrow> path_exists (path_join dir rel)) (\<lambda>ok.
          if \<not> ok then ret (Inl (hmac_missing (path_join dir (the key))))
          else
            bind_c (render S dir cfg) (\<lambda>rendered.
            bind_c (missing_files (token_paths rendered)) (\<lambda>missing.
            if missing \<noteq> []
            then ret (Inl (''token pre-check (C40): missing '' @ join_str '', '' missing @ '' '' @ em_dash
                           @ '' run `token issue --all '' @ dir @ ''`''))
            else ret (Inr rendered))))))"

definition staging_path :: "string \<Rightarrow> string" where
  "staging_path dir = run_path dir ''oxfile.toml.staging''"

definition remove_quiet :: "string \<Rightarrow> ('d, unit) core" where
  "remove_quiet p = bind_c (attempt (remove_file p)) (\<lambda>_. ret ())"

definition write_staging :: "string \<Rightarrow> string \<Rightarrow> ('d, unit) core" where
  "write_staging dir content =
     bind_c (map_err (io_err ''create'' (path_join dir ''run'')) (create_dir_all (path_join dir ''run''))) (\<lambda>_.
     bind_c (remove_quiet (staging_path dir)) (\<lambda>_.
     map_err (io_err ''write'' (staging_path dir)) (write_file (staging_path dir) content)))"

definition stop_and_delete :: "'d HostSys \<Rightarrow> string \<Rightarrow> string \<Rightarrow> ('d, unit) core" where
  "stop_and_delete S dir name =
     for_each (\<lambda>verb. bind_c (attempt (oxmgr S dir [verb, name])) (\<lambda>_. ret ())) [''stop'', ''delete'']"

definition clear_iceoryx_residue :: "'d HostSys \<Rightarrow> ('d, unit) core" where
  "clear_iceoryx_residue S =
     for_each (\<lambda>p. bind_c (attempt (spawn S ''rm'' [] [''-rf'', p])) (\<lambda>_. ret ())) [''/tmp/iceoryx2'', ''/dev/shm/iox2_*'']"

definition teardown_targets :: "'d HostSys \<Rightarrow> Topology \<Rightarrow> string list \<Rightarrow> string list" where
  "teardown_targets S topo live =
     order_teardown (filter (\<lambda>n. \<not> (topo = AgentRun \<and> n = app_name (hs_env S) ''agent'')) live)"

text \<open>Steps 3 and 4: the reason of a refusal when the registry cannot be read.\<close>

definition core_teardown :: "'d HostSys \<Rightarrow> string \<Rightarrow> Topology \<Rightarrow> ('d, string + unit) core" where
  "core_teardown S dir topo =
     bind_c (attempt (live_host_apps S dir)) (\<lambda>r.
       case r of
         Inl e \<Rightarrow> bind_c (remove_quiet (staging_path dir)) (\<lambda>_. ret (Inl (''teardown source unavailable: '' @ e)))
       | Inr live \<Rightarrow>
           bind_c (for_each (stop_and_delete S dir) (teardown_targets S topo live)) (\<lambda>_.
           bind_c (clear_iceoryx_residue S) (\<lambda>_. ret (Inr ()))))"

definition dir_prefix :: "'d HostSys \<Rightarrow> string \<Rightarrow> string" where
  "dir_prefix S dir = unwrap_or (he_canonical (hs_env S) dir) dir @ ''/''"

definition scoped_survivors :: "'d HostSys \<Rightarrow> string \<Rightarrow> ('d, SurvivorInfo list) core" where
  "scoped_survivors S dir w =
     (Done (filter (instance_scoped (dir_prefix S dir) (oxmgr_home S dir)
                      (stop_sweep_names (br_app_prefix (he_brand (hs_env S))))) (stop_survivors S (wo_sys w))), w)"

fun gate_loop :: "'d HostSys \<Rightarrow> string \<Rightarrow> Topology \<Rightarrow> nat \<Rightarrow> nat \<Rightarrow> ('d, (SurvivorInfo list \<times> string) + unit) core" where
  "gate_loop S dir topo deadline 0 = stuck"
| "gate_loop S dir topo deadline (Suc n) =
     bind_c (attempt (live_host_apps S dir)) (\<lambda>registry.
     bind_c (scoped_survivors S dir) (\<lambda>survivors.
     if (case registry of Inr r \<Rightarrow> gate_clean r topo | Inl _ \<Rightarrow> False) \<and> survivors = [] then ret (Inr ())
     else
       bind_c (now_ms S) (\<lambda>t.
       if deadline \<le> t
       then ret (Inl (survivors, case registry of Inr r \<Rightarrow> debug_list r | Inl e \<Rightarrow> ''list failed: '' @ e))
       else bind_c (sleep_ms S RETRY_STEP) (\<lambda>_. gate_loop S dir topo deadline n))))"

definition wait_for_clean :: "'d HostSys \<Rightarrow> string \<Rightarrow> Topology \<Rightarrow> ('d, (SurvivorInfo list \<times> string) + unit) core" where
  "wait_for_clean S dir topo = bind_c (now_ms S) (\<lambda>t. gate_loop S dir topo (t + GATE_TIMEOUT) gate_polls)"

definition survivor_list :: "SurvivorInfo list \<Rightarrow> string" where
  "survivor_list survivors = join_str '', '' (map (\<lambda>s. show_nat (su_pid s) @ ''@'' @ su_owner s) survivors)"

text \<open>A ledger row is stamped and saved; the state in memory is what was saved.\<close>

definition save_row ::
  "'d HostSys \<Rightarrow> string \<Rightarrow> string \<Rightarrow> ExecuteOpts \<Rightarrow> string \<Rightarrow> Ledger \<Rightarrow> ('d, unit) core" where
  "save_row S dir hash opts result led =
     bind_c (stamp S) (\<lambda>t. ledger_save S dir (push_history hash (op_origin opts) (op_actor opts) result t led))"

text \<open>The commit of step 7 and of the boot fast path.\<close>

definition commit_ledger :: "string \<Rightarrow> ExecuteOpts \<Rightarrow> string \<Rightarrow> Ledger \<Rightarrow> Ledger" where
  "commit_ledger hash opts at led =
     (let r = \<lparr>ru_hash = hash, ru_at = at, ru_origin = op_origin opts, ru_actor = op_actor opts\<rparr>
      in led\<lparr>le_running := Some r, le_pending_apply := None, le_flags := flags_after_commit r (le_last_push led)\<rparr>)"

definition core_reconcile ::
  "'d HostSys \<Rightarrow> string \<Rightarrow> ExecuteOpts \<Rightarrow> string \<Rightarrow> string \<Rightarrow> Ledger \<Rightarrow> ('d, Outcome) core" where
  "core_reconcile S dir opts hash cfg led =
     bind_c (oxfile_app_names S (oxfile_path dir)) (\<lambda>rost.
     bind_c (live_host_apps S dir) (\<lambda>registry.
     bind_c (lift_res (expected_process_names (hs_env S) (hs_yaml S) cfg)) (\<lambda>expected.
     case reconcile_mismatch rost registry expected (app_name (hs_env S) ''recorder'') of
       Some detail \<Rightarrow>
         bind_c (save_row S dir hash opts (''reconcile-mismatch: '' @ detail)
                   (led\<lparr>le_flags := (le_flags led)\<lparr>fl_error := True\<rparr>\<rparr>)) (\<lambda>_.
         ret (Refused detail))
     | None \<Rightarrow>
         bind_c (stamp S) (\<lambda>t.
         bind_c (save_row S dir hash opts ''applied'' (commit_ledger hash opts t led)) (\<lambda>_.
         ret (Applied hash))))))"

definition core_activate ::
  "'d HostSys \<Rightarrow> string \<Rightarrow> ExecuteOpts \<Rightarrow> string \<Rightarrow> string \<Rightarrow> Ledger \<Rightarrow> ('d, Outcome) core" where
  "core_activate S dir opts hash cfg led0 =
     bind_c (stamp S) (\<lambda>t.
     let led = led0\<lparr>le_pending_apply := Some \<lparr>pa_hash = hash, pa_at = t\<rparr>\<rparr> in
     bind_c (ledger_save S dir led) (\<lambda>_.
     bind_c (map_err (\<lambda>e. ''activate '' @ staging_path dir @ '' -> '' @ oxfile_path dir @ '' failed: '' @ e)
               (rename_file (staging_path dir) (oxfile_path dir))) (\<lambda>_.
     bind_c (attempt (oxmgr_apply S dir)) (\<lambda>r.
     case r of
       Inl e \<Rightarrow>
         bind_c (save_row S dir hash opts (''refused-apply: '' @ e) (led\<lparr>le_flags := (le_flags led)\<lparr>fl_error := True\<rparr>\<rparr>)) (\<lambda>_.
         ret (Refused e))
     | Inr _ \<Rightarrow> core_reconcile S dir opts hash cfg led))))"

definition core_swap ::
  "'d HostSys \<Rightarrow> string \<Rightarrow> Topology \<Rightarrow> ExecuteOpts \<Rightarrow> string \<Rightarrow> string \<Rightarrow> string \<Rightarrow> Ledger \<Rightarrow> ('d, Outcome) core" where
  "core_swap S dir topo opts hash cfg rendered led =
     bind_c (write_staging dir rendered) (\<lambda>_.
     bind_c (core_teardown S dir topo) (\<lambda>td.
     case td of
       Inl reason \<Rightarrow> ret (Refused reason)
     | Inr _ \<Rightarrow>
         bind_c (wait_for_clean S dir topo) (\<lambda>gate.
         case gate of
           Inl (survivors, note) \<Rightarrow>
             bind_c (remove_quiet (staging_path dir)) (\<lambda>_.
             bind_c (save_row S dir hash opts (''refused-residue: survivors=['' @ survivor_list survivors @ ''] registry='' @ note)
                       (led\<lparr>le_flags := (le_flags led)\<lparr>fl_pending := True\<rparr>\<rparr>)) (\<lambda>_.
             ret (Residue survivors)))
         | Inr _ \<Rightarrow> core_activate S dir opts hash cfg led)))"

definition execute_locked ::
  "'d HostSys \<Rightarrow> string \<Rightarrow> Topology \<Rightarrow> bool \<Rightarrow> ExecuteOpts \<Rightarrow> ('d, Outcome) core" where
  "execute_locked S dir topo force opts =
     bind_c (map_err (io_err ''read'' (host_yaml dir)) (read_file (host_yaml dir))) (\<lambda>bytes.
     let hash = file_hash S bytes in
     bind_c (ledger_load S dir) (\<lambda>led.
     bind_c (if should_reconcile force (running_matches led hash) (pending_mismatches led hash) False then ret False
             else noop_may_skip S dir bytes (running_matches led hash)) (\<lambda>skip.
     if skip then ret (NoOp hash)
     else if \<not> utf8_valid (bytes_of bytes) then throw ''host.yaml is not valid utf-8''
     else
       bind_c (core_gates S dir bytes) (\<lambda>g.
       case g of
         Inl reason \<Rightarrow> ret (Refused reason)
       | Inr rendered \<Rightarrow> core_swap S dir topo opts hash bytes rendered led))))"

definition execute ::
  "'d HostSys \<Rightarrow> string \<Rightarrow> Topology \<Rightarrow> bool \<Rightarrow> ExecuteOpts \<Rightarrow> ('d, Outcome) core" where
  "execute S dir topo force opts = with_lock S dir (execute_locked S dir topo force opts)"

section \<open>The boot fast path and the startup pass\<close>

definition BOOT_OPTS :: ExecuteOpts where
  "BOOT_OPTS = \<lparr>op_origin = ''boot-commit'', op_actor = None\<rparr>"

definition commit_pending_fast ::
  "'d HostSys \<Rightarrow> string \<Rightarrow> string \<Rightarrow> string \<Rightarrow> string list \<Rightarrow> ('d, bool) core" where
  "commit_pending_fast S dir hash cfg registry =
     bind_c (ledger_load S dir) (\<lambda>led.
     if \<not> pending_matches led hash then ret False
     else
       bind_c (attempt (oxfile_app_names S (oxfile_path dir))) (\<lambda>r.
       case r of
         Inl _ \<Rightarrow> ret False
       | Inr rost \<Rightarrow>
           (case expected_process_names (hs_env S) (hs_yaml S) cfg of
              Inl _ \<Rightarrow> ret False
            | Inr expected \<Rightarrow>
                (case reconcile_mismatch rost registry expected (app_name (hs_env S) ''recorder'') of
                   Some _ \<Rightarrow> ret False
                 | None \<Rightarrow>
                     bind_c (stamp S) (\<lambda>t.
                     bind_c (save_row S dir hash BOOT_OPTS ''pending-committed'' (commit_ledger hash BOOT_OPTS t led)) (\<lambda>_.
                     ret True))))))"

definition try_commit_pending :: "'d HostSys \<Rightarrow> string \<Rightarrow> ('d, bool) core" where
  "try_commit_pending S dir =
     with_lock S dir (
       bind_c (map_err (io_err ''read'' (host_yaml dir)) (read_text (host_yaml dir))) (\<lambda>cfg.
       bind_c (ledger_load S dir) (\<lambda>led.
       if \<not> pending_matches led (file_hash S cfg) then ret False
       else
         bind_c (attempt (live_host_apps S dir)) (\<lambda>r.
         commit_pending_fast S dir (file_hash S cfg) cfg (case r of Inr reg \<Rightarrow> reg | Inl _ \<Rightarrow> [])))))"

definition env_actor :: "'d HostSys \<Rightarrow> string option" where
  "env_actor S = (case hs_user S of Some u \<Rightarrow> if u = [] then None else Some u | None \<Rightarrow> None)"

definition startup_reconcile_with :: "'d HostSys \<Rightarrow> string \<Rightarrow> Topology \<Rightarrow> string \<Rightarrow> ('d, Outcome) core" where
  "startup_reconcile_with S dir topo origin =
     bind_c (try_commit_pending S dir) (\<lambda>committed.
     bind_c (map_err (io_err ''read'' (host_yaml dir)) (read_file (host_yaml dir))) (\<lambda>bytes.
     let hash = file_hash S bytes in
     if committed then ret (Applied hash)
     else
       bind_c (ledger_load S dir) (\<lambda>led.
       bind_c (if gate_needs_reconcile led hash then ret False
               else noop_may_skip S dir bytes (running_matches led hash)) (\<lambda>skip.
       if skip then ret (NoOp hash)
       else execute S dir topo False \<lparr>op_origin = origin, op_actor = env_actor S\<rparr>))))"

definition startup_reconcile :: "'d HostSys \<Rightarrow> string \<Rightarrow> string \<Rightarrow> ('d, Outcome) core" where
  "startup_reconcile S dir origin = startup_reconcile_with S dir CliRun origin"

definition record_push :: "'d HostSys \<Rightarrow> string \<Rightarrow> string option \<Rightarrow> ('d, unit) core" where
  "record_push S dir actor =
     with_lock S dir (
       bind_c (map_err (io_err ''read'' (host_yaml dir)) (read_file (host_yaml dir))) (\<lambda>bytes.
       let hash = file_hash S bytes in
       bind_c (ledger_load S dir) (\<lambda>led.
       bind_c (stamp S) (\<lambda>t.
       ledger_save S dir
         (led\<lparr>le_last_push := Some \<lparr>lp_hash = hash, lp_actor = actor, lp_at = t\<rparr>,
              le_flags := (le_flags led)\<lparr>fl_conflict :=
                (case le_running led of Some r \<Rightarrow> ru_hash r \<noteq> hash | None \<Rightarrow> False)\<rparr>\<rparr>)))))"

end
