(* ===== verification/ConfigSafety.thy ===== *)
theory ConfigSafety
  imports ConfigCore
begin

text \<open>
  Safety of the configuration core under I/O errors and crashes at every point: which files a run can
  touch, and that a run, however it ends, follows a prepare-activate-commit protocol on the pair of
  the live roster and the ledger on disk.
\<close>

section \<open>Files a computation touches\<close>

definition touches :: "string set \<Rightarrow> ('d, 'a) core \<Rightarrow> bool" where
  "touches A m \<longleftrightarrow> (\<forall>w p. p \<notin> A \<longrightarrow> wo_files (snd (m w)) p = wo_files w p)"

named_theorems touch_rules

lemma touches_mono: "touches A m \<Longrightarrow> A \<subseteq> B \<Longrightarrow> touches B m"
  by (auto simp: touches_def)

lemma touches_ret [touch_rules]: "touches A (ret x)"
  by (simp add: touches_def ret_def)

lemma touches_throw [touch_rules]: "touches A (throw e)"
  by (simp add: touches_def throw_def)

lemma touches_panic [touch_rules]: "touches A panic"
  by (simp add: touches_def panic_def)

lemma touches_stuck [touch_rules]: "touches A stuck"
  by (simp add: touches_def stuck_def)

lemma touches_lift_res [touch_rules]: "touches A (lift_res r)"
  by (simp add: lift_res_def touch_rules split: sum.split)

lemma touches_bind [touch_rules]:
  assumes "touches A m" and "\<And>x. touches A (f x)"
  shows "touches A (bind_c m f)"
  unfolding touches_def
proof (intro allI impI)
  fix w p
  assume p: "p \<notin> A"
  obtain r w' where m: "m w = (r, w')" by fastforce
  then have "wo_files w' p = wo_files w p" using assms(1) p by (metis touches_def snd_conv)
  moreover have "wo_files (snd (f x w')) p = wo_files w' p" for x using assms(2) p by (simp add: touches_def)
  ultimately show "wo_files (snd (bind_c m f w)) p = wo_files w p" by (simp add: bind_c_def m split: Run.split)
qed

lemma snd_attempt [simp]: "snd (attempt m w) = snd (m w)"
  by (auto simp: attempt_def split: prod.split Run.split)

lemma snd_map_err [simp]: "snd (map_err f m w) = snd (m w)"
  by (auto simp: map_err_def split: prod.split Run.split)

lemma touches_attempt [touch_rules]: "touches A m \<Longrightarrow> touches A (attempt m)"
  by (simp add: touches_def)

lemma touches_map_err [touch_rules]: "touches A m \<Longrightarrow> touches A (map_err f m)"
  by (simp add: touches_def)

lemma touches_for_each [touch_rules]: "(\<And>x. touches A (f x)) \<Longrightarrow> touches A (for_each f xs)"
  by (induction xs) (auto intro: touch_rules)

lemma touches_fated:
  assumes "touches A act" and "\<And>n w p. p \<notin> A \<Longrightarrow> wo_files (torn n w) p = wo_files w p"
  shows "touches A (fated act torn)"
  using assms unfolding touches_def fated_def
  by (auto simp: Let_def split: list.split Fate.split option.split)

lemma touches_read_file [touch_rules]: "touches A (read_file p)"
  unfolding read_file_def by (rule touches_fated) (auto simp: touches_def split: option.split)

lemma touches_read_text [touch_rules]: "touches A (read_text p)"
  unfolding read_text_def by (auto intro!: touch_rules)

lemma touches_path_exists [touch_rules]: "touches A (path_exists p)"
  by (simp add: touches_def path_exists_def)

lemma touches_create_dir_all [touch_rules]: "touches A (create_dir_all d)"
  unfolding create_dir_all_def by (rule touches_fated) (auto simp: touches_def)

lemma touches_write_file [touch_rules]: "p \<in> A \<Longrightarrow> touches A (write_file p t)"
  unfolding write_file_def by (rule touches_fated) (auto simp: touches_def)

lemma touches_rename_file [touch_rules]: "a \<in> A \<Longrightarrow> b \<in> A \<Longrightarrow> touches A (rename_file a b)"
  unfolding rename_file_def by (rule touches_fated) (auto simp: touches_def split: option.split)

lemma touches_remove_file [touch_rules]: "p \<in> A \<Longrightarrow> touches A (remove_file p)"
  unfolding remove_file_def by (rule touches_fated) (auto simp: touches_def)

lemma touches_remove_quiet [touch_rules]: "p \<in> A \<Longrightarrow> touches A (remove_quiet p)"
  unfolding remove_quiet_def by (auto intro!: touch_rules)

lemma touches_copy_file [touch_rules]: "b \<in> A \<Longrightarrow> touches A (copy_file a b)"
  unfolding copy_file_def by (rule touches_fated) (auto simp: touches_def split: option.split)

lemma touches_spawn [touch_rules]: "touches A (spawn S prog env args)"
  unfolding spawn_def by (rule touches_fated) (auto simp: touches_def split: prod.split)

lemma touches_stamp [touch_rules]: "touches A (stamp S)"
  by (simp add: touches_def stamp_def)

lemma touches_now [touch_rules]: "touches A (now_ms S)"
  by (simp add: touches_def now_ms_def)

lemma touches_sleep [touch_rules]: "touches A (sleep_ms S n)"
  by (simp add: touches_def sleep_ms_def)

lemma touches_flock [touch_rules]: "touches A (flock_try S)"
  by (simp add: touches_def flock_try_def split: prod.split)

lemma touches_releasing [touch_rules]: "touches A m \<Longrightarrow> touches A (releasing S m)"
  by (auto simp: touches_def releasing_def split: prod.split) (metis snd_conv)

lemma touches_missing_files [touch_rules]: "touches A (missing_files ps)"
  by (induction ps) (auto intro: touch_rules)

lemma touches_oxmgr [touch_rules]: "touches A (oxmgr S dir args)"
  unfolding oxmgr_def oxmgr_bin_def by (auto intro!: touch_rules split: option.split)

lemma touches_live_host_apps [touch_rules]: "touches A (live_host_apps S dir)"
  unfolding live_host_apps_def by (auto intro!: touch_rules split: sum.split)

lemma touches_oxfile_app_names [touch_rules]: "touches A (oxfile_app_names S p)"
  unfolding oxfile_app_names_def by (auto intro!: touch_rules split: sum.split)

lemma touches_oxmgr_apply [touch_rules]: "touches A (oxmgr_apply S dir)"
  unfolding oxmgr_apply_def by (auto intro!: touch_rules)

lemma touches_ledger_load [touch_rules]: "touches A (ledger_load S dir)"
  unfolding ledger_load_def by (auto intro!: touch_rules)

lemma touches_lock_loop [touch_rules]: "touches A (lock_loop S p dl n)"
  by (induction n) (auto intro!: touch_rules split: Flock.split)

lemma touches_lock_acquire [touch_rules]: "lock_path dir \<in> A \<Longrightarrow> touches A (lock_acquire S dir)"
  unfolding lock_acquire_def by (auto intro!: touch_rules)

lemma touches_noop_may_skip [touch_rules]: "touches A (noop_may_skip S dir b f)"
  unfolding noop_may_skip_def noop_liveness_def by (auto intro!: touch_rules)

lemma touches_render [touch_rules]: "touches A (render S dir cfg)"
  unfolding render_def by (auto intro!: touch_rules split: sum.split option.split)

lemma touches_core_gates [touch_rules]: "touches A (core_gates S dir cfg)"
  unfolding core_gates_def by (auto intro!: touch_rules split: sum.split option.split)

lemma touches_stop_and_delete [touch_rules]: "touches A (stop_and_delete S dir n)"
  unfolding stop_and_delete_def by (auto intro!: touches_for_each touch_rules)

lemma touches_clear_residue [touch_rules]: "touches A (clear_iceoryx_residue S)"
  unfolding clear_iceoryx_residue_def by (auto intro!: touches_for_each touch_rules)

lemma touches_scoped_survivors [touch_rules]: "touches A (scoped_survivors S dir)"
  by (simp add: touches_def scoped_survivors_def)

lemma touches_gate_loop [touch_rules]: "touches A (gate_loop S dir topo dl n)"
  by (induction n) (auto intro!: touch_rules split: sum.split)

lemma touches_wait_for_clean [touch_rules]: "touches A (wait_for_clean S dir topo)"
  unfolding wait_for_clean_def by (auto intro!: touch_rules)

section \<open>The files of an instance\<close>

definition ledger_tmp :: "string \<Rightarrow> string" where
  "ledger_tmp dir = run_path dir ''config-state.json.tmp''"

lemma path_join_inj:
  assumes "\<not> path_absolute a" and "\<not> path_absolute b"
  shows "path_join d a = path_join d b \<longleftrightarrow> a = b"
  using assms by (simp add: path_join_def)

lemma path_absolute_simps [simp]: "\<not> path_absolute []" "path_absolute (c # s) \<longleftrightarrow> c = CHR ''/''"
  by (auto simp: path_absolute_def starts_with_def)

lemma run_path_inj:
  assumes "\<not> path_absolute a" and "\<not> path_absolute b"
  shows "run_path dir a = run_path dir b \<longleftrightarrow> a = b"
  unfolding run_path_def by (rule path_join_inj [OF assms])

lemma run_files_distinct [simp]:
  "distinct [lock_path dir, staging_path dir, ledger_tmp dir, ledger_path dir, oxfile_path dir]"
  by (simp add: lock_path_def staging_path_def ledger_tmp_def ledger_path_def oxfile_path_def run_path_inj)

lemmas run_files_neq [simp] = run_files_distinct [simplified distinct.simps, simplified]

lemma run_files_neq_sym [simp]:
  "staging_path dir \<noteq> lock_path dir" "ledger_tmp dir \<noteq> lock_path dir" "ledger_path dir \<noteq> lock_path dir"
  "oxfile_path dir \<noteq> lock_path dir" "ledger_tmp dir \<noteq> staging_path dir" "ledger_path dir \<noteq> staging_path dir"
  "oxfile_path dir \<noteq> staging_path dir" "ledger_path dir \<noteq> ledger_tmp dir" "oxfile_path dir \<noteq> ledger_tmp dir"
  "oxfile_path dir \<noteq> ledger_path dir"
  using run_files_neq [of dir] by fastforce+

lemma etc_run_neq: "path_join (path_join d ''etc'') a \<noteq> path_join (path_join d ''run'') b"
  if "\<not> path_absolute a" "\<not> path_absolute b"
proof -
  have j: "path_join (path_join d k) a = path_join d (k @ ''/'' @ a)" if "k = ''etc'' \<or> k = ''run''" "\<not> path_absolute a" for k a
    using that by (auto simp: path_join_def)
  show ?thesis using that by (simp add: j path_join_inj)
qed

lemma host_yaml_neq [simp]:
  "host_yaml dir \<noteq> lock_path dir" "host_yaml dir \<noteq> staging_path dir" "host_yaml dir \<noteq> ledger_tmp dir"
  "host_yaml dir \<noteq> ledger_path dir" "host_yaml dir \<noteq> oxfile_path dir"
  unfolding host_yaml_def lock_path_def staging_path_def ledger_tmp_def ledger_path_def oxfile_path_def run_path_def
  by (rule etc_run_neq; simp)+

definition core_files :: "string \<Rightarrow> string set" where
  "core_files dir = {lock_path dir, staging_path dir, ledger_tmp dir, ledger_path dir, oxfile_path dir}"

lemma core_files_member [simp]:
  "lock_path dir \<in> core_files dir" "staging_path dir \<in> core_files dir" "ledger_tmp dir \<in> core_files dir"
  "ledger_path dir \<in> core_files dir" "oxfile_path dir \<in> core_files dir" "host_yaml dir \<notin> core_files dir"
  by (simp_all add: core_files_def)

lemma touches_ledger_save [touch_rules]:
  "ledger_tmp dir \<in> A \<Longrightarrow> ledger_path dir \<in> A \<Longrightarrow> touches A (ledger_save S dir l)"
  unfolding ledger_save_def Let_def ledger_tmp_def [symmetric] by (auto intro!: touch_rules)

lemma touches_save_row [touch_rules]:
  "ledger_tmp dir \<in> A \<Longrightarrow> ledger_path dir \<in> A \<Longrightarrow> touches A (save_row S dir h o' r l)"
  unfolding save_row_def by (auto intro!: touch_rules)

lemma touches_write_staging [touch_rules]: "staging_path dir \<in> A \<Longrightarrow> touches A (write_staging dir t)"
  unfolding write_staging_def by (auto intro!: touch_rules)

lemma touches_core_teardown [touch_rules]: "staging_path dir \<in> A \<Longrightarrow> touches A (core_teardown S dir topo)"
  unfolding core_teardown_def by (auto intro!: touch_rules split: sum.split)

lemma touches_core_reconcile [touch_rules]:
  "ledger_tmp dir \<in> A \<Longrightarrow> ledger_path dir \<in> A \<Longrightarrow> touches A (core_reconcile S dir o' h cfg l)"
  unfolding core_reconcile_def by (auto intro!: touch_rules split: option.split)

lemma touches_execute [touch_rules]: "touches (core_files dir) (execute S dir topo force opts)"
  unfolding execute_def with_lock_def execute_locked_def core_swap_def core_activate_def Let_def
  by (auto intro!: touch_rules split: sum.split)

lemma touches_try_commit [touch_rules]: "touches (core_files dir) (try_commit_pending S dir)"
  unfolding try_commit_pending_def commit_pending_fast_def with_lock_def
  by (auto intro!: touch_rules split: sum.split option.split)

section \<open>The protocol\<close>

text \<open>
  The abstract state: the roster that is live and the ledger as the next reader will load it. A step
  sets the marker of the new fingerprint, makes its roster live while that marker is on disk,
  commits while both are there, or changes nothing but lamps and history.
\<close>

record Cluster =
  cl_active :: "string option"
  cl_ledger :: Ledger

inductive proto :: "string \<Rightarrow> string \<Rightarrow> Cluster \<Rightarrow> Cluster \<Rightarrow> bool" for H R where
  prepare: "pa_hash p = H \<Longrightarrow> proto H R c (c\<lparr>cl_ledger := (cl_ledger c)\<lparr>le_pending_apply := Some p\<rparr>\<rparr>)"
| activate: "pending_matches (cl_ledger c) H \<Longrightarrow> proto H R c (c\<lparr>cl_active := Some R\<rparr>)"
| commit:
    "pending_matches (cl_ledger c) H \<Longrightarrow> cl_active c = Some R \<Longrightarrow> le_running l = Some r \<Longrightarrow> ru_hash r = H \<Longrightarrow>
     le_pending_apply l = None \<Longrightarrow> le_last_push l = le_last_push (cl_ledger c) \<Longrightarrow>
     le_flags l = flags_after_commit r (le_last_push l) \<Longrightarrow> proto H R c (c\<lparr>cl_ledger := l\<rparr>)"
| note_row:
    "le_running l = le_running (cl_ledger c) \<Longrightarrow> le_last_push l = le_last_push (cl_ledger c) \<Longrightarrow>
     le_pending_apply l = le_pending_apply (cl_ledger c) \<Longrightarrow> proto H R c (c\<lparr>cl_ledger := l\<rparr>)"

definition ledger_at :: "'d HostSys \<Rightarrow> string \<Rightarrow> (string \<rightharpoonup> string) \<Rightarrow> Ledger" where
  "ledger_at S dir fs =
     (case fs (ledger_path dir) of
        Some t \<Rightarrow> if utf8_valid (bytes_of t) then (case hs_ledger_of S t of Some l \<Rightarrow> l | None \<Rightarrow> default_ledger) else default_ledger
      | None \<Rightarrow> default_ledger)"

definition cluster :: "'d HostSys \<Rightarrow> string \<Rightarrow> 'd World \<Rightarrow> Cluster" where
  "cluster S dir w = \<lparr>cl_active = wo_files w (oxfile_path dir), cl_ledger = ledger_at S dir (wo_files w)\<rparr>"

text \<open>\<open>serde_json\<close> reads back what it has printed, and prints UTF-8.\<close>

definition ledger_codec :: "'d HostSys \<Rightarrow> bool" where
  "ledger_codec S \<longleftrightarrow>
     (\<forall>l. hs_ledger_of S (hs_ledger_text S l) = Some l \<and> utf8_valid (bytes_of (hs_ledger_text S l)))"

section \<open>Triples for the steps\<close>

definition at_cluster :: "'d HostSys \<Rightarrow> string \<Rightarrow> Cluster \<Rightarrow> 'd World \<Rightarrow> bool" where
  "at_cluster S dir c w \<longleftrightarrow> cluster S dir w = c"

definition staged :: "'d HostSys \<Rightarrow> string \<Rightarrow> Cluster \<Rightarrow> string \<Rightarrow> 'd World \<Rightarrow> bool" where
  "staged S dir c R w \<longleftrightarrow> cluster S dir w = c \<and> wo_files w (staging_path dir) = Some R"

lemma cluster_cong:
  "wo_files w' (oxfile_path dir) = wo_files w (oxfile_path dir) \<Longrightarrow>
   wo_files w' (ledger_path dir) = wo_files w (ledger_path dir) \<Longrightarrow> cluster S dir w' = cluster S dir w"
  by (simp add: cluster_def ledger_at_def)

lemma staged_at: "staged S dir c R w \<Longrightarrow> at_cluster S dir c w"
  by (simp add: staged_def at_cluster_def)

lemma triple_frame:
  assumes "touches A m" and "\<And>w w'. P w \<Longrightarrow> (\<And>p. p \<notin> A \<Longrightarrow> wo_files w' p = wo_files w p) \<Longrightarrow> P w'"
  shows "triple P m (\<lambda>_. P) P P"
  unfolding triple_def
proof (intro allI impI)
  fix w
  assume "P w"
  obtain r w' where m: "m w = (r, w')" by fastforce
  have "P w'" by (rule assms(2) [OF \<open>P w\<close>]) (use assms(1) m in \<open>metis touches_def snd_conv\<close>)
  then show "case m w of (Done x, w') \<Rightarrow> P w' | (Failed e, w') \<Rightarrow> P w' | (Crashed, w') \<Rightarrow> P w' | (Stuck, w') \<Rightarrow> P w'"
    by (simp add: m split: Run.split)
qed

lemma frame_at:
  assumes "touches {lock_path dir, staging_path dir, ledger_tmp dir} m"
  shows "triple (at_cluster S dir c) m (\<lambda>_. at_cluster S dir c) (at_cluster S dir c) (at_cluster S dir c)"
  by (rule triple_frame [OF assms]) (simp add: at_cluster_def cluster_def ledger_at_def)

lemma frame_staged:
  assumes "touches {lock_path dir, ledger_tmp dir} m"
  shows "triple (staged S dir c R) m (\<lambda>_. staged S dir c R) (at_cluster S dir c) (at_cluster S dir c)"
  by (rule triple_conseq [OF triple_frame [OF assms, where P = "staged S dir c R"]])
     (auto simp: staged_def at_cluster_def cluster_def ledger_at_def)

lemma triple_write_file:
  assumes "\<And>w fs. P w \<Longrightarrow> P (w\<lparr>wo_fates := fs\<rparr>)" and "\<And>w. P w \<Longrightarrow> Q () (put_file p t w)"
    and "\<And>w. P w \<Longrightarrow> F w \<and> C w" and "\<And>n w. P w \<Longrightarrow> F (put_file p (take n t) w) \<and> C (put_file p (take n t) w)"
  shows "triple P (write_file p t) Q F C"
  unfolding write_file_def by (rule triple_fated) (use assms in \<open>auto simp: triple_def\<close>)

lemma triple_rename_file:
  assumes "\<And>w fs. P w \<Longrightarrow> P (w\<lparr>wo_fates := fs\<rparr>)"
    and "\<And>w t. P w \<Longrightarrow> wo_files w a = Some t \<Longrightarrow> Q () (put_file b t (del_file a w))" and "\<And>w. P w \<Longrightarrow> F w \<and> C w"
  shows "triple P (rename_file a b) Q F C"
  unfolding rename_file_def by (rule triple_fated) (use assms in \<open>auto simp: triple_def split: option.split\<close>)

lemma triple_load:
  "triple (at_cluster S dir c) (ledger_load S dir)
     (\<lambda>led w. at_cluster S dir c w \<and> led \<in> {cl_ledger c, default_ledger}) (at_cluster S dir c) (at_cluster S dir c)"
proof -
  let ?P = "at_cluster S dir c"
  have "triple ?P (read_file (ledger_path dir)) (\<lambda>t w. ?P w \<and> wo_files w (ledger_path dir) = Some t) ?P ?P"
    unfolding read_file_def
    by (rule triple_fated) (auto simp: triple_def at_cluster_def cluster_def ledger_at_def split: option.split)
  then have "triple ?P (read_text (ledger_path dir))
      (\<lambda>t w. ?P w \<and> wo_files w (ledger_path dir) = Some t \<and> utf8_valid (bytes_of t)) ?P ?P"
    unfolding read_text_def by (rule triple_bind) (auto intro: triple_ret triple_throw)
  then have "triple ?P (attempt (read_text (ledger_path dir)))
      (\<lambda>r w. ?P w \<and> (\<forall>t. r = Inr t \<longrightarrow> wo_files w (ledger_path dir) = Some t \<and> utf8_valid (bytes_of t))) ?P ?P"
    by (intro triple_attempt) (erule triple_conseq, auto)
  then show ?thesis unfolding ledger_load_def
    by (rule triple_bind, intro triple_ret)
       (auto simp: at_cluster_def cluster_def ledger_at_def split: sum.split option.split)
qed

lemma triple_save_staged:
  assumes "ledger_codec S"
  shows "triple (staged S dir c R) (ledger_save S dir l) (\<lambda>_. staged S dir (c\<lparr>cl_ledger := l\<rparr>) R)
    (at_cluster S dir c) (at_cluster S dir c)"
proof -
  let ?P = "staged S dir c R" and ?A = "at_cluster S dir c" and ?t = "hs_ledger_text S l"
  have "triple ?P (create_dir_all (path_join dir ''run'')) (\<lambda>_. ?P) ?A ?A"
    by (rule frame_staged) (rule touch_rules)
  moreover have "triple ?P (write_file (ledger_tmp dir) ?t) (\<lambda>_ w. ?P w \<and> wo_files w (ledger_tmp dir) = Some ?t) ?A ?A"
    by (rule triple_write_file) (auto simp: staged_def at_cluster_def cluster_def ledger_at_def)
  moreover have "triple (\<lambda>w. ?P w \<and> wo_files w (ledger_tmp dir) = Some ?t) (rename_file (ledger_tmp dir) (ledger_path dir))
      (\<lambda>_. staged S dir (c\<lparr>cl_ledger := l\<rparr>) R) ?A ?A"
    by (rule triple_rename_file)
       (use assms in \<open>auto simp: staged_def at_cluster_def cluster_def ledger_at_def ledger_codec_def\<close>)
  ultimately show ?thesis
    unfolding ledger_save_def Let_def ledger_tmp_def [symmetric]
    by (blast intro: triple_bind triple_map_err)
qed

lemma triple_save:
  assumes "ledger_codec S"
  shows "triple (at_cluster S dir c) (ledger_save S dir l) (\<lambda>_. at_cluster S dir (c\<lparr>cl_ledger := l\<rparr>))
    (at_cluster S dir c) (at_cluster S dir c)"
proof -
  let ?P = "at_cluster S dir c" and ?t = "hs_ledger_text S l"
  have "triple ?P (create_dir_all (path_join dir ''run'')) (\<lambda>_. ?P) ?P ?P"
    by (rule frame_at) (rule touch_rules)
  moreover have "triple ?P (write_file (ledger_tmp dir) ?t) (\<lambda>_ w. ?P w \<and> wo_files w (ledger_tmp dir) = Some ?t) ?P ?P"
    by (rule triple_write_file) (auto simp: at_cluster_def cluster_def ledger_at_def)
  moreover have "triple (\<lambda>w. ?P w \<and> wo_files w (ledger_tmp dir) = Some ?t) (rename_file (ledger_tmp dir) (ledger_path dir))
      (\<lambda>_. at_cluster S dir (c\<lparr>cl_ledger := l\<rparr>)) ?P ?P"
    by (rule triple_rename_file) (use assms in \<open>auto simp: at_cluster_def cluster_def ledger_at_def ledger_codec_def\<close>)
  ultimately show ?thesis
    unfolding ledger_save_def Let_def ledger_tmp_def [symmetric]
    by (blast intro: triple_bind triple_map_err)
qed

text \<open>Everything a run may leave behind: the state it found, or one the protocol reaches from it.\<close>

definition within :: "'d HostSys \<Rightarrow> string \<Rightarrow> string \<Rightarrow> string \<Rightarrow> Cluster \<Rightarrow> Ledger \<Rightarrow> 'd World \<Rightarrow> bool" where
  "within S dir H R c led w \<longleftrightarrow>
     cluster S dir w = c \<or> (proto H R)\<^sup>*\<^sup>* (c\<lparr>cl_ledger := led\<rparr>) (cluster S dir w)"

lemma within_refl: "at_cluster S dir c w \<Longrightarrow> within S dir H R c led w"
  by (simp add: at_cluster_def within_def)

lemma within_step:
  "at_cluster S dir c' w \<Longrightarrow> (proto H R)\<^sup>*\<^sup>* (c\<lparr>cl_ledger := led\<rparr>) c' \<Longrightarrow> within S dir H R c led w"
  by (simp add: at_cluster_def within_def)

lemma triple_save_row:
  assumes "ledger_codec S" and c': "c' = c \<or> (proto H R)\<^sup>*\<^sup>* (c\<lparr>cl_ledger := led0\<rparr>) c'"
    and step: "\<And>t. (proto H R)\<^sup>*\<^sup>* (c\<lparr>cl_ledger := led0\<rparr>)
                 (c'\<lparr>cl_ledger := push_history h (op_origin o') (op_actor o') r t led\<rparr>)"
  shows "triple (at_cluster S dir c') (save_row S dir h o' r led) (\<lambda>_. within S dir H R c led0)
    (within S dir H R c led0) (within S dir H R c led0)"
proof -
  have keep: "at_cluster S dir c' w \<Longrightarrow> within S dir H R c led0 w" for w
    using c' by (auto simp: at_cluster_def within_def)
  have "triple (at_cluster S dir c') (ledger_save S dir (push_history h (op_origin o') (op_actor o') r t led))
      (\<lambda>_. within S dir H R c led0) (within S dir H R c led0) (within S dir H R c led0)" for t
    by (rule triple_conseq [OF triple_save [OF assms(1)]]) (use keep step within_step in blast)+
  moreover have "triple (at_cluster S dir c') (stamp S) (\<lambda>_. at_cluster S dir c') F C" for F C
    by (simp add: triple_def stamp_def)
  ultimately show ?thesis unfolding save_row_def by (blast intro: triple_bind)
qed

lemma frame_bind:
  assumes "touches {lock_path dir, staging_path dir, ledger_tmp dir} m" and "\<And>w. at_cluster S dir c w \<Longrightarrow> W w"
    and "\<And>x. triple (at_cluster S dir c) (f x) Q W W"
  shows "triple (at_cluster S dir c) (bind_c m f) Q W W"
  by (rule triple_bind [OF triple_conseq [OF frame_at [OF assms(1)]] assms(3)]) (use assms(2) in auto)

lemma frame_bind_staged:
  assumes "touches {lock_path dir, ledger_tmp dir} m" and "\<And>w. at_cluster S dir c w \<Longrightarrow> W w"
    and "\<And>x. triple (staged S dir c R) (f x) Q W W"
  shows "triple (staged S dir c R) (bind_c m f) Q W W"
  by (rule triple_bind [OF triple_conseq [OF frame_staged [OF assms(1)]] assms(3)]) (use assms(2) in auto)

lemma triple_core_reconcile:
  assumes codec: "ledger_codec S" and c': "(proto H R)\<^sup>*\<^sup>* (c\<lparr>cl_ledger := led0\<rparr>) c'"
    and pend: "pending_matches (cl_ledger c') H" and act: "cl_active c' = Some R" and led: "led = cl_ledger c'"
  shows "triple (at_cluster S dir c') (core_reconcile S dir o' H cfg led) (\<lambda>_. within S dir H R c led0)
    (within S dir H R c led0) (within S dir H R c led0)"
proof -
  let ?W = "within S dir H R c led0"
  have keep: "at_cluster S dir c' w \<Longrightarrow> ?W w" for w using within_step [OF _ c'] .
  have commit: "(proto H R)\<^sup>*\<^sup>* (c\<lparr>cl_ledger := led0\<rparr>)
      (c'\<lparr>cl_ledger := push_history H (op_origin o') (op_actor o') r t (commit_ledger H o' t' led)\<rparr>)" for r t t'
    by (rule rtranclp.rtrancl_into_rtrancl [OF c'], rule proto.commit)
       (use pend act led in \<open>auto simp: commit_ledger_def Let_def\<close>)
  have note_row: "(proto H R)\<^sup>*\<^sup>* (c\<lparr>cl_ledger := led0\<rparr>)
      (c'\<lparr>cl_ledger := push_history H (op_origin o') (op_actor o') r t (led\<lparr>le_flags := fl\<rparr>)\<rparr>)" for r t fl
    by (rule rtranclp.rtrancl_into_rtrancl [OF c'], rule proto.note_row) (use led in auto)
  have saved: "triple (at_cluster S dir c') (save_row S dir H o' r l) (\<lambda>_. ?W) ?W ?W"
    if "\<And>t. (proto H R)\<^sup>*\<^sup>* (c\<lparr>cl_ledger := led0\<rparr>) (c'\<lparr>cl_ledger := push_history H (op_origin o') (op_actor o') r t l\<rparr>)" for r l
    by (rule triple_save_row [OF codec _ that]) (use c' in blast)
  have finish: "triple (at_cluster S dir c') (bind_c (save_row S dir H o' r l) (\<lambda>_. ret x)) (\<lambda>_. ?W) ?W ?W"
    if "\<And>t. (proto H R)\<^sup>*\<^sup>* (c\<lparr>cl_ledger := led0\<rparr>) (c'\<lparr>cl_ledger := push_history H (op_origin o') (op_actor o') r t l\<rparr>)" for r l x
    by (rule triple_bind [OF saved [OF that]]) (rule triple_ret)
  show ?thesis
    unfolding core_reconcile_def
    by (intro frame_bind touch_rules keep; (split option.split, intro conjI impI allI)?)
       (auto intro!: finish commit note_row frame_bind touch_rules keep)
qed

lemma triple_core_activate:
  assumes codec: "ledger_codec S"
  shows "triple (staged S dir c R) (core_activate S dir o' H cfg led) (\<lambda>_. within S dir H R c led)
    (within S dir H R c led) (within S dir H R c led)"
proof -
  let ?W = "within S dir H R c led"
  have main: "triple (staged S dir c R) (bind_c (ledger_save S dir l) (\<lambda>_.
      bind_c (map_err f (rename_file (staging_path dir) (oxfile_path dir))) (\<lambda>_.
      bind_c (attempt (oxmgr_apply S dir)) (\<lambda>r.
      case r of
        Inl e \<Rightarrow> bind_c (save_row S dir H o' (''refused-apply: '' @ e) (l\<lparr>le_flags := (le_flags l)\<lparr>fl_error := True\<rparr>\<rparr>)) (\<lambda>_. ret (Refused e))
      | Inr _ \<Rightarrow> core_reconcile S dir o' H cfg l)))) (\<lambda>_. ?W) ?W ?W"
    if l: "l = led\<lparr>le_pending_apply := Some \<lparr>pa_hash = H, pa_at = t\<rparr>\<rparr>" for l t f
  proof -
    let ?c1 = "c\<lparr>cl_ledger := l\<rparr>" and ?c2 = "c\<lparr>cl_ledger := l, cl_active := Some R\<rparr>"
    have s1: "(proto H R)\<^sup>*\<^sup>* (c\<lparr>cl_ledger := led\<rparr>) ?c1"
      using proto.prepare [of "\<lparr>pa_hash = H, pa_at = t\<rparr>" H R "c\<lparr>cl_ledger := led\<rparr>"] l by auto
    have pend: "pending_matches (cl_ledger ?c1) H" by (simp add: l pending_matches_def)
    have s2: "(proto H R)\<^sup>*\<^sup>* (c\<lparr>cl_ledger := led\<rparr>) ?c2"
      using rtranclp.rtrancl_into_rtrancl [OF s1 proto.activate [OF pend]] by simp
    have row: "(proto H R)\<^sup>*\<^sup>* (c\<lparr>cl_ledger := led\<rparr>)
        (?c2\<lparr>cl_ledger := push_history H (op_origin o') (op_actor o') r t' (l\<lparr>le_flags := fl\<rparr>)\<rparr>)" for r t' fl
      by (rule rtranclp.rtrancl_into_rtrancl [OF s2], rule proto.note_row) auto
    have save: "triple (staged S dir c R) (ledger_save S dir l) (\<lambda>_. staged S dir ?c1 R) ?W ?W"
      by (rule triple_conseq [OF triple_save_staged [OF codec]]) (auto intro: within_refl)
    have ren: "triple (staged S dir ?c1 R) (map_err f (rename_file (staging_path dir) (oxfile_path dir))) (\<lambda>_. at_cluster S dir ?c2) ?W ?W"
    proof (intro triple_map_err triple_rename_file)
      show "?W w \<and> ?W w" if "staged S dir ?c1 R w" for w using within_step [OF staged_at [OF that] s1] by simp
      show "at_cluster S dir ?c2 (put_file (oxfile_path dir) u (del_file (staging_path dir) w))"
        if "staged S dir ?c1 R w" "wo_files w (staging_path dir) = Some u" for w u
        using that by (cases c) (auto simp: staged_def at_cluster_def cluster_def ledger_at_def)
    qed (simp add: staged_def cluster_def)
    have apply_row: "triple (at_cluster S dir ?c2)
        (bind_c (save_row S dir H o' (''refused-apply: '' @ e) (l\<lparr>le_flags := (le_flags l)\<lparr>fl_error := True\<rparr>\<rparr>)) (\<lambda>_. ret (Refused e)))
        (\<lambda>_. ?W) ?W ?W" for e
      by (rule triple_bind [OF triple_save_row [OF codec disjI2 [OF s2] row]]) (rule triple_ret)
    have rec: "triple (at_cluster S dir ?c2) (core_reconcile S dir o' H cfg l) (\<lambda>_. ?W) ?W ?W"
      by (rule triple_core_reconcile [OF codec s2]) (use pend in simp_all)
    show ?thesis
      by (rule triple_bind [OF save], rule triple_bind [OF ren], intro frame_bind touch_rules)
         (use s2 rec apply_row in \<open>auto intro: within_step split: sum.split\<close>)
  qed
  show ?thesis
    unfolding core_activate_def Let_def
    by (rule frame_bind_staged [OF touches_stamp within_refl], assumption) (rule main [OF refl])
qed

lemma triple_core_swap:
  assumes codec: "ledger_codec S"
  shows "triple (at_cluster S dir c) (core_swap S dir topo o' H cfg R led) (\<lambda>_. within S dir H R c led)
    (within S dir H R c led) (within S dir H R c led)"
proof -
  let ?W = "within S dir H R c led" and ?A = "at_cluster S dir c" and ?K = "staged S dir c R"
  have W: "?A w \<Longrightarrow> ?W w" for w by (rule within_refl)
  have "triple ?A (write_file (staging_path dir) R) (\<lambda>_. ?K) ?W ?W"
    by (rule triple_write_file) (auto simp: at_cluster_def staged_def cluster_def ledger_at_def within_def)
  then have staging: "triple ?A (write_staging dir R) (\<lambda>_. ?K) ?W ?W"
    unfolding write_staging_def by (intro frame_bind touch_rules triple_map_err W) auto
  have "triple ?K (for_each (stop_and_delete S dir) xs) (\<lambda>_. ?K) ?W ?W" for xs
    by (rule triple_conseq [OF frame_staged]) (auto intro!: touch_rules W)
  moreover have "triple ?K (clear_iceoryx_residue S) (\<lambda>_. ?K) ?W ?W"
    by (rule triple_conseq [OF frame_staged]) (auto intro!: touch_rules W)
  moreover have "triple ?K (remove_quiet (staging_path dir)) (\<lambda>_. ?A) ?W ?W"
    by (rule triple_conseq [OF frame_at]) (auto intro!: touch_rules W dest: staged_at)
  ultimately have teardown: "triple ?K (core_teardown S dir topo) (\<lambda>r. case r of Inl _ \<Rightarrow> ?A | Inr _ \<Rightarrow> ?K) ?W ?W"
    unfolding core_teardown_def
    by (intro frame_bind_staged touch_rules W) (auto split: sum.split intro!: triple_bind intro: triple_ret)
  have refuse: "triple ?A (ret x) (\<lambda>_. ?W) ?W ?W" for x :: Outcome by (rule triple_ret) (rule W)
  have row: "triple ?A (save_row S dir H o' r (led\<lparr>le_flags := fl\<rparr>)) (\<lambda>_. ?W) ?W ?W" for r fl
  proof (rule triple_save_row [OF codec])
    show "(proto H R)\<^sup>*\<^sup>* (c\<lparr>cl_ledger := led\<rparr>) (c\<lparr>cl_ledger := push_history H (op_origin o') (op_actor o') r t (led\<lparr>le_flags := fl\<rparr>)\<rparr>)" for t
      using proto.note_row [of _ "c\<lparr>cl_ledger := led\<rparr>" H R] by (intro r_into_rtranclp) simp
  qed simp
  have residue: "triple ?K (bind_c (remove_quiet (staging_path dir)) (\<lambda>_.
      bind_c (save_row S dir H o' r (led\<lparr>le_flags := fl\<rparr>)) (\<lambda>_. ret x))) (\<lambda>_. ?W) ?W ?W" for r fl and x :: Outcome
    by (rule triple_pre [OF frame_bind]) (auto intro!: touch_rules W triple_bind [OF row] triple_ret dest: staged_at)
  have gate: "triple ?K (bind_c (wait_for_clean S dir topo) (\<lambda>gate.
      case gate of
        Inl (survivors, note) \<Rightarrow>
          bind_c (remove_quiet (staging_path dir)) (\<lambda>_.
          bind_c (save_row S dir H o' (''refused-residue: survivors=['' @ survivor_list survivors @ ''] registry='' @ note)
                    (led\<lparr>le_flags := (le_flags led)\<lparr>fl_pending := True\<rparr>\<rparr>)) (\<lambda>_. ret (Residue survivors)))
      | Inr _ \<Rightarrow> core_activate S dir o' H cfg led)) (\<lambda>_. ?W) ?W ?W"
    by (intro frame_bind_staged touch_rules W)
       (auto split: sum.split intro!: residue triple_core_activate [OF codec])
  show ?thesis
    unfolding core_swap_def
  proof (rule triple_bind [OF staging], rule triple_bind [OF teardown])
    fix td :: "string + unit"
    show "triple (case td of Inl _ \<Rightarrow> ?A | Inr _ \<Rightarrow> ?K) (case td of
        Inl reason \<Rightarrow> ret (Refused reason)
      | Inr _ \<Rightarrow>
          bind_c (wait_for_clean S dir topo) (\<lambda>gate.
          case gate of
            Inl (survivors, note) \<Rightarrow>
              bind_c (remove_quiet (staging_path dir)) (\<lambda>_.
              bind_c (save_row S dir H o' (''refused-residue: survivors=['' @ survivor_list survivors @ ''] registry='' @ note)
                        (led\<lparr>le_flags := (le_flags led)\<lparr>fl_pending := True\<rparr>\<rparr>)) (\<lambda>_. ret (Residue survivors)))
          | Inr _ \<Rightarrow> core_activate S dir o' H cfg led)) (\<lambda>_. ?W) ?W ?W"
      by (cases td; simp only: sum.case; rule refuse gate)
  qed
qed

text \<open>Reading the file again while holding the lock, the gates, and the swap.\<close>

lemma triple_gates:
  "triple (at_cluster S dir c) (core_gates S dir cfg)
     (\<lambda>g w. at_cluster S dir c w \<and> (\<forall>R. g = Inr R \<longrightarrow> to_oxfile_in_dir (hs_env S) (hs_yaml S) cfg dir = Inr (Some R)))
     (at_cluster S dir c) (at_cluster S dir c)"
proof -
  let ?A = "at_cluster S dir c"
  let ?ok = "\<lambda>R. to_oxfile_in_dir (hs_env S) (hs_yaml S) cfg dir = Inr (Some R)"
  have rend: "triple ?A (render S dir cfg) (\<lambda>R w. ?A w \<and> ?ok R) ?A ?A"
    unfolding render_def by (auto split: sum.split option.split intro: triple_ret triple_throw triple_panic)
  have tokens: "triple (\<lambda>w. ?A w \<and> ?ok R) (bind_c (missing_files ps) (\<lambda>missing.
      if missing \<noteq> [] then ret (Inl (msg missing)) else ret (Inr R)))
      (\<lambda>g w. ?A w \<and> (\<forall>R. g = Inr R \<longrightarrow> ?ok R)) ?A ?A" for R ps msg
  proof (cases "?ok R")
    case True
    then show ?thesis
      by (intro triple_pre [OF frame_bind]) (auto intro!: touch_rules triple_ret)
  qed (simp add: triple_def)
  have rest: "triple ?A (bind_c (render S dir cfg) (\<lambda>rendered.
      bind_c (missing_files (token_paths rendered)) (\<lambda>missing.
      if missing \<noteq> [] then ret (Inl (msg missing)) else ret (Inr rendered))))
      (\<lambda>g w. ?A w \<and> (\<forall>R. g = Inr R \<longrightarrow> ?ok R)) ?A ?A" for msg
    by (rule triple_bind [OF rend tokens])
  have key: "touches B (case key of None \<Rightarrow> ret True | Some rel \<Rightarrow> path_exists (path_join dir rel))" for B key
    by (auto intro: touch_rules split: option.split)
  show ?thesis
  proof (cases "validate (hs_env S) (hs_yaml S) cfg")
    case (Inl e)
    then show ?thesis unfolding core_gates_def by (auto intro: triple_ret)
  next
    case (Inr u)
    have "triple ?A (bind_c (case key of None \<Rightarrow> ret True | Some rel \<Rightarrow> path_exists (path_join dir rel)) (\<lambda>ok.
        if \<not> ok then ret (Inl (hmac_missing (path_join dir (the key))))
        else bind_c (render S dir cfg) (\<lambda>rendered.
          bind_c (missing_files (token_paths rendered)) (\<lambda>missing.
          if missing \<noteq> [] then ret (Inl (msg missing)) else ret (Inr rendered)))))
        (\<lambda>g w. ?A w \<and> (\<forall>R. g = Inr R \<longrightarrow> ?ok R)) ?A ?A" for key msg
      by (rule frame_bind [OF key]) (simp_all add: rest triple_ret)
    then show ?thesis unfolding core_gates_def Inr sum.case
      by (rule frame_bind [OF touches_lift_res, rotated]) simp
  qed
qed

definition follows :: "'d HostSys \<Rightarrow> string \<Rightarrow> string \<Rightarrow> Cluster \<Rightarrow> Cluster \<Rightarrow> bool" where
  "follows S dir cfg c c' \<longleftrightarrow>
     c' = c \<or>
     (\<exists>led R. led \<in> {cl_ledger c, default_ledger} \<and> to_oxfile_in_dir (hs_env S) (hs_yaml S) cfg dir = Inr (Some R)
        \<and> (proto (file_hash S cfg) R)\<^sup>*\<^sup>* (c\<lparr>cl_ledger := led\<rparr>) c')"

lemma within_follows:
  assumes "within S dir (file_hash S cfg) R c led w" and "led \<in> {cl_ledger c, default_ledger}"
    and "to_oxfile_in_dir (hs_env S) (hs_yaml S) cfg dir = Inr (Some R)"
  shows "follows S dir cfg c (cluster S dir w)"
  using assms unfolding within_def follows_def by blast

lemma triple_pure: "(Q \<Longrightarrow> triple P m R F C) \<Longrightarrow> triple (\<lambda>w. P w \<and> Q) m R F C"
  by (auto simp: triple_def)

lemma triple_after_gates:
  assumes codec: "ledger_codec S" and led: "led \<in> {cl_ledger c, default_ledger}"
  shows "triple (at_cluster S dir c)
    (bind_c (core_gates S dir cfg) (\<lambda>g. case g of
       Inl reason \<Rightarrow> ret (Refused reason)
     | Inr rendered \<Rightarrow> core_swap S dir topo opts (file_hash S cfg) cfg rendered led))
    (\<lambda>_ w. follows S dir cfg c (cluster S dir w)) (\<lambda>w. follows S dir cfg c (cluster S dir w))
    (\<lambda>w. follows S dir cfg c (cluster S dir w))"
proof -
  let ?G = "\<lambda>w. follows S dir cfg c (cluster S dir w)"
  let ?ok = "\<lambda>R. to_oxfile_in_dir (hs_env S) (hs_yaml S) cfg dir = Inr (Some R)"
  have keep: "at_cluster S dir c w \<Longrightarrow> ?G w" for w by (simp add: at_cluster_def follows_def)
  have swap: "triple (at_cluster S dir c) (core_swap S dir topo opts (file_hash S cfg) cfg R led) (\<lambda>_. ?G) ?G ?G"
    if "?ok R" for R
    by (rule triple_conseq [OF triple_core_swap [OF codec]]) (use within_follows led that in blast)+
  have gates: "triple (at_cluster S dir c) (core_gates S dir cfg)
      (\<lambda>g w. at_cluster S dir c w \<and> (\<forall>R. g = Inr R \<longrightarrow> ?ok R)) ?G ?G"
    by (rule triple_conseq [OF triple_gates]) (auto intro: keep)
  have "triple (at_cluster S dir c) (case g of
       Inl reason \<Rightarrow> ret (Refused reason)
     | Inr rendered \<Rightarrow> core_swap S dir topo opts (file_hash S cfg) cfg rendered led) (\<lambda>_. ?G) ?G ?G"
    if "\<forall>R. g = Inr R \<longrightarrow> ?ok R" for g
    using that by (cases g) (auto intro: swap triple_ret keep)
  then show ?thesis by (intro triple_bind [OF gates] triple_pure)
qed

lemma triple_execute_locked:
  assumes codec: "ledger_codec S"
  shows "triple (\<lambda>w. at_cluster S dir c w \<and> wo_files w (host_yaml dir) = Some cfg) (execute_locked S dir topo force opts)
    (\<lambda>_ w. follows S dir cfg c (cluster S dir w)) (\<lambda>w. follows S dir cfg c (cluster S dir w))
    (\<lambda>w. follows S dir cfg c (cluster S dir w))"
proof -
  let ?G = "\<lambda>w. follows S dir cfg c (cluster S dir w)" and ?A = "at_cluster S dir c" and ?H = "file_hash S cfg"
  have keep: "?A w \<Longrightarrow> ?G w" for w by (simp add: at_cluster_def follows_def)
  have rd: "triple (\<lambda>w. ?A w \<and> wo_files w (host_yaml dir) = Some cfg) (map_err f (read_file (host_yaml dir)))
      (\<lambda>b w. ?A w \<and> b = cfg) ?G ?G" for f
    unfolding read_file_def
    by (rule triple_map_err, rule triple_fated)
       (auto simp: triple_def at_cluster_def cluster_def ledger_at_def follows_def split: option.split)
  have load: "triple ?A (ledger_load S dir) (\<lambda>led w. ?A w \<and> led \<in> {cl_ledger c, default_ledger}) ?G ?G"
    by (rule triple_conseq [OF triple_load]) (auto intro: keep)
  have skip: "touches B (if a then ret False else noop_may_skip S dir cfg b)" for B a b
    by (auto intro: touch_rules)
  have rest: "triple ?A (bind_c (if a then ret False else noop_may_skip S dir cfg b) (\<lambda>skip.
      if skip then ret (NoOp ?H) else if \<not> u then throw e
      else bind_c (core_gates S dir cfg) (\<lambda>g. case g of
             Inl reason \<Rightarrow> ret (Refused reason)
           | Inr rendered \<Rightarrow> core_swap S dir topo opts ?H cfg rendered led))) (\<lambda>_. ?G) ?G ?G"
    if "led \<in> {cl_ledger c, default_ledger}" for led a b u e
    by (rule frame_bind [OF skip keep]) (auto intro!: triple_ret triple_throw keep triple_after_gates [OF codec that])
  show ?thesis
    unfolding execute_locked_def Let_def
    by (rule triple_bind [OF rd], rule triple_pure, hypsubst, rule triple_bind [OF load], rule triple_pure, rule rest)
qed

lemma triple_result:
  assumes "triple P m (\<lambda>_. G) G G" and "P w"
  shows "G (snd (m w))"
proof (cases "m w")
  case (Pair r w')
  then show ?thesis using assms by (cases r) (auto simp: triple_def dest!: spec [of _ w])
qed

lemma triple_releasing:
  assumes m: "triple P m (\<lambda>_. G) G G" and sys: "\<And>w d. G w \<Longrightarrow> G (w\<lparr>wo_sys := d\<rparr>)"
  shows "triple P (releasing S m) (\<lambda>_. G) G G"
  unfolding triple_def
proof (intro allI impI)
  fix w
  assume "P w"
  obtain r w' where mw: "m w = (r, w')" by fastforce
  then have "G w'" using triple_result [OF m \<open>P w\<close>] by simp
  then show "case releasing S m w of (Done x, w') \<Rightarrow> G w' | (Failed e, w') \<Rightarrow> G w' | (Crashed, w') \<Rightarrow> G w' | (Stuck, w') \<Rightarrow> G w'"
    by (auto simp: releasing_def mw intro: sys split: Run.split)
qed

lemma execute_follows:
  assumes codec: "ledger_codec S" and cfg: "wo_files w (host_yaml dir) = Some cfg"
  shows "follows S dir cfg (cluster S dir w) (cluster S dir (snd (execute S dir topo force opts w)))"
proof -
  let ?c = "cluster S dir w"
  let ?G = "\<lambda>w. follows S dir cfg ?c (cluster S dir w)" and ?P = "\<lambda>w. at_cluster S dir ?c w \<and> wo_files w (host_yaml dir) = Some cfg"
  have "triple ?P (lock_acquire S dir) (\<lambda>_. ?P) ?P ?P"
    by (rule triple_frame [where A = "{lock_path dir}"])
       (auto intro!: touch_rules simp: at_cluster_def cluster_def ledger_at_def host_yaml_neq)
  then have lock: "triple ?P (lock_acquire S dir) (\<lambda>_. ?P) ?G ?G"
    by (rule triple_conseq) (auto simp: at_cluster_def follows_def)
  have "triple ?P (releasing S (execute_locked S dir topo force opts)) (\<lambda>_. ?G) ?G ?G"
    by (rule triple_releasing [OF triple_execute_locked [OF codec]]) (simp add: cluster_def)
  then have "triple ?P (execute S dir topo force opts) (\<lambda>_. ?G) ?G ?G"
    unfolding execute_def with_lock_def by (rule triple_bind [OF lock])
  then show ?thesis by (rule triple_result) (simp add: cfg at_cluster_def)
qed

section \<open>A machine to run on\<close>

text \<open>
  An instance for the witnesses: the registry of the daemon is the list of its app names, listing prints
  them one per line, \<open>apply\<close> registers the names of the oxfile, and a ledger is written as a number of
  letters, the position of its fields in an enumeration.
\<close>

type_synonym ledger_fields =
  "((string \<times> string \<times> string \<times> string option) option \<times> (string \<times> string option \<times> string) option)
   \<times> (string \<times> string) option \<times> (bool \<times> bool \<times> bool) \<times> (string \<times> string \<times> string option \<times> string \<times> string) list"

definition ledger_fields_of :: "Ledger \<Rightarrow> ledger_fields" where
  "ledger_fields_of l =
     ((map_option (\<lambda>r. (ru_hash r, ru_at r, ru_origin r, ru_actor r)) (le_running l),
       map_option (\<lambda>p. (lp_hash p, lp_actor p, lp_at p)) (le_last_push l)),
      map_option (\<lambda>p. (pa_hash p, pa_at p)) (le_pending_apply l),
      (fl_pending (le_flags l), fl_error (le_flags l), fl_conflict (le_flags l)),
      map (\<lambda>h. (hi_hash h, hi_origin h, hi_actor h, hi_at h, hi_result h)) (le_history l))"

definition ledger_of_fields :: "ledger_fields \<Rightarrow> Ledger" where
  "ledger_of_fields = (\<lambda>((r, p), q, (a, b, c), hs).
     \<lparr>le_running = map_option (\<lambda>(h, t, o', u). \<lparr>ru_hash = h, ru_at = t, ru_origin = o', ru_actor = u\<rparr>) r,
      le_last_push = map_option (\<lambda>(h, u, t). \<lparr>lp_hash = h, lp_actor = u, lp_at = t\<rparr>) p,
      le_pending_apply = map_option (\<lambda>(h, t). \<lparr>pa_hash = h, pa_at = t\<rparr>) q,
      le_flags = \<lparr>fl_pending = a, fl_error = b, fl_conflict = c\<rparr>,
      le_history = map (\<lambda>(h, o', u, t, r). \<lparr>hi_hash = h, hi_origin = o', hi_actor = u, hi_at = t, hi_result = r\<rparr>) hs\<rparr>)"

lemma record_eta:
  "\<lparr>ru_hash = ru_hash r, ru_at = ru_at r, ru_origin = ru_origin r, ru_actor = ru_actor r\<rparr> = r"
  "\<lparr>lp_hash = lp_hash p, lp_actor = lp_actor p, lp_at = lp_at p\<rparr> = p"
  "\<lparr>pa_hash = pa_hash q, pa_at = pa_at q\<rparr> = q"
  "\<lparr>fl_pending = fl_pending f, fl_error = fl_error f, fl_conflict = fl_conflict f\<rparr> = f"
  "\<lparr>hi_hash = hi_hash h, hi_origin = hi_origin h, hi_actor = hi_actor h, hi_at = hi_at h, hi_result = hi_result h\<rparr> = h"
  "\<lparr>le_running = le_running l, le_last_push = le_last_push l, le_pending_apply = le_pending_apply l, le_flags = le_flags l,
    le_history = le_history l\<rparr> = l"
  by (cases r, cases p, cases q, cases f, cases h, cases l, simp)+

lemma ledger_of_fields_of: "ledger_of_fields (ledger_fields_of l) = l"
  by (simp add: ledger_of_fields_def ledger_fields_of_def option.map_comp comp_def option.map_ident record_eta)

definition demo_ledger_text :: "Ledger \<Rightarrow> string" where
  "demo_ledger_text l = replicate (to_nat (ledger_fields_of l)) (CHR ''a'')"

definition demo_ledger_of :: "string \<Rightarrow> Ledger option" where
  "demo_ledger_of t = Some (ledger_of_fields (from_nat (length t)))"

fun demo_lines :: "string \<Rightarrow> string list" where
  "demo_lines [] = []"
| "demo_lines (c # cs) =
     (if c = CHR 10 then [] # demo_lines cs
      else case demo_lines cs of [] \<Rightarrow> [[c]] | l # ls \<Rightarrow> (c # l) # ls)"

definition demo_app_names :: "string \<Rightarrow> string list" where
  "demo_app_names t =
     map (\<lambda>l. butlast (drop 8 l)) (filter (\<lambda>l. starts_with l (''name = '' @ [CHR 34])) (demo_lines t))"

definition demo_spawn ::
  "string \<Rightarrow> (string \<times> string) list \<Rightarrow> string list \<Rightarrow> (string \<rightharpoonup> string) \<Rightarrow> string list \<Rightarrow> CmdOut \<times> string list" where
  "demo_spawn prog env args fs reg =
     (let ok = (\<lambda>out. \<lparr>co_code = Some 0, co_stdout = out, co_stderr = []\<rparr>) in
      if args = [''list'', ''--json''] then (ok (concat (map (\<lambda>n. n @ newline) reg)), reg)
      else case args of
             [verb, x] \<Rightarrow>
               if verb = ''delete'' then (ok [], filter (\<lambda>n. n \<noteq> x) reg)
               else if verb = ''apply''
               then (ok [], case fs x of Some t \<Rightarrow> reg @ filter (\<lambda>n. n \<notin> set reg) (demo_app_names t) | None \<Rightarrow> reg)
               else (ok [], reg)
           | _ \<Rightarrow> (ok [], reg))"

definition demo_sys :: "string list HostSys" where
  "demo_sys =
     \<lparr>hs_env = demo_host_env, hs_yaml = demo_yaml,
      hs_toml = (\<lambda>t. Inr (TomlTable [(''apps'', TomlArray (map (\<lambda>n. TomlTable [(''name'', TomlString n)]) (demo_app_names t)))])),
      hs_json = (\<lambda>t. Inr (JArr (map (\<lambda>n. JObj [(''namespace'', JStr ''mediaservo-host''), (''name'', JStr n)]) (demo_lines t)))),
      hs_oxprocs = (\<lambda>t. Inr (map (\<lambda>n. \<lparr>ox_name = n, ox_status = ''running''\<rparr>) (demo_lines t))),
      hs_ledger_of = demo_ledger_of, hs_ledger_text = demo_ledger_text, hs_sha256 = (\<lambda>bs. bs),
      hs_spawn = demo_spawn, hs_now = (\<lambda>_. 0), hs_sleep = (\<lambda>_ d. d), hs_flock = (\<lambda>d. (FlockAcquired, d)),
      hs_unlock = (\<lambda>d. d), hs_procs = (\<lambda>_. []), hs_pid = 1, hs_stamp = (\<lambda>_. ''now''), hs_user = None\<rparr>"

lemma utf8_valid_letters: "utf8_valid (bytes_of (replicate n (CHR ''a'')))"
  by (induction n) (auto simp: bytes_of_def byte_of_def in_range_def)

lemma demo_codec: "ledger_codec demo_sys"
  by (simp add: ledger_codec_def demo_sys_def demo_ledger_of_def demo_ledger_text_def ledger_of_fields_of
      utf8_valid_letters)

section \<open>Crash safety\<close>

text \<open>What the protocol never loses sight of: a roster that went live has its marker, or its commit, on disk.\<close>

lemma proto_marked:
  assumes "(proto H R)\<^sup>*\<^sup>* c c'"
  shows "cl_active c' = cl_active c \<and> le_running (cl_ledger c') = le_running (cl_ledger c)
    \<or> cl_active c' = Some R
       \<and> (pending_matches (cl_ledger c') H
          \<or> running_matches (cl_ledger c') H \<and> le_pending_apply (cl_ledger c') = None)"
  using assms
proof (induction rule: rtranclp_induct)
  case (step c1 c2)
  from step(2) show ?case
    by (cases rule: proto.cases) (use step.IH in \<open>auto simp: pending_matches_def running_matches_def split: option.splits\<close>)
qed simp

text \<open>
  C4. The core refines the prepare, activate, commit protocol. Whatever fails, and wherever the process
  dies, the live roster and the ledger on disk are the ones the run found, or are reached from them
  (from the empty ledger, if the ledger could not be read) by protocol steps for the fingerprint of the
  host.yaml that was in place and the roster rendered from it: the marker is on disk before that roster
  becomes live, and the running row is written only while both are there.
\<close>

theorem execute_refines_protocol:
  assumes "ledger_codec S" and "wo_files w (host_yaml dir) = Some cfg"
  shows "let c = cluster S dir w; c' = cluster S dir (snd (execute S dir topo force opts w)) in
    c' = c \<or> (\<exists>led R. led \<in> {cl_ledger c, default_ledger} \<and> to_oxfile_in_dir (hs_env S) (hs_yaml S) cfg dir = Inr (Some R)
      \<and> (proto (file_hash S cfg) R)\<^sup>*\<^sup>* (c\<lparr>cl_ledger := led\<rparr>) c')"
  using execute_follows [OF assms] by (simp add: follows_def Let_def)


definition demo_world :: "Fate list \<Rightarrow> string list World" where
  "demo_world fates =
     \<lparr>wo_files = [host_yaml ''/opt'' \<mapsto> ''demo''], wo_sys = [''host-ghost''], wo_fates = fates, wo_cmds = []\<rparr>"

theorem execute_refines_protocol_witness:
  "let c = cluster demo_sys ''/opt'' (demo_world [Proceed, CrashAt None]);
       c' = cluster demo_sys ''/opt'' (snd (execute demo_sys ''/opt'' CliRun True \<lparr>op_origin = ''cli'', op_actor = None\<rparr>
              (demo_world [Proceed, CrashAt None]))) in
    c' = c \<or> (\<exists>led R. led \<in> {cl_ledger c, default_ledger} \<and> to_oxfile_in_dir demo_host_env demo_yaml ''demo'' ''/opt'' = Inr (Some R)
      \<and> (proto (file_hash demo_sys ''demo'') R)\<^sup>*\<^sup>* (c\<lparr>cl_ledger := led\<rparr>) c')"
proof -
  have "wo_files (demo_world [Proceed, CrashAt None]) (host_yaml ''/opt'') = Some ''demo''" by (simp add: demo_world_def)
  from execute_refines_protocol [OF demo_codec this, of CliRun True "\<lparr>op_origin = ''cli'', op_actor = None\<rparr>"]
  show ?thesis by (simp add: demo_sys_def)
qed

definition torn_run :: "string list World" where
  "torn_run = snd (execute demo_sys ''/opt'' AgentRun False \<lparr>op_origin = ''push'', op_actor = None\<rparr>
     (demo_world (replicate 9 Proceed @ [CrashAt (Some 3)])))"


section \<open>The core returns\<close>

text \<open>The documented behaviour of the clock: it never goes back, and a sleep lasts at least as long as asked.\<close>

definition steady_clock :: "'d HostSys \<Rightarrow> bool" where
  "steady_clock S \<longleftrightarrow>
     (\<forall>d. hs_now S d \<le> hs_now S (snd (hs_flock S d))) \<and> (\<forall>n d. hs_now S d + n \<le> hs_now S (hs_sleep S n d))
     \<and> (\<forall>prog env args fs d. hs_now S d \<le> hs_now S (snd (hs_spawn S prog env args fs d)))"

definition returns :: "('d, 'a) core \<Rightarrow> bool" where
  "returns m \<longleftrightarrow> (\<forall>w w'. m w \<noteq> (Stuck, w'))"

named_theorems returns_rules

lemma returns_basic [returns_rules]:
  "returns (ret x)" "returns (throw e)" "returns panic" "returns (path_exists p)" "returns (stamp S)" "returns (now_ms S)"
  "returns (sleep_ms S n)" "returns (flock_try S)" "returns (scoped_survivors S dir)"
  by (simp_all add: returns_def ret_def throw_def panic_def path_exists_def stamp_def now_ms_def sleep_ms_def flock_try_def
      scoped_survivors_def split: prod.split)

lemma returns_lift_res [returns_rules]: "returns (lift_res r)"
  by (simp add: lift_res_def returns_rules split: sum.split)

lemma returns_bind [returns_rules]: "returns m \<Longrightarrow> (\<And>x. returns (f x)) \<Longrightarrow> returns (bind_c m f)"
  by (auto simp: returns_def bind_c_def split: prod.splits Run.splits)

lemma returns_attempt [returns_rules]: "returns m \<Longrightarrow> returns (attempt m)"
  by (auto simp: returns_def attempt_def split: prod.splits Run.splits)

lemma returns_map_err [returns_rules]: "returns m \<Longrightarrow> returns (map_err f m)"
  by (auto simp: returns_def map_err_def split: prod.splits Run.splits)

lemma returns_for_each [returns_rules]: "(\<And>x. returns (f x)) \<Longrightarrow> returns (for_each f xs)"
  by (induction xs) (auto intro: returns_rules)

lemma returns_missing_files [returns_rules]: "returns (missing_files ps)"
  by (induction ps) (auto intro: returns_rules)

lemma returns_releasing [returns_rules]: "returns m \<Longrightarrow> returns (releasing S m)"
  by (auto simp: returns_def releasing_def split: prod.splits)

lemma returns_fated: "returns act \<Longrightarrow> returns (fated act torn)"
  unfolding returns_def fated_def by (auto simp: Let_def split: list.split Fate.split)

lemma returns_files [returns_rules]:
  "returns (read_file p)" "returns (write_file p t)" "returns (rename_file a b)" "returns (remove_file p)"
  "returns (create_dir_all p)" "returns (copy_file a b)" "returns (spawn S prog env args)"
  unfolding read_file_def write_file_def rename_file_def remove_file_def create_dir_all_def copy_file_def spawn_def
  by (rule returns_fated; simp add: returns_def split: option.split prod.split)+

lemma returns_steps [returns_rules]:
  "returns (read_text p)" "returns (remove_quiet p)" "returns (ledger_load S dir)" "returns (ledger_save S dir l)"
  "returns (oxmgr S dir args)"
  unfolding read_text_def remove_quiet_def ledger_load_def ledger_save_def oxmgr_def oxmgr_bin_def Let_def
  by (auto intro!: returns_rules split: option.split)

lemma returns_apps [returns_rules]: "returns (live_host_apps S dir)" "returns (oxfile_app_names S p)"
  unfolding live_host_apps_def oxfile_app_names_def by (auto intro!: returns_rules split: sum.split)

lemma returns_apply [returns_rules]: "returns (oxmgr_apply S dir)"
  unfolding oxmgr_apply_def by (auto intro!: returns_rules)

lemma returns_rows [returns_rules]: "returns (save_row S dir h o' r l)" "returns (write_staging dir t)"
  unfolding save_row_def write_staging_def by (auto intro!: returns_rules)

lemma returns_gates [returns_rules]: "returns (core_gates S dir cfg)"
  unfolding core_gates_def render_def by (auto intro!: returns_rules split: sum.split option.split)

lemma returns_teardown [returns_rules]: "returns (core_teardown S dir topo)"
  unfolding core_teardown_def stop_and_delete_def clear_iceoryx_residue_def
  by (auto intro!: returns_for_each returns_rules split: sum.split)

lemma returns_reconcile [returns_rules]: "returns (core_reconcile S dir o' h cfg l)"
  unfolding core_reconcile_def by (auto intro!: returns_rules split: option.split)

lemma returns_activate [returns_rules]: "returns (core_activate S dir o' h cfg l)"
  unfolding core_activate_def Let_def by (auto intro!: returns_rules split: sum.split)

lemma returns_skip [returns_rules]: "returns (noop_may_skip S dir b f)"
  unfolding noop_may_skip_def noop_liveness_def by (auto intro!: returns_rules)

lemma lock_loop_returns:
  assumes clock: "steady_clock S"
  shows "deadline \<le> hs_now S (wo_sys w) + 500 * n \<Longrightarrow> fst (lock_loop S path deadline (Suc n) w) \<noteq> Stuck"
proof (induction n arbitrary: w)
  case 0
  have "hs_now S (wo_sys w) \<le> hs_now S (snd (hs_flock S (wo_sys w)))" using clock by (simp add: steady_clock_def)
  with 0 show ?case
    by (auto simp: bind_c_def flock_try_def now_ms_def ret_def throw_def split: prod.split Flock.split)
next
  case (Suc n)
  obtain r d where fl: "hs_flock S (wo_sys w) = (r, d)" by fastforce
  have "hs_now S (wo_sys w) \<le> hs_now S d" using clock fl by (metis steady_clock_def snd_conv)
  moreover have "hs_now S d + RETRY_STEP \<le> hs_now S (hs_sleep S RETRY_STEP d)" using clock by (simp add: steady_clock_def)
  ultimately have "deadline \<le> hs_now S (hs_sleep S RETRY_STEP d) + 500 * n" using Suc.prems by (simp add: RETRY_STEP_def)
  then have "fst (lock_loop S path deadline (Suc n) (w\<lparr>wo_sys := hs_sleep S RETRY_STEP d\<rparr>)) \<noteq> Stuck"
    by (intro Suc.IH) simp
  then show ?case
    by (subst lock_loop.simps(2))
       (auto simp: fl bind_c_def flock_try_def now_ms_def sleep_ms_def ret_def throw_def split: Flock.split)
qed

lemma lock_acquire_returns:
  assumes "steady_clock S"
  shows "returns (lock_acquire S dir)"
proof -
  have "fst (lock_loop S p (hs_now S (wo_sys w) + LOCK_TIMEOUT) lock_polls w) \<noteq> Stuck" for p w
    using lock_loop_returns [OF assms, of "hs_now S (wo_sys w) + LOCK_TIMEOUT" w 240 p]
    by (simp only: lock_polls_def LOCK_TIMEOUT_def eval_nat_numeral) (simp del: lock_loop.simps)
  then have wait: "returns (bind_c (now_ms S) (\<lambda>t. lock_loop S p (t + LOCK_TIMEOUT) lock_polls))" for p
    by (auto simp: returns_def bind_c_def now_ms_def) (metis fst_conv)
  show ?thesis unfolding lock_acquire_def
    by (rule returns_bind [OF _ returns_bind [OF _ wait]]) (intro returns_rules)+
qed

definition forward :: "'d HostSys \<Rightarrow> ('d, 'a) core \<Rightarrow> bool" where
  "forward S m \<longleftrightarrow> (\<forall>w r w'. m w = (r, w') \<longrightarrow> hs_now S (wo_sys w) \<le> hs_now S (wo_sys w'))"

lemma forward_basic: "forward S (ret x)" "forward S (throw e)" "forward S (path_exists p)"
  by (simp_all add: forward_def ret_def throw_def path_exists_def)

lemma forward_bind: "forward S m \<Longrightarrow> (\<And>x. forward S (f x)) \<Longrightarrow> forward S (bind_c m f)"
  by (auto simp: forward_def bind_c_def split: prod.splits Run.splits) (blast intro: le_trans)+

lemma forward_map_err: "forward S m \<Longrightarrow> forward S (map_err f m)"
  by (auto simp: forward_def map_err_def split: prod.splits Run.splits)

lemma forward_attempt: "forward S m \<Longrightarrow> forward S (attempt m)"
  by (auto simp: forward_def attempt_def split: prod.splits Run.splits)

lemma forward_spawn: "steady_clock S \<Longrightarrow> forward S (spawn S prog env args)"
  unfolding forward_def spawn_def fated_def steady_clock_def
  by (auto simp: Let_def split: list.splits Fate.splits prod.splits option.splits) (metis snd_conv)+

lemma forward_live_host_apps: "steady_clock S \<Longrightarrow> forward S (live_host_apps S dir)"
  unfolding live_host_apps_def oxmgr_def oxmgr_bin_def
  by (auto intro!: forward_bind forward_map_err forward_basic forward_spawn split: sum.split option.split)

lemma gate_loop_returns:
  assumes clock: "steady_clock S"
  shows "deadline \<le> hs_now S (wo_sys w) + 500 * n \<Longrightarrow> gate_loop S dir topo deadline (Suc n) w \<noteq> (Stuck, w')"
proof (induction n arbitrary: w w')
  case 0
  obtain r w1 where live: "attempt (live_host_apps S dir) w = (r, w1)" by fastforce
  then have "r \<noteq> Stuck" using returns_attempt [OF returns_apps(1)] by (metis returns_def)
  moreover have "hs_now S (wo_sys w) \<le> hs_now S (wo_sys w1)"
    using forward_attempt [OF forward_live_host_apps [OF clock]] live by (simp add: forward_def)
  ultimately show ?case
    using 0 by (auto simp: bind_c_def live scoped_survivors_def now_ms_def ret_def split: Run.split)
next
  case (Suc n)
  obtain r w1 where live: "attempt (live_host_apps S dir) w = (r, w1)" by fastforce
  then have "r \<noteq> Stuck" using returns_attempt [OF returns_apps(1)] by (metis returns_def)
  moreover have "hs_now S (wo_sys w) \<le> hs_now S (wo_sys w1)"
    using forward_attempt [OF forward_live_host_apps [OF clock]] live by (simp add: forward_def)
  moreover have "hs_now S (wo_sys w1) + RETRY_STEP \<le> hs_now S (hs_sleep S RETRY_STEP (wo_sys w1))"
    using clock by (simp add: steady_clock_def)
  ultimately have "deadline \<le> hs_now S (hs_sleep S RETRY_STEP (wo_sys w1)) + 500 * n" "r \<noteq> Stuck"
    using Suc.prems by (simp_all add: RETRY_STEP_def)
  then have "gate_loop S dir topo deadline (Suc n) (w1\<lparr>wo_sys := hs_sleep S RETRY_STEP (wo_sys w1)\<rparr>) \<noteq> (Stuck, w')" for w'
    by (intro Suc.IH) simp
  with \<open>r \<noteq> Stuck\<close> show ?case
    by (subst gate_loop.simps(2))
       (auto simp: live bind_c_def scoped_survivors_def now_ms_def sleep_ms_def ret_def split: Run.split simp del: gate_loop.simps)
qed

lemma wait_for_clean_returns:
  assumes "steady_clock S"
  shows "returns (wait_for_clean S dir topo)"
proof -
  have "gate_loop S dir topo (hs_now S (wo_sys w) + GATE_TIMEOUT) gate_polls w \<noteq> (Stuck, w')" for w w'
    using gate_loop_returns [OF assms, of "hs_now S (wo_sys w) + GATE_TIMEOUT" w 30 dir topo]
    by (simp only: gate_polls_def GATE_TIMEOUT_def eval_nat_numeral) (simp del: gate_loop.simps)
  then show ?thesis by (auto simp: wait_for_clean_def returns_def bind_c_def now_ms_def)
qed

lemma execute_returns:
  assumes "steady_clock S"
  shows "returns (execute S dir topo force opts)"
  unfolding execute_def with_lock_def execute_locked_def core_swap_def Let_def
  by (auto intro!: returns_rules lock_acquire_returns [OF assms] wait_for_clean_returns [OF assms] split: sum.split)

lemma try_commit_returns:
  assumes "steady_clock S"
  shows "returns (try_commit_pending S dir)"
  unfolding try_commit_pending_def commit_pending_fast_def with_lock_def
  by (auto intro!: returns_rules lock_acquire_returns [OF assms] split: sum.split option.split)


text \<open>A machine whose lock is never free: time is the number of milliseconds slept.\<close>

definition busy_sys :: "nat HostSys" where
  "busy_sys =
     \<lparr>hs_env = demo_host_env, hs_yaml = demo_yaml, hs_toml = (\<lambda>_. Inl []), hs_json = (\<lambda>_. Inl []), hs_oxprocs = (\<lambda>_. Inl []),
      hs_ledger_of = demo_ledger_of, hs_ledger_text = demo_ledger_text, hs_sha256 = (\<lambda>bs. bs),
      hs_spawn = (\<lambda>_ _ _ _ t. (\<lparr>co_code = Some 1, co_stdout = [], co_stderr = []\<rparr>, t)), hs_now = (\<lambda>t. t),
      hs_sleep = (\<lambda>n t. t + n), hs_flock = (\<lambda>t. (FlockBusy, t)), hs_unlock = (\<lambda>t. t), hs_procs = (\<lambda>_. []), hs_pid = 1,
      hs_stamp = (\<lambda>_. ''now''), hs_user = None\<rparr>"


end
