(* ===== verification/ConfigBoot.thy ===== *)
theory ConfigBoot
  imports ConfigSafety
begin

text \<open>
  Liveness of the configuration core: with a process manager that does what it is told and a
  configuration that passes the gates, a run ends with the configured processes registered and its
  fingerprint in the ledger, and one startup pass repairs whatever an interrupted run left behind.
\<close>

section \<open>Total correctness without faults\<close>

definition runs_to :: "('d World \<Rightarrow> bool) \<Rightarrow> ('d, 'a) core \<Rightarrow> ('a \<Rightarrow> 'd World \<Rightarrow> bool) \<Rightarrow> bool" where
  "runs_to P m Q \<longleftrightarrow> (\<forall>w. P w \<longrightarrow> (\<exists>x w'. m w = (Done x, w') \<and> Q x w'))"

text \<open>A world without faults, with exactly these files and these registered apps.\<close>

definition hw :: "('d \<Rightarrow> string list) \<Rightarrow> (string \<rightharpoonup> string) \<Rightarrow> string list \<Rightarrow> 'd World \<Rightarrow> bool" where
  "hw reg fs X w \<longleftrightarrow> wo_fates w = [] \<and> wo_files w = fs \<and> reg (wo_sys w) = X"

named_theorems hw_rules

lemma total_conseq: "runs_to P' m Q' \<Longrightarrow> (\<And>w. P w \<Longrightarrow> P' w) \<Longrightarrow> (\<And>x w. Q' x w \<Longrightarrow> Q x w) \<Longrightarrow> runs_to P m Q"
  unfolding runs_to_def by meson

lemma total_bind: "runs_to P m M \<Longrightarrow> (\<And>x. runs_to (M x) (f x) Q) \<Longrightarrow> runs_to P (bind_c m f) Q"
  unfolding runs_to_def bind_c_def by fastforce

lemma total_bind_eq:
  assumes "runs_to P m (\<lambda>r w. M w \<and> r = v)" and "runs_to M (f v) Q"
  shows "runs_to P (bind_c m f) Q"
  using assms unfolding runs_to_def bind_c_def by fastforce

lemma total_ret: "(\<And>w. P w \<Longrightarrow> Q x w) \<Longrightarrow> runs_to P (ret x) Q"
  by (simp add: runs_to_def ret_def)

lemma total_map_err: "runs_to P m Q \<Longrightarrow> runs_to P (map_err f m) Q"
  unfolding runs_to_def map_err_def by fastforce

lemma total_attempt: "runs_to P m (\<lambda>x. Q (Inr x)) \<Longrightarrow> runs_to P (attempt m) Q"
  unfolding runs_to_def attempt_def by fastforce

lemma total_quiet: "runs_to P m (\<lambda>_. Q) \<Longrightarrow> runs_to P (bind_c (attempt m) (\<lambda>_. ret ())) (\<lambda>_. Q)"
  unfolding runs_to_def attempt_def bind_c_def ret_def by fastforce

lemma total_ex: "(\<And>y. runs_to (P y) m Q) \<Longrightarrow> runs_to (\<lambda>w. \<exists>y. P y w) m Q"
  unfolding runs_to_def by blast

lemma total_pure: "(A \<Longrightarrow> runs_to P m Q) \<Longrightarrow> runs_to (\<lambda>w. P w \<and> A) m Q"
  unfolding runs_to_def by blast

lemma total_if: "runs_to P m Q \<Longrightarrow> runs_to P m' Q \<Longrightarrow> runs_to P (if b then m else m') Q"
  by simp

lemma total_releasing:
  "runs_to P m (\<lambda>x. Q x) \<Longrightarrow> (\<And>x w. Q x w \<Longrightarrow> Q x (w\<lparr>wo_sys := hs_unlock S (wo_sys w)\<rparr>)) \<Longrightarrow> runs_to P (releasing S m) Q"
  unfolding runs_to_def releasing_def by fastforce

lemma hw_read: "fs p = Some t \<Longrightarrow> runs_to (hw reg fs X) (read_file p) (\<lambda>r w. hw reg fs X w \<and> r = t)"
  by (simp add: runs_to_def hw_def read_file_def fated_def)

lemma hw_read_text:
  assumes "fs p = Some t" and "utf8_valid (bytes_of t)"
  shows "runs_to (hw reg fs X) (read_text p) (\<lambda>r w. hw reg fs X w \<and> r = t)"
  unfolding read_text_def by (rule total_bind_eq [OF hw_read [of fs p t, OF assms(1)]]) (simp add: assms(2) total_ret)

lemma hw_exists: "runs_to (hw reg fs X) (path_exists p) (\<lambda>r w. hw reg fs X w \<and> r = (fs p \<noteq> None))"
  by (simp add: runs_to_def hw_def path_exists_def)

lemma hw_write: "runs_to (hw reg fs X) (write_file p t) (\<lambda>_. hw reg (fs(p \<mapsto> t)) X)"
  by (simp add: runs_to_def hw_def write_file_def fated_def)

lemma hw_rename: "fs a = Some t \<Longrightarrow> runs_to (hw reg fs X) (rename_file a b) (\<lambda>_. hw reg (fs(a := None, b \<mapsto> t)) X)"
  by (simp add: runs_to_def hw_def rename_file_def fated_def)

lemma hw_mkdir: "runs_to (hw reg fs X) (create_dir_all d) (\<lambda>_. hw reg fs X)"
  by (simp add: runs_to_def hw_def create_dir_all_def fated_def)

lemma hw_remove_quiet: "runs_to (hw reg fs X) (remove_quiet p) (\<lambda>_. hw reg (fs(p := None)) X)"
  by (auto simp: runs_to_def hw_def remove_quiet_def remove_file_def fated_def attempt_def bind_c_def ret_def fun_upd_idem)

lemma hw_stamp: "runs_to (hw reg fs X) (stamp S) (\<lambda>_. hw reg fs X)"
  by (simp add: runs_to_def hw_def stamp_def)

lemma hw_now: "runs_to (hw reg fs X) (now_ms S) (\<lambda>_. hw reg fs X)"
  by (simp add: runs_to_def hw_def now_ms_def)

lemma hw_load: "runs_to (hw reg fs X) (ledger_load S dir) (\<lambda>r w. hw reg fs X w \<and> r = ledger_at S dir fs)"
  by (auto simp: runs_to_def hw_def ledger_load_def read_text_def read_file_def fated_def attempt_def bind_c_def ret_def throw_def
      ledger_at_def split: option.split)

lemma hw_save:
  "runs_to (hw reg fs X) (ledger_save S dir l)
     (\<lambda>_. hw reg (fs(ledger_tmp dir := None, ledger_path dir \<mapsto> hs_ledger_text S l)) X)"
proof -
  let ?t = "hs_ledger_text S l"
  have "runs_to (hw reg (fs(ledger_tmp dir \<mapsto> ?t)) X) (rename_file (ledger_tmp dir) (ledger_path dir))
      (\<lambda>_. hw reg (fs(ledger_tmp dir := None, ledger_path dir \<mapsto> ?t)) X)"
    using hw_rename [of "fs(ledger_tmp dir \<mapsto> ?t)" "ledger_tmp dir" ?t reg X "ledger_path dir"] by simp
  then show ?thesis
    unfolding ledger_save_def Let_def ledger_tmp_def [symmetric]
    by (intro total_bind [OF total_map_err [OF hw_mkdir]] total_bind [OF total_map_err [OF hw_write]] total_map_err)
qed

section \<open>A process manager that obeys\<close>

text \<open>
  The documented behaviour of \<open>oxmgr\<close> as the core relies on it, for the apps of this instance's namespace:
  \<open>list\<close> reports them and reports as running only processes that are there, \<open>stop\<close> keeps the entry,
  \<open>delete\<close> removes it, \<open>apply\<close> adds the apps of the file and removes none; the lock is free, and no process
  of the family is left over.
\<close>

definition obedient :: "'d HostSys \<Rightarrow> string \<Rightarrow> ('d \<Rightarrow> string list) \<Rightarrow> bool" where
  "obedient S dir reg \<longleftrightarrow>
     (\<forall>bin fs d. \<exists>out d' v ps. hs_spawn S bin (oxmgr_env S dir) [''list'', ''--json''] fs d = (out, d') \<and> reg d' = reg d
        \<and> co_code out = Some 0 \<and> hs_json S (co_stdout out) = Inr v
        \<and> host_apps_of (br_namespace (he_brand (hs_env S))) v = reg d
        \<and> hs_oxprocs S (utf8_lossy (co_stdout out)) = Inr ps
        \<and> (\<forall>p\<in>set ps. ox_status p = ''running'' \<longrightarrow> ox_name p \<in> set (reg d)))
     \<and> (\<forall>bin fs d n. reg (snd (hs_spawn S bin (oxmgr_env S dir) [''stop'', n] fs d)) = reg d)
     \<and> (\<forall>bin fs d n. reg (snd (hs_spawn S bin (oxmgr_env S dir) [''delete'', n] fs d)) = filter (\<lambda>m. m \<noteq> n) (reg d))
     \<and> (\<forall>bin fs d p t v. fs p = Some t \<longrightarrow> hs_toml S t = Inr v \<longrightarrow>
          co_code (fst (hs_spawn S bin (oxmgr_env S dir) [''apply'', p] fs d)) = Some 0
          \<and> set (reg (snd (hs_spawn S bin (oxmgr_env S dir) [''apply'', p] fs d))) = set (reg d) \<union> set (toml_app_names v))
     \<and> (\<forall>fs d p. reg (snd (hs_spawn S ''rm'' [] [''-rf'', p] fs d)) = reg d)
     \<and> (\<forall>d. \<exists>d'. hs_flock S d = (FlockAcquired, d') \<and> reg d' = reg d) \<and> (\<forall>d. reg (hs_unlock S d) = reg d)
     \<and> (\<forall>d. stop_survivors S d = [])"

lemma hw_oxmgr:
  assumes "\<And>bin d. reg d = X \<Longrightarrow> Q (fst (hs_spawn S bin (oxmgr_env S dir) args fs d)) (reg (snd (hs_spawn S bin (oxmgr_env S dir) args fs d)))"
  shows "runs_to (hw reg fs X) (oxmgr S dir args) (\<lambda>out w. \<exists>X'. hw reg fs X' w \<and> Q out X')"
  using assms
  by (auto simp: runs_to_def hw_def oxmgr_def oxmgr_bin_def spawn_def fated_def bind_c_def ret_def path_exists_def
      split: option.split prod.split) (metis prod.sel)+

lemma hw_live:
  assumes "obedient S dir reg"
  shows "runs_to (hw reg fs X) (live_host_apps S dir) (\<lambda>r w. hw reg fs X w \<and> r = X)"
proof -
  let ?Q = "\<lambda>out X'. X' = X \<and> co_code out = Some 0 \<and> (\<exists>v. hs_json S (co_stdout out) = Inr v
      \<and> host_apps_of (br_namespace (he_brand (hs_env S))) v = X)"
  have "runs_to (hw reg fs X) (oxmgr S dir [''list'', ''--json'']) (\<lambda>out w. \<exists>X'. hw reg fs X' w \<and> ?Q out X')"
  proof (rule hw_oxmgr)
    fix bin d
    assume "reg d = X"
    moreover obtain out d' v ps where "hs_spawn S bin (oxmgr_env S dir) [''list'', ''--json''] fs d = (out, d')" "reg d' = reg d"
      "co_code out = Some 0" "hs_json S (co_stdout out) = Inr v" "host_apps_of (br_namespace (he_brand (hs_env S))) v = reg d"
      using assms unfolding obedient_def by metis
    ultimately show "?Q (fst (hs_spawn S bin (oxmgr_env S dir) [''list'', ''--json''] fs d))
        (reg (snd (hs_spawn S bin (oxmgr_env S dir) [''list'', ''--json''] fs d)))" by auto
  qed
  then show ?thesis
    unfolding live_host_apps_def
    by (intro total_bind [OF total_map_err]) (auto simp: runs_to_def ret_def)
qed

lemma hw_attempt_live:
  assumes "obedient S dir reg"
  shows "runs_to (hw reg fs X) (attempt (live_host_apps S dir)) (\<lambda>r w. hw reg fs X w \<and> r = Inr X)"
  by (rule total_attempt) (use hw_live [OF assms] in simp)

lemma hw_stop_and_delete:
  assumes "obedient S dir reg"
  shows "runs_to (hw reg fs X) (stop_and_delete S dir n) (\<lambda>_. hw reg fs (filter (\<lambda>m. m \<noteq> n) X))"
proof -
  have "runs_to (hw reg fs X) (oxmgr S dir [''stop'', n]) (\<lambda>_. hw reg fs X)"
    by (rule total_conseq [OF hw_oxmgr [where Q = "\<lambda>_ X'. X' = X"]]) (use assms in \<open>auto simp: obedient_def\<close>)
  moreover have "runs_to (hw reg fs X) (oxmgr S dir [''delete'', n]) (\<lambda>_. hw reg fs (filter (\<lambda>m. m \<noteq> n) X))"
    by (rule total_conseq [OF hw_oxmgr [where Q = "\<lambda>_ X'. X' = filter (\<lambda>m. m \<noteq> n) X"]]) (use assms in \<open>auto simp: obedient_def\<close>)
  ultimately show ?thesis
    unfolding stop_and_delete_def for_each.simps
    by (intro total_bind [OF total_quiet] total_ret)
qed

lemma hw_teardown_loop:
  assumes "obedient S dir reg"
  shows "runs_to (hw reg fs X) (for_each (stop_and_delete S dir) ns) (\<lambda>_. hw reg fs (filter (\<lambda>m. m \<notin> set ns) X))"
proof (induction ns arbitrary: X)
  case Nil
  show ?case by (simp add: total_ret)
next
  case (Cons n ns)
  have "filter (\<lambda>m. m \<notin> set ns) (filter (\<lambda>m. m \<noteq> n) X) = filter (\<lambda>m. m \<notin> set (n # ns)) X"
    by (induction X) auto
  then show ?case
    using total_bind [OF hw_stop_and_delete [OF assms] Cons.IH [of "filter (\<lambda>m. m \<noteq> n) X"]] by simp
qed

lemma hw_clear:
  assumes "obedient S dir reg"
  shows "runs_to (hw reg fs X) (clear_iceoryx_residue S) (\<lambda>_. hw reg fs X)"
proof -
  have "runs_to (hw reg fs X) (spawn S ''rm'' [] [''-rf'', p]) (\<lambda>_. hw reg fs X)" for p
    using assms by (auto simp: runs_to_def hw_def spawn_def fated_def obedient_def split: prod.split) (metis snd_conv)+
  then show ?thesis
    unfolding clear_iceoryx_residue_def for_each.simps by (intro total_bind [OF total_quiet] total_ret)
qed

lemma teardown_keeps_agent:
  "filter (\<lambda>m. m \<notin> set (teardown_targets S topo X)) X = filter (\<lambda>m. topo = AgentRun \<and> m = app_name (hs_env S) ''agent'') X"
  by (auto simp: teardown_targets_def order_teardown_def intro: filter_cong)

lemma hw_teardown:
  assumes "obedient S dir reg"
  shows "runs_to (hw reg fs X) (core_teardown S dir topo)
    (\<lambda>r w. hw reg fs (filter (\<lambda>m. topo = AgentRun \<and> m = app_name (hs_env S) ''agent'') X) w \<and> r = Inr ())"
proof -
  let ?X = "filter (\<lambda>m. topo = AgentRun \<and> m = app_name (hs_env S) ''agent'') X"
  have loop: "runs_to (hw reg fs X) (for_each (stop_and_delete S dir) (teardown_targets S topo X)) (\<lambda>_. hw reg fs ?X)"
    using hw_teardown_loop [OF assms, of fs X "teardown_targets S topo X"] by (simp only: teardown_keeps_agent)
  have "runs_to (hw reg fs X) (bind_c (for_each (stop_and_delete S dir) (teardown_targets S topo X)) (\<lambda>_.
      bind_c (clear_iceoryx_residue S) (\<lambda>_. ret (Inr ())))) (\<lambda>r w. hw reg fs ?X w \<and> r = Inr ())"
    by (rule total_bind [OF loop], rule total_bind [OF hw_clear [OF assms]], rule total_ret) simp
  then show ?thesis
    unfolding core_teardown_def by (intro total_bind_eq [OF hw_attempt_live [OF assms]]) simp
qed

lemma hw_gate:
  assumes "obedient S dir reg" and "gate_clean X topo"
  shows "runs_to (hw reg fs X) (wait_for_clean S dir topo) (\<lambda>r w. hw reg fs X w \<and> r = Inr ())"
proof -
  have surv: "runs_to (hw reg fs X) (scoped_survivors S dir) (\<lambda>r w. hw reg fs X w \<and> r = [])"
    using assms(1) by (simp add: runs_to_def scoped_survivors_def obedient_def)
  have "runs_to (hw reg fs X) (gate_loop S dir topo dl (Suc n)) (\<lambda>r w. hw reg fs X w \<and> r = Inr ())" for dl n
    unfolding gate_loop.simps
    by (rule total_bind_eq [OF hw_attempt_live [OF assms(1)]], rule total_bind_eq [OF surv])
       (use assms(2) in \<open>simp add: total_ret\<close>)
  then have "runs_to (hw reg fs X) (gate_loop S dir topo dl gate_polls) (\<lambda>r w. hw reg fs X w \<and> r = Inr ())" for dl
    by (simp only: gate_polls_def eval_nat_numeral)
  then show ?thesis unfolding wait_for_clean_def by (rule total_bind [OF hw_now])
qed

lemma gate_clean_teardown:
  "gate_clean (filter (\<lambda>m. topo = AgentRun \<and> m = app_name (hs_env S) ''agent'') X) topo"
proof -
  have "ends_with (app_name E ''agent'') ''agent''" for E by (simp add: ends_with_def app_name_def suffix_def)
  then show ?thesis by (cases topo) (auto simp: gate_clean_def list_all_iff)
qed

section \<open>The roster and the expected processes agree\<close>

lemma recorder_sections:
  "''recorder'' \<in> set (roster_bases hc) \<longleftrightarrow> cfg_record_enabled_raw hc \<noteq> Some False"
  "rc_enabled (cfg_record hc) \<longleftrightarrow> cfg_record_enabled_raw hc = Some True"
  by (auto simp: roster_bases_def FIXED_APP_BASES_def cfg_record_def cfg_record_enabled_raw_def Let_def unwrap_or_def
      split: option.splits)

lemma app_name_eq [simp]: "app_name E a = app_name E b \<longleftrightarrow> a = b"
  by (simp add: app_name_def)

lemma roster_bases_other: "b \<noteq> ''recorder'' \<Longrightarrow> b \<in> set (roster_bases hc) \<longleftrightarrow> b \<in> set FIXED_APP_BASES"
  by (simp add: roster_bases_def)

lemma cfg_expected_set:
  "set (cfg_expected E hc) =
     app_name E ` ({b \<in> set FIXED_APP_BASES. b = ''recorder'' \<longrightarrow> cfg_record_enabled_raw hc = Some True}
       \<union> (\<lambda>s. ''capturer-'' @ so_id s) ` set (hc_sources hc) \<union> (\<lambda>s. ''streamer-'' @ st_id s) ` set (hc_streams hc))"
  unfolding cfg_expected_def Let_def recorder_sections(2)
  by (auto simp: instance_app_name simp del: append_Cons)

lemma roster_names_set:
  "set (roster_names E hc) =
     app_name E ` ({b \<in> set FIXED_APP_BASES. b = ''recorder'' \<longrightarrow> cfg_record_enabled_raw hc \<noteq> Some False}
       \<union> (\<lambda>s. ''capturer-'' @ so_id s) ` set (hc_sources hc) \<union> (\<lambda>s. ''streamer-'' @ st_id s) ` set (hc_streams hc))"
  unfolding roster_names_def roster_bases_def by (auto simp del: append_Cons)

lemma expected_subset_roster: "set (cfg_expected E hc) \<subseteq> set (roster_names E hc)"
  unfolding cfg_expected_set roster_names_set by (intro image_mono Un_mono) auto

lemma roster_minus_expected: "set (roster_names E hc) - set (cfg_expected E hc) \<subseteq> {app_name E ''recorder''}"
proof -
  have "{b \<in> set FIXED_APP_BASES. b = ''recorder'' \<longrightarrow> cfg_record_enabled_raw hc \<noteq> Some False}
      - {b \<in> set FIXED_APP_BASES. b = ''recorder'' \<longrightarrow> cfg_record_enabled_raw hc = Some True} \<subseteq> {''recorder''}" by auto
  then show ?thesis unfolding cfg_expected_set roster_names_set by blast
qed

lemma reconcile_mismatch_None:
  "reconcile_mismatch rost registry expected recorder = None \<longleftrightarrow>
     set registry = set rost \<and> set expected \<subseteq> set rost \<and> set rost - set expected \<subseteq> {recorder}"
proof -
  have "reconcile_mismatch rost registry expected recorder = None \<longleftrightarrow>
      set rost \<subseteq> set registry \<and> set registry \<subseteq> set rost \<and> set expected \<subseteq> set rost
      \<and> List.find (\<lambda>n. n \<notin> set expected \<and> n \<noteq> recorder) rost = None"
    by (auto simp: reconcile_mismatch_def Let_def filter_empty_conv split: option.split)
  then show ?thesis unfolding find_None_iff_not by blast
qed

lemma roster_names_reconcile:
  "reconcile_mismatch (roster_names E hc) registry (cfg_expected E hc) (app_name E ''recorder'') = None
    \<longleftrightarrow> set registry = set (roster_names E hc)"
  unfolding reconcile_mismatch_None using expected_subset_roster roster_minus_expected by blast

text \<open>
  C17. The process list the monitor and the core expect is computed apart from the roster that is
  rendered; step 7 accepts exactly the registries that hold the rendered roster, for every configuration,
  whether recording is on, off or left out.
\<close>

theorem roster_reconciles:
  assumes "yaml cfg = Inr hc" and "roster E hc config_path token_dir = Inr (Some apps)"
    and "expected_process_names E yaml cfg = Inr expected"
  shows "reconcile_mismatch (map ap_name apps) registry expected (app_name E ''recorder'') = None
    \<longleftrightarrow> set registry = ap_name ` set apps"
proof -
  have "map ap_name apps = roster_names E hc" using roster_Some [OF assms(2)] by auto
  moreover from \<open>map ap_name apps = roster_names E hc\<close> have "ap_name ` set apps = set (roster_names E hc)" by (metis set_map)
  moreover have "expected = cfg_expected E hc"
    using assms(1,3) by (simp add: expected_process_names_def parse_config_def)
  ultimately show ?thesis by (simp add: roster_names_reconcile)
qed

theorem roster_reconciles_witness:
  "\<exists>apps. roster demo_host_env (demo_config None) [] [] = Inr (Some apps)
    \<and> reconcile_mismatch (map ap_name apps) (map ap_name apps) (cfg_expected demo_host_env (demo_config None)) ''host-recorder'' = None"
proof -
  obtain ss ts where "cfg_sources (demo_config None) = Inr ss" "cfg_streams (demo_config None) = Inr ts"
    using demo_validates [of demo_yaml "''demo''" None demo_host_env] unfolding validate_Inr by (auto simp: demo_yaml_def)
  from roster_Inr [OF this] obtain apps where r: "roster demo_host_env (demo_config None) [] [] = Inr (Some apps)" by blast
  have y: "demo_yaml ''demo'' = Inr (demo_config None)" by (simp add: demo_yaml_def)
  have "app_name demo_host_env ''recorder'' = ''host-recorder''" by code_simp
  moreover have "expected_process_names demo_host_env demo_yaml ''demo'' = Inr (cfg_expected demo_host_env (demo_config None))"
    by (simp add: expected_process_names_def parse_config_def y)
  ultimately show ?thesis
    using roster_reconciles [where yaml = demo_yaml and E = demo_host_env and registry = "map ap_name apps", OF y r] r
    by auto
qed

section \<open>A run that applies\<close>

text \<open>
  A configuration that passes the gates: a valid file in UTF-8 whose key file and tokens exist outside the
  core's own files, and whose rendered roster the TOML parser reads back.
\<close>

definition ready :: "'d HostSys \<Rightarrow> string \<Rightarrow> string \<Rightarrow> HostConfig \<Rightarrow> string \<Rightarrow> (string \<rightharpoonup> string) \<Rightarrow> bool" where
  "ready S dir cfg hc R fs \<longleftrightarrow>
     fs (host_yaml dir) = Some cfg \<and> utf8_valid (bytes_of cfg) \<and> hs_yaml S cfg = Inr hc
     \<and> validate (hs_env S) (hs_yaml S) cfg = Inr ()
     \<and> (\<forall>rel. cfg_hmac_key_file hc = Some rel \<longrightarrow> fs (path_join dir rel) \<noteq> None \<and> path_join dir rel \<notin> core_files dir)
     \<and> to_oxfile_in_dir (hs_env S) (hs_yaml S) cfg dir = Inr (Some R) \<and> utf8_valid (bytes_of R)
     \<and> (\<exists>v. hs_toml S R = Inr v \<and> toml_app_names v = roster_names (hs_env S) hc)
     \<and> (\<forall>p\<in>set (token_paths R). fs p \<noteq> None \<and> p \<notin> core_files dir)"

lemma ready_cong:
  assumes "ready S dir cfg hc R fs" and "\<And>p. p \<notin> core_files dir \<Longrightarrow> fs' p = fs p"
  shows "ready S dir cfg hc R fs'"
  using assms unfolding ready_def by auto

lemma ready_upd: "p \<in> core_files dir \<Longrightarrow> ready S dir cfg hc R fs \<Longrightarrow> ready S dir cfg hc R (fs(p := x))"
  by (erule ready_cong) auto

lemma hw_missing: "(\<forall>p\<in>set ps. fs p \<noteq> None) \<Longrightarrow> runs_to (hw reg fs X) (missing_files ps) (\<lambda>r w. hw reg fs X w \<and> r = [])"
proof (induction ps)
  case (Cons p ps)
  then have "runs_to (hw reg fs X) (bind_c (missing_files ps) (\<lambda>ms. ret (if True then ms else p # ms))) (\<lambda>r w. hw reg fs X w \<and> r = [])"
    by (intro total_bind_eq [OF Cons.IH]) (auto intro: total_ret)
  then show ?case using Cons.prems by (auto intro!: total_bind_eq [OF hw_exists])
qed (simp add: total_ret)

lemma hw_gates:
  assumes "ready S dir cfg hc R fs"
  shows "runs_to (hw reg fs X) (core_gates S dir cfg) (\<lambda>r w. hw reg fs X w \<and> r = Inr R)"
proof -
  have val: "validate (hs_env S) (hs_yaml S) cfg = Inr ()" and ox: "to_oxfile_in_dir (hs_env S) (hs_yaml S) cfg dir = Inr (Some R)"
    and tokens: "\<forall>p\<in>set (token_paths R). fs p \<noteq> None"
    and key: "control_hmac_key_file (hs_yaml S) cfg = Inr (cfg_hmac_key_file hc)"
    and hmac: "\<And>rel. cfg_hmac_key_file hc = Some rel \<Longrightarrow> fs (path_join dir rel) \<noteq> None"
    using assms by (auto simp: ready_def control_hmac_key_file_def parse_config_def)
  have lift: "runs_to (hw reg fs X) (lift_res (Inr v)) (\<lambda>r w. hw reg fs X w \<and> r = v)" for v
    by (simp add: lift_res_def total_ret)
  have ok: "runs_to (hw reg fs X) (case cfg_hmac_key_file hc of None \<Rightarrow> ret True | Some rel \<Rightarrow> path_exists (path_join dir rel))
      (\<lambda>r w. hw reg fs X w \<and> r = True)"
  proof (cases "cfg_hmac_key_file hc")
    case (Some rel)
    with hmac hw_exists [of reg fs X "path_join dir rel"] show ?thesis by auto
  qed (simp add: total_ret)
  have rend: "runs_to (hw reg fs X) (render S dir cfg) (\<lambda>r w. hw reg fs X w \<and> r = R)"
    by (simp add: render_def ox total_ret)
  show ?thesis
    unfolding core_gates_def val sum.case key
    by (rule total_bind_eq [OF lift], rule total_bind_eq [OF ok], simp,
        rule total_bind_eq [OF rend], rule total_bind_eq [OF hw_missing [OF tokens]]) (simp add: total_ret)
qed

lemma hw_save_row:
  "runs_to (hw reg fs X) (save_row S dir h o' r l)
     (\<lambda>_ w. \<exists>t. hw reg (fs(ledger_tmp dir := None,
        ledger_path dir \<mapsto> hs_ledger_text S (push_history h (op_origin o') (op_actor o') r t l))) X w)"
  unfolding save_row_def
  by (rule total_bind [OF hw_stamp], rule total_conseq [OF hw_save]) auto

lemma hw_app_names:
  assumes "fs p = Some R" and "utf8_valid (bytes_of R)" and "hs_toml S R = Inr v"
  shows "runs_to (hw reg fs X) (oxfile_app_names S p) (\<lambda>r w. hw reg fs X w \<and> r = toml_app_names v)"
  unfolding oxfile_app_names_def
  by (rule total_bind_eq [OF total_map_err [OF hw_read_text [of fs p R, OF assms(1,2)]]]) (simp add: assms(3) total_ret)

lemma hw_for_each_none: "runs_to P (for_each f []) (\<lambda>_. P)"
  by (simp add: total_ret)

lemma hw_apply:
  assumes ob: "obedient S dir reg" and rd: "ready S dir cfg hc R fs'" and R: "fs (oxfile_path dir) = Some R"
    and X: "set X \<subseteq> set (roster_names (hs_env S) hc)"
  shows "runs_to (hw reg fs X) (oxmgr_apply S dir) (\<lambda>_ w. \<exists>X'. hw reg fs X' w \<and> set X' = set (roster_names (hs_env S) hc))"
proof -
  let ?N = "roster_names (hs_env S) hc"
  obtain v where v: "hs_toml S R = Inr v" "toml_app_names v = ?N" and utf: "utf8_valid (bytes_of R)"
    using rd by (auto simp: ready_def)
  have ap: "runs_to (hw reg fs X) (oxmgr S dir [''apply'', oxfile_path dir])
      (\<lambda>out w. \<exists>X'. hw reg fs X' w \<and> co_code out = Some 0 \<and> set X' = set ?N)"
  proof (rule hw_oxmgr)
    fix bin d
    assume "reg d = X"
    moreover have "co_code (fst (hs_spawn S bin (oxmgr_env S dir) [''apply'', oxfile_path dir] fs d)) = Some 0
        \<and> set (reg (snd (hs_spawn S bin (oxmgr_env S dir) [''apply'', oxfile_path dir] fs d))) = set (reg d) \<union> set (toml_app_names v)"
      using ob R v(1) unfolding obedient_def by blast
    ultimately show "co_code (fst (hs_spawn S bin (oxmgr_env S dir) [''apply'', oxfile_path dir] fs d)) = Some 0
        \<and> set (reg (snd (hs_spawn S bin (oxmgr_env S dir) [''apply'', oxfile_path dir] fs d))) = set ?N"
      using X v(2) by auto
  qed
  have rest: "runs_to (hw reg fs X') (bind_c (live_host_apps S dir) (\<lambda>live.
      bind_c (oxfile_app_names S (oxfile_path dir)) (\<lambda>desired. for_each f (removed_apps live desired))))
      (\<lambda>_ w. \<exists>X'. hw reg fs X' w \<and> set X' = set ?N)" if "set X' = set ?N" for X' f
  proof -
    have "removed_apps X' (toml_app_names v) = []" using that v(2) by (simp add: removed_apps_def)
    moreover have "runs_to (hw reg fs X') (for_each f []) (\<lambda>_ w. \<exists>X'. hw reg fs X' w \<and> set X' = set ?N)"
      by (rule total_conseq [OF hw_for_each_none]) (use that in auto)
    ultimately show ?thesis
      by (intro total_bind_eq [OF hw_live [OF ob]] total_bind_eq [OF hw_app_names [of fs "oxfile_path dir" R S v, OF R utf v(1)]]) simp
  qed
  have cont: "runs_to (\<lambda>w. \<exists>X'. hw reg fs X' w \<and> co_code out = Some 0 \<and> set X' = set ?N)
      (if co_code out \<noteq> Some 0 then throw e else bind_c (live_host_apps S dir) (\<lambda>live.
         bind_c (oxfile_app_names S (oxfile_path dir)) (\<lambda>desired. for_each f (removed_apps live desired))))
      (\<lambda>_ w. \<exists>X'. hw reg fs X' w \<and> set X' = set ?N)" for out e f
    using rest by (intro total_ex total_pure) auto
  show ?thesis
    unfolding oxmgr_apply_def
    by (rule total_bind_eq [OF hw_exists]) (simp only: R option.distinct not_False_eq_True not_not if_False if_True simp_thms,
        rule total_bind [OF total_map_err [OF ap] cont])
qed

text \<open>The state a successful run ends in.\<close>

definition settled :: "'d HostSys \<Rightarrow> string \<Rightarrow> ('d \<Rightarrow> string list) \<Rightarrow> string \<Rightarrow> HostConfig \<Rightarrow> 'd World \<Rightarrow> bool" where
  "settled S dir reg hash hc w \<longleftrightarrow>
     wo_fates w = [] \<and> running_matches (ledger_at S dir (wo_files w)) hash \<and> set (cfg_expected (hs_env S) hc) \<subseteq> set (reg (wo_sys w))"

lemma ledger_at_upd [simp]:
  "ledger_codec S \<Longrightarrow> ledger_at S dir (fs(ledger_path dir \<mapsto> hs_ledger_text S l)) = l"
  by (simp add: ledger_at_def ledger_codec_def)

lemma commit_matches [simp]:
  "running_matches (push_history h o' a r t (commit_ledger hash opts t' led)) hash"
  "le_pending_apply (push_history h o' a r t (commit_ledger hash opts t' led)) = None"
  by (simp_all add: running_matches_def commit_ledger_def Let_def)

lemma hw_commit:
  assumes "ledger_codec S" and "set (cfg_expected (hs_env S) hc) \<subseteq> set X"
  shows "runs_to (hw reg fs X) (save_row S dir h o' r (commit_ledger hash opts t led)) (\<lambda>_ w. settled S dir reg hash hc w)"
proof (rule total_conseq [OF hw_save_row])
  fix w
  assume "\<exists>t'. hw reg (fs(ledger_tmp dir := None,
    ledger_path dir \<mapsto> hs_ledger_text S (push_history h (op_origin o') (op_actor o') r t' (commit_ledger hash opts t led)))) X w"
  then show "settled S dir reg hash hc w" using assms by (auto simp only: hw_def settled_def ledger_at_upd commit_matches)
qed simp

lemma hw_reconcile:
  assumes codec: "ledger_codec S" and ob: "obedient S dir reg" and rd: "ready S dir cfg hc R fs'"
    and R: "fs (oxfile_path dir) = Some R" and X: "set X = set (roster_names (hs_env S) hc)"
  shows "runs_to (hw reg fs X) (core_reconcile S dir opts hash cfg led)
    (\<lambda>r w. r = Applied hash \<and> settled S dir reg hash hc w)"
proof -
  obtain v where v: "hs_toml S R = Inr v" "toml_app_names v = roster_names (hs_env S) hc" and utf: "utf8_valid (bytes_of R)"
    and ex: "expected_process_names (hs_env S) (hs_yaml S) cfg = Inr (cfg_expected (hs_env S) hc)"
    using rd by (auto simp: ready_def expected_process_names_def parse_config_def)
  have lift: "runs_to (hw reg fs X) (lift_res (Inr e)) (\<lambda>r w. hw reg fs X w \<and> r = e)" for e
    by (simp add: lift_res_def total_ret)
  have none: "reconcile_mismatch (roster_names (hs_env S) hc) X (cfg_expected (hs_env S) hc) (app_name (hs_env S) ''recorder'') = None"
    using X by (simp add: roster_names_reconcile)
  have exp: "set (cfg_expected (hs_env S) hc) \<subseteq> set X" using X expected_subset_roster by blast
  have commit: "runs_to (hw reg fs X) (bind_c (stamp S) (\<lambda>t.
      bind_c (save_row S dir hash opts ''applied'' (commit_ledger hash opts t led)) (\<lambda>_. ret (Applied hash))))
      (\<lambda>r w. r = Applied hash \<and> settled S dir reg hash hc w)"
    by (rule total_bind [OF hw_stamp], rule total_bind [OF hw_commit [OF codec exp]]) (simp add: total_ret)
  show ?thesis
    unfolding core_reconcile_def ex
    by (rule total_bind_eq [OF hw_app_names [where fs = fs and p = "oxfile_path dir", OF R utf v(1)]],
        rule total_bind_eq [OF hw_live [OF ob]], rule total_bind_eq [OF lift])
       (simp only: v(2) none option.case commit)
qed

lemma hw_activate:
  assumes codec: "ledger_codec S" and ob: "obedient S dir reg" and rd: "ready S dir cfg hc R fs"
    and R: "fs (staging_path dir) = Some R" and X: "set X \<subseteq> set (roster_names (hs_env S) hc)"
  shows "runs_to (hw reg fs X) (core_activate S dir opts hash cfg led)
    (\<lambda>r w. r = Applied hash \<and> settled S dir reg hash hc w)"
proof -
  have "runs_to (hw reg fs X) (bind_c (ledger_save S dir l) (\<lambda>_.
      bind_c (map_err f (rename_file (staging_path dir) (oxfile_path dir))) (\<lambda>_.
      bind_c (attempt (oxmgr_apply S dir)) (\<lambda>r.
      case r of
        Inl e \<Rightarrow> bind_c (save_row S dir hash opts (''refused-apply: '' @ e) (l\<lparr>le_flags := (le_flags l)\<lparr>fl_error := True\<rparr>\<rparr>)) (\<lambda>_. ret (Refused e))
      | Inr _ \<Rightarrow> core_reconcile S dir opts hash cfg l))))
      (\<lambda>r w. r = Applied hash \<and> settled S dir reg hash hc w)" for l f
  proof -
    let ?fs1 = "fs(ledger_tmp dir := None, ledger_path dir \<mapsto> hs_ledger_text S l)"
    let ?fs2 = "?fs1(staging_path dir := None, oxfile_path dir \<mapsto> R)"
    have ox: "?fs2 (oxfile_path dir) = Some R" by simp
    have ren: "runs_to (hw reg ?fs1 X) (map_err f (rename_file (staging_path dir) (oxfile_path dir))) (\<lambda>_. hw reg ?fs2 X)"
      by (rule total_map_err, rule hw_rename) (simp add: R)
    have app: "runs_to (hw reg ?fs2 X) (attempt (oxmgr_apply S dir))
        (\<lambda>r w. (\<exists>X'. hw reg ?fs2 X' w \<and> set X' = set (roster_names (hs_env S) hc)) \<and> r = Inr ())"
      by (rule total_attempt, rule total_conseq [OF hw_apply [where fs = ?fs2, OF ob rd ox X]]) auto
    show ?thesis
      by (rule total_bind [OF hw_save], rule total_bind [OF ren], rule total_bind_eq [OF app], simp only: sum.case,
          rule total_ex, rule total_pure, rule hw_reconcile [where fs = ?fs2, OF codec ob rd ox])
  qed
  then show ?thesis
    unfolding core_activate_def Let_def by (rule total_bind [OF hw_stamp])
qed

lemma agent_in_roster: "app_name E ''agent'' \<in> set (roster_names E hc)"
  unfolding roster_names_set by (auto simp: FIXED_APP_BASES_def)

lemma hw_swap:
  assumes codec: "ledger_codec S" and ob: "obedient S dir reg" and rd: "ready S dir cfg hc R fs"
  shows "runs_to (hw reg fs X) (core_swap S dir topo opts hash cfg R led)
    (\<lambda>r w. r = Applied hash \<and> settled S dir reg hash hc w)"
proof -
  let ?fs = "fs(staging_path dir \<mapsto> R)"
  let ?X = "filter (\<lambda>m. topo = AgentRun \<and> m = app_name (hs_env S) ''agent'') X"
  have "runs_to (hw reg (fs(staging_path dir := None)) X) (write_file (staging_path dir) R) (\<lambda>_. hw reg ?fs X)"
    using hw_write [of reg "fs(staging_path dir := None)" X "staging_path dir" R] by simp
  then have staging: "runs_to (hw reg fs X) (write_staging dir R) (\<lambda>_. hw reg ?fs X)"
    unfolding write_staging_def
    by (intro total_bind [OF total_map_err [OF hw_mkdir]] total_bind [OF hw_remove_quiet] total_map_err)
  have rd': "ready S dir cfg hc R ?fs" by (rule ready_upd [OF _ rd]) simp
  have "set ?X \<subseteq> set (roster_names (hs_env S) hc)" using agent_in_roster by auto
  then have act: "runs_to (hw reg ?fs ?X) (core_activate S dir opts hash cfg led)
      (\<lambda>r w. r = Applied hash \<and> settled S dir reg hash hc w)"
    by (intro hw_activate [OF codec ob rd']) simp_all
  show ?thesis
    unfolding core_swap_def
    by (rule total_bind [OF staging], rule total_bind_eq [OF hw_teardown [OF ob]], simp only: sum.case,
        rule total_bind_eq [OF hw_gate [OF ob gate_clean_teardown]], simp only: sum.case, rule act)
qed

lemma hw_skip:
  assumes ob: "obedient S dir reg" and rd: "ready S dir cfg hc R fs"
  shows "runs_to (hw reg fs X) (noop_may_skip S dir cfg fm)
    (\<lambda>r w. hw reg fs X w \<and> (r \<longrightarrow> fm \<and> set (cfg_expected (hs_env S) hc) \<subseteq> set X))"
proof -
  let ?E = "cfg_expected (hs_env S) hc"
  have utf: "utf8_valid (bytes_of cfg)" and ex: "expected_process_names (hs_env S) (hs_yaml S) cfg = Inr ?E"
    using rd by (auto simp: ready_def expected_process_names_def parse_config_def)
  let ?Q = "\<lambda>out X'. X' = X \<and> co_code out = Some 0 \<and> (\<exists>ps. hs_oxprocs S (utf8_lossy (co_stdout out)) = Inr ps
      \<and> (\<forall>p\<in>set ps. ox_status p = ''running'' \<longrightarrow> ox_name p \<in> set X))"
  have "runs_to (hw reg fs X) (oxmgr S dir [''list'', ''--json'']) (\<lambda>out w. \<exists>X'. hw reg fs X' w \<and> ?Q out X')"
  proof (rule hw_oxmgr)
    fix bin d
    assume "reg d = X"
    moreover obtain out d' v ps where "hs_spawn S bin (oxmgr_env S dir) [''list'', ''--json''] fs d = (out, d')" "reg d' = reg d"
      "co_code out = Some 0" "hs_oxprocs S (utf8_lossy (co_stdout out)) = Inr ps"
      "\<forall>p\<in>set ps. ox_status p = ''running'' \<longrightarrow> ox_name p \<in> set (reg d)"
      using ob unfolding obedient_def by metis
    ultimately show "?Q (fst (hs_spawn S bin (oxmgr_env S dir) [''list'', ''--json''] fs d))
        (reg (snd (hs_spawn S bin (oxmgr_env S dir) [''list'', ''--json''] fs d)))" by auto
  qed
  then have list: "runs_to (hw reg fs X) (map_err f (oxmgr S dir [''list'', ''--json'']))
      (\<lambda>out w. hw reg fs X w \<and> ?Q out X)" for f
    by (intro total_map_err) (erule total_conseq, auto)
  have lift: "runs_to (hw reg fs X) (lift_res (Inr ?E)) (\<lambda>r w. hw reg fs X w \<and> r = ?E)"
    by (simp add: lift_res_def total_ret)
  have "runs_to (hw reg fs X) (noop_liveness S dir cfg) (\<lambda>r w. hw reg fs X w \<and> (fst r = [] \<longrightarrow> set ?E \<subseteq> set X))"
    unfolding noop_liveness_def ex
    using utf
    by (simp, intro total_bind_eq [OF lift] total_bind [OF list] total_pure)
       (auto simp: runs_to_def bind_c_def map_err_def lift_res_def ret_def dead_apps_def filter_empty_conv list_ex_iff, metis)
  then have "runs_to (hw reg fs X) (attempt (noop_liveness S dir cfg))
      (\<lambda>r w. \<exists>d n. r = Inr (d, n) \<and> hw reg fs X w \<and> (d = [] \<longrightarrow> set ?E \<subseteq> set X))"
    by (intro total_attempt) (erule total_conseq, auto)
  then show ?thesis
    unfolding noop_may_skip_def
    by (rule total_bind) (auto simp: runs_to_def ret_def noop_verdict_def split: if_splits)
qed

lemma hw_execute_locked:
  assumes codec: "ledger_codec S" and ob: "obedient S dir reg" and rd: "ready S dir cfg hc R fs"
  shows "runs_to (hw reg fs X) (execute_locked S dir topo force opts)
    (\<lambda>r w. r \<in> {Applied (file_hash S cfg), NoOp (file_hash S cfg)} \<and> settled S dir reg (file_hash S cfg) hc w)"
proof -
  let ?H = "file_hash S cfg" and ?led = "ledger_at S dir fs"
  let ?G = "\<lambda>r w. r \<in> {Applied ?H, NoOp ?H} \<and> settled S dir reg ?H hc w"
  have yaml: "fs (host_yaml dir) = Some cfg" and utf: "utf8_valid (bytes_of cfg)" using rd by (auto simp: ready_def)
  have swap: "runs_to (hw reg fs X) (bind_c (core_gates S dir cfg) (\<lambda>g. case g of
      Inl reason \<Rightarrow> ret (Refused reason)
    | Inr rendered \<Rightarrow> core_swap S dir topo opts ?H cfg rendered ?led)) ?G"
    by (rule total_bind_eq [OF hw_gates [OF rd]], simp only: sum.case, rule total_conseq [OF hw_swap [OF codec ob rd]]) auto
  have skip: "runs_to (hw reg fs X) (if a then ret False else noop_may_skip S dir cfg (running_matches ?led ?H))
      (\<lambda>r w. hw reg fs X w \<and> (r \<longrightarrow> running_matches ?led ?H \<and> set (cfg_expected (hs_env S) hc) \<subseteq> set X))" for a
    using hw_skip [OF ob rd] by (auto intro: total_ret)
  have "runs_to (\<lambda>w. hw reg fs X w \<and> (skip \<longrightarrow> running_matches ?led ?H \<and> set (cfg_expected (hs_env S) hc) \<subseteq> set X))
      (if skip then ret (NoOp ?H) else if \<not> utf8_valid (bytes_of cfg) then throw e
       else bind_c (core_gates S dir cfg) (\<lambda>g. case g of
         Inl reason \<Rightarrow> ret (Refused reason)
       | Inr rendered \<Rightarrow> core_swap S dir topo opts ?H cfg rendered ?led)) ?G" for skip e
  proof (cases skip)
    case True
    then show ?thesis by (auto simp: runs_to_def ret_def settled_def hw_def)
  next
    case False
    then show ?thesis using swap utf by simp
  qed
  then show ?thesis
    unfolding execute_locked_def Let_def
    by (intro total_bind_eq [OF total_map_err [OF hw_read [where fs = fs, OF yaml]]] total_bind_eq [OF hw_load] total_bind [OF skip])
qed

lemma hw_lock:
  assumes "obedient S dir reg"
  shows "runs_to (hw reg fs X) (lock_acquire S dir) (\<lambda>_. hw reg (fs(lock_path dir \<mapsto> [])) X)"
proof -
  let ?fs = "fs(lock_path dir \<mapsto> [])"
  have "runs_to (hw reg ?fs X) (lock_loop S p dl (Suc n)) (\<lambda>_. hw reg ?fs X)" for p dl n
  proof -
    have ex: "\<exists>d'. hs_flock S d = (FlockAcquired, d') \<and> reg d' = reg d" for d using assms by (simp add: obedient_def)
    have "runs_to (hw reg ?fs X) (flock_try S) (\<lambda>r w. hw reg ?fs X w \<and> r = FlockAcquired)"
      unfolding runs_to_def
    proof (intro allI impI)
      fix w
      assume "hw reg ?fs X w"
      then show "\<exists>x w'. flock_try S w = (Done x, w') \<and> hw reg ?fs X w' \<and> x = FlockAcquired"
        using ex [of "wo_sys w"] by (auto simp: flock_try_def hw_def)
    qed
    then show ?thesis
      unfolding lock_loop.simps by (rule total_bind_eq) (simp add: total_ret)
  qed
  then have "runs_to (hw reg ?fs X) (lock_loop S p dl lock_polls) (\<lambda>_. hw reg ?fs X)" for p dl
    by (simp only: lock_polls_def eval_nat_numeral)
  then show ?thesis
    unfolding lock_acquire_def
    by (intro total_bind [OF total_map_err [OF hw_mkdir]] total_bind [OF total_map_err [OF hw_write]] total_bind [OF hw_now])
qed

lemma hw_execute:
  assumes codec: "ledger_codec S" and ob: "obedient S dir reg" and rd: "ready S dir cfg hc R fs"
  shows "runs_to (hw reg fs X) (execute S dir topo force opts)
    (\<lambda>r w. r \<in> {Applied (file_hash S cfg), NoOp (file_hash S cfg)} \<and> settled S dir reg (file_hash S cfg) hc w)"
  unfolding execute_def with_lock_def
proof (rule total_bind [OF hw_lock [OF ob]], rule total_releasing [OF hw_execute_locked [OF codec ob ready_upd [OF _ rd]]])
  have "\<forall>d. reg (hs_unlock S d) = reg d" using ob unfolding obedient_def by blast
  then show "r \<in> {Applied (file_hash S cfg), NoOp (file_hash S cfg)} \<and> settled S dir reg (file_hash S cfg) hc (w\<lparr>wo_sys := hs_unlock S (wo_sys w)\<rparr>)"
    if "r \<in> {Applied (file_hash S cfg), NoOp (file_hash S cfg)} \<and> settled S dir reg (file_hash S cfg) hc w" for r w
    using that by (simp add: settled_def)
qed simp

section \<open>The startup pass repairs\<close>

lemma hw_commit_fast:
  assumes codec: "ledger_codec S" and ob: "obedient S dir reg" and rd: "ready S dir cfg hc R fs"
  shows "runs_to (hw reg fs X) (commit_pending_fast S dir (file_hash S cfg) cfg X)
    (\<lambda>r w. (\<exists>fs'. hw reg fs' X w \<and> (\<forall>p. p \<notin> core_files dir \<longrightarrow> fs' p = fs p))
       \<and> (r \<longrightarrow> settled S dir reg (file_hash S cfg) hc w))"
proof -
  let ?H = "file_hash S cfg" and ?led = "ledger_at S dir fs"
  let ?K = "\<lambda>w. \<exists>fs'. hw reg fs' X w \<and> (\<forall>p. p \<notin> core_files dir \<longrightarrow> fs' p = fs p)"
  let ?G = "\<lambda>r w. ?K w \<and> (r \<longrightarrow> settled S dir reg ?H hc w)"
  have ex: "expected_process_names (hs_env S) (hs_yaml S) cfg = Inr (cfg_expected (hs_env S) hc)"
    using rd by (auto simp: ready_def expected_process_names_def parse_config_def)
  have no: "runs_to (hw reg fs X) (ret False) ?G" by (rule total_ret) auto
  have commit: "runs_to (hw reg fs X) (bind_c (stamp S) (\<lambda>t.
      bind_c (save_row S dir ?H BOOT_OPTS ''pending-committed'' (commit_ledger ?H BOOT_OPTS t ?led)) (\<lambda>_. ret True))) ?G"
    if exp: "set (cfg_expected (hs_env S) hc) \<subseteq> set X"
  proof (rule total_bind [OF hw_stamp], rule total_bind [OF hw_save_row])
    fix t u
    show "runs_to (\<lambda>w. \<exists>t'. hw reg (fs(ledger_tmp dir := None, ledger_path dir \<mapsto> hs_ledger_text S
        (push_history ?H (op_origin BOOT_OPTS) (op_actor BOOT_OPTS) ''pending-committed'' t' (commit_ledger ?H BOOT_OPTS t ?led)))) X w)
        (ret True) ?G"
    proof (intro total_ex total_ret conjI impI)
      fix t' w
      let ?fs = "fs(ledger_tmp dir := None, ledger_path dir \<mapsto> hs_ledger_text S
        (push_history ?H (op_origin BOOT_OPTS) (op_actor BOOT_OPTS) ''pending-committed'' t' (commit_ledger ?H BOOT_OPTS t ?led)))"
      assume w: "hw reg ?fs X w"
      then show "?K w" by (intro exI [of _ ?fs]) (auto simp: core_files_def)
      show "settled S dir reg ?H hc w"
        using w exp codec by (simp only: hw_def settled_def ledger_at_upd commit_matches)
    qed
  qed
  have rost: "runs_to (hw reg fs X) (case r of
         Inl _ \<Rightarrow> ret False
       | Inr rost \<Rightarrow>
           (case expected_process_names (hs_env S) (hs_yaml S) cfg of
              Inl _ \<Rightarrow> ret False
            | Inr expected \<Rightarrow>
                (case reconcile_mismatch rost X expected (app_name (hs_env S) ''recorder'') of
                   Some _ \<Rightarrow> ret False
                 | None \<Rightarrow>
                     bind_c (stamp S) (\<lambda>t.
                     bind_c (save_row S dir ?H BOOT_OPTS ''pending-committed'' (commit_ledger ?H BOOT_OPTS t ?led)) (\<lambda>_.
                     ret True))))) ?G" for r
  proof (cases r)
    case (Inr rost)
    show ?thesis
    proof (cases "reconcile_mismatch rost X (cfg_expected (hs_env S) hc) (app_name (hs_env S) ''recorder'')")
      case None
      then have "set (cfg_expected (hs_env S) hc) \<subseteq> set X" unfolding reconcile_mismatch_None by auto
      from commit [OF this] show ?thesis by (simp only: Inr ex None sum.case option.case)
    next
      case (Some d)
      from no show ?thesis by (simp only: Inr ex Some sum.case option.case)
    qed
  qed (simp only: no sum.case)
  have names: "runs_to (hw reg fs X) (attempt (oxfile_app_names S (oxfile_path dir))) (\<lambda>_. hw reg fs X)"
    by (auto simp: runs_to_def hw_def oxfile_app_names_def read_text_def read_file_def fated_def attempt_def map_err_def
        bind_c_def ret_def throw_def split: option.split sum.split)
  show ?thesis
    unfolding commit_pending_fast_def
  proof (rule total_bind_eq [OF hw_load])
    show "runs_to (hw reg fs X) (if \<not> pending_matches ?led ?H then ret False
       else
         bind_c (attempt (oxfile_app_names S (oxfile_path dir))) (\<lambda>r.
         case r of
           Inl _ \<Rightarrow> ret False
         | Inr rost \<Rightarrow>
             (case expected_process_names (hs_env S) (hs_yaml S) cfg of
                Inl _ \<Rightarrow> ret False
              | Inr expected \<Rightarrow>
                  (case reconcile_mismatch rost X expected (app_name (hs_env S) ''recorder'') of
                     Some _ \<Rightarrow> ret False
                   | None \<Rightarrow>
                       bind_c (stamp S) (\<lambda>t.
                       bind_c (save_row S dir ?H BOOT_OPTS ''pending-committed'' (commit_ledger ?H BOOT_OPTS t ?led)) (\<lambda>_.
                       ret True)))))) ?G"
      by (rule total_if [OF no total_bind [OF names rost]])
  qed
qed

lemma hw_try_commit:
  assumes codec: "ledger_codec S" and ob: "obedient S dir reg" and rd: "ready S dir cfg hc R fs"
  shows "runs_to (hw reg fs X) (try_commit_pending S dir)
    (\<lambda>r w. (\<exists>fs'. hw reg fs' X w \<and> (\<forall>p. p \<notin> core_files dir \<longrightarrow> fs' p = fs p))
       \<and> (r \<longrightarrow> settled S dir reg (file_hash S cfg) hc w))"
proof -
  let ?H = "file_hash S cfg" and ?fs = "fs(lock_path dir \<mapsto> [])"
  let ?G = "\<lambda>r w. (\<exists>fs'. hw reg fs' X w \<and> (\<forall>p. p \<notin> core_files dir \<longrightarrow> fs' p = fs p)) \<and> (r \<longrightarrow> settled S dir reg ?H hc w)"
  have rd': "ready S dir cfg hc R ?fs" by (rule ready_upd [OF _ rd]) simp
  then have yaml: "?fs (host_yaml dir) = Some cfg" and utf: "utf8_valid (bytes_of cfg)" by (auto simp: ready_def)
  have "runs_to (hw reg ?fs X) (commit_pending_fast S dir ?H cfg X) ?G"
    by (rule total_conseq [OF hw_commit_fast [OF codec ob rd']]) (auto simp: core_files_def)
  then have live: "runs_to (hw reg ?fs X) (bind_c (attempt (live_host_apps S dir)) (\<lambda>r.
      commit_pending_fast S dir ?H cfg (case r of Inr reg \<Rightarrow> reg | Inl _ \<Rightarrow> []))) ?G"
    by (intro total_bind_eq [OF hw_attempt_live [OF ob]]) simp
  have no: "runs_to (hw reg ?fs X) (ret False) ?G"
    by (rule total_ret) (auto simp: core_files_def intro!: exI [of _ ?fs])
  have body: "runs_to (hw reg ?fs X) (bind_c (map_err f (read_text (host_yaml dir))) (\<lambda>cfg.
      bind_c (ledger_load S dir) (\<lambda>led.
      if \<not> pending_matches led (file_hash S cfg) then ret False
      else bind_c (attempt (live_host_apps S dir)) (\<lambda>r.
        commit_pending_fast S dir (file_hash S cfg) cfg (case r of Inr reg \<Rightarrow> reg | Inl _ \<Rightarrow> []))))) ?G" for f
    by (rule total_bind_eq [OF total_map_err [OF hw_read_text [where fs = ?fs, OF yaml utf]]],
        rule total_bind_eq [OF hw_load], rule total_if [OF no live])
  have un: "\<forall>d. reg (hs_unlock S d) = reg d" using ob unfolding obedient_def by blast
  show ?thesis
    unfolding try_commit_pending_def with_lock_def
    by (rule total_bind [OF hw_lock [OF ob]], rule total_releasing [OF body])
       (use un in \<open>auto simp: hw_def settled_def\<close>)
qed

lemma hw_startup:
  assumes codec: "ledger_codec S" and ob: "obedient S dir reg" and rd: "ready S dir cfg hc R fs"
  shows "runs_to (hw reg fs X) (startup_reconcile_with S dir topo origin)
    (\<lambda>r w. r \<in> {Applied (file_hash S cfg), NoOp (file_hash S cfg)} \<and> settled S dir reg (file_hash S cfg) hc w)"
proof -
  let ?H = "file_hash S cfg"
  let ?G = "\<lambda>r w. r \<in> {Applied ?H, NoOp ?H} \<and> settled S dir reg ?H hc w"
  have rest: "runs_to (\<lambda>w. hw reg fs' X w \<and> (committed \<longrightarrow> settled S dir reg ?H hc w))
      (bind_c (map_err f (read_file (host_yaml dir))) (\<lambda>bytes.
       if committed then ret (Applied (file_hash S bytes))
       else bind_c (ledger_load S dir) (\<lambda>led.
         bind_c (if gate_needs_reconcile led (file_hash S bytes) then ret False
                 else noop_may_skip S dir bytes (running_matches led (file_hash S bytes))) (\<lambda>skip.
         if skip then ret (NoOp (file_hash S bytes)) else execute S dir topo False o')))) ?G"
    if fs': "\<forall>p. p \<notin> core_files dir \<longrightarrow> fs' p = fs p" for fs' committed f o'
  proof -
    have rd': "ready S dir cfg hc R fs'" by (rule ready_cong [OF rd]) (use fs' in blast)
    then have yaml: "fs' (host_yaml dir) = Some cfg" by (simp add: ready_def)
    have read: "runs_to (\<lambda>w. hw reg fs' X w \<and> (committed \<longrightarrow> settled S dir reg ?H hc w)) (map_err f (read_file (host_yaml dir)))
        (\<lambda>r w. (hw reg fs' X w \<and> (committed \<longrightarrow> settled S dir reg ?H hc w)) \<and> r = cfg)"
      by (auto simp: runs_to_def hw_def read_file_def fated_def map_err_def yaml)
    have skip: "runs_to (hw reg fs' X) (if a then ret False else noop_may_skip S dir cfg (running_matches (ledger_at S dir fs') ?H))
        (\<lambda>r w. hw reg fs' X w \<and> (r \<longrightarrow> settled S dir reg ?H hc w))" for a
      by (cases a) (auto intro: total_ret intro!: total_conseq [OF hw_skip [OF ob rd']] simp: settled_def hw_def)
    have "runs_to (\<lambda>w. hw reg fs' X w \<and> (skip \<longrightarrow> settled S dir reg ?H hc w))
        (if skip then ret (NoOp ?H) else execute S dir topo False o') ?G" for skip
      using hw_execute [OF codec ob rd', of X topo False o'] by (cases skip) (auto intro: total_ret)
    then have "runs_to (hw reg fs' X) (bind_c (ledger_load S dir) (\<lambda>led.
         bind_c (if gate_needs_reconcile led ?H then ret False else noop_may_skip S dir cfg (running_matches led ?H)) (\<lambda>skip.
         if skip then ret (NoOp ?H) else execute S dir topo False o'))) ?G"
      by (intro total_bind_eq [OF hw_load] total_bind [OF skip])
    then show ?thesis
      by (intro total_bind_eq [OF read]) (cases committed, auto intro: total_ret)
  qed
  have rest': "runs_to (\<lambda>w. (\<exists>fs'. hw reg fs' X w \<and> (\<forall>p. p \<notin> core_files dir \<longrightarrow> fs' p = fs p)) \<and> (committed \<longrightarrow> settled S dir reg ?H hc w))
      (bind_c (map_err f (read_file (host_yaml dir))) (\<lambda>bytes.
       if committed then ret (Applied (file_hash S bytes))
       else bind_c (ledger_load S dir) (\<lambda>led.
         bind_c (if gate_needs_reconcile led (file_hash S bytes) then ret False
                 else noop_may_skip S dir bytes (running_matches led (file_hash S bytes))) (\<lambda>skip.
         if skip then ret (NoOp (file_hash S bytes)) else execute S dir topo False o')))) ?G" for committed f o'
    using rest unfolding runs_to_def by blast
  show ?thesis
    unfolding startup_reconcile_with_def Let_def by (rule total_bind [OF hw_try_commit [OF codec ob rd] rest'])
qed


text \<open>A machine that obeys: its registry is a list of names, printed in hexadecimal one per line.\<close>

definition demo_name :: "string \<Rightarrow> string" where
  "demo_name l = (case from_hex l of Some bs \<Rightarrow> map (\<lambda>b. char_of (unat b)) bs | None \<Rightarrow> [])"

definition demo_listing :: "string list \<Rightarrow> string" where
  "demo_listing reg = concat (map (\<lambda>n. hex_encode (bytes_of n) @ newline) reg)"

definition boot_config :: HostConfig where
  "boot_config =
     \<lparr>hc_sources = [], hc_streams = [], hc_record = Some \<lparr>rs_enabled = Some False, rs_out_dir = None\<rparr>, hc_signaling = None,
      hc_defaults = no_defaults, hc_control = None\<rparr>"

definition boot_spawn ::
  "string \<Rightarrow> (string \<times> string) list \<Rightarrow> string list \<Rightarrow> (string \<rightharpoonup> string) \<Rightarrow> string list \<Rightarrow> CmdOut \<times> string list" where
  "boot_spawn prog env args fs reg =
     (let ok = (\<lambda>out. \<lparr>co_code = Some 0, co_stdout = out, co_stderr = []\<rparr>) in
      if args = [''list'', ''--json''] then (ok (demo_listing reg), reg)
      else case args of
             [verb, x] \<Rightarrow>
               if verb = ''delete'' then (ok [], filter (\<lambda>n. n \<noteq> x) reg)
               else if verb = ''apply''
               then (ok [], case fs x of Some t \<Rightarrow> reg @ demo_app_names t | None \<Rightarrow> reg)
               else (ok [], reg)
           | _ \<Rightarrow> (ok [], reg))"

definition boot_sys :: "string list HostSys" where
  "boot_sys = demo_sys\<lparr>
      hs_yaml := (\<lambda>cfg. Inr boot_config),
      hs_json := (\<lambda>t. Inr (JArr (map (\<lambda>l. JObj [(''namespace'', JStr ''mediaservo-host''), (''name'', JStr (demo_name l))]) (demo_lines t)))),
      hs_oxprocs := (\<lambda>t. Inr (map (\<lambda>l. \<lparr>ox_name = demo_name l, ox_status = ''running''\<rparr>) (demo_lines t))),
      hs_spawn := boot_spawn\<rparr>"

definition boot_oxfile :: string where
  "boot_oxfile = (case to_oxfile_in_dir demo_host_env (\<lambda>_. Inr boot_config) ''demo'' ''/o'' of Inr (Some t) \<Rightarrow> t | _ \<Rightarrow> [])"

lemma demo_name_hex: "demo_name (hex_encode (bytes_of n)) = n"
proof -
  have "char_of (unat (byte_of c)) = c" for c by (simp add: unat_byte_of)
  then show ?thesis by (simp add: demo_name_def bytes_of_def comp_def)
qed

lemma hex_ascii: "c \<in> set (hex_encode bs) \<Longrightarrow> of_char c < (128 :: nat) \<and> c \<noteq> CHR 10"
  using is_hex_of_encode [of bs] by (auto simp: to_digit16_def Let_def split: if_splits)

lemma demo_lines_concat:
  assumes "CHR 10 \<notin> set l"
  shows "demo_lines (l @ CHR 10 # rest) = l # demo_lines rest"
  using assms by (induction l) auto

lemma demo_lines_listing: "demo_lines (demo_listing reg) = map (\<lambda>n. hex_encode (bytes_of n)) reg"
  unfolding demo_listing_def
proof (induction reg)
  case (Cons n reg)
  have "CHR 10 \<notin> set (hex_encode (bytes_of n))" using hex_ascii by blast
  then show ?case using Cons demo_lines_concat by simp
qed simp

lemma utf8_lossy_ascii: "(\<forall>c\<in>set s. of_char c < (128 :: nat)) \<Longrightarrow> utf8_lossy s = s"
  by (induction s rule: utf8_lossy.induct) (simp_all add: Let_def utf8_width_def utf8_tail_def)

lemma utf8_lossy_listing: "utf8_lossy (demo_listing reg) = demo_listing reg"
  by (rule utf8_lossy_ascii) (use hex_ascii in \<open>auto simp: demo_listing_def\<close>)

lemma utf8_valid_ascii: "(\<forall>c\<in>set s. of_char c < (128 :: nat)) \<Longrightarrow> utf8_valid (bytes_of s)"
  by (induction s) (auto simp: bytes_of_def in_range_def unat_byte_of)

lemma host_apps_listing:
  "host_apps_of ''mediaservo-host'' (JArr (map (\<lambda>l. JObj [(''namespace'', JStr ''mediaservo-host''), (''name'', JStr (demo_name l))]) ls))
     = map demo_name ls"
  by (induction ls) (simp_all add: host_apps_of_def)

lemma boot_obedient: "obedient boot_sys dir (\<lambda>d. d)"
proof -
  have list: "boot_spawn bin env [''list'', ''--json''] fs d = (\<lparr>co_code = Some 0, co_stdout = demo_listing d, co_stderr = []\<rparr>, d)" for bin env fs d
    by (simp add: boot_spawn_def)
  have ns: "br_namespace (he_brand (hs_env boot_sys)) = ''mediaservo-host''" by code_simp
  have "\<exists>out d' v ps. hs_spawn boot_sys bin (oxmgr_env boot_sys dir) [''list'', ''--json''] fs d = (out, d') \<and> d' = d
      \<and> co_code out = Some 0 \<and> hs_json boot_sys (co_stdout out) = Inr v
      \<and> host_apps_of (br_namespace (he_brand (hs_env boot_sys))) v = d
      \<and> hs_oxprocs boot_sys (utf8_lossy (co_stdout out)) = Inr ps
      \<and> (\<forall>p\<in>set ps. ox_status p = ''running'' \<longrightarrow> ox_name p \<in> set d)" for bin fs d
    unfolding ns
    by (simp add: boot_sys_def list demo_lines_listing utf8_lossy_listing host_apps_listing demo_name_hex comp_def)
  moreover have "stop_survivors boot_sys d = []" for d
    by (simp add: stop_survivors_def boot_sys_def demo_sys_def List.map_filter_simps)
  moreover have "toml_app_names v = demo_app_names t" if "hs_toml boot_sys t = Inr v" for t v
    using that by (auto simp: boot_sys_def demo_sys_def toml_app_names_def map_filter_def comp_def)
  ultimately show ?thesis
    unfolding obedient_def by (auto simp: boot_sys_def demo_sys_def boot_spawn_def)
qed

lemma split_at_needle_code [code]:
  "split_at_needle needle [] = None"
  "split_at_needle needle (c # s) =
     (if needle \<noteq> [] \<and> c \<noteq> hd needle then split_at_needle needle s
      else case strip_prefix (c # s) needle of Some rest \<Rightarrow> Some rest | None \<Rightarrow> split_at_needle needle s)"
  by (cases needle; auto simp: strip_prefix_def starts_with_def)+

lemma boot_tokens: "token_paths boot_oxfile = [''/o/etc/link/agent.token'']"
  by code_simp

lemma boot_ascii: "list_all (\<lambda>c. of_char c < (128 :: nat)) boot_oxfile"
  by code_simp

lemma boot_names: "demo_app_names boot_oxfile = roster_names demo_host_env boot_config"
  by code_simp

lemma boot_valid: "validate demo_host_env (\<lambda>_. Inr boot_config) cfg = Inr ()"
  unfolding validate_Inr by (simp add: boot_config_def cfg_sources_def cfg_streams_def)

lemma boot_renders: "to_oxfile_in_dir demo_host_env (\<lambda>_. Inr boot_config) ''demo'' ''/o'' = Inr (Some boot_oxfile)"
proof -
  have "cfg_sources boot_config = Inr []" "cfg_streams boot_config = Inr []"
    by (simp_all add: boot_config_def cfg_sources_def cfg_streams_def)
  from roster_Inr [OF this] have r: "\<exists>apps. roster E boot_config cp td = Inr (Some apps)" for E cp td by blast
  have ox: "\<exists>t. to_oxfile_with_paths E (\<lambda>_. Inr boot_config) c cp td = Inr (Some t)" for E c cp td
    using r [of E cp td] by (auto simp: to_oxfile_with_paths_def parse_config_def Let_def)
  obtain t where t: "to_oxfile_in_dir demo_host_env (\<lambda>_. Inr boot_config) ''demo'' ''/o'' = Inr (Some t)"
    using ox unfolding to_oxfile_in_dir_def Let_def by blast
  then show ?thesis unfolding boot_oxfile_def t by simp
qed

definition boot_files :: "string \<rightharpoonup> string" where
  "boot_files = [host_yaml ''/o'' \<mapsto> ''demo'', ''/o/etc/link/agent.token'' \<mapsto> ''t'']"

lemma boot_ready: "ready boot_sys ''/o'' ''demo'' boot_config boot_oxfile boot_files"
proof -
  have sys: "hs_env boot_sys = demo_host_env" "hs_yaml boot_sys = (\<lambda>_. Inr boot_config)"
    "hs_toml boot_sys = hs_toml demo_sys" by (simp_all add: boot_sys_def demo_sys_def)
  have "''/o/etc/link/agent.token'' \<notin> core_files ''/o''"
    by (simp add: core_files_def lock_path_def staging_path_def ledger_tmp_def ledger_path_def oxfile_path_def run_path_def path_join_def)
  moreover have "host_yaml ''/o'' \<noteq> ''/o/etc/link/agent.token''" by (simp add: host_yaml_def path_join_def)
  moreover have "utf8_valid (bytes_of boot_oxfile)"
    using boot_ascii by (intro utf8_valid_ascii) (simp add: list_all_iff)
  moreover have "utf8_valid (bytes_of ''demo'')" by (rule utf8_valid_ascii) simp
  moreover have "\<exists>v. hs_toml demo_sys boot_oxfile = Inr v \<and> toml_app_names v = roster_names demo_host_env boot_config"
    by (simp add: demo_sys_def boot_names toml_app_names_def map_filter_def comp_def)
  moreover have "cfg_hmac_key_file boot_config = None" by (simp add: cfg_hmac_key_file_def boot_config_def)
  ultimately show ?thesis
    unfolding ready_def sys by (simp add: boot_valid boot_renders boot_tokens boot_files_def)
qed


end
