(* ===== verification/ConfigBells.thy ===== *)
theory ConfigBells
  imports ConfigBoot "HOL-Library.Multiset"
begin

text \<open>
  The bells that ring the configuration core: the cloud push (\<open>handle_config_push\<close> and its helpers in
  \<open>translate.rs\<close>, the applier loop of \<open>bin/host-agent.rs\<close>), the file watch with its debounce, and the
  boot pass, with the version numbers and the lamps they leave behind.
\<close>

section \<open>Writing the pushed file\<close>

definition atomic_write :: "string \<Rightarrow> string \<Rightarrow> ('d, unit) core" where
  "atomic_write path content =
     (let tmp = with_extension path ''toml.tmp'' in
      bind_c (map_err (io_err ''write'' tmp) (write_file tmp content)) (\<lambda>_.
      map_err (io_err ''write'' path) (rename_file tmp path)))"

definition write_oxfile :: "'d HostSys \<Rightarrow> string \<Rightarrow> string \<Rightarrow> ('d, string) core" where
  "write_oxfile S cfg dir =
     bind_c (lift_res (validate (hs_env S) (hs_yaml S) cfg)) (\<lambda>_.
     bind_c (lift_res (control_hmac_key_file (hs_yaml S) cfg)) (\<lambda>key.
     bind_c (case key of None \<Rightarrow> ret True | Some rel \<Rightarrow> path_exists (path_join dir rel)) (\<lambda>ok.
     if \<not> ok then throw (hmac_missing (path_join dir (the key)))
     else
       bind_c (render S dir cfg) (\<lambda>ox.
       bind_c (map_err (io_err ''create'' (path_join dir ''run'')) (create_dir_all (path_join dir ''run''))) (\<lambda>_.
       bind_c (atomic_write (oxfile_path dir) ox) (\<lambda>_.
       ret (oxfile_path dir)))))))"

definition backup_path :: "string \<Rightarrow> u64 \<Rightarrow> string" where
  "backup_path dir version = path_join (path_join dir ''etc'') (''host.yaml.bak-'' @ show_nat (unat version))"

definition backup_host_config :: "string \<Rightarrow> u64 \<Rightarrow> ('d, string) core" where
  "backup_host_config dir version =
     bind_c (map_err (\<lambda>e. ''backup '' @ host_yaml dir @ '' '' @ [CHR 0xE2, CHR 0x86, CHR 0x92] @ '' '' @ backup_path dir version
                          @ '' failed: '' @ e) (copy_file (host_yaml dir) (backup_path dir version))) (\<lambda>_.
     ret (backup_path dir version))"

definition apply_config_push :: "'d HostSys \<Rightarrow> string \<Rightarrow> string \<Rightarrow> u64 \<Rightarrow> ('d, unit) core" where
  "apply_config_push S dir config version =
     bind_c (lift_res (validate (hs_env S) (hs_yaml S) config)) (\<lambda>_.
     bind_c (backup_host_config dir version) (\<lambda>_.
     bind_c (atomic_write (host_yaml dir) config) (\<lambda>_.
     bind_c (write_oxfile S config dir) (\<lambda>_. ret ()))))"

definition apply_config :: "'d HostSys \<Rightarrow> string \<Rightarrow> ('d, unit) core" where
  "apply_config S dir =
     bind_c (map_err (\<lambda>e. ''read host.yaml failed: '' @ e @ '' '' @ em_dash @ '' run host init <dir> first'')
               (read_text (host_yaml dir))) (\<lambda>cfg.
     bind_c (write_oxfile S cfg dir) (\<lambda>_. oxmgr_apply S dir))"

definition handle_config_push :: "'d HostSys \<Rightarrow> string \<Rightarrow> u64 \<Rightarrow> signaling_message \<Rightarrow> ('d, u64) core" where
  "handle_config_push S dir current_version push =
     (case push of
        ConfigPush room target config version actor \<Rightarrow>
          if version \<le> current_version
          then throw (''ConfigPush version '' @ show_nat (unat version) @ '' expired (current '' @ show_nat (unat current_version)
                      @ '') '' @ em_dash @ '' reject stale/duplicate push'')
          else bind_c (apply_config_push S dir config version) (\<lambda>_. ret version)
      | _ \<Rightarrow> throw ''gateway pending message is not ConfigPush'')"

section \<open>The version after a restart\<close>

text \<open>\<open>str::parse::<u64>\<close>: an optional plus, digits, no overflow.\<close>

fun digits_value :: "nat \<Rightarrow> string \<Rightarrow> nat option" where
  "digits_value acc [] = Some acc"
| "digits_value acc (c # cs) =
     (if ascii_digit c then digits_value (10 * acc + (of_char c - 48)) cs else None)"

definition parse_u64 :: "string \<Rightarrow> u64 option" where
  "parse_u64 s =
     (let t = (case s of c # cs \<Rightarrow> if c = CHR ''+'' then cs else s | [] \<Rightarrow> []) in
      if t = [] then None
      else case digits_value 0 t of
             Some n \<Rightarrow> if n < 2 ^ 64 then Some (of_nat n) else None
           | None \<Rightarrow> None)"

text \<open>Over the names of the directory \<open>etc\<close>, \<open>None\<close> when it cannot be read.\<close>

definition recover_config_version :: "string list option \<Rightarrow> u64" where
  "recover_config_version entries =
     (case entries of
        None \<Rightarrow> 0
      | Some names \<Rightarrow>
          foldr max (List.map_filter (\<lambda>n. Option.bind (strip_prefix n ''host.yaml.bak-'') parse_u64) names) 0)"

section \<open>The loops of the agent\<close>

text \<open>One turn of the applier: the new version, what the core reported, and the belief recorded.\<close>

definition config_applier :: "'d HostSys \<Rightarrow> string \<Rightarrow> u64 \<Rightarrow> signaling_message \<Rightarrow> ('d, u64) core" where
  "config_applier S dir config_version push =
     bind_c (attempt (handle_config_push S dir config_version push)) (\<lambda>h.
     case h of
       Inl _ \<Rightarrow> ret config_version
     | Inr v \<Rightarrow>
         bind_c (attempt (execute S dir AgentRun False \<lparr>op_origin = ''push'', op_actor = None\<rparr>)) (\<lambda>res.
         case res of
           Inr (Applied hash) \<Rightarrow> bind_c (attempt (record_push S dir None)) (\<lambda>_. ret v)
         | Inr (NoOp hash) \<Rightarrow> bind_c (attempt (record_push S dir None)) (\<lambda>_. ret v)
         | _ \<Rightarrow> ret config_version))"

text \<open>The state of the file watch: its baseline and the previous sample. One sample, and whether it fires.\<close>

definition watch_step :: "string \<times> string option \<Rightarrow> string option \<Rightarrow> (string \<times> string option) \<times> string option" where
  "watch_step st cur =
     (case st of
        (baseline, prev) \<Rightarrow>
          (case watch_tick cur prev baseline of
             Trigger hash \<Rightarrow> ((hash, cur), Some hash)
           | _ \<Rightarrow> ((baseline, cur), None)))"

definition config_watcher :: "'d HostSys \<Rightarrow> string \<Rightarrow> string \<times> string option \<Rightarrow> ('d, string \<times> string option) core" where
  "config_watcher S dir st =
     bind_c (attempt (read_file (host_yaml dir))) (\<lambda>r.
     case watch_step st (case r of Inr b \<Rightarrow> Some (file_hash S b) | Inl _ \<Rightarrow> None) of
       (st', None) \<Rightarrow> ret st'
     | (st', Some hash) \<Rightarrow>
         bind_c (attempt (execute S dir AgentRun False \<lparr>op_origin = ''local'', op_actor = None\<rparr>)) (\<lambda>_. ret st'))"

definition boot_config_pass :: "'d HostSys \<Rightarrow> string \<Rightarrow> ('d, unit) core" where
  "boot_config_pass S dir = bind_c (attempt (startup_reconcile_with S dir AgentRun ''boot'')) (\<lambda>_. ret ())"

text \<open>The exit code of the CLI verbs that run the core.\<close>

fun report_core_outcome :: "Outcome \<Rightarrow> int" where
  "report_core_outcome (Applied h) = 0"
| "report_core_outcome (NoOp h) = 0"
| "report_core_outcome (Refused r) = 1"
| "report_core_outcome (Residue s) = 1"

section \<open>The file watch\<close>

fun watch_run :: "string \<times> string option \<Rightarrow> string option list \<Rightarrow> (string \<times> string option) \<times> string list" where
  "watch_run st [] = (st, [])"
| "watch_run st (c # cs) =
     (case watch_step st c of
        (st1, fired) \<Rightarrow> (case watch_run st1 cs of (st2, fs) \<Rightarrow> (st2, (case fired of Some h \<Rightarrow> h # fs | None \<Rightarrow> fs))))"

lemma watch_follow: "watch_run (h, p) (replicate n (Some h)) = ((h, if n = 0 then p else Some h), [])"
  by (induction n arbitrary: p) (simp_all add: watch_step_def watch_tick_def)

lemma watch_stable:
  assumes "h \<noteq> b" and "2 \<le> n"
  shows "watch_run (b, p) (replicate n (Some h)) = ((h, Some h), [h])"
proof -
  obtain m where n: "n = Suc (Suc m)" using assms(2) by (metis add_2_eq_Suc le_Suc_ex)
  show ?thesis using assms(1) by (auto simp: n watch_step_def watch_tick_def watch_follow)
qed

lemma watch_step_cases:
  "watch_step (b, p) c = ((b, c), None) \<or> (\<exists>h. c = Some h \<and> p = Some h \<and> watch_step (b, p) c = ((h, c), Some h))"
  by (cases c) (auto simp: watch_step_def watch_tick_def)

lemma watch_confirmed:
  assumes "h \<in> set (snd (watch_run (b, p) cs))"
  shows "\<exists>i. Suc i < length (p # cs) \<and> (p # cs) ! i = Some h \<and> (p # cs) ! Suc i = Some h"
  using assms
proof (induction cs arbitrary: b p)
  case (Cons c cs)
  obtain b' f where st: "watch_step (b, p) c = ((b', c), f)" and f: "\<And>h. f = Some h \<Longrightarrow> c = Some h \<and> p = Some h"
    using watch_step_cases [of b p c] by (elim disjE exE conjE) auto
  show ?case
  proof (cases "f = Some h")
    case True
    with f show ?thesis by (intro exI [of _ 0]) simp
  next
    case False
    then have "h \<in> set (snd (watch_run (b', c) cs))"
      using Cons.prems by (auto simp: st split: prod.splits option.splits)
    from Cons.IH [OF this] obtain i where "Suc i < length (c # cs)" "(c # cs) ! i = Some h" "(c # cs) ! Suc i = Some h" by blast
    then show ?thesis by (intro exI [of _ "Suc i"]) simp
  qed
qed simp

text \<open>
  C32. The file watch debounces. A fingerprint it fires on was read in two consecutive samples, so a file
  caught half written once never reaches the core; and an edit that stays in place fires exactly once,
  after at most two samples, whatever was sampled before.
\<close>

theorem watch_debounces:
  "(h \<in> set (snd (watch_run (b, p) samples)) \<longrightarrow>
      (\<exists>i. Suc i < length (p # samples) \<and> (p # samples) ! i = Some h \<and> (p # samples) ! Suc i = Some h))
   \<and> (h \<noteq> b \<longrightarrow> 2 \<le> n \<longrightarrow> watch_run (b, p) (replicate n (Some h)) = ((h, Some h), [h]))"
  using watch_confirmed watch_stable by blast

theorem watch_debounces_witness:
  "watch_run (''a'', Some ''torn'') (replicate 3 (Some ''b'')) = ((''b'', Some ''b''), [''b''])"
  using watch_debounces [of "''b''" "''a''" "Some ''torn''" "[]" 3] by simp

section \<open>The cloud push\<close>

text \<open>
  C18. A push that is stale, a duplicate, or does not validate is rejected before any effect: no file is
  written, no process is started, and the agent keeps the version it reports.
\<close>

theorem push_rejected_untouched:
  assumes "version \<le> current \<or> validate (hs_env S) (hs_yaml S) config = Inl e"
  shows "\<exists>reason. handle_config_push S dir current (ConfigPush room target config version actor) w = (Failed reason, w)
    \<and> config_applier S dir current (ConfigPush room target config version actor) w = (Done current, w)"
  using assms
  by (cases "version \<le> current")
     (auto simp: handle_config_push_def config_applier_def apply_config_push_def bind_c_def attempt_def throw_def ret_def lift_res_def)

theorem push_rejected_untouched_witness:
  "\<exists>reason. handle_config_push demo_sys ''/opt'' 7 (ConfigPush ''r'' ''t'' ''demo'' 7 None) (demo_world []) = (Failed reason, demo_world [])
    \<and> config_applier demo_sys ''/opt'' 7 (ConfigPush ''r'' ''t'' ''demo'' 7 None) (demo_world []) = (Done 7, demo_world [])"
  by (rule push_rejected_untouched) simp

lemma handle_Done:
  assumes "handle_config_push S dir current push w = (Done v, w')"
  shows "current < v \<and> (\<exists>room target config actor. push = ConfigPush room target config v actor
    \<and> validate (hs_env S) (hs_yaml S) config = Inr ())"
  using assms
  by (auto simp: handle_config_push_def apply_config_push_def throw_def bind_c_def ret_def lift_res_def
      split: signaling_message.splits if_splits prod.splits Run.splits sum.splits)


text \<open>
  A push whose key file is missing is answered with an error, but host.yaml has been replaced by then,
  and its backup carries the version of the push that was rejected.
\<close>

lemma etc_path: "path_join (path_join d ''etc'') a = path_join d ''etc'' @ ''/'' @ a" if "\<not> path_absolute a"
  using that by (auto simp: path_join_def)

lemma host_tmp: "with_extension (host_yaml dir) ''toml.tmp'' = path_join (path_join dir ''etc'') ''host.toml.tmp''"
proof -
  have "with_extension (path_join dir ''etc'' @ CHR ''/'' # ''host'' @ CHR ''.'' # ''yaml'') ''toml.tmp''
      = path_join dir ''etc'' @ CHR ''/'' # ''host'' @ CHR ''.'' # ''toml.tmp''"
    by (rule with_extension_simple) simp_all
  then show ?thesis by (simp add: host_yaml_def etc_path)
qed

lemma host_tmp_neq: "path_join (path_join dir ''etc'') ''host.toml.tmp'' \<noteq> host_yaml dir"
  by (simp add: host_yaml_def path_join_inj)

lemma backup_neq: "backup_path dir v \<noteq> host_yaml dir" "backup_path dir v \<noteq> path_join (path_join dir ''etc'') ''host.toml.tmp''"
  by (simp_all add: backup_path_def host_yaml_def path_join_inj)

lemma hw_backup:
  assumes "fs (host_yaml dir) = Some old"
  shows "runs_to (hw reg fs X) (backup_host_config dir version) (\<lambda>_. hw reg (fs(backup_path dir version \<mapsto> old)) X)"
  using assms by (auto simp: runs_to_def hw_def backup_host_config_def copy_file_def fated_def map_err_def bind_c_def ret_def)

lemma hw_atomic_write:
  assumes "with_extension p ''toml.tmp'' \<noteq> p"
  shows "runs_to (hw reg fs X) (atomic_write p t) (\<lambda>_. hw reg (fs(with_extension p ''toml.tmp'' := None, p \<mapsto> t)) X)"
proof -
  let ?tmp = "with_extension p ''toml.tmp''"
  have "runs_to (hw reg (fs(?tmp \<mapsto> t)) X) (rename_file ?tmp p) (\<lambda>_. hw reg (fs(?tmp := None, p \<mapsto> t)) X)"
    using hw_rename [of "fs(?tmp \<mapsto> t)" ?tmp t reg X p] by simp
  then show ?thesis
    unfolding atomic_write_def Let_def by (intro total_bind [OF total_map_err [OF hw_write]] total_map_err)
qed

lemma rejected_push_overwrites:
  assumes "current < version" and "validate (hs_env S) (hs_yaml S) config = Inr ()" and "hs_yaml S config = Inr hc"
    and "cfg_hmac_key_file hc = Some rel" and "wo_fates w = []" and "wo_files w (host_yaml dir) = Some old"
    and "path_join dir rel \<notin> {host_yaml dir, backup_path dir version}" and "wo_files w (path_join dir rel) = None"
  shows "\<exists>reason w'. handle_config_push S dir current (ConfigPush room target config version actor) w = (Failed reason, w')
    \<and> wo_files w' (host_yaml dir) = Some config \<and> wo_files w' (backup_path dir version) = Some old"
proof -
  let ?reg = "\<lambda>_ :: 'a. [] :: string list"
  let ?tmp = "path_join (path_join dir ''etc'') ''host.toml.tmp''"
  let ?fs1 = "(wo_files w)(backup_path dir version \<mapsto> old)" and ?fs2 = "(wo_files w)(backup_path dir version \<mapsto> old, ?tmp := None, host_yaml dir \<mapsto> config)"
  have "hw ?reg (wo_files w) [] w" using assms(5) by (simp add: hw_def)
  then obtain b w1 where b: "backup_host_config dir version w = (Done b, w1)" and w1: "hw ?reg ?fs1 [] w1"
    using hw_backup [where fs = "wo_files w", OF assms(6), of ?reg "[]" version] unfolding runs_to_def by blast
  have "runs_to (hw ?reg ?fs1 []) (atomic_write (host_yaml dir) config) (\<lambda>_. hw ?reg ?fs2 [])"
    using hw_atomic_write [of "host_yaml dir" ?reg ?fs1 "[]" config] by (simp add: host_tmp host_tmp_neq)
  then obtain u w2 where u: "atomic_write (host_yaml dir) config w1 = (Done u, w2)" and w2: "hw ?reg ?fs2 [] w2"
    using w1 unfolding runs_to_def by blast
  have miss: "wo_files w2 (path_join dir rel) = None" using w2 assms(7,8) by (simp add: hw_def)
  have key: "control_hmac_key_file (hs_yaml S) config = Inr (Some rel)"
    using assms(3,4) by (simp add: control_hmac_key_file_def parse_config_def)
  have "write_oxfile S config dir w2 = (Failed (hmac_missing (path_join dir rel)), w2)"
    using miss assms(2) by (simp add: write_oxfile_def key bind_c_def lift_res_def ret_def path_exists_def throw_def)
  then have "handle_config_push S dir current (ConfigPush room target config version actor) w = (Failed (hmac_missing (path_join dir rel)), w2)"
    using assms(1,2) by (simp add: handle_config_push_def apply_config_push_def bind_c_def lift_res_def ret_def b u not_le [symmetric])
  moreover have "wo_files w2 (host_yaml dir) = Some config" "wo_files w2 (backup_path dir version) = Some old"
    using w2 by (simp_all add: hw_def backup_neq backup_neq [symmetric])
  ultimately show ?thesis by blast
qed

section \<open>Versions and backups\<close>

lemma digits_value_append: "digits_value a (xs @ ys) = Option.bind (digits_value a xs) (\<lambda>b. digits_value b ys)"
  by (induction xs arbitrary: a) auto

lemma digits_value_digit: "n < 10 \<Longrightarrow> digits_value a [char_of (48 + n :: nat)] = Some (10 * a + n)"
  by (simp add: ascii_digit_def)

lemma digits_value_show: "digits_value 0 (show_nat n) = Some n"
proof (induction n rule: show_nat.induct)
  case (1 n)
  then show ?case
    by (cases "n < 10")
       (auto simp: show_nat.simps [of n] digits_value_append digits_value_digit simp del: digits_value.simps)
qed

lemma show_nat_digits: "c \<in> set (show_nat n) \<Longrightarrow> ascii_digit c"
proof (induction n rule: show_nat.induct)
  case (1 n)
  then show ?case by (auto simp: show_nat.simps [of n] ascii_digit_def split: if_splits)
qed

lemma show_nat_nonempty: "show_nat n \<noteq> []"
  by (simp add: show_nat.simps [of n])

lemma parse_show_u64: "parse_u64 (show_nat (unat v)) = Some v"
proof -
  obtain c cs where s: "show_nat (unat v) = c # cs" using show_nat_nonempty by (meson list.exhaust)
  then have "c \<noteq> CHR ''+''" using show_nat_digits [of c "unat v"] by (auto simp: ascii_digit_def)
  moreover have "digits_value 0 (c # cs) = Some (unat v)" using digits_value_show [of "unat v"] s by simp
  moreover have "unat v < 2 ^ 64" using unsigned_less [of v, where ?'a = nat] by simp
  ultimately show ?thesis by (simp add: parse_u64_def s del: digits_value.simps)
qed

lemma foldr_max_ge: "(x :: u64) \<in> set xs \<Longrightarrow> x \<le> foldr max xs 0"
  by (induction xs) (auto simp: le_max_iff_disj)

lemma foldr_max_in: "foldr max xs (0 :: u64) \<in> insert 0 (set xs)"
  by (induction xs) (auto simp: max_def)

text \<open>
  The version an agent starts with is the largest one a backup of host.yaml carries, zero without
  backups: each name written by a push parses back to the version it was written with.
\<close>

theorem recovered_version:
  assumes "names = map (\<lambda>v. ''host.yaml.bak-'' @ show_nat (unat v)) versions @ others"
    and "\<forall>n\<in>set others. strip_prefix n ''host.yaml.bak-'' = None"
  shows "(\<forall>v\<in>set versions. v \<le> recover_config_version (Some names))
    \<and> recover_config_version (Some names) \<in> insert 0 (set versions)"
proof -
  let ?f = "\<lambda>n. Option.bind (strip_prefix n ''host.yaml.bak-'') parse_u64"
  have f: "?f (''host.yaml.bak-'' @ show_nat (unat v)) = Some v" for v
  proof -
    have "strip_prefix (''host.yaml.bak-'' @ show_nat (unat v)) ''host.yaml.bak-'' = Some (show_nat (unat v))"
      unfolding strip_prefix_Some by (rule refl)
    then show ?thesis by (simp only: Option.bind.bind_lunit parse_show_u64)
  qed
  have "List.map_filter ?f (map (\<lambda>v. ''host.yaml.bak-'' @ show_nat (unat v)) versions) = versions"
    by (induction versions) (simp_all only: list.map List.map_filter_simps f option.case)
  moreover have "List.map_filter ?f others = []"
    using assms(2) by (induction others) (simp_all add: List.map_filter_simps)
  moreover have "List.map_filter ?f (xs @ ys) = List.map_filter ?f xs @ List.map_filter ?f ys" for xs ys
    by (simp add: List.map_filter_def)
  ultimately have "List.map_filter ?f names = versions" unfolding assms(1) by simp
  then have "recover_config_version (Some names) = foldr max versions 0" by (simp add: recover_config_version_def)
  then show ?thesis using foldr_max_ge foldr_max_in by metis
qed

theorem recovered_version_witness:
  "recover_config_version (Some [''host.yaml.bak-3'', ''host.yaml.bak-12'', ''host.yaml'']) \<in> {0, 3, 12}"
proof -
  have "[''host.yaml.bak-3'', ''host.yaml.bak-12'', ''host.yaml'']
      = map (\<lambda>v :: u64. ''host.yaml.bak-'' @ show_nat (unat v)) [3, 12] @ [''host.yaml'']" by code_simp
  moreover have "\<forall>n\<in>set [''host.yaml'']. strip_prefix n ''host.yaml.bak-'' = None"
    by (simp add: strip_prefix_def starts_with_def)
  ultimately show ?thesis using conjunct2 [OF recovered_version [of _ "[3, 12]"]] by simp
qed

section \<open>A push that lands\<close>

lemma oxfile_tmp: "with_extension (oxfile_path dir) ''toml.tmp'' = run_path dir ''oxfile.toml.tmp''"
proof -
  have j: "run_path dir a = path_join dir ''run'' @ ''/'' @ a" if "\<not> path_absolute a" for a
    using that by (auto simp: run_path_def path_join_def)
  have "with_extension (path_join dir ''run'' @ CHR ''/'' # ''oxfile'' @ CHR ''.'' # ''toml'') ''toml.tmp''
      = path_join dir ''run'' @ CHR ''/'' # ''oxfile'' @ CHR ''.'' # ''toml.tmp''"
    by (rule with_extension_simple) simp_all
  then show ?thesis by (simp add: oxfile_path_def j)
qed

lemma oxfile_tmp_neq: "run_path dir ''oxfile.toml.tmp'' \<noteq> oxfile_path dir"
  by (simp add: oxfile_path_def run_path_inj)

lemma pushed_paths_neq:
  "host_yaml dir \<noteq> run_path dir ''oxfile.toml.tmp''" "backup_path dir v \<noteq> run_path dir ''oxfile.toml.tmp''"
  "backup_path dir v \<noteq> oxfile_path dir"
  unfolding host_yaml_def backup_path_def run_path_def oxfile_path_def by (rule etc_run_neq; simp)+

text \<open>The files after the bell has written its part.\<close>

definition pushed_files :: "string \<Rightarrow> string \<Rightarrow> u64 \<Rightarrow> string \<Rightarrow> string \<Rightarrow> (string \<rightharpoonup> string) \<Rightarrow> (string \<rightharpoonup> string)" where
  "pushed_files dir config version old R fs =
     fs(backup_path dir version \<mapsto> old, path_join (path_join dir ''etc'') ''host.toml.tmp'' := None, host_yaml dir \<mapsto> config,
        run_path dir ''oxfile.toml.tmp'' := None, oxfile_path dir \<mapsto> R)"

lemma hw_write_oxfile:
  assumes "ready S dir cfg hc R fs'" and "\<And>rel. cfg_hmac_key_file hc = Some rel \<Longrightarrow> fs (path_join dir rel) \<noteq> None"
  shows "runs_to (hw reg fs X) (write_oxfile S cfg dir)
    (\<lambda>_. hw reg (fs(run_path dir ''oxfile.toml.tmp'' := None, oxfile_path dir \<mapsto> R)) X)"
proof -
  let ?fs = "fs(run_path dir ''oxfile.toml.tmp'' := None, oxfile_path dir \<mapsto> R)"
  have val: "validate (hs_env S) (hs_yaml S) cfg = Inr ()" and ox: "to_oxfile_in_dir (hs_env S) (hs_yaml S) cfg dir = Inr (Some R)"
    and key: "control_hmac_key_file (hs_yaml S) cfg = Inr (cfg_hmac_key_file hc)"
    using assms(1) by (auto simp: ready_def control_hmac_key_file_def parse_config_def)
  have lift: "runs_to (hw reg fs X) (lift_res (Inr v)) (\<lambda>r w. hw reg fs X w \<and> r = v)" for v
    by (simp add: lift_res_def total_ret)
  have ok: "runs_to (hw reg fs X) (case cfg_hmac_key_file hc of None \<Rightarrow> ret True | Some rel \<Rightarrow> path_exists (path_join dir rel))
      (\<lambda>r w. hw reg fs X w \<and> r = True)"
  proof (cases "cfg_hmac_key_file hc")
    case (Some rel)
    with assms(2) hw_exists [of reg fs X "path_join dir rel"] show ?thesis by auto
  qed (simp add: total_ret)
  have rend: "runs_to (hw reg fs X) (render S dir cfg) (\<lambda>r w. hw reg fs X w \<and> r = R)"
    by (simp add: render_def ox total_ret)
  have wr: "runs_to (hw reg fs X) (atomic_write (oxfile_path dir) R) (\<lambda>_. hw reg ?fs X)"
    using hw_atomic_write [of "oxfile_path dir" reg fs X R] by (simp add: oxfile_tmp oxfile_tmp_neq)
  show ?thesis
    unfolding write_oxfile_def val key
    by (rule total_bind_eq [OF lift], rule total_bind_eq [OF lift], rule total_bind_eq [OF ok], simp,
        rule total_bind_eq [OF rend], rule total_bind [OF total_map_err [OF hw_mkdir]], rule total_bind [OF wr], rule total_ret)
qed

lemma hw_handle_push:
  assumes "current < version" and "fs (host_yaml dir) = Some old" and rd: "ready S dir config hc R (pushed_files dir config version old R fs)"
  shows "runs_to (hw reg fs X) (handle_config_push S dir current (ConfigPush room target config version actor))
    (\<lambda>r w. hw reg (pushed_files dir config version old R fs) X w \<and> r = version)"
proof -
  let ?tmp = "path_join (path_join dir ''etc'') ''host.toml.tmp''"
  let ?fs1 = "fs(backup_path dir version \<mapsto> old)" and ?fs2 = "fs(backup_path dir version \<mapsto> old, ?tmp := None, host_yaml dir \<mapsto> config)"
  have val: "validate (hs_env S) (hs_yaml S) config = Inr ()" using rd by (simp add: ready_def)
  have lift: "runs_to (hw reg fs X) (lift_res (Inr ())) (\<lambda>r w. hw reg fs X w \<and> r = ())"
    by (simp add: lift_res_def total_ret)
  have yaml: "runs_to (hw reg ?fs1 X) (atomic_write (host_yaml dir) config) (\<lambda>_. hw reg ?fs2 X)"
    using hw_atomic_write [of "host_yaml dir" reg ?fs1 X config] by (simp add: host_tmp host_tmp_neq)
  have "?fs2 (path_join dir rel) \<noteq> None" if "cfg_hmac_key_file hc = Some rel" for rel
  proof -
    have "pushed_files dir config version old R fs (path_join dir rel) \<noteq> None" "path_join dir rel \<notin> core_files dir"
      using rd that by (auto simp: ready_def)
    then show ?thesis by (auto simp: pushed_files_def split: if_splits)
  qed
  from hw_write_oxfile [where fs = ?fs2, OF rd this]
  have ox: "runs_to (hw reg ?fs2 X) (write_oxfile S config dir) (\<lambda>_. hw reg (pushed_files dir config version old R fs) X)"
    by (simp add: pushed_files_def)
  have "runs_to (hw reg fs X) (apply_config_push S dir config version) (\<lambda>_. hw reg (pushed_files dir config version old R fs) X)"
    unfolding apply_config_push_def val
    by (rule total_bind_eq [OF lift], rule total_bind [OF hw_backup [where fs = fs, OF assms(2)]], rule total_bind [OF yaml], rule total_bind [OF ox], rule total_ret)
  then have "runs_to (hw reg fs X) (bind_c (apply_config_push S dir config version) (\<lambda>_. ret version))
      (\<lambda>r w. hw reg (pushed_files dir config version old R fs) X w \<and> r = version)"
    by (rule total_bind) (simp add: total_ret)
  moreover have "\<not> version \<le> current" using assms(1) by simp
  ultimately show ?thesis by (simp add: handle_config_push_def)
qed

text \<open>The belief and the lamp a settled vehicle records.\<close>

definition believed :: "'d HostSys \<Rightarrow> string \<Rightarrow> ('d \<Rightarrow> string list) \<Rightarrow> string \<Rightarrow> HostConfig \<Rightarrow> 'd World \<Rightarrow> bool" where
  "believed S dir reg hash hc w \<longleftrightarrow>
     set (cfg_expected (hs_env S) hc) \<subseteq> set (reg (wo_sys w)) \<and> running_matches (ledger_at S dir (wo_files w)) hash
     \<and> (\<exists>p. le_last_push (ledger_at S dir (wo_files w)) = Some p \<and> lp_hash p = hash)
     \<and> \<not> fl_conflict (le_flags (ledger_at S dir (wo_files w)))"

lemma record_push_believed:
  assumes codec: "ledger_codec S" and ob: "obedient S dir reg" and s: "settled S dir reg (file_hash S cfg) hc w"
    and yaml: "wo_files w (host_yaml dir) = Some cfg"
  shows "\<exists>w'. record_push S dir actor w = (Done (), w') \<and> believed S dir reg (file_hash S cfg) hc w'"
proof -
  let ?fs = "(wo_files w)(lock_path dir \<mapsto> [])" and ?X = "reg (wo_sys w)" and ?H = "file_hash S cfg"
  let ?led = "ledger_at S dir ?fs"
  have w: "hw reg (wo_files w) ?X w" using s by (simp add: hw_def settled_def)
  have led: "?led = ledger_at S dir (wo_files w)" by (simp add: ledger_at_def)
  have exp: "set (cfg_expected (hs_env S) hc) \<subseteq> set ?X" using s by (simp add: settled_def)
  have unlock: "reg (hs_unlock S d) = reg d" for d using ob unfolding obedient_def by blast
  obtain r where run: "le_running ?led = Some r" "ru_hash r = ?H"
    using s unfolding settled_def led running_matches_def by (auto split: option.splits)
  have yaml': "?fs (host_yaml dir) = Some cfg" using yaml by simp
  define l where "l = (\<lambda>t. ?led\<lparr>le_last_push := Some \<lparr>lp_hash = ?H, lp_actor = actor, lp_at = t\<rparr>,
    le_flags := (le_flags ?led)\<lparr>fl_conflict := (case le_running ?led of Some r \<Rightarrow> ru_hash r \<noteq> ?H | None \<Rightarrow> False)\<rparr>\<rparr>)"
  have save: "runs_to (hw reg ?fs ?X) (ledger_save S dir (l t)) (\<lambda>_. believed S dir reg ?H hc)" for t
    by (rule total_conseq [OF hw_save [where reg = reg and fs = ?fs and X = ?X]])
       (auto simp: hw_def believed_def codec running_matches_def l_def run dest: subsetD [OF exp])
  have "runs_to (hw reg ?fs ?X) (bind_c (map_err f (read_file (host_yaml dir))) (\<lambda>bytes.
      bind_c (ledger_load S dir) (\<lambda>led. bind_c (stamp S) (\<lambda>t.
      ledger_save S dir (led\<lparr>le_last_push := Some \<lparr>lp_hash = file_hash S bytes, lp_actor = actor, lp_at = t\<rparr>,
        le_flags := (le_flags led)\<lparr>fl_conflict := (case le_running led of Some r \<Rightarrow> ru_hash r \<noteq> file_hash S bytes | None \<Rightarrow> False)\<rparr>\<rparr>)))))
      (\<lambda>_. believed S dir reg ?H hc)" for f
    by (rule total_bind_eq [OF total_map_err [OF hw_read [where fs = ?fs, OF yaml']]], rule total_bind_eq [OF hw_load],
        rule total_bind [OF hw_stamp]) (rule save [unfolded l_def])
  then have "runs_to (hw reg (wo_files w) ?X) (record_push S dir actor) (\<lambda>_. believed S dir reg ?H hc)"
    unfolding record_push_def with_lock_def Let_def
    by (intro total_bind [OF hw_lock [OF ob]] total_releasing) (simp_all add: believed_def unlock)
  then show ?thesis using w unfolding runs_to_def by fastforce
qed

lemma push_completes:
  assumes "ledger_codec S" and "obedient S dir reg" and "current < version" and "wo_fates w = []"
    and "wo_files w (host_yaml dir) = Some old"
    and "ready S dir config hc R (pushed_files dir config version old R (wo_files w))"
  shows "\<exists>w'. config_applier S dir current (ConfigPush room target config version actor) w = (Done version, w')
    \<and> wo_files w' (host_yaml dir) = Some config \<and> wo_files w' (backup_path dir version) = Some old
    \<and> believed S dir reg (file_hash S config) hc w'"
proof -
  let ?fs = "pushed_files dir config version old R (wo_files w)" and ?H = "file_hash S config"
  let ?o = "\<lparr>op_origin = ''push'', op_actor = None\<rparr>"
  have "hw reg (wo_files w) (reg (wo_sys w)) w" using assms(4) by (simp add: hw_def)
  then obtain w1 where h: "handle_config_push S dir current (ConfigPush room target config version actor) w = (Done version, w1)"
    and w1: "hw reg ?fs (reg (wo_sys w)) w1"
    using hw_handle_push [where fs = "wo_files w", OF assms(3,5,6)] unfolding runs_to_def by blast
  obtain r w2 where x: "execute S dir AgentRun False ?o w1 = (Done r, w2)" and r: "r \<in> {Applied ?H, NoOp ?H}"
    and s: "settled S dir reg ?H hc w2"
    using hw_execute [OF assms(1,2,6), of "reg (wo_sys w)" AgentRun False ?o] w1 unfolding runs_to_def by blast
  have keep: "wo_files w2 p = ?fs p" if "p \<notin> core_files dir" for p
    using touches_execute [of dir S AgentRun False ?o] that w1 x by (auto simp: touches_def hw_def dest!: spec [of _ w1] spec [of _ p])
  have etc: "backup_path dir version \<notin> core_files dir"
    unfolding backup_path_def core_files_def lock_path_def staging_path_def ledger_tmp_def ledger_path_def oxfile_path_def run_path_def
    using etc_run_neq by simp
  have bak: "wo_files w2 (backup_path dir version) = Some old" and yaml: "wo_files w2 (host_yaml dir) = Some config"
    using keep [OF etc] keep [of "host_yaml dir"] pushed_paths_neq [of dir] backup_neq [of dir version]
    by (simp_all add: pushed_files_def)
  obtain w3 where p: "record_push S dir None w2 = (Done (), w3)" and b: "believed S dir reg ?H hc w3"
    using record_push_believed [OF assms(1,2) s yaml] by blast
  have "touches (core_files dir) (record_push S dir None)"
    unfolding record_push_def with_lock_def Let_def by (auto intro!: touch_rules)
  then have "wo_files w3 q = wo_files w2 q" if "q \<notin> core_files dir" for q
    using that p by (auto simp: touches_def dest!: spec [of _ w2] spec [of _ q])
  then have "wo_files w3 (host_yaml dir) = Some config" "wo_files w3 (backup_path dir version) = Some old"
    using yaml bak etc by simp_all
  moreover have "config_applier S dir current (ConfigPush room target config version actor) w = (Done version, w3)"
    using r p by (auto simp: config_applier_def h x bind_c_def attempt_def ret_def)
  ultimately show ?thesis using b by blast
qed


lemma boot_pushed_ready: "ready boot_sys ''/o'' ''demo'' boot_config boot_oxfile (pushed_files ''/o'' ''demo'' 5 ''demo'' boot_oxfile boot_files)"
proof -
  let ?fs = "pushed_files ''/o'' ''demo'' 5 ''demo'' boot_oxfile boot_files" and ?t = "''/o/etc/link/agent.token''"
  have token: "?t \<notin> {backup_path ''/o'' 5, path_join (path_join ''/o'' ''etc'') ''host.toml.tmp'', host_yaml ''/o'',
      run_path ''/o'' ''oxfile.toml.tmp'', oxfile_path ''/o''}"
    by (simp add: backup_path_def host_yaml_def run_path_def oxfile_path_def path_join_def)
  have "?fs ?t = boot_files ?t" using token unfolding pushed_files_def by simp
  moreover have "?fs (host_yaml ''/o'') = Some ''demo''" using pushed_paths_neq(1) by (simp add: pushed_files_def)
  moreover have "cfg_hmac_key_file boot_config = None" by (simp add: cfg_hmac_key_file_def boot_config_def)
  ultimately show ?thesis using boot_ready unfolding ready_def by (simp add: boot_tokens)
qed

definition boot_world :: "string list World" where
  "boot_world = \<lparr>wo_files = boot_files, wo_sys = [''host-agent''], wo_fates = [], wo_cmds = []\<rparr>"

lemma boot_world_ready:
  "ledger_codec boot_sys" "(4 :: u64) < 5" "wo_fates boot_world = []" "wo_files boot_world (host_yaml ''/o'') = Some ''demo''"
  "ready boot_sys ''/o'' ''demo'' boot_config boot_oxfile (pushed_files ''/o'' ''demo'' 5 ''demo'' boot_oxfile (wo_files boot_world))"
proof -
  show "ledger_codec boot_sys" using demo_codec by (simp add: ledger_codec_def boot_sys_def)
  show "ready boot_sys ''/o'' ''demo'' boot_config boot_oxfile (pushed_files ''/o'' ''demo'' 5 ''demo'' boot_oxfile (wo_files boot_world))"
    using boot_pushed_ready by (simp add: boot_world_def)
  have "host_yaml ''/o'' \<noteq> ''/o/etc/link/agent.token''" by (simp add: host_yaml_def path_join_def)
  then show "wo_files boot_world (host_yaml ''/o'') = Some ''demo''" by (simp add: boot_files_def boot_world_def)
qed (simp_all add: boot_world_def)



section \<open>The teardown order\<close>

text \<open>
  The teardown loop stops every app of the live registry, whatever roster it came from, and only those:
  consumers before capturers before the rest, an agent last, in the registry's order within a class; an
  agent that runs the core itself is never among them.
\<close>

theorem teardown_order:
  "mset (teardown_targets S topo live) = filter_mset (\<lambda>n. \<not> (topo = AgentRun \<and> n = app_name (hs_env S) ''agent'')) (mset live)
   \<and> sorted (map teardown_rank (teardown_targets S topo live))
   \<and> filter (\<lambda>n. teardown_rank n = k) (teardown_targets S topo live)
       = filter (\<lambda>n. teardown_rank n = k \<and> \<not> (topo = AgentRun \<and> n = app_name (hs_env S) ''agent'')) live
   \<and> app_name (hs_env S) ''agent'' \<notin> set (teardown_targets S AgentRun live)
   \<and> (app_name (hs_env S) ''agent'' \<in> set live \<longrightarrow> teardown_rank (last (teardown_targets S CliRun live)) = 3)"
proof (intro conjI impI)
  let ?P = "\<lambda>n. \<not> (topo = AgentRun \<and> n = app_name (hs_env S) ''agent'')"
  show "mset (teardown_targets S topo live) = filter_mset ?P (mset live)"
    by (simp add: teardown_targets_def order_teardown_def)
  show "sorted (map teardown_rank (teardown_targets S topo live))"
    by (simp add: teardown_targets_def order_teardown_def)
  show "filter (\<lambda>n. teardown_rank n = k) (teardown_targets S topo live) = filter (\<lambda>n. teardown_rank n = k \<and> ?P n) live"
    unfolding teardown_targets_def order_teardown_def using sort_key_stable [of teardown_rank k "filter ?P live"]
    by (simp add: conj_commute eq_commute [of k])
  show "app_name (hs_env S) ''agent'' \<notin> set (teardown_targets S AgentRun live)"
    by (simp add: teardown_targets_def order_teardown_def)
next
  let ?a = "app_name (hs_env S) ''agent''" and ?ts = "teardown_targets S CliRun live"
  assume "?a \<in> set live"
  then have a: "?a \<in> set ?ts" by (simp add: teardown_targets_def order_teardown_def)
  have "ends_with ?a ''agent''" by (simp add: ends_with_def app_name_def suffix_def)
  then have "teardown_rank ?a = 3" by (simp add: teardown_rank_def)
  moreover have "sorted (map teardown_rank ?ts)" by (simp add: teardown_targets_def order_teardown_def)
  then have "teardown_rank ?a \<le> teardown_rank (last ?ts)"
    using a by (cases ?ts rule: rev_cases) (auto simp: sorted_append)
  moreover have "teardown_rank n \<le> 3" for n by (simp add: teardown_rank_def)
  ultimately show "teardown_rank (last ?ts) = 3" by (metis le_antisym)
qed

theorem teardown_order_witness:
  "teardown_rank (last (teardown_targets demo_sys CliRun [''host-agent'', ''host-audio''])) = 3"
proof -
  have "app_name (hs_env demo_sys) ''agent'' \<in> set [''host-agent'', ''host-audio'']"
    by (simp add: demo_sys_def app_name_def demo_host_env_def media_brand_def env_product_def media_brand_from_def default_brand_def)
  then show ?thesis using teardown_order [where S = demo_sys and topo = CliRun and live = "[''host-agent'', ''host-audio'']" and k = 0] by blast
qed

end
