(* ===== verification/LinkClient.thy ===== *)
theory LinkClient
  imports Complex_Main Admission Controller FrameBus
begin

text \<open>
  The signaling client of the vehicle's processes and of the client library,
  \<open>mediaservo-link/src/signal.rs\<close>: the credentials it joins with, \<open>connect\<close> with its signature chain, the
  retries with backoff, and the background task of a session with its two queues. Every point where
  \<open>connect\<close> waits is a state of its own and every answer a step. \<open>ClientServer\<close> runs it against the
  server's handshake (\<open>Handshake\<close>, \<open>Admission\<close>).
\<close>

section \<open>Credentials\<close>

record DeviceCredential =
  cr_device_id :: string
  cr_device_secret :: string

record DeviceIdentity =
  di_device_id :: string
  di_signing :: "u8 list"
  di_pubkey_b64 :: string

record LocalEnvelope =
  lv_src :: string
  lv_msg :: signaling_message

text \<open>
  The crates the client calls: JSON of messages and envelopes, base64, Ed25519, the \<open>Debug\<close> text of a
  message.
\<close>

record link_env =
  lk_parse :: "string \<Rightarrow> string + signaling_message"
  lk_print :: "signaling_message \<Rightarrow> string + string"
  lk_parse_env :: "string \<Rightarrow> string + LocalEnvelope"
  lk_print_env :: "LocalEnvelope \<Rightarrow> string + string"
  lk_b64_encode :: "u8 list \<Rightarrow> string"
  lk_b64_decode :: "string \<Rightarrow> string + u8 list"
  lk_public :: "u8 list \<Rightarrow> u8 list"
  lk_sign :: "u8 list \<Rightarrow> u8 list \<Rightarrow> u8 list"
  lk_debug :: "signaling_message \<Rightarrow> string"

definition identity_new :: "link_env \<Rightarrow> string \<Rightarrow> u8 list \<Rightarrow> DeviceIdentity" where
  "identity_new E device_id signing =
     \<lparr>di_device_id = device_id, di_signing = signing, di_pubkey_b64 = lk_b64_encode E (lk_public E signing)\<rparr>"

definition sign_device_auth :: "link_env \<Rightarrow> DeviceIdentity \<Rightarrow> u8 list \<Rightarrow> string \<Rightarrow> string" where
  "sign_device_auth E i nonce_raw room_id =
     lk_b64_encode E (lk_sign E (di_signing i) (nonce_raw @ bytes_of (di_device_id i) @ bytes_of room_id))"

text \<open>Reading a file: its bytes, that there is none, or another error.\<close>

datatype file_result = FileBytes string | FileMissing | FileError string

definition missing_text :: string where
  "missing_text = ''No such file or directory (os error 2)''"

text \<open>The parsers of \<open>identity.json\<close> and of the PKCS#8 key are arguments.\<close>

definition load_from_instance_dir ::
  "link_env \<Rightarrow> (string \<Rightarrow> string + string) \<Rightarrow> (string \<Rightarrow> string + u8 list) \<Rightarrow> (string \<Rightarrow> file_result) \<Rightarrow> string
     \<Rightarrow> string + DeviceIdentity option" where
  "load_from_instance_dir E parse_id parse_pem read dir =
     (let id_path = dir @ ''/identity.json'';
          pem_path = dir @ ''/etc/link/signing.pem''
      in case read id_path of
           FileMissing \<Rightarrow> Inr None
         | FileError e \<Rightarrow> Inl (''read failed '' @ id_path @ '': '' @ e)
         | FileBytes raw \<Rightarrow>
             (case parse_id raw of
                Inl e \<Rightarrow> Inl (''parse failed '' @ id_path @ '': '' @ e)
              | Inr device_id \<Rightarrow>
                  (case read pem_path of
                     FileMissing \<Rightarrow> Inl (''read failed '' @ pem_path @ '': '' @ missing_text)
                   | FileError e \<Rightarrow> Inl (''read failed '' @ pem_path @ '': '' @ e)
                   | FileBytes pem \<Rightarrow>
                       (case parse_pem pem of
                          Inl e \<Rightarrow> Inl (''parse failed '' @ pem_path @ '' (Ed25519 PKCS#8 PEM): '' @ e)
                        | Inr signing \<Rightarrow> Inr (Some (identity_new E device_id signing))))))"

section \<open>The client\<close>

record SignalClient =
  sg_url :: string
  sg_psk :: string
  sg_room_id :: string
  sg_role :: peer_role
  sg_gateway_src :: "string option"
  sg_device :: "DeviceCredential option"
  sg_identity :: "DeviceIdentity option"
  sg_jwt :: "string option"
  sg_resume_ticket :: "string option"

definition trim_slashes :: "string \<Rightarrow> string" where
  "trim_slashes s = rev (dropWhile (\<lambda>ch. ch = CHR ''/'') (rev s))"

definition client_new :: "string \<Rightarrow> string \<Rightarrow> string \<Rightarrow> peer_role \<Rightarrow> SignalClient" where
  "client_new url psk room_id role =
     \<lparr>sg_url = trim_slashes url, sg_psk = psk, sg_room_id = room_id, sg_role = role, sg_gateway_src = None,
      sg_device = None, sg_identity = None, sg_jwt = None, sg_resume_ticket = None\<rparr>"

definition client_new_gateway :: "string \<Rightarrow> string \<Rightarrow> string \<Rightarrow> peer_role \<Rightarrow> SignalClient" where
  "client_new_gateway url src room_id role =
     \<lparr>sg_url = trim_slashes url, sg_psk = [], sg_room_id = room_id, sg_role = role, sg_gateway_src = Some src,
      sg_device = None, sg_identity = None, sg_jwt = None, sg_resume_ticket = None\<rparr>"

definition with_device_credentials :: "DeviceCredential \<Rightarrow> SignalClient \<Rightarrow> SignalClient" where
  "with_device_credentials d cl = cl\<lparr>sg_device := Some d\<rparr>"

definition with_device_identity :: "DeviceIdentity \<Rightarrow> SignalClient \<Rightarrow> SignalClient" where
  "with_device_identity i cl = cl\<lparr>sg_identity := Some i\<rparr>"

definition with_jwt :: "string \<Rightarrow> SignalClient \<Rightarrow> SignalClient" where
  "with_jwt token cl = cl\<lparr>sg_jwt := Some token\<rparr>"

definition set_resume_ticket :: "string option \<Rightarrow> SignalClient \<Rightarrow> SignalClient" where
  "set_resume_ticket nonce cl = cl\<lparr>sg_resume_ticket := nonce\<rparr>"

definition take_resume_ticket :: "SignalClient \<Rightarrow> string option \<times> SignalClient" where
  "take_resume_ticket cl = (sg_resume_ticket cl, cl\<lparr>sg_resume_ticket := None\<rparr>)"

section \<open>Connecting\<close>

record link_session =
  ls_room_id :: string
  ls_peer_id :: string
  ls_negotiated :: u32
  ls_session_nonce :: "string option"

text \<open>Where \<open>connect\<close> waits: for the authentication, the answer to the join, the answer to a signature.\<close>

datatype client_phase =
    ClAuth
  | ClJoin
  | ClSigned
  | ClSession link_session
  | ClFailed link_error

datatype client_read = Frame ws_frame | ReadError string | StreamEnded | Elapsed

datatype open_error = BadRequest string | BadHeader string | NoHost | ConnectError string

fun open_error_text :: "SignalClient \<Rightarrow> open_error \<Rightarrow> string" where
  "open_error_text cl (BadRequest e) = ''jwt handshake request: '' @ e"
| "open_error_text cl (BadHeader e) = ''jwt header value: '' @ e"
| "open_error_text cl NoHost = ''no host in url '' @ sg_url cl"
| "open_error_text cl (ConnectError e) = ''connect '' @ sg_url cl @ '': '' @ e"

text \<open>A step: the client, the texts it wrote, where it waits now. A write may fail with an error.\<close>

type_synonym client_step = "SignalClient \<times> string list \<times> client_phase"

definition signal_fail :: "SignalClient \<Rightarrow> string \<Rightarrow> client_step" where
  "signal_fail cl m = (cl, [], ClFailed (Signal m))"

definition write_text :: "SignalClient \<Rightarrow> string \<Rightarrow> string option \<Rightarrow> string \<Rightarrow> client_phase \<Rightarrow> client_step" where
  "write_text cl what err t ph =
     (case err of
        None \<Rightarrow> (cl, [t], ph)
      | Some e \<Rightarrow> signal_fail cl (''send '' @ what @ '': '' @ e))"

definition room_join_of :: "SignalClient \<Rightarrow> string option \<Rightarrow> room_join" where
  "room_join_of cl resume =
     \<lparr>rj_room_id = sg_room_id cl, rj_peer_role = sg_role cl, rj_stream_id = None,
      rj_device_id = (case sg_identity cl of
                        Some i \<Rightarrow> Some (di_device_id i)
                      | None \<Rightarrow> map_option cr_device_id (sg_device cl)),
      rj_device_secret = map_option cr_device_secret (sg_device cl),
      rj_device_pubkey = map_option di_pubkey_b64 (sg_identity cl),
      rj_protocol = Some SIGNALING_PROTOCOL_VERSION, rj_client_version = None, rj_resume = resume\<rparr>"

definition wrap_text :: "link_env \<Rightarrow> SignalClient \<Rightarrow> signaling_message \<Rightarrow> string + string" where
  "wrap_text E cl m =
     (case sg_gateway_src cl of
        Some src \<Rightarrow> lk_print_env E \<lparr>lv_src = src, lv_msg = m\<rparr>
      | None \<Rightarrow> lk_print E m)"

definition send_join :: "link_env \<Rightarrow> SignalClient \<Rightarrow> string option \<Rightarrow> client_step" where
  "send_join E cl err =
     (case take_resume_ticket cl of
        (resume, cl1) \<Rightarrow>
          (case wrap_text E cl (RoomJoin (room_join_of cl resume)) of
             Inl e \<Rightarrow> signal_fail cl1 (''serialize RoomJoin'' @ (if sg_gateway_src cl = None then [] else '' envelope'') @ '': '' @ e)
           | Inr t \<Rightarrow> write_text cl1 ''RoomJoin'' err t ClJoin))"

text \<open>After the socket is open.\<close>

definition client_hello :: "link_env \<Rightarrow> SignalClient \<Rightarrow> string option \<Rightarrow> client_step" where
  "client_hello E cl err =
     (if sg_gateway_src cl = None \<and> sg_jwt cl = None then write_text cl ''auth'' err (sg_psk cl) ClAuth
      else if sg_gateway_src cl = None then (cl, [], ClAuth)
      else send_join E cl err)"

definition client_open :: "link_env \<Rightarrow> SignalClient \<Rightarrow> open_error + unit \<Rightarrow> string option \<Rightarrow> client_step" where
  "client_open E cl opened err =
     (case opened of
        Inl e \<Rightarrow> signal_fail cl (open_error_text cl e)
      | Inr _ \<Rightarrow> client_hello E cl err)"

definition auth_read :: "link_env \<Rightarrow> SignalClient \<Rightarrow> client_read \<Rightarrow> string option \<Rightarrow> client_step" where
  "auth_read E cl r err =
     (case r of
        StreamEnded \<Rightarrow> signal_fail cl ''connection closed during auth''
      | ReadError e \<Rightarrow> signal_fail cl (''auth read: '' @ e)
      | Frame (TextFrame t) \<Rightarrow>
          (case lk_parse E t of
             Inl e \<Rightarrow> signal_fail cl (''parse auth response: '' @ e)
           | Inr (Error code message) \<Rightarrow>
               if code = 0 then send_join E cl err
               else signal_fail cl (''auth denied ['' @ show_nat (unat code) @ '']: '' @ message)
           | Inr other \<Rightarrow>
               signal_fail cl (''unexpected auth message'' @ (if sg_jwt cl = None then [] else '': '' @ lk_debug E other)))
      | Frame CloseFrame \<Rightarrow> signal_fail cl ''closed during auth''
      | Frame _ \<Rightarrow> signal_fail cl ''unexpected auth response''
      | Elapsed \<Rightarrow> (cl, [], ClAuth))"

text \<open>The deadline is the caller's: \<open>Elapsed\<close> does not get here.\<close>

definition read_join_response :: "link_env \<Rightarrow> bool \<Rightarrow> client_read \<Rightarrow> string + signaling_message" where
  "read_join_response E unwrap r =
     (case r of
        StreamEnded \<Rightarrow> Inl ''connection closed during room join''
      | ReadError e \<Rightarrow> Inl (''RoomJoin read: '' @ e)
      | Frame (TextFrame t) \<Rightarrow>
          if unwrap
          then (case lk_parse_env E t of Inl e \<Rightarrow> Inl (''parse envelope response: '' @ e) | Inr v \<Rightarrow> Inr (lv_msg v))
          else (case lk_parse E t of Inl e \<Rightarrow> Inl (''parse RoomJoined: '' @ e) | Inr m \<Rightarrow> Inr m)
      | Frame CloseFrame \<Rightarrow> Inl ''closed during room join''
      | Frame _ \<Rightarrow> Inl ''unexpected RoomJoined response''
      | Elapsed \<Rightarrow> Inl [])"

text \<open>The end of \<open>connect\<close>.\<close>

definition conclude :: "SignalClient \<Rightarrow> signaling_message \<Rightarrow> client_step" where
  "conclude cl m =
     (case m of
        RoomJoined j \<Rightarrow>
          (cl, [], ClSession \<lparr>ls_room_id = rd_room_id j, ls_peer_id = rd_peer_id j,
                              ls_negotiated = negotiate_protocol (rd_protocol j), ls_session_nonce = rd_session_nonce j\<rparr>)
      | Error code message \<Rightarrow> signal_fail cl (''room join failed ['' @ show_nat (unat code) @ '']: '' @ message)
      | _ \<Rightarrow> signal_fail cl ''unexpected response to RoomJoin'')"

text \<open>One turn of the loop of \<open>run_device_auth\<close>, up to its next read.\<close>

definition run_device_auth :: "link_env \<Rightarrow> SignalClient \<Rightarrow> DeviceIdentity \<Rightarrow> signaling_message \<Rightarrow> string option \<Rightarrow> client_step" where
  "run_device_auth E cl i m err =
     (case m of
        DeviceAuthChallenge nonce \<Rightarrow>
          (case lk_b64_decode E nonce of
             Inl e \<Rightarrow> signal_fail cl (''challenge nonce base64: '' @ e)
           | Inr nonce_raw \<Rightarrow>
               if length nonce_raw \<noteq> 32
               then signal_fail cl (''challenge nonce must be 32 bytes, got '' @ show_nat (length nonce_raw))
               else (case wrap_text E cl (DeviceAuthResponse (sg_room_id cl) (sign_device_auth E i nonce_raw (sg_room_id cl))) of
                       Inl e \<Rightarrow> signal_fail cl (''serialize DeviceAuthResponse: '' @ e)
                     | Inr t \<Rightarrow> write_text cl ''DeviceAuthResponse'' err t ClSigned))
      | DeviceAuthPending device_id \<Rightarrow> (cl, [], ClFailed (EnrollPending device_id))
      | other \<Rightarrow> conclude cl other)"

definition join_read :: "link_env \<Rightarrow> SignalClient \<Rightarrow> client_read \<Rightarrow> string option \<Rightarrow> client_step" where
  "join_read E cl r err =
     (if r = Elapsed
      then (if sg_identity cl = None then (cl, [], ClJoin)
            else signal_fail cl ''device auth: no server response within 5s after RoomJoin'')
      else (case read_join_response E (sg_gateway_src cl \<noteq> None) r of
              Inl e \<Rightarrow> signal_fail cl e
            | Inr m \<Rightarrow>
                (case sg_identity cl of
                   Some i \<Rightarrow> run_device_auth E cl i m err
                 | None \<Rightarrow> conclude cl m)))"

definition signed_read :: "link_env \<Rightarrow> SignalClient \<Rightarrow> client_read \<Rightarrow> string option \<Rightarrow> client_step" where
  "signed_read E cl r err =
     (if r = Elapsed
      then signal_fail cl ''device auth: no server response within 5s after DeviceAuthResponse''
      else (case read_join_response E (sg_gateway_src cl \<noteq> None) r of
              Inl e \<Rightarrow> signal_fail cl e
            | Inr m \<Rightarrow>
                (case sg_identity cl of
                   Some i \<Rightarrow> run_device_auth E cl i m err
                 | None \<Rightarrow> signal_fail cl ''device auth without identity (internal)'')))"

definition client_event :: "link_env \<Rightarrow> client_read \<Rightarrow> string option \<Rightarrow> SignalClient \<Rightarrow> client_phase \<Rightarrow> client_step" where
  "client_event E r err cl ph =
     (case ph of
        ClAuth \<Rightarrow> auth_read E cl r err
      | ClJoin \<Rightarrow> join_read E cl r err
      | ClSigned \<Rightarrow> signed_read E cl r err
      | done' \<Rightarrow> (cl, [], done'))"

section \<open>Retries\<close>

text \<open>Durations are whole nanoseconds; arithmetic on them saturates at the largest one.\<close>

record RetryConfig =
  re_max_retries :: u32
  re_base_delay :: nat
  re_max_delay :: nat

definition DURATION_MAX :: nat where
  "DURATION_MAX = (2 ^ 64 - 1) * 10 ^ 9 + 999999999"

definition retry_default :: RetryConfig where
  "retry_default = \<lparr>re_max_retries = 3, re_base_delay = 100 * 10 ^ 6, re_max_delay = 30 * 10 ^ 9\<rparr>"

definition pow2_saturating :: "u32 \<Rightarrow> nat" where
  "pow2_saturating n = min (2 ^ unat n) (2 ^ 32 - 1)"

definition backoff_of :: "RetryConfig \<Rightarrow> u32 \<Rightarrow> nat" where
  "backoff_of cfg attempt = min (min (re_base_delay cfg * pow2_saturating attempt) DURATION_MAX) (re_max_delay cfg)"

text \<open>
  The clock's nanoseconds as a seed, \<open>None\<close> when the clock is before 1970. The floating-point product is
  taken over the reals; its rounding is not modelled.
\<close>

definition xorshift32 :: "u32 \<Rightarrow> u32" where
  "xorshift32 x =
     (let a = xor x (push_bit 13 x); b = xor a (drop_bit 17 a) in xor b (push_bit 5 b))"

definition jitter_of :: "nat option \<Rightarrow> real" where
  "jitter_of clock =
     (let seed = xorshift32 (case clock of Some ns \<Rightarrow> of_nat ns | None \<Rightarrow> 0x9e3779b9)
      in real (unat seed) / real (2 ^ 32 - 1) * 0.5 - 0.25)"

definition jittered :: "nat option \<Rightarrow> nat \<Rightarrow> real" where
  "jittered clock backoff = real backoff * (1 + jitter_of clock)"

lemma unat_lt2p_32: "unat (x :: u32) < 2 ^ 32"
  using unsigned_less [of x] by simp

lemma unat_Suc_less: "(a :: u32) < b \<Longrightarrow> unat (a + 1) = Suc (unat a)"
  by unat_arith

text \<open>
  The outcome of each attempt and the clock after it are given; the result, the number of attempts
  and the sleeps between them.
\<close>

function retry_from ::
  "RetryConfig \<Rightarrow> (nat \<Rightarrow> link_error + link_session) \<Rightarrow> (nat \<Rightarrow> nat option) \<Rightarrow> u32 \<Rightarrow> (link_error + link_session) \<times> nat \<times> real list" where
  "retry_from cfg conn_at clock attempt =
     (case conn_at (unat attempt) of
        Inr s \<Rightarrow> (Inr s, 1, [])
      | Inl e \<Rightarrow>
          if attempt < re_max_retries cfg
          then (case retry_from cfg conn_at clock (attempt + 1) of
                  (r, n, sleeps) \<Rightarrow> (r, Suc n, jittered (clock (unat attempt)) (backoff_of cfg attempt) # sleeps))
          else (case e of
                  EnrollPending d \<Rightarrow> (Inl e, 1, [])
                | _ \<Rightarrow> (Inl (Signal (''connect after '' @ show_nat (unat (re_max_retries cfg)) @ '' retries: '' @ link_error_display e)),
                        1, [])))"
  by pat_completeness auto
termination
proof (relation "measure (\<lambda>(cfg, c, k, attempt). unat (re_max_retries cfg) - unat attempt)")
  show "((cfg, c, k, attempt + 1), (cfg, c, k, attempt)) \<in> measure (\<lambda>(cfg, c, k, attempt). unat (re_max_retries cfg) - unat attempt)"
    if "attempt < re_max_retries cfg" for cfg c k attempt
    using that unat_Suc_less [OF that] by (simp add: word_less_nat_alt)
qed simp

declare retry_from.simps [simp del]

definition connect_with_retry ::
  "RetryConfig \<Rightarrow> (nat \<Rightarrow> link_error + link_session) \<Rightarrow> (nat \<Rightarrow> nat option) \<Rightarrow> (link_error + link_session) \<times> nat \<times> real list" where
  "connect_with_retry cfg conn_at clock = retry_from cfg conn_at clock 0"

section \<open>The session\<close>

text \<open>
  The queues of a session with their capacities, what its task has written and published, and the
  callback slot: whether one is registered and how often it ran.
\<close>

record task_state =
  tk_hi :: "signaling_message list"
  tk_lo :: "signaling_message list"
  tk_open :: bool
  tk_dropped :: u64
  tk_last_rx :: nat
  tk_slot :: bool
  tk_fired :: nat
  tk_events :: "signal_event list"
  tk_wire :: "ws_frame list"
  tk_sent :: "signaling_message list"
  tk_ended :: bool

definition HI_CAP :: nat where
  "HI_CAP = 64"

definition LO_CAP :: nat where
  "LO_CAP = 16"

definition HB_SILENCE :: nat where
  "HB_SILENCE = 15000"

definition new_task :: "nat \<Rightarrow> task_state" where
  "new_task now =
     \<lparr>tk_hi = [], tk_lo = [], tk_open = True, tk_dropped = 0, tk_last_rx = now, tk_slot = False, tk_fired = 0,
      tk_events = [], tk_wire = [], tk_sent = [], tk_ended = False\<rparr>"

fun is_low_priority :: "signaling_message \<Rightarrow> bool" where
  "is_low_priority (StatusReport r) = True"
| "is_low_priority _ = False"

definition on_disconnect :: "task_state \<Rightarrow> task_state" where
  "on_disconnect st = st\<lparr>tk_slot := True\<rparr>"

text \<open>\<open>None\<close>: the sender waits for room in the queue.\<close>

definition session_send :: "signaling_message \<Rightarrow> task_state \<Rightarrow> (task_state \<times> (link_error + unit)) option" where
  "session_send m st =
     (if is_low_priority m
      then (if tk_ended st \<or> length (tk_lo st) \<ge> LO_CAP
            then Some (st\<lparr>tk_dropped := tk_dropped st + 1\<rparr>, Inr ())
            else Some (st\<lparr>tk_lo := tk_lo st @ [m]\<rparr>, Inr ()))
      else if tk_ended st then Some (st, Inl (Signal ''session closed''))
      else if length (tk_hi st) \<ge> HI_CAP then None
      else Some (st\<lparr>tk_hi := tk_hi st @ [m]\<rparr>, Inr ()))"

definition session_close :: "task_state \<Rightarrow> task_state" where
  "session_close st = st\<lparr>tk_open := False\<rparr>"

definition fire_disconnect :: "task_state \<Rightarrow> task_state" where
  "fire_disconnect st = (if tk_slot st then st\<lparr>tk_slot := False, tk_fired := tk_fired st + 1\<rparr> else st)"

definition publish :: "signal_event \<Rightarrow> task_state \<Rightarrow> task_state" where
  "publish ev st = st\<lparr>tk_events := tk_events st @ [ev]\<rparr>"

definition break_loop :: "task_state \<Rightarrow> task_state" where
  "break_loop st = st\<lparr>tk_ended := True\<rparr>"

text \<open>The arm of the socket; a deadline never shows here.\<close>

definition task_read :: "link_env \<Rightarrow> string option \<Rightarrow> nat \<Rightarrow> client_read \<Rightarrow> task_state \<Rightarrow> task_state" where
  "task_read E gateway_src now r st0 =
     (let st = st0\<lparr>tk_last_rx := now\<rparr>
      in case r of
           Frame (TextFrame t) \<Rightarrow>
             (case gateway_src of
                Some _ \<Rightarrow> (case lk_parse_env E t of
                              Inr v \<Rightarrow> publish (EvMessage (lv_msg v)) st
                            | Inl e \<Rightarrow> publish (EvError (''parse envelope: '' @ e)) st)
              | None \<Rightarrow> (case lk_parse E t of
                            Inr m \<Rightarrow> publish (EvMessage m) st
                          | Inl e \<Rightarrow> publish (EvError (''parse message: '' @ e)) st))
         | Frame CloseFrame \<Rightarrow> break_loop (fire_disconnect (publish (EvDisconnected ''connection closed'') st))
         | StreamEnded \<Rightarrow> break_loop (fire_disconnect (publish (EvDisconnected ''connection closed'') st))
         | ReadError e \<Rightarrow>
             break_loop (fire_disconnect (publish (EvDisconnected (''ws read error: '' @ e)) (publish (EvError e) st)))
         | _ \<Rightarrow> st)"

text \<open>Writing a message taken from a queue; the flag says whether the write succeeds.\<close>

definition task_write :: "link_env \<Rightarrow> string option \<Rightarrow> bool \<Rightarrow> signaling_message \<Rightarrow> task_state \<Rightarrow> task_state" where
  "task_write E gateway_src ok m st =
     (case (case gateway_src of
              Some src \<Rightarrow> map_sum (\<lambda>e. ''serialize envelope: '' @ e) id (lk_print_env E \<lparr>lv_src = src, lv_msg = m\<rparr>)
            | None \<Rightarrow> map_sum (\<lambda>e. ''serialize: '' @ e) id (lk_print E m)) of
        Inl e \<Rightarrow> publish (EvError e) st
      | Inr t \<Rightarrow>
          if ok then st\<lparr>tk_wire := tk_wire st @ [TextFrame t], tk_sent := tk_sent st @ [m]\<rparr>
          else break_loop (fire_disconnect st))"

definition task_beat :: "string option \<Rightarrow> nat \<Rightarrow> bool \<Rightarrow> task_state \<Rightarrow> task_state" where
  "task_beat gateway_src now ok st =
     (if gateway_src \<noteq> None then st
      else if now - tk_last_rx st > HB_SILENCE
      then break_loop (fire_disconnect (publish (EvDisconnected ''heartbeat silent >15s'') st))
      else if \<not> ok then break_loop (fire_disconnect st)
      else st\<lparr>tk_wire := tk_wire st @ [PingFrame]\<rparr>)"

text \<open>
  One turn of the loop. The \<open>select\<close> is biased: what the socket has comes first, then the two queues in
  their order, then the timer. A queue whose senders are gone yields \<open>None\<close> once it is empty.
\<close>

definition task_turn :: "link_env \<Rightarrow> string option \<Rightarrow> nat \<Rightarrow> client_read option \<Rightarrow> bool \<Rightarrow> bool \<Rightarrow> task_state \<Rightarrow> task_state" where
  "task_turn E gateway_src now ws beat ok st =
     (if tk_ended st then st
      else case ws of
             Some r \<Rightarrow> task_read E gateway_src now r st
           | None \<Rightarrow>
               (case tk_hi st of
                  m # ms \<Rightarrow> task_write E gateway_src ok m (st\<lparr>tk_hi := ms\<rparr>)
                | [] \<Rightarrow>
                    if \<not> tk_open st then break_loop st
                    else (case tk_lo st of
                            m # ms \<Rightarrow> task_write E gateway_src ok m (st\<lparr>tk_lo := ms\<rparr>)
                          | [] \<Rightarrow> if beat then task_beat gateway_src now ok st else st)))"

section \<open>Bounds of the retries\<close>

lemma jitter_bounds: "- 0.25 \<le> jitter_of clock \<and> jitter_of clock \<le> 0.25"
proof -
  have b: "real (unat (x :: u32)) \<le> real (2 ^ 32 - 1)" for x
  proof -
    have "unat x \<le> 2 ^ 32 - 1" using unat_lt2p_32 [of x] by simp
    then show ?thesis by (rule of_nat_mono)
  qed
  have "0 \<le> real (unat (x :: u32)) / real (2 ^ 32 - 1) \<and> real (unat x) / real (2 ^ 32 - 1) \<le> 1" for x
    using b [of x] of_nat_0_le_iff [of "unat x"] by (simp add: divide_le_eq_1 del: of_nat_unat)
  from this [of "xorshift32 (case clock of Some ns \<Rightarrow> of_nat ns | None \<Rightarrow> 0x9e3779b9)"] show ?thesis
    unfolding jitter_of_def Let_def by simp
qed

lemma jittered_bounds: "3 / 4 * real b \<le> jittered clock b \<and> jittered clock b \<le> 5 / 4 * real b"
proof -
  have "3 / 4 \<le> 1 + jitter_of clock" "1 + jitter_of clock \<le> 5 / 4" using jitter_bounds [of clock] by simp_all
  then show ?thesis
    unfolding jittered_def by (metis mult.commute mult_left_mono of_nat_0_le_iff)
qed

text \<open>What the last attempt returns: a session, the typed error of a pending enrolment, or the reason with the number of retries.\<close>

definition final_result :: "RetryConfig \<Rightarrow> link_error + link_session \<Rightarrow> link_error + link_session" where
  "final_result cfg r =
     (case r of
        Inr s \<Rightarrow> Inr s
      | Inl (EnrollPending d) \<Rightarrow> Inl (EnrollPending d)
      | Inl e \<Rightarrow> Inl (Signal (''connect after '' @ show_nat (unat (re_max_retries cfg)) @ '' retries: '' @ link_error_display e)))"

lemma retry_last:
  assumes "conn_at (unat a) = Inl e" and "\<not> a < re_max_retries cfg"
  shows "retry_from cfg conn_at clock a = (final_result cfg (Inl e), 1, [])"
  using assms by (subst retry_from.simps) (cases e; simp add: final_result_def)

lemma retry_from_outcome:
  assumes "retry_from cfg conn_at clock a = (r, n, sleeps)" and "a \<le> re_max_retries cfg"
  shows "0 < n \<and> unat a + n \<le> Suc (unat (re_max_retries cfg)) \<and> Suc (length sleeps) = n
    \<and> r = final_result cfg (conn_at (unat a + n - 1)) \<and> (\<forall>k<n - 1. \<exists>e. conn_at (unat a + k) = Inl e)
    \<and> (unat a + n \<le> unat (re_max_retries cfg) \<longrightarrow> (\<exists>s. conn_at (unat a + n - 1) = Inr s))
    \<and> (\<forall>k<length sleeps. 3 / 4 * real (backoff_of cfg (a + of_nat k)) \<le> sleeps ! k \<and> sleeps ! k \<le> 5 / 4 * real (backoff_of cfg (a + of_nat k)))"
  using assms
proof (induction cfg conn_at clock a arbitrary: r n sleeps rule: retry_from.induct)
  case (1 cfg conn_at clock a)
  show ?case
  proof (cases "conn_at (unat a)")
    case (Inr s)
    then have "r = Inr s" "n = 1" "sleeps = []" using 1(2) unfolding retry_from.simps [of cfg conn_at clock a] by simp_all
    then show ?thesis using Inr 1(3) by (simp add: final_result_def word_le_nat_alt)
  next
    case (Inl e)
    show ?thesis
    proof (cases "a < re_max_retries cfg")
      case False
      then have "unat a = unat (re_max_retries cfg)" using 1(3) by (simp add: word_less_nat_alt word_le_nat_alt)
      moreover have "r = final_result cfg (Inl e)" "n = 1" "sleeps = []"
        using 1(2) retry_last [of conn_at a e cfg clock, OF Inl False] by simp_all
      ultimately show ?thesis using Inl by simp
    next
      case True
      obtain r1 n1 s1 where rec: "retry_from cfg conn_at clock (a + 1) = (r1, n1, s1)" by (metis prod_cases3)
      have suc: "unat (a + 1) = Suc (unat a)" by (rule unat_Suc_less [OF True])
      have le: "a + 1 \<le> re_max_retries cfg" using True suc by (simp add: word_le_nat_alt word_less_nat_alt)
      have eq: "r = r1" "n = Suc n1" "sleeps = jittered (clock (unat a)) (backoff_of cfg a) # s1"
        using 1(2) True Inl rec by (auto simp: retry_from.simps [of cfg conn_at clock a])
      note IH = 1(1) [OF Inl True rec le, unfolded suc]
      have n1: "0 < n1" "unat a + n \<le> Suc (unat (re_max_retries cfg))" "Suc (length sleeps) = n"
        using IH by (simp_all add: eq)
      have last: "unat a + n - 1 = Suc (unat a) + n1 - 1" by (simp add: eq)
      have res: "r = final_result cfg (conn_at (unat a + n - 1))" unfolding last eq(1) using IH by (elim conjE)
      have ok: "\<exists>s. conn_at (unat a + n - 1) = Inr s" if "unat a + n \<le> unat (re_max_retries cfg)"
        using that IH unfolding last by (elim conjE) (simp add: eq)
      have fails: "\<exists>e. conn_at (unat a + k) = Inl e" if "k < n - 1" for k
      proof (cases k)
        case (Suc j)
        then have "j < n1 - 1" using that by (simp add: eq)
        then have "\<exists>e. conn_at (Suc (unat a) + j) = Inl e" using IH by (elim conjE) simp
        then show ?thesis by (simp add: Suc)
      qed (use Inl in simp)
      have bounds: "3 / 4 * real (backoff_of cfg (a + of_nat k)) \<le> sleeps ! k \<and> sleeps ! k \<le> 5 / 4 * real (backoff_of cfg (a + of_nat k))"
        if "k < length sleeps" for k
      proof (cases k)
        case 0
        then show ?thesis using jittered_bounds [of "backoff_of cfg a" "clock (unat a)"] by (simp add: eq)
      next
        case (Suc j)
        then have "j < length s1" using that by (simp add: eq)
        then have "3 / 4 * real (backoff_of cfg (a + 1 + of_nat j)) \<le> s1 ! j \<and> s1 ! j \<le> 5 / 4 * real (backoff_of cfg (a + 1 + of_nat j))"
          using IH by (elim conjE) simp
        moreover have "a + 1 + of_nat j = a + of_nat k" by (simp add: Suc)
        moreover have "sleeps ! k = s1 ! j" by (simp add: Suc eq)
        ultimately show ?thesis by simp
      qed
      have "0 < n" by (simp add: eq)
      moreover have "\<forall>k<n - 1. \<exists>e. conn_at (unat a + k) = Inl e" using fails by simp
      moreover have "unat a + n \<le> unat (re_max_retries cfg) \<longrightarrow> (\<exists>s. conn_at (unat a + n - 1) = Inr s)" using ok by simp
      moreover have "\<forall>k<length sleeps. 3 / 4 * real (backoff_of cfg (a + of_nat k)) \<le> sleeps ! k
          \<and> sleeps ! k \<le> 5 / 4 * real (backoff_of cfg (a + of_nat k))" using bounds by blast
      ultimately show ?thesis using n1(2,3) res by (intro conjI)
    qed
  qed
qed

text \<open>
  C33. Connecting with retries ends after at most one more attempt than there are retries, stops at the
  first attempt that succeeds and returns its session; when every attempt failed the last error is
  returned, a pending enrolment as such. The sleep after the k-th failure is the exponential delay
  base * 2^k, capped by the configured maximum, give or take a quarter of it.
\<close>

theorem retry_bounded:
  assumes "connect_with_retry cfg conn_at clock = (r, n, sleeps)" and "re_max_delay cfg \<le> DURATION_MAX"
  shows "1 \<le> n \<and> n \<le> unat (re_max_retries cfg) + 1 \<and> length sleeps + 1 = n
    \<and> (\<forall>k<n - 1. \<exists>e. conn_at k = Inl e)
    \<and> (n \<le> unat (re_max_retries cfg) \<longrightarrow> (\<exists>s. conn_at (n - 1) = Inr s)) \<and> r = final_result cfg (conn_at (n - 1))
    \<and> (\<forall>k<length sleeps. let b = real (min (re_base_delay cfg * min (2 ^ k) (2 ^ 32 - 1)) (re_max_delay cfg)) in
         3 / 4 * b \<le> sleeps ! k \<and> sleeps ! k \<le> 5 / 4 * b)"
proof -
  note out = retry_from_outcome [OF assms(1) [unfolded connect_with_retry_def], simplified]
  have b: "backoff_of cfg (of_nat k) = min (re_base_delay cfg * min (2 ^ k) (2 ^ 32 - 1)) (re_max_delay cfg)"
    if "k < length sleeps" for k
  proof -
    have "k < unat (re_max_retries cfg)" using that out by linarith
    then have "unat (of_nat k :: u32) = k" using unat_lt2p_32 [of "re_max_retries cfg"] by (simp add: unat_of_nat)
    then show ?thesis using assms(2) by (simp add: backoff_of_def pow2_saturating_def min_def)
  qed
  show ?thesis using out by (auto simp: b Let_def)
qed

theorem retry_bounded_witness:
  "fst (connect_with_retry retry_default (\<lambda>k. Inl (EnrollPending ''car'')) (\<lambda>k. None)) = Inl (EnrollPending ''car'')"
proof -
  obtain r n sleeps where run: "connect_with_retry retry_default (\<lambda>k. Inl (EnrollPending ''car'')) (\<lambda>k. None) = (r, n, sleeps)"
    by (metis prod_cases3)
  have "re_max_delay retry_default \<le> DURATION_MAX" by (simp add: retry_default_def DURATION_MAX_def)
  from retry_bounded [OF run this] run show ?thesis by (simp add: final_result_def)
qed

section \<open>What a session delivers\<close>

text \<open>
  The states of a session: messages handed over, a callback registered, the session closed by its
  owner, turns of the task. The two lists are the messages its queues accepted; the flag says that a
  callback was registered before the task ended.
\<close>

inductive task_reach :: "link_env \<Rightarrow> string option \<Rightarrow> task_state \<Rightarrow> signaling_message list \<Rightarrow> signaling_message list \<Rightarrow> bool \<Rightarrow> bool"
  for E :: link_env and src :: "string option" where
  task_start: "task_reach E src (new_task now) [] [] False"
| task_send: "task_reach E src st hi lo reg \<Longrightarrow> tk_open st \<Longrightarrow> session_send m st = Some (st', r) \<Longrightarrow>
     task_reach E src st' (hi @ drop (length (tk_hi st)) (tk_hi st')) (lo @ drop (length (tk_lo st)) (tk_lo st')) reg"
| task_register: "task_reach E src st hi lo reg \<Longrightarrow> tk_open st \<Longrightarrow>
     task_reach E src (on_disconnect st) hi lo (reg \<or> \<not> tk_ended st)"
| task_close: "task_reach E src st hi lo reg \<Longrightarrow> task_reach E src (session_close st) hi lo reg"
| task_step: "task_reach E src st hi lo reg \<Longrightarrow> task_reach E src (task_turn E src now ws beat ok st) hi lo reg"

text \<open>JSON serialization of these types does not fail.\<close>

definition printable :: "link_env \<Rightarrow> bool" where
  "printable E \<longleftrightarrow> (\<forall>m. \<exists>t. lk_print E m = Inr t) \<and> (\<forall>v. \<exists>t. lk_print_env E v = Inr t)"

lemmas task_defs = fire_disconnect_def publish_def break_loop_def

text \<open>What a write does to the queues: nothing, it sends the message or ends the task.\<close>

lemma task_write_printable:
  assumes "printable E"
  shows "\<exists>t. task_write E src ok m st =
    (if ok then st\<lparr>tk_wire := tk_wire st @ [TextFrame t], tk_sent := tk_sent st @ [m]\<rparr> else break_loop (fire_disconnect st))"
proof (cases src)
  case None
  obtain t where "lk_print E m = Inr t" using assms by (auto simp: printable_def)
  then show ?thesis by (intro exI [of _ t]) (simp add: task_write_def None)
next
  case (Some s)
  obtain t where "lk_print_env E \<lparr>lv_src = s, lv_msg = m\<rparr> = Inr t" using assms by (auto simp: printable_def)
  then show ?thesis by (intro exI [of _ t]) (simp add: task_write_def Some)
qed

lemma task_read_frame:
  "tk_hi (task_read E src now r st) = tk_hi st" "tk_lo (task_read E src now r st) = tk_lo st"
  "tk_sent (task_read E src now r st) = tk_sent st" "tk_open (task_read E src now r st) = tk_open st"
  "tk_dropped (task_read E src now r st) = tk_dropped st"
  by (auto simp: task_read_def Let_def task_defs split: client_read.split ws_frame.split option.split sum.split)

lemma task_beat_frame:
  "tk_hi (task_beat src now ok st) = tk_hi st" "tk_lo (task_beat src now ok st) = tk_lo st"
  "tk_sent (task_beat src now ok st) = tk_sent st" "tk_open (task_beat src now ok st) = tk_open st"
  "tk_dropped (task_beat src now ok st) = tk_dropped st"
  by (auto simp: task_beat_def task_defs)

text \<open>The callback: before the task ends it has not run; when the task ends by itself it has, if it was registered.\<close>

definition slot_ok :: "bool \<Rightarrow> task_state \<Rightarrow> bool" where
  "slot_ok reg st \<longleftrightarrow> tk_fired st \<le> 1 \<and> (\<not> tk_ended st \<longrightarrow> tk_fired st = 0 \<and> tk_slot st = reg)
     \<and> (tk_ended st \<and> tk_open st \<and> reg \<longrightarrow> tk_fired st = 1)"

lemma slot_ok_break:
  "slot_ok reg st \<Longrightarrow> \<not> tk_ended st \<Longrightarrow> slot_ok reg (break_loop (fire_disconnect st))"
  "slot_ok reg st \<Longrightarrow> \<not> tk_ended st \<Longrightarrow> slot_ok reg (break_loop (fire_disconnect (publish e st)))"
  "slot_ok reg st \<Longrightarrow> \<not> tk_ended st \<Longrightarrow> slot_ok reg (break_loop (fire_disconnect (publish e (publish e' st))))"
  "slot_ok reg st \<Longrightarrow> slot_ok reg (publish e st)"
  by (auto simp: slot_ok_def task_defs)

lemma slot_ok_fields:
  "slot_ok reg (st\<lparr>tk_hi := a\<rparr>) = slot_ok reg st" "slot_ok reg (st\<lparr>tk_lo := a\<rparr>) = slot_ok reg st"
  "slot_ok reg (st\<lparr>tk_last_rx := b\<rparr>) = slot_ok reg st" "slot_ok reg (st\<lparr>tk_wire := c\<rparr>) = slot_ok reg st"
  "slot_ok reg (st\<lparr>tk_sent := a\<rparr>) = slot_ok reg st" "slot_ok reg (st\<lparr>tk_dropped := d\<rparr>) = slot_ok reg st"
  by (simp_all add: slot_ok_def)

lemma slot_ok_read: "slot_ok reg st \<Longrightarrow> \<not> tk_ended st \<Longrightarrow> slot_ok reg (task_read E src now r st)"
  by (simp add: task_read_def Let_def slot_ok_break slot_ok_fields split: client_read.split ws_frame.split option.split sum.split)

lemma slot_ok_write: "slot_ok reg st \<Longrightarrow> \<not> tk_ended st \<Longrightarrow> slot_ok reg (task_write E src ok m st)"
  by (simp add: task_write_def slot_ok_break slot_ok_fields split: option.split sum.split)

lemma slot_ok_beat: "slot_ok reg st \<Longrightarrow> \<not> tk_ended st \<Longrightarrow> slot_ok reg (task_beat src now ok st)"
  by (simp add: task_beat_def slot_ok_break slot_ok_fields)

lemma slot_ok_turn: "slot_ok reg st \<Longrightarrow> slot_ok reg (task_turn E src now ws beat ok st)"
proof (cases "tk_ended st")
  case False
  assume s: "slot_ok reg st"
  then have "\<not> tk_open st \<Longrightarrow> slot_ok reg (break_loop st)" using False by (simp add: slot_ok_def break_loop_def)
  with s False show ?thesis
    by (simp add: task_turn_def slot_ok_read slot_ok_write slot_ok_beat slot_ok_fields split: option.split list.split)
qed (simp add: task_turn_def)

lemma session_slot:
  assumes "task_reach E src st hi lo reg"
  shows "slot_ok reg st"
  using assms
proof induction
  case (task_send st hi lo reg m st' r)
  then show ?case by (auto simp: session_send_def slot_ok_fields split: if_splits)
next
  case (task_close st hi lo reg)
  then show ?case by (simp add: slot_ok_def session_close_def)
qed (simp_all add: slot_ok_turn, auto simp: slot_ok_def new_task_def on_disconnect_def)


text \<open>The queues against what was written, while the task runs and afterwards.\<close>

definition queue_ok :: "signaling_message list \<Rightarrow> signaling_message list \<Rightarrow> task_state \<Rightarrow> bool" where
  "queue_ok hi lo st \<longleftrightarrow>
     (\<exists>a b. hi = filter (\<lambda>m. \<not> is_low_priority m) (tk_sent st) @ a @ tk_hi st
        \<and> lo = filter is_low_priority (tk_sent st) @ b @ tk_lo st \<and> (\<not> tk_ended st \<longrightarrow> a = [] \<and> b = []))
     \<and> length (tk_hi st) \<le> HI_CAP \<and> length (tk_lo st) \<le> LO_CAP
     \<and> list_all (\<lambda>m. \<not> is_low_priority m) (tk_hi st) \<and> list_all is_low_priority (tk_lo st)"

lemma queue_ok_cong:
  "queue_ok hi lo st \<Longrightarrow> tk_hi st' = tk_hi st \<Longrightarrow> tk_lo st' = tk_lo st \<Longrightarrow> tk_sent st' = tk_sent st \<Longrightarrow>
     (\<not> tk_ended st' \<Longrightarrow> \<not> tk_ended st) \<Longrightarrow> queue_ok hi lo st'"
  unfolding queue_ok_def by auto

lemma queue_ok_hi:
  assumes "queue_ok hi lo st" and "\<not> tk_ended st" and "tk_hi st = m # ms" and "printable E"
  shows "queue_ok hi lo (task_write E src ok m (st\<lparr>tk_hi := ms\<rparr>))"
proof -
  obtain t where w: "task_write E src ok m (st\<lparr>tk_hi := ms\<rparr>) =
      (if ok then (st\<lparr>tk_hi := ms\<rparr>)\<lparr>tk_wire := tk_wire (st\<lparr>tk_hi := ms\<rparr>) @ [TextFrame t],
          tk_sent := tk_sent (st\<lparr>tk_hi := ms\<rparr>) @ [m]\<rparr>
       else break_loop (fire_disconnect (st\<lparr>tk_hi := ms\<rparr>)))"
    using task_write_printable [OF assms(4), of src ok m "st\<lparr>tk_hi := ms\<rparr>"] by blast
  show ?thesis unfolding w using assms(1-3) by (cases ok) (auto simp: queue_ok_def task_defs)
qed

lemma queue_ok_lo:
  assumes "queue_ok hi lo st" and "\<not> tk_ended st" and "tk_lo st = m # ms" and "printable E"
  shows "queue_ok hi lo (task_write E src ok m (st\<lparr>tk_lo := ms\<rparr>))"
proof -
  obtain t where w: "task_write E src ok m (st\<lparr>tk_lo := ms\<rparr>) =
      (if ok then (st\<lparr>tk_lo := ms\<rparr>)\<lparr>tk_wire := tk_wire (st\<lparr>tk_lo := ms\<rparr>) @ [TextFrame t],
          tk_sent := tk_sent (st\<lparr>tk_lo := ms\<rparr>) @ [m]\<rparr>
       else break_loop (fire_disconnect (st\<lparr>tk_lo := ms\<rparr>)))"
    using task_write_printable [OF assms(4), of src ok m "st\<lparr>tk_lo := ms\<rparr>"] by blast
  show ?thesis unfolding w using assms(1-3) by (cases ok) (auto simp: queue_ok_def task_defs)
qed

lemma queue_ok_turn:
  assumes "queue_ok hi lo st" and "printable E"
  shows "queue_ok hi lo (task_turn E src now ws beat ok st)"
proof (cases "tk_ended st")
  case False
  have "queue_ok hi lo (task_read E src now r st)" for r
    by (rule queue_ok_cong [OF assms(1) task_read_frame(1-3) False])
  moreover have "queue_ok hi lo (task_beat src now ok st)"
    by (rule queue_ok_cong [OF assms(1) task_beat_frame(1-3) False])
  moreover have "queue_ok hi lo (break_loop st)"
    by (rule queue_ok_cong [OF assms(1)]) (simp_all add: break_loop_def)
  ultimately show ?thesis
    using queue_ok_hi [OF assms(1) False _ assms(2)] queue_ok_lo [OF assms(1) False _ assms(2)] assms(1) False
    by (simp add: task_turn_def split: option.split list.split)
qed (simp add: task_turn_def assms(1))

lemma queue_ok_append:
  assumes "queue_ok hi lo st" and "\<not> tk_ended st"
  shows "length (tk_hi st) < HI_CAP \<Longrightarrow> \<not> is_low_priority m \<Longrightarrow> queue_ok (hi @ [m]) lo (st\<lparr>tk_hi := tk_hi st @ [m]\<rparr>)"
    and "length (tk_lo st) < LO_CAP \<Longrightarrow> is_low_priority m \<Longrightarrow> queue_ok hi (lo @ [m]) (st\<lparr>tk_lo := tk_lo st @ [m]\<rparr>)"
proof -
  have q: "hi = filter (\<lambda>m. \<not> is_low_priority m) (tk_sent st) @ tk_hi st" "lo = filter is_low_priority (tk_sent st) @ tk_lo st"
    using assms by (auto simp: queue_ok_def)
  show "queue_ok (hi @ [m]) lo (st\<lparr>tk_hi := tk_hi st @ [m]\<rparr>)" if "length (tk_hi st) < HI_CAP" "\<not> is_low_priority m"
    using assms(1) that unfolding queue_ok_def q by simp
  show "queue_ok hi (lo @ [m]) (st\<lparr>tk_lo := tk_lo st @ [m]\<rparr>)" if "length (tk_lo st) < LO_CAP" "is_low_priority m"
    using assms(1) that unfolding queue_ok_def q by simp
qed

lemma queue_ok_send:
  assumes "queue_ok hi lo st" and "session_send m st = Some (st', r)"
  shows "queue_ok (hi @ drop (length (tk_hi st)) (tk_hi st')) (lo @ drop (length (tk_lo st)) (tk_lo st')) st'"
proof -
  consider "tk_hi st' = tk_hi st" "tk_lo st' = tk_lo st" "tk_sent st' = tk_sent st" "tk_ended st' = tk_ended st"
    | "\<not> tk_ended st" "is_low_priority m" "length (tk_lo st) < LO_CAP" "st' = st\<lparr>tk_lo := tk_lo st @ [m]\<rparr>"
    | "\<not> tk_ended st" "\<not> is_low_priority m" "length (tk_hi st) < HI_CAP" "st' = st\<lparr>tk_hi := tk_hi st @ [m]\<rparr>"
    using assms(2) by (auto simp: session_send_def split: if_splits)
  then show ?thesis
  proof cases
    case 1
    then show ?thesis using queue_ok_cong [OF assms(1), of st'] by simp
  qed (simp_all add: queue_ok_append [OF assms(1)])
qed

lemma session_queues:
  assumes "task_reach E src st hi lo reg" and "printable E"
  shows "queue_ok hi lo st"
  using assms(1)
proof induction
  case (task_start now)
  then show ?case by (simp add: queue_ok_def new_task_def)
next
  case (task_send st hi lo reg m st' r)
  then show ?case by (blast intro: queue_ok_send)
next
  case (task_register st hi lo reg)
  then show ?case by (rule_tac queue_ok_cong) (auto simp: on_disconnect_def)
next
  case (task_close st hi lo reg)
  then show ?case by (rule_tac queue_ok_cong) (auto simp: session_close_def)
qed (simp add: queue_ok_turn assms(2))

lemma low_after_high:
  assumes "tk_sent (task_turn E src now ws beat ok st) = tk_sent st @ [m]" and "is_low_priority m"
    and "list_all (\<lambda>m. \<not> is_low_priority m) (tk_hi st)"
  shows "tk_hi st = []"
proof (rule ccontr)
  assume "tk_hi st \<noteq> []"
  then obtain h hs where h: "tk_hi st = h # hs" by (cases "tk_hi st") auto
  have "tk_sent (task_write E src ok h (st\<lparr>tk_hi := hs\<rparr>)) \<in> {tk_sent st, tk_sent st @ [h]}"
    by (simp add: task_write_def task_defs split: option.split sum.split)
  then show False
    using assms h by (auto simp: task_turn_def task_read_frame split: if_splits option.splits)
qed

text \<open>
  C21. A session delivers in order and by priority. While its task runs, the control messages accepted by
  the session are exactly those written to the socket, in order, followed by the at most 64 still
  queued, and the same holds of the status reports with a queue of at most 16; a status report is
  written only when no control message waits. Nothing accepted is dropped before the connection ends,
  and then what was written is a prefix of what was accepted. When the task ends by itself, a callback
  registered in time has run, exactly once.
\<close>

theorem session_delivers:
  assumes "task_reach E src st hi lo reg" and "printable E"
  shows "(\<not> tk_ended st \<longrightarrow> hi = filter (\<lambda>m. \<not> is_low_priority m) (tk_sent st) @ tk_hi st
            \<and> lo = filter is_low_priority (tk_sent st) @ tk_lo st)
    \<and> prefix (filter (\<lambda>m. \<not> is_low_priority m) (tk_sent st)) hi \<and> prefix (filter is_low_priority (tk_sent st)) lo
    \<and> length (tk_hi st) \<le> 64 \<and> length (tk_lo st) \<le> 16
    \<and> (\<forall>now ws beat ok m. tk_sent (task_turn E src now ws beat ok st) = tk_sent st @ [m] \<and> is_low_priority m \<longrightarrow> tk_hi st = [])
    \<and> tk_fired st \<le> 1 \<and> (tk_ended st \<and> tk_open st \<and> reg \<longrightarrow> tk_fired st = 1)"
proof -
  have q: "queue_ok hi lo st" by (rule session_queues [OF assms])
  have s: "slot_ok reg st" by (rule session_slot [OF assms(1)])
  have "list_all (\<lambda>m. \<not> is_low_priority m) (tk_hi st)" using q by (simp add: queue_ok_def)
  then have "\<forall>now ws beat ok m. tk_sent (task_turn E src now ws beat ok st) = tk_sent st @ [m] \<and> is_low_priority m \<longrightarrow> tk_hi st = []"
    using low_after_high by blast
  moreover have "prefix (filter (\<lambda>m. \<not> is_low_priority m) (tk_sent st)) hi" "prefix (filter is_low_priority (tk_sent st)) lo"
    using q unfolding queue_ok_def prefix_def by blast+
  moreover have "length (tk_hi st) \<le> 64" "length (tk_lo st) \<le> 16"
    using q by (simp_all add: queue_ok_def HI_CAP_def LO_CAP_def)
  moreover have "\<not> tk_ended st \<longrightarrow> hi = filter (\<lambda>m. \<not> is_low_priority m) (tk_sent st) @ tk_hi st
            \<and> lo = filter is_low_priority (tk_sent st) @ tk_lo st"
    using q by (auto simp: queue_ok_def)
  ultimately show ?thesis using s by (simp add: slot_ok_def)
qed

definition demo_link :: link_env where
  "demo_link = \<lparr>lk_parse = (\<lambda>t. Inl ''json''), lk_print = (\<lambda>m. Inr ''m''), lk_parse_env = (\<lambda>t. Inl ''json''),
     lk_print_env = (\<lambda>v. Inr ''v''), lk_b64_encode = map (\<lambda>b. char_of (unat b)), lk_b64_decode = (\<lambda>s. Inr (bytes_of s)),
     lk_public = (\<lambda>k. take 32 (k @ replicate 32 0)), lk_sign = (\<lambda>k m. take 64 (take 32 (k @ replicate 32 0) @ m @ replicate 64 0)),
     lk_debug = (\<lambda>m. [])\<rparr>"

theorem session_delivers_witness:
  "tk_fired (task_turn demo_link None 9 (Some StreamEnded) False True
     (task_turn demo_link None 7 None False True
       (the (map_option fst (session_send (RoomLeave ''car'' ''p'') (on_disconnect (new_task 0))))))) = 1"
  (is "tk_fired (task_turn demo_link None 9 _ False True (task_turn demo_link None 7 None False True ?st)) = 1")
proof -
  have send: "session_send (RoomLeave ''car'' ''p'') (on_disconnect (new_task 0)) = Some (?st, Inr ())"
    by (simp add: session_send_def on_disconnect_def new_task_def HI_CAP_def)
  have "task_reach demo_link None (on_disconnect (new_task 0)) [] [] True"
    using task_register [OF task_start [of demo_link None 0]] by (simp add: new_task_def)
  from task_send [OF this _ send] obtain hi lo where "task_reach demo_link None ?st hi lo True"
    by (auto simp: on_disconnect_def new_task_def)
  then have reach: "task_reach demo_link None (task_turn demo_link None 9 (Some StreamEnded) False True
      (task_turn demo_link None 7 None False True ?st)) hi lo True"
    by (intro task_step)
  have "printable demo_link" by (simp add: printable_def demo_link_def)
  note delivers = session_delivers [OF reach this]
  have "tk_ended (task_turn demo_link None 9 (Some StreamEnded) False True (task_turn demo_link None 7 None False True ?st))
    \<and> tk_open (task_turn demo_link None 9 (Some StreamEnded) False True (task_turn demo_link None 7 None False True ?st))"
    by (simp add: session_send_def on_disconnect_def new_task_def HI_CAP_def task_turn_def task_write_def demo_link_def
        task_read_def task_defs)
  with delivers show ?thesis by blast
qed

text \<open>
  A failed write ends the task without a \<open>Disconnected\<close> event: only the callback hears of it. And a
  callback registered after the end is never run.
\<close>

lemma failed_write_silent:
  assumes "printable E" and "\<not> tk_ended st" and "tk_hi st = m # ms"
  shows "tk_ended (task_turn E src now None beat False st) \<and> tk_events (task_turn E src now None beat False st) = tk_events st"
  using task_write_printable [OF assms(1), of src False m "st\<lparr>tk_hi := ms\<rparr>"] assms(2,3)
  by (auto simp: task_turn_def task_defs)

lemma late_callback_never_runs:
  "tk_ended st \<Longrightarrow> task_turn E src now ws beat ok (on_disconnect st) = on_disconnect st"
  by (simp add: task_turn_def on_disconnect_def)

end
