(* ===== verification/ClientServer.thy ===== *)
theory ClientServer
  imports LinkClient "HOL-Library.Countable"
begin

text \<open>
  The signaling client of \<open>LinkClient\<close> against the server's handshake (\<open>Handshake\<close>, \<open>Admission\<close>): a device with
  its key gets into its room, one that is not enrolled yet is told so, and one configured with both
  forms of credentials never gets in.
\<close>

section \<open>Two ends of a connection\<close>

text \<open>
  A connection with both its ends: the server's side, the client's side, what the client wrote and the
  server has not read, and how much of what the server sent the client has read. The wire delivers
  in order.
\<close>

record dialog =
  dg_files :: fs
  dg_srv :: server
  dg_conn :: conn
  dg_client :: SignalClient
  dg_phase :: client_phase
  dg_up :: "string list"
  dg_read :: nat

fun payload_text :: "conn_env \<Rightarrow> payload \<Rightarrow> string" where
  "payload_text env (PMsg m) = en_print env m"
| "payload_text env (PText t) = t"

definition dial :: "link_env \<Rightarrow> conn_env \<Rightarrow> fresh \<Rightarrow> SignalClient \<Rightarrow> fs \<Rightarrow> server \<Rightarrow> dialog" where
  "dial E env fr cl files srv =
     (case open_conn env fr (extract_token (sg_jwt cl)) srv of
        (srv', c) \<Rightarrow>
          (case client_hello E cl None of
             (cl', ts, ph) \<Rightarrow>
               \<lparr>dg_files = files, dg_srv = srv', dg_conn = c, dg_client = cl', dg_phase = ph, dg_up = ts, dg_read = 0\<rparr>))"

definition dialog_step :: "link_env \<Rightarrow> conn_env \<Rightarrow> fresh \<Rightarrow> dialog \<Rightarrow> dialog" where
  "dialog_step E env fr d =
     (case dg_up d of
        t # ts \<Rightarrow>
          (case join_phase env fr (conn_event.Received (TextFrame t)) (dg_files d) (dg_srv d) (dg_conn d) of
             (files, srv, c) \<Rightarrow> d\<lparr>dg_files := files, dg_srv := srv, dg_conn := c, dg_up := ts\<rparr>)
      | [] \<Rightarrow>
          if dg_read d < length (cn_sent (dg_conn d))
          then (case client_event E (Frame (TextFrame (payload_text env (cn_sent (dg_conn d) ! dg_read d)))) None
                       (dg_client d) (dg_phase d) of
                  (cl, ts, ph) \<Rightarrow> d\<lparr>dg_client := cl, dg_up := ts, dg_phase := ph, dg_read := dg_read d + 1\<rparr>)
          else d)"

fun talk :: "link_env \<Rightarrow> conn_env \<Rightarrow> fresh list \<Rightarrow> dialog \<Rightarrow> dialog" where
  "talk E env [] d = d"
| "talk E env (fr # frs) d = talk E env frs (dialog_step E env fr d)"

text \<open>The two sides read each other's handshake messages.\<close>

fun handshake_msg :: "signaling_message \<Rightarrow> bool" where
  "handshake_msg (RoomJoin j) = True"
| "handshake_msg (RoomJoined j) = True"
| "handshake_msg (Error code t) = True"
| "handshake_msg (DeviceAuthChallenge n) = True"
| "handshake_msg (DeviceAuthResponse r s) = True"
| "handshake_msg (DeviceAuthPending i) = True"
| "handshake_msg _ = False"

definition wire_ok :: "link_env \<Rightarrow> conn_env \<Rightarrow> bool" where
  "wire_ok E env \<longleftrightarrow>
     (\<forall>m. handshake_msg m \<longrightarrow> lk_parse E (en_print env m) = Inr m \<and> (\<exists>t. lk_print E m = Inr t \<and> en_parse env t = Some m))"

text \<open>base64 on both sides, and that a signature verifies under the public key.\<close>

definition signer_ok :: "link_env \<Rightarrow> crypto \<Rightarrow> bool" where
  "signer_ok E C \<longleftrightarrow>
     (\<forall>s bs. b64_decode C s = Some bs \<longrightarrow> lk_b64_decode E s = Inr bs) \<and> (\<forall>bs. b64_decode C (lk_b64_encode E bs) = Some bs)
     \<and> (\<forall>k. length (lk_public E k) = 32 \<and> ed_key_ok C (lk_public E k))
     \<and> (\<forall>k m. length (lk_sign E k m) = 64 \<and> ed_verify_strict C (lk_public E k) m (lk_sign E k m))"

lemma signature_accepted:
  assumes "signer_ok E C" and "b64_decode C nonce = Some raw" and "length raw = 32"
  shows "verify_signature C (di_pubkey_b64 (identity_new E did k)) nonce did room (sign_device_auth E (identity_new E did k) raw room) = Inr ()"
proof -
  have d: "b64_decode C (lk_b64_encode E bs) = Some bs" for bs using assms(1) by (simp add: signer_ok_def)
  have "length (lk_public E k) = 32" "ed_key_ok C (lk_public E k)" using assms(1) by (simp_all add: signer_ok_def)
  then have vk: "decode_vk C (lk_b64_encode E (lk_public E k)) = Inr (lk_public E k)" by (simp add: decode_vk_def d)
  have "ed_key_ok C (lk_public E k)" "length (lk_sign E k m) = 64" "ed_verify_strict C (lk_public E k) m (lk_sign E k m)" for m
    using assms(1) by (simp_all add: signer_ok_def)
  then show ?thesis using assms(2,3) by (simp add: verify_signature_def identity_new_def sign_device_auth_def vk d)
qed

text \<open>The server after the key, and its side of the connection while the challenge is out.\<close>

definition greeted :: "string \<Rightarrow> server \<Rightarrow> server" where
  "greeted pid srv = audit_log (AuthSuccess pid None) (srv\<lparr>srv_active_connections := srv_active_connections srv + 1\<rparr>)"

definition challenged :: "string \<Rightarrow> string \<Rightarrow> string \<Rightarrow> string \<Rightarrow> peer_role \<Rightarrow> string option \<Rightarrow> conn" where
  "challenged pid nonce did room role offered =
     \<lparr>cn_peer_id = pid, cn_account = None, cn_claim = Some SIGNALING_PROTOCOL_VERSION, cn_resume_claim = None, cn_deferred = [],
      cn_phase = AwaitAnswer \<lparr>pa_nonce_b64 = nonce, pa_device_id = did, pa_room_id = room, pa_peer_role = role, pa_offered_vk = offered\<rparr>,
      cn_sent = [PMsg (Error 0 ''authenticated''), PMsg (DeviceAuthChallenge nonce)]\<rparr>"

lemma wire_join:
  assumes "wire_ok E env" and "handshake_msg m" and "sg_gateway_src cl = None"
  obtains t where "wrap_text E cl m = Inr t" and "en_parse env t = Some m"
  using assms by (auto simp: wire_ok_def wrap_text_def)

lemma greeted_frame:
  "srv_devices (greeted p s) = srv_devices s" "srv_shutdown (greeted p s) = srv_shutdown s" "srv_resume (greeted p s) = srv_resume s"
  "srv_owners (greeted p s) = srv_owners s" "srv_rooms (greeted p s) = srv_rooms s"
  "srv_allow_dev_enroll (greeted p s) = srv_allow_dev_enroll s"
  by (simp_all add: greeted_def frame_simps)

section \<open>The challenge reaches the client\<close>

text \<open>A client that joins with a public key only, over the pre-shared key.\<close>

definition device_client :: "link_env \<Rightarrow> string \<Rightarrow> string \<Rightarrow> string \<Rightarrow> peer_role \<Rightarrow> string \<Rightarrow> u8 list \<Rightarrow> SignalClient" where
  "device_client E url psk room role did k = with_device_identity (identity_new E did k) (client_new url psk room role)"

lemma device_client_fields:
  "sg_psk (device_client E url psk room role did k) = psk" "sg_room_id (device_client E url psk room role did k) = room"
  "sg_role (device_client E url psk room role did k) = role" "sg_gateway_src (device_client E url psk room role did k) = None"
  "sg_device (device_client E url psk room role did k) = None" "sg_jwt (device_client E url psk room role did k) = None"
  "sg_identity (device_client E url psk room role did k) = Some (identity_new E did k)"
  "sg_resume_ticket (device_client E url psk room role did k) = None"
  by (simp_all add: device_client_def with_device_identity_def client_new_def)

lemma device_client_ticket [simp]:
  "device_client E url psk room role did k\<lparr>sg_resume_ticket := None\<rparr> = device_client E url psk room role did k"
  by (simp add: device_client_def with_device_identity_def client_new_def)

lemma psk_accepted:
  assumes "\<not> srv_shutdown srv"
  shows "join_phase env fr (conn_event.Received (TextFrame psk)) files (srv\<lparr>srv_active_connections := srv_active_connections srv + 1\<rparr>)
      ((new_conn pid)\<lparr>cn_phase := AwaitPsk psk\<rparr>)
    = (files, greeted pid srv, (new_conn pid)\<lparr>cn_phase := AwaitJoin, cn_sent := [PMsg (Error 0 ''authenticated'')]\<rparr>)"
  using assms
  by (simp add: join_phase_def psk_event_def psk_ok_def auth_ack_def join_wait_def send_direct_def new_conn_def greeted_def frame_simps)

lemma join_challenged:
  fixes env fr files srv pid t j
  defines "c \<equiv> (new_conn pid)\<lparr>cn_phase := AwaitJoin, cn_sent := [PMsg (Error 0 ''authenticated'')]\<rparr>"
  assumes "\<not> srv_shutdown srv" and "fr_send_ok fr" and "en_parse env t = Some (RoomJoin j)"
    and j: "rj_protocol j = Some SIGNALING_PROTOCOL_VERSION" "rj_resume j = None" "rj_device_secret j = None"
      "rj_device_id j = Some did" "rj_device_pubkey j = Some vk"
    and e: "entry_of (srv_devices srv) did \<in> {None} \<union> range (\<lambda>nm. Some (PublicKey reg nm))"
  shows "join_phase env fr (conn_event.Received (TextFrame t)) files (greeted pid srv) c
    = (files, greeted pid srv, challenged pid (fr_nonce fr) did (rj_room_id j) (rj_peer_role j)
         (if entry_of (srv_devices srv) did = None then Some vk else None))"
  using assms
  by (auto simp: join_phase_def join_event_def handle_room_join_def join_pubkey_def after_loop_def stay_def send_direct_def
      join_wait_def new_conn_def challenged_def greeted_frame Let_def protocol_consts unwrap_or_def)

lemma client_joins:
  assumes "wire_ok E env" and "cl = device_client E url psk room role did k"
  obtains t j where "client_event E (Frame (TextFrame (en_print env (Error 0 ''authenticated'')))) None cl ClAuth = (cl, [t], ClJoin)"
    and "en_parse env t = Some (RoomJoin j)" and "j = room_join_of cl None"
proof -
  obtain t where t: "wrap_text E cl (RoomJoin (room_join_of cl None)) = Inr t" "en_parse env t = Some (RoomJoin (room_join_of cl None))"
    using wire_join [OF assms(1), of "RoomJoin (room_join_of cl None)" cl] by (auto simp: assms(2) device_client_fields)
  have "lk_parse E (en_print env (Error 0 ''authenticated'')) = Inr (Error 0 ''authenticated'')"
    using assms(1) by (simp add: wire_ok_def)
  then have "client_event E (Frame (TextFrame (en_print env (Error 0 ''authenticated'')))) None cl ClAuth = (cl, [t], ClJoin)"
    using t(1) by (simp add: client_event_def auth_read_def send_join_def take_resume_ticket_def write_text_def assms(2) device_client_fields)
  with t(2) show ?thesis using that by blast
qed

lemma client_signs:
  assumes "wire_ok E env" and "cl = device_client E url psk room role did k" and "signer_ok E C"
    and "b64_decode C nonce = Some raw" and "length raw = 32"
  obtains t where "client_event E (Frame (TextFrame (en_print env (DeviceAuthChallenge nonce)))) None cl ClJoin = (cl, [t], ClSigned)"
    and "en_parse env t = Some (DeviceAuthResponse room (sign_device_auth E (identity_new E did k) raw room))"
proof -
  let ?m = "DeviceAuthResponse room (sign_device_auth E (identity_new E did k) raw room)"
  obtain t where t: "wrap_text E cl ?m = Inr t" "en_parse env t = Some ?m"
    using wire_join [OF assms(1), of ?m cl] by (auto simp: assms(2) device_client_fields)
  have p: "lk_parse E (en_print env (DeviceAuthChallenge nonce)) = Inr (DeviceAuthChallenge nonce)"
    using assms(1) by (simp add: wire_ok_def)
  have b: "lk_b64_decode E nonce = Inr raw" using assms(3,4) by (simp add: signer_ok_def)
  have "client_event E (Frame (TextFrame (en_print env (DeviceAuthChallenge nonce)))) None cl ClJoin = (cl, [t], ClSigned)"
    using t(1) assms(5)
    by (simp add: client_event_def join_read_def read_join_response_def p run_device_auth_def b write_text_def assms(2) device_client_fields)
  with t(2) show ?thesis using that by blast
qed

text \<open>Four steps after the client dialled, its signed answer is on the way.\<close>

lemma talk_challenged:
  assumes wire: "wire_ok E env" and cl: "cl = device_client E url psk room role did k" and signer: "signer_ok E (en_crypto env)"
    and srv: "\<not> srv_shutdown srv" "srv_psk srv = Some psk"
    and entry: "entry_of (srv_devices srv) did \<in> {None} \<union> range (\<lambda>nm. Some (PublicKey reg nm))"
    and offered: "offered = (if entry_of (srv_devices srv) did = None then Some (di_pubkey_b64 (identity_new E did k)) else None)"
    and f3: "fr_send_ok f3" "b64_decode (en_crypto env) (fr_nonce f3) = Some raw" "length raw = 32"
  obtains t where "en_parse env t = Some (DeviceAuthResponse room (sign_device_auth E (identity_new E did k) raw room))"
    and "talk E env [f1, f2, f3, f4] (dial E env fr cl files srv) =
      \<lparr>dg_files = files, dg_srv = greeted (fr_uuid fr) srv,
       dg_conn = challenged (fr_uuid fr) (fr_nonce f3) did room role offered,
       dg_client = cl, dg_phase = ClSigned, dg_up = [t], dg_read = 2\<rparr>"
proof -
  let ?pid = "fr_uuid fr"
  let ?d = "\<lambda>s c ph up n. \<lparr>dg_files = files, dg_srv = s, dg_conn = c, dg_client = cl, dg_phase = ph, dg_up = up, dg_read = n\<rparr>"
  let ?c1 = "(new_conn ?pid)\<lparr>cn_phase := AwaitJoin, cn_sent := [PMsg (Error 0 ''authenticated'')]\<rparr>"
  let ?c3 = "challenged ?pid (fr_nonce f3) did room role offered"
  have d0: "dial E env fr cl files srv = ?d (srv\<lparr>srv_active_connections := srv_active_connections srv + 1\<rparr>)
      ((new_conn ?pid)\<lparr>cn_phase := AwaitPsk psk\<rparr>) ClAuth [psk] 0"
    using srv(2) by (cases "en_jwt env")
      (simp_all add: dial_def open_conn_def extract_token_def client_hello_def write_text_def cl device_client_fields Let_def)
  have d1: "dialog_step E env f1 (dial E env fr cl files srv) = ?d (greeted ?pid srv) ?c1 ClAuth [] 0"
    unfolding d0 dialog_step_def using psk_accepted [OF srv(1), of env f1 psk files ?pid] by simp
  obtain t1 j where e2: "client_event E (Frame (TextFrame (en_print env (Error 0 ''authenticated'')))) None cl ClAuth = (cl, [t1], ClJoin)"
    and t1: "en_parse env t1 = Some (RoomJoin j)" and j: "j = room_join_of cl None"
    by (rule client_joins [OF wire cl])
  have d2: "dialog_step E env f2 (?d (greeted ?pid srv) ?c1 ClAuth [] 0) = ?d (greeted ?pid srv) ?c1 ClJoin [t1] 1"
    using e2 by (simp add: dialog_step_def new_conn_def)
  have js: "rj_protocol j = Some SIGNALING_PROTOCOL_VERSION" "rj_resume j = None" "rj_device_secret j = None"
      "rj_device_id j = Some did" "rj_device_pubkey j = Some (di_pubkey_b64 (identity_new E did k))" "rj_room_id j = room" "rj_peer_role j = role"
    by (simp_all add: j room_join_of_def cl device_client_fields identity_new_def)
  have d3: "dialog_step E env f3 (?d (greeted ?pid srv) ?c1 ClJoin [t1] 1) = ?d (greeted ?pid srv) ?c3 ClJoin [] 1"
    unfolding dialog_step_def using join_challenged [OF srv(1) f3(1) t1 js(1-5) entry, of files ?pid] by (simp add: js offered)
  obtain t where e4: "client_event E (Frame (TextFrame (en_print env (DeviceAuthChallenge (fr_nonce f3))))) None cl ClJoin = (cl, [t], ClSigned)"
    and t: "en_parse env t = Some (DeviceAuthResponse room (sign_device_auth E (identity_new E did k) raw room))"
    by (rule client_signs [OF wire cl signer f3(2,3)])
  have d4: "dialog_step E env f4 (?d (greeted ?pid srv) ?c3 ClJoin [] 1) = ?d (greeted ?pid srv) ?c3 ClSigned [t] 2"
    using e4 by (simp add: dialog_step_def challenged_def)
  have "talk E env [f1, f2, f3, f4] (dial E env fr cl files srv) = ?d (greeted ?pid srv) ?c3 ClSigned [t] 2"
    by (simp only: talk.simps d1 d2 d3 d4)
  with t show ?thesis using that by blast
qed


section \<open>The answer\<close>

text \<open>A registered device: the answer is verified under the registered key and the connection enters the room.\<close>

lemma answer_admitted:
  fixes srv pid did env fr
  defines "s1 \<equiv> audit_log (AuthSuccess pid (Some did)) (greeted pid srv)"
  assumes ver: "verify_signature (en_crypto env) vk nonce did room sig = Inr ()"
    and entry: "entry_of (srv_devices srv) did = Some (PublicKey vk nm)"
    and t: "en_parse env t = Some (DeviceAuthResponse r sig)"
  shows "join_phase env fr (conn_event.Received (TextFrame t)) files (greeted pid srv) (challenged pid nonce did room role None)
    = (files, admit env fr s1 ((challenged pid nonce did room role None)\<lparr>cn_phase := AwaitJoin\<rparr>) room role (Some did) (Device did))"
proof -
  have "answer_verified env (greeted pid srv) \<lparr>pa_nonce_b64 = nonce, pa_device_id = did, pa_room_id = room, pa_peer_role = role,
      pa_offered_vk = None\<rparr> sig"
    using ver entry by (simp add: answer_verified_def check_key_def greeted_frame)
  then show ?thesis
    by (simp add: join_phase_def challenged_def answer_event_def t handle_answer_def after_loop_def admit_answer_def s1_def Let_def)
qed

lemma device_admitted:
  fixes s c room role did
  assumes "cn_claim c = Some SIGNALING_PROTOCOL_VERSION" and "cn_resume_claim c = None"
    and "dm_get (srv_resume s) (did, room) = None" and "room_owner_of s room \<in> {None, Some did}"
    and "role = Host \<longrightarrow> host_of (srv_rooms s) room = None"
    and r: "admit env fr s c room role (Some did) (Device did) = (s', c')"
  shows "cn_phase c' = InSession \<lparr>se_room = room, se_role = role, se_device = Some did, se_identity = Device did, se_negotiated = 3\<rparr>
    \<and> cn_peer_id c' = cn_peer_id c \<and> dm_get (srv_bindings s') (cn_peer_id c) = Some did \<and> dm_get (srv_owners s') room = Some did
    \<and> (\<exists>more. cn_sent c' = cn_sent c @ PMsg (RoomJoined \<lparr>rd_room_id = room, rd_peer_id = cn_peer_id c, rd_protocol = Some 3,
         rd_server_version = Some (en_version env), rd_session_nonce = (if role = Host then Some (fr_ticket fr) else None)\<rparr>) # more)"
proof -
  have n: "negotiate_protocol (cn_claim c) = 3" using assms(1) by (simp add: negotiate_protocol_def unwrap_or_def protocol_consts)
  have parts: "admit_peer c (Device did) room s = cn_peer_id c" "admit_server (fr_ts fr) c (Device did) room s = s"
      "\<not> resumes c (Device did) room s"
    using assms(2,3) by (simp_all add: admit_peer_def admit_server_def resumes_def take_resume_def takeover_def)
  have gate: "admission_denial s (Device did) role (cn_peer_id c) room = None"
    using assms(4) by (auto simp: admission_denial_None)
  obtain rooms evs where jr: "join_room (srv_rooms s) room (cn_peer_id c) role (fr_since fr) (fr_now fr) = Inr (rooms, evs)"
    using join_room_error [of "srv_rooms s" room "cn_peer_id c" role] assms(5)
    by (cases "join_room (srv_rooms s) room (cn_peer_id c) role (fr_since fr) (fr_now fr)") auto
  define s3 where "s3 = audit_log (PeerJoin (cn_peer_id c) room (debug_role role))
    (bind_device (cn_peer_id c) room (Some did) (fold audit_log evs (s\<lparr>srv_rooms := rooms\<rparr>)))"
  have "enter_room fr False (cn_peer_id c) room role (Some did) s = Inr s3"
    unfolding enter_room_fresh s3_def using jr by blast
  then have st: "(s', c') = start_session env fr s3 c room role (Some did) (Device did) 3"
    using r gate parts by (simp add: admit_eq Let_def n)
  have b: "dm_get (srv_bindings s3) (cn_peer_id c) = Some did" "dm_get (srv_owners s3) room = Some did"
    by (simp_all add: s3_def frame_simps bind_device_def)
  have fields: "cn_phase c' = InSession \<lparr>se_room = room, se_role = role, se_device = Some did, se_identity = Device did, se_negotiated = 3\<rparr>"
      "cn_peer_id c' = cn_peer_id c" "srv_bindings s' = srv_bindings s3" "srv_owners s' = srv_owners s3"
    using start_session_phase [of env fr s3 c room role "Some did" "Device did" 3]
      start_session_frame [of env fr s3 c room role "Some did" "Device did" 3] by (simp_all add: st [symmetric])
  have "\<exists>more. cn_sent c' = cn_sent c @ PMsg (RoomJoined \<lparr>rd_room_id = room, rd_peer_id = cn_peer_id c, rd_protocol = Some 3,
         rd_server_version = Some (en_version env), rd_session_nonce = (if role = Host then Some (fr_ticket fr) else None)\<rparr>) # more"
    using st by (auto simp: start_session_def issue_ticket_def send_direct_def protocol_consts Let_def split: if_splits)
  with fields b show ?thesis by simp
qed

section \<open>Who gets in\<close>

lemma client_concludes:
  assumes "wire_ok E env" and "cl = device_client E url psk room role did k" and "handshake_msg m"
  shows "client_event E (Frame (TextFrame (en_print env m))) None cl ClSigned = run_device_auth E cl (identity_new E did k) m None"
proof -
  have "lk_parse E (en_print env m) = Inr m" using assms(1,3) by (simp add: wire_ok_def)
  then show ?thesis by (simp add: client_event_def signed_read_def read_join_response_def assms(2) device_client_fields)
qed

text \<open>
  C9. A registered device gets in. A client that holds the private key of a device, run against a
  server that has its public key registered, ends in a session: it authenticates with the pre-shared
  key, joins, answers the challenge with a signature the server accepts, and both sides agree on room,
  peer and protocol version; the server holds the connection as this device's, bound to it, with the
  room its own, and a host has its retention ticket. Needed are a free host slot, a room that belongs to
  nobody else and no ticket left by an earlier session.
\<close>

theorem enrolled_device_connects:
  assumes wire: "wire_ok E env" and signer: "signer_ok E (en_crypto env)"
    and srv: "\<not> srv_shutdown srv" "srv_psk srv = Some psk"
    and entry: "entry_of (srv_devices srv) did = Some (PublicKey (di_pubkey_b64 (identity_new E did k)) nm)"
    and room: "dm_get (srv_resume srv) (did, room) = None" "room_owner_of srv room \<in> {None, Some did}"
      "role = Host \<longrightarrow> host_of (srv_rooms srv) room = None"
    and f3: "fr_send_ok f3" "b64_decode (en_crypto env) (fr_nonce f3) = Some raw" "length raw = 32"
    and d: "d = talk E env [f1, f2, f3, f4, f5, f6] (dial E env fr (device_client E url psk room role did k) files srv)"
  shows "dg_phase d = ClSession \<lparr>ls_room_id = room, ls_peer_id = fr_uuid fr, ls_negotiated = 3,
      ls_session_nonce = (if role = Host then Some (fr_ticket f5) else None)\<rparr>
    \<and> cn_phase (dg_conn d) = InSession \<lparr>se_room = room, se_role = role, se_device = Some did, se_identity = Device did, se_negotiated = 3\<rparr>
    \<and> cn_peer_id (dg_conn d) = fr_uuid fr \<and> dm_get (srv_bindings (dg_srv d)) (fr_uuid fr) = Some did
    \<and> dm_get (srv_owners (dg_srv d)) room = Some did"
proof -
  let ?pid = "fr_uuid fr" and ?cl = "device_client E url psk room role did k" and ?i = "identity_new E did k"
  let ?s1 = "audit_log (AuthSuccess ?pid (Some did)) (greeted ?pid srv)"
  let ?c = "(challenged ?pid (fr_nonce f3) did room role None)\<lparr>cn_phase := AwaitJoin\<rparr>"
  have "entry_of (srv_devices srv) did \<in> {None} \<union> range (\<lambda>nm. Some (PublicKey (di_pubkey_b64 ?i) nm))" using entry by simp
  moreover have "None = (if entry_of (srv_devices srv) did = None then Some (di_pubkey_b64 ?i) else None)" using entry by simp
  ultimately obtain t
    where t: "en_parse env t = Some (DeviceAuthResponse room (sign_device_auth E ?i raw room))"
    and d4: "talk E env [f1, f2, f3, f4] (dial E env fr ?cl files srv) =
      \<lparr>dg_files = files, dg_srv = greeted ?pid srv, dg_conn = challenged ?pid (fr_nonce f3) did room role None,
       dg_client = ?cl, dg_phase = ClSigned, dg_up = [t], dg_read = 2\<rparr>"
    using talk_challenged [OF wire refl signer srv _ _ f3] by blast
  obtain s' c' where adm: "admit env f5 ?s1 ?c room role (Some did) (Device did) = (s', c')" by fastforce
  have "cn_claim ?c = Some SIGNALING_PROTOCOL_VERSION" "cn_resume_claim ?c = None" by (simp_all add: challenged_def)
  moreover have "dm_get (srv_resume ?s1) (did, room) = None" "room_owner_of ?s1 room \<in> {None, Some did}"
      "role = Host \<longrightarrow> host_of (srv_rooms ?s1) room = None"
    using room by (simp_all add: frame_simps greeted_frame room_owner_of_def)
  ultimately have res: "cn_phase c' = InSession \<lparr>se_room = room, se_role = role, se_device = Some did, se_identity = Device did, se_negotiated = 3\<rparr>
    \<and> cn_peer_id c' = ?pid \<and> dm_get (srv_bindings s') ?pid = Some did \<and> dm_get (srv_owners s') room = Some did
    \<and> (\<exists>more. cn_sent c' = cn_sent ?c @ PMsg (RoomJoined \<lparr>rd_room_id = room, rd_peer_id = ?pid, rd_protocol = Some 3,
         rd_server_version = Some (en_version env), rd_session_nonce = (if role = Host then Some (fr_ticket f5) else None)\<rparr>) # more)"
    using device_admitted [OF _ _ _ _ _ adm] by (simp add: challenged_def)
  have d56: "d = dialog_step E env f6 (dialog_step E env f5 (talk E env [f1, f2, f3, f4] (dial E env fr ?cl files srv)))"
    unfolding d by simp
  have d5: "dialog_step E env f5 (talk E env [f1, f2, f3, f4] (dial E env fr ?cl files srv)) =
      \<lparr>dg_files = files, dg_srv = s', dg_conn = c', dg_client = ?cl, dg_phase = ClSigned, dg_up = [], dg_read = 2\<rparr>"
    unfolding d4 unfolding dialog_step_def
    using answer_admitted [OF signature_accepted [OF signer f3(2,3)] entry t] by (simp add: adm)
  obtain j more where sent: "cn_sent c' = [PMsg (Error 0 ''authenticated''), PMsg (DeviceAuthChallenge (fr_nonce f3)), PMsg (RoomJoined j)] @ more"
    and j: "j = \<lparr>rd_room_id = room, rd_peer_id = ?pid, rd_protocol = Some 3,
         rd_server_version = Some (en_version env), rd_session_nonce = (if role = Host then Some (fr_ticket f5) else None)\<rparr>"
    using res by (auto simp: challenged_def)
  have "client_event E (Frame (TextFrame (en_print env (RoomJoined j)))) None ?cl ClSigned =
      (?cl, [], ClSession \<lparr>ls_room_id = room, ls_peer_id = ?pid, ls_negotiated = 3, ls_session_nonce = (if role = Host then Some (fr_ticket f5) else None)\<rparr>)"
    by (subst client_concludes [OF wire refl])
       (simp_all add: run_device_auth_def conclude_def j negotiate_protocol_def unwrap_or_def protocol_consts)
  then have "d = \<lparr>dg_files = files, dg_srv = s', dg_conn = c', dg_client = ?cl,
      dg_phase = ClSession \<lparr>ls_room_id = room, ls_peer_id = ?pid, ls_negotiated = 3, ls_session_nonce = (if role = Host then Some (fr_ticket f5) else None)\<rparr>,
      dg_up = [], dg_read = 3\<rparr>"
    unfolding d56 d5 unfolding dialog_step_def by (simp add: sent)
  then show ?thesis using res by simp
qed

text \<open>
  A device that is not enrolled yet is told so. Where enrolment needs an approval, a client that holds
  the private key of an unknown device ends with the typed error that its enrolment is pending, the
  connection is closed, and the key it proved to hold is on the list of those to approve; registry
  and rooms are unchanged.
\<close>

theorem unknown_device_pending:
  assumes wire: "wire_ok E env" and signer: "signer_ok E (en_crypto env)"
    and srv: "\<not> srv_shutdown srv" "srv_psk srv = Some psk" "\<not> srv_allow_dev_enroll srv"
    and entry: "entry_of (srv_devices srv) did = None"
    and f3: "fr_send_ok f3" "b64_decode (en_crypto env) (fr_nonce f3) = Some raw" "length raw = 32"
    and d: "d = talk E env [f1, f2, f3, f4, f5, f6] (dial E env fr (device_client E url psk room role did k) files srv)"
  shows "dg_phase d = ClFailed (EnrollPending did) \<and> cn_phase (dg_conn d) = Closed
    \<and> dm_get (srv_pending_devices (dg_srv d)) did
        = Some \<lparr>pe_vk = di_pubkey_b64 (identity_new E did k), pe_first_seen_ms = fr_now_ms f5, pe_verified = True\<rparr>
    \<and> srv_devices (dg_srv d) = srv_devices srv \<and> srv_rooms (dg_srv d) = srv_rooms srv"
proof -
  let ?pid = "fr_uuid fr" and ?cl = "device_client E url psk room role did k" and ?i = "identity_new E did k"
  let ?c = "challenged ?pid (fr_nonce f3) did room role (Some (di_pubkey_b64 ?i))"
  have "entry_of (srv_devices srv) did \<in> {None} \<union> range (\<lambda>nm. Some (PublicKey [] nm))" using entry by simp
  moreover have "Some (di_pubkey_b64 ?i) = (if entry_of (srv_devices srv) did = None then Some (di_pubkey_b64 ?i) else None)" using entry by simp
  ultimately obtain t
    where t: "en_parse env t = Some (DeviceAuthResponse room (sign_device_auth E ?i raw room))"
    and d4: "talk E env [f1, f2, f3, f4] (dial E env fr ?cl files srv) =
      \<lparr>dg_files = files, dg_srv = greeted ?pid srv, dg_conn = ?c,
       dg_client = ?cl, dg_phase = ClSigned, dg_up = [t], dg_read = 2\<rparr>"
    using talk_challenged [OF wire refl signer srv(1,2) _ _ f3] by blast
  obtain s' c' where step: "join_phase env f5 (conn_event.Received (TextFrame t)) files (greeted ?pid srv) ?c = (files, s', c')"
    and s': "dm_get (srv_pending_devices s') did = Some \<lparr>pe_vk = di_pubkey_b64 ?i, pe_first_seen_ms = fr_now_ms f5, pe_verified = True\<rparr>"
      "srv_devices s' = srv_devices srv" "srv_rooms s' = srv_rooms srv"
    and c': "cn_phase c' = Closed" "cn_sent c' = cn_sent ?c @ [PMsg (DeviceAuthPending did)]"
    using signature_accepted [OF signer f3(2,3), of did k room] entry srv(3)
    by (simp add: join_phase_def challenged_def answer_event_def t handle_answer_def answer_verified_def check_key_def greeted_frame
        frame_simps enroll_policy_def after_loop_def stay_def finish_def send_direct_def pending_insert_def Let_def)
  have d56: "d = dialog_step E env f6 (dialog_step E env f5 (talk E env [f1, f2, f3, f4] (dial E env fr ?cl files srv)))"
    unfolding d by simp
  have d5: "dialog_step E env f5 (talk E env [f1, f2, f3, f4] (dial E env fr ?cl files srv)) =
      \<lparr>dg_files = files, dg_srv = s', dg_conn = c', dg_client = ?cl, dg_phase = ClSigned, dg_up = [], dg_read = 2\<rparr>"
    unfolding d4 unfolding dialog_step_def using step by simp
  have "client_event E (Frame (TextFrame (en_print env (DeviceAuthPending did)))) None ?cl ClSigned = (?cl, [], ClFailed (EnrollPending did))"
    by (subst client_concludes [OF wire refl]) (simp_all add: run_device_auth_def)
  then have "d = \<lparr>dg_files = files, dg_srv = s', dg_conn = c', dg_client = ?cl, dg_phase = ClFailed (EnrollPending did), dg_up = [], dg_read = 3\<rparr>"
    unfolding d56 d5 unfolding dialog_step_def by (simp add: c'(2) challenged_def)
  then show ?thesis using s' c' by simp
qed

section \<open>A concrete run\<close>

text \<open>
  Handshake messages written as a number of letters, the position of their fields in an enumeration;
  the demonstration keys and signatures of \<open>demo_crypto\<close>.
\<close>

type_synonym hs_fields =
  "((string \<times> nat \<times> string option \<times> string option \<times> string option \<times> string option \<times> u32 option \<times> string option \<times> string option)
     + (string \<times> string \<times> u32 option \<times> string option \<times> string option))
   + ((u16 \<times> string) + string + (string \<times> string) + string)"

fun role_code :: "peer_role \<Rightarrow> nat" where
  "role_code Host = 0"
| "role_code Remote = 1"
| "role_code Consumer = 2"

definition role_of_code :: "nat \<Rightarrow> peer_role" where
  "role_of_code n = (if n = 0 then Host else if n = 1 then Remote else Consumer)"

lemma role_of_code [simp]: "role_of_code (role_code r) = r"
  by (cases r) (simp_all add: role_of_code_def)

fun hs_fields_of :: "signaling_message \<Rightarrow> hs_fields" where
  "hs_fields_of (RoomJoin j) = Inl (Inl (rj_room_id j, role_code (rj_peer_role j), rj_stream_id j, rj_device_id j, rj_device_secret j,
     rj_device_pubkey j, rj_protocol j, rj_client_version j, rj_resume j))"
| "hs_fields_of (RoomJoined j) = Inl (Inr (rd_room_id j, rd_peer_id j, rd_protocol j, rd_server_version j, rd_session_nonce j))"
| "hs_fields_of (Error code t) = Inr (Inl (code, t))"
| "hs_fields_of (DeviceAuthChallenge n) = Inr (Inr (Inl n))"
| "hs_fields_of (DeviceAuthResponse r s) = Inr (Inr (Inr (Inl (r, s))))"
| "hs_fields_of (DeviceAuthPending i) = Inr (Inr (Inr (Inr i)))"
| "hs_fields_of _ = Inr (Inl (0, []))"

fun hs_of_fields :: "hs_fields \<Rightarrow> signaling_message" where
  "hs_of_fields (Inl (Inl (a, b, c, d, e, f, g, h, i))) = RoomJoin \<lparr>rj_room_id = a, rj_peer_role = role_of_code b, rj_stream_id = c,
     rj_device_id = d, rj_device_secret = e, rj_device_pubkey = f, rj_protocol = g, rj_client_version = h, rj_resume = i\<rparr>"
| "hs_of_fields (Inl (Inr (a, b, c, d, e))) = RoomJoined \<lparr>rd_room_id = a, rd_peer_id = b, rd_protocol = c, rd_server_version = d, rd_session_nonce = e\<rparr>"
| "hs_of_fields (Inr (Inl (code, t))) = Error code t"
| "hs_of_fields (Inr (Inr (Inl n))) = DeviceAuthChallenge n"
| "hs_of_fields (Inr (Inr (Inr (Inl (r, s))))) = DeviceAuthResponse r s"
| "hs_of_fields (Inr (Inr (Inr (Inr i)))) = DeviceAuthPending i"

lemma hs_of_fields_of: "handshake_msg m \<Longrightarrow> hs_of_fields (hs_fields_of m) = m"
  by (cases m) simp_all

definition hs_text :: "signaling_message \<Rightarrow> string" where
  "hs_text m = replicate (to_nat (hs_fields_of m)) (CHR ''x'')"

definition hs_parse :: "string \<Rightarrow> signaling_message" where
  "hs_parse t = hs_of_fields (from_nat (length t))"

lemma hs_parse_text: "handshake_msg m \<Longrightarrow> hs_parse (hs_text m) = m"
  by (simp add: hs_parse_def hs_text_def hs_of_fields_of)

definition wire_link :: link_env where
  "wire_link = demo_link\<lparr>lk_parse := (\<lambda>t. Inr (hs_parse t)), lk_print := (\<lambda>m. Inr (hs_text m))\<rparr>"

definition wire_env :: conn_env where
  "wire_env = demo_env\<lparr>en_parse := (\<lambda>t. Some (hs_parse t)), en_print := hs_text\<rparr>"

lemma demo_wire: "wire_ok wire_link wire_env"
  by (simp add: wire_ok_def wire_link_def wire_env_def hs_parse_text)

lemma demo_signer: "signer_ok wire_link (en_crypto wire_env)"
proof -
  have "byte_of (char_of (unat b)) = b" for b :: u8
  proof -
    have "unat b < 2 ^ LENGTH(8)" by (rule unsigned_less)
    then show ?thesis by (simp add: byte_of_def)
  qed
  then have "bytes_of (map (\<lambda>b. char_of (unat b)) bs) = bs" for bs :: "u8 list"
    by (simp add: bytes_of_def map_idI)
  then show ?thesis
    by (simp add: signer_ok_def wire_link_def wire_env_def demo_link_def demo_env_def demo_crypto_def) (simp add: min_def)
qed

definition car_server :: server where
  "car_server = (server_new (registry_new demo_crypto ''u''
     [(''car'', PublicKey (di_pubkey_b64 (identity_new wire_link ''car'' [7])) None)]))\<lparr>srv_psk := Some ''key''\<rparr>"

definition car_talk :: "string \<Rightarrow> dialog" where
  "car_talk did = talk wire_link wire_env (replicate 6 demo_fresh)
     (dial wire_link wire_env demo_fresh (device_client wire_link ''ws://h/ws'' ''key'' ''car'' Host did [7]) [] car_server)"

lemma car_nonce: "b64_decode (en_crypto wire_env) (fr_nonce demo_fresh) = Some (replicate 32 (byte_of (CHR ''n'')))"
  by (simp add: wire_env_def demo_env_def demo_crypto_def demo_fresh_def bytes_of_def)

lemma car_talk_unfold: "car_talk did = talk wire_link wire_env [demo_fresh, demo_fresh, demo_fresh, demo_fresh, demo_fresh, demo_fresh]
     (dial wire_link wire_env demo_fresh (device_client wire_link ''ws://h/ws'' ''key'' ''car'' Host did [7]) [] car_server)"
  by (simp only: car_talk_def replicate_Suc numeral_nat replicate_0 One_nat_def)

lemma car_server_fields:
  "\<not> srv_shutdown car_server" "srv_psk car_server = Some ''key''" "\<not> srv_allow_dev_enroll car_server"
  "entry_of (srv_devices car_server) ''car'' = Some (PublicKey (di_pubkey_b64 (identity_new wire_link ''car'' [7])) None)"
  "entry_of (srv_devices car_server) ''van'' = None"
  "dm_get (srv_resume car_server) key = None" "room_owner_of car_server room = None" "host_of (srv_rooms car_server) room = None"
  by (simp_all add: car_server_def server_new_def registry_new_def entry_of_def room_owner_of_def host_of_def room_manager_new_def)

lemma car_fresh: "fr_send_ok demo_fresh"
  by (simp add: demo_fresh_def)

theorem enrolled_device_connects_witness:
  "dg_phase (car_talk ''car'') = ClSession \<lparr>ls_room_id = ''car'', ls_peer_id = ''uuid-1'', ls_negotiated = 3, ls_session_nonce = Some ''ticket''\<rparr>
   \<and> cn_phase (dg_conn (car_talk ''car'')) = InSession \<lparr>se_room = ''car'', se_role = Host, se_device = Some ''car'', se_identity = Device ''car'', se_negotiated = 3\<rparr>"
  using enrolled_device_connects [OF demo_wire demo_signer car_server_fields(1,2,4) _ _ _ car_fresh car_nonce _ car_talk_unfold]
  by (simp add: car_server_fields demo_fresh_def)

theorem unknown_device_pending_witness:
  "dg_phase (car_talk ''van'') = ClFailed (EnrollPending ''van'') \<and> cn_phase (dg_conn (car_talk ''van'')) = Closed"
  using unknown_device_pending [OF demo_wire demo_signer car_server_fields(1-3,5) car_fresh car_nonce _ car_talk_unfold] by simp

text \<open>
  A client that was given an identity and a secret sends both, and the server takes only one: the
  identity does not win, the join fails.
\<close>

lemma both_credentials_refused:
  assumes "cl = with_device_credentials cr (device_client E url psk room role did k)"
    and "en_parse env t = Some (RoomJoin (room_join_of cl None))"
  shows "cn_phase (snd (snd (join_phase env fr (conn_event.Received (TextFrame t)) files srv
      ((new_conn pid)\<lparr>cn_phase := AwaitJoin\<rparr>)))) = Closed"
  using assms(2)
  by (simp add: join_phase_def join_event_def handle_room_join_def join_pubkey_def after_loop_def stay_def fail_with_def finish_def
      send_direct_def room_join_of_def assms(1) with_device_credentials_def device_client_fields protocol_consts unwrap_or_def Let_def)

end
